(* ===== verification/Prelude.thy ===== *)
theory Prelude
  imports Main "HOL-Library.Word" "HOL-Library.AList"
begin

unbundle bit_operations_syntax

section \<open>Prelude: the types and the generic lemmas the components share\<close>

text \<open>
  The machine types of the program (\<open>UChar\<close> is \<open>uint16_t\<close>, \<open>int\<close> is 32 bits wide on every
  platform the project builds for), a state monad with faults for the code that mutates objects
  and may throw, and generic lemmas on lists, options and words.  The collections declared here
  are filled by the component theories.
\<close>

named_theorems str_defs \<open>definitions of the string operations\<close>
named_theorems wf_intros \<open>preservation of the well-formedness invariants\<close>
named_theorems progress \<open>a scanner returns a suffix no longer than its input\<close>
named_theorems codec_simps \<open>conversions between protocol types and JSON values\<close>
named_theorems step_defs \<open>definitions of the handlers' operations\<close>

type_synonym uchar = "16 word"
type_synonym string16 = "uchar list"
type_synonym cint = "32 word"

abbreviation uc :: "char \<Rightarrow> uchar" where
  "uc c \<equiv> of_char c"

subsection \<open>Computations that update a state and may stop with a fault\<close>

text \<open>
  A fault keeps the state it was raised in: a C++ exception does not undo the assignments made
  before it.
\<close>

type_synonym ('s, 'e, 'a) M = "'s \<Rightarrow> ('e + 'a) \<times> 's"

definition retM :: "'a \<Rightarrow> ('s, 'e, 'a) M" where
  "retM x = (\<lambda>s. (Inr x, s))"

definition throwM :: "'e \<Rightarrow> ('s, 'e, 'a) M" where
  "throwM e = (\<lambda>s. (Inl e, s))"

definition bindM :: "('s, 'e, 'a) M \<Rightarrow> ('a \<Rightarrow> ('s, 'e, 'b) M) \<Rightarrow> ('s, 'e, 'b) M" where
  "bindM m f = (\<lambda>s. case m s of (Inl e, t) \<Rightarrow> (Inl e, t) | (Inr x, t) \<Rightarrow> f x t)"

definition seqM :: "('s, 'e, 'a) M \<Rightarrow> ('s, 'e, 'b) M \<Rightarrow> ('s, 'e, 'b) M" where
  "seqM m n = bindM m (\<lambda>_. n)"

definition getM :: "('s \<Rightarrow> 'a) \<Rightarrow> ('s, 'e, 'a) M" where
  "getM f = (\<lambda>s. (Inr (f s), s))"

definition modifyM :: "('s \<Rightarrow> 's) \<Rightarrow> ('s, 'e, unit) M" where
  "modifyM f = (\<lambda>s. (Inr (), f s))"

fun forM :: "'b list \<Rightarrow> ('b \<Rightarrow> ('s, 'e, unit) M) \<Rightarrow> ('s, 'e, unit) M" where
  "forM [] f = retM ()"
| "forM (x # xs) f = seqM (f x) (forM xs f)"

lemma bindM_simps [simp]:
  "bindM (retM x) f = f x"
  "bindM (throwM e) f = throwM e"
  "bindM m retM = m"
  by (auto simp: bindM_def retM_def throwM_def fun_eq_iff split: prod.splits sum.splits)

lemma bindM_assoc: "bindM (bindM m f) g = bindM m (\<lambda>x. bindM (f x) g)"
  by (auto simp: bindM_def fun_eq_iff split: prod.splits sum.splits)

lemma seqM_assoc: "seqM (seqM m n) k = seqM m (seqM n k)"
  by (simp add: seqM_def bindM_assoc)

lemmas M_defs = retM_def throwM_def bindM_def seqM_def getM_def modifyM_def

text \<open>
  What every operation keeps: if the parts of a computation preserve a property of the state,
  whether they fault or not, so does the computation.
\<close>

definition keeps :: "('s \<Rightarrow> bool) \<Rightarrow> ('s, 'e, 'a) M \<Rightarrow> bool" where
  "keeps P m \<longleftrightarrow> (\<forall>s. P s \<longrightarrow> P (snd (m s)))"

lemma keepsD: "keeps P m \<Longrightarrow> P s \<Longrightarrow> P (snd (m s))"
  by (simp add: keeps_def)

lemma keeps_ret [intro]: "keeps P (retM x)"
  by (simp add: keeps_def retM_def)

lemma keeps_throw [intro]: "keeps P (throwM e)"
  by (simp add: keeps_def throwM_def)

lemma keeps_get [intro]: "keeps P (getM f)"
  by (simp add: keeps_def getM_def)

lemma keeps_modify [intro]: "(\<And>s. P s \<Longrightarrow> P (f s)) \<Longrightarrow> keeps P (modifyM f)"
  by (simp add: keeps_def modifyM_def)

lemma keeps_bind [intro]: "keeps P m \<Longrightarrow> (\<And>x. keeps P (f x)) \<Longrightarrow> keeps P (bindM m f)"
  unfolding keeps_def bindM_def by (metis (mono_tags, lifting) case_prod_conv old.sum.simps(5,6)
      snd_conv sum.exhaust surj_pair)

lemma keeps_seq [intro]: "keeps P m \<Longrightarrow> keeps P n \<Longrightarrow> keeps P (seqM m n)"
  by (auto simp: seqM_def)

lemma keeps_forM [intro]: "(\<And>x. x \<in> set xs \<Longrightarrow> keeps P (f x)) \<Longrightarrow> keeps P (forM xs f)"
  by (induction xs) auto

subsection \<open>Lists\<close>

definition is_suffix :: "'a list \<Rightarrow> 'a list \<Rightarrow> bool" where
  "is_suffix r s \<longleftrightarrow> (\<exists>p. s = p @ r)"

lemma is_suffix_refl [simp, intro]: "is_suffix s s"
  by (simp add: is_suffix_def)

lemma is_suffix_Nil [simp]: "is_suffix [] s"
  by (simp add: is_suffix_def)

lemma is_suffix_trans: "is_suffix r s \<Longrightarrow> is_suffix s t \<Longrightarrow> is_suffix r t"
  by (metis append.assoc is_suffix_def)

lemma is_suffix_Cons: "is_suffix r s \<Longrightarrow> is_suffix r (x # s)"
  by (metis append_Cons is_suffix_def)

lemma is_suffix_tail: "is_suffix (x # r) s \<Longrightarrow> is_suffix r s"
  by (metis append.assoc append_Cons append_Nil is_suffix_def)

lemma is_suffix_length: "is_suffix r s \<Longrightarrow> length r \<le> length s"
  by (auto simp: is_suffix_def)

text \<open>The text between two pointers into one buffer: \<open>s\<close> from the first, \<open>r\<close> from the second.\<close>

definition text_between :: "'a list \<Rightarrow> 'a list \<Rightarrow> 'a list" where
  "text_between s r = take (length s - length r) s"

lemma text_between_append [simp]: "text_between (p @ r) r = p"
  by (simp add: text_between_def)

lemma text_between_Cons_append [simp]: "text_between (x # p @ r) r = x # p"
  using text_between_append [of "x # p" r] by simp

lemma takeWhile_append_stop:
  "\<forall>x \<in> set xs. P x \<Longrightarrow> ys = [] \<or> \<not> P (hd ys) \<Longrightarrow> takeWhile P (xs @ ys) = xs"
  by (induction xs) (cases ys; auto)+

lemma dropWhile_append_stop:
  "\<forall>x \<in> set xs. P x \<Longrightarrow> ys = [] \<or> \<not> P (hd ys) \<Longrightarrow> dropWhile P (xs @ ys) = ys"
  by (induction xs) (cases ys; auto)+

lemma split_at_last_sep:
  assumes "xs @ c # us = ys @ c # vs" and "c \<notin> set us" and "c \<notin> set vs"
  shows "xs = ys \<and> us = vs"
proof -
  have "rev us @ c # rev xs = rev vs @ c # rev ys"
    using assms(1) by (metis append.assoc append_Cons append_Nil rev.simps(2) rev_append)
  moreover have "takeWhile (\<lambda>x. x \<noteq> c) (rev us @ c # rev xs) = rev us"
    using assms(2) by (intro takeWhile_append_stop) auto
  moreover have "takeWhile (\<lambda>x. x \<noteq> c) (rev vs @ c # rev ys) = rev vs"
    using assms(3) by (intro takeWhile_append_stop) auto
  ultimately have "us = vs" by (metis rev_is_rev_conv)
  with assms(1) show ?thesis by simp
qed

text \<open>Joining with a separator, as the writers' \<open>if (i) append(sep)\<close> loops do.\<close>

fun join :: "'a list \<Rightarrow> 'a list list \<Rightarrow> 'a list" where
  "join sep [] = []"
| "join sep [x] = x"
| "join sep (x # y # xs) = x @ sep @ join sep (y # xs)"

lemma join_Cons: "join sep (x # xs) = x @ concat (map (\<lambda>y. sep @ y) xs)"
  by (induction xs arbitrary: x) auto

lemma mem_join: "x \<in> set (join sep xs) \<Longrightarrow> x \<in> set sep \<or> (\<exists>y \<in> set xs. x \<in> set y)"
  by (induction sep xs rule: join.induct) auto

end
