(* ===== verification/Decimal.thy ===== *)
theory Decimal
  imports Prelude
begin

section \<open>Decimal text: what the program uses of \<open>std::ostream\<close> and \<open>std::istream\<close>\<close>

text \<open>
  \<open>o << number\<close> writes an integer in decimal and \<open>i >> x\<close> reads one, skipping white space before
  it; both are the C++ standard library's.  The string class builds on them.
\<close>

definition digit_char :: "nat \<Rightarrow> char" where
  "digit_char d = char_of (48 + d)"

definition is_digit :: "char \<Rightarrow> bool" where
  "is_digit c \<longleftrightarrow> 48 \<le> (of_char c :: nat) \<and> (of_char c :: nat) \<le> 57"

definition digit_val :: "char \<Rightarrow> nat" where
  "digit_val c = of_char c - 48"

fun dec_nat :: "nat \<Rightarrow> string" where
  "dec_nat n = (if n < 10 then [digit_char n] else dec_nat (n div 10) @ [digit_char (n mod 10)])"

declare dec_nat.simps [simp del]

definition dec_int :: "int \<Rightarrow> string" where
  "dec_int i = (if i < 0 then CHR ''-'' # dec_nat (nat (- i)) else dec_nat (nat i))"

definition digits_value :: "string \<Rightarrow> nat" where
  "digits_value s = foldl (\<lambda>a c. 10 * a + digit_val c) 0 s"

text \<open>\<open>std::isspace\<close> in the classic locale.\<close>

definition is_space :: "char \<Rightarrow> bool" where
  "is_space c \<longleftrightarrow> (of_char c :: nat) = 32 \<or> (9 \<le> (of_char c :: nat) \<and> (of_char c :: nat) \<le> 13)"

text \<open>
  \<open>i >> x\<close> for an \<open>int x\<close>: \<open>None\<close> is a stream whose \<open>failbit\<close> is set, because no digit was found
  or because the number does not fit; \<open>Some (x, rest)\<close> gives the characters left, and the stream is
  at its end exactly when \<open>rest\<close> is empty.
\<close>

definition read_int :: "string \<Rightarrow> (cint \<times> string) option" where
  "read_int s =
     (let t = dropWhile is_space s;
          neg = (t \<noteq> [] \<and> hd t = CHR ''-'');
          u = (if t \<noteq> [] \<and> (hd t = CHR ''-'' \<or> hd t = CHR ''+'') then tl t else t);
          ds = takeWhile is_digit u;
          v = (if neg then - int (digits_value ds) else int (digits_value ds))
      in if ds = [] \<or> v < - (2 ^ 31) \<or> 2 ^ 31 \<le> v then None
         else Some (word_of_int v, dropWhile is_digit u))"

subsection \<open>Reading back what was written\<close>

lemma of_char_digit_char [simp]: "d < 10 \<Longrightarrow> (of_char (digit_char d) :: nat) = 48 + d"
  by (simp add: digit_char_def)

lemma digit_char_facts [simp]:
  assumes "d < 10"
  shows "is_digit (digit_char d)" and "digit_val (digit_char d) = d"
  using assms by (simp_all add: is_digit_def digit_val_def)

lemma is_digit_distinct [simp]:
  "\<not> is_digit (CHR ''-'')" "\<not> is_digit (CHR ''+'')" "\<not> is_digit (CHR '' '')"
  "\<not> is_digit (CHR '':'')" "\<not> is_digit (CHR ''.'')" "\<not> is_digit (CHR ''e'')"
  by (simp_all add: is_digit_def)

lemma digits_value_snoc [simp]: "digits_value (s @ [c]) = 10 * digits_value s + digit_val c"
  by (simp add: digits_value_def)

lemma dec_nat_digits: "\<forall>c \<in> set (dec_nat n). is_digit c"
proof (induction n rule: dec_nat.induct)
  case (1 n)
  show ?case
  proof (cases "n < 10")
    case True
    then show ?thesis by (simp add: dec_nat.simps [of n])
  next
    case False
    with 1 show ?thesis by (auto simp: dec_nat.simps [of n])
  qed
qed

lemma dec_nat_nonempty [simp]: "dec_nat n \<noteq> []"
  by (simp add: dec_nat.simps [of n])

lemma digits_value_dec_nat [simp]: "digits_value (dec_nat n) = n"
proof (induction n rule: dec_nat.induct)
  case (1 n)
  show ?case
  proof (cases "n < 10")
    case True
    then show ?thesis by (simp add: dec_nat.simps [of n] digits_value_def)
  next
    case False
    with 1 show ?thesis by (simp add: dec_nat.simps [of n])
  qed
qed

lemma dec_nat_no_leading_zero: "hd (dec_nat n) = CHR ''0'' \<Longrightarrow> dec_nat n = [CHR ''0'']"
proof (induction n rule: dec_nat.induct)
  case (1 n)
  show ?case
  proof (cases "n < 10")
    case True
    with 1 show ?thesis by (simp add: dec_nat.simps [of n])
  next
    case False
    then have "hd (dec_nat n) = hd (dec_nat (n div 10))"
      by (simp add: dec_nat.simps [of n])
    with 1 False have "dec_nat (n div 10) = [CHR ''0'']" by simp
    then have "n div 10 = 0"
      using digits_value_dec_nat [of "n div 10"] by (simp add: digits_value_def digit_val_def)
    with False show ?thesis by simp
  qed
qed

lemma hd_dec_nat_digit: "is_digit (hd (dec_nat n))"
  using dec_nat_digits [of n] by simp

lemma dec_int_chars: "c \<in> set (dec_int i) \<Longrightarrow> is_digit c \<or> c = CHR ''-''"
  using dec_nat_digits by (auto simp: dec_int_def split: if_splits)

lemma dec_int_inj: "dec_int i = dec_int j \<longleftrightarrow> i = j"
proof
  assume eq: "dec_int i = dec_int j"
  have hd: "hd (dec_nat n) \<noteq> CHR ''-''" for n
    using hd_dec_nat_digit [of n] by auto
  have neg: "dec_nat n \<noteq> CHR ''-'' # s" for n s
    using hd [of n] by auto
  have inj: "m = n" if "dec_nat m = dec_nat n" for m n
    using that digits_value_dec_nat by metis
  from eq show "i = j"
    by (auto simp: dec_int_def neg neg [symmetric] dest!: inj split: if_splits)
qed simp

lemma is_digit_not_space: "is_digit c \<Longrightarrow> \<not> is_space c"
  by (auto simp: is_digit_def is_space_def)

lemma read_int_dec_int:
  assumes "- (2 ^ 31) \<le> i" and "i < 2 ^ 31"
  shows "read_int (dec_int i) = Some (word_of_int i, [])"
proof -
  have tw: "takeWhile is_digit (dec_nat n) = dec_nat n" for n
    using dec_nat_digits by (simp add: takeWhile_eq_all_conv)
  have dw: "dropWhile is_digit (dec_nat n) = []" for n
    using dec_nat_digits by (simp add: dropWhile_eq_Nil_conv)
  show ?thesis
  proof (cases "i < 0")
    case True
    have "dropWhile is_space (dec_int i) = dec_int i"
      using True by (simp add: dec_int_def is_space_def)
    with True assms show ?thesis
      by (simp add: read_int_def dec_int_def tw dw Let_def)
  next
    case False
    obtain c s where cs: "dec_nat (nat i) = c # s" by (cases "dec_nat (nat i)") auto
    then have c: "is_digit c" using hd_dec_nat_digit [of "nat i"] by simp
    then have "dropWhile is_space (dec_int i) = dec_int i" "c \<noteq> CHR ''-''" "c \<noteq> CHR ''+''"
      using False cs is_digit_not_space by (auto simp: dec_int_def)
    moreover have "digits_value (c # s) = nat i"
      using digits_value_dec_nat [of "nat i"] cs by simp
    ultimately show ?thesis
      using False assms cs tw [of "nat i"] dw [of "nat i"] by (simp add: read_int_def dec_int_def Let_def)
  qed
qed

end
