(* ===== verification/ErrorHelpers.thy ===== *)
theory ErrorHelpers
  imports Decimal
begin

section \<open>Engine error codes, exceptions and their translation\<close>

text \<open>
  \<open>lib/Debugger.ProtocolHandler/ErrorHelpers.\<close>\<open>h/.cpp\<close> and \<open>TranslateExceptionToJsErrorCode.h\<close>: the
  exception type every engine call is wrapped with, the message it carries, and the translation of
  an escaping exception into the error code the C interface returns.

  The enumerators are the ones the program names; \<open>JsErrorOther\<close> stands for every other value.
  Their numbers and the category masks are those of \<open>ChakraCommon.h\<close>, which is not in the
  repository: they are the parameter \<open>error_codes\<close>.
\<close>

datatype (plugins only: code size) JsErrorCode =
    JsNoError | JsErrorInvalidArgument | JsErrorNullArgument | JsErrorNoCurrentContext
    | JsErrorInExceptionState | JsErrorNotImplemented | JsErrorWrongThread | JsErrorRuntimeInUse
    | JsErrorBadSerializedScript | JsErrorInDisabledState | JsErrorCannotDisableExecution
    | JsErrorHeapEnumInProgress | JsErrorArgumentNotObject | JsErrorInProfileCallback
    | JsErrorInThreadServiceCallback | JsErrorCannotSerializeDebugScript
    | JsErrorAlreadyDebuggingContext | JsErrorAlreadyProfilingContext | JsErrorIdleNotEnabled
    | JsCannotSetProjectionEnqueueCallback | JsErrorCannotStartProjection
    | JsErrorInObjectBeforeCollectCallback | JsErrorObjectNotInspectable
    | JsErrorPropertyNotSymbol | JsErrorPropertyNotString | JsErrorInvalidContext
    | JsInvalidModuleHostInfoKind | JsErrorModuleParsed | JsNoWeakRefRequired
    | JsErrorOutOfMemory | JsErrorBadFPUState | JsErrorScriptException | JsErrorScriptCompile
    | JsErrorScriptTerminated | JsErrorScriptEvalDisabled | JsErrorFatal | JsErrorWrongRuntime
    | JsErrorDiagAlreadyInDebugMode | JsErrorDiagNotInDebugMode | JsErrorDiagNotAtBreak
    | JsErrorDiagInvalidHandle | JsErrorDiagObjectNotFound | JsErrorDiagUnableToPerformAction | JsErrorOther "32 word"

record error_codes =
  code_value :: "JsErrorCode \<Rightarrow> 32 word"
  JsErrorCategoryUsage :: "32 word"
  JsErrorCategoryEngine :: "32 word"
  JsErrorCategoryScript :: "32 word"
  JsErrorCategoryFatal :: "32 word"
  JsErrorCategoryDiagError :: "32 word"

text \<open>The exact matches of the \<open>switch\<close> of \<open>TranslateError\<close>.\<close>

primrec TranslateError_exact :: "JsErrorCode \<Rightarrow> string option" where
  "TranslateError_exact JsNoError =
     Some ''Success error code.''"
| "TranslateError_exact JsErrorInvalidArgument =
     Some ''An argument to a hosting API was invalid.''"
| "TranslateError_exact JsErrorNullArgument =
     Some ''An argument to a hosting API was null in a context where null is not allowed.''"
| "TranslateError_exact JsErrorNoCurrentContext =
     Some ''The hosting API requires that a context be current, but there is no current context.''"
| "TranslateError_exact JsErrorInExceptionState =
     Some ''The engine is in an exception state and no APIs can be called until the exception is cleared.''"
| "TranslateError_exact JsErrorNotImplemented =
     Some ''A hosting API is not yet implemented.''"
| "TranslateError_exact JsErrorWrongThread =
     Some ''A hosting API was called on the wrong thread.''"
| "TranslateError_exact JsErrorRuntimeInUse =
     Some ''A runtime that is still in use cannot be disposed.''"
| "TranslateError_exact JsErrorBadSerializedScript =
     Some ''A bad serialized script was used, or the serialized script was serialized by a different version of the Chakra engine.''"
| "TranslateError_exact JsErrorInDisabledState =
     Some ''The runtime is in a disabled state.''"
| "TranslateError_exact JsErrorCannotDisableExecution =
     Some ''Runtime does not support reliable script interruption.''"
| "TranslateError_exact JsErrorHeapEnumInProgress =
     Some ''A heap enumeration is currently underway in the script context.''"
| "TranslateError_exact JsErrorArgumentNotObject =
     Some ''A hosting API that operates on object values was called with a non-object value.''"
| "TranslateError_exact JsErrorInProfileCallback =
     Some ''A script context is in the middle of a profile callback.''"
| "TranslateError_exact JsErrorInThreadServiceCallback =
     Some ''A thread service callback is currently underway.''"
| "TranslateError_exact JsErrorCannotSerializeDebugScript =
     Some ''Scripts cannot be serialized in debug contexts.''"
| "TranslateError_exact JsErrorAlreadyDebuggingContext =
     Some ''The context cannot be put into a debug state because it is already in a debug state.''"
| "TranslateError_exact JsErrorAlreadyProfilingContext =
     Some ''The context cannot start profiling because it is already profiling.''"
| "TranslateError_exact JsErrorIdleNotEnabled =
     Some ''Idle notification given when the host did not enable idle processing.''"
| "TranslateError_exact JsCannotSetProjectionEnqueueCallback =
     Some ''The context did not accept the enqueue callback.''"
| "TranslateError_exact JsErrorCannotStartProjection =
     Some ''Failed to start projection.''"
| "TranslateError_exact JsErrorInObjectBeforeCollectCallback =
     Some ''The operation is not supported in an object before collect callback.''"
| "TranslateError_exact JsErrorObjectNotInspectable =
     Some ''Object cannot be unwrapped to IInspectable pointer.''"
| "TranslateError_exact JsErrorPropertyNotSymbol =
     Some ''A hosting API that operates on symbol property ids but was called with a non-symbol property id. The error code is returned by JsGetSymbolFromPropertyId if the function is called with non-symbol property id.''"
| "TranslateError_exact JsErrorPropertyNotString =
     Some ''A hosting API that operates on string property ids but was called with a non-string property id. The error code is returned by existing JsGetPropertyNamefromId if the function is called with non-string property id.''"
| "TranslateError_exact JsErrorInvalidContext =
     Some ''Module evaluation is called in wrong context.''"
| "TranslateError_exact JsInvalidModuleHostInfoKind =
     Some ''Module evaluation is called in wrong context.''"
| "TranslateError_exact JsErrorModuleParsed =
     Some ''Module was parsed already when JsParseModuleSource is called.''"
| "TranslateError_exact JsNoWeakRefRequired =
     Some ''Argument passed to JsCreateWeakReference is a primitive that is not managed by the GC. No weak reference is required, the value will never be collected.''"
| "TranslateError_exact JsErrorOutOfMemory =
     Some ''The Chakra engine has run out of memory.''"
| "TranslateError_exact JsErrorBadFPUState =
     Some ''The Chakra engine failed to set the Floating Point Unit state.''"
| "TranslateError_exact JsErrorScriptException =
     Some ''A JavaScript exception occurred while running a script.''"
| "TranslateError_exact JsErrorScriptCompile =
     Some ''JavaScript failed to compile.''"
| "TranslateError_exact JsErrorScriptTerminated =
     Some ''A script was terminated due to a request to suspend a runtime.''"
| "TranslateError_exact JsErrorScriptEvalDisabled =
     Some ''A script was terminated because it tried to use eval or function and eval was disabled.''"
| "TranslateError_exact JsErrorFatal =
     Some ''A fatal error in the engine has occurred.''"
| "TranslateError_exact JsErrorWrongRuntime =
     Some ''A hosting API was called with object created on different javascript runtime.''"
| "TranslateError_exact JsErrorDiagAlreadyInDebugMode =
     Some ''The object for which the debugging API was called was not found''"
| "TranslateError_exact JsErrorDiagNotInDebugMode =
     Some ''The debugging API can only be called when VM is in debug mode''"
| "TranslateError_exact JsErrorDiagNotAtBreak =
     Some ''The debugging API can only be called when VM is at a break''"
| "TranslateError_exact JsErrorDiagInvalidHandle =
     Some ''Debugging API was called with an invalid handle.''"
| "TranslateError_exact JsErrorDiagObjectNotFound =
     Some ''The object for which the debugging API was called was not found''"
| "TranslateError_exact JsErrorDiagUnableToPerformAction =
     Some ''VM was unable to perform the request action''"
| "TranslateError_exact (JsErrorOther _) = None"

text \<open>\<open>TranslateError\<close>: the exact matches, then the category tests in the code's order.\<close>

definition TranslateError :: "error_codes \<Rightarrow> JsErrorCode \<Rightarrow> string" where
  "TranslateError k error =
     (case TranslateError_exact error of
        Some message \<Rightarrow> message
      | None \<Rightarrow>
          if code_value k error AND JsErrorCategoryUsage k = JsErrorCategoryUsage k
          then ''Category of errors that relates to incorrect usage of the API itself.''
          else if code_value k error AND JsErrorCategoryEngine k = JsErrorCategoryEngine k
          then ''Category of errors that relates to errors occurring within the engine itself.''
          else if code_value k error AND JsErrorCategoryScript k = JsErrorCategoryScript k
          then ''Category of errors that relates to errors in a script.''
          else if code_value k error AND JsErrorCategoryFatal k = JsErrorCategoryFatal k
          then ''Category of errors that are fatal and signify failure of the engine.''
          else if code_value k error AND JsErrorCategoryDiagError k = JsErrorCategoryDiagError k
          then ''Category of errors that are related to failures during diagnostic operations.''
          else ''Unknown error'')"

definition MakeMessage :: "error_codes \<Rightarrow> JsErrorCode \<Rightarrow> string" where
  "MakeMessage k error = TranslateError k error @ '': '' @ dec_nat (unat (code_value k error))"

subsection \<open>Exceptions\<close>

text \<open>
  A computation stops with a C++ exception, or, where no \<open>catch\<close> can act any more, with undefined
  behaviour (the code reads through a null or dangling pointer, or an iterator at the end), with \<open>std::terminate\<close> (a destructor
  throws), or because it waits for a notification that never comes.  \<open>OutOfFuel\<close> is not an outcome of
  the program: it marks a loop of the model that was given too little fuel.
\<close>

datatype cpp_exn =
    JsErrorException JsErrorCode string
  | RuntimeError string
  | OutOfRange
  | LengthError
  | InvalidArgument
  | OtherException string

datatype undefined_behaviour = NullDereference | DanglingPointer | EndIterator

datatype loop_name = ScriptComments | CommandLoop

datatype fault =
    Throw cpp_exn
  | Undefined undefined_behaviour
  | Terminated
  | Blocked
  | OutOfFuel loop_name

text \<open>\<open>JsErrorException(error)\<close>, \<open>code()\<close>, \<open>what()\<close> and \<open>IfJsErrorThrow\<close>.\<close>

definition JsErrorException_of :: "error_codes \<Rightarrow> JsErrorCode \<Rightarrow> cpp_exn" where
  "JsErrorException_of k error = JsErrorException error (MakeMessage k error)"

fun JsErrorException_code :: "cpp_exn \<Rightarrow> JsErrorCode option" where
  "JsErrorException_code (JsErrorException error _) = Some error"
| "JsErrorException_code _ = None"

definition IfJsErrorThrow :: "error_codes \<Rightarrow> JsErrorCode \<Rightarrow> ('s, fault, unit) M" where
  "IfJsErrorThrow k error =
     (if error \<noteq> JsNoError then throwM (Throw (JsErrorException_of k error)) else retM ())"

text \<open>
  \<open>TranslateExceptionToJsErrorCode\<close>: the two overloads.  The state keeps the effects made before
  the exception was thrown.
\<close>

definition TranslateException :: "('s, fault, unit) M \<Rightarrow> ('s, fault, JsErrorCode) M" where
  "TranslateException func =
     (\<lambda>s. case func s of
            (Inr _, t) \<Rightarrow> (Inr JsNoError, t)
          | (Inl (Throw (JsErrorException error _)), t) \<Rightarrow> (Inr error, t)
          | (Inl (Throw _), t) \<Rightarrow> (Inr JsErrorFatal, t)
          | (Inl f, t) \<Rightarrow> (Inl f, t))"

definition TranslateExceptionFor ::
  "'h option \<Rightarrow> ('h \<Rightarrow> ('s, fault, unit) M) \<Rightarrow> ('s, fault, JsErrorCode) M" where
  "TranslateExceptionFor handle func =
     (case handle of
        None \<Rightarrow> retM JsErrorInvalidArgument
      | Some obj \<Rightarrow> TranslateException (func obj))"

subsection \<open>Properties\<close>

lemma keeps_IfJsErrorThrow [intro]: "keeps P (IfJsErrorThrow k error)"
  by (auto simp: IfJsErrorThrow_def)

lemma keeps_TranslateException [intro]: "keeps P m \<Longrightarrow> keeps P (TranslateException m)"
  by (auto simp: keeps_def TranslateException_def
      split: prod.splits sum.splits fault.splits cpp_exn.splits)

lemma keeps_TranslateExceptionFor [intro]:
  "(\<And>h. handle = Some h \<Longrightarrow> keeps P (m h)) \<Longrightarrow> keeps P (TranslateExceptionFor handle m)"
  by (auto simp: TranslateExceptionFor_def split: option.splits)

lemma TranslateException_throw [simp]:
  "TranslateException (throwM (Throw (RuntimeError msg))) = retM JsErrorFatal"
  "TranslateException (throwM (Throw (JsErrorException c msg))) = retM c"
  "TranslateException (retM ()) = retM JsNoError"
  by (simp_all add: TranslateException_def throwM_def retM_def)

text \<open>
  A mask whose bits include the bits of the \<open>Usage\<close> mask can never be reported: the test for
  \<open>Usage\<close> comes first.
\<close>

lemma mask_covered:
  fixes c :: "'a::len word"
  assumes "c AND big = big" and "big AND small = small"
  shows "c AND small = small"
proof -
  have "c AND small = c AND (big AND small)" by (simp add: assms(2))
  also have "\<dots> = (c AND big) AND small" by (simp add: and.assoc)
  finally show ?thesis by (simp add: assms)
qed

end
