(* ===== verification/String16.thy ===== *)
theory String16
  imports ErrorHelpers
begin

section \<open>\<open>String16\<close>, \<open>String16Builder\<close> and \<open>StringUtil\<close>\<close>

text \<open>
  \<open>lib/Debugger.Protocol/String16.h/.cpp\<close> and the string half of \<open>StringUtil.cpp\<close>.  A \<open>String16\<close>
  is its buffer of UTF-16 code units, a \<open>std::string\<close> a list of 8-bit characters, a builder the
  buffer it has collected.  \<open>WideCharToMultiByte\<close> and \<open>MultiByteToWideChar\<close> belong to Windows:
  they are arguments of \<open>toUtf8\<close> and \<open>fromUtf8\<close>, each returning \<open>None\<close> where the call returns 0.
\<close>

subsection \<open>Construction\<close>

text \<open>
  \<open>m_impl[i] = str[i]\<close> converts a (signed) \<open>char\<close> to \<open>UChar\<close>: characters above 127 are
  sign-extended.
\<close>

definition widen :: "char \<Rightarrow> uchar" where
  "widen c = scast (of_char c :: 8 word)"

definition String16_chars :: "string \<Rightarrow> string16" where
  "String16_chars str = map widen str"

definition String16_cstr :: "string \<Rightarrow> string16" where
  "String16_cstr str = String16_chars (takeWhile (\<lambda>c. c \<noteq> CHR 0x00) str)"

definition fromInteger :: "cint \<Rightarrow> string16" where
  "fromInteger number = String16_cstr (dec_int (sint number))"

definition fromInteger_size :: "nat \<Rightarrow> string16" where
  "fromInteger_size number = String16_cstr (dec_nat number)"

subsection \<open>Access\<close>

definition plus_string :: "string16 \<Rightarrow> string16 \<Rightarrow> string16" where
  "plus_string a b = a @ b"

definition string_empty :: "string16 \<Rightarrow> bool" where
  "string_empty s \<longleftrightarrow> s = []"

text \<open>\<open>basic_string::find\<close>: the first position of \<open>str\<close>, \<open>None\<close> for \<open>npos\<close>.\<close>

definition begins_with :: "'a list \<Rightarrow> 'a list \<Rightarrow> bool" where
  "begins_with p s \<longleftrightarrow> take (length p) s = p"

fun find_string :: "'a list \<Rightarrow> 'a list \<Rightarrow> nat option" where
  "find_string [] str = (if str = [] then Some 0 else None)"
| "find_string (c # s) str =
     (if begins_with str (c # s) then Some 0 else map_option Suc (find_string s str))"

text \<open>\<open>basic_string::substr\<close> throws \<open>std::out_of_range\<close> when \<open>pos\<close> is past the end.\<close>

definition substring :: "string16 \<Rightarrow> nat \<Rightarrow> nat \<Rightarrow> fault + string16" where
  "substring s pos len =
     (if length s < pos then Inl (Throw OutOfRange) else Inr (take len (drop pos s)))"

subsection \<open>Conversions\<close>

definition toUtf8 :: "(string16 \<Rightarrow> string option) \<Rightarrow> string16 \<Rightarrow> string" where
  "toUtf8 WideCharToMultiByte s =
     (if length s = 0 then []
      else case WideCharToMultiByte s of None \<Rightarrow> [] | Some utf8Chars \<Rightarrow> utf8Chars)"

definition fromUtf8 :: "(string \<Rightarrow> string16 option) \<Rightarrow> string \<Rightarrow> string16" where
  "fromUtf8 MultiByteToWideChar str =
     (if length str = 0 then []
      else case MultiByteToWideChar str of None \<Rightarrow> [] | Some utf16Chars \<Rightarrow> utf16Chars)"

definition c_ErrorInvalidAsciiCharacters :: string where
  "c_ErrorInvalidAsciiCharacters = ''String contains invalid ASCII characters''"

definition c_ErrorInvalidIntegerCharacters :: string where
  "c_ErrorInvalidIntegerCharacters =
     ''String is not a valid integer or contains non-integer characters''"

fun toAscii :: "string16 \<Rightarrow> fault + string" where
  "toAscii [] = Inr []"
| "toAscii (c # s) =
     (if c AND 0x7f \<noteq> c then Inl (Throw (RuntimeError c_ErrorInvalidAsciiCharacters))
      else case toAscii s of Inl e \<Rightarrow> Inl e | Inr r \<Rightarrow> Inr (char_of (unat c) # r))"

definition toInteger :: "string16 \<Rightarrow> fault + cint" where
  "toInteger s =
     (case toAscii s of
        Inl e \<Rightarrow> Inl e
      | Inr i \<Rightarrow>
          (case read_int i of
             Some (x, []) \<Rightarrow> Inr x
           | _ \<Rightarrow> Inl (Throw (RuntimeError c_ErrorInvalidIntegerCharacters))))"

subsection \<open>Builder\<close>

definition builderAppend :: "string16 \<Rightarrow> string16 \<Rightarrow> string16" where
  "builderAppend builder s = builder @ s"

definition builderAppend_char :: "string16 \<Rightarrow> uchar \<Rightarrow> string16" where
  "builderAppend_char builder c = builder @ [c]"

definition builderAppend_chars :: "string16 \<Rightarrow> string \<Rightarrow> string16" where
  "builderAppend_chars builder s = builder @ map widen s"

lemmas builder_defs [str_defs] =
  builderAppend_def builderAppend_char_def builderAppend_chars_def plus_string_def

subsection \<open>ASCII text survives the conversions\<close>

definition ascii :: "char \<Rightarrow> bool" where
  "ascii c \<longleftrightarrow> (of_char c :: nat) < 128"

lemma ascii_digit [simp]: "is_digit c \<Longrightarrow> ascii c"
  by (simp add: ascii_def is_digit_def)

lemma ascii_minus [simp]: "ascii (CHR ''-'')"
  by (simp add: ascii_def)

lemma unat_widen: "ascii c \<Longrightarrow> unat (widen c) = of_char c"
  by (cases c) (auto simp: ascii_def widen_def split: if_splits)

lemma char_of_unat_widen [simp]: "ascii c \<Longrightarrow> char_of (unat (widen c)) = c"
  by (simp add: unat_widen)

lemma widen_inj [simp]: "widen c = widen d \<longleftrightarrow> c = d"
proof
  assume "widen c = widen d"
  then have "sint (widen c) = sint (widen d)" by simp
  then have "sint (of_char c :: 8 word) = sint (of_char d :: 8 word)"
    by (simp add: widen_def sint_up_scast is_up)
  then have "(of_char c :: 8 word) = of_char d" by (rule signed_word_eqI)
  then have "unat (of_char c :: 8 word) = unat (of_char d :: 8 word)" by simp
  moreover have "unat (of_char x :: 8 word) = of_char x" for x
    using of_nat_of_char [of x, where ?'a = "8 word"] unat_of_nat [of "of_char x", where ?'a = 8]
      nat_of_char_less_256 [of x] by simp
  ultimately show "c = d" by simp
qed simp

text \<open>A literal of the source, as the program's string.\<close>

abbreviation lit :: "string \<Rightarrow> string16" where
  "lit s \<equiv> String16_chars s"

lemma lit_simps [simp]:
  "lit [] = []" "length (lit s) = length s" "set (lit s) = widen ` set s"
  "lit s = lit t \<longleftrightarrow> s = t" "lit s = [] \<longleftrightarrow> s = []"
  by (simp_all add: String16_chars_def inj_map_eq_map inj_def)

lemma lit_Cons: "lit (c # s) = widen c # lit s"
  and lit_append: "lit (s @ t) = lit s @ lit t"
  by (simp_all add: String16_chars_def)

lemma and_7f_iff: "(c AND 0x7f = c) \<longleftrightarrow> unat (c :: uchar) < 128"
proof -
  have m: "(0x7f :: uchar) = mask 7" by (simp add: mask_eq_exp_minus_1)
  have "c AND 0x7f = take_bit 7 c"
    by (simp only: m take_bit_eq_mask)
  moreover have "unat (take_bit 7 c) = unat c mod 128"
    by (simp only: unsigned_take_bit_eq) (simp add: take_bit_eq_mod)
  ultimately show ?thesis
    by (metis mod_less mod_less_divisor word_unat_eq_iff zero_less_numeral)
qed

lemma toAscii_lit: "\<forall>c \<in> set s. ascii c \<Longrightarrow> toAscii (lit s) = Inr s"
proof (induction s)
  case (Cons c s)
  then have "unat (widen c) < 128" by (simp add: unat_widen) (simp add: ascii_def)
  then have "widen c AND 0x7f = widen c" by (simp only: and_7f_iff)
  with Cons show ?case by (simp add: lit_Cons)
qed simp

lemma toAscii_Inr: "toAscii s = Inr r \<Longrightarrow> \<forall>c \<in> set s. unat c < 128"
  by (induction s arbitrary: r) (auto simp: and_7f_iff split: if_splits sum.splits)

lemma dec_int_not_nul: "c \<in> set (dec_int i) \<Longrightarrow> c \<noteq> CHR 0x00"
  using dec_int_chars [of c i] by (auto simp: is_digit_def)

lemma fromInteger_lit: "fromInteger n = lit (dec_int (sint n))"
proof -
  have "takeWhile (\<lambda>c. c \<noteq> CHR 0x00) (dec_int (sint n)) = dec_int (sint n)"
    using dec_int_not_nul by (simp only: takeWhile_eq_all_conv) blast
  then show ?thesis by (simp only: fromInteger_def String16_cstr_def)
qed

lemma dec_int_ascii: "\<forall>c \<in> set (dec_int i). ascii c"
  using dec_int_chars [of _ i] ascii_digit ascii_minus by blast

lemma toInteger_fromInteger_aux: "toInteger (fromInteger n) = Inr n"
proof -
  have "sint n < 2 ^ 31" "- (2 ^ 31) \<le> sint n"
    using sint_range_size [of n] by (simp_all add: word_size)
  then have "read_int (dec_int (sint n)) = Some (n, [])"
    by (simp add: read_int_dec_int)
  then show ?thesis
    by (simp add: toInteger_def fromInteger_lit toAscii_lit dec_int_ascii)
qed

lemma fromInteger_inj [simp]: "fromInteger m = fromInteger n \<longleftrightarrow> m = n"
  by (metis sum.inject(2) toInteger_fromInteger_aux)

lemma fromInteger_chars:
  assumes "c \<in> set (fromInteger n)"
  obtains d where "c = widen d" and "is_digit d \<or> d = CHR ''-''"
  using assms dec_int_chars by (auto simp: fromInteger_lit String16_chars_def)

lemma colon_notin_fromInteger [simp]: "widen (CHR '':'') \<notin> set (fromInteger n)"
proof
  assume "widen (CHR '':'') \<in> set (fromInteger n)"
  then obtain d where "widen (CHR '':'') = widen d" "is_digit d \<or> d = CHR ''-''"
    by (rule fromInteger_chars)
  then show False by (auto simp: is_digit_def)
qed

subsection \<open>Search\<close>

lemma find_string_Some:
  "find_string s str = Some i \<Longrightarrow>
     i \<le> length s \<and> begins_with str (drop i s) \<and> (\<forall>j < i. \<not> begins_with str (drop j s))"
proof (induction s arbitrary: i)
  case Nil
  then show ?case by (auto simp: begins_with_def split: if_splits)
next
  case (Cons c s)
  show ?case
  proof (cases "begins_with str (c # s)")
    case True
    with Cons.prems show ?thesis by simp
  next
    case False
    with Cons.prems obtain j where j: "find_string s str = Some j" "i = Suc j" by auto
    with Cons.IH False show ?thesis
      by (auto simp: less_Suc_eq_0_disj)
  qed
qed

lemma find_string_None: "find_string s str = None \<Longrightarrow> i \<le> length s \<Longrightarrow> \<not> begins_with str (drop i s)"
proof (induction s arbitrary: i)
  case Nil
  then show ?case by (auto simp: begins_with_def split: if_splits)
next
  case (Cons c s)
  then show ?case by (cases i) (auto split: if_splits)
qed

end
