(* ===== verification/Double.thy ===== *)
theory Double
  imports String16
begin

section \<open>\<open>double\<close>: the binary64 values the JSON code reads, writes and converts\<close>

text \<open>
  A finite \<open>double\<close> is \<open>(-1)^sign * m * 2^e\<close>, kept with an odd \<open>m\<close> (or \<open>Fin s 0 0\<close>), so that equal
  values are equal terms.  \<open>toDouble\<close> (an \<open>istream >> double\<close>) rounds a decimal to the nearest
  binary64 value, ties to even; \<open>fromDouble\<close> (an \<open>ostream << double\<close> with the default precision)
  writes it with six significant digits, as \<open>%g\<close> does.  Both are the C++ standard library's.
\<close>

datatype dbl = NaN | Inf bool | Fin bool nat int

fun dbl_norm :: "nat \<Rightarrow> int \<Rightarrow> nat \<times> int" where
  "dbl_norm m e =
     (if m = 0 then (0, 0) else if even m then dbl_norm (m div 2) (e + 1) else (m, e))"

declare dbl_norm.simps [simp del]

definition mk_fin :: "bool \<Rightarrow> nat \<Rightarrow> int \<Rightarrow> dbl" where
  "mk_fin s m e = (case dbl_norm m e of (m', e') \<Rightarrow> Fin s m' e')"

definition dbl_of_int :: "int \<Rightarrow> dbl" where
  "dbl_of_int i = mk_fin (i < 0) (nat \<bar>i\<bar>) 0"

definition isfinite :: "dbl \<Rightarrow> bool" where
  "isfinite d \<longleftrightarrow> (case d of Fin _ _ _ \<Rightarrow> True | _ \<Rightarrow> False)"

text \<open>\<open>==\<close> on doubles: zeros of both signs are equal, a NaN equals nothing.\<close>

fun dbl_eq :: "dbl \<Rightarrow> dbl \<Rightarrow> bool" where
  "dbl_eq NaN _ = False"
| "dbl_eq _ NaN = False"
| "dbl_eq (Fin s m e) (Fin s' m' e') = (m = m' \<and> e = e' \<and> (s = s' \<or> m = 0))"
| "dbl_eq a b = (a = b)"

text \<open>
  \<open>static_cast<int>(value)\<close> truncates.  Out of range it is undefined in C++; the compilers the
  project builds with store \<open>0x80000000\<close> (the conversion instruction's result on x86 and x64).
\<close>

definition dbl_trunc :: "bool \<Rightarrow> nat \<Rightarrow> int \<Rightarrow> int" where
  "dbl_trunc s m e =
     (let t = (if 0 \<le> e then m * 2 ^ nat e else m div 2 ^ nat (- e))
      in if s then - int t else int t)"

fun cast_int :: "dbl \<Rightarrow> cint" where
  "cast_int (Fin s m e) =
     (let t = dbl_trunc s m e
      in if - (2 ^ 31) \<le> t \<and> t < 2 ^ 31 then word_of_int t else 0x80000000)"
| "cast_int _ = 0x80000000"

subsection \<open>Reading\<close>

fun bitlen :: "nat \<Rightarrow> nat" where
  "bitlen n = (if n = 0 then 0 else Suc (bitlen (n div 2)))"

declare bitlen.simps [simp del]

text \<open>The integer part and the remainder of \<open>num / (den * 2^e)\<close>, over a common divisor.\<close>

definition scaled :: "nat \<Rightarrow> nat \<Rightarrow> int \<Rightarrow> nat \<times> nat \<times> nat" where
  "scaled num den e =
     (let n = (if e < 0 then num * 2 ^ nat (- e) else num);
          d = (if e < 0 then den else den * 2 ^ nat e)
      in (n div d, n mod d, d))"

definition round_even :: "nat \<times> nat \<times> nat \<Rightarrow> nat" where
  "round_even qrd =
     (case qrd of (q, r, d) \<Rightarrow> if 2 * r > d \<or> (2 * r = d \<and> odd q) then Suc q else q)"

definition round_exp :: "nat \<Rightarrow> nat \<Rightarrow> int" where
  "round_exp num den =
     (let e = int (bitlen num) - int (bitlen den) - 53
      in max (- 1074) (if fst (scaled num den e) < 2 ^ 53 then e else e + 1))"

text \<open>The nearest double to \<open>num / den\<close>; \<open>None\<close> when it overflows, which sets \<open>failbit\<close>.\<close>

definition round_dbl :: "bool \<Rightarrow> nat \<Rightarrow> nat \<Rightarrow> dbl option" where
  "round_dbl s num den =
     (if num = 0 then Some (Fin s 0 0)
      else let e = round_exp num den; q = round_even (scaled num den e)
           in if 971 < e \<or> (e = 971 \<and> q = 2 ^ 53) then None else Some (mk_fin s q e))"

text \<open>
  The text is \<open>[sign] digits [. digits] [e [sign] digits]\<close>, read as far as it has that shape after
  leading white space; a mantissa without a digit or an exponent without one sets \<open>failbit\<close>.
\<close>

definition read_sign :: "string \<Rightarrow> bool \<times> string" where
  "read_sign s =
     (if s \<noteq> [] \<and> hd s = CHR ''-'' then (True, tl s)
      else if s \<noteq> [] \<and> hd s = CHR ''+'' then (False, tl s) else (False, s))"

definition read_frac :: "string \<Rightarrow> string \<times> string" where
  "read_frac s =
     (if s \<noteq> [] \<and> hd s = CHR ''.'' then (takeWhile is_digit (tl s), dropWhile is_digit (tl s))
      else ([], s))"

definition read_exp :: "string \<Rightarrow> int option" where
  "read_exp s =
     (if s \<noteq> [] \<and> (hd s = CHR ''e'' \<or> hd s = CHR ''E'')
      then let (neg, t) = read_sign (tl s); ds = takeWhile is_digit t
           in if ds = [] then None
              else Some (if neg then - int (digits_value ds) else int (digits_value ds))
      else Some 0)"

definition toDouble :: "string \<Rightarrow> dbl option" where
  "toDouble s =
     (let (neg, t) = read_sign (dropWhile is_space s);
          ip = takeWhile is_digit t;
          (fp, u) = read_frac (dropWhile is_digit t)
      in if ip @ fp = [] then None
         else case read_exp u of
                None \<Rightarrow> None
              | Some x \<Rightarrow>
                  (let m = digits_value (ip @ fp); e10 = x - int (length fp)
                   in if 0 \<le> e10 then round_dbl neg (m * 10 ^ nat e10) 1
                      else round_dbl neg m (10 ^ nat (- e10))))"

subsection \<open>Writing\<close>

fun ilog10 :: "nat \<Rightarrow> nat" where
  "ilog10 n = (if n < 10 then 0 else Suc (ilog10 (n div 10)))"

declare ilog10.simps [simp del]

text \<open>The decimal exponent of \<open>num / den\<close>, a positive number.\<close>

definition dec_exp :: "nat \<Rightarrow> nat \<Rightarrow> int" where
  "dec_exp num den =
     (if den \<le> num then int (ilog10 (num div den))
      else - int (Suc (ilog10 ((den + num - 1) div num - 1))))"

text \<open>Six significant digits (an integer below \<open>10 ^ 6\<close>) and the exponent of the first.\<close>

definition six_digits :: "nat \<Rightarrow> nat \<Rightarrow> nat \<times> int" where
  "six_digits num den =
     (let x = dec_exp num den;
          n = (if x < 5 then num * 10 ^ nat (5 - x) else num);
          d = (if x < 5 then den else den * 10 ^ nat (x - 5));
          q = round_even (n div d, n mod d, d)
      in if q = 1000000 then (100000, x + 1) else (q, x))"

definition strip_zeros :: "string \<Rightarrow> string" where
  "strip_zeros s = rev (dropWhile (\<lambda>c. c = CHR ''0'') (rev s))"

definition with_point :: "string \<Rightarrow> string \<Rightarrow> string" where
  "with_point ip fp = (let f = strip_zeros fp in if f = [] then ip else ip @ CHR ''.'' # f)"

definition fmt_g :: "nat \<Rightarrow> nat \<Rightarrow> string" where
  "fmt_g num den =
     (let (q, x) = six_digits num den; ds = dec_nat q
      in if - 4 \<le> x \<and> x < 0 then with_point ''0'' (replicate (nat (- x - 1)) (CHR ''0'') @ ds)
         else if 0 \<le> x \<and> x < 6 then with_point (take (nat (x + 1)) ds) (drop (nat (x + 1)) ds)
         else with_point (take 1 ds) (drop 1 ds) @ ''e'' @ (if x < 0 then ''-'' else ''+'') @
              (if \<bar>x\<bar> < 10 then ''0'' else []) @ dec_nat (nat \<bar>x\<bar>))"

fun dbl_chars :: "dbl \<Rightarrow> string" where
  "dbl_chars NaN = ''nan''"
| "dbl_chars (Inf s) = (if s then ''-inf'' else ''inf'')"
| "dbl_chars (Fin s m e) =
     (if s then ''-'' else []) @
     (if m = 0 then ''0''
      else if 0 \<le> e then fmt_g (m * 2 ^ nat e) 1 else fmt_g m (2 ^ nat (- e)))"

definition fromDouble :: "dbl \<Rightarrow> string16" where
  "fromDouble number = String16_cstr (dbl_chars number)"

subsection \<open>Integers are read and converted exactly\<close>

lemma dbl_norm_shift: "0 < m \<Longrightarrow> dbl_norm (m * 2 ^ k) e = dbl_norm m (e + int k)"
proof (induction k arbitrary: e)
  case (Suc k)
  have "dbl_norm (m * 2 ^ Suc k) e = dbl_norm (m * 2 ^ k) (e + 1)"
    using Suc.prems by (subst dbl_norm.simps) simp
  also have "\<dots> = dbl_norm m (e + 1 + int k)" using Suc by simp
  finally show ?case by (simp add: algebra_simps)
qed simp

lemma dbl_norm_value:
  assumes "dbl_norm m e = (m', e')" and "0 < m"
  shows "e \<le> e' \<and> m = m' * 2 ^ nat (e' - e)"
  using assms
proof (induction m e arbitrary: m' e' rule: dbl_norm.induct)
  case (1 m e)
  show ?case
  proof (cases "even m")
    case True
    with 1 have "dbl_norm (m div 2) (e + 1) = (m', e')" "0 < m div 2"
      by (auto simp: dbl_norm.simps [of m e] elim: evenE)
    with 1 True have le: "e + 1 \<le> e'" and m: "m div 2 = m' * 2 ^ nat (e' - (e + 1))" by auto
    have "nat (e' - e) = Suc (nat (e' - (e + 1)))" using le by simp
    with m True have "m = m' * 2 ^ nat (e' - e)" by (auto elim: evenE)
    with le show ?thesis by simp
  next
    case False
    with 1 show ?thesis by (auto simp: dbl_norm.simps [of m e])
  qed
qed

lemma bitlen_bounds: "0 < n \<Longrightarrow> 2 ^ (bitlen n - 1) \<le> n \<and> n < 2 ^ bitlen n \<and> 0 < bitlen n"
proof (induction n rule: bitlen.induct)
  case (1 n)
  show ?case
  proof (cases "n div 2 = 0")
    case True
    with 1 have "n = 1" by auto
    then show ?thesis by (simp add: bitlen.simps)
  next
    case False
    with 1 have "2 ^ (bitlen (n div 2) - 1) \<le> n div 2 \<and> n div 2 < 2 ^ bitlen (n div 2) \<and>
      0 < bitlen (n div 2)" by simp
    moreover have "bitlen n = Suc (bitlen (n div 2))" using 1 by (simp add: bitlen.simps [of n])
    moreover obtain k where "bitlen (n div 2) = Suc k"
      using calculation(1) by (cases "bitlen (n div 2)") auto
    ultimately show ?thesis by simp linarith
  qed
qed

lemma bitlen_one [simp]: "bitlen (Suc 0) = 1"
  by (simp add: bitlen.simps)

lemma round_dbl_nat:
  assumes "0 < n" and "n < 2 ^ 53"
  shows "round_dbl s n 1 = Some (mk_fin s n 0)"
proof -
  let ?b = "bitlen n"
  have b: "2 ^ (?b - 1) \<le> n" "n < 2 ^ ?b" "0 < ?b" using bitlen_bounds assms(1) by auto
  have "(2::nat) ^ (?b - 1) < 2 ^ 53" using b(1) assms(2) by (rule le_less_trans)
  then have "?b - 1 < 53" using power_less_imp_less_exp by (metis one_less_numeral_iff semiring_norm(76))
  then have b53: "?b \<le> 53" using b(3) by simp
  have "(2::nat) ^ 53 = 2 ^ (?b - 1) * 2 ^ (54 - ?b)"
    using b(3) b53 by (simp flip: power_add)
  also have "\<dots> \<le> n * 2 ^ (54 - ?b)" using b(1) by simp
  finally have ge: "2 ^ 53 \<le> n * 2 ^ (54 - ?b)" .
  have n54: "nat (- (int ?b - 1 - 53)) = 54 - ?b" by simp
  have "fst (scaled n 1 (int ?b - 1 - 53)) = n * 2 ^ (54 - ?b)"
    using b53 n54 by (simp add: scaled_def Let_def)
  with ge have e: "round_exp n 1 = int ?b - 53"
    using b53 by (simp add: round_exp_def Let_def)
  have n53: "nat (53 - int ?b) = 53 - ?b" by simp
  have q: "round_even (scaled n 1 (int ?b - 53)) = n * 2 ^ (53 - ?b)"
    using b53 n53 by (cases "?b = 53") (auto simp: scaled_def round_even_def Let_def)
  have "mk_fin s (n * 2 ^ (53 - ?b)) (int ?b - 53) = mk_fin s n 0"
    using assms(1) b53 by (simp add: mk_fin_def dbl_norm_shift of_nat_diff)
  with e q b53 assms(1) show ?thesis by (simp add: round_dbl_def Let_def)
qed

lemma cast_dbl_of_int:
  assumes "- (2 ^ 31) \<le> i" and "i < 2 ^ 31"
  shows "cast_int (dbl_of_int i) = word_of_int i"
proof (cases "i = 0")
  case True
  then show ?thesis by (simp add: dbl_of_int_def mk_fin_def dbl_norm.simps dbl_trunc_def)
next
  case False
  obtain m e where n: "dbl_norm (nat \<bar>i\<bar>) 0 = (m, e)" by (cases "dbl_norm (nat \<bar>i\<bar>) 0")
  then have "0 \<le> e" "nat \<bar>i\<bar> = m * 2 ^ nat e" using dbl_norm_value [OF n] False by auto
  then have "int m * 2 ^ nat e = \<bar>i\<bar>"
    by (metis abs_ge_zero nat_0_le of_nat_mult of_nat_numeral of_nat_power)
  with \<open>0 \<le> e\<close> have "dbl_trunc (i < 0) m e = i" by (simp add: dbl_trunc_def Let_def)
  with assms n show ?thesis by (simp add: dbl_of_int_def mk_fin_def)
qed

lemma sint_cint_bounds: "- (2 ^ 31) \<le> sint (n :: cint)" "sint (n :: cint) < 2 ^ 31"
  using sint_range_size [of n] by (simp_all add: word_size)

lemma toDouble_dec_int:
  "toDouble (dec_int (sint (n :: cint))) = Some (dbl_of_int (sint n))"
proof -
  let ?i = "sint n"
  let ?d = "dec_nat (nat \<bar>?i\<bar>)"
  have tw: "takeWhile is_digit ?d = ?d" and dw: "dropWhile is_digit ?d = []"
    using dec_nat_digits by (simp_all add: takeWhile_eq_all_conv dropWhile_eq_Nil_conv)
  have hd: "is_digit (hd ?d)" "?d \<noteq> []" using hd_dec_nat_digit by simp_all
  have sp: "dropWhile is_space (dec_int ?i) = dec_int ?i"
  proof (cases "?i < 0")
    case True
    then show ?thesis by (simp add: dec_int_def is_space_def)
  next
    case False
    obtain c s where cs: "?d = c # s" using hd(2) by (cases ?d) auto
    with False hd(1) show ?thesis by (simp add: dec_int_def is_digit_not_space)
  qed
  have rs: "read_sign (dec_int ?i) = (?i < 0, ?d)"
    using hd by (auto simp: read_sign_def dec_int_def)
  have "round_dbl (?i < 0) (nat \<bar>?i\<bar>) 1 = Some (dbl_of_int ?i)"
  proof (cases "?i = 0")
    case True
    then show ?thesis by (simp add: round_dbl_def dbl_of_int_def mk_fin_def dbl_norm.simps)
  next
    case False
    moreover have "nat \<bar>?i\<bar> < 2 ^ 53" using sint_cint_bounds [of n] by simp
    ultimately show ?thesis using round_dbl_nat [of "nat \<bar>?i\<bar>"] by (simp add: dbl_of_int_def)
  qed
  then show ?thesis
    by (simp add: toDouble_def sp rs tw dw read_frac_def read_exp_def Let_def)
qed

lemma dbl_eq_refl [simp]: "isfinite d \<Longrightarrow> dbl_eq d d"
  by (cases d) (auto simp: isfinite_def)

lemma isfinite_dbl_of_int [simp]: "isfinite (dbl_of_int i)"
  by (simp add: isfinite_def dbl_of_int_def mk_fin_def split: prod.splits)

end
