(* ===== verification/Values.thy ===== *)
theory Values
  imports Double
begin

section \<open>The JSON values of the protocol\<close>

text \<open>
  \<open>Value\<close>, \<open>FundamentalValue\<close>, \<open>StringValue\<close>, \<open>SerializedValue\<close>, \<open>ListValue\<close> and
  \<open>DictionaryValue\<close> of \<open>Generated/protocol/Protocol.h/.cpp\<close>.  A dictionary keeps a hash map
  \<open>m_data\<close> and the insertion order \<open>m_order\<close> of its keys; the map is an association list here (its
  own iteration order is never observed).  Writing or cloning reads \<open>m_data.find(key)->second\<close>
  without a check (\<open>CHECK\<close> and \<open>DCHECK\<close> compile to nothing): \<open>None\<close> is that undefined read of a
  key that is not in the map, and \<open>wf_val\<close> is the invariant under which it never happens.
\<close>

subsection \<open>An insertion-ordered dictionary\<close>

type_synonym 'v dictionary = "(string16 \<times> 'v) list \<times> string16 list"

definition dict_create :: "'v dictionary" where
  "dict_create = ([], [])"

definition dict_get :: "'v dictionary \<Rightarrow> string16 \<Rightarrow> 'v option" where
  "dict_get d name = map_of (fst d) name"

definition dict_set :: "string16 \<Rightarrow> 'v \<Rightarrow> 'v dictionary \<Rightarrow> 'v dictionary" where
  "dict_set key value d =
     (let isNew = (map_of (fst d) key = None)
      in (AList.update key value (fst d), if isNew then snd d @ [key] else snd d))"

definition dict_remove :: "string16 \<Rightarrow> 'v dictionary \<Rightarrow> 'v dictionary" where
  "dict_remove name d = (AList.delete name (fst d), filter (\<lambda>k. k \<noteq> name) (snd d))"

definition dict_size :: "'v dictionary \<Rightarrow> nat" where
  "dict_size d = length (fst d)"

definition dict_wf :: "'v dictionary \<Rightarrow> bool" where
  "dict_wf d \<longleftrightarrow> map fst (fst d) = snd d \<and> distinct (snd d)"

text \<open>What a client of the dictionary relies on.\<close>

locale ordered_dictionary =
  fixes create :: "'d"
    and get :: "'d \<Rightarrow> 'k \<Rightarrow> 'v option"
    and setv :: "'k \<Rightarrow> 'v \<Rightarrow> 'd \<Rightarrow> 'd"
    and remove :: "'k \<Rightarrow> 'd \<Rightarrow> 'd"
    and keys :: "'d \<Rightarrow> 'k list"
    and invar :: "'d \<Rightarrow> bool"
  assumes get_create: "get create k = None"
    and get_setv: "get (setv k v d) k' = (if k = k' then Some v else get d k')"
    and get_remove: "get (remove k d) k' = (if k = k' then None else get d k')"
    and keys_create: "keys create = []"
    and keys_setv: "invar d \<Longrightarrow>
          keys (setv k v d) = (if k \<in> set (keys d) then keys d else keys d @ [k])"
    and keys_remove: "invar d \<Longrightarrow> keys (remove k d) = filter (\<lambda>x. x \<noteq> k) (keys d)"
    and keys_get: "invar d \<Longrightarrow> k \<in> set (keys d) \<longleftrightarrow> get d k \<noteq> None"
    and invar_create: "invar create"
    and invar_setv: "invar d \<Longrightarrow> invar (setv k v d)"
    and invar_remove: "invar d \<Longrightarrow> invar (remove k d)"
begin

lemmas invar_ops = invar_create invar_setv invar_remove

text \<open>Storing a list of entries: the last value of a key wins, its first position stays.\<close>

lemma invar_fold: "invar d \<Longrightarrow> invar (fold (\<lambda>(k, v). setv k v) es d)"
  by (induction es arbitrary: d) (auto intro: invar_ops)

lemma get_fold:
  "get (fold (\<lambda>(k, v). setv k v) es d) k =
     (case map_of (rev es) k of Some v \<Rightarrow> Some v | None \<Rightarrow> get d k)"
  by (induction es arbitrary: d) (auto simp: get_setv map_add_def split: option.splits)

lemma keys_fold_fresh:
  assumes "invar d" and "distinct (map fst es)" and "set (map fst es) \<inter> set (keys d) = {}"
  shows "keys (fold (\<lambda>(k, v). setv k v) es d) = keys d @ map fst es"
  using assms
proof (induction es arbitrary: d)
  case (Cons e es)
  obtain k v where e: "e = (k, v)" by (cases e)
  have "keys (setv k v d) = keys d @ [k]" using Cons.prems e by (simp add: keys_setv)
  with Cons e show ?case by (simp add: invar_setv)
qed simp

lemma remove_setv_same: "get (remove k (setv k v d)) k' = get (remove k d) k'"
  by (simp add: get_setv get_remove)

end

lemma dict_wf_keys: "dict_wf d \<Longrightarrow> k \<in> set (snd d) \<longleftrightarrow> map_of (fst d) k \<noteq> None"
  by (metis dict_wf_def list.set_map map_of_eq_None_iff)

lemma map_fst_update: "map fst (AList.update k v ps) =
    (if k \<in> set (map fst ps) then map fst ps else map fst ps @ [k])"
  by (induction ps) auto

lemma map_fst_delete: "map fst (AList.delete k ps) = filter (\<lambda>x. x \<noteq> k) (map fst ps)"
  by (induction ps) auto

lemma dict_wf_set: "dict_wf d \<Longrightarrow> dict_wf (dict_set k v d)"
  using dict_wf_keys [of d k]
  by (auto simp: dict_wf_def dict_set_def Let_def map_fst_update map_of_eq_None_iff)

lemma dict_wf_remove: "dict_wf d \<Longrightarrow> dict_wf (dict_remove k d)"
  by (auto simp: dict_wf_def dict_remove_def map_fst_delete)

interpretation dict: ordered_dictionary dict_create dict_get dict_set dict_remove snd dict_wf
proof unfold_locales
  fix d :: "'a dictionary" and k assume "dict_wf d"
  then show "k \<in> set (snd d) \<longleftrightarrow> dict_get d k \<noteq> None"
    by (simp add: dict_wf_keys dict_get_def)
next
  fix d :: "'a dictionary" and k v assume "dict_wf d"
  then show "snd (dict_set k v d) = (if k \<in> set (snd d) then snd d else snd d @ [k])"
    by (simp add: dict_set_def Let_def dict_wf_keys)
next
  show "dict_wf (dict_set k v d)" if "dict_wf d" for d :: "'a dictionary" and k v
    using that by (rule dict_wf_set)
next
  show "dict_wf (dict_remove k d)" if "dict_wf d" for d :: "'a dictionary" and k
    using that by (rule dict_wf_remove)
qed (auto simp: dict_create_def dict_get_def dict_set_def dict_remove_def Let_def
      update_conv' delete_conv' dict_wf_def)

lemmas dict_simps [simp] = dict.get_create dict.get_setv dict.get_remove dict.keys_create

lemmas dict_wf_intros [wf_intros] = dict.invar_create dict.invar_setv dict.invar_remove

lemma dict_fold_fresh:
  assumes "distinct (map fst es)"
  shows "fold (\<lambda>(k, v). dict_set k v) es dict_create = (es, map fst es)"
  using assms
proof (induction es rule: rev_induct)
  case (snoc e es)
  obtain k v where e: "e = (k, v)" by (cases e)
  have "AList.update k v es = es @ [(k, v)]" if "k \<notin> fst ` set es"
    using that by (induction es) auto
  with snoc e show ?case by (simp add: dict_set_def map_of_eq_None_iff Let_def)
qed (simp add: dict_create_def)

subsection \<open>Values\<close>

datatype val =
    NullValue
  | BooleanValue bool
  | IntegerValue cint
  | DoubleValue dbl
  | StringValue string16
  | SerializedValue string16
  | ListValue "val list"
  | DictionaryValue "(string16 \<times> val) list" "string16 list"

datatype ValueType =
    TypeNull | TypeBoolean | TypeInteger | TypeDouble | TypeString | TypeObject | TypeArray
  | TypeSerialized

fun val_type :: "val \<Rightarrow> ValueType" where
  "val_type NullValue = TypeNull"
| "val_type (BooleanValue _) = TypeBoolean"
| "val_type (IntegerValue _) = TypeInteger"
| "val_type (DoubleValue _) = TypeDouble"
| "val_type (StringValue _) = TypeString"
| "val_type (SerializedValue _) = TypeSerialized"
| "val_type (ListValue _) = TypeArray"
| "val_type (DictionaryValue _ _) = TypeObject"

text \<open>The virtual accessors: \<open>None\<close> where the method returns false.\<close>

fun asBoolean :: "val \<Rightarrow> bool option" where
  "asBoolean (BooleanValue b) = Some b"
| "asBoolean _ = None"

fun asDouble :: "val \<Rightarrow> dbl option" where
  "asDouble (DoubleValue d) = Some d"
| "asDouble (IntegerValue n) = Some (dbl_of_int (sint n))"
| "asDouble _ = None"

fun asInteger :: "val \<Rightarrow> cint option" where
  "asInteger (IntegerValue n) = Some n"
| "asInteger _ = None"

fun asString :: "val \<Rightarrow> string16 option" where
  "asString (StringValue s) = Some s"
| "asString _ = None"

fun asSerialized :: "val \<Rightarrow> string16 option" where
  "asSerialized (SerializedValue s) = Some s"
| "asSerialized _ = None"

type_synonym dict = "val dictionary"

definition Dict :: "dict \<Rightarrow> val" where
  "Dict d = DictionaryValue (fst d) (snd d)"

text \<open>\<open>DictionaryValue::cast\<close> and \<open>ListValue::cast\<close>, of a pointer that may be null.\<close>

fun DictionaryValue_cast :: "val option \<Rightarrow> dict option" where
  "DictionaryValue_cast (Some (DictionaryValue m_data m_order)) = Some (m_data, m_order)"
| "DictionaryValue_cast _ = None"

fun ListValue_cast :: "val option \<Rightarrow> val list option" where
  "ListValue_cast (Some (ListValue m_data)) = Some m_data"
| "ListValue_cast _ = None"

definition setBoolean :: "string16 \<Rightarrow> bool \<Rightarrow> dict \<Rightarrow> dict" where
  "setBoolean name v d = dict_set name (BooleanValue v) d"

definition setInteger :: "string16 \<Rightarrow> cint \<Rightarrow> dict \<Rightarrow> dict" where
  "setInteger name v d = dict_set name (IntegerValue v) d"

definition setDouble :: "string16 \<Rightarrow> dbl \<Rightarrow> dict \<Rightarrow> dict" where
  "setDouble name v d = dict_set name (DoubleValue v) d"

definition setString :: "string16 \<Rightarrow> string16 \<Rightarrow> dict \<Rightarrow> dict" where
  "setString name v d = dict_set name (StringValue v) d"

definition setValue :: "string16 \<Rightarrow> val \<Rightarrow> dict \<Rightarrow> dict" where
  "setValue name v d = dict_set name v d"

definition setObject :: "string16 \<Rightarrow> dict \<Rightarrow> dict \<Rightarrow> dict" where
  "setObject name v d = dict_set name (Dict v) d"

definition setArray :: "string16 \<Rightarrow> val list \<Rightarrow> dict \<Rightarrow> dict" where
  "setArray name v d = dict_set name (ListValue v) d"

definition getBoolean :: "dict \<Rightarrow> string16 \<Rightarrow> bool option" where
  "getBoolean d name = (case dict_get d name of None \<Rightarrow> None | Some v \<Rightarrow> asBoolean v)"

definition getInteger :: "dict \<Rightarrow> string16 \<Rightarrow> cint option" where
  "getInteger d name = (case dict_get d name of None \<Rightarrow> None | Some v \<Rightarrow> asInteger v)"

definition getDouble :: "dict \<Rightarrow> string16 \<Rightarrow> dbl option" where
  "getDouble d name = (case dict_get d name of None \<Rightarrow> None | Some v \<Rightarrow> asDouble v)"

definition getString :: "dict \<Rightarrow> string16 \<Rightarrow> string16 option" where
  "getString d name = (case dict_get d name of None \<Rightarrow> None | Some v \<Rightarrow> asString v)"

definition getObject :: "dict \<Rightarrow> string16 \<Rightarrow> dict option" where
  "getObject d name = DictionaryValue_cast (dict_get d name)"

definition getArray :: "dict \<Rightarrow> string16 \<Rightarrow> val list option" where
  "getArray d name = ListValue_cast (dict_get d name)"

definition dict_at :: "dict \<Rightarrow> nat \<Rightarrow> (string16 \<times> val) option" where
  "dict_at d index =
     (if index < length (snd d)
      then map_option (Pair (snd d ! index)) (dict_get d (snd d ! index)) else None)"

definition booleanProperty :: "dict \<Rightarrow> string16 \<Rightarrow> bool \<Rightarrow> bool" where
  "booleanProperty d name defaultValue =
     (case getBoolean d name of None \<Rightarrow> defaultValue | Some r \<Rightarrow> r)"

definition integerProperty :: "dict \<Rightarrow> string16 \<Rightarrow> cint \<Rightarrow> cint" where
  "integerProperty d name defaultValue =
     (case getInteger d name of None \<Rightarrow> defaultValue | Some r \<Rightarrow> r)"

definition doubleProperty :: "dict \<Rightarrow> string16 \<Rightarrow> dbl \<Rightarrow> dbl" where
  "doubleProperty d name defaultValue =
     (case getDouble d name of None \<Rightarrow> defaultValue | Some r \<Rightarrow> r)"

lemmas set_defs = setBoolean_def setInteger_def setDouble_def setString_def setValue_def
  setObject_def setArray_def

lemmas get_defs = getBoolean_def getInteger_def getDouble_def getString_def getObject_def
  getArray_def

lemma Dict_cast [simp]: "DictionaryValue_cast (Some (Dict d)) = Some d"
  by (simp add: Dict_def)

lemma Dict_type [simp]: "val_type (Dict d) = TypeObject"
  by (simp add: Dict_def)

lemma Dict_inject [simp]: "Dict d = Dict e \<longleftrightarrow> d = e"
  by (cases d; cases e) (simp add: Dict_def)

text \<open>The invariant, at every dictionary inside a value.\<close>

fun wf_val :: "val \<Rightarrow> bool" where
  "wf_val (ListValue vs) = (\<forall>v \<in> set vs. wf_val v)"
| "wf_val (DictionaryValue m_data m_order) =
     (map fst m_data = m_order \<and> distinct m_order \<and> (\<forall>e \<in> set m_data. wf_val (snd e)))"
| "wf_val _ = True"

definition wf_dict :: "dict \<Rightarrow> bool" where
  "wf_dict d \<longleftrightarrow> wf_val (Dict d)"

lemma wf_dict_iff: "wf_dict d \<longleftrightarrow> dict_wf d \<and> (\<forall>e \<in> set (fst d). wf_val (snd e))"
  by (cases d) (auto simp: wf_dict_def dict_wf_def Dict_def)

lemma wf_dict_create [wf_intros]: "wf_dict dict_create"
  by (simp add: wf_dict_iff dict_wf_def dict_create_def)

lemma set_update_subset: "e \<in> set (AList.update k v ps) \<Longrightarrow> e = (k, v) \<or> e \<in> set ps"
  by (induction ps) (auto split: if_splits)

lemma wf_dict_set [wf_intros]:
  assumes "wf_dict d" and "wf_val v"
  shows "wf_dict (dict_set k v d)"
proof -
  have "wf_val (snd e)" if "e \<in> set (fst (dict_set k v d))" for e
    using that assms set_update_subset [of e k v "fst d"]
    by (auto simp: dict_set_def Let_def wf_dict_iff)
  with assms(1) show ?thesis by (simp add: wf_dict_iff dict.invar_setv)
qed

lemma wf_dict_remove [wf_intros]:
  assumes "wf_dict d"
  shows "wf_dict (dict_remove k d)"
proof -
  have "wf_val (snd e)" if "e \<in> set (fst (dict_remove k d))" for e
    using that assms by (auto simp: dict_remove_def AList.delete_eq wf_dict_iff)
  with assms show ?thesis by (simp add: wf_dict_iff dict.invar_remove)
qed

lemma wf_dict_get: "wf_dict d \<Longrightarrow> dict_get d k = Some v \<Longrightarrow> wf_val v"
  by (auto simp: wf_dict_iff dict_get_def dest!: map_of_SomeD)

lemma wf_val_Dict [simp]: "wf_val (Dict d) \<longleftrightarrow> wf_dict d"
  by (simp add: wf_dict_def)

end
