(* ===== verification/JsonWriter.thy ===== *)
theory JsonWriter
  imports Values
begin

section \<open>Writing and cloning values\<close>

text \<open>
  \<open>escapeChar\<close>, \<open>appendUnsignedAsHex\<close>, \<open>escapeStringForJSONInternal\<close>, the \<open>writeJSON\<close> and
  \<open>clone\<close> methods and \<open>Value::serialize\<close> of \<open>Generated/protocol/Protocol.cpp\<close>, and
  \<open>builderAppendQuotedString\<close> of \<open>StringUtil.cpp\<close>.  A writer takes the builder and returns it.
  \<open>json_text\<close> is the text a value stands for, by plain recursion; the writers append it.
\<close>

subsection \<open>Strings\<close>

definition escapeChar :: "uchar \<Rightarrow> string16 \<Rightarrow> string16 option" where
  "escapeChar c dst =
     (if c = uc (CHR 0x08) then Some (builderAppend dst (lit [CHR 0x5C, CHR ''b'']))
      else if c = uc (CHR 0x0C) then Some (builderAppend dst (lit [CHR 0x5C, CHR ''f'']))
      else if c = uc (CHR 0x0A) then Some (builderAppend dst (lit [CHR 0x5C, CHR ''n'']))
      else if c = uc (CHR 0x0D) then Some (builderAppend dst (lit [CHR 0x5C, CHR ''r'']))
      else if c = uc (CHR 0x09) then Some (builderAppend dst (lit [CHR 0x5C, CHR ''t'']))
      else if c = uc (CHR 0x5C) then Some (builderAppend dst (lit [CHR 0x5C, CHR 0x5C]))
      else if c = uc (CHR 0x22) then Some (builderAppend dst (lit [CHR 0x5C, CHR 0x22]))
      else None)"

definition hexDigits :: string where
  "hexDigits = ''0123456789ABCDEF''"

fun hex_loop :: "nat \<Rightarrow> uchar \<Rightarrow> string16 \<Rightarrow> string16" where
  "hex_loop 0 number dst = dst"
| "hex_loop (Suc i) number dst =
     hex_loop i (push_bit 4 number)
       (builderAppend_char dst (widen (hexDigits ! unat (drop_bit 12 (number AND 0xF000)))))"

definition appendUnsignedAsHex :: "uchar \<Rightarrow> string16 \<Rightarrow> string16" where
  "appendUnsignedAsHex number dst = hex_loop 4 number (builderAppend dst (lit [CHR 0x5C, CHR ''u'']))"

fun escapeStringForJSON :: "string16 \<Rightarrow> string16 \<Rightarrow> string16" where
  "escapeStringForJSON [] dst = dst"
| "escapeStringForJSON (c # str) dst =
     escapeStringForJSON str
       (case escapeChar c dst of
          Some dst' \<Rightarrow> dst'
        | None \<Rightarrow> if c < 32 \<or> c > 126 then appendUnsignedAsHex c dst else builderAppend_char dst c)"

definition builderAppendQuotedString :: "string16 \<Rightarrow> string16 \<Rightarrow> string16" where
  "builderAppendQuotedString builder s =
     (let b = builderAppend_char builder (uc (CHR 0x22));
          b' = (if \<not> string_empty s then escapeStringForJSON s b else b)
      in builderAppend_char b' (uc (CHR 0x22)))"

subsection \<open>Values\<close>

lemma size_map_of: "map_of m k = Some v \<Longrightarrow> size v < size_list (size_prod (\<lambda>_. 0) size) m"
  by (induction m) (auto split: if_splits)

function (sequential) writeJSON :: "val \<Rightarrow> string16 \<Rightarrow> string16 option"
  and writeItems :: "bool \<Rightarrow> val list \<Rightarrow> string16 \<Rightarrow> string16 option"
  and writeEntries ::
    "bool \<Rightarrow> (string16 \<times> val) list \<Rightarrow> string16 list \<Rightarrow> string16 \<Rightarrow> string16 option"
where
  "writeJSON NullValue output = Some (builderAppend_chars output ''null'')"
| "writeJSON (BooleanValue b) output =
     Some (builderAppend_chars output (if b then ''true'' else ''false''))"
| "writeJSON (DoubleValue d) output =
     Some (if \<not> isfinite d then builderAppend_chars output ''null''
           else builderAppend output (fromDouble d))"
| "writeJSON (IntegerValue n) output = Some (builderAppend output (fromInteger n))"
| "writeJSON (StringValue s) output = Some (builderAppendQuotedString output s)"
| "writeJSON (SerializedValue s) output = Some (builderAppend output s)"
| "writeJSON (ListValue m_data) output =
     (case writeItems True m_data (builderAppend_char output (uc (CHR ''['')))  of
        None \<Rightarrow> None
      | Some out \<Rightarrow> Some (builderAppend_char out (uc (CHR '']''))))"
| "writeJSON (DictionaryValue m_data m_order) output =
     (case writeEntries True m_data m_order (builderAppend_char output (uc (CHR ''{''))) of
        None \<Rightarrow> None
      | Some out \<Rightarrow> Some (builderAppend_char out (uc (CHR ''}''))))"
| "writeItems first [] output = Some output"
| "writeItems first (value # m_data) output =
     (case writeJSON value (if \<not> first then builderAppend_char output (uc (CHR '','')) else output)
      of None \<Rightarrow> None | Some out \<Rightarrow> writeItems False m_data out)"
| "writeEntries first m_data [] output = Some output"
| "writeEntries first m_data (key # order) output =
     (case map_of m_data key of
        None \<Rightarrow> None
      | Some value \<Rightarrow>
          (let out = (if \<not> first then builderAppend_char output (uc (CHR '','')) else output)
           in case writeJSON value
                     (builderAppend_char (builderAppendQuotedString out key) (uc (CHR '':''))) of
                None \<Rightarrow> None
              | Some out' \<Rightarrow> writeEntries False m_data order out'))"
  by pat_completeness auto

termination
  by (relation "measures [
        \<lambda>x. case x of
          Inl (v, _) \<Rightarrow> size v
        | Inr (Inl (_, vs, _)) \<Rightarrow> size_list size vs
        | Inr (Inr (_, m, _, _)) \<Rightarrow> size_list (size_prod (\<lambda>_. 0) size) m,
        \<lambda>x. case x of Inr (Inr (_, _, ks, _)) \<Rightarrow> length ks | _ \<Rightarrow> 0]")
    (auto dest: size_map_of)

text \<open>\<open>Value::serialize\<close>: a fresh builder, written and read out.\<close>

definition serialize :: "val \<Rightarrow> string16 option" where
  "serialize v = writeJSON v []"

function (sequential) clone :: "val \<Rightarrow> val option"
  and cloneItems :: "val list \<Rightarrow> val list \<Rightarrow> val list option"
  and cloneEntries :: "(string16 \<times> val) list \<Rightarrow> string16 list \<Rightarrow> dict \<Rightarrow> dict option"
where
  "clone (ListValue m_data) = map_option ListValue (cloneItems m_data [])"
| "clone (DictionaryValue m_data m_order) = map_option Dict (cloneEntries m_data m_order dict_create)"
| "clone v = Some v"
| "cloneItems [] result = Some result"
| "cloneItems (value # m_data) result =
     (case clone value of None \<Rightarrow> None | Some v \<Rightarrow> cloneItems m_data (result @ [v]))"
| "cloneEntries m_data [] result = Some result"
| "cloneEntries m_data (key # order) result =
     (case map_of m_data key of
        None \<Rightarrow> None
      | Some value \<Rightarrow>
          (case clone value of
             None \<Rightarrow> None
           | Some v \<Rightarrow> cloneEntries m_data order (setValue key v result)))"
  by pat_completeness auto

termination
  by (relation "measures [
        \<lambda>x. case x of
          Inl v \<Rightarrow> size v
        | Inr (Inl (vs, _)) \<Rightarrow> size_list size vs
        | Inr (Inr (m, _, _)) \<Rightarrow> size_list (size_prod (\<lambda>_. 0) size) m,
        \<lambda>x. case x of Inr (Inr (_, ks, _)) \<Rightarrow> length ks | _ \<Rightarrow> 0]")
    (auto dest: size_map_of)

subsection \<open>The text of a value\<close>

definition hex_text :: "uchar \<Rightarrow> string16" where
  "hex_text c = hex_loop 4 c []"

definition esc_char :: "uchar \<Rightarrow> string16" where
  "esc_char c =
     (case escapeChar c [] of
        Some t \<Rightarrow> t
      | None \<Rightarrow> if c < 32 \<or> c > 126 then lit [CHR 0x5C, CHR ''u''] @ hex_text c else [c])"

definition quoted :: "string16 \<Rightarrow> string16" where
  "quoted s = uc (CHR 0x22) # concat (map esc_char s) @ [uc (CHR 0x22)]"

fun json_text :: "val \<Rightarrow> string16" where
  "json_text NullValue = lit ''null''"
| "json_text (BooleanValue b) = (if b then lit ''true'' else lit ''false'')"
| "json_text (DoubleValue d) = (if isfinite d then fromDouble d else lit ''null'')"
| "json_text (IntegerValue n) = fromInteger n"
| "json_text (StringValue s) = quoted s"
| "json_text (SerializedValue s) = s"
| "json_text (ListValue vs) =
     uc (CHR ''['') # join [uc (CHR '','')] (map json_text vs) @ [uc (CHR '']'')]"
| "json_text (DictionaryValue m_data m_order) =
     uc (CHR ''{'') #
     join [uc (CHR '','')] (map (\<lambda>e. quoted (fst e) @ uc (CHR '':'') # json_text (snd e)) m_data) @
     [uc (CHR ''}'')]"

lemma hex_loop_append: "hex_loop i c (b @ d) = b @ hex_loop i c d"
  by (induction i arbitrary: c d) (simp_all add: builderAppend_char_def)

lemma escapeChar_append: "escapeChar c (b @ d) = map_option ((@) b) (escapeChar c d)"
  by (simp add: escapeChar_def builderAppend_def)

lemma appendUnsignedAsHex_text:
  "appendUnsignedAsHex c b = b @ lit [CHR 0x5C, CHR ''u''] @ hex_text c"
  using hex_loop_append [of 4 c "b @ lit [CHR 0x5C, CHR ''u'']" "[]"]
  by (simp add: appendUnsignedAsHex_def hex_text_def builderAppend_def)

lemma escapeStringForJSON_text: "escapeStringForJSON s b = b @ concat (map esc_char s)"
proof (induction s arbitrary: b)
  case (Cons c s)
  have "(case escapeChar c b of Some d \<Rightarrow> d
         | None \<Rightarrow> if c < 32 \<or> c > 126 then appendUnsignedAsHex c b else builderAppend_char b c)
        = b @ esc_char c"
    using escapeChar_append [of c b "[]"]
    by (auto simp: esc_char_def appendUnsignedAsHex_text builderAppend_char_def split: option.splits)
  with Cons show ?case by simp
qed simp

lemma builderAppendQuotedString_text: "builderAppendQuotedString b s = b @ quoted s"
  by (simp add: builderAppendQuotedString_def quoted_def escapeStringForJSON_text
      builderAppend_char_def string_empty_def Let_def)

lemma builderAppend_chars_lit: "builderAppend_chars b s = b @ lit s"
  by (simp add: builderAppend_chars_def String16_chars_def)

lemmas writer_simps = builderAppend_def builderAppend_char_def builderAppend_chars_lit
  builderAppendQuotedString_text

text \<open>What a loop appends after \<open>first\<close> has been cleared.\<close>

definition sep_text :: "bool \<Rightarrow> string16 list \<Rightarrow> string16" where
  "sep_text first xs =
     (if first then join [uc (CHR '','')] xs else concat (map (\<lambda>x. uc (CHR '','') # x) xs))"

lemma sep_text_Cons:
  "sep_text first (x # xs) = (if first then [] else [uc (CHR '','')]) @ x @ sep_text False xs"
  by (simp add: sep_text_def join_Cons)

lemma sep_text_Nil [simp]: "sep_text first [] = []"
  by (simp add: sep_text_def)

definition entry_text :: "string16 \<times> val \<Rightarrow> string16" where
  "entry_text e = quoted (fst e) @ uc (CHR '':'') # json_text (snd e)"

lemma writeJSON_text:
  "wf_val v \<Longrightarrow> writeJSON v out = Some (out @ json_text v)"
  "\<forall>v \<in> set vs. wf_val v \<Longrightarrow>
     writeItems first vs out = Some (out @ sep_text first (map json_text vs))"
  "distinct (map fst m) \<Longrightarrow> \<forall>e \<in> set m. wf_val (snd e) \<Longrightarrow> set es \<subseteq> set m \<Longrightarrow>
     ks = map fst es \<Longrightarrow>
     writeEntries first m ks out = Some (out @ sep_text first (map entry_text es))"
proof (induction v out and first vs out and first m ks out arbitrary: and and es
    rule: writeJSON_writeItems_writeEntries.induct)
  case (8 m_data m_order b)
  then have "writeEntries True m_data m_order (builderAppend_char b (uc (CHR ''{''))) =
      Some (b @ uc (CHR ''{'') # sep_text True (map entry_text m_data))"
    by (auto simp: builderAppend_char_def)
  then show ?case
    by (simp add: writer_simps sep_text_def entry_text_def [abs_def])
next
  case (12 first m_data key order b)
  then obtain e es' where es: "es = e # es'" by (cases es) auto
  with 12 have mo: "map_of m_data key = Some (snd e)" and key: "key = fst e" by auto
  let ?b = "(if \<not> first then builderAppend_char b (uc (CHR '','')) else b)"
  have step: "writeEntries first m_data (key # order) b =
      (case writeJSON (snd e) (?b @ quoted key @ [uc (CHR '':'')]) of
         None \<Rightarrow> None | Some out \<Rightarrow> writeEntries False m_data order out)"
    using mo by (simp add: Let_def writer_simps)
  from es 12(3-) have wf: "wf_val (snd e)" and sub: "set es' \<subseteq> set m_data" "order = map fst es'"
    by auto
  from 12(1) [OF mo refl wf] have "writeJSON (snd e) (?b @ quoted key @ [uc (CHR '':'')]) =
      Some (?b @ entry_text e)"
    by (simp add: writer_simps entry_text_def key)
  with 12(2) [OF mo refl _ _ _ sub] 12(3,4) show ?case
    unfolding step es by (simp add: writer_simps sep_text_Cons entry_text_def key)
qed (auto simp: writer_simps sep_text_Cons sep_text_def [of True])

lemma clone_id:
  "wf_val v \<Longrightarrow> clone v = Some v"
  "\<forall>v \<in> set vs. wf_val v \<Longrightarrow> cloneItems vs r = Some (r @ vs)"
  "distinct (map fst m) \<Longrightarrow> \<forall>e \<in> set m. wf_val (snd e) \<Longrightarrow> set es \<subseteq> set m \<Longrightarrow>
     ks = map fst es \<Longrightarrow> cloneEntries m ks d = Some (fold (\<lambda>(k, v). dict_set k v) es d)"
proof (induction v and vs r and m ks d arbitrary: and and es
    rule: clone_cloneItems_cloneEntries.induct)
  case (2 m_data m_order)
  then have "cloneEntries m_data m_order dict_create =
      Some (fold (\<lambda>(k, v). dict_set k v) m_data dict_create)"
    by auto
  with 2 show ?case by (simp add: dict_fold_fresh Dict_def)
next
  case (7 m_data key order r)
  then obtain e es' where es: "es = e # es'" by (cases es) auto
  with 7 have mo: "map_of m_data key = Some (snd e)" and key: "key = fst e" by auto
  from es 7(3-) have wf: "wf_val (snd e)" and sub: "set es' \<subseteq> set m_data" "order = map fst es'"
    by auto
  have "cloneEntries m_data (key # order) r = cloneEntries m_data order (setValue key (snd e) r)"
    using mo 7(1) [OF mo wf] by simp
  with 7(2) [OF mo 7(1) [OF mo wf] 7(3,4) sub] show ?case
    by (simp add: es setValue_def key split: prod.splits)
qed auto

end
