(* ===== verification/JsonParser.thy ===== *)
theory JsonParser
  imports JsonWriter
begin

section \<open>The JSON parser\<close>

text \<open>
  The anonymous namespace at the end of \<open>Generated/protocol/Protocol.cpp\<close> and
  \<open>StringUtil::parseJSON\<close>.  The code works on pointers \<open>start\<close> and \<open>end\<close> into one buffer; \<open>end\<close>
  never moves, so a pointer is the list of characters from it to \<open>end\<close>, and a token's text is what
  lies between two pointers.  A scanner that returns false is \<open>None\<close>.
\<close>

definition stackLimit :: nat where
  "stackLimit = 1000"

datatype Token =
    ObjectBegin | ObjectEnd | ArrayBegin | ArrayEnd | StringLiteral | Number | BoolTrue | BoolFalse
  | NullToken | ListSeparator | ObjectPairSeparator | InvalidToken

subsection \<open>Characters and numbers\<close>

definition isASCII :: "uchar \<Rightarrow> bool" where
  "isASCII c \<longleftrightarrow> c AND NOT 0x7F = 0"

definition isSpaceOrNewLine :: "uchar \<Rightarrow> bool" where
  "isSpaceOrNewLine c \<longleftrightarrow>
     isASCII c \<and> c \<le> uc (CHR '' '') \<and> (c = uc (CHR '' '') \<or> (c \<le> 0xD \<and> c \<ge> 0x9))"

definition charactersToDouble :: "string16 \<Rightarrow> dbl option" where
  "charactersToDouble characters =
     (if \<exists>c \<in> set characters. \<not> isASCII c then None
      else toDouble (map (\<lambda>c. char_of (unat c)) characters))"

text \<open>
  \<open>while (start < end && *token && *start++ == *token++) {}\<close>: the characters are compared after
  both pointers have moved, so a mismatch in the last character of the token leaves \<open>token\<close> at its
  end, and the test \<open>*token != 0\<close> that follows does not see it.
\<close>

fun parseConstToken :: "string16 \<Rightarrow> string \<Rightarrow> string16 option" where
  "parseConstToken start [] = Some start"
| "parseConstToken [] (t # token) = None"
| "parseConstToken (c # start) (t # token) =
     (if c = uc t then parseConstToken start token
      else if token = [] then Some start else None)"

definition isDigit16 :: "uchar \<Rightarrow> bool" where
  "isDigit16 c \<longleftrightarrow> uc (CHR ''0'') \<le> c \<and> c \<le> uc (CHR ''9'')"

definition readInt :: "string16 \<Rightarrow> bool \<Rightarrow> string16 option" where
  "readInt start canHaveLeadingZeros =
     (if start = [] then None
      else let haveLeadingZero = (hd start = uc (CHR ''0''));
               len = length (takeWhile isDigit16 start)
           in if len = 0 then None
              else if \<not> canHaveLeadingZeros \<and> len > 1 \<and> haveLeadingZero then None
              else Some (dropWhile isDigit16 start))"

text \<open>The optional exponent, from the character after the mantissa.\<close>

definition parseExponent :: "string16 \<Rightarrow> string16 option" where
  "parseExponent start =
     (if hd start = uc (CHR ''e'') \<or> hd start = uc (CHR ''E'') then
        (let s1 = tl start in
         if s1 = [] then None
         else if hd s1 = uc (CHR ''-'') \<or> hd s1 = uc (CHR ''+'') then
           (let s2 = tl s1 in if s2 = [] then None else readInt s2 True)
         else readInt s1 True)
      else Some start)"

definition parseNumberToken :: "string16 \<Rightarrow> string16 option" where
  "parseNumberToken start =
     (if start = [] then None
      else let s1 = (if hd start = uc (CHR ''-'') then tl start else start)
           in case readInt s1 False of
                None \<Rightarrow> None
              | Some s2 \<Rightarrow>
                  if s2 = [] then Some s2
                  else if hd s2 = uc (CHR ''.'') then
                    (case readInt (tl s2) True of
                       None \<Rightarrow> None
                     | Some s3 \<Rightarrow> if s3 = [] then Some s3 else parseExponent s3)
                  else parseExponent s2)"

subsection \<open>Strings\<close>

definition isHexDigit :: "uchar \<Rightarrow> bool" where
  "isHexDigit c \<longleftrightarrow>
     (uc (CHR ''0'') \<le> c \<and> c \<le> uc (CHR ''9'')) \<or> (uc (CHR ''a'') \<le> c \<and> c \<le> uc (CHR ''f'')) \<or>
     (uc (CHR ''A'') \<le> c \<and> c \<le> uc (CHR ''F''))"

definition readHexDigits :: "string16 \<Rightarrow> nat \<Rightarrow> string16 option" where
  "readHexDigits start digits =
     (if length start < digits then None
      else if list_all isHexDigit (take digits start) then Some (drop digits start) else None)"

lemma readHexDigits_suffix [progress]: "readHexDigits s n = Some r \<Longrightarrow> is_suffix r s"
  unfolding readHexDigits_def is_suffix_def
  by (metis append_take_drop_id option.distinct(1) option.inject)

definition isSimpleEscape :: "uchar \<Rightarrow> bool" where
  "isSimpleEscape c \<longleftrightarrow>
     c = uc (CHR 0x5C) \<or> c = uc (CHR ''/'') \<or> c = uc (CHR ''b'') \<or> c = uc (CHR ''f'') \<or>
     c = uc (CHR ''n'') \<or> c = uc (CHR ''r'') \<or> c = uc (CHR ''t'') \<or> c = uc (CHR ''v'') \<or>
     c = uc (CHR 0x22)"

function (sequential) parseStringToken :: "string16 \<Rightarrow> string16 option" where
  "parseStringToken [] = None"
| "parseStringToken (c # start) =
     (if c = uc (CHR 0x5C) then
        (case start of
           [] \<Rightarrow> None
         | d # start' \<Rightarrow>
             if d = uc (CHR ''x'') then
               (case readHexDigits start' 2 of None \<Rightarrow> None | Some r \<Rightarrow> parseStringToken r)
             else if d = uc (CHR ''u'') then
               (case readHexDigits start' 4 of None \<Rightarrow> None | Some r \<Rightarrow> parseStringToken r)
             else if isSimpleEscape d then parseStringToken start'
             else None)
      else if c = uc (CHR 0x22) then Some start
      else parseStringToken start)"
  by pat_completeness auto
termination
  by (relation "measure length") (auto dest!: readHexDigits_suffix is_suffix_length)

fun hexToInt :: "uchar \<Rightarrow> nat" where
  "hexToInt c =
     (if uc (CHR ''0'') \<le> c \<and> c \<le> uc (CHR ''9'') then unat c - 48
      else if uc (CHR ''A'') \<le> c \<and> c \<le> uc (CHR ''F'') then unat c - 65 + 10
      else if uc (CHR ''a'') \<le> c \<and> c \<le> uc (CHR ''f'') then unat c - 97 + 10
      else 0)"

text \<open>
  \<open>decodeString\<close> on the text between the quotes.  The \<open>u\<close> case reads four characters without
  looking at \<open>end\<close>; in a text accepted by \<open>parseStringToken\<close> they are there.
\<close>

definition decodeEscape :: "uchar \<Rightarrow> uchar option" where
  "decodeEscape c =
     (if c = uc (CHR 0x22) \<or> c = uc (CHR ''/'') \<or> c = uc (CHR 0x5C) then Some c
      else if c = uc (CHR ''b'') then Some (uc (CHR 0x08))
      else if c = uc (CHR ''f'') then Some (uc (CHR 0x0C))
      else if c = uc (CHR ''n'') then Some (uc (CHR 0x0A))
      else if c = uc (CHR ''r'') then Some (uc (CHR 0x0D))
      else if c = uc (CHR ''t'') then Some (uc (CHR 0x09))
      else if c = uc (CHR ''v'') then Some (uc (CHR 0x0B))
      else None)"

fun decodeString :: "string16 \<Rightarrow> string16 \<Rightarrow> string16 option" where
  "decodeString [] builder = Some builder"
| "decodeString (c # start) builder =
     (if c \<noteq> uc (CHR 0x5C) then decodeString start (builderAppend_char builder c)
      else case start of
             [] \<Rightarrow> None
           | d # start' \<Rightarrow>
               if d = uc (CHR ''x'') then None
               else if d = uc (CHR ''u'') then
                 (case start' of
                    h1 # h2 # h3 # h4 # rest \<Rightarrow>
                      decodeString rest
                        (builderAppend_char builder
                          (word_of_nat (hexToInt h1 * 4096 + hexToInt h2 * 256 + hexToInt h3 * 16 +
                             hexToInt h4)))
                  | _ \<Rightarrow> None)
               else (case decodeEscape d of
                       None \<Rightarrow> None
                     | Some e \<Rightarrow> decodeString start' (builderAppend_char builder e)))"

subsection \<open>White space and comments\<close>

fun skipLineComment :: "string16 \<Rightarrow> string16" where
  "skipLineComment [] = []"
| "skipLineComment (c # start) =
     (if c = uc (CHR 0x0A) \<or> c = uc (CHR 0x0D) then start else skipLineComment start)"

fun skipBlockComment :: "uchar \<Rightarrow> string16 \<Rightarrow> string16 option" where
  "skipBlockComment previous [] = None"
| "skipBlockComment previous (c # start) =
     (if previous = uc (CHR ''*'') \<and> c = uc (CHR ''/'') then Some start
      else skipBlockComment c start)"

fun skipComment :: "string16 \<Rightarrow> string16 option" where
  "skipComment (c # d # start) =
     (if c \<noteq> uc (CHR ''/'') then None
      else if d = uc (CHR ''/'') then Some (skipLineComment start)
      else if d = uc (CHR ''*'') then skipBlockComment 0 start
      else None)"
| "skipComment _ = None"

lemma skipLineComment_suffix [progress]: "is_suffix (skipLineComment s) s"
  by (induction s) (auto intro: is_suffix_Cons)

lemma skipBlockComment_suffix [progress]: "skipBlockComment p s = Some r \<Longrightarrow> is_suffix r s"
  by (induction p s rule: skipBlockComment.induct) (auto intro: is_suffix_Cons split: if_splits)

lemma skipComment_suffix [progress]:
  "skipComment s = Some r \<Longrightarrow> is_suffix r s \<and> length r < length s"
  by (cases s rule: skipComment.cases)
    (auto intro!: is_suffix_Cons split: if_splits dest: skipBlockComment_suffix
      dest!: is_suffix_length simp: skipLineComment_suffix less_Suc_eq_le
      intro: le_SucI [OF is_suffix_length [OF skipLineComment_suffix]])

function (sequential) skipWhitespaceAndComments :: "string16 \<Rightarrow> string16" where
  "skipWhitespaceAndComments [] = []"
| "skipWhitespaceAndComments (c # start) =
     (if isSpaceOrNewLine c then skipWhitespaceAndComments start
      else if c = uc (CHR ''/'') then
        (case skipComment (c # start) of
           None \<Rightarrow> c # start
         | Some commentEnd \<Rightarrow> skipWhitespaceAndComments commentEnd)
      else c # start)"
  by pat_completeness auto
termination
  by (relation "measure length") (auto dest: skipComment_suffix)

lemma skipWhitespaceAndComments_suffix [progress]: "is_suffix (skipWhitespaceAndComments s) s"
proof (induction s rule: skipWhitespaceAndComments.induct)
  case (2 c start)
  then show ?case
    by (auto intro: is_suffix_Cons is_suffix_trans dest: skipComment_suffix split: option.splits)
qed simp

subsection \<open>Tokens\<close>

text \<open>
  \<open>parseToken\<close> returns the token and the pointers \<open>tokenStart\<close> and \<open>tokenEnd\<close>.  Where the code
  leaves \<open>tokenEnd\<close> unset (an invalid token), no caller reads it.
\<close>

definition found :: "Token \<Rightarrow> string16 \<Rightarrow> string16 option \<Rightarrow> Token \<times> string16 \<times> string16" where
  "found token s tokenEnd =
     (case tokenEnd of Some e \<Rightarrow> (token, s, e) | None \<Rightarrow> (InvalidToken, s, s))"

definition parseToken :: "string16 \<Rightarrow> Token \<times> string16 \<times> string16" where
  "parseToken start =
     (let s = skipWhitespaceAndComments start in
      case s of
        [] \<Rightarrow> (InvalidToken, s, s)
      | c # rest \<Rightarrow>
          if c = uc (CHR ''n'') then found NullToken s (parseConstToken s ''null'')
          else if c = uc (CHR ''t'') then found BoolTrue s (parseConstToken s ''true'')
          else if c = uc (CHR ''f'') then found BoolFalse s (parseConstToken s ''false'')
          else if c = uc (CHR ''['') then (ArrayBegin, s, rest)
          else if c = uc (CHR '']'') then (ArrayEnd, s, rest)
          else if c = uc (CHR '','') then (ListSeparator, s, rest)
          else if c = uc (CHR ''{'') then (ObjectBegin, s, rest)
          else if c = uc (CHR ''}'') then (ObjectEnd, s, rest)
          else if c = uc (CHR '':'') then (ObjectPairSeparator, s, rest)
          else if isDigit16 c \<or> c = uc (CHR ''-'') then found Number s (parseNumberToken s)
          else if c = uc (CHR 0x22) then found StringLiteral s (parseStringToken rest)
          else (InvalidToken, s, s))"

lemma parseConstToken_suffix [progress]: "parseConstToken s t = Some r \<Longrightarrow> is_suffix r s"
  by (induction s t rule: parseConstToken.induct) (auto intro: is_suffix_Cons split: if_splits)

lemma dropWhile_suffix: "is_suffix (dropWhile P s) s"
  unfolding is_suffix_def by (metis takeWhile_dropWhile_id)

lemma dropWhile_shorter: "takeWhile P s \<noteq> [] \<Longrightarrow> length (dropWhile P s) < length s"
  by (cases s) (auto simp: less_Suc_eq_le is_suffix_length dropWhile_suffix split: if_splits)

lemma readInt_suffix [progress]: "readInt s b = Some r \<Longrightarrow> is_suffix r s \<and> length r < length s"
  by (auto simp: readInt_def Let_def dropWhile_suffix dropWhile_shorter split: if_splits)

lemma is_suffix_tl: "is_suffix r (tl s) \<Longrightarrow> is_suffix r s"
  by (cases s) (auto intro: is_suffix_Cons)

lemma parseExponent_suffix [progress]: "parseExponent s = Some r \<Longrightarrow> is_suffix r s"
  by (auto simp: parseExponent_def Let_def split: if_splits
      dest!: readInt_suffix dest: is_suffix_tl)

lemma parseNumberToken_suffix [progress]:
  assumes "parseNumberToken s = Some r"
  shows "is_suffix r s \<and> length r < length s"
proof -
  obtain s2 where s2: "readInt (if hd s = uc (CHR ''-'') then tl s else s) False = Some s2"
    using assms by (auto simp: parseNumberToken_def Let_def split: if_splits option.splits)
  then have 1: "is_suffix s2 s \<and> length s2 < length s"
    by (cases s) (auto split: if_splits dest!: readInt_suffix intro: is_suffix_Cons)
  have "is_suffix r s2"
    using assms s2
    by (auto simp: parseNumberToken_def Let_def split: if_splits option.splits
        dest!: parseExponent_suffix readInt_suffix dest: is_suffix_tl is_suffix_trans)
  with 1 show ?thesis using is_suffix_trans [of r s2 s] is_suffix_length [of r s2] by auto
qed

lemma parseStringToken_suffix [progress]: "parseStringToken s = Some r \<Longrightarrow> is_suffix r s"
proof (induction s rule: parseStringToken.induct)
  case (2 c start)
  then show ?case
    by (auto intro!: is_suffix_Cons split: if_splits list.splits option.splits
        dest!: readHexDigits_suffix intro: is_suffix_trans)
qed simp

lemma parseConstToken_shorter:
  "parseConstToken s t = Some r \<Longrightarrow> t \<noteq> [] \<Longrightarrow> length r < length s"
  by (induction s t rule: parseConstToken.induct)
    (auto split: if_splits dest!: parseConstToken_suffix is_suffix_length)

text \<open>A token is never empty: \<open>tokenEnd\<close> lies behind \<open>start\<close>.\<close>

lemma parseToken_shorter:
  assumes "parseToken s = (t, ts, te)" and "t \<noteq> InvalidToken"
  shows "length te < length s" and "is_suffix te ts" and "is_suffix ts s"
proof -
  let ?s = "skipWhitespaceAndComments s"
  have ts: "ts = ?s"
    using assms by (auto simp: parseToken_def found_def Let_def split: list.splits if_splits option.splits)
  then show suf: "is_suffix ts s" by (simp add: progress)
  have "is_suffix te ts \<and> length te < length ts"
    using assms ts
    by (auto simp: parseToken_def found_def Let_def split: list.splits if_splits option.splits
        dest: parseConstToken_suffix parseNumberToken_suffix parseConstToken_shorter
        dest!: parseStringToken_suffix intro: is_suffix_Cons simp: less_Suc_eq_le is_suffix_length)
  with suf show "is_suffix te ts" and "length te < length s"
    using is_suffix_length [of ts s] by auto
qed

end
