(* ===== verification/JsonBuild.thy ===== *)
theory JsonBuild
  imports JsonParser
begin

section \<open>Building values: \<open>buildValue\<close> and \<open>parseJSON\<close>\<close>

text \<open>
  The two \<open>while\<close> loops of \<open>buildValue\<close> are \<open>arrayLoop\<close> and \<open>objectLoop\<close>; each starts where the
  loop head does, with \<open>token\<close> read at \<open>start\<close>.  The three functions recurse through each other on
  the pointer the callee leaves in \<open>tokenEnd\<close>, so their termination rests on what they return:
  \<open>build_progress\<close> is proved on their domain first.
\<close>

text \<open>\<open>static_cast<int>\<close> of the value, kept as an integer when the cast lost nothing.\<close>

definition buildNumber :: "string16 \<Rightarrow> val option" where
  "buildNumber text =
     (case charactersToDouble text of
        None \<Rightarrow> None
      | Some v \<Rightarrow>
          (let number = cast_int v
           in Some (if dbl_eq (dbl_of_int (sint number)) v then IntegerValue number
                    else DoubleValue v)))"

text \<open>The characters between the quotes: \<open>tokenStart + 1\<close> to \<open>tokenEnd - 1\<close>.\<close>

definition stringText :: "string16 \<Rightarrow> string16 \<Rightarrow> string16" where
  "stringText tokenStart tokenEnd = tl (butlast (text_between tokenStart tokenEnd))"

function (sequential)
  buildValue :: "nat \<Rightarrow> string16 \<Rightarrow> (val \<times> string16) option"
  and arrayLoop :: "nat \<Rightarrow> string16 \<Rightarrow> val list \<Rightarrow> (val list \<times> string16) option"
  and objectLoop :: "nat \<Rightarrow> string16 \<Rightarrow> dict \<Rightarrow> (dict \<times> string16) option"
where
  "buildValue depth start =
     (if depth > stackLimit then None
      else case parseToken start of (token, tokenStart, tokenEnd) \<Rightarrow>
        (case token of
           NullToken \<Rightarrow> Some (NullValue, skipWhitespaceAndComments tokenEnd)
         | BoolTrue \<Rightarrow> Some (BooleanValue True, skipWhitespaceAndComments tokenEnd)
         | BoolFalse \<Rightarrow> Some (BooleanValue False, skipWhitespaceAndComments tokenEnd)
         | Number \<Rightarrow>
             (case buildNumber (text_between tokenStart tokenEnd) of
                None \<Rightarrow> None
              | Some v \<Rightarrow> Some (v, skipWhitespaceAndComments tokenEnd))
         | StringLiteral \<Rightarrow>
             (case decodeString (stringText tokenStart tokenEnd) [] of
                None \<Rightarrow> None
              | Some s \<Rightarrow> Some (StringValue s, skipWhitespaceAndComments tokenEnd))
         | ArrayBegin \<Rightarrow>
             (case arrayLoop depth tokenEnd [] of
                None \<Rightarrow> None
              | Some (array, e) \<Rightarrow> Some (ListValue array, skipWhitespaceAndComments e))
         | ObjectBegin \<Rightarrow>
             (case objectLoop depth tokenEnd dict_create of
                None \<Rightarrow> None
              | Some (object, e) \<Rightarrow> Some (Dict object, skipWhitespaceAndComments e))
         | _ \<Rightarrow> None))"
| "arrayLoop depth start array =
     (case parseToken start of (token, tokenStart, tokenEnd) \<Rightarrow>
        if token = ArrayEnd then Some (array, tokenEnd)
        else case buildValue (Suc depth) start of
               None \<Rightarrow> None
             | Some (arrayNode, start1) \<Rightarrow>
                 (case parseToken start1 of (token1, _, start2) \<Rightarrow>
                    if token1 = ListSeparator then
                      (case parseToken start2 of (token2, _, _) \<Rightarrow>
                         if token2 = ArrayEnd then None
                         else arrayLoop depth start2 (array @ [arrayNode]))
                    else if token1 \<noteq> ArrayEnd then None
                    else Some (array @ [arrayNode], start2)))"
| "objectLoop depth start object =
     (case parseToken start of (token, tokenStart, tokenEnd) \<Rightarrow>
        if token = ObjectEnd then Some (object, tokenEnd)
        else if token \<noteq> StringLiteral then None
        else case decodeString (stringText tokenStart tokenEnd) [] of
               None \<Rightarrow> None
             | Some key \<Rightarrow>
                 (case parseToken tokenEnd of (token1, _, start1) \<Rightarrow>
                    if token1 \<noteq> ObjectPairSeparator then None
                    else case buildValue (Suc depth) start1 of
                           None \<Rightarrow> None
                         | Some (v, start2) \<Rightarrow>
                             (case parseToken start2 of (token2, _, start3) \<Rightarrow>
                                if token2 = ListSeparator then
                                  (case parseToken start3 of (token3, _, _) \<Rightarrow>
                                     if token3 = ObjectEnd then None
                                     else objectLoop depth start3 (setValue key v object))
                                else if token2 \<noteq> ObjectEnd then None
                                else Some (setValue key v object, start3))))"
  by pat_completeness auto

lemma skip_shorter: "length te < n \<Longrightarrow> length (skipWhitespaceAndComments te) < n"
  using is_suffix_length [OF skipWhitespaceAndComments_suffix [of te]] by simp

lemmas token_shorter = parseToken_shorter(1)

lemma build_progress:
  "buildValue_arrayLoop_objectLoop_dom (Inl (d, s)) \<Longrightarrow>
     buildValue d s = Some (v, r) \<Longrightarrow> length r < length s"
  "buildValue_arrayLoop_objectLoop_dom (Inr (Inl (d, s, a))) \<Longrightarrow>
     arrayLoop d s a = Some (b, r) \<Longrightarrow> length r < length s"
  "buildValue_arrayLoop_objectLoop_dom (Inr (Inr (d, s, ob))) \<Longrightarrow>
     objectLoop d s ob = Some (ob', r) \<Longrightarrow> length r < length s"
proof (induction d s and d s a and d s ob arbitrary: v r and b r and ob' r
    rule: buildValue_arrayLoop_objectLoop.pinduct)
  case (1 d s)
  obtain t ts te where pt: "parseToken s = (t, ts, te)" by (rule prod_cases3)
  have sh: "t \<noteq> InvalidToken \<Longrightarrow> length te < length s" using token_shorter [OF pt] .
  have lt: "length r' < length te \<Longrightarrow> length te < length s \<Longrightarrow>
      length (skipWhitespaceAndComments r') < length s" for r'
    by (intro skip_shorter) simp
  from 1(4) have ok: "\<not> stackLimit < d" by (auto simp: buildValue.psimps [OF 1(1)] split: if_splits)
  show ?case
    using 1(4) ok sh 1(2) [OF ok pt [symmetric] refl] 1(3) [OF ok pt [symmetric] refl] lt
    by (cases t) (auto simp: buildValue.psimps [OF 1(1)] pt split: option.splits prod.splits
        intro!: skip_shorter)
next
  case (2 d s a)
  obtain t ts te where pt: "parseToken s = (t, ts, te)" by (rule prod_cases3)
  show ?case
  proof (cases "t = ArrayEnd")
    case True
    with 2(4) pt token_shorter [OF pt] show ?thesis by (simp add: arrayLoop.psimps [OF 2(1)])
  next
    case False
    with 2(4) pt obtain n s1 where n: "buildValue (Suc d) s = Some (n, s1)"
      by (auto simp: arrayLoop.psimps [OF 2(1)] split: option.splits)
    have l1: "length s1 < length s" using 2(2) [OF pt [symmetric] refl False n] .
    obtain t1 ts1 s2 where pt1: "parseToken s1 = (t1, ts1, s2)" by (rule prod_cases3)
    have l2: "t1 \<noteq> InvalidToken \<Longrightarrow> length s2 < length s" using token_shorter [OF pt1] l1 by simp
    show ?thesis
      using 2(4) False n pt pt1 l2 2(3) [OF pt [symmetric] refl False n refl pt1 [symmetric] refl]
      by (auto simp: arrayLoop.psimps [OF 2(1)] split: if_splits prod.splits) (metis less_trans)+
  qed
next
  case (3 d s ob)
  obtain t ts te where pt: "parseToken s = (t, ts, te)" by (rule prod_cases3)
  show ?case
  proof (cases "t = ObjectEnd")
    case True
    with 3(4) pt token_shorter [OF pt] show ?thesis by (simp add: objectLoop.psimps [OF 3(1)])
  next
    case False
    with 3(4) pt obtain key where t: "t = StringLiteral"
      and key: "decodeString (stringText ts te) [] = Some key"
      by (auto simp: objectLoop.psimps [OF 3(1)] split: option.splits if_splits)
    obtain t1 ts1 s1 where pt1: "parseToken te = (t1, ts1, s1)" by (rule prod_cases3)
    with 3(4) False pt key t obtain v' s2 where t1: "t1 = ObjectPairSeparator"
      and v: "buildValue (Suc d) s1 = Some (v', s2)"
      by (auto simp: objectLoop.psimps [OF 3(1)] split: option.splits if_splits)
    have "length s2 < length s1"
      using 3(2) [OF pt [symmetric] refl False _ key pt1 [symmetric] refl _ v] t t1 by simp
    then have l1: "length s2 < length s"
      using token_shorter [OF pt] token_shorter [OF pt1] t t1 by simp
    obtain t2 ts2 s3 where pt2: "parseToken s2 = (t2, ts2, s3)" by (rule prod_cases3)
    have l2: "t2 \<noteq> InvalidToken \<Longrightarrow> length s3 < length s" using token_shorter [OF pt2] l1 by simp
    have eq: "objectLoop d s ob =
        (if t2 = ListSeparator then
           (case parseToken s3 of (token3, _, _) \<Rightarrow>
              if token3 = ObjectEnd then None else objectLoop d s3 (setValue key v' ob))
         else if t2 \<noteq> ObjectEnd then None else Some (setValue key v' ob, s3))"
      by (simp add: objectLoop.psimps [OF 3(1)] pt pt1 pt2 t t1 v key)
    show ?thesis
    proof (cases "t2 = ListSeparator")
      case True
      obtain t3 ts3 s4 where pt3: "parseToken s3 = (t3, ts3, s4)" by (rule prod_cases3)
      with eq True 3(4) have "t3 \<noteq> ObjectEnd" and
        "objectLoop d s3 (setValue key v' ob) = Some (ob', r)" by (auto split: if_splits)
      then have "length r < length s3"
        using 3(3) [OF pt [symmetric] refl False _ key pt1 [symmetric] refl _ v refl
            pt2 [symmetric] refl True pt3 [symmetric] refl] t t1 by simp
      with l2 True show ?thesis by simp
    next
      case False
      with eq 3(4) l2 show ?thesis by (auto split: if_splits)
    qed
  qed
qed

lemma token_shorter_sym:
  "(t, ts, te) = parseToken s \<Longrightarrow> t \<noteq> InvalidToken \<Longrightarrow> length te < length s"
  using token_shorter by metis

lemma build_dom: "buildValue_arrayLoop_objectLoop_dom x"
proof (rule "buildValue_arrayLoop_objectLoop.termination" [THEN spec], relation "measures [
    \<lambda>x. case x of Inl (d, s) \<Rightarrow> length s | Inr (Inl (d, s, a)) \<Rightarrow> length s
              | Inr (Inr (d, s, ob)) \<Rightarrow> length s,
    \<lambda>x. case x of Inl _ \<Rightarrow> 0 | Inr _ \<Rightarrow> 1]", goal_cases)
qed (fastforce dest: token_shorter_sym build_progress)+

termination buildValue
  by (rule allI) (rule build_dom)

declare buildValue.simps [simp del] arrayLoop.simps [simp del] objectLoop.simps [simp del]

lemmas build_shorter = build_progress [OF build_dom]

subsection \<open>Entry points\<close>

definition parseJSONInternal :: "string16 \<Rightarrow> val option" where
  "parseJSONInternal start =
     (case buildValue 0 start of
        None \<Rightarrow> None
      | Some (v, tokenEnd) \<Rightarrow> if tokenEnd \<noteq> [] then None else Some v)"

text \<open>
  The \<open>uint8_t\<close> instance of the templates compares the same character codes; a byte is the code
  unit of the same number.
\<close>

datatype StringView = View8 "8 word list" | View16 "16 word list"

definition parseJSON :: "string16 \<Rightarrow> val option" where
  "parseJSON json = (if length json = 0 then None else parseJSONInternal json)"

fun parseJSON_view :: "StringView \<Rightarrow> val option" where
  "parseJSON_view (View8 json) =
     (if length json = 0 then None else parseJSONInternal (map ucast json))"
| "parseJSON_view (View16 json) = (if length json = 0 then None else parseJSONInternal json)"

text \<open>A token that starts a value, and what a successful \<open>buildValue\<close> says of its first token.\<close>

definition value_token :: "Token \<Rightarrow> bool" where
  "value_token t \<longleftrightarrow>
     t \<in> {NullToken, BoolTrue, BoolFalse, Number, StringLiteral, ArrayBegin, ObjectBegin}"

lemma buildValue_first_token:
  "buildValue d s = Some x \<Longrightarrow> parseToken s = (t, ts, te) \<Longrightarrow> value_token t"
  by (cases t) (auto simp: buildValue.simps value_token_def split: if_splits)

lemma value_token_not [simp]:
  "\<not> value_token ArrayEnd" "\<not> value_token ObjectEnd" "\<not> value_token ListSeparator"
  "\<not> value_token InvalidToken" "\<not> value_token ObjectPairSeparator"
  by (simp_all add: value_token_def)

subsection \<open>What the parser builds\<close>

text \<open>
  What is kept by every way a value is built: \<open>P\<close> of a value at a depth the limit allows, \<open>Q\<close> of the properties
  collected for an object at a depth.
\<close>

locale value_builder =
  fixes P :: "nat \<Rightarrow> val \<Rightarrow> bool" and Q :: "nat \<Rightarrow> dict \<Rightarrow> bool"
  assumes leaf: "d \<le> stackLimit \<Longrightarrow> P d NullValue" "d \<le> stackLimit \<Longrightarrow> P d (BooleanValue b)"
      "d \<le> stackLimit \<Longrightarrow> P d (IntegerValue i)" "d \<le> stackLimit \<Longrightarrow> P d (DoubleValue x)"
      "d \<le> stackLimit \<Longrightarrow> P d (StringValue s)"
    and list: "d \<le> stackLimit \<Longrightarrow> \<forall>v \<in> set vs. P (Suc d) v \<Longrightarrow> P d (ListValue vs)"
    and empty: "Q d dict_create"
    and set: "Q d ob \<Longrightarrow> P (Suc d) v \<Longrightarrow> Q d (setValue key v ob)"
    and object: "d \<le> stackLimit \<Longrightarrow> Q d ob \<Longrightarrow> P d (Dict ob)"
begin

lemma built:
  "buildValue d s = Some (v, r) \<Longrightarrow> P d v"
  "arrayLoop d s a = Some (b, r) \<Longrightarrow> \<forall>x \<in> set a. P (Suc d) x \<Longrightarrow> \<forall>x \<in> set b. P (Suc d) x"
  "objectLoop d s ob = Some (ob', r) \<Longrightarrow> Q d ob \<Longrightarrow> Q d ob'"
proof (induction d s and d s a and d s ob arbitrary: v r and b r and ob' r
    rule: buildValue_arrayLoop_objectLoop.induct)
  case (1 d s)
  obtain t ts te where pt: "parseToken s = (t, ts, te)" by (rule prod_cases3)
  from 1(3) have ok: "\<not> stackLimit < d" by (auto simp: buildValue.simps [of d s] split: if_splits)
  show ?case
    using 1(3) ok 1(1) [OF ok pt [symmetric] refl] 1(2) [OF ok pt [symmetric] refl]
    by (cases t) (auto simp: buildValue.simps [of d s] pt buildNumber_def Let_def
        leaf list object empty split: option.splits prod.splits if_splits)
next
  case (2 d s a)
  obtain t ts te where pt: "parseToken s = (t, ts, te)" by (rule prod_cases3)
  show ?case
  proof (cases "t = ArrayEnd")
    case True
    with 2(3,4) pt show ?thesis by (simp add: arrayLoop.simps [of d s])
  next
    case False
    with 2(3) pt obtain n s1 where n: "buildValue (Suc d) s = Some (n, s1)"
      by (auto simp: arrayLoop.simps [of d s] split: option.splits)
    have w: "P (Suc d) n" using 2(1) [OF pt [symmetric] refl False n] .
    obtain t1 ts1 s2 where pt1: "parseToken s1 = (t1, ts1, s2)" by (rule prod_cases3)
    show ?thesis
      using 2(3,4) False n pt pt1 w 2(2) [OF pt [symmetric] refl False n refl pt1 [symmetric] refl]
      by (auto simp: arrayLoop.simps [of d s] split: if_splits prod.splits)
  qed
next
  case (3 d s ob)
  obtain t ts te where pt: "parseToken s = (t, ts, te)" by (rule prod_cases3)
  show ?case
  proof (cases "t = ObjectEnd")
    case True
    with 3(3,4) pt show ?thesis by (simp add: objectLoop.simps [of d s])
  next
    case False
    with 3(3) pt obtain key where t: "t = StringLiteral"
      and key: "decodeString (stringText ts te) [] = Some key"
      by (auto simp: objectLoop.simps [of d s] split: option.splits if_splits)
    obtain t1 ts1 s1 where pt1: "parseToken te = (t1, ts1, s1)" by (rule prod_cases3)
    with 3(3) False pt key t obtain v' s2 where t1: "t1 = ObjectPairSeparator"
      and v: "buildValue (Suc d) s1 = Some (v', s2)"
      by (auto simp: objectLoop.simps [of d s] split: option.splits if_splits)
    have w: "Q d (setValue key v' ob)"
      using 3(1) [OF pt [symmetric] refl False _ key pt1 [symmetric] refl _ v] t t1 3(4)
      by (simp add: set)
    obtain t2 ts2 s3 where pt2: "parseToken s2 = (t2, ts2, s3)" by (rule prod_cases3)
    obtain t3 ts3 s4 where pt3: "parseToken s3 = (t3, ts3, s4)" by (rule prod_cases3)
    show ?thesis
      using 3(3) w 3(2) [OF pt [symmetric] refl False _ key pt1 [symmetric] refl _ v refl
          pt2 [symmetric] refl _ pt3 [symmetric] refl] False
      by (auto simp: objectLoop.simps [of d s] pt pt1 pt2 pt3 t t1 v key split: if_splits)
  qed
qed

lemma parsed: "parseJSON json = Some v \<Longrightarrow> P 0 v"
  by (auto simp: parseJSON_def parseJSONInternal_def dest: built(1) split: if_splits option.splits)

end

interpretation wf: value_builder "\<lambda>_. wf_val" "\<lambda>_. wf_dict"
  by unfold_locales (simp_all add: wf_dict_create setValue_def wf_dict_set)

end
