(* ===== verification/JsonRoundtrip.thy ===== *)
theory JsonRoundtrip
  imports JsonBuild
begin

section \<open>Parsing what was written\<close>

text \<open>
  The parser inverts the writer on every well-formed value without doubles (their text is
  rounded) and serialized fragments (their text is arbitrary), up to the depth the parser accepts.
  Each scanner is shown to read the text of one writer and to stop at the delimiter behind it.
\<close>

definition delim :: "string16 \<Rightarrow> bool" where
  "delim r \<longleftrightarrow> r = [] \<or> hd r = uc (CHR '','') \<or> hd r = uc (CHR '']'') \<or> hd r = uc (CHR ''}'')"

lemma delim_Cons [simp]:
  "delim []" "delim (44 # r)" "delim (93 # r)" "delim (125 # r)"
  by (simp_all add: delim_def)

lemma skip_id:
  "s = [] \<or> \<not> isSpaceOrNewLine (hd s) \<and> hd s \<noteq> uc (CHR ''/'') \<Longrightarrow> skipWhitespaceAndComments s = s"
  by (cases s) auto

lemma skip_delim: "delim r \<Longrightarrow> skipWhitespaceAndComments r = r"
  by (rule skip_id) (auto simp: delim_def isSpaceOrNewLine_def)

subsection \<open>Numbers\<close>

lemma isDigit16_nat: "isDigit16 c \<longleftrightarrow> 48 \<le> unat c \<and> unat c \<le> 57"
  by (simp add: isDigit16_def word_le_nat_alt)

lemma isDigit16_widen: "is_digit c \<Longrightarrow> isDigit16 (widen c)"
  using unat_widen [of c] by (simp add: isDigit16_nat) (simp add: is_digit_def)

lemma isDigit16_delim: "delim r \<Longrightarrow> r = [] \<or> \<not> isDigit16 (hd r)"
  by (auto simp: delim_def isDigit16_def)

lemma uc_widen: "ascii c \<Longrightarrow> widen c = uc c"
proof -
  assume a: "ascii c"
  have "unat (of_nat (of_char c) :: uchar) = of_char c"
    using a by (simp add: ascii_def unat_of_nat)
  then have "unat (uc c) = of_char c" by (simp add: of_nat_of_char)
  with a show ?thesis using unat_widen word_unat_eq_iff by metis
qed

lemma readInt_dec_nat:
  assumes "r = [] \<or> \<not> isDigit16 (hd r)"
  shows "readInt (lit (dec_nat n) @ r) False = Some r"
proof -
  have all: "\<forall>c \<in> set (lit (dec_nat n)). isDigit16 c"
    using dec_nat_digits [of n] isDigit16_widen by auto
  have tw: "takeWhile isDigit16 (lit (dec_nat n) @ r) = lit (dec_nat n)"
    and dw: "dropWhile isDigit16 (lit (dec_nat n) @ r) = r"
    using all assms by (rule takeWhile_append_stop dropWhile_append_stop)+
  have "length (dec_nat n) = 1" if "hd (lit (dec_nat n) @ r) = uc (CHR ''0'')"
  proof -
    have "widen (hd (dec_nat n)) = widen (CHR ''0'')"
      using that by (simp add: hd_append hd_map String16_chars_def uc_widen ascii_def)
    then show ?thesis using dec_nat_no_leading_zero [of n] by simp
  qed
  then show ?thesis
    by (auto simp: readInt_def tw dw Let_def)
qed

lemma parseNumberToken_fromInteger:
  assumes "delim r"
  shows "parseNumberToken (fromInteger n @ r) = Some r"
proof -
  have r: "r = [] \<or> \<not> isDigit16 (hd r)" using assms by (rule isDigit16_delim)
  have neg: "hd (lit (dec_nat m) @ r) \<noteq> uc (CHR ''-'')" for m
    using isDigit16_widen [OF hd_dec_nat_digit [of m]]
    by (auto simp: String16_chars_def hd_map hd_append isDigit16_nat)
  have tail: "(if r = [] then Some r else if hd r = uc (CHR ''.'') then X else parseExponent r) = Some r"
    for X
    using assms by (auto simp: delim_def parseExponent_def)
  show ?thesis
    using neg tail
    by (simp add: parseNumberToken_def fromInteger_lit dec_int_def lit_Cons Let_def
        uc_widen ascii_def readInt_dec_nat [OF r])
qed

lemma fromInteger_Cons:
  obtains c s where "fromInteger n = c # s"
    and "isDigit16 c \<or> c = uc (CHR ''-'')"
proof (cases "sint n < 0")
  case True
  then show ?thesis
    using that by (simp add: fromInteger_lit dec_int_def lit_Cons uc_widen ascii_def)
next
  case False
  have "is_digit (hd (dec_nat (nat (sint n))))" by (rule hd_dec_nat_digit)
  with False that show ?thesis
    by (cases "dec_nat (nat (sint n))")
      (auto simp: fromInteger_lit dec_int_def lit_Cons isDigit16_widen)
qed

lemma isDigit16_cases:
  "isDigit16 c \<longleftrightarrow> c \<in> {48, 49, 50, 51, 52, 53, 54, 55, 56, 57}"
proof -
  have "48 \<le> unat c \<and> unat c \<le> 57 \<longleftrightarrow> unat c \<in> {48, 49, 50, 51, 52, 53, 54, 55, 56, 57}"
    unfolding insert_iff empty_iff by presburger
  then show ?thesis by (simp add: isDigit16_nat word_unat_eq_iff)
qed

lemma parseToken_number:
  assumes "isDigit16 c \<or> c = uc (CHR ''-'')"
  shows "parseToken (c # s) = found Number (c # s) (parseNumberToken (c # s))"
proof -
  have "skipWhitespaceAndComments (c # s) = c # s"
    using assms by (intro skip_id) (auto simp: isDigit16_cases isSpaceOrNewLine_def)
  moreover have "c \<in> {45, 48, 49, 50, 51, 52, 53, 54, 55, 56, 57}"
    using assms by (auto simp: isDigit16_cases)
  ultimately show ?thesis using assms by (auto simp: parseToken_def Let_def)
qed

lemma parseToken_fromInteger:
  assumes "delim r"
  shows "parseToken (fromInteger n @ r) = (Number, fromInteger n @ r, r)"
proof -
  obtain c s where "fromInteger n = c # s" and "isDigit16 c \<or> c = uc (CHR ''-'')"
    by (rule fromInteger_Cons)
  with parseNumberToken_fromInteger [OF assms, of n] parseToken_number [of c "s @ r"]
  show ?thesis by (simp add: found_def)
qed

lemma isASCII_widen: "ascii c \<Longrightarrow> isASCII (widen c)"
proof -
  assume "ascii c"
  then have "unat (widen c) < 128" by (simp add: unat_widen) (simp add: ascii_def)
  then have "widen c AND 0x7F = widen c" by (simp add: and_7f_iff)
  moreover have "(widen c AND 0x7F) AND NOT 0x7F = 0" by (simp add: and.assoc)
  ultimately show "isASCII (widen c)" by (simp add: isASCII_def)
qed

lemma buildNumber_fromInteger: "buildNumber (fromInteger n) = Some (IntegerValue n)"
proof -
  have "map (\<lambda>c. char_of (unat c)) (fromInteger n) = dec_int (sint n)"
    using dec_int_ascii [of "sint n"]
    by (simp add: fromInteger_lit String16_chars_def map_idI)
  moreover have "\<not> (\<exists>c \<in> set (fromInteger n). \<not> isASCII c)"
    using dec_int_ascii [of "sint n"] isASCII_widen by (auto simp: fromInteger_lit)
  ultimately show ?thesis
    using cast_dbl_of_int [OF sint_cint_bounds]
    by (simp add: buildNumber_def charactersToDouble_def toDouble_dec_int)
qed

subsection \<open>Strings\<close>

lemma hexDigits_facts:
  assumes "k < 16"
  shows "isHexDigit (widen (hexDigits ! k))" and "hexToInt (widen (hexDigits ! k)) = k"
proof -
  from assms have "k \<in> {0, 1, 2, 3, 4, 5, 6, 7, 8, 9, 10, 11, 12, 13, 14, 15}"
    unfolding insert_iff empty_iff by presburger
  then show "isHexDigit (widen (hexDigits ! k))" and "hexToInt (widen (hexDigits ! k)) = k"
    by (elim insertE emptyE; simp add: hexDigits_def isHexDigit_def uc_widen ascii_def)+
qed

lemma top_nibble: "unat (drop_bit 12 ((c :: uchar) AND 0xF000)) = unat c div 4096"
proof -
  have "drop_bit 12 (c AND 0xF000) = drop_bit 12 c AND 0xF"
    by (simp add: drop_bit_and del: drop_bit_eq_div)
  also have "\<dots> = take_bit 4 (drop_bit 12 c)"
    by (simp only: take_bit_eq_mask mask_eq_exp_minus_1) simp
  finally have "unat (drop_bit 12 (c AND 0xF000)) = take_bit 4 (drop_bit 12 (take_bit 16 (unat c)))"
    by (simp only: unsigned_take_bit_eq unsigned_drop_bit_eq) simp
  moreover have "unat c < 65536" using unsigned_less [of c] by simp
  ultimately show ?thesis by (simp add: take_bit_eq_mod drop_bit_eq_div)
qed

lemma unat_push4: "unat (push_bit 4 (c :: uchar)) = (unat c mod 4096) * 16"
proof -
  have "unat (push_bit 4 c) = take_bit 16 (push_bit 4 (unat c))"
    by (simp only: unsigned_push_bit_eq) simp
  then show ?thesis
    using mod_mult_mult2 [of "unat c" 16 4096] by (simp add: take_bit_eq_mod push_bit_eq_mult)
qed

lemma mod_div_nibble: "(n :: nat) mod (b * 16) div b = n div b mod 16"
  by (cases "b = 0") (simp_all add: mod_mult2_eq)

lemma hex_loop_4: "hex_loop 4 c [] = map (\<lambda>k. widen (hexDigits ! k))
     [unat c div 4096, unat (push_bit 4 c) div 4096, unat (push_bit 4 (push_bit 4 c)) div 4096,
      unat (push_bit 4 (push_bit 4 (push_bit 4 c))) div 4096]"
proof -
  have "4 = Suc (Suc (Suc (Suc 0)))" by simp
  then show ?thesis
    by (simp only: hex_loop.simps builderAppend_char_def top_nibble append.simps list.map)
qed

lemma hex_text_nibbles:
  "hex_text c = map (\<lambda>k. widen (hexDigits ! k))
     [unat c div 4096, unat c div 256 mod 16, unat c div 16 mod 16, unat c mod 16]"
proof -
  let ?n = "unat c"
  have 2: "(?n mod 4096) * 16 mod 4096 = (?n mod 256) * 16"
    using mod_mult_mult2 [of "?n mod 4096" 16 256] by (simp add: mod_mod_cancel)
  have 3: "256 * (?n mod 256) mod 4096 = (?n mod 16) * 256"
    using mod_mult_mult2 [of "?n mod 256" 256 16] by (simp add: mod_mod_cancel mult.commute)
  have d: "x * 16 div 4096 = x div 256" for x :: nat
    using div_mult_mult2 [of 16 x 256] by simp
  have "?n mod 4096 div 256 = ?n div 256 mod 16" "?n mod 256 div 16 = ?n div 16 mod 16"
    using mod_div_nibble [of ?n 256] mod_div_nibble [of ?n 16] by simp_all
  moreover have "(?n mod 256) * 16 div 256 = ?n mod 256 div 16"
    using div_mult_mult2 [of 16 "?n mod 256" 16] by simp
  moreover have "(?n mod 16) * 256 div 256 = ?n mod 16" by simp
  ultimately show ?thesis
    unfolding hex_text_def hex_loop_4 unat_push4 by (simp add: 2 3 d)
qed

lemma hex_text_facts:
  obtains h1 h2 h3 h4 where "hex_text c = [h1, h2, h3, h4]"
    and "isHexDigit h1" "isHexDigit h2" "isHexDigit h3" "isHexDigit h4"
    and "word_of_nat (hexToInt h1 * 4096 + hexToInt h2 * 256 + hexToInt h3 * 16 + hexToInt h4) = c"
proof -
  let ?n = "unat c"
  let ?h = "\<lambda>k. widen (hexDigits ! k)"
  have "?n < 65536" using unsigned_less [of c] by simp
  then have b: "?n div 4096 < 16" by simp
  have "?n = ?n div 4096 * 4096 + ?n mod 4096" by simp
  also have "?n mod 4096 = ?n div 256 mod 16 * 256 + ?n mod 256"
    using mod_mult2_eq [of ?n 256 16] by simp
  also have "?n mod 256 = ?n div 16 mod 16 * 16 + ?n mod 16"
    using mod_mult2_eq [of ?n 16 16] by simp
  finally have "word_of_nat ?n = (word_of_nat (?n div 4096 * 4096 + (?n div 256 mod 16 * 256 +
      (?n div 16 mod 16 * 16 + ?n mod 16))) :: uchar)"
    by (rule arg_cong)
  then have "word_of_nat (?n div 4096 * 4096 + ?n div 256 mod 16 * 256 + ?n div 16 mod 16 * 16 +
      ?n mod 16) = c"
    by (simp only: add.assoc) (simp only: of_nat_unat ucast_id)
  then show thesis
    using that [of "?h (?n div 4096)" "?h (?n div 256 mod 16)" "?h (?n div 16 mod 16)" "?h (?n mod 16)"] b
    by (simp add: hex_text_nibbles hexDigits_facts del: hexToInt.simps)
qed

text \<open>One escaped character is read back as itself, by the token scanner and by the decoder.\<close>

lemma lit_esc: "lit [CHR 0x5C, CHR ''u''] = [uc (CHR 0x5C), uc (CHR ''u'')]"
  by (simp add: lit_Cons uc_widen ascii_def)

lemma esc_char_cases:
  obtains (simple) d where "esc_char c = [uc (CHR 0x5C), d]" and "isSimpleEscape d"
      and "decodeEscape d = Some c"
  | (hex) "esc_char c = uc (CHR 0x5C) # uc (CHR ''u'') # hex_text c"
  | (plain) "esc_char c = [c]" and "c \<noteq> uc (CHR 0x5C)" and "c \<noteq> uc (CHR 0x22)"
proof (cases "c \<in> {8, 12, 10, 13, 9, 92, 34}")
  case True
  then have "\<exists>d. esc_char c = [uc (CHR 0x5C), d] \<and> isSimpleEscape d \<and> decodeEscape d = Some c"
    by (auto simp: esc_char_def escapeChar_def builderAppend_def lit_Cons uc_widen ascii_def
        isSimpleEscape_def decodeEscape_def)
  then show thesis using simple by auto
next
  case False
  then have "escapeChar c [] = None" by (simp add: escapeChar_def)
  then have "esc_char c =
      (if c < 32 \<or> 126 < c then uc (CHR 0x5C) # uc (CHR ''u'') # hex_text c else [c])"
    unfolding esc_char_def lit_esc by simp
  then show thesis using False hex plain by (cases "c < 32 \<or> 126 < c") auto
qed

lemma simple_not_xu: "isSimpleEscape d \<Longrightarrow> d \<noteq> uc (CHR ''x'') \<and> d \<noteq> uc (CHR ''u'')"
  by (auto simp: isSimpleEscape_def)

lemma parseStringToken_esc: "parseStringToken (esc_char c @ t) = parseStringToken t"
proof (cases c rule: esc_char_cases)
  case (simple d)
  with simple_not_xu [of d] show ?thesis by simp
next
  case hex
  obtain h1 h2 h3 h4 where "hex_text c = [h1, h2, h3, h4]"
    "isHexDigit h1" "isHexDigit h2" "isHexDigit h3" "isHexDigit h4"
    by (rule hex_text_facts)
  then have "readHexDigits (hex_text c @ t) 4 = Some t" by (simp add: readHexDigits_def)
  with hex show ?thesis by simp
qed simp

lemma decodeString_esc: "decodeString (esc_char c @ t) b = decodeString t (b @ [c])"
proof (cases c rule: esc_char_cases)
  case (simple d)
  with simple_not_xu [of d] show ?thesis by (simp add: builderAppend_char_def)
next
  case hex
  obtain h1 h2 h3 h4 where "hex_text c = [h1, h2, h3, h4]"
    "word_of_nat (hexToInt h1 * 4096 + hexToInt h2 * 256 + hexToInt h3 * 16 + hexToInt h4) = c"
    by (rule hex_text_facts)
  with hex show ?thesis by (simp add: builderAppend_char_def del: hexToInt.simps)
qed (simp add: builderAppend_char_def)

lemma parseStringToken_text:
  "parseStringToken (concat (map esc_char s) @ uc (CHR 0x22) # r) = Some r"
  by (induction s) (simp_all add: parseStringToken_esc)

lemma decodeString_text: "decodeString (concat (map esc_char s)) b = Some (b @ s)"
  by (induction s arbitrary: b) (simp_all add: decodeString_esc)

lemma parseToken_quoted: "parseToken (quoted s @ r) = (StringLiteral, quoted s @ r, r)"
  using parseStringToken_text [of s r] skip_id [of "quoted s @ r"]
  by (simp add: quoted_def parseToken_def found_def Let_def isDigit16_def isSpaceOrNewLine_def)

lemma stringText_quoted: "stringText (quoted s @ r) r = concat (map esc_char s)"
  by (simp add: stringText_def) (simp add: quoted_def)

subsection \<open>Values\<close>

text \<open>Values whose text is exact, and the depth to which \<open>buildValue\<close> recurses on it.\<close>

fun plain_val :: "val \<Rightarrow> bool" where
  "plain_val (DoubleValue _) = False"
| "plain_val (SerializedValue _) = False"
| "plain_val (ListValue vs) = (\<forall>v \<in> set vs. plain_val v)"
| "plain_val (DictionaryValue m_data m_order) = (\<forall>e \<in> set m_data. plain_val (snd e))"
| "plain_val _ = True"

fun nesting :: "val \<Rightarrow> nat" where
  "nesting (ListValue vs) = foldr max (map (\<lambda>v. Suc (nesting v)) vs) 0"
| "nesting (DictionaryValue m_data m_order) = foldr max (map (\<lambda>e. Suc (nesting (snd e))) m_data) 0"
| "nesting _ = 0"

lemma foldr_max_ge: "x \<in> set xs \<Longrightarrow> x \<le> foldr max xs (0 :: nat)"
  by (induction xs) auto

lemma nesting_child:
  "v \<in> set vs \<Longrightarrow> Suc (nesting v) \<le> nesting (ListValue vs)"
  "e \<in> set m \<Longrightarrow> Suc (nesting (snd e)) \<le> nesting (DictionaryValue m ks)"
  by (auto intro!: foldr_max_ge)

definition reads_back :: "nat \<Rightarrow> val \<Rightarrow> bool" where
  "reads_back d v \<longleftrightarrow> (\<forall>r. delim r \<longrightarrow> buildValue d (json_text v @ r) = Some (v, r))"

lemma reads_backD: "reads_back d v \<Longrightarrow> delim r \<Longrightarrow> buildValue d (json_text v @ r) = Some (v, r)"
  by (simp add: reads_back_def)

lemma parseToken_punct:
  "parseToken (44 # r) = (ListSeparator, 44 # r, r)"
  "parseToken (93 # r) = (ArrayEnd, 93 # r, r)"
  "parseToken (91 # r) = (ArrayBegin, 91 # r, r)"
  "parseToken (123 # r) = (ObjectBegin, 123 # r, r)"
  "parseToken (125 # r) = (ObjectEnd, 125 # r, r)"
  "parseToken (58 # r) = (ObjectPairSeparator, 58 # r, r)"
  by (simp_all add: parseToken_def Let_def isSpaceOrNewLine_def)

lemma parseToken_const:
  "parseToken (lit ''null'' @ r) = (NullToken, lit ''null'' @ r, r)"
  "parseToken (lit ''true'' @ r) = (BoolTrue, lit ''true'' @ r, r)"
  "parseToken (lit ''false'' @ r) = (BoolFalse, lit ''false'' @ r, r)"
  by (simp_all add: parseToken_def found_def Let_def isSpaceOrNewLine_def lit_Cons uc_widen ascii_def)

lemma arrayLoop_text:
  assumes "vs \<noteq> []" and "\<forall>v \<in> set vs. reads_back (Suc d) v"
  shows "arrayLoop d (join [uc (CHR '','')] (map json_text vs) @ uc (CHR '']'') # r) acc =
    Some (acc @ vs, r)"
  using assms
proof (induction vs arbitrary: acc)
  case (Cons v vs)
  let ?tail = "if vs = [] then uc (CHR '']'') # r
    else uc (CHR '','') # join [uc (CHR '','')] (map json_text vs) @ uc (CHR '']'') # r"
  have tx: "join [uc (CHR '','')] (map json_text (v # vs)) @ uc (CHR '']'') # r = json_text v @ ?tail"
    by (cases vs) auto
  have b: "buildValue (Suc d) (json_text v @ ?tail) = Some (v, ?tail)"
    using Cons.prems by (intro reads_backD) auto
  obtain t ts te where pt: "parseToken (json_text v @ ?tail) = (t, ts, te)" by (rule prod_cases3)
  have t: "t \<noteq> ArrayEnd" using buildValue_first_token [OF b pt] by auto
  show ?case
  proof (cases vs)
    case Nil
    then show ?thesis
      using pt t b unfolding tx by (simp add: arrayLoop.simps parseToken_punct)
  next
    case (Cons w ws)
    let ?s = "join [uc (CHR '','')] (map json_text vs) @ uc (CHR '']'') # r"
    let ?tail2 = "if ws = [] then uc (CHR '']'') # r
      else uc (CHR '','') # join [uc (CHR '','')] (map json_text ws) @ uc (CHR '']'') # r"
    have s: "?s = json_text w @ ?tail2" using Cons by (cases ws) auto
    have "reads_back (Suc d) w" using Cons Cons.prems by simp
    then have b2: "buildValue (Suc d) ?s = Some (w, ?tail2)"
      unfolding s by (rule reads_backD) auto
    obtain t2 ts2 te2 where pt2: "parseToken ?s = (t2, ts2, te2)" by (rule prod_cases3)
    have t2: "t2 \<noteq> ArrayEnd" using buildValue_first_token [OF b2 pt2] by auto
    have "arrayLoop d (json_text v @ ?tail) acc = arrayLoop d ?s (acc @ [v])"
      using pt t b Cons pt2 t2 by (subst arrayLoop.simps) (simp add: parseToken_punct)
    also have "\<dots> = Some (acc @ v # vs, r)"
      using Cons.IH [of "acc @ [v]"] Cons.prems Cons by simp
    finally show ?thesis unfolding tx .
  qed
qed simp


lemma objectLoop_text:
  assumes "es \<noteq> []" and "\<forall>e \<in> set es. reads_back (Suc d) (snd e)"
  shows "objectLoop d (join [uc (CHR '','')] (map entry_text es) @ uc (CHR ''}'') # r) ob =
    Some (fold (\<lambda>(k, v). dict_set k v) es ob, r)"
  using assms
proof (induction es arbitrary: ob)
  case (Cons e es)
  obtain k v where e: "e = (k, v)" by (cases e)
  let ?s = "join [uc (CHR '','')] (map entry_text es) @ uc (CHR ''}'') # r"
  let ?tail = "if es = [] then uc (CHR ''}'') # r else uc (CHR '','') # ?s"
  have tx: "join [uc (CHR '','')] (map entry_text (e # es)) @ uc (CHR ''}'') # r =
      quoted k @ uc (CHR '':'') # json_text v @ ?tail"
    by (cases es) (auto simp: entry_text_def e)
  have b: "buildValue (Suc d) (json_text v @ ?tail) = Some (v, ?tail)"
    using Cons.prems e by (intro reads_backD) auto
  have key: "decodeString (stringText (quoted k @ uc (CHR '':'') # json_text v @ ?tail)
      (uc (CHR '':'') # json_text v @ ?tail)) [] = Some k"
    by (simp only: stringText_quoted decodeString_text append_Nil)
  show ?case
  proof (cases es)
    case Nil
    then show ?thesis
      using b key unfolding tx
      by (subst objectLoop.simps) (simp add: parseToken_quoted parseToken_punct e setValue_def)
  next
    case (Cons e2 es2)
    have "?s \<noteq> []" by simp
    obtain k2 v2 where e2: "e2 = (k2, v2)" by (cases e2)
    obtain z where z: "?s = quoted k2 @ z" using Cons e2 by (cases es2) (auto simp: entry_text_def)
    have pt2: "parseToken ?s = (StringLiteral, ?s, z)" unfolding z by (rule parseToken_quoted)
    have "objectLoop d (quoted k @ uc (CHR '':'') # json_text v @ ?tail) ob =
        objectLoop d ?s (dict_set k v ob)"
      using b key Cons pt2
      by (subst objectLoop.simps) (simp add: parseToken_quoted parseToken_punct setValue_def)
    also have "\<dots> = Some (fold (\<lambda>(k, v). dict_set k v) (e # es) ob, r)"
      using Cons.IH [of "dict_set k v ob"] Cons.prems Cons e by simp
    finally show ?thesis unfolding tx .
  qed
qed simp

lemma reads_back_leaf:
  assumes "d \<le> stackLimit"
  shows "reads_back d NullValue" and "reads_back d (BooleanValue b)"
    and "reads_back d (IntegerValue n)" and "reads_back d (StringValue s)"
  using assms
  by (auto simp: reads_back_def buildValue.simps parseToken_const parseToken_fromInteger
      buildNumber_fromInteger parseToken_quoted stringText_quoted decodeString_text skip_delim)

lemma buildValue_text:
  "wf_val v \<Longrightarrow> plain_val v \<Longrightarrow> d + nesting v \<le> stackLimit \<Longrightarrow> reads_back d v"
proof (induction v arbitrary: d rule: wf_val.induct)
  case (1 vs)
  have "\<forall>v \<in> set vs. reads_back (Suc d) v"
    using 1 nesting_child(1) [of _ vs] by fastforce
  then show ?case
    using 1 arrayLoop_text [of vs d]
    by (cases "vs = []") (auto simp: reads_back_def buildValue.simps parseToken_punct skip_delim
        arrayLoop.simps [of d "93 # r" for r])
next
  case (2 m ks)
  have "\<forall>e \<in> set m. reads_back (Suc d) (snd e)"
    using 2 nesting_child(2) [of _ m ks] by fastforce
  then show ?case
    using 2 objectLoop_text [of m d] dict_fold_fresh [of m]
    by (cases "m = []") (auto simp: reads_back_def buildValue.simps parseToken_punct skip_delim
        objectLoop.simps [of d "125 # r" for r] Dict_def dict_create_def entry_text_def [abs_def])
qed (auto simp: reads_back_leaf)

lemma json_text_nonempty: "plain_val v \<Longrightarrow> json_text v \<noteq> []"
proof (cases v)
  case (IntegerValue n)
  obtain c s where "fromInteger n = c # s" by (rule fromInteger_Cons)
  with IntegerValue show ?thesis by simp
qed (auto simp: quoted_def)

lemma parse_json_text:
  assumes "wf_val v" and "plain_val v" and "nesting v \<le> stackLimit"
  shows "parseJSON (json_text v) = Some v"
proof -
  have "reads_back 0 v" using assms by (intro buildValue_text) auto
  then have "buildValue 0 (json_text v) = Some (v, [])"
    using reads_backD [of 0 v "[]"] by simp
  with json_text_nonempty [OF assms(2)] show ?thesis
    by (simp add: parseJSON_def parseJSONInternal_def)
qed

text \<open>The depth limit bounds what is parsed.\<close>

lemma nesting_le:
  "(\<forall>v \<in> set vs. d + Suc (nesting v) \<le> n) \<Longrightarrow> d \<le> n \<Longrightarrow> d + nesting (ListValue vs) \<le> n"
  "(\<forall>e \<in> set m. d + Suc (nesting (snd e)) \<le> n) \<Longrightarrow> d \<le> n \<Longrightarrow> d + nesting (DictionaryValue m ks) \<le> n"
proof -
  show "(\<forall>v \<in> set vs. d + Suc (nesting v) \<le> n) \<Longrightarrow> d \<le> n \<Longrightarrow> d + nesting (ListValue vs) \<le> n"
    by (induction vs) (auto simp: max_def)
  show "(\<forall>e \<in> set m. d + Suc (nesting (snd e)) \<le> n) \<Longrightarrow> d \<le> n \<Longrightarrow> d + nesting (DictionaryValue m ks) \<le> n"
    by (induction m) (auto simp: max_def)
qed

interpretation limit: value_builder "\<lambda>d v. d + nesting v \<le> stackLimit"
    "\<lambda>d ob. \<forall>e \<in> set (fst ob). d + Suc (nesting (snd e)) \<le> stackLimit"
proof unfold_locales
  fix d vs
  assume "d \<le> stackLimit" and "\<forall>v \<in> set vs. Suc d + nesting v \<le> stackLimit"
  then show "d + nesting (ListValue vs) \<le> stackLimit" using nesting_le(1) [of vs d stackLimit] by simp
next
  fix d and ob :: dict
  assume "d \<le> stackLimit" and "\<forall>e \<in> set (fst ob). d + Suc (nesting (snd e)) \<le> stackLimit"
  then show "d + nesting (Dict ob) \<le> stackLimit" using nesting_le(2) [of "fst ob" d stackLimit] by (simp add: Dict_def)
next
  fix d and ob :: dict and v key
  assume "\<forall>e \<in> set (fst ob). d + Suc (nesting (snd e)) \<le> stackLimit" and "Suc d + nesting v \<le> stackLimit"
  then show "\<forall>e \<in> set (fst (setValue key v ob)). d + Suc (nesting (snd e)) \<le> stackLimit"
    by (auto simp: setValue_def dict_set_def Let_def dest!: set_update_subset)
qed (simp_all add: dict_create_def)

end
