(* ===== verification/Jsrt.thy ===== *)
theory Jsrt
  imports String16
begin

section \<open>The script engine and \<open>PropertyHelpers\<close>\<close>

text \<open>
  The functions of \<open>ChakraCore.h\<close> the program calls.  ChakraCore is not in the repository, so they
  are a parameter: the fields of the record \<open>JSRT\<close>, over an engine state \<open>'w\<close> that is a parameter too.  A call
  returns its error code and what its out parameter holds after it (\<open>JS_INVALID_REFERENCE\<close>, 0 or false when the
  call left it alone: the program initialises them so), and an engine state.  An engine call does not call
  back into the program; the debug events the engine raises are steps of their own.

  \<open>PropertyHelpers.cpp\<close> is modelled on top, for any state \<open>'w \<times> 'p\<close> that holds the engine.
\<close>

subsection \<open>The interface of the engine\<close>

type_synonym JsValueRef = nat
type_synonym JsPropertyIdRef = nat
type_synonym JsContextRef = nat

definition JS_INVALID_REFERENCE :: nat where
  "JS_INVALID_REFERENCE = 0"

datatype JsValueType = JsUndefined | JsNull | JsNumber | JsString | JsBoolean | JsObject | JsFunction
  | JsError | JsArray | JsSymbol | JsArrayBuffer | JsTypedArray | JsDataView

datatype JsDiagStepType = JsDiagStepTypeStepIn | JsDiagStepTypeStepOut | JsDiagStepTypeStepOver

datatype JsDiagBreakOnExceptionAttributes = JsDiagBreakOnExceptionAttributeNone
  | JsDiagBreakOnExceptionAttributeUncaught | JsDiagBreakOnExceptionAttributeFirstChance

datatype JsDiagDebugEvent = JsDiagDebugEventSourceCompile | JsDiagDebugEventCompileError
  | JsDiagDebugEventBreakpoint | JsDiagDebugEventStepComplete | JsDiagDebugEventDebuggerStatement
  | JsDiagDebugEventAsyncBreak | JsDiagDebugEventRuntimeException

datatype JsNativeFunction = ConsoleLog | ConsoleDebug | ConsoleInfo | ConsoleError | ConsoleWarning
  | ConsoleClear | ConsoleAssert

type_synonym ('w, 'a) api = "'w \<Rightarrow> (JsErrorCode \<times> 'a) \<times> 'w"

record 'w JSRT =
  codes :: error_codes
  JsGetUndefinedValue :: "('w, JsValueRef) api"
  JsGetNullValue :: "('w, JsValueRef) api"
  JsGetGlobalObject :: "('w, JsValueRef) api"
  JsCreateObject :: "('w, JsValueRef) api"
  JsCreateString :: "string \<Rightarrow> ('w, JsValueRef) api"
  JsCreateStringUtf16 :: "string16 \<Rightarrow> ('w, JsValueRef) api"
  JsGetStringLength :: "JsValueRef \<Rightarrow> ('w, cint) api"
  JsCopyStringUtf16 :: "JsValueRef \<Rightarrow> cint \<Rightarrow> cint \<Rightarrow> ('w, string16) api"
  JsConvertValueToString :: "JsValueRef \<Rightarrow> ('w, JsValueRef) api"
  JsConvertValueToBoolean :: "JsValueRef \<Rightarrow> ('w, JsValueRef) api"
  JsConvertValueToNumber :: "JsValueRef \<Rightarrow> ('w, JsValueRef) api"
  JsBooleanToBool :: "JsValueRef \<Rightarrow> ('w, bool) api"
  JsNumberToInt :: "JsValueRef \<Rightarrow> ('w, cint) api"
  JsIntToNumber :: "cint \<Rightarrow> ('w, JsValueRef) api"
  JsGetValueType :: "JsValueRef \<Rightarrow> ('w, JsValueType) api"
  JsCreatePropertyId :: "string \<Rightarrow> ('w, JsPropertyIdRef) api"
  JsGetPropertyIdFromName :: "string \<Rightarrow> ('w, JsPropertyIdRef) api"
  JsGetProperty :: "JsValueRef \<Rightarrow> JsPropertyIdRef \<Rightarrow> ('w, JsValueRef) api"
  JsSetProperty :: "JsValueRef \<Rightarrow> JsPropertyIdRef \<Rightarrow> JsValueRef \<Rightarrow> bool \<Rightarrow> ('w, unit) api"
  JsHasProperty :: "JsValueRef \<Rightarrow> JsPropertyIdRef \<Rightarrow> ('w, bool) api"
  JsGetIndexedProperty :: "JsValueRef \<Rightarrow> JsValueRef \<Rightarrow> ('w, JsValueRef) api"
  JsCallFunction :: "JsValueRef \<Rightarrow> JsValueRef list \<Rightarrow> ('w, JsValueRef) api"
  JsConstructObject :: "JsValueRef \<Rightarrow> JsValueRef list \<Rightarrow> ('w, JsValueRef) api"
  JsCreateFunction :: "JsNativeFunction \<Rightarrow> ('w, JsValueRef) api"
  JsGetAndClearException :: "('w, JsValueRef) api"
  JsCreateContext :: "('w, JsContextRef) api"
  JsGetCurrentContext :: "('w, JsContextRef) api"
  JsSetCurrentContext :: "JsContextRef \<Rightarrow> ('w, unit) api"
  JsGetContextOfObject :: "JsValueRef \<Rightarrow> ('w, JsContextRef) api"
  JsAddRef :: "JsValueRef \<Rightarrow> ('w, unit) api"
  JsRelease :: "JsValueRef \<Rightarrow> ('w, unit) api"
  JsDiagStartDebugging :: "('w, unit) api"
  JsDiagStopDebugging :: "('w, unit) api"
  JsDiagRequestAsyncBreak :: "('w, unit) api"
  JsDiagGetScripts :: "('w, JsValueRef) api"
  JsDiagGetSource :: "cint \<Rightarrow> ('w, JsValueRef) api"
  JsDiagGetStackTrace :: "('w, JsValueRef) api"
  JsDiagGetStackProperties :: "cint \<Rightarrow> ('w, JsValueRef) api"
  JsDiagGetObjectFromHandle :: "cint \<Rightarrow> ('w, JsValueRef) api"
  JsDiagGetProperties :: "cint \<Rightarrow> nat \<Rightarrow> nat \<Rightarrow> ('w, JsValueRef) api"
  JsDiagEvaluate :: "JsValueRef \<Rightarrow> cint \<Rightarrow> bool \<Rightarrow> ('w, JsValueRef) api"
  JsDiagSetBreakpoint :: "cint \<Rightarrow> cint \<Rightarrow> cint \<Rightarrow> ('w, JsValueRef) api"
  JsDiagRemoveBreakpoint :: "cint \<Rightarrow> ('w, unit) api"
  JsDiagGetBreakpoints :: "('w, JsValueRef) api"
  JsDiagSetBreakOnException :: "JsDiagBreakOnExceptionAttributes \<Rightarrow> ('w, unit) api"
  JsDiagGetBreakOnException :: "('w, JsDiagBreakOnExceptionAttributes) api"
  JsDiagSetStepType :: "JsDiagStepType \<Rightarrow> ('w, unit) api"

text \<open>An engine call: with its error code, and under \<open>IfJsErrorThrow\<close>.\<close>

definition jsrt :: "('w, 'a) api \<Rightarrow> ('w \<times> 'p, fault, JsErrorCode \<times> 'a) M" where
  "jsrt f = (\<lambda>(w, p). case f w of (r, w') \<Rightarrow> (Inr r, (w', p)))"

definition js :: "'w JSRT \<Rightarrow> ('w, 'a) api \<Rightarrow> ('w \<times> 'p, fault, 'a) M" where
  "js J f = bindM (jsrt f) (\<lambda>(err, value). seqM (IfJsErrorThrow (codes J) err) (retM value))"

subsection \<open>\<open>PropertyHelpers\<close>\<close>

definition IsUndefined :: "'w JSRT \<Rightarrow> JsValueRef \<Rightarrow> ('w \<times> 'p, fault, bool) M" where
  "IsUndefined J object =
     bindM (jsrt (JsGetUndefinedValue J)) (\<lambda>(_, undefinedValue). retM (object = undefinedValue))"

text \<open>
  \<open>buffer.resize(stringLength, 0)\<close> and \<open>JsCopyStringUtf16\<close> into it: a negative length is out of every
  vector's range, and what the engine does not write stays zero.
\<close>

definition ValueAsString :: "bool \<Rightarrow> 'w JSRT \<Rightarrow> JsValueRef \<Rightarrow> ('w \<times> 'p, fault, string16) M" where
  "ValueAsString doConversion J object =
     bindM (if doConversion then js J (JsConvertValueToString J object) else retM object)
       (\<lambda>stringValue.
     bindM (js J (JsGetStringLength J stringValue)) (\<lambda>stringLength.
       if sint stringLength < 0 then throwM (Throw LengthError)
       else bindM (js J (JsCopyStringUtf16 J stringValue 0 stringLength)) (\<lambda>copied.
         retM (take (unat stringLength) copied @
                 replicate (unat stringLength - length copied) 0))))"

definition ValueToNative ::
  "bool \<Rightarrow> 'w JSRT \<Rightarrow> (JsValueRef \<Rightarrow> ('w, JsValueRef) api) \<Rightarrow> (JsValueRef \<Rightarrow> ('w, 'a) api) \<Rightarrow>
     JsValueRef \<Rightarrow> ('w \<times> 'p, fault, 'a) M" where
  "ValueToNative doConversion J JsConvertToValue JsValueToNative value =
     bindM (if doConversion then js J (JsConvertToValue value) else retM value)
       (\<lambda>v. js J (JsValueToNative v))"

definition SetProperty ::
  "'w JSRT \<Rightarrow> JsValueRef \<Rightarrow> string \<Rightarrow> JsValueRef \<Rightarrow> ('w \<times> 'p, fault, bool) M" where
  "SetProperty J object propertyName value =
     bindM (js J (JsCreatePropertyId J propertyName)) (\<lambda>propertyId.
     bindM (jsrt (JsSetProperty J object propertyId value False)) (\<lambda>(err, _).
       retM (err = JsNoError)))"

definition GetProperty :: "'w JSRT \<Rightarrow> JsValueRef \<Rightarrow> string \<Rightarrow> ('w \<times> 'p, fault, JsValueRef) M" where
  "GetProperty J object name =
     bindM (js J (JsCreatePropertyId J name)) (\<lambda>propertyId.
       js J (JsGetProperty J object propertyId))"

definition GetPropertyBool :: "'w JSRT \<Rightarrow> JsValueRef \<Rightarrow> string \<Rightarrow> ('w \<times> 'p, fault, bool) M" where
  "GetPropertyBool J object name =
     bindM (GetProperty J object name)
       (ValueToNative False J (JsConvertValueToBoolean J) (JsBooleanToBool J))"

definition GetPropertyInt :: "'w JSRT \<Rightarrow> JsValueRef \<Rightarrow> string \<Rightarrow> ('w \<times> 'p, fault, cint) M" where
  "GetPropertyInt J object name =
     bindM (GetProperty J object name)
       (ValueToNative False J (JsConvertValueToNumber J) (JsNumberToInt J))"

definition GetPropertyString :: "'w JSRT \<Rightarrow> JsValueRef \<Rightarrow> string \<Rightarrow> ('w \<times> 'p, fault, string16) M" where
  "GetPropertyString J object name = bindM (GetProperty J object name) (ValueAsString False J)"

definition GetPropertyBoolConvert :: "'w JSRT \<Rightarrow> JsValueRef \<Rightarrow> string \<Rightarrow> ('w \<times> 'p, fault, bool) M" where
  "GetPropertyBoolConvert J object name =
     bindM (GetProperty J object name)
       (ValueToNative True J (JsConvertValueToBoolean J) (JsBooleanToBool J))"

definition GetPropertyIntConvert :: "'w JSRT \<Rightarrow> JsValueRef \<Rightarrow> string \<Rightarrow> ('w \<times> 'p, fault, cint) M" where
  "GetPropertyIntConvert J object name =
     bindM (GetProperty J object name)
       (ValueToNative True J (JsConvertValueToNumber J) (JsNumberToInt J))"

definition GetPropertyStringConvert ::
  "'w JSRT \<Rightarrow> JsValueRef \<Rightarrow> string \<Rightarrow> ('w \<times> 'p, fault, string16) M" where
  "GetPropertyStringConvert J object name = bindM (GetProperty J object name) (ValueAsString True J)"

definition GetIndexedProperty :: "'w JSRT \<Rightarrow> JsValueRef \<Rightarrow> cint \<Rightarrow> ('w \<times> 'p, fault, JsValueRef) M" where
  "GetIndexedProperty J object index =
     bindM (js J (JsIntToNumber J index)) (\<lambda>indexValue.
       js J (JsGetIndexedProperty J object indexValue))"

definition GetIndexedPropertyString ::
  "'w JSRT \<Rightarrow> JsValueRef \<Rightarrow> cint \<Rightarrow> ('w \<times> 'p, fault, string16) M" where
  "GetIndexedPropertyString J object index =
     bindM (GetIndexedProperty J object index) (\<lambda>objValue.
     bindM (IsUndefined J objValue) (\<lambda>undefinedValue.
       if \<not> undefinedValue then ValueAsString False J objValue else retM []))"

definition HasProperty :: "'w JSRT \<Rightarrow> JsValueRef \<Rightarrow> string \<Rightarrow> ('w \<times> 'p, fault, bool) M" where
  "HasProperty J object name =
     bindM (js J (JsCreatePropertyId J name)) (\<lambda>propertyId.
       js J (JsHasProperty J object propertyId))"

text \<open>The overloads of \<open>TryGetProperty\<close>; \<open>None\<close> is the result false, with the out parameter left alone.\<close>

definition TryGetProperty ::
  "'w JSRT \<Rightarrow> JsValueRef \<Rightarrow> string \<Rightarrow> ('w \<times> 'p, fault, JsValueRef option) M" where
  "TryGetProperty J object name =
     bindM (js J (JsCreatePropertyId J name)) (\<lambda>propertyId.
     bindM (js J (JsHasProperty J object propertyId)) (\<lambda>hasProperty.
       if hasProperty then
         bindM (js J (JsGetProperty J object propertyId)) (\<lambda>value. retM (Some value))
       else retM None))"

definition TryGetPropertyAs ::
  "(JsValueRef \<Rightarrow> ('w \<times> 'p, fault, 'a) M) \<Rightarrow> 'w JSRT \<Rightarrow> JsValueRef \<Rightarrow> string \<Rightarrow>
     ('w \<times> 'p, fault, 'a option) M" where
  "TryGetPropertyAs convert J object name =
     bindM (TryGetProperty J object name) (\<lambda>propertyValue.
       case propertyValue of
         Some v \<Rightarrow> bindM (convert v) (\<lambda>value. retM (Some value))
       | None \<Rightarrow> retM None)"

definition TryGetPropertyBool ::
  "'w JSRT \<Rightarrow> JsValueRef \<Rightarrow> string \<Rightarrow> ('w \<times> 'p, fault, bool option) M" where
  "TryGetPropertyBool J = TryGetPropertyAs (\<lambda>v. js J (JsBooleanToBool J v)) J"

definition TryGetPropertyInt ::
  "'w JSRT \<Rightarrow> JsValueRef \<Rightarrow> string \<Rightarrow> ('w \<times> 'p, fault, cint option) M" where
  "TryGetPropertyInt J = TryGetPropertyAs (\<lambda>v. js J (JsNumberToInt J v)) J"

definition TryGetPropertyString ::
  "'w JSRT \<Rightarrow> JsValueRef \<Rightarrow> string \<Rightarrow> ('w \<times> 'p, fault, string16 option) M" where
  "TryGetPropertyString J = TryGetPropertyAs (ValueAsString False J) J"

text \<open>
  The loops \<open>for (int index = 0; index < length; index++)\<close> over an engine array: the body at each
  index, its results in order.
\<close>

fun for_index :: "nat \<Rightarrow> cint \<Rightarrow> (cint \<Rightarrow> ('s, 'e, 'a) M) \<Rightarrow> ('s, 'e, 'a list) M" where
  "for_index 0 index body = retM []"
| "for_index (Suc n) index body =
     bindM (body index) (\<lambda>x. bindM (for_index n (index + 1) body) (\<lambda>xs. retM (x # xs)))"

definition for_length :: "cint \<Rightarrow> (cint \<Rightarrow> ('s, 'e, 'a) M) \<Rightarrow> ('s, 'e, 'a list) M" where
  "for_length length_value body = for_index (nat (sint length_value)) 0 body"

definition for_items ::
  "'w JSRT \<Rightarrow> JsValueRef \<Rightarrow> (JsValueRef \<Rightarrow> ('w \<times> 'p, fault, 'a) M) \<Rightarrow> ('w \<times> 'p, fault, 'a list) M" where
  "for_items J array body =
     bindM (GetPropertyInt J array ''length'') (\<lambda>length_value.
       for_length length_value (\<lambda>index. bindM (GetIndexedProperty J array index) body))"

subsection \<open>What an engine operation does to the program's state\<close>

text \<open>
  An engine operation leaves the program's own state alone and stops, if it does, with an exception.
\<close>

named_theorems engine_intros \<open>engine operations\<close>

definition engine_op :: "('w \<times> 'p, fault, 'a) M \<Rightarrow> bool" where
  "engine_op m \<longleftrightarrow>
     (\<forall>w p. snd (snd (m (w, p))) = p \<and> (\<forall>f. fst (m (w, p)) = Inl f \<longrightarrow> (\<exists>e. f = Throw e)))"

lemma engine_ret [engine_intros]: "engine_op (retM x)"
  by (simp add: engine_op_def retM_def)

lemma engine_throw [engine_intros]: "engine_op (throwM (Throw e))"
  by (simp add: engine_op_def throwM_def)

lemma engine_bind [engine_intros]:
  assumes "engine_op m" and "\<And>x. engine_op (f x)"
  shows "engine_op (bindM m f)"
proof -
  have "snd (snd (bindM m f (w, p))) = p \<and>
      (\<forall>g. fst (bindM m f (w, p)) = Inl g \<longrightarrow> (\<exists>e. g = Throw e))" for w p
  proof -
    obtain r t where Pair: "m (w, p) = (r, t)" by (cases "m (w, p)")
    then have t: "snd t = p" and r: "\<And>g. r = Inl g \<Longrightarrow> \<exists>e. g = Throw e"
      using assms(1) unfolding engine_op_def by (metis fst_conv snd_conv)+
    show ?thesis
      using Pair t r assms(2) unfolding engine_op_def bindM_def
      by (cases r; cases t) auto
  qed
  then show ?thesis by (simp add: engine_op_def)
qed

lemma engine_seq [engine_intros]: "engine_op m \<Longrightarrow> engine_op n \<Longrightarrow> engine_op (seqM m n)"
  by (simp add: seqM_def engine_bind)

lemma engine_if [engine_intros]: "engine_op a \<Longrightarrow> engine_op b \<Longrightarrow> engine_op (if c then a else b)"
  by simp

lemma engine_option [engine_intros]:
  "engine_op a \<Longrightarrow> (\<And>y. engine_op (b y)) \<Longrightarrow> engine_op (case x of None \<Rightarrow> a | Some y \<Rightarrow> b y)"
  by (simp split: option.split)

lemma engine_prod [engine_intros]:
  "(\<And>a b. engine_op (f a b)) \<Longrightarrow> engine_op (case p of (a, b) \<Rightarrow> f a b)"
  by (simp split: prod.split)

lemma engine_jsrt [engine_intros]: "engine_op (jsrt f)"
  by (simp add: engine_op_def jsrt_def split: prod.split)

lemma engine_check [engine_intros]: "engine_op (IfJsErrorThrow k e)"
  by (simp add: IfJsErrorThrow_def engine_intros)

lemma engine_js [engine_intros]: "engine_op (js J f)"
  unfolding js_def by (intro engine_intros)

lemma engine_for_index [engine_intros]: "(\<And>i. engine_op (f i)) \<Longrightarrow> engine_op (for_index n i f)"
  by (induction n arbitrary: i) (auto intro!: engine_intros)

lemma engine_for_length [engine_intros]: "(\<And>i. engine_op (f i)) \<Longrightarrow> engine_op (for_length n f)"
  unfolding for_length_def by (intro engine_intros)

lemma engine_keeps: "engine_op m \<Longrightarrow> keeps (\<lambda>s. P (snd s)) m"
  by (auto simp: engine_op_def keeps_def)

lemma engine_ValueAsString [engine_intros]: "engine_op (ValueAsString c J v)"
  unfolding ValueAsString_def by (intro engine_intros)

lemma engine_GetProperty [engine_intros]: "engine_op (GetProperty J v n)"
  unfolding GetProperty_def by (intro engine_intros)

lemma engine_TryGetProperty [engine_intros]: "engine_op (TryGetProperty J v n)"
  unfolding TryGetProperty_def by (intro engine_intros)

lemma engine_getters [engine_intros]:
  "engine_op (GetPropertyBool J v n)" "engine_op (GetPropertyInt J v n)"
  "engine_op (GetPropertyString J v n)" "engine_op (GetPropertyBoolConvert J v n)"
  "engine_op (GetPropertyIntConvert J v n)" "engine_op (GetPropertyStringConvert J v n)"
  unfolding GetPropertyBool_def GetPropertyInt_def GetPropertyString_def GetPropertyBoolConvert_def
    GetPropertyIntConvert_def GetPropertyStringConvert_def ValueToNative_def
  by (intro engine_intros)+

lemma engine_indexed [engine_intros]:
  "engine_op (GetIndexedProperty J v i)" "engine_op (GetIndexedPropertyString J v i)"
  unfolding GetIndexedPropertyString_def GetIndexedProperty_def IsUndefined_def
  by (intro engine_intros)+

lemma engine_tests [engine_intros]:
  "engine_op (SetProperty J v n u)" "engine_op (HasProperty J v n)"
  "engine_op (TryGetPropertyBool J v n)" "engine_op (TryGetPropertyInt J v n)"
  "engine_op (TryGetPropertyString J v n)"
  unfolding SetProperty_def HasProperty_def TryGetPropertyBool_def TryGetPropertyInt_def
    TryGetPropertyString_def TryGetPropertyAs_def
  by (intro engine_intros)+

lemma engine_for_items [engine_intros]: "(\<And>v. engine_op (f v)) \<Longrightarrow> engine_op (for_items J a f)"
  unfolding for_items_def by (intro engine_intros)

end
