(* ===== verification/Conversions.thy ===== *)
theory Conversions
  imports JsonWriter "HOL-Library.State_Monad"
begin

section \<open>Conversions between protocol types and JSON values\<close>

text \<open>
  \<open>ErrorSupport\<close>, the \<open>ValueConversions\<close> templates, \<open>Maybe\<close> and \<open>Array\<close> of
  \<open>Generated/protocol/Protocol.h/.cpp\<close>.  Every \<open>fromValue\<close> threads one \<open>ErrorSupport\<close>, so the
  readers are written in the state monad; a pointer result is an option (\<open>None\<close> is \<open>nullptr\<close>).
  The generated \<open>fromValue\<close> bodies all have one shape, a sequence of \<open>required\<close>, \<open>maybe_field\<close> and
  \<open>maybe_object\<close> reads between \<open>push\<close> and \<open>pop\<close>; \<open>fromObject\<close> is that shape.  The locale \<open>codec\<close>
  is what a pair \<open>toValue\<close>/\<open>fromValue\<close> promises: reading back what was written, without an error.
\<close>

subsection \<open>Error collection\<close>

record ErrorSupport =
  m_path :: "string16 list"
  m_errors :: "string16 list"

definition no_errors :: ErrorSupport where
  "no_errors = \<lparr>m_path = [], m_errors = []\<rparr>"

text \<open>
  \<open>setName\<close> and \<open>pop\<close> of an empty path are undefined; every caller has pushed before.
\<close>

definition setName :: "string16 \<Rightarrow> ErrorSupport \<Rightarrow> ErrorSupport" where
  "setName name e = (if m_path e = [] then e else e\<lparr>m_path := butlast (m_path e) @ [name]\<rparr>)"

definition push :: "ErrorSupport \<Rightarrow> ErrorSupport" where
  "push e = e\<lparr>m_path := m_path e @ [[]]\<rparr>"

definition pop :: "ErrorSupport \<Rightarrow> ErrorSupport" where
  "pop e = e\<lparr>m_path := butlast (m_path e)\<rparr>"

definition addError :: "string16 \<Rightarrow> ErrorSupport \<Rightarrow> ErrorSupport" where
  "addError err e =
     e\<lparr>m_errors := m_errors e @ [join (lit ''.'') (m_path e) @ lit '': '' @ err]\<rparr>"

definition hasErrors :: "ErrorSupport \<Rightarrow> bool" where
  "hasErrors e \<longleftrightarrow> m_errors e \<noteq> []"

definition errors :: "ErrorSupport \<Rightarrow> string16" where
  "errors e = join (lit ''; '') (m_errors e)"

type_synonym 'a reader = "(ErrorSupport, 'a) state"

abbreviation ret :: "'a \<Rightarrow> 'a reader" where
  "ret \<equiv> State_Monad.return"

abbreviation update :: "(ErrorSupport \<Rightarrow> ErrorSupport) \<Rightarrow> unit reader" where
  "update \<equiv> State_Monad.update"

lemma run_state_update [simp]: "run_state (State_Monad.update f) s = ((), f s)"
  by (simp add: State_Monad.update_def)

lemma bind_reader_cong [fundef_cong]:
  "m = m' \<Longrightarrow> (\<And>x. f x = f' x) \<Longrightarrow> State_Monad.bind m f = State_Monad.bind m' f'"
  by (rule arg_cong2 [of _ _ _ _ State_Monad.bind]) auto

subsection \<open>Basic types\<close>

definition expect :: "string \<Rightarrow> 'a \<Rightarrow> 'a option \<Rightarrow> 'a reader" where
  "expect message dflt result =
     (case result of
        Some x \<Rightarrow> ret x
      | None \<Rightarrow> do { update (addError (lit message)); ret dflt })"

definition bool_fromValue :: "val option \<Rightarrow> bool reader" where
  "bool_fromValue value =
     expect ''boolean value expected'' False (Option.bind value asBoolean)"

definition int_fromValue :: "val option \<Rightarrow> cint reader" where
  "int_fromValue value = expect ''integer value expected'' 0 (Option.bind value asInteger)"

definition double_fromValue :: "val option \<Rightarrow> dbl reader" where
  "double_fromValue value =
     expect ''double value expected'' (Fin False 0 0) (Option.bind value asDouble)"

definition String_fromValue :: "val option \<Rightarrow> string16 reader" where
  "String_fromValue value = expect ''string value expected'' [] (Option.bind value asString)"

definition Value_fromValue :: "val option \<Rightarrow> val option reader" where
  "Value_fromValue value =
     (case value of
        None \<Rightarrow> do { update (addError (lit ''value expected'')); ret None }
      | Some v \<Rightarrow> ret (clone v))"

text \<open>
  \<open>DictionaryValue::cast(value->clone())\<close> is evaluated whether or not the test before it succeeded;
  the reads of the types modelled here are optional and pass a value that is there, so the
  null pointer that the first message is about is not dereferenced.
\<close>

definition DictionaryValue_fromValue :: "val option \<Rightarrow> dict option reader" where
  "DictionaryValue_fromValue value =
     do {
       update (\<lambda>e. if map_option val_type value = Some TypeObject then e
                   else addError (lit ''object expected'') e);
       ret (DictionaryValue_cast (Option.bind value clone))
     }"

subsection \<open>Fields\<close>

text \<open>
  \<open>get\<close> is \<open>object->get\<close>, of a null \<open>object\<close> too where the code tests it.
\<close>

type_synonym getter = "string16 \<Rightarrow> val option"

definition required :: "(val option \<Rightarrow> 'a reader) \<Rightarrow> getter \<Rightarrow> string \<Rightarrow> 'a reader" where
  "required fromValue get name =
     do { update (setName (lit name)); fromValue (get (lit name)) }"

definition maybe_field ::
  "(val option \<Rightarrow> 'a reader) \<Rightarrow> getter \<Rightarrow> string \<Rightarrow> 'a option reader" where
  "maybe_field fromValue get name =
     (case get (lit name) of
        None \<Rightarrow> ret None
      | Some v \<Rightarrow> do { update (setName (lit name)); x \<leftarrow> fromValue (Some v); ret (Some x) })"

definition maybe_object ::
  "(val option \<Rightarrow> 'a option reader) \<Rightarrow> getter \<Rightarrow> string \<Rightarrow> 'a option reader" where
  "maybe_object fromValue get name =
     (case get (lit name) of
        None \<Rightarrow> ret None
      | Some v \<Rightarrow> do { update (setName (lit name)); fromValue (Some v) })"

definition fromObject :: "val option \<Rightarrow> (getter \<Rightarrow> 'a option reader) \<Rightarrow> 'a option reader" where
  "fromObject value body =
     (case DictionaryValue_cast value of
        None \<Rightarrow> do { update (addError (lit ''object expected'')); ret None }
      | Some object \<Rightarrow>
          do {
            update push;
            result \<leftarrow> body (dict_get object);
            update pop;
            e \<leftarrow> State_Monad.get;
            ret (if hasErrors e then None else result)
          })"

text \<open>\<open>if (m_x.isJust()) result->setValue(...)\<close>.\<close>

definition setMaybe :: "('a \<Rightarrow> val) \<Rightarrow> string \<Rightarrow> 'a option \<Rightarrow> dict \<Rightarrow> dict" where
  "setMaybe toValue name x d =
     (case x of None \<Rightarrow> d | Some v \<Rightarrow> setValue (lit name) (toValue v) d)"

definition setField :: "('a \<Rightarrow> val) \<Rightarrow> string \<Rightarrow> 'a \<Rightarrow> dict \<Rightarrow> dict" where
  "setField toValue name x d = setValue (lit name) (toValue x) d"

subsection \<open>Arrays\<close>

fun item_loop :: "(val option \<Rightarrow> 'a reader) \<Rightarrow> nat \<Rightarrow> val list \<Rightarrow> 'a list reader" where
  "item_loop fromValue i [] = ret []"
| "item_loop fromValue i (v # vs) =
     do {
       update (setName (fromInteger_size i));
       item \<leftarrow> fromValue (Some v);
       items \<leftarrow> item_loop fromValue (Suc i) vs;
       ret (item # items)
     }"

text \<open>
  \<open>ArrayBase<T>\<close> holds the items, \<open>Array<T>\<close> pointers to them; a null item comes with an error, so
  no array with one is returned.
\<close>

definition ArrayBase_fromValue :: "(val option \<Rightarrow> 'a reader) \<Rightarrow> val option \<Rightarrow> 'a list option reader" where
  "ArrayBase_fromValue fromValue value =
     (case ListValue_cast value of
        None \<Rightarrow> do { update (addError (lit ''array expected'')); ret None }
      | Some array \<Rightarrow>
          do {
            update push;
            result \<leftarrow> item_loop fromValue 0 array;
            update pop;
            e \<leftarrow> State_Monad.get;
            ret (if hasErrors e then None else Some result)
          })"

definition Array_fromValue ::
  "(val option \<Rightarrow> 'a option reader) \<Rightarrow> val option \<Rightarrow> 'a list option reader" where
  "Array_fromValue fromValue value =
     do { result \<leftarrow> ArrayBase_fromValue fromValue value; ret (Option.bind result those) }"

definition Array_toValue :: "('a \<Rightarrow> val) \<Rightarrow> 'a list \<Rightarrow> val" where
  "Array_toValue toValue m_vector = ListValue (map toValue m_vector)"

lemma wf_Array_toValue [simp]: "wf_val (Array_toValue f xs) \<longleftrightarrow> (\<forall>x \<in> set xs. wf_val (f x))"
  by (simp add: Array_toValue_def)

subsection \<open>Congruence rules for recursive readers\<close>

lemma fromObject_cong [fundef_cong]:
  assumes "value = value'"
    and "\<And>d. value' = Some (Dict d) \<Longrightarrow> body (dict_get d) = body' (dict_get d)"
  shows "fromObject value body = fromObject value' body'"
proof (cases "DictionaryValue_cast value'")
  case (Some d)
  then have "value' = Some (Dict d)"
    by (cases value' rule: DictionaryValue_cast.cases) (auto simp: Dict_def)
  with assms Some show ?thesis by (simp add: fromObject_def)
qed (simp add: fromObject_def assms(1))

lemma required_cong [fundef_cong]:
  "get = get' \<Longrightarrow> name = name' \<Longrightarrow> f (get' (lit name')) = f' (get' (lit name')) \<Longrightarrow>
     required f get name = required f' get' name'"
  by (simp add: required_def)

lemma maybe_field_cong [fundef_cong]:
  "get = get' \<Longrightarrow> name = name' \<Longrightarrow> (\<And>v. get' (lit name') = Some v \<Longrightarrow> f (Some v) = f' (Some v)) \<Longrightarrow>
     maybe_field f get name = maybe_field f' get' name'"
  by (simp add: maybe_field_def split: option.splits)

lemma maybe_object_cong [fundef_cong]:
  "get = get' \<Longrightarrow> name = name' \<Longrightarrow> (\<And>v. get' (lit name') = Some v \<Longrightarrow> f (Some v) = f' (Some v)) \<Longrightarrow>
     maybe_object f get name = maybe_object f' get' name'"
  by (simp add: maybe_object_def split: option.splits)

lemma item_loop_cong:
  "(\<And>v. v \<in> set vs \<Longrightarrow> f (Some v) = f' (Some v)) \<Longrightarrow> item_loop f i vs = item_loop f' i vs"
  by (induction vs arbitrary: i) auto

lemma ListValue_cast_Some: "ListValue_cast v = Some vs \<longleftrightarrow> v = Some (ListValue vs)"
  by (cases v rule: ListValue_cast.cases) auto

lemma ArrayBase_fromValue_cong [fundef_cong]:
  "value = value' \<Longrightarrow>
     (\<And>vs v. value' = Some (ListValue vs) \<Longrightarrow> v \<in> set vs \<Longrightarrow> f (Some v) = f' (Some v)) \<Longrightarrow>
     ArrayBase_fromValue f value = ArrayBase_fromValue f' value'"
  using item_loop_cong [of _ f f' 0]
  by (auto simp: ArrayBase_fromValue_def ListValue_cast_Some split: option.splits)

lemma Array_fromValue_cong [fundef_cong]:
  "value = value' \<Longrightarrow>
     (\<And>vs v. value' = Some (ListValue vs) \<Longrightarrow> v \<in> set vs \<Longrightarrow> f (Some v) = f' (Some v)) \<Longrightarrow>
     Array_fromValue f value = Array_fromValue f' value'"
  unfolding Array_fromValue_def by (intro arg_cong2 [where f = State_Monad.bind]
      ArrayBase_fromValue_cong) auto

text \<open>A value read from an object or an array is smaller than it.\<close>

lemma size_dict_get: "dict_get d n = Some v \<Longrightarrow> size v < size (Dict d)"
  using size_map_of [of "fst d" n v] by (simp add: dict_get_def Dict_def)

lemma size_Dict_pos [simp]: "0 < size (Dict d)"
  by (simp add: Dict_def)

lemma size_list_member: "v \<in> set vs \<Longrightarrow> size v < size (ListValue vs)"
  using size_list_estimation' [of v vs "size v" size] by simp

subsection \<open>Reading back what was written\<close>

text \<open>What a read leaves of the error collection: the name of the field it looked at.\<close>

definition named :: "string \<Rightarrow> 'a option \<Rightarrow> ErrorSupport \<Rightarrow> ErrorSupport" where
  "named name x e = (if x = None then e else setName (lit name) e)"

lemma m_errors_simps [simp]:
  "m_errors (setName n e) = m_errors e" "m_errors (push e) = m_errors e"
  "m_errors (pop e) = m_errors e" "m_errors (named name x e) = m_errors e"
  by (simp_all add: setName_def push_def pop_def named_def)

lemma pop_simps [simp]:
  "pop (setName n e) = pop e" "pop (push e) = e" "pop (named name x e) = pop e"
  by (simp_all add: setName_def push_def pop_def named_def)

definition run_field :: "(val option \<Rightarrow> 'a reader) \<Rightarrow> string \<Rightarrow> val option \<Rightarrow> ErrorSupport \<Rightarrow>
    'a option \<times> ErrorSupport" where
  "run_field fromValue name v e =
     (case v of
        None \<Rightarrow> (None, e)
      | Some v \<Rightarrow> (case run_state (fromValue (Some v)) (setName (lit name) e) of
           (x, e') \<Rightarrow> (Some x, e')))"

definition run_object :: "(val option \<Rightarrow> 'a option reader) \<Rightarrow> string \<Rightarrow> val option \<Rightarrow> ErrorSupport \<Rightarrow>
    'a option \<times> ErrorSupport" where
  "run_object fromValue name v e =
     (case v of
        None \<Rightarrow> (None, e)
      | Some v \<Rightarrow> run_state (fromValue (Some v)) (setName (lit name) e))"

lemma run_required [codec_simps]:
  "run_state (required f get n) e = run_state (f (get (lit n))) (setName (lit n) e)"
  by (simp add: required_def)

lemma run_maybe_field [codec_simps]:
  "run_state (maybe_field f get n) e = run_field f n (get (lit n)) e"
  by (simp add: maybe_field_def run_field_def split: option.splits)

lemma run_maybe_object [codec_simps]:
  "run_state (maybe_object f get n) e = run_object f n (get (lit n)) e"
  by (simp add: maybe_object_def run_object_def split: option.splits)

lemma run_fromObject [codec_simps]:
  "run_state (fromObject (Some (Dict d)) body) e =
     (case run_state (body (dict_get d)) (push e) of
        (x, e') \<Rightarrow> (if m_errors e' = [] then x else None, pop e'))"
  by (simp add: fromObject_def hasErrors_def split: prod.splits)

lemma dict_get_setField [codec_simps]:
  "dict_get (setField f n x d) k = (if lit n = k then Some (f x) else dict_get d k)"
  by (simp add: setField_def setValue_def)

lemma dict_get_setMaybe_other [codec_simps]:
  "lit n \<noteq> k \<Longrightarrow> dict_get (setMaybe f n x d) k = dict_get d k"
  by (simp add: setMaybe_def setValue_def split: option.splits)

lemma dict_get_setMaybe [codec_simps]:
  "dict_get d (lit n) = None \<Longrightarrow> dict_get (setMaybe f n x d) (lit n) = map_option f x"
  by (simp add: setMaybe_def setValue_def split: option.splits)

lemma wf_setField [wf_intros]: "wf_dict d \<Longrightarrow> wf_val (f x) \<Longrightarrow> wf_dict (setField f n x d)"
  by (simp add: setField_def setValue_def wf_dict_set)

lemma wf_setMaybe [wf_intros]:
  "wf_dict d \<Longrightarrow> pred_option (\<lambda>v. wf_val (f v)) x \<Longrightarrow> wf_dict (setMaybe f n x d)"
  by (cases x) (simp_all add: setMaybe_def setValue_def wf_dict_set)

locale codec =
  fixes toValue :: "'a \<Rightarrow> val"
    and fromValue :: "val option \<Rightarrow> 'b reader"
    and wrap :: "'a \<Rightarrow> 'b"
    and ok :: "'a \<Rightarrow> bool"
  assumes fromValue_toValue:
      "ok x \<Longrightarrow> m_errors e = [] \<Longrightarrow> run_state (fromValue (Some (toValue x))) e = (wrap x, e)"
    and wf_toValue: "ok x \<Longrightarrow> wf_val (toValue x)"
begin

lemma run_field_toValue:
  "pred_option ok x \<Longrightarrow> m_errors e = [] \<Longrightarrow>
     run_field fromValue n (map_option toValue x) e = (map_option wrap x, named n x e)"
  by (cases x) (simp_all add: run_field_def named_def fromValue_toValue)

lemma item_loop_toValue:
  "\<forall>x \<in> set xs. ok x \<Longrightarrow> m_errors e = [] \<Longrightarrow>
     \<exists>e'. run_state (item_loop fromValue i (map toValue xs)) e = (map wrap xs, e') \<and>
       m_errors e' = [] \<and> pop e' = pop e"
proof (induction xs arbitrary: i e)
  case (Cons x xs)
  then obtain e' where "run_state (item_loop fromValue (Suc i) (map toValue xs))
      (setName (fromInteger_size i) e) = (map wrap xs, e')" "m_errors e' = []" "pop e' = pop e"
    using Cons.IH [of "setName (fromInteger_size i) e" "Suc i"] by auto
  with Cons.prems show ?case by (simp add: fromValue_toValue)
qed simp

lemma array_base:
  assumes "\<forall>x \<in> set xs. ok x" and "m_errors e = []"
  shows "run_state (ArrayBase_fromValue fromValue (Some (Array_toValue toValue xs))) e =
    (Some (map wrap xs), e)"
proof -
  obtain e' where "run_state (item_loop fromValue 0 (map toValue xs)) (push e) = (map wrap xs, e')"
    "m_errors e' = []" "pop e' = pop (push e)"
    using item_loop_toValue [of xs "push e" 0] assms by auto
  then show ?thesis by (simp add: ArrayBase_fromValue_def Array_toValue_def hasErrors_def)
qed

lemma array_wf: "\<forall>x \<in> set xs. ok x \<Longrightarrow> wf_val (Array_toValue toValue xs)"
  by (simp add: Array_toValue_def wf_toValue)

lemma maybe_wf: "pred_option ok x \<Longrightarrow> pred_option (\<lambda>v. wf_val (toValue v)) x"
  by (cases x) (simp_all add: wf_toValue)

end

text \<open>The codecs of the types held by pointer: \<open>fromValue\<close> returns null or an object.\<close>

locale object_codec = codec toValue fromValue Some ok
  for toValue :: "'a \<Rightarrow> val"
    and fromValue :: "val option \<Rightarrow> 'a option reader"
    and ok :: "'a \<Rightarrow> bool"
begin

lemma run_object_toValue:
  "pred_option ok x \<Longrightarrow> m_errors e = [] \<Longrightarrow>
     run_object fromValue n (map_option toValue x) e = (x, named n x e)"
  by (cases x) (simp_all add: run_object_def named_def fromValue_toValue)

lemma those_Some: "those (map Some xs) = Some xs"
  by (induction xs) auto

lemma array:
  "\<forall>x \<in> set xs. ok x \<Longrightarrow> m_errors e = [] \<Longrightarrow>
     run_state (Array_fromValue fromValue (Some (Array_toValue toValue xs))) e = (Some xs, e)"
  by (simp add: Array_fromValue_def array_base those_Some)

lemma array_codec:
  "object_codec (Array_toValue toValue) (Array_fromValue fromValue) (\<lambda>xs. \<forall>x \<in> set xs. ok x)"
  by unfold_locales (simp_all add: array wf_toValue)

end

subsection \<open>The basic codecs\<close>

interpretation boolean: codec BooleanValue bool_fromValue "\<lambda>x. x" "\<lambda>_. True"
  by unfold_locales (simp_all add: bool_fromValue_def expect_def)

interpretation integer: codec IntegerValue int_fromValue "\<lambda>x. x" "\<lambda>_. True"
  by unfold_locales (simp_all add: int_fromValue_def expect_def)

interpretation double: codec DoubleValue double_fromValue "\<lambda>x. x" "\<lambda>_. True"
  by unfold_locales (simp_all add: double_fromValue_def expect_def)

interpretation string: codec StringValue String_fromValue "\<lambda>x. x" "\<lambda>_. True"
  by unfold_locales (simp_all add: String_fromValue_def expect_def)

text \<open>
  \<open>toValue\<close> of a value or a dictionary clones it, which is the identity on well-formed ones.
\<close>

interpretation json_value: object_codec "\<lambda>v. v" Value_fromValue wf_val
  by unfold_locales (simp_all add: Value_fromValue_def clone_id)

interpretation json_object: object_codec Dict DictionaryValue_fromValue wf_dict
  by unfold_locales (simp_all add: DictionaryValue_fromValue_def clone_id)

lemma strings_codec: "object_codec (Array_toValue StringValue) (ArrayBase_fromValue String_fromValue)
    (\<lambda>_. True)"
  by unfold_locales (use string.array_base string.array_wf in simp_all)

interpretation strings: object_codec "Array_toValue StringValue" "ArrayBase_fromValue String_fromValue"
    "\<lambda>_. True"
  by (rule strings_codec)

lemmas basic_codecs [codec_simps] =
  option.map_ident option.pred_True
  boolean.fromValue_toValue integer.fromValue_toValue double.fromValue_toValue
  string.fromValue_toValue json_value.fromValue_toValue json_object.fromValue_toValue
  strings.fromValue_toValue

lemmas basic_fields [codec_simps] =
  boolean.run_field_toValue [simplified option.map_ident] integer.run_field_toValue [simplified option.map_ident]
  double.run_field_toValue [simplified option.map_ident] string.run_field_toValue [simplified option.map_ident]
  json_value.run_object_toValue [simplified option.map_ident] json_object.run_object_toValue strings.run_object_toValue

end
