(* ===== verification/RuntimeTypes.thy ===== *)
theory RuntimeTypes
  imports Conversions
begin

section \<open>The types of the Runtime domain\<close>

text \<open>
  The classes of \<open>Generated/protocol/Runtime.h/.cpp\<close> with their \<open>fromValue\<close> and \<open>toValue\<close>.  A
  required pointer member is the object itself: \<open>fromValue\<close> of a null one has recorded an error,
  so no object holding it is returned.  \<open>CallFrame\<close> is \<open>RtCallFrame\<close> here, the Debugger domain has
  a class of the same name.
\<close>

text \<open>\<open>toValue\<close> bodies: a fresh dictionary and a sequence of \<open>setValue\<close> calls.\<close>

definition build_object :: "(dict \<Rightarrow> dict) list \<Rightarrow> val" where
  "build_object sets = Dict (fold (\<lambda>f. f) sets dict_create)"

lemma setMaybe_cong [fundef_cong]:
  "n = n' \<Longrightarrow> x = x' \<Longrightarrow> (\<And>v. x' = Some v \<Longrightarrow> f v = f' v) \<Longrightarrow> setMaybe f n x = setMaybe f' n' x'"
  by (auto simp: setMaybe_def fun_eq_iff split: option.splits)

lemma setField_cong [fundef_cong]:
  "n = n' \<Longrightarrow> x = x' \<Longrightarrow> f x' = f' x' \<Longrightarrow> setField f n x = setField f' n' x'"
  by (simp add: setField_def fun_eq_iff)

lemma Array_toValue_cong [fundef_cong]:
  "xs = xs' \<Longrightarrow> (\<And>x. x \<in> set xs' \<Longrightarrow> f x = f' x) \<Longrightarrow> Array_toValue f xs = Array_toValue f' xs'"
  by (simp add: Array_toValue_def)

subsection \<open>Previews\<close>

record CustomPreview =
  m_header :: string16
  m_hasBody :: bool
  m_formatterObjectId :: string16
  m_bindRemoteObjectFunctionId :: string16
  m_configObjectId :: "string16 option"

definition CustomPreview_fromValue :: "val option \<Rightarrow> CustomPreview option reader" where
  "CustomPreview_fromValue value = fromObject value (\<lambda>get. do {
     header \<leftarrow> required String_fromValue get ''header'';
     hasBody \<leftarrow> required bool_fromValue get ''hasBody'';
     formatterObjectId \<leftarrow> required String_fromValue get ''formatterObjectId'';
     bindRemoteObjectFunctionId \<leftarrow> required String_fromValue get ''bindRemoteObjectFunctionId'';
     configObjectId \<leftarrow> maybe_field String_fromValue get ''configObjectId'';
     ret (Some (CustomPreview.make header hasBody formatterObjectId bindRemoteObjectFunctionId
       configObjectId))
   })"

definition CustomPreview_toValue :: "CustomPreview \<Rightarrow> val" where
  "CustomPreview_toValue p = build_object
     [setField StringValue ''header'' (m_header p),
      setField BooleanValue ''hasBody'' (m_hasBody p),
      setField StringValue ''formatterObjectId'' (m_formatterObjectId p),
      setField StringValue ''bindRemoteObjectFunctionId'' (m_bindRemoteObjectFunctionId p),
      setMaybe StringValue ''configObjectId'' (m_configObjectId p)]"

datatype ObjectPreview = ObjectPreview
    (op_type: string16) (op_subtype: "string16 option") (op_description: "string16 option")
    (op_overflow: bool) (op_properties: "PropertyPreview list")
    (op_entries: "EntryPreview list option")
  and PropertyPreview = PropertyPreview
    (pp_name: string16) (pp_type: string16) (pp_value: "string16 option")
    (pp_valuePreview: "ObjectPreview option") (pp_subtype: "string16 option")
  and EntryPreview = EntryPreview (ep_key: "ObjectPreview option") (ep_value: ObjectPreview)

function ObjectPreview_fromValue :: "val option \<Rightarrow> ObjectPreview option reader"
  and PropertyPreview_fromValue :: "val option \<Rightarrow> PropertyPreview option reader"
  and EntryPreview_fromValue :: "val option \<Rightarrow> EntryPreview option reader"
where
  "ObjectPreview_fromValue value = fromObject value (\<lambda>get. do {
     type \<leftarrow> required String_fromValue get ''type'';
     subtype \<leftarrow> maybe_field String_fromValue get ''subtype'';
     description \<leftarrow> maybe_field String_fromValue get ''description'';
     overflow \<leftarrow> required bool_fromValue get ''overflow'';
     properties \<leftarrow> required (Array_fromValue PropertyPreview_fromValue) get ''properties'';
     entries \<leftarrow> maybe_object (Array_fromValue EntryPreview_fromValue) get ''entries'';
     ret (map_option (\<lambda>ps. ObjectPreview type subtype description overflow ps entries) properties)
   })"
| "PropertyPreview_fromValue value = fromObject value (\<lambda>get. do {
     name \<leftarrow> required String_fromValue get ''name'';
     type \<leftarrow> required String_fromValue get ''type'';
     v \<leftarrow> maybe_field String_fromValue get ''value'';
     valuePreview \<leftarrow> maybe_object ObjectPreview_fromValue get ''valuePreview'';
     subtype \<leftarrow> maybe_field String_fromValue get ''subtype'';
     ret (Some (PropertyPreview name type v valuePreview subtype))
   })"
| "EntryPreview_fromValue value = fromObject value (\<lambda>get. do {
     key \<leftarrow> maybe_object ObjectPreview_fromValue get ''key'';
     v \<leftarrow> required ObjectPreview_fromValue get ''value'';
     ret (map_option (EntryPreview key) v)
   })"
  by pat_completeness auto

termination
  by (relation "measure (case_sum (case_option 0 size) (case_sum (case_option 0 size) (case_option 0 size)))")
    (auto split: option.splits dest!: size_dict_get size_list_member)

declare ObjectPreview_fromValue.simps [simp del] PropertyPreview_fromValue.simps [simp del]
  EntryPreview_fromValue.simps [simp del]

fun ObjectPreview_toValue :: "ObjectPreview \<Rightarrow> val"
  and PropertyPreview_toValue :: "PropertyPreview \<Rightarrow> val"
  and EntryPreview_toValue :: "EntryPreview \<Rightarrow> val"
where
  "ObjectPreview_toValue (ObjectPreview type subtype description overflow properties entries) =
     build_object
       [setField StringValue ''type'' type,
        setMaybe StringValue ''subtype'' subtype,
        setMaybe StringValue ''description'' description,
        setField BooleanValue ''overflow'' overflow,
        setField (Array_toValue PropertyPreview_toValue) ''properties'' properties,
        setMaybe (Array_toValue EntryPreview_toValue) ''entries'' entries]"
| "PropertyPreview_toValue (PropertyPreview name type v valuePreview subtype) =
     build_object
       [setField StringValue ''name'' name,
        setField StringValue ''type'' type,
        setMaybe StringValue ''value'' v,
        setMaybe ObjectPreview_toValue ''valuePreview'' valuePreview,
        setMaybe StringValue ''subtype'' subtype]"
| "EntryPreview_toValue (EntryPreview key v) =
     build_object
       [setMaybe ObjectPreview_toValue ''key'' key,
        setField ObjectPreview_toValue ''value'' v]"

lemma wf_build [simp]: "wf_val (build_object fs) \<longleftrightarrow> wf_dict (fold (\<lambda>f. f) fs dict_create)"
  by (simp add: build_object_def)

lemma previews_wf [simp]:
  "wf_val (ObjectPreview_toValue op)" "wf_val (PropertyPreview_toValue pp)"
  "wf_val (EntryPreview_toValue ep)"
  by (induction op and pp and ep) (simp_all add: wf_intros pred_option_def)

text \<open>One reader inverts one writer at an object.\<close>

definition inverts :: "('a \<Rightarrow> val) \<Rightarrow> (val option \<Rightarrow> 'a option reader) \<Rightarrow> 'a \<Rightarrow> bool" where
  "inverts toValue fromValue x \<longleftrightarrow>
     wf_val (toValue x) \<and>
     (\<forall>e. m_errors e = [] \<longrightarrow> run_state (fromValue (Some (toValue x))) e = (Some x, e))"

lemma inverts_codec: "object_codec toValue fromValue (inverts toValue fromValue)"
  by unfold_locales (simp_all add: inverts_def)

lemmas inverts_run = object_codec.run_object_toValue [OF inverts_codec]
  object_codec.array [OF inverts_codec]
  object_codec.run_object_toValue [OF object_codec.array_codec [OF inverts_codec]]

lemma inverts_fromValue:
  "inverts toValue fromValue x \<Longrightarrow> m_errors e = [] \<Longrightarrow>
     run_state (fromValue (Some (toValue x))) e = (Some x, e)"
  by (simp add: inverts_def)

lemma previews_invert:
  "inverts ObjectPreview_toValue ObjectPreview_fromValue op"
  "inverts PropertyPreview_toValue PropertyPreview_fromValue pp"
  "inverts EntryPreview_toValue EntryPreview_fromValue ep"
proof (induction op and pp and ep)
  case (ObjectPreview t st d ov ps es)
  then have "\<forall>p \<in> set ps. inverts PropertyPreview_toValue PropertyPreview_fromValue p"
    and "pred_option (\<lambda>es. \<forall>e \<in> set es. inverts EntryPreview_toValue EntryPreview_fromValue e) es"
    by (auto simp: pred_option_def)
  note inverts_run(2) [OF this(1)] inverts_run(3) [OF this(2)]
  then show ?case
    by (auto simp: inverts_def [of ObjectPreview_toValue] codec_simps wf_intros pred_option_def
        ObjectPreview_fromValue.simps [of "Some v" for v] build_object_def)
next
  case (PropertyPreview n t v vp st)
  then have "pred_option (inverts ObjectPreview_toValue ObjectPreview_fromValue) vp"
    by (auto simp: pred_option_def)
  note inverts_run(1) [OF this]
  then show ?case
    by (auto simp: inverts_def [of PropertyPreview_toValue] codec_simps wf_intros pred_option_def
        PropertyPreview_fromValue.simps [of "Some v" for v] build_object_def)
next
  case (EntryPreview k v)
  then have "pred_option (inverts ObjectPreview_toValue ObjectPreview_fromValue) k"
    by (auto simp: pred_option_def)
  note inverts_run(1) [OF this] inverts_fromValue [OF EntryPreview(2)]
  then show ?case
    by (auto simp: inverts_def [of EntryPreview_toValue] codec_simps wf_intros pred_option_def
        EntryPreview_fromValue.simps [of "Some v" for v] build_object_def)
qed

interpretation object_preview: object_codec ObjectPreview_toValue ObjectPreview_fromValue "\<lambda>_. True"
  by unfold_locales (simp_all add: inverts_fromValue [OF previews_invert(1)])

lemma CustomPreview_wf [simp]: "wf_val (CustomPreview_toValue p)"
  by (simp add: CustomPreview_toValue_def wf_intros pred_option_def)

lemma CustomPreview_inverts:
  "m_errors e = [] \<Longrightarrow>
     run_state (CustomPreview_fromValue (Some (CustomPreview_toValue p))) e = (Some p, e)"
  by (simp add: CustomPreview_fromValue_def CustomPreview_toValue_def build_object_def codec_simps
      CustomPreview.make_def)

interpretation custom_preview: object_codec CustomPreview_toValue CustomPreview_fromValue "\<lambda>_. True"
  by unfold_locales (simp_all add: CustomPreview_inverts)

lemmas preview_codecs [codec_simps] =
  object_preview.fromValue_toValue object_preview.run_object_toValue
  custom_preview.fromValue_toValue custom_preview.run_object_toValue

subsection \<open>Remote objects\<close>

record RemoteObject =
  m_type :: string16
  m_subtype :: "string16 option"
  m_className :: "string16 option"
  m_value :: "val option"
  m_unserializableValue :: "string16 option"
  m_description :: "string16 option"
  m_objectId :: "string16 option"
  m_preview :: "ObjectPreview option"
  m_customPreview :: "CustomPreview option"

definition RemoteObject_fromValue :: "val option \<Rightarrow> RemoteObject option reader" where
  "RemoteObject_fromValue value = fromObject value (\<lambda>get. do {
     type \<leftarrow> required String_fromValue get ''type'';
     subtype \<leftarrow> maybe_field String_fromValue get ''subtype'';
     className \<leftarrow> maybe_field String_fromValue get ''className'';
     v \<leftarrow> maybe_object Value_fromValue get ''value'';
     unserializableValue \<leftarrow> maybe_field String_fromValue get ''unserializableValue'';
     description \<leftarrow> maybe_field String_fromValue get ''description'';
     objectId \<leftarrow> maybe_field String_fromValue get ''objectId'';
     preview \<leftarrow> maybe_object ObjectPreview_fromValue get ''preview'';
     customPreview \<leftarrow> maybe_object CustomPreview_fromValue get ''customPreview'';
     ret (Some (RemoteObject.make type subtype className v unserializableValue description
       objectId preview customPreview))
   })"

definition RemoteObject_toValue :: "RemoteObject \<Rightarrow> val" where
  "RemoteObject_toValue r = build_object
     [setField StringValue ''type'' (m_type r),
      setMaybe StringValue ''subtype'' (m_subtype r),
      setMaybe StringValue ''className'' (m_className r),
      setMaybe (\<lambda>v. v) ''value'' (m_value r),
      setMaybe StringValue ''unserializableValue'' (m_unserializableValue r),
      setMaybe StringValue ''description'' (m_description r),
      setMaybe StringValue ''objectId'' (m_objectId r),
      setMaybe ObjectPreview_toValue ''preview'' (m_preview r),
      setMaybe CustomPreview_toValue ''customPreview'' (m_customPreview r)]"

definition wf_RemoteObject :: "RemoteObject \<Rightarrow> bool" where
  "wf_RemoteObject r \<longleftrightarrow> pred_option wf_val (m_value r)"

lemma RemoteObject_wf: "wf_RemoteObject r \<Longrightarrow> wf_val (RemoteObject_toValue r)"
  by (simp add: RemoteObject_toValue_def wf_RemoteObject_def wf_intros pred_option_def)

lemma RemoteObject_inverts:
  "wf_RemoteObject r \<Longrightarrow> m_errors e = [] \<Longrightarrow>
     run_state (RemoteObject_fromValue (Some (RemoteObject_toValue r))) e = (Some r, e)"
  by (simp add: RemoteObject_fromValue_def RemoteObject_toValue_def build_object_def codec_simps
      RemoteObject.make_def wf_RemoteObject_def)

interpretation remote_object: object_codec RemoteObject_toValue RemoteObject_fromValue wf_RemoteObject
  by unfold_locales (simp_all add: RemoteObject_inverts RemoteObject_wf)

interpretation remote_objects: object_codec "Array_toValue RemoteObject_toValue"
    "Array_fromValue RemoteObject_fromValue" "\<lambda>rs. \<forall>r \<in> set rs. wf_RemoteObject r"
  by (rule remote_object.array_codec)

lemmas remote_object_wf [wf_intros] = remote_object.wf_toValue remote_object.maybe_wf

lemmas remote_object_codecs [codec_simps] =
  remote_object.fromValue_toValue remote_object.run_object_toValue
  remote_objects.fromValue_toValue remote_objects.run_object_toValue

subsection \<open>Properties, arguments and contexts\<close>

record PropertyDescriptor =
  m_name :: string16
  m_value :: "RemoteObject option"
  m_writable :: "bool option"
  m_get :: "RemoteObject option"
  m_set :: "RemoteObject option"
  m_configurable :: bool
  m_enumerable :: bool
  m_wasThrown :: "bool option"
  m_isOwn :: "bool option"
  m_symbol :: "RemoteObject option"

definition PropertyDescriptor_fromValue :: "val option \<Rightarrow> PropertyDescriptor option reader" where
  "PropertyDescriptor_fromValue value = fromObject value (\<lambda>get. do {
     nm \<leftarrow> required String_fromValue get ''name'';
     v \<leftarrow> maybe_object RemoteObject_fromValue get ''value'';
     writable \<leftarrow> maybe_field bool_fromValue get ''writable'';
     getter \<leftarrow> maybe_object RemoteObject_fromValue get ''get'';
     setter \<leftarrow> maybe_object RemoteObject_fromValue get ''set'';
     configurable \<leftarrow> required bool_fromValue get ''configurable'';
     enumerable \<leftarrow> required bool_fromValue get ''enumerable'';
     wasThrown \<leftarrow> maybe_field bool_fromValue get ''wasThrown'';
     isOwn \<leftarrow> maybe_field bool_fromValue get ''isOwn'';
     sym \<leftarrow> maybe_object RemoteObject_fromValue get ''symbol'';
     ret (Some (PropertyDescriptor.make nm v writable getter setter configurable enumerable
       wasThrown isOwn sym))
   })"

definition PropertyDescriptor_toValue :: "PropertyDescriptor \<Rightarrow> val" where
  "PropertyDescriptor_toValue x = build_object
     [setField StringValue ''name'' (PropertyDescriptor.m_name x),
      setMaybe RemoteObject_toValue ''value'' (PropertyDescriptor.m_value x),
      setMaybe BooleanValue ''writable'' (PropertyDescriptor.m_writable x),
      setMaybe RemoteObject_toValue ''get'' (PropertyDescriptor.m_get x),
      setMaybe RemoteObject_toValue ''set'' (PropertyDescriptor.m_set x),
      setField BooleanValue ''configurable'' (PropertyDescriptor.m_configurable x),
      setField BooleanValue ''enumerable'' (PropertyDescriptor.m_enumerable x),
      setMaybe BooleanValue ''wasThrown'' (PropertyDescriptor.m_wasThrown x),
      setMaybe BooleanValue ''isOwn'' (PropertyDescriptor.m_isOwn x),
      setMaybe RemoteObject_toValue ''symbol'' (PropertyDescriptor.m_symbol x)]"

definition wf_PropertyDescriptor :: "PropertyDescriptor \<Rightarrow> bool" where
  "wf_PropertyDescriptor x \<longleftrightarrow> pred_option wf_RemoteObject (PropertyDescriptor.m_value x) \<and>
     pred_option wf_RemoteObject (PropertyDescriptor.m_get x) \<and>
     pred_option wf_RemoteObject (PropertyDescriptor.m_set x) \<and>
     pred_option wf_RemoteObject (PropertyDescriptor.m_symbol x)"

interpretation property_descriptor: object_codec PropertyDescriptor_toValue PropertyDescriptor_fromValue wf_PropertyDescriptor
proof unfold_locales
  fix x and e :: ErrorSupport
  assume "wf_PropertyDescriptor x" and "m_errors e = []"
  then show "run_state (PropertyDescriptor_fromValue (Some (PropertyDescriptor_toValue x))) e = (Some x, e)"
    by (simp add: PropertyDescriptor_fromValue_def PropertyDescriptor_toValue_def build_object_def codec_simps
        PropertyDescriptor.make_def wf_PropertyDescriptor_def)
qed (simp add: PropertyDescriptor_toValue_def wf_intros option.pred_True wf_PropertyDescriptor_def)

lemmas PropertyDescriptor_codec [codec_simps] = property_descriptor.fromValue_toValue property_descriptor.run_object_toValue

lemmas PropertyDescriptor_wf [wf_intros] = property_descriptor.wf_toValue property_descriptor.maybe_wf

record InternalPropertyDescriptor =
  m_name :: string16
  m_value :: "RemoteObject option"

definition InternalPropertyDescriptor_fromValue :: "val option \<Rightarrow> InternalPropertyDescriptor option reader" where
  "InternalPropertyDescriptor_fromValue value = fromObject value (\<lambda>get. do {
     nm \<leftarrow> required String_fromValue get ''name'';
     v \<leftarrow> maybe_object RemoteObject_fromValue get ''value'';
     ret (Some (InternalPropertyDescriptor.make nm v))
   })"

definition InternalPropertyDescriptor_toValue :: "InternalPropertyDescriptor \<Rightarrow> val" where
  "InternalPropertyDescriptor_toValue x = build_object
     [setField StringValue ''name'' (InternalPropertyDescriptor.m_name x),
      setMaybe RemoteObject_toValue ''value'' (InternalPropertyDescriptor.m_value x)]"

definition wf_InternalPropertyDescriptor :: "InternalPropertyDescriptor \<Rightarrow> bool" where
  "wf_InternalPropertyDescriptor x \<longleftrightarrow> pred_option wf_RemoteObject (InternalPropertyDescriptor.m_value x)"

interpretation internal_property_descriptor: object_codec InternalPropertyDescriptor_toValue InternalPropertyDescriptor_fromValue wf_InternalPropertyDescriptor
proof unfold_locales
  fix x and e :: ErrorSupport
  assume "wf_InternalPropertyDescriptor x" and "m_errors e = []"
  then show "run_state (InternalPropertyDescriptor_fromValue (Some (InternalPropertyDescriptor_toValue x))) e = (Some x, e)"
    by (simp add: InternalPropertyDescriptor_fromValue_def InternalPropertyDescriptor_toValue_def build_object_def codec_simps
        InternalPropertyDescriptor.make_def wf_InternalPropertyDescriptor_def)
qed (simp add: InternalPropertyDescriptor_toValue_def wf_intros option.pred_True wf_InternalPropertyDescriptor_def)

lemmas InternalPropertyDescriptor_codec [codec_simps] = internal_property_descriptor.fromValue_toValue internal_property_descriptor.run_object_toValue

lemmas InternalPropertyDescriptor_wf [wf_intros] = internal_property_descriptor.wf_toValue internal_property_descriptor.maybe_wf

record CallArgument =
  m_value :: "val option"
  m_unserializableValue :: "string16 option"
  m_objectId :: "string16 option"

definition CallArgument_fromValue :: "val option \<Rightarrow> CallArgument option reader" where
  "CallArgument_fromValue value = fromObject value (\<lambda>get. do {
     v \<leftarrow> maybe_object Value_fromValue get ''value'';
     unserializableValue \<leftarrow> maybe_field String_fromValue get ''unserializableValue'';
     objectId \<leftarrow> maybe_field String_fromValue get ''objectId'';
     ret (Some (CallArgument.make v unserializableValue objectId))
   })"

definition CallArgument_toValue :: "CallArgument \<Rightarrow> val" where
  "CallArgument_toValue x = build_object
     [setMaybe (\<lambda>v. v) ''value'' (CallArgument.m_value x),
      setMaybe StringValue ''unserializableValue'' (CallArgument.m_unserializableValue x),
      setMaybe StringValue ''objectId'' (CallArgument.m_objectId x)]"

definition wf_CallArgument :: "CallArgument \<Rightarrow> bool" where
  "wf_CallArgument x \<longleftrightarrow> pred_option wf_val (CallArgument.m_value x)"

interpretation call_argument: object_codec CallArgument_toValue CallArgument_fromValue wf_CallArgument
proof unfold_locales
  fix x and e :: ErrorSupport
  assume "wf_CallArgument x" and "m_errors e = []"
  then show "run_state (CallArgument_fromValue (Some (CallArgument_toValue x))) e = (Some x, e)"
    by (simp add: CallArgument_fromValue_def CallArgument_toValue_def build_object_def codec_simps
        CallArgument.make_def wf_CallArgument_def)
qed (simp add: CallArgument_toValue_def wf_intros option.pred_True wf_CallArgument_def)

lemmas CallArgument_codec [codec_simps] = call_argument.fromValue_toValue call_argument.run_object_toValue

lemmas CallArgument_wf [wf_intros] = call_argument.wf_toValue call_argument.maybe_wf

record ExecutionContextDescription =
  m_id :: cint
  m_origin :: string16
  m_name :: string16
  m_auxData :: "dict option"

definition ExecutionContextDescription_fromValue :: "val option \<Rightarrow> ExecutionContextDescription option reader" where
  "ExecutionContextDescription_fromValue value = fromObject value (\<lambda>get. do {
     ident \<leftarrow> required int_fromValue get ''id'';
     origin \<leftarrow> required String_fromValue get ''origin'';
     nm \<leftarrow> required String_fromValue get ''name'';
     auxData \<leftarrow> maybe_object DictionaryValue_fromValue get ''auxData'';
     ret (Some (ExecutionContextDescription.make ident origin nm auxData))
   })"

definition ExecutionContextDescription_toValue :: "ExecutionContextDescription \<Rightarrow> val" where
  "ExecutionContextDescription_toValue x = build_object
     [setField IntegerValue ''id'' (ExecutionContextDescription.m_id x),
      setField StringValue ''origin'' (ExecutionContextDescription.m_origin x),
      setField StringValue ''name'' (ExecutionContextDescription.m_name x),
      setMaybe Dict ''auxData'' (ExecutionContextDescription.m_auxData x)]"

definition wf_ExecutionContextDescription :: "ExecutionContextDescription \<Rightarrow> bool" where
  "wf_ExecutionContextDescription x \<longleftrightarrow> pred_option wf_dict (ExecutionContextDescription.m_auxData x)"

interpretation execution_context_description: object_codec ExecutionContextDescription_toValue ExecutionContextDescription_fromValue wf_ExecutionContextDescription
proof unfold_locales
  fix x and e :: ErrorSupport
  assume "wf_ExecutionContextDescription x" and "m_errors e = []"
  then show "run_state (ExecutionContextDescription_fromValue (Some (ExecutionContextDescription_toValue x))) e = (Some x, e)"
    by (simp add: ExecutionContextDescription_fromValue_def ExecutionContextDescription_toValue_def build_object_def codec_simps
        ExecutionContextDescription.make_def wf_ExecutionContextDescription_def)
qed (simp add: ExecutionContextDescription_toValue_def wf_intros option.pred_True wf_ExecutionContextDescription_def)

lemmas ExecutionContextDescription_codec [codec_simps] = execution_context_description.fromValue_toValue execution_context_description.run_object_toValue

lemmas ExecutionContextDescription_wf [wf_intros] = execution_context_description.wf_toValue execution_context_description.maybe_wf

subsection \<open>Stack traces and exceptions\<close>

record RtCallFrame =
  m_functionName :: string16
  m_scriptId :: string16
  m_url :: string16
  m_lineNumber :: cint
  m_columnNumber :: cint

definition RtCallFrame_fromValue :: "val option \<Rightarrow> RtCallFrame option reader" where
  "RtCallFrame_fromValue value = fromObject value (\<lambda>get. do {
     functionName \<leftarrow> required String_fromValue get ''functionName'';
     scriptId \<leftarrow> required String_fromValue get ''scriptId'';
     url \<leftarrow> required String_fromValue get ''url'';
     lineNumber \<leftarrow> required int_fromValue get ''lineNumber'';
     columnNumber \<leftarrow> required int_fromValue get ''columnNumber'';
     ret (Some (RtCallFrame.make functionName scriptId url lineNumber columnNumber))
   })"

definition RtCallFrame_toValue :: "RtCallFrame \<Rightarrow> val" where
  "RtCallFrame_toValue x = build_object
     [setField StringValue ''functionName'' (RtCallFrame.m_functionName x),
      setField StringValue ''scriptId'' (RtCallFrame.m_scriptId x),
      setField StringValue ''url'' (RtCallFrame.m_url x),
      setField IntegerValue ''lineNumber'' (RtCallFrame.m_lineNumber x),
      setField IntegerValue ''columnNumber'' (RtCallFrame.m_columnNumber x)]"

interpretation rt_call_frame: object_codec RtCallFrame_toValue RtCallFrame_fromValue "\<lambda>_. True"
proof unfold_locales
  fix x and e :: ErrorSupport
  assume "m_errors e = []"
  then show "run_state (RtCallFrame_fromValue (Some (RtCallFrame_toValue x))) e = (Some x, e)"
    by (simp add: RtCallFrame_fromValue_def RtCallFrame_toValue_def build_object_def codec_simps
        RtCallFrame.make_def)
qed (simp add: RtCallFrame_toValue_def wf_intros option.pred_True)

lemmas RtCallFrame_codec [codec_simps] = rt_call_frame.fromValue_toValue rt_call_frame.run_object_toValue
  rt_call_frame.array

lemmas RtCallFrame_wf [wf_intros] = rt_call_frame.wf_toValue rt_call_frame.maybe_wf

datatype StackTrace = StackTrace (st_description: "string16 option")
  (st_callFrames: "RtCallFrame list") (st_parent: "StackTrace option")

function StackTrace_fromValue :: "val option \<Rightarrow> StackTrace option reader" where
  "StackTrace_fromValue value = fromObject value (\<lambda>get. do {
     description \<leftarrow> maybe_field String_fromValue get ''description'';
     callFrames \<leftarrow> required (Array_fromValue RtCallFrame_fromValue) get ''callFrames'';
     parent \<leftarrow> maybe_object StackTrace_fromValue get ''parent'';
     ret (map_option (\<lambda>frames. StackTrace description frames parent) callFrames)
   })"
  by pat_completeness auto
termination
  by (relation "measure (case_option 0 size)") (auto dest!: size_dict_get)

declare StackTrace_fromValue.simps [simp del]

fun StackTrace_toValue :: "StackTrace \<Rightarrow> val" where
  "StackTrace_toValue (StackTrace description callFrames parent) = build_object
     [setMaybe StringValue ''description'' description,
      setField (Array_toValue RtCallFrame_toValue) ''callFrames'' callFrames,
      setMaybe StackTrace_toValue ''parent'' parent]"

lemma StackTrace_wf_val [simp]: "wf_val (StackTrace_toValue t)"
  by (induction t) (simp_all add: wf_intros pred_option_def rt_call_frame.wf_toValue)

lemma StackTrace_inverts: "inverts StackTrace_toValue StackTrace_fromValue t"
proof (induction t)
  case (StackTrace d fs p)
  then have "pred_option (inverts StackTrace_toValue StackTrace_fromValue) p"
    by (auto simp: pred_option_def)
  note inverts_run(1) [OF this]
  then show ?case
    by (auto simp: inverts_def codec_simps wf_intros pred_option_def rt_call_frame.wf_toValue
        StackTrace_fromValue.simps [of "Some v" for v] build_object_def)
qed

interpretation stack_trace: object_codec StackTrace_toValue StackTrace_fromValue "\<lambda>_. True"
  by unfold_locales (simp_all add: inverts_fromValue [OF StackTrace_inverts])

lemmas StackTrace_codec [codec_simps] = stack_trace.fromValue_toValue stack_trace.run_object_toValue

lemmas StackTrace_wf [wf_intros] = stack_trace.wf_toValue stack_trace.maybe_wf

record ExceptionDetails =
  m_exceptionId :: cint
  m_text :: string16
  m_lineNumber :: cint
  m_columnNumber :: cint
  m_scriptId :: "string16 option"
  m_url :: "string16 option"
  m_stackTrace :: "StackTrace option"
  m_exception :: "RemoteObject option"
  m_executionContextId :: "cint option"

definition ExceptionDetails_fromValue :: "val option \<Rightarrow> ExceptionDetails option reader" where
  "ExceptionDetails_fromValue value = fromObject value (\<lambda>get. do {
     exceptionId \<leftarrow> required int_fromValue get ''exceptionId'';
     message \<leftarrow> required String_fromValue get ''text'';
     lineNumber \<leftarrow> required int_fromValue get ''lineNumber'';
     columnNumber \<leftarrow> required int_fromValue get ''columnNumber'';
     scriptId \<leftarrow> maybe_field String_fromValue get ''scriptId'';
     url \<leftarrow> maybe_field String_fromValue get ''url'';
     stackTrace \<leftarrow> maybe_object StackTrace_fromValue get ''stackTrace'';
     exception \<leftarrow> maybe_object RemoteObject_fromValue get ''exception'';
     executionContextId \<leftarrow> maybe_field int_fromValue get ''executionContextId'';
     ret (Some (ExceptionDetails.make exceptionId message lineNumber columnNumber scriptId url
       stackTrace exception executionContextId))
   })"

definition ExceptionDetails_toValue :: "ExceptionDetails \<Rightarrow> val" where
  "ExceptionDetails_toValue x = build_object
     [setField IntegerValue ''exceptionId'' (ExceptionDetails.m_exceptionId x),
      setField StringValue ''text'' (ExceptionDetails.m_text x),
      setField IntegerValue ''lineNumber'' (ExceptionDetails.m_lineNumber x),
      setField IntegerValue ''columnNumber'' (ExceptionDetails.m_columnNumber x),
      setMaybe StringValue ''scriptId'' (ExceptionDetails.m_scriptId x),
      setMaybe StringValue ''url'' (ExceptionDetails.m_url x),
      setMaybe StackTrace_toValue ''stackTrace'' (ExceptionDetails.m_stackTrace x),
      setMaybe RemoteObject_toValue ''exception'' (ExceptionDetails.m_exception x),
      setMaybe IntegerValue ''executionContextId'' (ExceptionDetails.m_executionContextId x)]"

definition wf_ExceptionDetails :: "ExceptionDetails \<Rightarrow> bool" where
  "wf_ExceptionDetails x \<longleftrightarrow> pred_option wf_RemoteObject (ExceptionDetails.m_exception x)"

interpretation exception_details: object_codec ExceptionDetails_toValue ExceptionDetails_fromValue wf_ExceptionDetails
proof unfold_locales
  fix x and e :: ErrorSupport
  assume "wf_ExceptionDetails x" and "m_errors e = []"
  then show "run_state (ExceptionDetails_fromValue (Some (ExceptionDetails_toValue x))) e = (Some x, e)"
    by (simp add: ExceptionDetails_fromValue_def ExceptionDetails_toValue_def build_object_def codec_simps
        ExceptionDetails.make_def wf_ExceptionDetails_def)
qed (simp add: ExceptionDetails_toValue_def wf_intros option.pred_True wf_ExceptionDetails_def)

lemmas ExceptionDetails_codec [codec_simps] = exception_details.fromValue_toValue exception_details.run_object_toValue

lemmas ExceptionDetails_wf [wf_intros] = exception_details.wf_toValue exception_details.maybe_wf

end
