(* ===== verification/DebuggerTypes.thy ===== *)
theory DebuggerTypes
  imports RuntimeTypes
begin

section \<open>The types of the Debugger, Console and Schema domains\<close>

text \<open>
  The classes of \<open>Generated/protocol/Debugger.h/.cpp\<close>, \<open>Console.cpp\<close> and \<open>Schema.cpp\<close>, and the
  notifications of the Runtime domain the program sends, with their \<open>fromValue\<close> and \<open>toValue\<close>.
  Every pair is a codec, from the codecs of its members.
\<close>

subsection \<open>Debugger\<close>

record Location =
  m_scriptId :: string16
  m_lineNumber :: cint
  m_columnNumber :: "cint option"

definition Location_fromValue :: "val option \<Rightarrow> Location option reader" where
  "Location_fromValue value = fromObject value (\<lambda>get. do {
     scriptId \<leftarrow> required String_fromValue get ''scriptId'';
     lineNumber \<leftarrow> required int_fromValue get ''lineNumber'';
     columnNumber \<leftarrow> maybe_field int_fromValue get ''columnNumber'';
     ret (Some (Location.make scriptId lineNumber columnNumber))
   })"

definition Location_toValue :: "Location \<Rightarrow> val" where
  "Location_toValue x = build_object
     [setField StringValue ''scriptId'' (Location.m_scriptId x),
      setField IntegerValue ''lineNumber'' (Location.m_lineNumber x),
      setMaybe IntegerValue ''columnNumber'' (Location.m_columnNumber x)]"

interpretation location: object_codec Location_toValue Location_fromValue "\<lambda>_. True"
proof unfold_locales
  fix x and e :: ErrorSupport
  assume "m_errors e = []"
  then show "run_state (Location_fromValue (Some (Location_toValue x))) e = (Some x, e)"
    by (simp add: Location_fromValue_def Location_toValue_def build_object_def codec_simps
        Location.make_def)
qed (simp add: Location_toValue_def wf_intros option.pred_True)

lemmas Location_codec [codec_simps] = location.fromValue_toValue location.run_object_toValue

lemmas Location_wf [wf_intros] = location.wf_toValue location.maybe_wf

record ScriptPosition =
  m_lineNumber :: cint
  m_columnNumber :: cint

definition ScriptPosition_fromValue :: "val option \<Rightarrow> ScriptPosition option reader" where
  "ScriptPosition_fromValue value = fromObject value (\<lambda>get. do {
     lineNumber \<leftarrow> required int_fromValue get ''lineNumber'';
     columnNumber \<leftarrow> required int_fromValue get ''columnNumber'';
     ret (Some (ScriptPosition.make lineNumber columnNumber))
   })"

definition ScriptPosition_toValue :: "ScriptPosition \<Rightarrow> val" where
  "ScriptPosition_toValue x = build_object
     [setField IntegerValue ''lineNumber'' (ScriptPosition.m_lineNumber x),
      setField IntegerValue ''columnNumber'' (ScriptPosition.m_columnNumber x)]"

interpretation script_position: object_codec ScriptPosition_toValue ScriptPosition_fromValue "\<lambda>_. True"
proof unfold_locales
  fix x and e :: ErrorSupport
  assume "m_errors e = []"
  then show "run_state (ScriptPosition_fromValue (Some (ScriptPosition_toValue x))) e = (Some x, e)"
    by (simp add: ScriptPosition_fromValue_def ScriptPosition_toValue_def build_object_def codec_simps
        ScriptPosition.make_def)
qed (simp add: ScriptPosition_toValue_def wf_intros option.pred_True)

lemmas ScriptPosition_codec [codec_simps] = script_position.fromValue_toValue script_position.run_object_toValue

lemmas ScriptPosition_wf [wf_intros] = script_position.wf_toValue script_position.maybe_wf

record Scope =
  m_type :: string16
  m_object :: RemoteObject
  m_name :: "string16 option"
  m_startLocation :: "Location option"
  m_endLocation :: "Location option"

definition Scope_fromValue :: "val option \<Rightarrow> Scope option reader" where
  "Scope_fromValue value = fromObject value (\<lambda>get. do {
     type \<leftarrow> required String_fromValue get ''type'';
     obj \<leftarrow> required RemoteObject_fromValue get ''object'';
     nm \<leftarrow> maybe_field String_fromValue get ''name'';
     startLocation \<leftarrow> maybe_object Location_fromValue get ''startLocation'';
     endLocation \<leftarrow> maybe_object Location_fromValue get ''endLocation'';
     ret (do { obj \<leftarrow> obj; Some (Scope.make type obj nm startLocation endLocation) })
   })"

definition Scope_toValue :: "Scope \<Rightarrow> val" where
  "Scope_toValue x = build_object
     [setField StringValue ''type'' (Scope.m_type x),
      setField RemoteObject_toValue ''object'' (Scope.m_object x),
      setMaybe StringValue ''name'' (Scope.m_name x),
      setMaybe Location_toValue ''startLocation'' (Scope.m_startLocation x),
      setMaybe Location_toValue ''endLocation'' (Scope.m_endLocation x)]"

definition wf_Scope :: "Scope \<Rightarrow> bool" where
  "wf_Scope x \<longleftrightarrow> wf_RemoteObject (Scope.m_object x)"

interpretation scope: object_codec Scope_toValue Scope_fromValue wf_Scope
proof unfold_locales
  fix x and e :: ErrorSupport
  assume "wf_Scope x" and "m_errors e = []"
  then show "run_state (Scope_fromValue (Some (Scope_toValue x))) e = (Some x, e)"
    by (simp add: Scope_fromValue_def Scope_toValue_def build_object_def codec_simps
        Scope.make_def wf_Scope_def)
qed (simp add: Scope_toValue_def wf_intros option.pred_True wf_Scope_def)

lemmas Scope_codec [codec_simps] = scope.fromValue_toValue scope.run_object_toValue
  scope.array

lemmas Scope_wf [wf_intros] = scope.wf_toValue scope.maybe_wf

record CallFrame =
  m_callFrameId :: string16
  m_functionName :: string16
  m_functionLocation :: "Location option"
  m_location :: Location
  m_scopeChain :: "Scope list"
  m_this :: RemoteObject
  m_returnValue :: "RemoteObject option"

definition CallFrame_fromValue :: "val option \<Rightarrow> CallFrame option reader" where
  "CallFrame_fromValue value = fromObject value (\<lambda>get. do {
     callFrameId \<leftarrow> required String_fromValue get ''callFrameId'';
     functionName \<leftarrow> required String_fromValue get ''functionName'';
     functionLocation \<leftarrow> maybe_object Location_fromValue get ''functionLocation'';
     loc \<leftarrow> required Location_fromValue get ''location'';
     scopeChain \<leftarrow> required (Array_fromValue Scope_fromValue) get ''scopeChain'';
     thisObject \<leftarrow> required RemoteObject_fromValue get ''this'';
     returnValue \<leftarrow> maybe_object RemoteObject_fromValue get ''returnValue'';
     ret (do { loc \<leftarrow> loc; scopeChain \<leftarrow> scopeChain; thisObject \<leftarrow>
       thisObject; Some (CallFrame.make callFrameId functionName functionLocation loc scopeChain
       thisObject returnValue) })
   })"

definition CallFrame_toValue :: "CallFrame \<Rightarrow> val" where
  "CallFrame_toValue x = build_object
     [setField StringValue ''callFrameId'' (CallFrame.m_callFrameId x),
      setField StringValue ''functionName'' (CallFrame.m_functionName x),
      setMaybe Location_toValue ''functionLocation'' (CallFrame.m_functionLocation x),
      setField Location_toValue ''location'' (CallFrame.m_location x),
      setField (Array_toValue Scope_toValue) ''scopeChain'' (CallFrame.m_scopeChain x),
      setField RemoteObject_toValue ''this'' (CallFrame.m_this x),
      setMaybe RemoteObject_toValue ''returnValue'' (CallFrame.m_returnValue x)]"

definition wf_CallFrame :: "CallFrame \<Rightarrow> bool" where
  "wf_CallFrame x \<longleftrightarrow> (\<lambda>xs. \<forall>x \<in> set xs. wf_Scope x) (CallFrame.m_scopeChain x) \<and>
     wf_RemoteObject (CallFrame.m_this x) \<and>
     pred_option wf_RemoteObject (CallFrame.m_returnValue x)"

interpretation call_frame: object_codec CallFrame_toValue CallFrame_fromValue wf_CallFrame
proof unfold_locales
  fix x and e :: ErrorSupport
  assume "wf_CallFrame x" and "m_errors e = []"
  then show "run_state (CallFrame_fromValue (Some (CallFrame_toValue x))) e = (Some x, e)"
    by (simp add: CallFrame_fromValue_def CallFrame_toValue_def build_object_def codec_simps
        CallFrame.make_def wf_CallFrame_def)
qed (simp add: CallFrame_toValue_def wf_intros option.pred_True wf_CallFrame_def)

lemmas CallFrame_codec [codec_simps] = call_frame.fromValue_toValue call_frame.run_object_toValue
  call_frame.array

lemmas CallFrame_wf [wf_intros] = call_frame.wf_toValue call_frame.maybe_wf

record SearchMatch =
  m_lineNumber :: dbl
  m_lineContent :: string16

definition SearchMatch_fromValue :: "val option \<Rightarrow> SearchMatch option reader" where
  "SearchMatch_fromValue value = fromObject value (\<lambda>get. do {
     lineNumber \<leftarrow> required double_fromValue get ''lineNumber'';
     lineContent \<leftarrow> required String_fromValue get ''lineContent'';
     ret (Some (SearchMatch.make lineNumber lineContent))
   })"

definition SearchMatch_toValue :: "SearchMatch \<Rightarrow> val" where
  "SearchMatch_toValue x = build_object
     [setField DoubleValue ''lineNumber'' (SearchMatch.m_lineNumber x),
      setField StringValue ''lineContent'' (SearchMatch.m_lineContent x)]"

interpretation search_match: object_codec SearchMatch_toValue SearchMatch_fromValue "\<lambda>_. True"
proof unfold_locales
  fix x and e :: ErrorSupport
  assume "m_errors e = []"
  then show "run_state (SearchMatch_fromValue (Some (SearchMatch_toValue x))) e = (Some x, e)"
    by (simp add: SearchMatch_fromValue_def SearchMatch_toValue_def build_object_def codec_simps
        SearchMatch.make_def)
qed (simp add: SearchMatch_toValue_def wf_intros option.pred_True)

lemmas SearchMatch_codec [codec_simps] = search_match.fromValue_toValue search_match.run_object_toValue

lemmas SearchMatch_wf [wf_intros] = search_match.wf_toValue search_match.maybe_wf

record ScriptParsedNotification =
  m_scriptId :: string16
  m_url :: string16
  m_startLine :: cint
  m_startColumn :: cint
  m_endLine :: cint
  m_endColumn :: cint
  m_executionContextId :: cint
  m_hash :: string16
  m_executionContextAuxData :: "dict option"
  m_isLiveEdit :: "bool option"
  m_sourceMapURL :: "string16 option"
  m_hasSourceURL :: "bool option"

definition ScriptParsedNotification_fromValue :: "val option \<Rightarrow> ScriptParsedNotification option reader" where
  "ScriptParsedNotification_fromValue value = fromObject value (\<lambda>get. do {
     scriptId \<leftarrow> required String_fromValue get ''scriptId'';
     url \<leftarrow> required String_fromValue get ''url'';
     startLine \<leftarrow> required int_fromValue get ''startLine'';
     startColumn \<leftarrow> required int_fromValue get ''startColumn'';
     endLine \<leftarrow> required int_fromValue get ''endLine'';
     endColumn \<leftarrow> required int_fromValue get ''endColumn'';
     executionContextId \<leftarrow> required int_fromValue get ''executionContextId'';
     hashValue \<leftarrow> required String_fromValue get ''hash'';
     executionContextAuxData \<leftarrow> maybe_object DictionaryValue_fromValue get ''executionContextAuxData'';
     isLiveEdit \<leftarrow> maybe_field bool_fromValue get ''isLiveEdit'';
     sourceMapURL \<leftarrow> maybe_field String_fromValue get ''sourceMapURL'';
     hasSourceURL \<leftarrow> maybe_field bool_fromValue get ''hasSourceURL'';
     ret (Some (ScriptParsedNotification.make scriptId url startLine startColumn endLine
       endColumn executionContextId hashValue executionContextAuxData isLiveEdit sourceMapURL
       hasSourceURL))
   })"

definition ScriptParsedNotification_toValue :: "ScriptParsedNotification \<Rightarrow> val" where
  "ScriptParsedNotification_toValue x = build_object
     [setField StringValue ''scriptId'' (ScriptParsedNotification.m_scriptId x),
      setField StringValue ''url'' (ScriptParsedNotification.m_url x),
      setField IntegerValue ''startLine'' (ScriptParsedNotification.m_startLine x),
      setField IntegerValue ''startColumn'' (ScriptParsedNotification.m_startColumn x),
      setField IntegerValue ''endLine'' (ScriptParsedNotification.m_endLine x),
      setField IntegerValue ''endColumn'' (ScriptParsedNotification.m_endColumn x),
      setField IntegerValue ''executionContextId'' (ScriptParsedNotification.m_executionContextId x),
      setField StringValue ''hash'' (ScriptParsedNotification.m_hash x),
      setMaybe Dict ''executionContextAuxData'' (ScriptParsedNotification.m_executionContextAuxData x),
      setMaybe BooleanValue ''isLiveEdit'' (ScriptParsedNotification.m_isLiveEdit x),
      setMaybe StringValue ''sourceMapURL'' (ScriptParsedNotification.m_sourceMapURL x),
      setMaybe BooleanValue ''hasSourceURL'' (ScriptParsedNotification.m_hasSourceURL x)]"

definition wf_ScriptParsedNotification :: "ScriptParsedNotification \<Rightarrow> bool" where
  "wf_ScriptParsedNotification x \<longleftrightarrow> pred_option wf_dict (ScriptParsedNotification.m_executionContextAuxData x)"

interpretation script_parsed_notification: object_codec ScriptParsedNotification_toValue ScriptParsedNotification_fromValue wf_ScriptParsedNotification
proof unfold_locales
  fix x and e :: ErrorSupport
  assume "wf_ScriptParsedNotification x" and "m_errors e = []"
  then show "run_state (ScriptParsedNotification_fromValue (Some (ScriptParsedNotification_toValue x))) e = (Some x, e)"
    by (simp add: ScriptParsedNotification_fromValue_def ScriptParsedNotification_toValue_def build_object_def codec_simps
        ScriptParsedNotification.make_def wf_ScriptParsedNotification_def)
qed (simp add: ScriptParsedNotification_toValue_def wf_intros option.pred_True wf_ScriptParsedNotification_def)

lemmas ScriptParsedNotification_codec [codec_simps] = script_parsed_notification.fromValue_toValue script_parsed_notification.run_object_toValue

lemmas ScriptParsedNotification_wf [wf_intros] = script_parsed_notification.wf_toValue script_parsed_notification.maybe_wf

record ScriptFailedToParseNotification =
  m_scriptId :: string16
  m_url :: string16
  m_startLine :: cint
  m_startColumn :: cint
  m_endLine :: cint
  m_endColumn :: cint
  m_executionContextId :: cint
  m_hash :: string16
  m_executionContextAuxData :: "dict option"
  m_sourceMapURL :: "string16 option"
  m_hasSourceURL :: "bool option"

definition ScriptFailedToParseNotification_fromValue :: "val option \<Rightarrow> ScriptFailedToParseNotification option reader" where
  "ScriptFailedToParseNotification_fromValue value = fromObject value (\<lambda>get. do {
     scriptId \<leftarrow> required String_fromValue get ''scriptId'';
     url \<leftarrow> required String_fromValue get ''url'';
     startLine \<leftarrow> required int_fromValue get ''startLine'';
     startColumn \<leftarrow> required int_fromValue get ''startColumn'';
     endLine \<leftarrow> required int_fromValue get ''endLine'';
     endColumn \<leftarrow> required int_fromValue get ''endColumn'';
     executionContextId \<leftarrow> required int_fromValue get ''executionContextId'';
     hashValue \<leftarrow> required String_fromValue get ''hash'';
     executionContextAuxData \<leftarrow> maybe_object DictionaryValue_fromValue get ''executionContextAuxData'';
     sourceMapURL \<leftarrow> maybe_field String_fromValue get ''sourceMapURL'';
     hasSourceURL \<leftarrow> maybe_field bool_fromValue get ''hasSourceURL'';
     ret (Some (ScriptFailedToParseNotification.make scriptId url startLine startColumn endLine
       endColumn executionContextId hashValue executionContextAuxData sourceMapURL
       hasSourceURL))
   })"

definition ScriptFailedToParseNotification_toValue :: "ScriptFailedToParseNotification \<Rightarrow> val" where
  "ScriptFailedToParseNotification_toValue x = build_object
     [setField StringValue ''scriptId'' (ScriptFailedToParseNotification.m_scriptId x),
      setField StringValue ''url'' (ScriptFailedToParseNotification.m_url x),
      setField IntegerValue ''startLine'' (ScriptFailedToParseNotification.m_startLine x),
      setField IntegerValue ''startColumn'' (ScriptFailedToParseNotification.m_startColumn x),
      setField IntegerValue ''endLine'' (ScriptFailedToParseNotification.m_endLine x),
      setField IntegerValue ''endColumn'' (ScriptFailedToParseNotification.m_endColumn x),
      setField IntegerValue ''executionContextId'' (ScriptFailedToParseNotification.m_executionContextId x),
      setField StringValue ''hash'' (ScriptFailedToParseNotification.m_hash x),
      setMaybe Dict ''executionContextAuxData'' (ScriptFailedToParseNotification.m_executionContextAuxData x),
      setMaybe StringValue ''sourceMapURL'' (ScriptFailedToParseNotification.m_sourceMapURL x),
      setMaybe BooleanValue ''hasSourceURL'' (ScriptFailedToParseNotification.m_hasSourceURL x)]"

definition wf_ScriptFailedToParseNotification :: "ScriptFailedToParseNotification \<Rightarrow> bool" where
  "wf_ScriptFailedToParseNotification x \<longleftrightarrow> pred_option wf_dict (ScriptFailedToParseNotification.m_executionContextAuxData x)"

interpretation script_failed_to_parse_notification: object_codec ScriptFailedToParseNotification_toValue ScriptFailedToParseNotification_fromValue wf_ScriptFailedToParseNotification
proof unfold_locales
  fix x and e :: ErrorSupport
  assume "wf_ScriptFailedToParseNotification x" and "m_errors e = []"
  then show "run_state (ScriptFailedToParseNotification_fromValue (Some (ScriptFailedToParseNotification_toValue x))) e = (Some x, e)"
    by (simp add: ScriptFailedToParseNotification_fromValue_def ScriptFailedToParseNotification_toValue_def build_object_def codec_simps
        ScriptFailedToParseNotification.make_def wf_ScriptFailedToParseNotification_def)
qed (simp add: ScriptFailedToParseNotification_toValue_def wf_intros option.pred_True wf_ScriptFailedToParseNotification_def)

lemmas ScriptFailedToParseNotification_codec [codec_simps] = script_failed_to_parse_notification.fromValue_toValue script_failed_to_parse_notification.run_object_toValue

lemmas ScriptFailedToParseNotification_wf [wf_intros] = script_failed_to_parse_notification.wf_toValue script_failed_to_parse_notification.maybe_wf

record BreakpointResolvedNotification =
  m_breakpointId :: string16
  m_location :: Location

definition BreakpointResolvedNotification_fromValue :: "val option \<Rightarrow> BreakpointResolvedNotification option reader" where
  "BreakpointResolvedNotification_fromValue value = fromObject value (\<lambda>get. do {
     breakpointId \<leftarrow> required String_fromValue get ''breakpointId'';
     loc \<leftarrow> required Location_fromValue get ''location'';
     ret (do { loc \<leftarrow> loc; Some (BreakpointResolvedNotification.make breakpointId loc)
       })
   })"

definition BreakpointResolvedNotification_toValue :: "BreakpointResolvedNotification \<Rightarrow> val" where
  "BreakpointResolvedNotification_toValue x = build_object
     [setField StringValue ''breakpointId'' (BreakpointResolvedNotification.m_breakpointId x),
      setField Location_toValue ''location'' (BreakpointResolvedNotification.m_location x)]"

interpretation breakpoint_resolved_notification: object_codec BreakpointResolvedNotification_toValue BreakpointResolvedNotification_fromValue "\<lambda>_. True"
proof unfold_locales
  fix x and e :: ErrorSupport
  assume "m_errors e = []"
  then show "run_state (BreakpointResolvedNotification_fromValue (Some (BreakpointResolvedNotification_toValue x))) e = (Some x, e)"
    by (simp add: BreakpointResolvedNotification_fromValue_def BreakpointResolvedNotification_toValue_def build_object_def codec_simps
        BreakpointResolvedNotification.make_def)
qed (simp add: BreakpointResolvedNotification_toValue_def wf_intros option.pred_True)

lemmas BreakpointResolvedNotification_codec [codec_simps] = breakpoint_resolved_notification.fromValue_toValue breakpoint_resolved_notification.run_object_toValue

lemmas BreakpointResolvedNotification_wf [wf_intros] = breakpoint_resolved_notification.wf_toValue breakpoint_resolved_notification.maybe_wf

record PausedNotification =
  m_callFrames :: "CallFrame list"
  m_reason :: string16
  m_data :: "dict option"
  m_hitBreakpoints :: "string16 list option"
  m_asyncStackTrace :: "StackTrace option"

definition PausedNotification_fromValue :: "val option \<Rightarrow> PausedNotification option reader" where
  "PausedNotification_fromValue value = fromObject value (\<lambda>get. do {
     callFrames \<leftarrow> required (Array_fromValue CallFrame_fromValue) get ''callFrames'';
     reason \<leftarrow> required String_fromValue get ''reason'';
     dat \<leftarrow> maybe_object DictionaryValue_fromValue get ''data'';
     hitBreakpoints \<leftarrow> maybe_object (ArrayBase_fromValue String_fromValue) get ''hitBreakpoints'';
     asyncStackTrace \<leftarrow> maybe_object StackTrace_fromValue get ''asyncStackTrace'';
     ret (do { callFrames \<leftarrow> callFrames; Some (PausedNotification.make callFrames
       reason dat hitBreakpoints asyncStackTrace) })
   })"

definition PausedNotification_toValue :: "PausedNotification \<Rightarrow> val" where
  "PausedNotification_toValue x = build_object
     [setField (Array_toValue CallFrame_toValue) ''callFrames'' (PausedNotification.m_callFrames x),
      setField StringValue ''reason'' (PausedNotification.m_reason x),
      setMaybe Dict ''data'' (PausedNotification.m_data x),
      setMaybe (Array_toValue StringValue) ''hitBreakpoints'' (PausedNotification.m_hitBreakpoints x),
      setMaybe StackTrace_toValue ''asyncStackTrace'' (PausedNotification.m_asyncStackTrace x)]"

definition wf_PausedNotification :: "PausedNotification \<Rightarrow> bool" where
  "wf_PausedNotification x \<longleftrightarrow> (\<lambda>xs. \<forall>x \<in> set xs. wf_CallFrame x) (PausedNotification.m_callFrames x) \<and>
     pred_option wf_dict (PausedNotification.m_data x)"

interpretation paused_notification: object_codec PausedNotification_toValue PausedNotification_fromValue wf_PausedNotification
proof unfold_locales
  fix x and e :: ErrorSupport
  assume "wf_PausedNotification x" and "m_errors e = []"
  then show "run_state (PausedNotification_fromValue (Some (PausedNotification_toValue x))) e = (Some x, e)"
    by (simp add: PausedNotification_fromValue_def PausedNotification_toValue_def build_object_def codec_simps
        PausedNotification.make_def wf_PausedNotification_def)
qed (simp add: PausedNotification_toValue_def wf_intros option.pred_True wf_PausedNotification_def)

lemmas PausedNotification_codec [codec_simps] = paused_notification.fromValue_toValue paused_notification.run_object_toValue

lemmas PausedNotification_wf [wf_intros] = paused_notification.wf_toValue paused_notification.maybe_wf

subsection \<open>Runtime notifications\<close>

record ExecutionContextCreatedNotification =
  m_context :: ExecutionContextDescription

definition ExecutionContextCreatedNotification_fromValue :: "val option \<Rightarrow> ExecutionContextCreatedNotification option reader" where
  "ExecutionContextCreatedNotification_fromValue value = fromObject value (\<lambda>get. do {
     ctx \<leftarrow> required ExecutionContextDescription_fromValue get ''context'';
     ret (do { ctx \<leftarrow> ctx; Some (ExecutionContextCreatedNotification.make ctx) })
   })"

definition ExecutionContextCreatedNotification_toValue :: "ExecutionContextCreatedNotification \<Rightarrow> val" where
  "ExecutionContextCreatedNotification_toValue x = build_object
     [setField ExecutionContextDescription_toValue ''context'' (ExecutionContextCreatedNotification.m_context x)]"

definition wf_ExecutionContextCreatedNotification :: "ExecutionContextCreatedNotification \<Rightarrow> bool" where
  "wf_ExecutionContextCreatedNotification x \<longleftrightarrow> wf_ExecutionContextDescription (ExecutionContextCreatedNotification.m_context x)"

interpretation execution_context_created_notification: object_codec ExecutionContextCreatedNotification_toValue ExecutionContextCreatedNotification_fromValue wf_ExecutionContextCreatedNotification
proof unfold_locales
  fix x and e :: ErrorSupport
  assume "wf_ExecutionContextCreatedNotification x" and "m_errors e = []"
  then show "run_state (ExecutionContextCreatedNotification_fromValue (Some (ExecutionContextCreatedNotification_toValue x))) e = (Some x, e)"
    by (simp add: ExecutionContextCreatedNotification_fromValue_def ExecutionContextCreatedNotification_toValue_def build_object_def codec_simps
        ExecutionContextCreatedNotification.make_def wf_ExecutionContextCreatedNotification_def)
qed (simp add: ExecutionContextCreatedNotification_toValue_def wf_intros option.pred_True wf_ExecutionContextCreatedNotification_def)

lemmas ExecutionContextCreatedNotification_codec [codec_simps] = execution_context_created_notification.fromValue_toValue execution_context_created_notification.run_object_toValue

lemmas ExecutionContextCreatedNotification_wf [wf_intros] = execution_context_created_notification.wf_toValue execution_context_created_notification.maybe_wf

record ExecutionContextDestroyedNotification =
  m_executionContextId :: cint

definition ExecutionContextDestroyedNotification_fromValue :: "val option \<Rightarrow> ExecutionContextDestroyedNotification option reader" where
  "ExecutionContextDestroyedNotification_fromValue value = fromObject value (\<lambda>get. do {
     executionContextId \<leftarrow> required int_fromValue get ''executionContextId'';
     ret (Some (ExecutionContextDestroyedNotification.make executionContextId))
   })"

definition ExecutionContextDestroyedNotification_toValue :: "ExecutionContextDestroyedNotification \<Rightarrow> val" where
  "ExecutionContextDestroyedNotification_toValue x = build_object
     [setField IntegerValue ''executionContextId'' (ExecutionContextDestroyedNotification.m_executionContextId x)]"

interpretation execution_context_destroyed_notification: object_codec ExecutionContextDestroyedNotification_toValue ExecutionContextDestroyedNotification_fromValue "\<lambda>_. True"
proof unfold_locales
  fix x and e :: ErrorSupport
  assume "m_errors e = []"
  then show "run_state (ExecutionContextDestroyedNotification_fromValue (Some (ExecutionContextDestroyedNotification_toValue x))) e = (Some x, e)"
    by (simp add: ExecutionContextDestroyedNotification_fromValue_def ExecutionContextDestroyedNotification_toValue_def build_object_def codec_simps
        ExecutionContextDestroyedNotification.make_def)
qed (simp add: ExecutionContextDestroyedNotification_toValue_def wf_intros option.pred_True)

lemmas ExecutionContextDestroyedNotification_codec [codec_simps] = execution_context_destroyed_notification.fromValue_toValue execution_context_destroyed_notification.run_object_toValue

lemmas ExecutionContextDestroyedNotification_wf [wf_intros] = execution_context_destroyed_notification.wf_toValue execution_context_destroyed_notification.maybe_wf

record ExceptionThrownNotification =
  m_timestamp :: dbl
  m_exceptionDetails :: ExceptionDetails

definition ExceptionThrownNotification_fromValue :: "val option \<Rightarrow> ExceptionThrownNotification option reader" where
  "ExceptionThrownNotification_fromValue value = fromObject value (\<lambda>get. do {
     timestamp \<leftarrow> required double_fromValue get ''timestamp'';
     exceptionDetails \<leftarrow> required ExceptionDetails_fromValue get ''exceptionDetails'';
     ret (do { exceptionDetails \<leftarrow> exceptionDetails; Some
       (ExceptionThrownNotification.make timestamp exceptionDetails) })
   })"

definition ExceptionThrownNotification_toValue :: "ExceptionThrownNotification \<Rightarrow> val" where
  "ExceptionThrownNotification_toValue x = build_object
     [setField DoubleValue ''timestamp'' (ExceptionThrownNotification.m_timestamp x),
      setField ExceptionDetails_toValue ''exceptionDetails'' (ExceptionThrownNotification.m_exceptionDetails x)]"

definition wf_ExceptionThrownNotification :: "ExceptionThrownNotification \<Rightarrow> bool" where
  "wf_ExceptionThrownNotification x \<longleftrightarrow> wf_ExceptionDetails (ExceptionThrownNotification.m_exceptionDetails x)"

interpretation exception_thrown_notification: object_codec ExceptionThrownNotification_toValue ExceptionThrownNotification_fromValue wf_ExceptionThrownNotification
proof unfold_locales
  fix x and e :: ErrorSupport
  assume "wf_ExceptionThrownNotification x" and "m_errors e = []"
  then show "run_state (ExceptionThrownNotification_fromValue (Some (ExceptionThrownNotification_toValue x))) e = (Some x, e)"
    by (simp add: ExceptionThrownNotification_fromValue_def ExceptionThrownNotification_toValue_def build_object_def codec_simps
        ExceptionThrownNotification.make_def wf_ExceptionThrownNotification_def)
qed (simp add: ExceptionThrownNotification_toValue_def wf_intros option.pred_True wf_ExceptionThrownNotification_def)

lemmas ExceptionThrownNotification_codec [codec_simps] = exception_thrown_notification.fromValue_toValue exception_thrown_notification.run_object_toValue

lemmas ExceptionThrownNotification_wf [wf_intros] = exception_thrown_notification.wf_toValue exception_thrown_notification.maybe_wf

record ExceptionRevokedNotification =
  m_reason :: string16
  m_exceptionId :: cint

definition ExceptionRevokedNotification_fromValue :: "val option \<Rightarrow> ExceptionRevokedNotification option reader" where
  "ExceptionRevokedNotification_fromValue value = fromObject value (\<lambda>get. do {
     reason \<leftarrow> required String_fromValue get ''reason'';
     exceptionId \<leftarrow> required int_fromValue get ''exceptionId'';
     ret (Some (ExceptionRevokedNotification.make reason exceptionId))
   })"

definition ExceptionRevokedNotification_toValue :: "ExceptionRevokedNotification \<Rightarrow> val" where
  "ExceptionRevokedNotification_toValue x = build_object
     [setField StringValue ''reason'' (ExceptionRevokedNotification.m_reason x),
      setField IntegerValue ''exceptionId'' (ExceptionRevokedNotification.m_exceptionId x)]"

interpretation exception_revoked_notification: object_codec ExceptionRevokedNotification_toValue ExceptionRevokedNotification_fromValue "\<lambda>_. True"
proof unfold_locales
  fix x and e :: ErrorSupport
  assume "m_errors e = []"
  then show "run_state (ExceptionRevokedNotification_fromValue (Some (ExceptionRevokedNotification_toValue x))) e = (Some x, e)"
    by (simp add: ExceptionRevokedNotification_fromValue_def ExceptionRevokedNotification_toValue_def build_object_def codec_simps
        ExceptionRevokedNotification.make_def)
qed (simp add: ExceptionRevokedNotification_toValue_def wf_intros option.pred_True)

lemmas ExceptionRevokedNotification_codec [codec_simps] = exception_revoked_notification.fromValue_toValue exception_revoked_notification.run_object_toValue

lemmas ExceptionRevokedNotification_wf [wf_intros] = exception_revoked_notification.wf_toValue exception_revoked_notification.maybe_wf

record ConsoleAPICalledNotification =
  m_type :: string16
  m_args :: "RemoteObject list"
  m_executionContextId :: cint
  m_timestamp :: dbl
  m_stackTrace :: "StackTrace option"

definition ConsoleAPICalledNotification_fromValue :: "val option \<Rightarrow> ConsoleAPICalledNotification option reader" where
  "ConsoleAPICalledNotification_fromValue value = fromObject value (\<lambda>get. do {
     type \<leftarrow> required String_fromValue get ''type'';
     arguments \<leftarrow> required (Array_fromValue RemoteObject_fromValue) get ''args'';
     executionContextId \<leftarrow> required int_fromValue get ''executionContextId'';
     timestamp \<leftarrow> required double_fromValue get ''timestamp'';
     stackTrace \<leftarrow> maybe_object StackTrace_fromValue get ''stackTrace'';
     ret (do { arguments \<leftarrow> arguments; Some (ConsoleAPICalledNotification.make type
       arguments executionContextId timestamp stackTrace) })
   })"

definition ConsoleAPICalledNotification_toValue :: "ConsoleAPICalledNotification \<Rightarrow> val" where
  "ConsoleAPICalledNotification_toValue x = build_object
     [setField StringValue ''type'' (ConsoleAPICalledNotification.m_type x),
      setField (Array_toValue RemoteObject_toValue) ''args'' (ConsoleAPICalledNotification.m_args x),
      setField IntegerValue ''executionContextId'' (ConsoleAPICalledNotification.m_executionContextId x),
      setField DoubleValue ''timestamp'' (ConsoleAPICalledNotification.m_timestamp x),
      setMaybe StackTrace_toValue ''stackTrace'' (ConsoleAPICalledNotification.m_stackTrace x)]"

definition wf_ConsoleAPICalledNotification :: "ConsoleAPICalledNotification \<Rightarrow> bool" where
  "wf_ConsoleAPICalledNotification x \<longleftrightarrow> (\<lambda>xs. \<forall>x \<in> set xs. wf_RemoteObject x) (ConsoleAPICalledNotification.m_args x)"

interpretation console_a_p_i_called_notification: object_codec ConsoleAPICalledNotification_toValue ConsoleAPICalledNotification_fromValue wf_ConsoleAPICalledNotification
proof unfold_locales
  fix x and e :: ErrorSupport
  assume "wf_ConsoleAPICalledNotification x" and "m_errors e = []"
  then show "run_state (ConsoleAPICalledNotification_fromValue (Some (ConsoleAPICalledNotification_toValue x))) e = (Some x, e)"
    by (simp add: ConsoleAPICalledNotification_fromValue_def ConsoleAPICalledNotification_toValue_def build_object_def codec_simps
        ConsoleAPICalledNotification.make_def wf_ConsoleAPICalledNotification_def)
qed (simp add: ConsoleAPICalledNotification_toValue_def wf_intros option.pred_True wf_ConsoleAPICalledNotification_def)

lemmas ConsoleAPICalledNotification_codec [codec_simps] = console_a_p_i_called_notification.fromValue_toValue console_a_p_i_called_notification.run_object_toValue

lemmas ConsoleAPICalledNotification_wf [wf_intros] = console_a_p_i_called_notification.wf_toValue console_a_p_i_called_notification.maybe_wf

subsection \<open>Console and Schema\<close>

record ConsoleMessage =
  m_source :: string16
  m_level :: string16
  m_text :: string16
  m_url :: "string16 option"
  m_line :: "cint option"
  m_column :: "cint option"

definition ConsoleMessage_fromValue :: "val option \<Rightarrow> ConsoleMessage option reader" where
  "ConsoleMessage_fromValue value = fromObject value (\<lambda>get. do {
     src \<leftarrow> required String_fromValue get ''source'';
     level \<leftarrow> required String_fromValue get ''level'';
     message \<leftarrow> required String_fromValue get ''text'';
     url \<leftarrow> maybe_field String_fromValue get ''url'';
     ln \<leftarrow> maybe_field int_fromValue get ''line'';
     col \<leftarrow> maybe_field int_fromValue get ''column'';
     ret (Some (ConsoleMessage.make src level message url ln col))
   })"

definition ConsoleMessage_toValue :: "ConsoleMessage \<Rightarrow> val" where
  "ConsoleMessage_toValue x = build_object
     [setField StringValue ''source'' (ConsoleMessage.m_source x),
      setField StringValue ''level'' (ConsoleMessage.m_level x),
      setField StringValue ''text'' (ConsoleMessage.m_text x),
      setMaybe StringValue ''url'' (ConsoleMessage.m_url x),
      setMaybe IntegerValue ''line'' (ConsoleMessage.m_line x),
      setMaybe IntegerValue ''column'' (ConsoleMessage.m_column x)]"

interpretation console_message: object_codec ConsoleMessage_toValue ConsoleMessage_fromValue "\<lambda>_. True"
proof unfold_locales
  fix x and e :: ErrorSupport
  assume "m_errors e = []"
  then show "run_state (ConsoleMessage_fromValue (Some (ConsoleMessage_toValue x))) e = (Some x, e)"
    by (simp add: ConsoleMessage_fromValue_def ConsoleMessage_toValue_def build_object_def codec_simps
        ConsoleMessage.make_def)
qed (simp add: ConsoleMessage_toValue_def wf_intros option.pred_True)

lemmas ConsoleMessage_codec [codec_simps] = console_message.fromValue_toValue console_message.run_object_toValue

lemmas ConsoleMessage_wf [wf_intros] = console_message.wf_toValue console_message.maybe_wf

record MessageAddedNotification =
  m_message :: ConsoleMessage

definition MessageAddedNotification_fromValue :: "val option \<Rightarrow> MessageAddedNotification option reader" where
  "MessageAddedNotification_fromValue value = fromObject value (\<lambda>get. do {
     message \<leftarrow> required ConsoleMessage_fromValue get ''message'';
     ret (do { message \<leftarrow> message; Some (MessageAddedNotification.make message) })
   })"

definition MessageAddedNotification_toValue :: "MessageAddedNotification \<Rightarrow> val" where
  "MessageAddedNotification_toValue x = build_object
     [setField ConsoleMessage_toValue ''message'' (MessageAddedNotification.m_message x)]"

interpretation message_added_notification: object_codec MessageAddedNotification_toValue MessageAddedNotification_fromValue "\<lambda>_. True"
proof unfold_locales
  fix x and e :: ErrorSupport
  assume "m_errors e = []"
  then show "run_state (MessageAddedNotification_fromValue (Some (MessageAddedNotification_toValue x))) e = (Some x, e)"
    by (simp add: MessageAddedNotification_fromValue_def MessageAddedNotification_toValue_def build_object_def codec_simps
        MessageAddedNotification.make_def)
qed (simp add: MessageAddedNotification_toValue_def wf_intros option.pred_True)

lemmas MessageAddedNotification_codec [codec_simps] = message_added_notification.fromValue_toValue message_added_notification.run_object_toValue

lemmas MessageAddedNotification_wf [wf_intros] = message_added_notification.wf_toValue message_added_notification.maybe_wf

record Domain =
  m_name :: string16
  m_version :: string16

definition Domain_fromValue :: "val option \<Rightarrow> Domain option reader" where
  "Domain_fromValue value = fromObject value (\<lambda>get. do {
     nm \<leftarrow> required String_fromValue get ''name'';
     version \<leftarrow> required String_fromValue get ''version'';
     ret (Some (Domain.make nm version))
   })"

definition Domain_toValue :: "Domain \<Rightarrow> val" where
  "Domain_toValue x = build_object
     [setField StringValue ''name'' (Domain.m_name x),
      setField StringValue ''version'' (Domain.m_version x)]"

interpretation domain: object_codec Domain_toValue Domain_fromValue "\<lambda>_. True"
proof unfold_locales
  fix x and e :: ErrorSupport
  assume "m_errors e = []"
  then show "run_state (Domain_fromValue (Some (Domain_toValue x))) e = (Some x, e)"
    by (simp add: Domain_fromValue_def Domain_toValue_def build_object_def codec_simps
        Domain.make_def)
qed (simp add: Domain_toValue_def wf_intros option.pred_True)

lemmas Domain_codec [codec_simps] = domain.fromValue_toValue domain.run_object_toValue

lemmas Domain_wf [wf_intros] = domain.wf_toValue domain.maybe_wf

end
