(* ===== verification/ProtocolHelpers.thy ===== *)
theory ProtocolHelpers
  imports Jsrt JsonRoundtrip DebuggerTypes
begin

section \<open>\<open>ProtocolHelpers\<close>\<close>

text \<open>
  \<open>lib/Debugger.ProtocolHandler/ProtocolHelpers.\<close>\<open>cpp\<close>: object identifiers and the wrapping of engine values in
  protocol types.  The setters of a builder chain run in the order they are written.
\<close>

definition c_DefaultExceptionText :: string where
  "c_DefaultExceptionText = ''Uncaught''"

definition c_ErrorInvalidObjectId :: string where
  "c_ErrorInvalidObjectId = ''Invalid object ID''"

definition c_ErrorNoDisplayString :: string where
  "c_ErrorNoDisplayString = ''No display string found''"

definition c_JsrtDebugPropertyReadOnly :: cint where
  "c_JsrtDebugPropertyReadOnly = 0x4"

definition RemoteObject_of_type :: "string16 \<Rightarrow> RemoteObject" where
  "RemoteObject_of_type type = RemoteObject.make type None None None None None None None None"

definition GetObjectId :: "cint \<Rightarrow> string16" where
  "GetObjectId handle =
     plus_string (plus_string (lit (''{'' @ [CHR 0x22] @ ''handle'' @ [CHR 0x22] @ '':'')) (fromInteger handle))
       (lit ''}'')"

definition ParseObjectId :: "string16 \<Rightarrow> ('s, fault, dict) M" where
  "ParseObjectId objectId =
     (case parseJSON objectId of
        None \<Rightarrow> throwM (Throw (RuntimeError c_ErrorInvalidObjectId))
      | Some parsedValue \<Rightarrow>
          if val_type parsedValue \<noteq> TypeObject
          then throwM (Throw (RuntimeError c_ErrorInvalidObjectId))
          else case DictionaryValue_cast (Some parsedValue) of
                 Some d \<Rightarrow> retM d
               | None \<Rightarrow> throwM (Undefined NullDereference))"

definition CreateObject :: "'w JSRT \<Rightarrow> JsValueRef \<Rightarrow> ('w \<times> 'p, fault, RemoteObject) M" where
  "CreateObject J object =
     bindM (GetPropertyString J object ''type'') (\<lambda>type. retM (RemoteObject_of_type type))"

definition WrapObject :: "'w JSRT \<Rightarrow> JsValueRef \<Rightarrow> ('w \<times> 'p, fault, RemoteObject) M" where
  "WrapObject J object =
     bindM (CreateObject J object) (\<lambda>remoteObject.
     bindM (TryGetPropertyString J object ''className'') (\<lambda>className.
     bindM (TryGetProperty J object ''value'') (\<lambda>value.
     bindM (TryGetPropertyString J object ''display'') (\<lambda>hasDisplay.
     bindM (case hasDisplay of
              Some display \<Rightarrow> retM display
            | None \<Rightarrow>
                if value \<noteq> None then GetPropertyStringConvert J object ''value''
                else throwM (Throw (RuntimeError c_ErrorNoDisplayString))) (\<lambda>display.
     bindM (TryGetPropertyInt J object ''handle'') (\<lambda>handle.
       retM (remoteObject\<lparr>RemoteObject.m_className := className, RemoteObject.m_description := Some display,
               RemoteObject.m_objectId := map_option GetObjectId handle\<rparr>)))))))"

definition WrapException :: "'w JSRT \<Rightarrow> JsValueRef \<Rightarrow> ('w \<times> 'p, fault, RemoteObject) M" where
  "WrapException J exception =
     bindM (WrapObject J exception) (\<lambda>wrapped. retM (wrapped\<lparr>RemoteObject.m_subtype := Some (lit ''error'')\<rparr>))"

definition WrapExceptionDetails ::
  "'w JSRT \<Rightarrow> JsValueRef \<Rightarrow> ('w \<times> 'p, fault, ExceptionDetails) M" where
  "WrapExceptionDetails J exception =
     bindM (GetPropertyInt J exception ''handle'') (\<lambda>handle.
     bindM (GetPropertyString J exception ''display'') (\<lambda>text_value.
     bindM (WrapException J exception) (\<lambda>wrapped.
       retM (ExceptionDetails.make handle
               (if \<not> string_empty text_value then text_value else String16_cstr c_DefaultExceptionText)
               0 0 None None None (Some wrapped) None))))"

definition WrapProperty :: "'w JSRT \<Rightarrow> JsValueRef \<Rightarrow> ('w \<times> 'p, fault, PropertyDescriptor) M" where
  "WrapProperty J property =
     bindM (GetPropertyString J property ''name'') (\<lambda>name.
     bindM (GetPropertyInt J property ''propertyAttributes'') (\<lambda>propertyAttributes.
     bindM (WrapObject J property) (\<lambda>value.
       retM (PropertyDescriptor.make name (Some value)
               (Some (propertyAttributes AND c_JsrtDebugPropertyReadOnly = 0)) None None
               True True None None None))))"

definition WrapInternalProperty ::
  "'w JSRT \<Rightarrow> JsValueRef \<Rightarrow> ('w \<times> 'p, fault, InternalPropertyDescriptor) M" where
  "WrapInternalProperty J property =
     bindM (GetPropertyString J property ''name'') (\<lambda>name.
     bindM (WrapObject J property) (\<lambda>value.
       retM (InternalPropertyDescriptor.make name (Some value))))"

definition WrapLocation :: "'w JSRT \<Rightarrow> JsValueRef \<Rightarrow> ('w \<times> 'p, fault, Location) M" where
  "WrapLocation J loc =
     bindM (GetPropertyInt J loc ''column'') (\<lambda>column.
     bindM (GetPropertyInt J loc ''line'') (\<lambda>line.
     bindM (GetPropertyStringConvert J loc ''scriptId'') (\<lambda>scriptId.
       retM (Location.make scriptId line (Some column)))))"

definition GetUndefinedObject :: RemoteObject where
  "GetUndefinedObject = RemoteObject_of_type (lit ''undefined'')"

subsection \<open>Engine operations\<close>

lemma engine_ParseObjectId [engine_intros]:
  "engine_op (ParseObjectId i :: ('w \<times> 'p, fault, dict) M)"
proof -
  have "\<exists>d. DictionaryValue_cast (Some v) = Some d" if "val_type v = TypeObject" for v
    using that by (cases v) auto
  then show ?thesis
    by (fastforce simp: ParseObjectId_def intro!: engine_intros split: option.split)
qed

lemma engine_WrapObject [engine_intros]: "engine_op (WrapObject J v)"
  unfolding WrapObject_def CreateObject_def by (intro engine_intros)

lemma engine_wraps [engine_intros]:
  "engine_op (WrapException J v)" "engine_op (WrapExceptionDetails J v)"
  "engine_op (WrapProperty J v)" "engine_op (WrapInternalProperty J v)"
  "engine_op (WrapLocation J v)"
  unfolding WrapException_def WrapExceptionDetails_def WrapProperty_def WrapInternalProperty_def
    WrapLocation_def
  by (intro engine_intros)+

subsection \<open>Object identifiers\<close>

text \<open>The identifier of a handle is JSON text, and reading it back gives the handle.\<close>

definition plain_char :: "char \<Rightarrow> bool" where
  "plain_char c \<longleftrightarrow>
     32 \<le> (of_char c :: nat) \<and> (of_char c :: nat) \<le> 126 \<and> c \<noteq> CHR 0x22 \<and> c \<noteq> CHR 0x5C"

lemma esc_char_plain:
  assumes "plain_char c"
  shows "esc_char (widen c) = [widen c]"
proof -
  have u: "unat (widen c) = of_char c" using assms by (simp add: plain_char_def unat_widen ascii_def)
  have "char_of (34 :: nat) = CHR 0x22" and "char_of (92 :: nat) = CHR 0x5C"
    by (simp_all add: char_of_def bit_0)
  then have "of_char c \<noteq> (34 :: nat)" and "of_char c \<noteq> (92 :: nat)"
    using assms by (metis char_of_char plain_char_def)+
  with assms u show ?thesis
    by (simp add: plain_char_def esc_char_def escapeChar_def word_less_nat_alt word_unat_eq_iff)
qed

lemma lit_quote: "lit [CHR 0x22] = [34]"
  by (simp add: lit_Cons uc_widen ascii_def)

lemma quoted_lit: "list_all plain_char s \<Longrightarrow> quoted (lit s) = lit [CHR 0x22] @ lit s @ lit [CHR 0x22]"
proof -
  assume "list_all plain_char s"
  then have "concat (map esc_char (lit s)) = lit s"
    by (induction s) (simp_all add: lit_Cons esc_char_plain)
  then show ?thesis by (simp add: quoted_def lit_quote)
qed

text \<open>An object with one integer, as the program spells it.\<close>

definition handle_object :: "string \<Rightarrow> cint \<Rightarrow> dict" where
  "handle_object key handle = setInteger (lit key) handle dict_create"

lemma handle_object_json:
  "list_all plain_char key \<Longrightarrow>
     json_text (Dict (handle_object key handle)) =
       lit ''{'' @ lit [CHR 0x22] @ lit key @ lit [CHR 0x22] @ lit '':'' @ fromInteger handle @ lit ''}''"
  by (simp add: handle_object_def setInteger_def dict_set_def dict_create_def Dict_def quoted_lit
      lit_Cons uc_widen ascii_def)

lemma GetObjectId_json: "GetObjectId handle = json_text (Dict (handle_object ''handle'' handle))"
  by (simp add: handle_object_json plain_char_def GetObjectId_def str_defs lit_Cons)

lemma handle_object_facts:
  "wf_val (Dict (handle_object key handle))" "plain_val (Dict (handle_object key handle))"
  "nesting (Dict (handle_object key handle)) = 1"
  "getInteger (handle_object key handle) (lit key) = Some handle"
  by (simp_all add: handle_object_def setInteger_def wf_intros getInteger_def)
    (simp_all add: Dict_def dict_set_def dict_create_def)

lemma ParseObjectId_json:
  assumes "wf_dict d" and "plain_val (Dict d)" and "nesting (Dict d) \<le> stackLimit"
  shows "ParseObjectId (json_text (Dict d)) = retM d"
  using parse_json_text [of "Dict d"] assms by (simp add: ParseObjectId_def)

end
