(* ===== verification/DebuggerScript.thy ===== *)
theory DebuggerScript
  imports ProtocolHelpers
begin

section \<open>Contexts, regular expressions, scripts and breakpoints\<close>

text \<open>
  \<open>DebuggerContext.cpp\<close>, \<open>DebuggerRegExp.cpp\<close>, \<open>DebuggerScript.cpp\<close> and \<open>DebuggerBreakpoint.cpp\<close>.  The
  \<open>Debugger\<close> pointer these classes keep is used for its context only, which is an argument here.  A
  \<open>JsPersistent\<close> member is the reference it holds.
\<close>

subsection \<open>\<open>DebuggerContext\<close>\<close>

text \<open>
  \<open>Scope\<close>: the constructor makes \<open>context\<close> current; the destructor runs when the scope is left
  normally or by an exception, restores the previous context and lets no exception out.
\<close>

definition unwinds :: "fault + 'a \<Rightarrow> bool" where
  "unwinds r = (case r of Inl (Throw _) \<Rightarrow> True | Inl _ \<Rightarrow> False | Inr _ \<Rightarrow> True)"

definition leave_scope :: "'w JSRT \<Rightarrow> JsContextRef \<Rightarrow> ('w \<times> 'p, fault, unit) M" where
  "leave_scope J m_previousContext =
     bindM (jsrt (JsGetCurrentContext J)) (\<lambda>_.
     bindM (jsrt (JsSetCurrentContext J m_previousContext)) (\<lambda>_. retM ()))"

definition DebuggerContext :: "'w JSRT \<Rightarrow> ('w \<times> 'p, fault, JsContextRef) M" where
  "DebuggerContext J = js J (JsCreateContext J)"

lemma leave_scope_state [simp]: "snd (snd (leave_scope J c t)) = snd t"
  by (cases t) (simp add: leave_scope_def M_defs jsrt_def split: prod.split)

text \<open>The body and the destructor.\<close>

definition scope_body ::
  "'w JSRT \<Rightarrow> JsContextRef \<Rightarrow> ('w \<times> 'p, fault, 'a) M \<Rightarrow> ('w \<times> 'p, fault, 'a) M" where
  "scope_body J m_previousContext body =
     (\<lambda>s. case body s of (r, t) \<Rightarrow>
        if unwinds r then (r, snd (leave_scope J m_previousContext t)) else (r, t))"

lemma scope_body_state [simp]:
  "snd (snd (scope_body J c body s)) = snd (snd (body s))" "fst (scope_body J c body s) = fst (body s)"
  by (simp_all add: scope_body_def split: prod.split)

definition with_scope :: "'w JSRT \<Rightarrow> JsContextRef \<Rightarrow> ('w \<times> 'p, fault, 'a) M \<Rightarrow> ('w \<times> 'p, fault, 'a) M" where
  "with_scope J context_ref body =
     bindM (js J (JsGetCurrentContext J)) (\<lambda>m_previousContext.
     seqM (js J (JsSetCurrentContext J context_ref)) (scope_body J m_previousContext body))"

lemma keeps_with_scope:
  "keeps (\<lambda>s. P (snd s)) body \<Longrightarrow> keeps (\<lambda>s. P (snd s)) (with_scope J c body)"
  unfolding with_scope_def
  by (rule keeps_bind, rule engine_keeps, rule engine_js, rule keeps_seq, rule engine_keeps,
      rule engine_js, simp add: keeps_def)

lemma engine_with_scope [engine_intros]: "engine_op body \<Longrightarrow> engine_op (with_scope J c body)"
  unfolding with_scope_def by (intro engine_intros) (simp add: engine_op_def)

subsection \<open>\<open>DebuggerRegExp\<close>\<close>

definition DebuggerRegExp ::
  "'w JSRT \<Rightarrow> JsContextRef \<Rightarrow> string16 \<Rightarrow> string16 \<Rightarrow> ('w \<times> 'p, fault, JsValueRef) M" where
  "DebuggerRegExp J debugContext pattern flags =
     with_scope J debugContext
       (bindM (js J (JsGetGlobalObject J)) (\<lambda>globalObject.
        bindM (jsrt (JsGetUndefinedValue J)) (\<lambda>(_, undefinedValue).
        bindM (js J (JsCreateStringUtf16 J pattern)) (\<lambda>patternValue.
        bindM (js J (JsCreateStringUtf16 J flags)) (\<lambda>flagsValue.
        bindM (GetProperty J globalObject ''RegExp'') (\<lambda>regExpConstructor.
          js J (JsConstructObject J regExpConstructor [undefinedValue, patternValue, flagsValue])))))))"

definition RegExp_Exec ::
  "'w JSRT \<Rightarrow> JsContextRef \<Rightarrow> JsValueRef \<Rightarrow> JsValueRef \<Rightarrow> ('w \<times> 'p, fault, string16 list) M" where
  "RegExp_Exec J debugContext m_regExp value =
     with_scope J debugContext
       (bindM (GetProperty J m_regExp ''exec'') (\<lambda>execFunction.
        bindM (js J (JsCallFunction J execFunction [m_regExp, value])) (\<lambda>result.
        bindM (js J (JsGetNullValue J)) (\<lambda>nullValue.
          if result \<noteq> nullValue then
            bindM (GetPropertyInt J result ''length'') (\<lambda>length_value.
              for_length length_value (GetIndexedPropertyString J result))
          else retM []))))"

definition RegExp_Exec_string ::
  "'w JSRT \<Rightarrow> JsContextRef \<Rightarrow> JsValueRef \<Rightarrow> string16 \<Rightarrow> ('w \<times> 'p, fault, string16 list) M" where
  "RegExp_Exec_string J debugContext m_regExp str =
     bindM (js J (JsCreateStringUtf16 J str)) (RegExp_Exec J debugContext m_regExp)"

definition RegExp_Test ::
  "'w JSRT \<Rightarrow> JsContextRef \<Rightarrow> JsValueRef \<Rightarrow> string16 \<Rightarrow> ('w \<times> 'p, fault, bool) M" where
  "RegExp_Test J debugContext m_regExp str =
     with_scope J debugContext
       (bindM (GetProperty J m_regExp ''test'') (\<lambda>testFunction.
        bindM (js J (JsCreateStringUtf16 J str)) (\<lambda>strValue.
        bindM (js J (JsCallFunction J testFunction [m_regExp, strValue])) (\<lambda>result.
          js J (JsBooleanToBool J result)))))"

lemma engine_RegExp [engine_intros]:
  "engine_op (DebuggerRegExp J c p f)" "engine_op (RegExp_Exec J c r v)"
  "engine_op (RegExp_Exec_string J c r t)" "engine_op (RegExp_Test J c r t)"
  unfolding DebuggerRegExp_def RegExp_Exec_def RegExp_Exec_string_def RegExp_Test_def
  by (intro engine_intros)+

subsection \<open>\<open>DebuggerScript\<close>\<close>

record DebuggerScript =
  m_scriptInfo :: JsValueRef
  m_scriptSource :: JsValueRef
  ds_scriptId :: cint
  m_sourceUrl :: string16
  m_sourceMappingUrl :: string16
  ds_hash :: string16

definition c_PropertySourceMappingURL :: string where
  "c_PropertySourceMappingURL = ''sourceMappingURL''"

definition c_PropertySourceURL :: string where
  "c_PropertySourceURL = ''sourceURL''"

definition c_SourceInfoCommentFlags :: string where
  "c_SourceInfoCommentFlags = ''mg''"

definition c_SourceInfoCommentPattern :: string where
  "c_SourceInfoCommentPattern =
     ''//[#@][ '' @ [CHR 0x5C] @ ''t]*([^=]+?)[ '' @ [CHR 0x5C] @ ''t]*=[ '' @ [CHR 0x5C] @
     ''t]*(.+?)[ '' @ [CHR 0x5C] @ ''t]*$|/'' @ [CHR 0x5C] @ ''*[#@][ '' @ [CHR 0x5C] @
     ''t]*([^=]+?)[ '' @ [CHR 0x5C] @ ''t]*=[ '' @ [CHR 0x5C] @ ''t]*(.+?)[ '' @ [CHR 0x5C] @
     ''t]*'' @ [CHR 0x5C] @ ''*/''"

text \<open>What one match with five groups sets.\<close>

definition apply_match :: "string16 list \<Rightarrow> DebuggerScript \<Rightarrow> DebuggerScript" where
  "apply_match matchGroups script =
     (if matchGroups ! 1 = String16_cstr c_PropertySourceMappingURL
      then script\<lparr>m_sourceMappingUrl := matchGroups ! 2\<rparr>
      else if matchGroups ! 3 = String16_cstr c_PropertySourceMappingURL
      then script\<lparr>m_sourceMappingUrl := matchGroups ! 4\<rparr>
      else if matchGroups ! 1 = String16_cstr c_PropertySourceURL
      then script\<lparr>m_sourceUrl := matchGroups ! 2\<rparr>
      else if matchGroups ! 3 = String16_cstr c_PropertySourceURL
      then script\<lparr>m_sourceUrl := matchGroups ! 4\<rparr>
      else script)"

text \<open>
  The \<open>while (true)\<close> loop of \<open>ParseScriptSource\<close>, which ends when the global regular expression has
  no further match.  That is up to the engine, so the loop takes fuel.
\<close>

fun ParseScriptSource_loop ::
  "nat \<Rightarrow> 'w JSRT \<Rightarrow> JsContextRef \<Rightarrow> JsValueRef \<Rightarrow> JsValueRef \<Rightarrow> DebuggerScript \<Rightarrow>
     ('w \<times> 'p, fault, DebuggerScript) M" where
  "ParseScriptSource_loop 0 J debugContext regExp sourceValue script = throwM (OutOfFuel ScriptComments)"
| "ParseScriptSource_loop (Suc fuel) J debugContext regExp sourceValue script =
     bindM (RegExp_Exec J debugContext regExp sourceValue) (\<lambda>matchGroups.
       if length matchGroups = 5 then
         ParseScriptSource_loop fuel J debugContext regExp sourceValue (apply_match matchGroups script)
       else retM script)"

definition ParseScriptSource ::
  "nat \<Rightarrow> 'w JSRT \<Rightarrow> JsContextRef \<Rightarrow> DebuggerScript \<Rightarrow> ('w \<times> 'p, fault, DebuggerScript) M" where
  "ParseScriptSource fuel J debugContext script =
     bindM (DebuggerRegExp J debugContext (String16_cstr c_SourceInfoCommentPattern)
         (String16_cstr c_SourceInfoCommentFlags)) (\<lambda>regExp.
     bindM (GetProperty J (m_scriptSource script) ''source'') (\<lambda>sourceValue.
       ParseScriptSource_loop fuel J debugContext regExp sourceValue script))"

definition DebuggerScript_new ::
  "nat \<Rightarrow> 'w JSRT \<Rightarrow> JsContextRef \<Rightarrow> JsValueRef \<Rightarrow> ('w \<times> 'p, fault, DebuggerScript) M" where
  "DebuggerScript_new fuel J debugContext scriptInfo =
     (let script = DebuggerScript.make scriptInfo JS_INVALID_REFERENCE 0 [] [] []
      in if scriptInfo \<noteq> JS_INVALID_REFERENCE then
           bindM (GetPropertyInt J scriptInfo ''scriptId'') (\<lambda>scriptId.
           bindM (js J (JsDiagGetSource J scriptId)) (\<lambda>scriptSource.
             ParseScriptSource fuel J debugContext
               (script\<lparr>ds_scriptId := scriptId, m_scriptSource := scriptSource\<rparr>)))
         else retM script)"

definition ScriptId :: "DebuggerScript \<Rightarrow> string16" where
  "ScriptId script = fromInteger (ds_scriptId script)"

definition Url :: "'w JSRT \<Rightarrow> DebuggerScript \<Rightarrow> ('w \<times> 'p, fault, string16) M" where
  "Url J script =
     (if m_scriptInfo script \<noteq> JS_INVALID_REFERENCE then
        bindM (TryGetPropertyString J (m_scriptInfo script) ''fileName'') (\<lambda>fileName.
          case fileName of
            Some f \<Rightarrow> retM f
          | None \<Rightarrow>
              bindM (TryGetPropertyString J (m_scriptInfo script) ''scriptType'') (\<lambda>scriptType.
                retM (case scriptType of Some t \<Rightarrow> t | None \<Rightarrow> [])))
      else retM [])"

definition HasSourceUrl :: "DebuggerScript \<Rightarrow> bool" where
  "HasSourceUrl script \<longleftrightarrow> \<not> string_empty (m_sourceUrl script)"

definition SourceUrl :: "'w JSRT \<Rightarrow> DebuggerScript \<Rightarrow> ('w \<times> 'p, fault, string16) M" where
  "SourceUrl J script = (if HasSourceUrl script then retM (m_sourceUrl script) else Url J script)"

definition SourceMappingUrl :: "DebuggerScript \<Rightarrow> string16" where
  "SourceMappingUrl script = m_sourceMappingUrl script"

definition Source :: "'w JSRT \<Rightarrow> DebuggerScript \<Rightarrow> ('w \<times> 'p, fault, string16) M" where
  "Source J script =
     (if m_scriptSource script \<noteq> JS_INVALID_REFERENCE
      then GetPropertyString J (m_scriptSource script) ''source'' else retM [])"

definition Hash :: "DebuggerScript \<Rightarrow> string16" where
  "Hash script = ds_hash script"

definition EndLine :: "'w JSRT \<Rightarrow> DebuggerScript \<Rightarrow> ('w \<times> 'p, fault, cint) M" where
  "EndLine J script =
     (if m_scriptInfo script \<noteq> JS_INVALID_REFERENCE
      then GetPropertyInt J (m_scriptInfo script) ''lineCount'' else retM 0)"

definition StartLine :: "DebuggerScript \<Rightarrow> cint" where "StartLine script = 0"

definition StartColumn :: "DebuggerScript \<Rightarrow> cint" where "StartColumn script = 0"

definition EndColumn :: "DebuggerScript \<Rightarrow> cint" where "EndColumn script = 0"

definition ExecutionContextId :: "DebuggerScript \<Rightarrow> cint" where "ExecutionContextId script = 0"

definition ExecutionContextAuxData :: "DebuggerScript \<Rightarrow> string16" where
  "ExecutionContextAuxData script = []"

definition IsLiveEdit :: "DebuggerScript \<Rightarrow> bool" where "IsLiveEdit script \<longleftrightarrow> False"

lemma engine_script [engine_intros]:
  "engine_op (Url J s)" "engine_op (SourceUrl J s)" "engine_op (Source J s)" "engine_op (EndLine J s)"
  unfolding SourceUrl_def Url_def Source_def EndLine_def by (intro engine_intros)+

end
