(* ===== verification/DebuggerBreakpoint.thy ===== *)
theory DebuggerBreakpoint
  imports DebuggerScript
begin

section \<open>Breakpoints\<close>

text \<open>
  \<open>DebuggerBreakpoint.cpp\<close>.  A breakpoint is identified by the key made of its query and position;
  it gets a script when a loaded script matches the query, and an actual position when the engine
  has set it.
\<close>

datatype QueryType = QueryScriptId | QueryUrl | QueryUrlRegex

fun QueryType_value :: "QueryType \<Rightarrow> cint" where
  "QueryType_value QueryScriptId = 0"
| "QueryType_value QueryUrl = 1"
| "QueryType_value QueryUrlRegex = 2"

record DebuggerBreakpoint =
  m_query :: string16
  m_queryType :: QueryType
  bp_lineNumber :: cint
  bp_columnNumber :: cint
  m_condition :: string16
  bp_scriptId :: string16
  m_actualBreakpointId :: cint
  m_actualLineNumber :: cint
  m_actualColumnNumber :: cint

definition DebuggerBreakpoint_new ::
  "string16 \<Rightarrow> QueryType \<Rightarrow> cint \<Rightarrow> cint \<Rightarrow> string16 \<Rightarrow> DebuggerBreakpoint" where
  "DebuggerBreakpoint_new query queryType lineNumber columnNumber condition =
     DebuggerBreakpoint.make query queryType lineNumber columnNumber condition
       (if queryType = QueryScriptId then query else []) (- 1) (- 1) (- 1)"

definition FromLocation :: "Location \<Rightarrow> string16 \<Rightarrow> DebuggerBreakpoint" where
  "FromLocation loc condition =
     DebuggerBreakpoint_new (Location.m_scriptId loc) QueryScriptId (Location.m_lineNumber loc)
       (case Location.m_columnNumber loc of Some c \<Rightarrow> c | None \<Rightarrow> 0) condition"

definition GenerateKey :: "DebuggerBreakpoint \<Rightarrow> string16" where
  "GenerateKey bp =
     plus_string (plus_string (plus_string (plus_string (plus_string (plus_string
       (fromInteger (QueryType_value (m_queryType bp))) (lit '':'')) (m_query bp)) (lit '':''))
       (fromInteger (bp_lineNumber bp))) (lit '':'')) (fromInteger (bp_columnNumber bp))"

definition IsScriptLoaded :: "DebuggerBreakpoint \<Rightarrow> bool" where
  "IsScriptLoaded bp \<longleftrightarrow> \<not> string_empty (bp_scriptId bp)"

definition IsResolved :: "DebuggerBreakpoint \<Rightarrow> bool" where
  "IsResolved bp \<longleftrightarrow> 0 \<le> sint (m_actualLineNumber bp) \<and> 0 \<le> sint (m_actualColumnNumber bp)"

definition GetActualLocation :: "DebuggerBreakpoint \<Rightarrow> Location option" where
  "GetActualLocation bp =
     (if IsResolved bp
      then Some (Location.make (bp_scriptId bp) (m_actualLineNumber bp) (Some (m_actualColumnNumber bp)))
      else None)"

definition IsScriptMatch ::
  "'w JSRT \<Rightarrow> JsContextRef \<Rightarrow> DebuggerBreakpoint \<Rightarrow> DebuggerScript \<Rightarrow> ('w \<times> 'p, fault, bool) M" where
  "IsScriptMatch J debugContext bp script =
     (case m_queryType bp of
        QueryScriptId \<Rightarrow> retM (ScriptId script = m_query bp)
      | QueryUrl \<Rightarrow> bindM (SourceUrl J script) (\<lambda>url. retM (url = m_query bp))
      | QueryUrlRegex \<Rightarrow>
          bindM (DebuggerRegExp J debugContext (m_query bp) []) (\<lambda>regExp.
          bindM (SourceUrl J script) (RegExp_Test J debugContext regExp)))"

text \<open>The result and the breakpoint after it.\<close>

definition TryLoadScript ::
  "'w JSRT \<Rightarrow> JsContextRef \<Rightarrow> DebuggerScript \<Rightarrow> DebuggerBreakpoint \<Rightarrow>
     ('w \<times> 'p, fault, bool \<times> DebuggerBreakpoint) M" where
  "TryLoadScript J debugContext script bp =
     (if IsScriptLoaded bp then retM (False, bp)
      else bindM (IsScriptMatch J debugContext bp script) (\<lambda>isMatch.
        if \<not> isMatch then retM (False, bp)
        else retM (True, bp\<lparr>bp_scriptId := ScriptId script\<rparr>)))"

definition OnBreakpointResolved ::
  "cint \<Rightarrow> cint \<Rightarrow> cint \<Rightarrow> DebuggerBreakpoint \<Rightarrow> DebuggerBreakpoint" where
  "OnBreakpointResolved actualBreakpointId actualLineNumber actualColumnNumber bp =
     bp\<lparr>m_actualBreakpointId := actualBreakpointId, m_actualLineNumber := actualLineNumber,
       m_actualColumnNumber := actualColumnNumber\<rparr>"

text \<open>\<open>Debugger::SetBreakpoint\<close> and \<open>RemoveBreakpoint\<close>, which only talk to the engine.\<close>

definition SetBreakpoint ::
  "'w JSRT \<Rightarrow> DebuggerBreakpoint \<Rightarrow> ('w \<times> 'p, fault, DebuggerBreakpoint) M" where
  "SetBreakpoint J breakpoint =
     (case toInteger (bp_scriptId breakpoint) of
        Inl f \<Rightarrow> throwM f
      | Inr scriptId \<Rightarrow>
          bindM (js J (JsDiagSetBreakpoint J scriptId (bp_lineNumber breakpoint)
              (bp_columnNumber breakpoint))) (\<lambda>bp.
          bindM (GetPropertyInt J bp ''breakpointId'') (\<lambda>breakpointId.
          bindM (GetPropertyInt J bp ''line'') (\<lambda>line.
          bindM (GetPropertyInt J bp ''column'') (\<lambda>column.
            retM (OnBreakpointResolved breakpointId line column breakpoint))))))"

definition RemoveBreakpoint :: "'w JSRT \<Rightarrow> DebuggerBreakpoint \<Rightarrow> ('w \<times> 'p, fault, unit) M" where
  "RemoveBreakpoint J breakpoint = js J (JsDiagRemoveBreakpoint J (m_actualBreakpointId breakpoint))"

subsection \<open>Properties\<close>

lemma engine_IsScriptMatch [engine_intros]: "engine_op (IsScriptMatch J c bp s)"
  unfolding IsScriptMatch_def by (cases "m_queryType bp") (auto intro!: engine_intros)

lemma engine_TryLoadScript [engine_intros]: "engine_op (TryLoadScript J c s bp)"
  unfolding TryLoadScript_def by (intro engine_intros)

lemma toAscii_Throw: "toAscii s = Inl f \<Longrightarrow> \<exists>e. f = Throw e"
  by (induction s) (auto split: if_splits sum.splits)

lemma toInteger_Throw: "toInteger s = Inl f \<Longrightarrow> \<exists>e. f = Throw e"
  by (auto simp: toInteger_def dest: toAscii_Throw
      split: sum.splits option.splits prod.splits list.splits)

lemma engine_SetBreakpoint [engine_intros]: "engine_op (SetBreakpoint J bp)"
proof (cases "toInteger (bp_scriptId bp)")
  case (Inl f)
  then show ?thesis
    using toInteger_Throw [OF Inl] by (auto simp: SetBreakpoint_def intro: engine_intros)
next
  case (Inr i)
  then show ?thesis by (simp add: SetBreakpoint_def) (intro engine_intros)
qed

lemma engine_RemoveBreakpoint [engine_intros]: "engine_op (RemoveBreakpoint J bp)"
  unfolding RemoveBreakpoint_def by (intro engine_intros)

text \<open>Two breakpoints have the same key only if they agree in type, query, line and column.\<close>

lemma QueryType_value_inj [simp]: "QueryType_value a = QueryType_value b \<longleftrightarrow> a = b"
  by (cases a; cases b) simp_all

lemma GenerateKey_text:
  "GenerateKey bp = fromInteger (QueryType_value (m_queryType bp)) @ widen (CHR '':'') #
     m_query bp @ widen (CHR '':'') # fromInteger (bp_lineNumber bp) @ widen (CHR '':'') #
     fromInteger (bp_columnNumber bp)"
  by (simp add: GenerateKey_def str_defs lit_Cons)

lemma split_at_first_sep:
  assumes "us @ c # xs = vs @ c # ys" and "c \<notin> set us" and "c \<notin> set vs"
  shows "us = vs \<and> xs = ys"
proof -
  have "takeWhile (\<lambda>x. x \<noteq> c) (us @ c # xs) = us" "takeWhile (\<lambda>x. x \<noteq> c) (vs @ c # ys) = vs"
    using assms(2,3) by (auto intro!: takeWhile_append_stop)
  with assms(1) have "us = vs" by metis
  with assms(1) show ?thesis by simp
qed

lemma GenerateKey_iff:
  "GenerateKey a = GenerateKey b \<longleftrightarrow>
     m_queryType a = m_queryType b \<and> m_query a = m_query b \<and> bp_lineNumber a = bp_lineNumber b \<and>
     bp_columnNumber a = bp_columnNumber b" (is "_ \<longleftrightarrow> ?same")
proof
  assume "GenerateKey a = GenerateKey b"
  then have "m_queryType a = m_queryType b" and
    "m_query a @ widen (CHR '':'') # fromInteger (bp_lineNumber a) @ widen (CHR '':'') #
       fromInteger (bp_columnNumber a) =
     m_query b @ widen (CHR '':'') # fromInteger (bp_lineNumber b) @ widen (CHR '':'') #
       fromInteger (bp_columnNumber b)"
    unfolding GenerateKey_text by (auto dest!: split_at_first_sep)
  moreover from this(2) have
    "m_query a @ widen (CHR '':'') # fromInteger (bp_lineNumber a) =
       m_query b @ widen (CHR '':'') # fromInteger (bp_lineNumber b) \<and>
     fromInteger (bp_columnNumber a) = fromInteger (bp_columnNumber b)"
    by (intro split_at_last_sep [where c = "widen (CHR '':'')"]) simp_all
  ultimately show ?same by (auto dest!: split_at_last_sep)
qed (simp add: GenerateKey_text)

end
