(* ===== verification/DebuggerFrames.thy ===== *)
theory DebuggerFrames
  imports ProtocolHelpers
begin

section \<open>Call frames, objects and breaks\<close>

text \<open>
  \<open>DebuggerObject.cpp\<close>, \<open>DebuggerLocalScope.cpp\<close>, \<open>DebuggerCallFrame.cpp\<close> and \<open>DebuggerBreak.cpp\<close>, the read-only views of what
  the engine reports.
\<close>

subsection \<open>\<open>DebuggerObject\<close> and \<open>DebuggerLocalScope\<close>\<close>

definition c_MaxPropertyCount :: nat where
  "c_MaxPropertyCount = 5000"

record DebuggerObject =
  do_object :: JsValueRef
  m_handle :: cint

definition DebuggerObject_new :: "'w JSRT \<Rightarrow> JsValueRef \<Rightarrow> ('w \<times> 'p, fault, DebuggerObject) M" where
  "DebuggerObject_new J obj =
     bindM (TryGetPropertyInt J obj ''handle'') (\<lambda>handle.
       retM (DebuggerObject.make obj (case handle of Some h \<Rightarrow> h | None \<Rightarrow> - 1)))"

definition wrap_diag_properties ::
  "'w JSRT \<Rightarrow> string \<Rightarrow> (JsValueRef \<Rightarrow> ('w \<times> 'p, fault, 'a) M) \<Rightarrow> DebuggerObject \<Rightarrow> ('w \<times> 'p, fault, 'a list) M" where
  "wrap_diag_properties J name wrap obj =
     (if 0 \<le> sint (m_handle obj) then
        bindM (js J (JsDiagGetProperties J (m_handle obj) 0 c_MaxPropertyCount)) (\<lambda>diagProperties.
        bindM (GetProperty J diagProperties name) (\<lambda>properties.
          for_items J properties wrap))
      else retM [])"

definition GetPropertyDescriptors ::
  "'w JSRT \<Rightarrow> DebuggerObject \<Rightarrow> ('w \<times> 'p, fault, PropertyDescriptor list) M" where
  "GetPropertyDescriptors J = wrap_diag_properties J ''properties'' (WrapProperty J)"

definition GetInternalPropertyDescriptors ::
  "'w JSRT \<Rightarrow> DebuggerObject \<Rightarrow> ('w \<times> 'p, fault, InternalPropertyDescriptor list) M" where
  "GetInternalPropertyDescriptors J =
     wrap_diag_properties J ''debuggerOnlyProperties'' (WrapInternalProperty J)"

definition LocalScope_items ::
  "'w JSRT \<Rightarrow> JsValueRef \<Rightarrow> string \<Rightarrow> ('w \<times> 'p, fault, PropertyDescriptor list) M" where
  "LocalScope_items J obj name =
     bindM (TryGetProperty J obj name) (\<lambda>items.
       case items of Some array \<Rightarrow> for_items J array (WrapProperty J) | None \<Rightarrow> retM [])"

definition LocalScope_GetPropertyDescriptors ::
  "'w JSRT \<Rightarrow> DebuggerObject \<Rightarrow> ('w \<times> 'p, fault, PropertyDescriptor list) M" where
  "LocalScope_GetPropertyDescriptors J obj =
     bindM (TryGetProperty J (do_object obj) ''arguments'') (\<lambda>arguments.
     bindM (case arguments of
              Some a \<Rightarrow> bindM (WrapProperty J a) (\<lambda>p. retM [p])
            | None \<Rightarrow> retM []) (\<lambda>ps.
     bindM (LocalScope_items J (do_object obj) ''functionCallsReturn'') (\<lambda>qs.
     bindM (LocalScope_items J (do_object obj) ''locals'') (\<lambda>rs.
       retM (ps @ qs @ rs)))))"

definition LocalScope_GetInternalPropertyDescriptors ::
  "DebuggerObject \<Rightarrow> ('s, fault, InternalPropertyDescriptor list) M" where
  "LocalScope_GetInternalPropertyDescriptors obj = retM []"

subsection \<open>\<open>DebuggerCallFrame\<close>\<close>

record DebuggerCallFrame =
  m_callFrameInfo :: JsValueRef
  m_callFrameIndex :: cint

definition DebuggerCallFrame_new :: "'w JSRT \<Rightarrow> JsValueRef \<Rightarrow> ('w \<times> 'p, fault, DebuggerCallFrame) M" where
  "DebuggerCallFrame_new J callFrameInfo =
     bindM (GetPropertyInt J callFrameInfo ''index'') (\<lambda>index.
       retM (DebuggerCallFrame.make callFrameInfo index))"

definition SourceId :: "'w JSRT \<Rightarrow> DebuggerCallFrame \<Rightarrow> ('w \<times> 'p, fault, cint) M" where
  "SourceId J f = GetPropertyInt J (m_callFrameInfo f) ''scriptId''"

definition Line :: "'w JSRT \<Rightarrow> DebuggerCallFrame \<Rightarrow> ('w \<times> 'p, fault, cint) M" where
  "Line J f = GetPropertyInt J (m_callFrameInfo f) ''line''"

definition Column :: "'w JSRT \<Rightarrow> DebuggerCallFrame \<Rightarrow> ('w \<times> 'p, fault, cint) M" where
  "Column J f = GetPropertyInt J (m_callFrameInfo f) ''column''"

definition ContextId :: "DebuggerCallFrame \<Rightarrow> cint" where
  "ContextId f = 1"

definition stack_properties :: "'w JSRT \<Rightarrow> DebuggerCallFrame \<Rightarrow> ('w \<times> 'p, fault, JsValueRef) M" where
  "stack_properties J f = js J (JsDiagGetStackProperties J (m_callFrameIndex f))"

text \<open>The properties are fetched, but \<open>returnValue\<close> is looked up on the frame.\<close>

definition IsAtReturn :: "'w JSRT \<Rightarrow> DebuggerCallFrame \<Rightarrow> ('w \<times> 'p, fault, bool) M" where
  "IsAtReturn J f =
     bindM (stack_properties J f) (\<lambda>properties.
     bindM (TryGetProperty J (m_callFrameInfo f) ''returnValue'') (\<lambda>propVal.
       case propVal of Some v \<Rightarrow> HasProperty J v ''handle'' | None \<Rightarrow> retM False))"

definition GetLocals :: "'w JSRT \<Rightarrow> DebuggerCallFrame \<Rightarrow> ('w \<times> 'p, fault, DebuggerObject) M" where
  "GetLocals J f = bindM (stack_properties J f) (DebuggerObject_new J)"

definition GetGlobals :: "'w JSRT \<Rightarrow> DebuggerCallFrame \<Rightarrow> ('w \<times> 'p, fault, DebuggerObject) M" where
  "GetGlobals J f =
     bindM (stack_properties J f) (\<lambda>properties.
     bindM (GetProperty J properties ''globals'') (DebuggerObject_new J))"

text \<open>
  \<open>Evaluate\<close> with its optional out parameter \<open>exceptionDetails\<close>, which is not null in the only call.
\<close>

definition Evaluate ::
  "'w JSRT \<Rightarrow> DebuggerCallFrame \<Rightarrow> string16 \<Rightarrow> bool \<Rightarrow>
     ('w \<times> 'p, fault, RemoteObject \<times> ExceptionDetails option) M" where
  "Evaluate J f expression returnByValue =
     bindM (js J (JsCreateStringUtf16 J expression)) (\<lambda>expressionStr.
     bindM (jsrt (JsDiagEvaluate J expressionStr (m_callFrameIndex f) returnByValue)) (\<lambda>(err, evalResult).
       if err = JsErrorScriptException then
         bindM (WrapExceptionDetails J evalResult) (\<lambda>details.
         bindM (WrapException J evalResult) (\<lambda>wrapped. retM (wrapped, Some details)))
       else
         seqM (IfJsErrorThrow (codes J) err)
           (bindM (WrapObject J evalResult) (\<lambda>wrapped. retM (wrapped, None)))))"

definition GetCallFrameId :: "DebuggerCallFrame \<Rightarrow> string16" where
  "GetCallFrameId f =
     plus_string (plus_string (lit (''{'' @ [CHR 0x22] @ ''ordinal'' @ [CHR 0x22] @ '':''))
       (fromInteger (m_callFrameIndex f))) (lit ''}'')"

definition GetObjectIdForFrameProp :: "DebuggerCallFrame \<Rightarrow> string \<Rightarrow> string16" where
  "GetObjectIdForFrameProp f propName =
     plus_string (plus_string (plus_string (plus_string
       (lit (''{'' @ [CHR 0x22] @ ''ordinal'' @ [CHR 0x22] @ '':''))
       (fromInteger (m_callFrameIndex f)))
       (lit ('','' @ [CHR 0x22] @ ''name'' @ [CHR 0x22] @ '':'' @ [CHR 0x22])))
       (lit propName)) (lit ([CHR 0x22] @ ''}''))"

definition function_object :: "'w JSRT \<Rightarrow> DebuggerCallFrame \<Rightarrow> ('w \<times> 'p, fault, JsValueRef) M" where
  "function_object J f =
     bindM (GetPropertyInt J (m_callFrameInfo f) ''functionHandle'') (\<lambda>functionHandle.
       js J (JsDiagGetObjectFromHandle J functionHandle))"

definition GetFunctionLocation :: "'w JSRT \<Rightarrow> DebuggerCallFrame \<Rightarrow> ('w \<times> 'p, fault, Location) M" where
  "GetFunctionLocation J f = bindM (function_object J f) (WrapLocation J)"

definition GetFunctionName :: "'w JSRT \<Rightarrow> DebuggerCallFrame \<Rightarrow> ('w \<times> 'p, fault, string16) M" where
  "GetFunctionName J f = bindM (function_object J f) (\<lambda>funcObj. GetPropertyString J funcObj ''name'')"

definition GetLocation :: "'w JSRT \<Rightarrow> DebuggerCallFrame \<Rightarrow> ('w \<times> 'p, fault, Location) M" where
  "GetLocation J f = WrapLocation J (m_callFrameInfo f)"

definition GetReturnValue :: "'w JSRT \<Rightarrow> DebuggerCallFrame \<Rightarrow> ('w \<times> 'p, fault, RemoteObject option) M" where
  "GetReturnValue J f =
     bindM (stack_properties J f) (\<lambda>stackProperties.
     bindM (TryGetProperty J stackProperties ''returnValue'') (\<lambda>returnObj.
       case returnObj of
         Some v \<Rightarrow> bindM (WrapObject J v) (\<lambda>wrapped. retM (Some wrapped))
       | None \<Rightarrow> retM None))"

definition GetThis :: "'w JSRT \<Rightarrow> DebuggerCallFrame \<Rightarrow> ('w \<times> 'p, fault, RemoteObject) M" where
  "GetThis J f =
     bindM (stack_properties J f) (\<lambda>stackProperties.
     bindM (TryGetProperty J stackProperties ''thisObject'') (\<lambda>thisObject.
       case thisObject of Some v \<Rightarrow> WrapObject J v | None \<Rightarrow> retM GetUndefinedObject))"

definition scope_object :: "string \<Rightarrow> string16 \<Rightarrow> RemoteObject" where
  "scope_object name objectId =
     RemoteObject.make (lit ''object'') None (Some (lit name)) None None (Some (lit name))
       (Some objectId) None None"

definition GetLocalScope :: "DebuggerCallFrame \<Rightarrow> Scope" where
  "GetLocalScope f =
     Scope.make (lit ''local'') (scope_object ''Object'' (GetObjectIdForFrameProp f ''locals''))
       None None None"

definition GetClosureScope :: "'w JSRT \<Rightarrow> JsValueRef \<Rightarrow> ('w \<times> 'p, fault, Scope) M" where
  "GetClosureScope J scopeObj =
     bindM (GetPropertyInt J scopeObj ''handle'') (\<lambda>handle.
       retM (Scope.make (lit ''closure'') (scope_object ''Object'' (GetObjectId handle)) None None None))"

definition GetGlobalScope :: "DebuggerCallFrame \<Rightarrow> Scope" where
  "GetGlobalScope f =
     Scope.make (lit ''global'') (scope_object ''global'' (GetObjectIdForFrameProp f ''globals''))
       None None None"

definition GetScopeChain :: "'w JSRT \<Rightarrow> DebuggerCallFrame \<Rightarrow> ('w \<times> 'p, fault, Scope list) M" where
  "GetScopeChain J f =
     bindM (stack_properties J f) (\<lambda>stackProperties.
     bindM (HasProperty J stackProperties ''locals'') (\<lambda>hasLocals.
     bindM (TryGetProperty J stackProperties ''scopes'') (\<lambda>scopes.
     bindM (case scopes of Some array \<Rightarrow> for_items J array (GetClosureScope J) | None \<Rightarrow> retM [])
       (\<lambda>closures.
     bindM (HasProperty J stackProperties ''globals'') (\<lambda>hasGlobals.
       retM ((if hasLocals then [GetLocalScope f] else []) @ closures @
               (if hasGlobals then [GetGlobalScope f] else [])))))))"

definition ToProtocolValue :: "'w JSRT \<Rightarrow> DebuggerCallFrame \<Rightarrow> ('w \<times> 'p, fault, CallFrame) M" where
  "ToProtocolValue J f =
     bindM (GetFunctionLocation J f) (\<lambda>functionLocation.
     bindM (GetFunctionName J f) (\<lambda>functionName.
     bindM (GetLocation J f) (\<lambda>loc.
     bindM (GetReturnValue J f) (\<lambda>returnValue.
     bindM (GetScopeChain J f) (\<lambda>scopeChain.
     bindM (GetThis J f) (\<lambda>this_value.
       retM (CallFrame.make (GetCallFrameId f) functionName (Some functionLocation) loc scopeChain
               this_value returnValue)))))))"

subsection \<open>\<open>DebuggerBreak\<close>\<close>

definition GetReason :: "'w JSRT \<Rightarrow> JsValueRef \<Rightarrow> ('w \<times> 'p, fault, string16) M" where
  "GetReason J breakInfo =
     bindM (TryGetProperty J breakInfo ''exception'') (\<lambda>exception.
       retM (lit (if exception \<noteq> None then ''exception'' else ''other'')))"

definition GetException :: "'w JSRT \<Rightarrow> JsValueRef \<Rightarrow> ('w \<times> 'p, fault, RemoteObject option) M" where
  "GetException J breakInfo =
     bindM (TryGetProperty J breakInfo ''exception'') (\<lambda>exceptionProperty.
       case exceptionProperty of
         Some v \<Rightarrow> bindM (WrapException J v) (\<lambda>wrapped. retM (Some wrapped))
       | None \<Rightarrow> retM None)"

text \<open>\<open>exception->toValue()\<close> is a dictionary; \<open>uncaught\<close> is added to it.\<close>

definition GetData :: "'w JSRT \<Rightarrow> JsValueRef \<Rightarrow> ('w \<times> 'p, fault, dict option) M" where
  "GetData J breakInfo =
     bindM (GetException J breakInfo) (\<lambda>exception.
       case exception of
         None \<Rightarrow> retM None
       | Some e \<Rightarrow>
           bindM (TryGetPropertyBool J breakInfo ''uncaught'') (\<lambda>uncaught.
             retM (map_option
               (setBoolean (lit ''uncaught'') (case uncaught of Some b \<Rightarrow> b | None \<Rightarrow> False))
               (DictionaryValue_cast (Some (RemoteObject_toValue e))))))"

definition GetHitBreakpoint :: "'w JSRT \<Rightarrow> JsValueRef \<Rightarrow> ('w \<times> 'p, fault, cint) M" where
  "GetHitBreakpoint J breakInfo =
     bindM (TryGetPropertyInt J breakInfo ''breakpointId'') (\<lambda>breakpointId.
       retM (case breakpointId of Some i \<Rightarrow> i | None \<Rightarrow> - 1))"

definition GetHitBreakpoints :: "'w JSRT \<Rightarrow> JsValueRef \<Rightarrow> ('w \<times> 'p, fault, string16 list option) M" where
  "GetHitBreakpoints J breakInfo =
     bindM (GetHitBreakpoint J breakInfo) (\<lambda>breakpointId.
       retM (Some (if 0 \<le> sint breakpointId then [fromInteger breakpointId] else [])))"

definition GetAsyncStackTrace :: "StackTrace option" where
  "GetAsyncStackTrace = None"

subsection \<open>Engine operations\<close>

lemma engine_objects [engine_intros]:
  "engine_op (DebuggerObject_new J v)" "engine_op (DebuggerCallFrame_new J v)"
  "engine_op (GetPropertyDescriptors J d)" "engine_op (GetInternalPropertyDescriptors J d)"
  "engine_op (LocalScope_items J v n)" "engine_op (stack_properties J f)"
  "engine_op (function_object J f)"
  unfolding DebuggerObject_new_def DebuggerCallFrame_new_def GetPropertyDescriptors_def
    GetInternalPropertyDescriptors_def wrap_diag_properties_def LocalScope_items_def
    stack_properties_def function_object_def
  by (intro engine_intros)+

lemma engine_frames [engine_intros]:
  "engine_op (LocalScope_GetPropertyDescriptors J d)" "engine_op (GetLocals J f)"
  "engine_op (GetGlobals J f)" "engine_op (Evaluate J f t b)" "engine_op (GetFunctionLocation J f)"
  "engine_op (GetFunctionName J f)" "engine_op (GetLocation J f)" "engine_op (GetReturnValue J f)"
  "engine_op (GetThis J f)" "engine_op (GetClosureScope J v)"
  unfolding LocalScope_GetPropertyDescriptors_def GetLocals_def GetGlobals_def Evaluate_def
    GetFunctionLocation_def GetFunctionName_def GetLocation_def GetReturnValue_def GetThis_def
    GetClosureScope_def
  by (intro engine_intros)+

lemma engine_scope_chain [engine_intros]: "engine_op (GetScopeChain J f)"
  unfolding GetScopeChain_def by (intro engine_intros)

lemma engine_ToProtocolValue [engine_intros]: "engine_op (ToProtocolValue J f)"
  unfolding ToProtocolValue_def by (intro engine_intros)

lemma engine_breaks [engine_intros]:
  "engine_op (GetReason J v)" "engine_op (GetException J v)" "engine_op (GetHitBreakpoint J v)"
  unfolding GetReason_def GetException_def GetHitBreakpoint_def by (intro engine_intros)+

lemma engine_break_data [engine_intros]: "engine_op (GetData J v)" "engine_op (GetHitBreakpoints J v)"
  unfolding GetData_def GetHitBreakpoints_def by (intro engine_intros)+

text \<open>The identifiers of frames are JSON text too.\<close>

definition frame_object :: "DebuggerCallFrame \<Rightarrow> string \<Rightarrow> dict" where
  "frame_object f propName =
     setString (lit ''name'') (lit propName) (handle_object ''ordinal'' (m_callFrameIndex f))"

lemma GetCallFrameId_json:
  "GetCallFrameId f = json_text (Dict (handle_object ''ordinal'' (m_callFrameIndex f)))"
  by (simp add: handle_object_json plain_char_def GetCallFrameId_def str_defs lit_Cons)

lemma GetObjectIdForFrameProp_json:
  "list_all plain_char propName \<Longrightarrow>
     GetObjectIdForFrameProp f propName = json_text (Dict (frame_object f propName))"
  by (simp add: frame_object_def GetObjectIdForFrameProp_def str_defs setString_def dict_set_def
      handle_object_def setInteger_def dict_create_def Dict_def quoted_lit plain_char_def)
    (simp add: lit_Cons lit_append uc_widen ascii_def)

lemma frame_object_facts:
  "wf_val (Dict (frame_object f propName))" "plain_val (Dict (frame_object f propName))"
  "nesting (Dict (frame_object f propName)) = 1"
  "getInteger (frame_object f propName) (lit ''ordinal'') = Some (m_callFrameIndex f)"
  "getString (frame_object f propName) (lit ''name'') = Some (lit propName)"
  "getInteger (frame_object f propName) (lit ''handle'') = None"
  by (simp_all add: frame_object_def handle_object_def set_defs wf_intros getInteger_def getString_def)
    (simp_all add: Dict_def dict_set_def dict_create_def)

end
