(* ===== verification/Dispatcher.thy ===== *)
theory Dispatcher
  imports DebuggerTypes ErrorHelpers
begin

section \<open>Responses and the command dispatcher\<close>

text \<open>
  \<open>DispatchResponse\<close>, \<open>ProtocolError\<close>, \<open>InternalResponse\<close>, \<open>InternalRawNotification\<close>, the parts of
  \<open>DispatcherBase\<close> the handlers use and \<open>UberDispatcher\<close>, from \<open>Generated/protocol/Protocol.h/.cpp\<close>.
  Everything is stated over an arbitrary state \<open>'s\<close>: the channel and the domain dispatchers are
  virtual in the code and records of functions here.
\<close>

subsection \<open>Responses\<close>

datatype Status = kSuccess | kError | kFallThrough | kAsync

datatype ErrorCode =
  kParseError | kInvalidRequest | kMethodNotFound | kInvalidParams | kInternalError | kServerError

fun ErrorCode_value :: "ErrorCode \<Rightarrow> cint" where
  "ErrorCode_value kParseError = - 32700"
| "ErrorCode_value kInvalidRequest = - 32600"
| "ErrorCode_value kMethodNotFound = - 32601"
| "ErrorCode_value kInvalidParams = - 32602"
| "ErrorCode_value kInternalError = - 32603"
| "ErrorCode_value kServerError = - 32000"

record DispatchResponse =
  m_status :: Status
  m_errorMessage :: string16
  m_errorCode :: ErrorCode

definition Response_OK :: DispatchResponse where
  "Response_OK = DispatchResponse.make kSuccess [] kParseError"

definition Response_Error :: "string16 \<Rightarrow> DispatchResponse" where
  "Response_Error err = DispatchResponse.make kError err kServerError"

definition Response_InternalError :: DispatchResponse where
  "Response_InternalError = DispatchResponse.make kError (lit ''Internal error'') kInternalError"

definition Response_InvalidParams :: "string16 \<Rightarrow> DispatchResponse" where
  "Response_InvalidParams err = DispatchResponse.make kError err kInvalidParams"

definition Response_FallThrough :: DispatchResponse where
  "Response_FallThrough = DispatchResponse.make kFallThrough [] kParseError"

lemmas response_defs = Response_OK_def Response_Error_def Response_InternalError_def
  Response_InvalidParams_def Response_FallThrough_def DispatchResponse.make_def

subsection \<open>Messages to the frontend\<close>

text \<open>
  \<open>Serializable\<close>: an error (code, message, data, and the call id unless it is a notification), a response or notification around
  \<open>params\<close> (whose own \<open>serialize\<close> is \<open>toValue()->serialize()\<close>), or raw text.
\<close>

datatype Serializable =
    ProtocolError ErrorCode string16 string16 "cint option"
  | InternalResponse cint string16 "val option"
  | InternalRawNotification string16

definition createErrorResponse :: "cint \<Rightarrow> ErrorCode \<Rightarrow> string16 \<Rightarrow> ErrorSupport option \<Rightarrow> Serializable" where
  "createErrorResponse callId code errorMessage errs =
     ProtocolError code errorMessage
       (case errs of Some e \<Rightarrow> if hasErrors e then errors e else [] | None \<Rightarrow> []) (Some callId)"

definition createErrorNotification :: "ErrorCode \<Rightarrow> string16 \<Rightarrow> Serializable" where
  "createErrorNotification code errorMessage = ProtocolError code errorMessage [] None"

definition createResponse :: "cint \<Rightarrow> val option \<Rightarrow> Serializable" where
  "createResponse callId params = InternalResponse callId [] params"

definition createNotification :: "string16 \<Rightarrow> val option \<Rightarrow> Serializable" where
  "createNotification notification params = InternalResponse 0 notification params"

fun serialize_message :: "Serializable \<Rightarrow> string16 option" where
  "serialize_message (ProtocolError c msg dat callId) =
     (let e = setString (lit ''message'') msg
                (setInteger (lit ''code'') (ErrorCode_value c) dict_create);
          error = (if length dat \<noteq> 0 then setString (lit ''data'') dat e else e);
          message = setObject (lit ''error'') error dict_create
      in serialize (Dict (case callId of
                            Some i \<Rightarrow> setInteger (lit ''id'') i message
                          | None \<Rightarrow> message)))"
| "serialize_message (InternalResponse callId notification params) =
     (case serialize (case params of Some p \<Rightarrow> p | None \<Rightarrow> Dict dict_create) of
        None \<Rightarrow> None
      | Some text \<Rightarrow>
          serialize (Dict
            (if length notification \<noteq> 0 then
               setValue (lit ''params'') (SerializedValue text)
                 (setString (lit ''method'') notification dict_create)
             else
               setValue (lit ''result'') (SerializedValue text)
                 (setInteger (lit ''id'') callId dict_create))))"
| "serialize_message (InternalRawNotification notification) = Some notification"

text \<open>A message over well-formed parameters always has a text.\<close>

definition wf_message :: "Serializable \<Rightarrow> bool" where
  "wf_message m = (case m of InternalResponse _ _ (Some p) \<Rightarrow> wf_val p | _ \<Rightarrow> True)"

lemma serialize_wf: "wf_val v \<Longrightarrow> serialize v = Some (json_text v)"
  by (simp add: serialize_def writeJSON_text)

lemma serialize_message_total: "wf_message m \<Longrightarrow> serialize_message m \<noteq> None"
  by (cases m) (auto simp: wf_message_def serialize_wf set_defs wf_intros Let_def
      split: option.splits)

subsection \<open>The channel and the dispatcher base\<close>

record 's FrontendChannel =
  sendProtocolResponse :: "cint \<Rightarrow> Serializable \<Rightarrow> ('s, fault, unit) M"
  sendProtocolNotification :: "Serializable \<Rightarrow> ('s, fault, unit) M"
  flushProtocolNotifications :: "('s, fault, unit) M"

text \<open>
  The state of a dispatcher that its callbacks change; \<open>m_disposed\<close> holds the callbacks that have
  dropped their \<open>m_backendImpl\<close>.
\<close>

record CallbackState =
  m_lastCallbackId :: cint
  m_lastCallbackFallThrough :: bool
  m_disposed :: "cint list"

definition CallbackState_init :: CallbackState where
  "CallbackState_init = CallbackState.make 0 False []"

text \<open>
  A dispatcher that lives in a state \<open>'s\<close>.  The pointer to the channel may be null.  \<open>weak_get\<close> is what
  a \<open>WeakPtr\<close> to it tells: whether the dispatcher still exists in that state.
\<close>

record 's DispatcherBase =
  m_frontendChannel :: "'s FrontendChannel option"
  m_fallThroughForNotFound :: bool
  weak_get :: "'s \<Rightarrow> bool"
  callback_state :: "'s \<Rightarrow> CallbackState"
  update_callback_state :: "(CallbackState \<Rightarrow> CallbackState) \<Rightarrow> 's \<Rightarrow> 's"

definition reportProtocolErrorTo ::
  "'s FrontendChannel option \<Rightarrow> cint \<Rightarrow> ErrorCode \<Rightarrow> string16 \<Rightarrow> ErrorSupport option \<Rightarrow>
     ('s, fault, unit) M" where
  "reportProtocolErrorTo channel callId code errorMessage errs =
     (case channel of
        None \<Rightarrow> retM ()
      | Some c \<Rightarrow> sendProtocolResponse c callId (createErrorResponse callId code errorMessage errs))"

definition reportProtocolErrorNotification ::
  "'s FrontendChannel option \<Rightarrow> ErrorCode \<Rightarrow> string16 \<Rightarrow> ('s, fault, unit) M" where
  "reportProtocolErrorNotification channel code errorMessage =
     (case channel of
        None \<Rightarrow> retM ()
      | Some c \<Rightarrow> sendProtocolNotification c (createErrorNotification code errorMessage))"

definition sendResponse ::
  "'s FrontendChannel option \<Rightarrow> cint \<Rightarrow> DispatchResponse \<Rightarrow> val option \<Rightarrow> ('s, fault, unit) M" where
  "sendResponse channel callId response result =
     (case channel of
        None \<Rightarrow> retM ()
      | Some c \<Rightarrow>
          if m_status response = kError then
            reportProtocolErrorTo channel callId (m_errorCode response) (m_errorMessage response) None
          else sendProtocolResponse c callId (createResponse callId result))"

definition notFoundMessage :: "string16 \<Rightarrow> string16" where
  "notFoundMessage method = plus_string (plus_string (lit [CHR 0x27]) method)
     (lit ([CHR 0x27] @ '' wasn'' @ [CHR 0x27] @ ''t found''))"

text \<open>
  The end of every generated handler: nothing for a response that falls through, otherwise the
  response, if the dispatcher is still there.
\<close>

definition finish :: "'s DispatcherBase \<Rightarrow> cint \<Rightarrow> DispatchResponse \<Rightarrow> val \<Rightarrow> ('s, fault, Status) M" where
  "finish D callId response result =
     (if m_status response = kFallThrough then retM (m_status response)
      else bindM (getM (weak_get D)) (\<lambda>weak.
        seqM (if weak then sendResponse (m_frontendChannel D) callId response (Some result) else retM ())
          (retM (m_status response))))"

text \<open>
  The start of the handlers with parameters: \<open>object ? object->get(name) : nullptr\<close> for each, and an
  error response that lists what was wrong with them.
\<close>

definition kInvalidParamsString :: string where
  "kInvalidParamsString = ''Invalid parameters''"

definition param_get :: "dict \<Rightarrow> getter" where
  "param_get requestMessageObject name =
     (case DictionaryValue_cast (dict_get requestMessageObject (lit ''params'')) of
        None \<Rightarrow> None
      | Some object \<Rightarrow> dict_get object name)"

definition read_params :: "(getter \<Rightarrow> 'p reader) \<Rightarrow> dict \<Rightarrow> 'p \<times> ErrorSupport" where
  "read_params body requestMessageObject =
     run_state (do {
       update push;
       p \<leftarrow> body (param_get requestMessageObject);
       update pop;
       ret p
     }) no_errors"

definition with_params ::
  "'s DispatcherBase \<Rightarrow> cint \<Rightarrow> dict \<Rightarrow> (getter \<Rightarrow> 'p reader) \<Rightarrow> ('p \<Rightarrow> ('s, fault, Status) M) \<Rightarrow>
     ('s, fault, Status) M" where
  "with_params D callId requestMessageObject body call =
     (case read_params body requestMessageObject of
        (p, errs) \<Rightarrow>
          if hasErrors errs then
            seqM (reportProtocolErrorTo (m_frontendChannel D) callId kInvalidParams
                (lit kInvalidParamsString) (Some errs))
              (retM kError)
          else call p)"

text \<open>
  The callback a handler that answers later gives to the backend (\<open>EvaluateCallbackImpl\<close> and its
  three siblings over \<open>DispatcherBase::Callback\<close>): it answers once, and only while the dispatcher
  exists.
\<close>

definition nextCallbackId :: "'s DispatcherBase \<Rightarrow> ('s, fault, cint) M" where
  "nextCallbackId D =
     seqM (modifyM (update_callback_state D
         (\<lambda>c. c\<lparr>m_lastCallbackFallThrough := False, m_lastCallbackId := m_lastCallbackId c + 1\<rparr>)))
       (getM (\<lambda>s. m_lastCallbackId (callback_state D s)))"

definition callback_active :: "'s DispatcherBase \<Rightarrow> cint \<Rightarrow> 's \<Rightarrow> bool" where
  "callback_active D callbackId s \<longleftrightarrow>
     callbackId \<notin> set (m_disposed (callback_state D s)) \<and> weak_get D s"

definition dispose_callback :: "'s DispatcherBase \<Rightarrow> cint \<Rightarrow> ('s, fault, unit) M" where
  "dispose_callback D callbackId =
     modifyM (update_callback_state D (\<lambda>c. c\<lparr>m_disposed := callbackId # m_disposed c\<rparr>))"

definition sendIfActive ::
  "'s DispatcherBase \<Rightarrow> cint \<Rightarrow> cint \<Rightarrow> val option \<Rightarrow> DispatchResponse \<Rightarrow> ('s, fault, unit) M" where
  "sendIfActive D callId callbackId partialMessage response =
     bindM (getM (callback_active D callbackId)) (\<lambda>active.
       if \<not> active then retM ()
       else seqM (sendResponse (m_frontendChannel D) callId response partialMessage)
              (dispose_callback D callbackId))"

definition fallThroughIfActive :: "'s DispatcherBase \<Rightarrow> cint \<Rightarrow> ('s, fault, unit) M" where
  "fallThroughIfActive D callbackId =
     bindM (getM (callback_active D callbackId)) (\<lambda>active.
       if \<not> active then retM ()
       else seqM (modifyM (update_callback_state D (\<lambda>c. c\<lparr>m_lastCallbackFallThrough := True\<rparr>)))
              (dispose_callback D callbackId))"

record 's Callback =
  cb_sendSuccess :: "RemoteObject option \<Rightarrow> ExceptionDetails option \<Rightarrow> ('s, fault, unit) M"
  cb_sendFailure :: "DispatchResponse \<Rightarrow> ('s, fault, unit) M"
  cb_fallThrough :: "('s, fault, unit) M"

text \<open>A required out parameter held by pointer is dereferenced when the response is a success.\<close>

definition deref :: "'a option \<Rightarrow> ('s, fault, 'a) M" where
  "deref pointer =
     (case pointer of Some x \<Rightarrow> retM x | None \<Rightarrow> throwM (Undefined NullDereference))"

definition CallbackImpl :: "'s DispatcherBase \<Rightarrow> cint \<Rightarrow> cint \<Rightarrow> 's Callback" where
  "CallbackImpl D callId callbackId =
     Callback.make
       (\<lambda>result exceptionDetails.
          bindM (deref result) (\<lambda>result.
            sendIfActive D callId callbackId
              (Some (build_object
                 [setField RemoteObject_toValue ''result'' result,
                  setMaybe ExceptionDetails_toValue ''exceptionDetails'' exceptionDetails]))
              Response_OK))
       (sendIfActive D callId callbackId None)
       (fallThroughIfActive D callbackId)"

text \<open>The end of the handlers that give the backend a callback.\<close>

definition finish_async ::
  "'s DispatcherBase \<Rightarrow> cint \<Rightarrow> ('s Callback \<Rightarrow> ('s, fault, unit) M) \<Rightarrow> ('s, fault, Status) M" where
  "finish_async D callId call =
     bindM (nextCallbackId D) (\<lambda>callbackId.
       seqM (call (CallbackImpl D callId callbackId))
         (getM (\<lambda>s. if weak_get D s \<and> m_lastCallbackFallThrough (callback_state D s)
                     then kFallThrough else kAsync)))"

text \<open>
  \<open>DispatcherImpl::dispatch\<close> of every domain: find the method in \<open>m_dispatchMap\<close>, call it with a fresh
  \<open>ErrorSupport\<close>.
\<close>

type_synonym 's CallHandler = "cint \<Rightarrow> dict \<Rightarrow> ('s, fault, Status) M"

definition domain_dispatch ::
  "'s DispatcherBase \<Rightarrow> (string16 \<times> 's CallHandler) list \<Rightarrow> cint \<Rightarrow> string16 \<Rightarrow> dict \<Rightarrow>
     ('s, fault, Status) M" where
  "domain_dispatch D m_dispatchMap callId method messageObject =
     (case map_of m_dispatchMap method of
        None \<Rightarrow>
          if m_fallThroughForNotFound D then retM kFallThrough
          else seqM (reportProtocolErrorTo (m_frontendChannel D) callId kMethodNotFound
                   (notFoundMessage method) None)
                 (retM kError)
      | Some handler \<Rightarrow> handler callId messageObject)"

subsection \<open>\<open>UberDispatcher\<close>\<close>

record 'd UberDispatcher =
  u_fallThroughForNotFound :: bool
  m_redirects :: "(string16 \<times> string16) list"
  m_dispatchers :: "(string16 \<times> 'd) list"

definition UberDispatcher_init :: "'d UberDispatcher" where
  "UberDispatcher_init = UberDispatcher.make False [] []"

definition setFallThroughForNotFound :: "bool \<Rightarrow> 'd UberDispatcher \<Rightarrow> 'd UberDispatcher" where
  "setFallThroughForNotFound b u = u\<lparr>u_fallThroughForNotFound := b\<rparr>"

definition registerBackend :: "string16 \<Rightarrow> 'd \<Rightarrow> 'd UberDispatcher \<Rightarrow> 'd UberDispatcher" where
  "registerBackend name dispatcher u =
     u\<lparr>m_dispatchers := AList.update name dispatcher (m_dispatchers u)\<rparr>"

definition setupRedirects :: "(string16 \<times> string16) list \<Rightarrow> 'd UberDispatcher \<Rightarrow> 'd UberDispatcher" where
  "setupRedirects redirects u =
     u\<lparr>m_redirects := fold (\<lambda>(k, v). AList.update k v) redirects (m_redirects u)\<rparr>"

text \<open>
  \<open>dispatch\<close> with the domain dispatchers' virtual \<open>dispatch\<close> as \<open>call\<close>; the optional out parameters
  are null in every call of the program.
\<close>

definition uber_dispatch ::
  "'s FrontendChannel option \<Rightarrow> ('d \<Rightarrow> cint \<Rightarrow> string16 \<Rightarrow> dict \<Rightarrow> ('s, fault, Status) M) \<Rightarrow>
     'd UberDispatcher \<Rightarrow> val option \<Rightarrow> ('s, fault, Status) M" where
  "uber_dispatch channel call u parsedMessage =
     (case parsedMessage of
        None \<Rightarrow>
          seqM (reportProtocolErrorNotification channel kParseError
              (lit ''Message must be a valid JSON'')) (retM kError)
      | Some v \<Rightarrow>
     (case DictionaryValue_cast (Some v) of
        None \<Rightarrow>
          seqM (reportProtocolErrorNotification channel kInvalidRequest
              (lit ''Message must be an object'')) (retM kError)
      | Some messageObject \<Rightarrow>
     (case Option.bind (dict_get messageObject (lit ''id'')) asInteger of
        None \<Rightarrow>
          seqM (reportProtocolErrorNotification channel kInvalidRequest
              (lit (''Message must have integer '' @ [CHR 0x27] @ ''id'' @ [CHR 0x27] @ '' property'')))
            (retM kError)
      | Some callId \<Rightarrow>
     (case Option.bind (dict_get messageObject (lit ''method'')) asString of
        None \<Rightarrow>
          seqM (reportProtocolErrorTo channel callId kInvalidRequest
              (lit (''Message must have string '' @ [CHR 0x27] @ ''method'' @ [CHR 0x27] @ '' property''))
              None)
            (retM kError)
      | Some name \<Rightarrow>
          (let method = (case map_of (m_redirects u) name of Some redirect \<Rightarrow> redirect | None \<Rightarrow> name);
               not_found =
                 (if u_fallThroughForNotFound u then retM kFallThrough
                  else seqM (reportProtocolErrorTo channel callId kMethodNotFound
                           (notFoundMessage method) None)
                         (retM kError))
           in case find_string method (lit ''.'') of
                None \<Rightarrow> not_found
              | Some dotIndex \<Rightarrow>
                  (case map_of (m_dispatchers u) (take dotIndex method) of
                     None \<Rightarrow> not_found
                   | Some it \<Rightarrow> call it callId method messageObject))))))"

end
