(* ===== verification/DomainDispatchers.thy ===== *)
theory DomainDispatchers
  imports Dispatcher
begin

section \<open>The dispatchers of the domains\<close>

text \<open>
  \<open>Backend\<close> and \<open>DispatcherImpl\<close> of \<open>Generated/protocol/Debugger.h/.cpp\<close>, \<open>Runtime.h/.cpp\<close>,
  \<open>Console.h/.cpp\<close> and \<open>Schema.h/.cpp\<close>: each handler reads its parameters, calls the backend's virtual method and sends the
  response.  A parameter or an out parameter held by pointer is an option (\<open>None\<close> is null); the out
  parameters are returned beside the response.
\<close>

subsection \<open>Debugger\<close>

record 's DebuggerBackend =
  be_Debugger_enable :: "('s, fault, DispatchResponse) M"
  be_Debugger_disable :: "('s, fault, DispatchResponse) M"
  be_Debugger_setBreakpointsActive :: "bool \<Rightarrow> ('s, fault, DispatchResponse) M"
  be_Debugger_setSkipAllPauses :: "bool \<Rightarrow> ('s, fault, DispatchResponse) M"
  be_Debugger_setBreakpointByUrl :: "cint \<Rightarrow> string16 option \<Rightarrow> string16 option \<Rightarrow>
    cint option \<Rightarrow> string16 option \<Rightarrow> ('s, fault, DispatchResponse \<times> string16 \<times>
    (Location list option)) M"
  be_Debugger_setBreakpoint :: "Location option \<Rightarrow> string16 option \<Rightarrow>
    ('s, fault, DispatchResponse \<times> string16 \<times> (Location option)) M"
  be_Debugger_removeBreakpoint :: "string16 \<Rightarrow> ('s, fault, DispatchResponse) M"
  be_Debugger_continueToLocation :: "Location option \<Rightarrow> ('s, fault, DispatchResponse) M"
  be_Debugger_stepOver :: "('s, fault, DispatchResponse) M"
  be_Debugger_stepInto :: "('s, fault, DispatchResponse) M"
  be_Debugger_stepOut :: "('s, fault, DispatchResponse) M"
  be_Debugger_pause :: "('s, fault, DispatchResponse) M"
  be_Debugger_resume :: "('s, fault, DispatchResponse) M"
  be_Debugger_searchInContent :: "string16 \<Rightarrow> string16 \<Rightarrow> bool option \<Rightarrow> bool option \<Rightarrow>
    ('s, fault, DispatchResponse \<times> (SearchMatch list option)) M"
  be_Debugger_setScriptSource :: "string16 \<Rightarrow> string16 \<Rightarrow> bool option \<Rightarrow>
    ('s, fault, DispatchResponse \<times> (CallFrame list option) \<times> (bool option) \<times>
    (StackTrace option) \<times> (ExceptionDetails option)) M"
  be_Debugger_restartFrame :: "string16 \<Rightarrow> ('s, fault, DispatchResponse \<times>
    (CallFrame list option) \<times> (StackTrace option)) M"
  be_Debugger_getScriptSource :: "string16 \<Rightarrow> ('s, fault, DispatchResponse \<times> string16) M"
  be_Debugger_setPauseOnExceptions :: "string16 \<Rightarrow> ('s, fault, DispatchResponse) M"
  be_Debugger_evaluateOnCallFrame :: "string16 \<Rightarrow> string16 \<Rightarrow> string16 option \<Rightarrow> bool option \<Rightarrow>
    bool option \<Rightarrow> bool option \<Rightarrow> bool option \<Rightarrow> ('s, fault, DispatchResponse \<times>
    (RemoteObject option) \<times> (ExceptionDetails option)) M"
  be_Debugger_setVariableValue :: "cint \<Rightarrow> string16 \<Rightarrow> CallArgument option \<Rightarrow> string16 \<Rightarrow>
    ('s, fault, DispatchResponse) M"
  be_Debugger_setAsyncCallStackDepth :: "cint \<Rightarrow> ('s, fault, DispatchResponse) M"
  be_Debugger_setBlackboxPatterns :: "string16 list option \<Rightarrow>
    ('s, fault, DispatchResponse) M"
  be_Debugger_setBlackboxedRanges :: "string16 \<Rightarrow> ScriptPosition list option \<Rightarrow>
    ('s, fault, DispatchResponse) M"

definition Debugger_enable :: "'s DispatcherBase \<Rightarrow> 's DebuggerBackend \<Rightarrow> 's CallHandler" where
  "Debugger_enable D B callId requestMessageObject =
     bindM (be_Debugger_enable B) (\<lambda>response.
       finish D callId response (build_object []))"

definition Debugger_disable :: "'s DispatcherBase \<Rightarrow> 's DebuggerBackend \<Rightarrow> 's CallHandler" where
  "Debugger_disable D B callId requestMessageObject =
     bindM (be_Debugger_disable B) (\<lambda>response.
       finish D callId response (build_object []))"

definition Debugger_setBreakpointsActive :: "'s DispatcherBase \<Rightarrow> 's DebuggerBackend \<Rightarrow> 's CallHandler" where
  "Debugger_setBreakpointsActive D B callId requestMessageObject =
     with_params D callId requestMessageObject (\<lambda>get. do {
       in_active \<leftarrow> required bool_fromValue get ''active'';
       ret in_active
     }) (\<lambda>in_active.
       bindM (be_Debugger_setBreakpointsActive B in_active) (\<lambda>response.
         finish D callId response (build_object [])))"

definition Debugger_setSkipAllPauses :: "'s DispatcherBase \<Rightarrow> 's DebuggerBackend \<Rightarrow> 's CallHandler" where
  "Debugger_setSkipAllPauses D B callId requestMessageObject =
     with_params D callId requestMessageObject (\<lambda>get. do {
       in_skip \<leftarrow> required bool_fromValue get ''skip'';
       ret in_skip
     }) (\<lambda>in_skip.
       bindM (be_Debugger_setSkipAllPauses B in_skip) (\<lambda>response.
         finish D callId response (build_object [])))"

definition Debugger_setBreakpointByUrl :: "'s DispatcherBase \<Rightarrow> 's DebuggerBackend \<Rightarrow> 's CallHandler" where
  "Debugger_setBreakpointByUrl D B callId requestMessageObject =
     with_params D callId requestMessageObject (\<lambda>get. do {
       in_lineNumber \<leftarrow> required int_fromValue get ''lineNumber'';
       in_url \<leftarrow> maybe_field String_fromValue get ''url'';
       in_urlRegex \<leftarrow> maybe_field String_fromValue get ''urlRegex'';
       in_columnNumber \<leftarrow> maybe_field int_fromValue get ''columnNumber'';
       in_condition \<leftarrow> maybe_field String_fromValue get ''condition'';
       ret (in_lineNumber, in_url, in_urlRegex, in_columnNumber, in_condition)
     }) (\<lambda>(in_lineNumber, in_url, in_urlRegex, in_columnNumber, in_condition).
       bindM (be_Debugger_setBreakpointByUrl B in_lineNumber in_url in_urlRegex in_columnNumber in_condition)
         (\<lambda>(response, out_breakpointId, out_locations).
           bindM (if m_status response \<noteq> kSuccess then retM (build_object [])
             else bindM (deref out_locations) (\<lambda>out_locations.
               retM (build_object
                 [setField StringValue ''breakpointId'' out_breakpointId,
                  setField (Array_toValue Location_toValue) ''locations'' out_locations])))
           (finish D callId response)))"

definition Debugger_setBreakpoint :: "'s DispatcherBase \<Rightarrow> 's DebuggerBackend \<Rightarrow> 's CallHandler" where
  "Debugger_setBreakpoint D B callId requestMessageObject =
     with_params D callId requestMessageObject (\<lambda>get. do {
       in_location \<leftarrow> required Location_fromValue get ''location'';
       in_condition \<leftarrow> maybe_field String_fromValue get ''condition'';
       ret (in_location, in_condition)
     }) (\<lambda>(in_location, in_condition).
       bindM (be_Debugger_setBreakpoint B in_location in_condition)
         (\<lambda>(response, out_breakpointId, out_actualLocation).
           bindM (if m_status response \<noteq> kSuccess then retM (build_object [])
             else bindM (deref out_actualLocation) (\<lambda>out_actualLocation.
               retM (build_object
                 [setField StringValue ''breakpointId'' out_breakpointId,
                  setField Location_toValue ''actualLocation'' out_actualLocation])))
           (finish D callId response)))"

definition Debugger_removeBreakpoint :: "'s DispatcherBase \<Rightarrow> 's DebuggerBackend \<Rightarrow> 's CallHandler" where
  "Debugger_removeBreakpoint D B callId requestMessageObject =
     with_params D callId requestMessageObject (\<lambda>get. do {
       in_breakpointId \<leftarrow> required String_fromValue get ''breakpointId'';
       ret in_breakpointId
     }) (\<lambda>in_breakpointId.
       bindM (be_Debugger_removeBreakpoint B in_breakpointId) (\<lambda>response.
         finish D callId response (build_object [])))"

definition Debugger_continueToLocation :: "'s DispatcherBase \<Rightarrow> 's DebuggerBackend \<Rightarrow> 's CallHandler" where
  "Debugger_continueToLocation D B callId requestMessageObject =
     with_params D callId requestMessageObject (\<lambda>get. do {
       in_location \<leftarrow> required Location_fromValue get ''location'';
       ret in_location
     }) (\<lambda>in_location.
       bindM (be_Debugger_continueToLocation B in_location) (\<lambda>response.
         finish D callId response (build_object [])))"

definition Debugger_stepOver :: "'s DispatcherBase \<Rightarrow> 's DebuggerBackend \<Rightarrow> 's CallHandler" where
  "Debugger_stepOver D B callId requestMessageObject =
     bindM (be_Debugger_stepOver B) (\<lambda>response.
       finish D callId response (build_object []))"

definition Debugger_stepInto :: "'s DispatcherBase \<Rightarrow> 's DebuggerBackend \<Rightarrow> 's CallHandler" where
  "Debugger_stepInto D B callId requestMessageObject =
     bindM (be_Debugger_stepInto B) (\<lambda>response.
       finish D callId response (build_object []))"

definition Debugger_stepOut :: "'s DispatcherBase \<Rightarrow> 's DebuggerBackend \<Rightarrow> 's CallHandler" where
  "Debugger_stepOut D B callId requestMessageObject =
     bindM (be_Debugger_stepOut B) (\<lambda>response.
       finish D callId response (build_object []))"

definition Debugger_pause :: "'s DispatcherBase \<Rightarrow> 's DebuggerBackend \<Rightarrow> 's CallHandler" where
  "Debugger_pause D B callId requestMessageObject =
     bindM (be_Debugger_pause B) (\<lambda>response.
       finish D callId response (build_object []))"

definition Debugger_resume :: "'s DispatcherBase \<Rightarrow> 's DebuggerBackend \<Rightarrow> 's CallHandler" where
  "Debugger_resume D B callId requestMessageObject =
     bindM (be_Debugger_resume B) (\<lambda>response.
       finish D callId response (build_object []))"

definition Debugger_searchInContent :: "'s DispatcherBase \<Rightarrow> 's DebuggerBackend \<Rightarrow> 's CallHandler" where
  "Debugger_searchInContent D B callId requestMessageObject =
     with_params D callId requestMessageObject (\<lambda>get. do {
       in_scriptId \<leftarrow> required String_fromValue get ''scriptId'';
       in_query \<leftarrow> required String_fromValue get ''query'';
       in_caseSensitive \<leftarrow> maybe_field bool_fromValue get ''caseSensitive'';
       in_isRegex \<leftarrow> maybe_field bool_fromValue get ''isRegex'';
       ret (in_scriptId, in_query, in_caseSensitive, in_isRegex)
     }) (\<lambda>(in_scriptId, in_query, in_caseSensitive, in_isRegex).
       bindM (be_Debugger_searchInContent B in_scriptId in_query in_caseSensitive in_isRegex)
         (\<lambda>(response, out_result).
           bindM (if m_status response \<noteq> kSuccess then retM (build_object [])
             else bindM (deref out_result) (\<lambda>out_result.
               retM (build_object
                 [setField (Array_toValue SearchMatch_toValue) ''result'' out_result])))
           (finish D callId response)))"

definition Debugger_setScriptSource :: "'s DispatcherBase \<Rightarrow> 's DebuggerBackend \<Rightarrow> 's CallHandler" where
  "Debugger_setScriptSource D B callId requestMessageObject =
     with_params D callId requestMessageObject (\<lambda>get. do {
       in_scriptId \<leftarrow> required String_fromValue get ''scriptId'';
       in_scriptSource \<leftarrow> required String_fromValue get ''scriptSource'';
       in_dryRun \<leftarrow> maybe_field bool_fromValue get ''dryRun'';
       ret (in_scriptId, in_scriptSource, in_dryRun)
     }) (\<lambda>(in_scriptId, in_scriptSource, in_dryRun).
       bindM (be_Debugger_setScriptSource B in_scriptId in_scriptSource in_dryRun)
         (\<lambda>(response, out_callFrames, out_stackChanged, out_asyncStackTrace, out_exceptionDetails).
         finish D callId response (if m_status response = kSuccess then build_object
             [setMaybe (Array_toValue CallFrame_toValue) ''callFrames'' out_callFrames,
              setMaybe BooleanValue ''stackChanged'' out_stackChanged,
              setMaybe StackTrace_toValue ''asyncStackTrace'' out_asyncStackTrace,
              setMaybe ExceptionDetails_toValue ''exceptionDetails'' out_exceptionDetails]
           else build_object [])))"

definition Debugger_restartFrame :: "'s DispatcherBase \<Rightarrow> 's DebuggerBackend \<Rightarrow> 's CallHandler" where
  "Debugger_restartFrame D B callId requestMessageObject =
     with_params D callId requestMessageObject (\<lambda>get. do {
       in_callFrameId \<leftarrow> required String_fromValue get ''callFrameId'';
       ret in_callFrameId
     }) (\<lambda>in_callFrameId.
       bindM (be_Debugger_restartFrame B in_callFrameId)
         (\<lambda>(response, out_callFrames, out_asyncStackTrace).
           bindM (if m_status response \<noteq> kSuccess then retM (build_object [])
             else bindM (deref out_callFrames) (\<lambda>out_callFrames.
               retM (build_object
                 [setField (Array_toValue CallFrame_toValue) ''callFrames'' out_callFrames,
                  setMaybe StackTrace_toValue ''asyncStackTrace'' out_asyncStackTrace])))
           (finish D callId response)))"

definition Debugger_getScriptSource :: "'s DispatcherBase \<Rightarrow> 's DebuggerBackend \<Rightarrow> 's CallHandler" where
  "Debugger_getScriptSource D B callId requestMessageObject =
     with_params D callId requestMessageObject (\<lambda>get. do {
       in_scriptId \<leftarrow> required String_fromValue get ''scriptId'';
       ret in_scriptId
     }) (\<lambda>in_scriptId.
       bindM (be_Debugger_getScriptSource B in_scriptId)
         (\<lambda>(response, out_scriptSource).
         finish D callId response (if m_status response = kSuccess then build_object
             [setField StringValue ''scriptSource'' out_scriptSource]
           else build_object [])))"

definition Debugger_setPauseOnExceptions :: "'s DispatcherBase \<Rightarrow> 's DebuggerBackend \<Rightarrow> 's CallHandler" where
  "Debugger_setPauseOnExceptions D B callId requestMessageObject =
     with_params D callId requestMessageObject (\<lambda>get. do {
       in_state \<leftarrow> required String_fromValue get ''state'';
       ret in_state
     }) (\<lambda>in_state.
       bindM (be_Debugger_setPauseOnExceptions B in_state) (\<lambda>response.
         finish D callId response (build_object [])))"

definition Debugger_evaluateOnCallFrame :: "'s DispatcherBase \<Rightarrow> 's DebuggerBackend \<Rightarrow> 's CallHandler" where
  "Debugger_evaluateOnCallFrame D B callId requestMessageObject =
     with_params D callId requestMessageObject (\<lambda>get. do {
       in_callFrameId \<leftarrow> required String_fromValue get ''callFrameId'';
       in_expression \<leftarrow> required String_fromValue get ''expression'';
       in_objectGroup \<leftarrow> maybe_field String_fromValue get ''objectGroup'';
       in_includeCommandLineAPI \<leftarrow> maybe_field bool_fromValue get ''includeCommandLineAPI'';
       in_silent \<leftarrow> maybe_field bool_fromValue get ''silent'';
       in_returnByValue \<leftarrow> maybe_field bool_fromValue get ''returnByValue'';
       in_generatePreview \<leftarrow> maybe_field bool_fromValue get ''generatePreview'';
       ret (in_callFrameId, in_expression, in_objectGroup, in_includeCommandLineAPI, in_silent, in_returnByValue, in_generatePreview)
     }) (\<lambda>(in_callFrameId, in_expression, in_objectGroup, in_includeCommandLineAPI, in_silent, in_returnByValue, in_generatePreview).
       bindM (be_Debugger_evaluateOnCallFrame B in_callFrameId in_expression in_objectGroup in_includeCommandLineAPI in_silent in_returnByValue in_generatePreview)
         (\<lambda>(response, out_result, out_exceptionDetails).
           bindM (if m_status response \<noteq> kSuccess then retM (build_object [])
             else bindM (deref out_result) (\<lambda>out_result.
               retM (build_object
                 [setField RemoteObject_toValue ''result'' out_result,
                  setMaybe ExceptionDetails_toValue ''exceptionDetails'' out_exceptionDetails])))
           (finish D callId response)))"

definition Debugger_setVariableValue :: "'s DispatcherBase \<Rightarrow> 's DebuggerBackend \<Rightarrow> 's CallHandler" where
  "Debugger_setVariableValue D B callId requestMessageObject =
     with_params D callId requestMessageObject (\<lambda>get. do {
       in_scopeNumber \<leftarrow> required int_fromValue get ''scopeNumber'';
       in_variableName \<leftarrow> required String_fromValue get ''variableName'';
       in_newValue \<leftarrow> required CallArgument_fromValue get ''newValue'';
       in_callFrameId \<leftarrow> required String_fromValue get ''callFrameId'';
       ret (in_scopeNumber, in_variableName, in_newValue, in_callFrameId)
     }) (\<lambda>(in_scopeNumber, in_variableName, in_newValue, in_callFrameId).
       bindM (be_Debugger_setVariableValue B in_scopeNumber in_variableName in_newValue in_callFrameId) (\<lambda>response.
         finish D callId response (build_object [])))"

definition Debugger_setAsyncCallStackDepth :: "'s DispatcherBase \<Rightarrow> 's DebuggerBackend \<Rightarrow> 's CallHandler" where
  "Debugger_setAsyncCallStackDepth D B callId requestMessageObject =
     with_params D callId requestMessageObject (\<lambda>get. do {
       in_maxDepth \<leftarrow> required int_fromValue get ''maxDepth'';
       ret in_maxDepth
     }) (\<lambda>in_maxDepth.
       bindM (be_Debugger_setAsyncCallStackDepth B in_maxDepth) (\<lambda>response.
         finish D callId response (build_object [])))"

definition Debugger_setBlackboxPatterns :: "'s DispatcherBase \<Rightarrow> 's DebuggerBackend \<Rightarrow> 's CallHandler" where
  "Debugger_setBlackboxPatterns D B callId requestMessageObject =
     with_params D callId requestMessageObject (\<lambda>get. do {
       in_patterns \<leftarrow> required (ArrayBase_fromValue String_fromValue) get ''patterns'';
       ret in_patterns
     }) (\<lambda>in_patterns.
       bindM (be_Debugger_setBlackboxPatterns B in_patterns) (\<lambda>response.
         finish D callId response (build_object [])))"

definition Debugger_setBlackboxedRanges :: "'s DispatcherBase \<Rightarrow> 's DebuggerBackend \<Rightarrow> 's CallHandler" where
  "Debugger_setBlackboxedRanges D B callId requestMessageObject =
     with_params D callId requestMessageObject (\<lambda>get. do {
       in_scriptId \<leftarrow> required String_fromValue get ''scriptId'';
       in_positions \<leftarrow> required (Array_fromValue ScriptPosition_fromValue) get ''positions'';
       ret (in_scriptId, in_positions)
     }) (\<lambda>(in_scriptId, in_positions).
       bindM (be_Debugger_setBlackboxedRanges B in_scriptId in_positions) (\<lambda>response.
         finish D callId response (build_object [])))"

definition Debugger_dispatchMap ::
  "'s DispatcherBase \<Rightarrow> 's DebuggerBackend \<Rightarrow> (string16 \<times> 's CallHandler) list" where
  "Debugger_dispatchMap D B =
     [(lit ''Debugger.enable'', Debugger_enable D B),
      (lit ''Debugger.disable'', Debugger_disable D B),
      (lit ''Debugger.setBreakpointsActive'', Debugger_setBreakpointsActive D B),
      (lit ''Debugger.setSkipAllPauses'', Debugger_setSkipAllPauses D B),
      (lit ''Debugger.setBreakpointByUrl'', Debugger_setBreakpointByUrl D B),
      (lit ''Debugger.setBreakpoint'', Debugger_setBreakpoint D B),
      (lit ''Debugger.removeBreakpoint'', Debugger_removeBreakpoint D B),
      (lit ''Debugger.continueToLocation'', Debugger_continueToLocation D B),
      (lit ''Debugger.stepOver'', Debugger_stepOver D B),
      (lit ''Debugger.stepInto'', Debugger_stepInto D B),
      (lit ''Debugger.stepOut'', Debugger_stepOut D B),
      (lit ''Debugger.pause'', Debugger_pause D B),
      (lit ''Debugger.resume'', Debugger_resume D B),
      (lit ''Debugger.searchInContent'', Debugger_searchInContent D B),
      (lit ''Debugger.setScriptSource'', Debugger_setScriptSource D B),
      (lit ''Debugger.restartFrame'', Debugger_restartFrame D B),
      (lit ''Debugger.getScriptSource'', Debugger_getScriptSource D B),
      (lit ''Debugger.setPauseOnExceptions'', Debugger_setPauseOnExceptions D B),
      (lit ''Debugger.evaluateOnCallFrame'', Debugger_evaluateOnCallFrame D B),
      (lit ''Debugger.setVariableValue'', Debugger_setVariableValue D B),
      (lit ''Debugger.setAsyncCallStackDepth'', Debugger_setAsyncCallStackDepth D B),
      (lit ''Debugger.setBlackboxPatterns'', Debugger_setBlackboxPatterns D B),
      (lit ''Debugger.setBlackboxedRanges'', Debugger_setBlackboxedRanges D B)]"

subsection \<open>Runtime\<close>

record 's RuntimeBackend =
  be_Runtime_evaluate :: "string16 \<Rightarrow> string16 option \<Rightarrow> bool option \<Rightarrow> bool option \<Rightarrow>
    cint option \<Rightarrow> bool option \<Rightarrow> bool option \<Rightarrow> bool option \<Rightarrow> bool option \<Rightarrow> 's Callback \<Rightarrow>
    ('s, fault, unit) M"
  be_Runtime_awaitPromise :: "string16 \<Rightarrow> bool option \<Rightarrow> bool option \<Rightarrow> 's Callback \<Rightarrow>
    ('s, fault, unit) M"
  be_Runtime_callFunctionOn :: "string16 \<Rightarrow> string16 \<Rightarrow> CallArgument list option \<Rightarrow>
    bool option \<Rightarrow> bool option \<Rightarrow> bool option \<Rightarrow> bool option \<Rightarrow> bool option \<Rightarrow> 's Callback \<Rightarrow>
    ('s, fault, unit) M"
  be_Runtime_getProperties :: "string16 \<Rightarrow> bool option \<Rightarrow> bool option \<Rightarrow> bool option \<Rightarrow>
    ('s, fault, DispatchResponse \<times> (PropertyDescriptor list option) \<times>
    (InternalPropertyDescriptor list option) \<times> (ExceptionDetails option)) M"
  be_Runtime_releaseObject :: "string16 \<Rightarrow> ('s, fault, DispatchResponse) M"
  be_Runtime_releaseObjectGroup :: "string16 \<Rightarrow> ('s, fault, DispatchResponse) M"
  be_Runtime_runIfWaitingForDebugger :: "('s, fault, DispatchResponse) M"
  be_Runtime_enable :: "('s, fault, DispatchResponse) M"
  be_Runtime_disable :: "('s, fault, DispatchResponse) M"
  be_Runtime_discardConsoleEntries :: "('s, fault, DispatchResponse) M"
  be_Runtime_setCustomObjectFormatterEnabled :: "bool \<Rightarrow> ('s, fault, DispatchResponse) M"
  be_Runtime_compileScript :: "string16 \<Rightarrow> string16 \<Rightarrow> bool \<Rightarrow> cint option \<Rightarrow>
    ('s, fault, DispatchResponse \<times> (string16 option) \<times> (ExceptionDetails option)) M"
  be_Runtime_runScript :: "string16 \<Rightarrow> cint option \<Rightarrow> string16 option \<Rightarrow> bool option \<Rightarrow>
    bool option \<Rightarrow> bool option \<Rightarrow> bool option \<Rightarrow> bool option \<Rightarrow> 's Callback \<Rightarrow>
    ('s, fault, unit) M"

definition Runtime_evaluate :: "'s DispatcherBase \<Rightarrow> 's RuntimeBackend \<Rightarrow> 's CallHandler" where
  "Runtime_evaluate D B callId requestMessageObject =
     with_params D callId requestMessageObject (\<lambda>get. do {
       in_expression \<leftarrow> required String_fromValue get ''expression'';
       in_objectGroup \<leftarrow> maybe_field String_fromValue get ''objectGroup'';
       in_includeCommandLineAPI \<leftarrow> maybe_field bool_fromValue get ''includeCommandLineAPI'';
       in_silent \<leftarrow> maybe_field bool_fromValue get ''silent'';
       in_contextId \<leftarrow> maybe_field int_fromValue get ''contextId'';
       in_returnByValue \<leftarrow> maybe_field bool_fromValue get ''returnByValue'';
       in_generatePreview \<leftarrow> maybe_field bool_fromValue get ''generatePreview'';
       in_userGesture \<leftarrow> maybe_field bool_fromValue get ''userGesture'';
       in_awaitPromise \<leftarrow> maybe_field bool_fromValue get ''awaitPromise'';
       ret (in_expression, in_objectGroup, in_includeCommandLineAPI, in_silent, in_contextId, in_returnByValue, in_generatePreview, in_userGesture, in_awaitPromise)
     }) (\<lambda>(in_expression, in_objectGroup, in_includeCommandLineAPI, in_silent, in_contextId, in_returnByValue, in_generatePreview, in_userGesture, in_awaitPromise).
       finish_async D callId (be_Runtime_evaluate B in_expression in_objectGroup in_includeCommandLineAPI in_silent in_contextId in_returnByValue in_generatePreview in_userGesture in_awaitPromise))"

definition Runtime_awaitPromise :: "'s DispatcherBase \<Rightarrow> 's RuntimeBackend \<Rightarrow> 's CallHandler" where
  "Runtime_awaitPromise D B callId requestMessageObject =
     with_params D callId requestMessageObject (\<lambda>get. do {
       in_promiseObjectId \<leftarrow> required String_fromValue get ''promiseObjectId'';
       in_returnByValue \<leftarrow> maybe_field bool_fromValue get ''returnByValue'';
       in_generatePreview \<leftarrow> maybe_field bool_fromValue get ''generatePreview'';
       ret (in_promiseObjectId, in_returnByValue, in_generatePreview)
     }) (\<lambda>(in_promiseObjectId, in_returnByValue, in_generatePreview).
       finish_async D callId (be_Runtime_awaitPromise B in_promiseObjectId in_returnByValue in_generatePreview))"

definition Runtime_callFunctionOn :: "'s DispatcherBase \<Rightarrow> 's RuntimeBackend \<Rightarrow> 's CallHandler" where
  "Runtime_callFunctionOn D B callId requestMessageObject =
     with_params D callId requestMessageObject (\<lambda>get. do {
       in_objectId \<leftarrow> required String_fromValue get ''objectId'';
       in_functionDeclaration \<leftarrow> required String_fromValue get ''functionDeclaration'';
       in_arguments \<leftarrow> maybe_object (Array_fromValue CallArgument_fromValue) get ''arguments'';
       in_silent \<leftarrow> maybe_field bool_fromValue get ''silent'';
       in_returnByValue \<leftarrow> maybe_field bool_fromValue get ''returnByValue'';
       in_generatePreview \<leftarrow> maybe_field bool_fromValue get ''generatePreview'';
       in_userGesture \<leftarrow> maybe_field bool_fromValue get ''userGesture'';
       in_awaitPromise \<leftarrow> maybe_field bool_fromValue get ''awaitPromise'';
       ret (in_objectId, in_functionDeclaration, in_arguments, in_silent, in_returnByValue, in_generatePreview, in_userGesture, in_awaitPromise)
     }) (\<lambda>(in_objectId, in_functionDeclaration, in_arguments, in_silent, in_returnByValue, in_generatePreview, in_userGesture, in_awaitPromise).
       finish_async D callId (be_Runtime_callFunctionOn B in_objectId in_functionDeclaration in_arguments in_silent in_returnByValue in_generatePreview in_userGesture in_awaitPromise))"

definition Runtime_getProperties :: "'s DispatcherBase \<Rightarrow> 's RuntimeBackend \<Rightarrow> 's CallHandler" where
  "Runtime_getProperties D B callId requestMessageObject =
     with_params D callId requestMessageObject (\<lambda>get. do {
       in_objectId \<leftarrow> required String_fromValue get ''objectId'';
       in_ownProperties \<leftarrow> maybe_field bool_fromValue get ''ownProperties'';
       in_accessorPropertiesOnly \<leftarrow> maybe_field bool_fromValue get ''accessorPropertiesOnly'';
       in_generatePreview \<leftarrow> maybe_field bool_fromValue get ''generatePreview'';
       ret (in_objectId, in_ownProperties, in_accessorPropertiesOnly, in_generatePreview)
     }) (\<lambda>(in_objectId, in_ownProperties, in_accessorPropertiesOnly, in_generatePreview).
       bindM (be_Runtime_getProperties B in_objectId in_ownProperties in_accessorPropertiesOnly in_generatePreview)
         (\<lambda>(response, out_result, out_internalProperties, out_exceptionDetails).
           bindM (if m_status response \<noteq> kSuccess then retM (build_object [])
             else bindM (deref out_result) (\<lambda>out_result.
               retM (build_object
                 [setField (Array_toValue PropertyDescriptor_toValue) ''result'' out_result,
                  setMaybe (Array_toValue InternalPropertyDescriptor_toValue) ''internalProperties'' out_internalProperties,
                  setMaybe ExceptionDetails_toValue ''exceptionDetails'' out_exceptionDetails])))
           (finish D callId response)))"

definition Runtime_releaseObject :: "'s DispatcherBase \<Rightarrow> 's RuntimeBackend \<Rightarrow> 's CallHandler" where
  "Runtime_releaseObject D B callId requestMessageObject =
     with_params D callId requestMessageObject (\<lambda>get. do {
       in_objectId \<leftarrow> required String_fromValue get ''objectId'';
       ret in_objectId
     }) (\<lambda>in_objectId.
       bindM (be_Runtime_releaseObject B in_objectId) (\<lambda>response.
         finish D callId response (build_object [])))"

definition Runtime_releaseObjectGroup :: "'s DispatcherBase \<Rightarrow> 's RuntimeBackend \<Rightarrow> 's CallHandler" where
  "Runtime_releaseObjectGroup D B callId requestMessageObject =
     with_params D callId requestMessageObject (\<lambda>get. do {
       in_objectGroup \<leftarrow> required String_fromValue get ''objectGroup'';
       ret in_objectGroup
     }) (\<lambda>in_objectGroup.
       bindM (be_Runtime_releaseObjectGroup B in_objectGroup) (\<lambda>response.
         finish D callId response (build_object [])))"

definition Runtime_runIfWaitingForDebugger :: "'s DispatcherBase \<Rightarrow> 's RuntimeBackend \<Rightarrow> 's CallHandler" where
  "Runtime_runIfWaitingForDebugger D B callId requestMessageObject =
     bindM (be_Runtime_runIfWaitingForDebugger B) (\<lambda>response.
       finish D callId response (build_object []))"

definition Runtime_enable :: "'s DispatcherBase \<Rightarrow> 's RuntimeBackend \<Rightarrow> 's CallHandler" where
  "Runtime_enable D B callId requestMessageObject =
     bindM (be_Runtime_enable B) (\<lambda>response.
       finish D callId response (build_object []))"

definition Runtime_disable :: "'s DispatcherBase \<Rightarrow> 's RuntimeBackend \<Rightarrow> 's CallHandler" where
  "Runtime_disable D B callId requestMessageObject =
     bindM (be_Runtime_disable B) (\<lambda>response.
       finish D callId response (build_object []))"

definition Runtime_discardConsoleEntries :: "'s DispatcherBase \<Rightarrow> 's RuntimeBackend \<Rightarrow> 's CallHandler" where
  "Runtime_discardConsoleEntries D B callId requestMessageObject =
     bindM (be_Runtime_discardConsoleEntries B) (\<lambda>response.
       finish D callId response (build_object []))"

definition Runtime_setCustomObjectFormatterEnabled :: "'s DispatcherBase \<Rightarrow> 's RuntimeBackend \<Rightarrow> 's CallHandler" where
  "Runtime_setCustomObjectFormatterEnabled D B callId requestMessageObject =
     with_params D callId requestMessageObject (\<lambda>get. do {
       in_enabled \<leftarrow> required bool_fromValue get ''enabled'';
       ret in_enabled
     }) (\<lambda>in_enabled.
       bindM (be_Runtime_setCustomObjectFormatterEnabled B in_enabled) (\<lambda>response.
         finish D callId response (build_object [])))"

definition Runtime_compileScript :: "'s DispatcherBase \<Rightarrow> 's RuntimeBackend \<Rightarrow> 's CallHandler" where
  "Runtime_compileScript D B callId requestMessageObject =
     with_params D callId requestMessageObject (\<lambda>get. do {
       in_expression \<leftarrow> required String_fromValue get ''expression'';
       in_sourceURL \<leftarrow> required String_fromValue get ''sourceURL'';
       in_persistScript \<leftarrow> required bool_fromValue get ''persistScript'';
       in_executionContextId \<leftarrow> maybe_field int_fromValue get ''executionContextId'';
       ret (in_expression, in_sourceURL, in_persistScript, in_executionContextId)
     }) (\<lambda>(in_expression, in_sourceURL, in_persistScript, in_executionContextId).
       bindM (be_Runtime_compileScript B in_expression in_sourceURL in_persistScript in_executionContextId)
         (\<lambda>(response, out_scriptId, out_exceptionDetails).
         finish D callId response (if m_status response = kSuccess then build_object
             [setMaybe StringValue ''scriptId'' out_scriptId,
              setMaybe ExceptionDetails_toValue ''exceptionDetails'' out_exceptionDetails]
           else build_object [])))"

definition Runtime_runScript :: "'s DispatcherBase \<Rightarrow> 's RuntimeBackend \<Rightarrow> 's CallHandler" where
  "Runtime_runScript D B callId requestMessageObject =
     with_params D callId requestMessageObject (\<lambda>get. do {
       in_scriptId \<leftarrow> required String_fromValue get ''scriptId'';
       in_executionContextId \<leftarrow> maybe_field int_fromValue get ''executionContextId'';
       in_objectGroup \<leftarrow> maybe_field String_fromValue get ''objectGroup'';
       in_silent \<leftarrow> maybe_field bool_fromValue get ''silent'';
       in_includeCommandLineAPI \<leftarrow> maybe_field bool_fromValue get ''includeCommandLineAPI'';
       in_returnByValue \<leftarrow> maybe_field bool_fromValue get ''returnByValue'';
       in_generatePreview \<leftarrow> maybe_field bool_fromValue get ''generatePreview'';
       in_awaitPromise \<leftarrow> maybe_field bool_fromValue get ''awaitPromise'';
       ret (in_scriptId, in_executionContextId, in_objectGroup, in_silent, in_includeCommandLineAPI, in_returnByValue, in_generatePreview, in_awaitPromise)
     }) (\<lambda>(in_scriptId, in_executionContextId, in_objectGroup, in_silent, in_includeCommandLineAPI, in_returnByValue, in_generatePreview, in_awaitPromise).
       finish_async D callId (be_Runtime_runScript B in_scriptId in_executionContextId in_objectGroup in_silent in_includeCommandLineAPI in_returnByValue in_generatePreview in_awaitPromise))"

definition Runtime_dispatchMap ::
  "'s DispatcherBase \<Rightarrow> 's RuntimeBackend \<Rightarrow> (string16 \<times> 's CallHandler) list" where
  "Runtime_dispatchMap D B =
     [(lit ''Runtime.evaluate'', Runtime_evaluate D B),
      (lit ''Runtime.awaitPromise'', Runtime_awaitPromise D B),
      (lit ''Runtime.callFunctionOn'', Runtime_callFunctionOn D B),
      (lit ''Runtime.getProperties'', Runtime_getProperties D B),
      (lit ''Runtime.releaseObject'', Runtime_releaseObject D B),
      (lit ''Runtime.releaseObjectGroup'', Runtime_releaseObjectGroup D B),
      (lit ''Runtime.runIfWaitingForDebugger'', Runtime_runIfWaitingForDebugger D B),
      (lit ''Runtime.enable'', Runtime_enable D B),
      (lit ''Runtime.disable'', Runtime_disable D B),
      (lit ''Runtime.discardConsoleEntries'', Runtime_discardConsoleEntries D B),
      (lit ''Runtime.setCustomObjectFormatterEnabled'', Runtime_setCustomObjectFormatterEnabled D B),
      (lit ''Runtime.compileScript'', Runtime_compileScript D B),
      (lit ''Runtime.runScript'', Runtime_runScript D B)]"

subsection \<open>Console and Schema\<close>

record 's ConsoleBackend =
  be_Console_enable :: "('s, fault, DispatchResponse) M"
  be_Console_disable :: "('s, fault, DispatchResponse) M"
  be_Console_clearMessages :: "('s, fault, DispatchResponse) M"

definition Console_enable :: "'s DispatcherBase \<Rightarrow> 's ConsoleBackend \<Rightarrow> 's CallHandler" where
  "Console_enable D B callId requestMessageObject =
     bindM (be_Console_enable B) (\<lambda>response.
       finish D callId response (build_object []))"

definition Console_disable :: "'s DispatcherBase \<Rightarrow> 's ConsoleBackend \<Rightarrow> 's CallHandler" where
  "Console_disable D B callId requestMessageObject =
     bindM (be_Console_disable B) (\<lambda>response.
       finish D callId response (build_object []))"

definition Console_clearMessages :: "'s DispatcherBase \<Rightarrow> 's ConsoleBackend \<Rightarrow> 's CallHandler" where
  "Console_clearMessages D B callId requestMessageObject =
     bindM (be_Console_clearMessages B) (\<lambda>response.
       finish D callId response (build_object []))"

definition Console_dispatchMap ::
  "'s DispatcherBase \<Rightarrow> 's ConsoleBackend \<Rightarrow> (string16 \<times> 's CallHandler) list" where
  "Console_dispatchMap D B =
     [(lit ''Console.enable'', Console_enable D B),
      (lit ''Console.disable'', Console_disable D B),
      (lit ''Console.clearMessages'', Console_clearMessages D B)]"

record 's SchemaBackend =
  be_Schema_getDomains :: "('s, fault, DispatchResponse \<times> (Domain list option)) M"

definition Schema_getDomains :: "'s DispatcherBase \<Rightarrow> 's SchemaBackend \<Rightarrow> 's CallHandler" where
  "Schema_getDomains D B callId requestMessageObject =
     bindM (be_Schema_getDomains B)
       (\<lambda>(response, out_domains).
         bindM (if m_status response \<noteq> kSuccess then retM (build_object [])
           else bindM (deref out_domains) (\<lambda>out_domains.
             retM (build_object
               [setField (Array_toValue Domain_toValue) ''domains'' out_domains])))
         (finish D callId response))"

definition Schema_dispatchMap ::
  "'s DispatcherBase \<Rightarrow> 's SchemaBackend \<Rightarrow> (string16 \<times> 's CallHandler) list" where
  "Schema_dispatchMap D B =
     [(lit ''Schema.getDomains'', Schema_getDomains D B)]"

end
