(* ===== verification/Frontend.thy ===== *)
theory Frontend
  imports Dispatcher
begin

section \<open>Notifications to the frontend\<close>

text \<open>
  The \<open>Frontend\<close> classes of the generated domains: nothing without a channel, otherwise one
  notification around the message data.
\<close>

definition send_notification ::
  "'s FrontendChannel option \<Rightarrow> string \<Rightarrow> val option \<Rightarrow> ('s, fault, unit) M" where
  "send_notification channel name messageData =
     (case channel of
        None \<Rightarrow> retM ()
      | Some c \<Rightarrow> sendProtocolNotification c (createNotification (lit name) messageData))"

definition Debugger_scriptParsed ::
  "'s FrontendChannel option \<Rightarrow> string16 \<Rightarrow> string16 \<Rightarrow> cint
         \<Rightarrow> cint \<Rightarrow> cint \<Rightarrow> cint \<Rightarrow> cint
         \<Rightarrow> string16 \<Rightarrow> dict option \<Rightarrow> bool option
         \<Rightarrow> string16 option \<Rightarrow> bool option \<Rightarrow> ('s, fault, unit) M" where
  "Debugger_scriptParsed channel scriptId url startLine startColumn endLine endColumn
         executionContextId hashValue executionContextAuxData isLiveEdit sourceMapURL
         hasSourceURL =
     send_notification channel ''Debugger.scriptParsed''
       (Some (ScriptParsedNotification_toValue (ScriptParsedNotification.make scriptId url
         startLine startColumn endLine endColumn executionContextId hashValue
         executionContextAuxData isLiveEdit sourceMapURL hasSourceURL)))"

definition Debugger_scriptFailedToParse ::
  "'s FrontendChannel option \<Rightarrow> string16 \<Rightarrow> string16 \<Rightarrow> cint
         \<Rightarrow> cint \<Rightarrow> cint \<Rightarrow> cint \<Rightarrow> cint
         \<Rightarrow> string16 \<Rightarrow> dict option \<Rightarrow> string16 option \<Rightarrow> bool option \<Rightarrow> ('s, fault, unit) M" where
  "Debugger_scriptFailedToParse channel scriptId url startLine startColumn endLine endColumn
         executionContextId hashValue executionContextAuxData sourceMapURL hasSourceURL =
     send_notification channel ''Debugger.scriptFailedToParse''
       (Some (ScriptFailedToParseNotification_toValue (ScriptFailedToParseNotification.make
         scriptId url startLine startColumn endLine endColumn executionContextId hashValue
         executionContextAuxData sourceMapURL hasSourceURL)))"

definition Debugger_breakpointResolved ::
  "'s FrontendChannel option \<Rightarrow> string16 \<Rightarrow> Location \<Rightarrow> ('s, fault, unit) M" where
  "Debugger_breakpointResolved channel breakpointId loc =
     send_notification channel ''Debugger.breakpointResolved''
       (Some (BreakpointResolvedNotification_toValue (BreakpointResolvedNotification.make
         breakpointId loc)))"

definition Debugger_paused ::
  "'s FrontendChannel option \<Rightarrow> CallFrame list \<Rightarrow> string16 \<Rightarrow>
         dict option \<Rightarrow> string16 list option \<Rightarrow> StackTrace option \<Rightarrow> ('s, fault, unit) M" where
  "Debugger_paused channel callFrames reason dat hitBreakpoints asyncStackTrace =
     send_notification channel ''Debugger.paused''
       (Some (PausedNotification_toValue (PausedNotification.make callFrames reason dat
         hitBreakpoints asyncStackTrace)))"

definition Debugger_resumed :: "'s FrontendChannel option \<Rightarrow> ('s, fault, unit) M" where
  "Debugger_resumed channel =
     send_notification channel ''Debugger.resumed'' None"

definition Runtime_executionContextCreated ::
  "'s FrontendChannel option \<Rightarrow> ExecutionContextDescription \<Rightarrow> ('s, fault, unit) M" where
  "Runtime_executionContextCreated channel ctx =
     send_notification channel ''Runtime.executionContextCreated''
       (Some (ExecutionContextCreatedNotification_toValue
         (ExecutionContextCreatedNotification.make ctx)))"

definition Runtime_executionContextDestroyed ::
  "'s FrontendChannel option \<Rightarrow> cint \<Rightarrow> ('s, fault, unit) M" where
  "Runtime_executionContextDestroyed channel executionContextId =
     send_notification channel ''Runtime.executionContextDestroyed''
       (Some (ExecutionContextDestroyedNotification_toValue
         (ExecutionContextDestroyedNotification.make executionContextId)))"

definition Runtime_executionContextsCleared :: "'s FrontendChannel option \<Rightarrow> ('s,
         fault, unit) M" where
  "Runtime_executionContextsCleared channel =
     send_notification channel ''Runtime.executionContextsCleared'' None"

definition Runtime_exceptionThrown ::
  "'s FrontendChannel option \<Rightarrow> dbl \<Rightarrow> ExceptionDetails \<Rightarrow> ('s, fault, unit) M" where
  "Runtime_exceptionThrown channel timestamp exceptionDetails =
     send_notification channel ''Runtime.exceptionThrown''
       (Some (ExceptionThrownNotification_toValue (ExceptionThrownNotification.make timestamp
         exceptionDetails)))"

definition Runtime_exceptionRevoked ::
  "'s FrontendChannel option \<Rightarrow> string16 \<Rightarrow> cint \<Rightarrow> ('s, fault, unit) M" where
  "Runtime_exceptionRevoked channel reason exceptionId =
     send_notification channel ''Runtime.exceptionRevoked''
       (Some (ExceptionRevokedNotification_toValue (ExceptionRevokedNotification.make reason
         exceptionId)))"

definition Runtime_consoleAPICalled ::
  "'s FrontendChannel option \<Rightarrow> string16 \<Rightarrow> RemoteObject list
         \<Rightarrow> cint \<Rightarrow> dbl \<Rightarrow> StackTrace option \<Rightarrow> ('s, fault, unit) M" where
  "Runtime_consoleAPICalled channel type arguments executionContextId timestamp stackTrace =
     send_notification channel ''Runtime.consoleAPICalled''
       (Some (ConsoleAPICalledNotification_toValue (ConsoleAPICalledNotification.make type
         arguments executionContextId timestamp stackTrace)))"

definition Console_messageAdded ::
  "'s FrontendChannel option \<Rightarrow> ConsoleMessage \<Rightarrow> ('s, fault, unit) M" where
  "Console_messageAdded channel message =
     send_notification channel ''Console.messageAdded''
       (Some (MessageAddedNotification_toValue (MessageAddedNotification.make message)))"

text \<open>
  \<open>flush\<close> and \<open>sendRawNotification\<close>, the same in every domain: unlike the notifications, they use the channel without a
  test for a null pointer.
\<close>

definition Frontend_channel :: "'s FrontendChannel option \<Rightarrow> ('s FrontendChannel \<Rightarrow> ('s, fault, unit) M) \<Rightarrow>
    ('s, fault, unit) M" where
  "Frontend_channel channel f =
     (case channel of None \<Rightarrow> throwM (Undefined NullDereference) | Some c \<Rightarrow> f c)"

definition Debugger_flush :: "'s FrontendChannel option \<Rightarrow> ('s, fault, unit) M" where
  "Debugger_flush channel = Frontend_channel channel flushProtocolNotifications"

definition Runtime_flush :: "'s FrontendChannel option \<Rightarrow> ('s, fault, unit) M" where
  "Runtime_flush channel = Frontend_channel channel flushProtocolNotifications"

definition Console_flush :: "'s FrontendChannel option \<Rightarrow> ('s, fault, unit) M" where
  "Console_flush channel = Frontend_channel channel flushProtocolNotifications"

definition Schema_flush :: "'s FrontendChannel option \<Rightarrow> ('s, fault, unit) M" where
  "Schema_flush channel = Frontend_channel channel flushProtocolNotifications"

definition Debugger_sendRawNotification :: "'s FrontendChannel option \<Rightarrow> string16 \<Rightarrow> ('s, fault, unit) M" where
  "Debugger_sendRawNotification channel notification =
     Frontend_channel channel (\<lambda>c. sendProtocolNotification c (InternalRawNotification notification))"

definition Runtime_sendRawNotification :: "'s FrontendChannel option \<Rightarrow> string16 \<Rightarrow> ('s, fault, unit) M" where
  "Runtime_sendRawNotification channel notification =
     Frontend_channel channel (\<lambda>c. sendProtocolNotification c (InternalRawNotification notification))"

definition Console_sendRawNotification :: "'s FrontendChannel option \<Rightarrow> string16 \<Rightarrow> ('s, fault, unit) M" where
  "Console_sendRawNotification channel notification =
     Frontend_channel channel (\<lambda>c. sendProtocolNotification c (InternalRawNotification notification))"

definition Schema_sendRawNotification :: "'s FrontendChannel option \<Rightarrow> string16 \<Rightarrow> ('s, fault, unit) M" where
  "Schema_sendRawNotification channel notification =
     Frontend_channel channel (\<lambda>c. sendProtocolNotification c (InternalRawNotification notification))"

end
