(* ===== verification/HandlerState.thy ===== *)
theory HandlerState
  imports DebuggerBreakpoint DebuggerFrames DomainDispatchers Frontend
begin

section \<open>The state of a protocol handler and its channel to the frontend\<close>

text \<open>
  The members of \<open>ProtocolHandler\<close>, of its \<open>Debugger\<close> and of its agents (\<open>ProtocolHandler.h\<close>, \<open>Debugger.h\<close>,
  \<open>DebuggerImpl.h\<close>, \<open>RuntimeImpl.h\<close>), and the \<open>FrontendChannel\<close> the handler implements.

  Objects other objects point to have an identity: an agent's number is the address the domain
  dispatchers and the event handlers hold, and reading through an address at which the agent no
  longer lives is \<open>Undefined DanglingPointer\<close>.  A pointer to a host function is its number.  The hash maps of
  \<open>DebuggerImpl\<close> are association lists in insertion order, one of the orders
  \<open>unordered_map\<close> may iterate in.
\<close>

subsection \<open>State\<close>

record DebuggerImpl =
  di_id :: nat
  di_isEnabled :: bool
  m_shouldSkipAllPauses :: bool
  m_scriptMap :: "(string16 \<times> DebuggerScript) list"
  m_breakpointMap :: "(string16 \<times> DebuggerBreakpoint) list"

record RuntimeImpl =
  ri_id :: nat
  m_timestamp :: dbl
  m_contextId :: cint
  ri_isEnabled :: bool

datatype CommandType = CommandNone | CommandConnect | CommandDisconnect | CommandMessageReceived

datatype DomainName = ConsoleDomain | DebuggerDomain | RuntimeDomain | SchemaDomain

text \<open>A \<open>DispatcherImpl\<close> of one of the domains, with the address of its backend.\<close>

record DomainDispatcher =
  dd_domain :: DomainName
  dd_id :: nat
  dd_backend :: nat
  dd_fallThrough :: bool
  dd_callbacks :: CallbackState

text \<open>What the host sees, and what its other threads do.\<close>

datatype host_event = ResponseSent nat string nat | CommandQueueNotified nat nat

datatype host_call =
    HostConnect bool "nat option" nat
  | HostDisconnect
  | HostSendCommand "string option"
  | HostSetCommandQueueCallback "nat option" nat

record Handler =
  m_debugContext :: JsContextRef
  dbg_isEnabled :: bool
  m_isPaused :: bool
  m_isRunningNestedMessageLoop :: bool
  m_shouldPauseOnNextStatement :: bool
  m_sourceEventCallback :: "nat option"
  m_breakEventCallback :: "nat option"
  m_sendResponseCallback :: "nat option"
  m_sendResponseCallbackState :: nat
  m_commandQueueCallback :: "nat option"
  m_commandQueueCallbackState :: nat
  m_commandQueue :: "(CommandType \<times> string) list"
  m_isConnected :: bool
  m_waitingForDebugger :: bool
  m_breakOnNextLine :: bool
  m_dispatcher :: "DomainDispatcher UberDispatcher"
  m_consoleAgent :: "nat option"
  m_debuggerAgent :: "DebuggerImpl option"
  m_runtimeAgent :: "RuntimeImpl option"
  m_schemaAgent :: "nat option"
  next_object :: nat
  host_log :: "host_event list"
  arrivals :: "host_call list list"

text \<open>
  The environment: the engine, the UTF-8 conversions of the standard library and of Windows, and
  the fuel for the comments of one script.
\<close>

record 'w Env =
  jsrt_of :: "'w JSRT"
  utf8_encode :: "string16 \<Rightarrow> string option"
  utf8_decode :: "string \<Rightarrow> string16 option"
  script_fuel :: nat

type_synonym ('w, 'a) H = "('w \<times> Handler, fault, 'a) M"

definition getH :: "(Handler \<Rightarrow> 'a) \<Rightarrow> ('w, 'a) H" where
  "getH f = getM (\<lambda>s. f (snd s))"

definition modH :: "(Handler \<Rightarrow> Handler) \<Rightarrow> ('w, unit) H" where
  "modH f = modifyM (\<lambda>(w, h). (w, f h))"

subsection \<open>The frontend channel\<close>

text \<open>\<open>SendResponse\<close>: the host's callback, if there is one, gets the text.\<close>

definition SendResponse :: "string \<Rightarrow> ('w, unit) H" where
  "SendResponse response =
     modH (\<lambda>h. case m_sendResponseCallback h of
                 None \<Rightarrow> h
               | Some callback \<Rightarrow>
                   h\<lparr>host_log := host_log h @
                       [ResponseSent callback response (m_sendResponseCallbackState h)]\<rparr>)"

text \<open>Serializing a message whose dictionaries are inconsistent reads past the end of a map.\<close>

definition handler_sendProtocolNotification :: "'w Env \<Rightarrow> Serializable \<Rightarrow> ('w, unit) H" where
  "handler_sendProtocolNotification E message =
     (case serialize_message message of
        None \<Rightarrow> throwM (Undefined EndIterator)
      | Some str \<Rightarrow> SendResponse (toUtf8 (utf8_encode E) str))"

definition handler_sendProtocolResponse :: "'w Env \<Rightarrow> cint \<Rightarrow> Serializable \<Rightarrow> ('w, unit) H" where
  "handler_sendProtocolResponse E callId message = handler_sendProtocolNotification E message"

definition handler_channel :: "'w Env \<Rightarrow> ('w \<times> Handler) FrontendChannel" where
  "handler_channel E =
     FrontendChannel.make (handler_sendProtocolResponse E) (handler_sendProtocolNotification E) (retM ())"

subsection \<open>Access to the agents through their addresses\<close>

definition getDI :: "nat \<Rightarrow> (DebuggerImpl \<Rightarrow> 'a) \<Rightarrow> ('w, 'a) H" where
  "getDI this f =
     bindM (getH m_debuggerAgent) (\<lambda>agent.
       case agent of
         Some a \<Rightarrow> if di_id a = this then retM (f a) else throwM (Undefined DanglingPointer)
       | None \<Rightarrow> throwM (Undefined DanglingPointer))"

definition modDI :: "nat \<Rightarrow> (DebuggerImpl \<Rightarrow> DebuggerImpl) \<Rightarrow> ('w, unit) H" where
  "modDI this f =
     bindM (getDI this (\<lambda>a. a)) (\<lambda>a. modH (\<lambda>h. h\<lparr>m_debuggerAgent := Some (f a)\<rparr>))"

definition getRI :: "nat \<Rightarrow> (RuntimeImpl \<Rightarrow> 'a) \<Rightarrow> ('w, 'a) H" where
  "getRI this f =
     bindM (getH m_runtimeAgent) (\<lambda>agent.
       case agent of
         Some a \<Rightarrow> if ri_id a = this then retM (f a) else throwM (Undefined DanglingPointer)
       | None \<Rightarrow> throwM (Undefined DanglingPointer))"

definition modRI :: "nat \<Rightarrow> (RuntimeImpl \<Rightarrow> RuntimeImpl) \<Rightarrow> ('w, unit) H" where
  "modRI this f =
     bindM (getRI this (\<lambda>a. a)) (\<lambda>a. modH (\<lambda>h. h\<lparr>m_runtimeAgent := Some (f a)\<rparr>))"

text \<open>The agents without state of their own: only that they live at the address matters.\<close>

definition live_agent :: "(Handler \<Rightarrow> nat option) \<Rightarrow> nat \<Rightarrow> ('w, unit) H" where
  "live_agent agent_of this =
     bindM (getH agent_of) (\<lambda>agent.
       if agent = Some this then retM () else throwM (Undefined DanglingPointer))"

lemma keeps_getH [intro]: "keeps P (getH f)"
  by (auto simp: getH_def)

lemma keeps_modH: "(\<And>w h. P (w, h) \<Longrightarrow> P (w, f h)) \<Longrightarrow> keeps P (modH f)"
  by (auto simp: modH_def)

end
