(* ===== verification/DebuggerEngine.thy ===== *)
theory DebuggerEngine
  imports HandlerState
begin

section \<open>\<open>Debugger\<close>\<close>

text \<open>
  \<open>lib/Debugger.ProtocolHandler/Debugger.\<close>\<open>cpp\<close>, without the event handling (theory \<open>DebugEvents\<close>), which waits for
  commands and so needs the handler.
\<close>

definition c_ErrorInvalidOrdinal :: string where
  "c_ErrorInvalidOrdinal = ''Invalid ordinal value''"

definition RunIfWaitingForDebugger :: "('w, unit) H" where
  "RunIfWaitingForDebugger = modH (\<lambda>h. h\<lparr>m_waitingForDebugger := False\<rparr>)"

definition ClearBreakpoints :: "'w Env \<Rightarrow> ('w, unit) H" where
  "ClearBreakpoints E = (let J = jsrt_of E in
     bindM (getH m_debugContext) (\<lambda>debugContext.
     with_scope J debugContext
       (bindM (jsrt (JsDiagGetBreakpoints J)) (\<lambda>(err, breakpoints).
          if err = JsNoError then
            bindM (for_items J breakpoints (\<lambda>breakpoint.
              bindM (GetPropertyInt J breakpoint ''breakpointId'') (\<lambda>breakpointId.
                js J (JsDiagRemoveBreakpoint J breakpointId)))) (\<lambda>_. retM ())
          else retM ()))))"

definition Dbg_Enable :: "('w, unit) H" where
  "Dbg_Enable =
     bindM (getH dbg_isEnabled) (\<lambda>m_isEnabled.
       if m_isEnabled then retM () else modH (\<lambda>h. h\<lparr>dbg_isEnabled := True\<rparr>))"

definition Dbg_Disable :: "'w Env \<Rightarrow> ('w, unit) H" where
  "Dbg_Disable E =
     bindM (getH dbg_isEnabled) (\<lambda>m_isEnabled.
       if \<not> m_isEnabled then retM ()
       else seqM (modH (\<lambda>h. h\<lparr>dbg_isEnabled := False\<rparr>)) (ClearBreakpoints E))"

definition SetSourceEventHandler :: "nat option \<Rightarrow> ('w, unit) H" where
  "SetSourceEventHandler callback = modH (\<lambda>h. h\<lparr>m_sourceEventCallback := callback\<rparr>)"

definition SetBreakEventHandler :: "nat option \<Rightarrow> ('w, unit) H" where
  "SetBreakEventHandler callback = modH (\<lambda>h. h\<lparr>m_breakEventCallback := callback\<rparr>)"

definition RequestAsyncBreak :: "'w Env \<Rightarrow> ('w, unit) H" where
  "RequestAsyncBreak E = js (jsrt_of E) (JsDiagRequestAsyncBreak (jsrt_of E))"

definition PauseOnNextStatement :: "'w Env \<Rightarrow> ('w, unit) H" where
  "PauseOnNextStatement E =
     seqM (modH (\<lambda>h. h\<lparr>m_shouldPauseOnNextStatement := True\<rparr>)) (RequestAsyncBreak E)"

definition GetScripts :: "'w Env \<Rightarrow> ('w, DebuggerScript list) H" where
  "GetScripts E = (let J = jsrt_of E in
     bindM (getH m_debugContext) (\<lambda>debugContext.
     bindM (jsrt (JsDiagGetScripts J)) (\<lambda>(result, scriptsArray).
       if result = JsNoError then
         for_items J scriptsArray (DebuggerScript_new (script_fuel E) J debugContext)
       else retM [])))"

definition GetCallFrame :: "'w Env \<Rightarrow> cint \<Rightarrow> ('w, DebuggerCallFrame) H" where
  "GetCallFrame E ordinal = (let J = jsrt_of E in
     bindM (js J (JsDiagGetStackTrace J)) (\<lambda>stackTrace.
     bindM (GetPropertyInt J stackTrace ''length'') (\<lambda>length_value.
       if sint length_value \<le> sint ordinal then throwM (Throw (RuntimeError c_ErrorInvalidOrdinal))
       else bindM (GetIndexedProperty J stackTrace ordinal) (DebuggerCallFrame_new J))))"

definition GetCallFrames :: "'w Env \<Rightarrow> cint \<Rightarrow> ('w, DebuggerCallFrame list) H" where
  "GetCallFrames E limit = (let J = jsrt_of E in
     bindM (js J (JsDiagGetStackTrace J)) (\<lambda>stackTrace.
     bindM (GetPropertyInt J stackTrace ''length'') (\<lambda>length_value.
       for_length (if 0 < sint limit \<and> sint limit < sint length_value then limit else length_value)
         (\<lambda>index. bindM (GetIndexedProperty J stackTrace index) (DebuggerCallFrame_new J)))))"

definition GetObjectFromHandle :: "'w Env \<Rightarrow> cint \<Rightarrow> ('w, DebuggerObject) H" where
  "GetObjectFromHandle E handle = (let J = jsrt_of E in
     bindM (js J (JsDiagGetObjectFromHandle J handle)) (DebuggerObject_new J))"

definition GetBreakOnException :: "'w Env \<Rightarrow> ('w, JsDiagBreakOnExceptionAttributes) H" where
  "GetBreakOnException E = js (jsrt_of E) (JsDiagGetBreakOnException (jsrt_of E))"

definition SetBreakOnException :: "'w Env \<Rightarrow> JsDiagBreakOnExceptionAttributes \<Rightarrow> ('w, unit) H" where
  "SetBreakOnException E attributes = js (jsrt_of E) (JsDiagSetBreakOnException (jsrt_of E) attributes)"

definition IsPaused :: "('w, bool) H" where
  "IsPaused = getH m_isPaused"

definition Continue :: "('w, unit) H" where
  "Continue = RunIfWaitingForDebugger"

definition step_and_continue :: "'w Env \<Rightarrow> JsDiagStepType \<Rightarrow> ('w, unit) H" where
  "step_and_continue E stepType =
     seqM (js (jsrt_of E) (JsDiagSetStepType (jsrt_of E) stepType)) Continue"

definition StepIn :: "'w Env \<Rightarrow> ('w, unit) H" where
  "StepIn E = step_and_continue E JsDiagStepTypeStepIn"

definition StepOut :: "'w Env \<Rightarrow> ('w, unit) H" where
  "StepOut E = step_and_continue E JsDiagStepTypeStepOut"

definition StepOver :: "'w Env \<Rightarrow> ('w, unit) H" where
  "StepOver E = step_and_continue E JsDiagStepTypeStepOver"

end
