(* ===== verification/DebuggerAgent.thy ===== *)
theory DebuggerAgent
  imports DebuggerEngine
begin

section \<open>\<open>DebuggerImpl\<close>: the backend of the Debugger domain\<close>

text \<open>
  \<open>lib/Debugger.ProtocolHandler/DebuggerImpl.\<close>\<open>cpp\<close>.  \<open>this\<close> is the address of the agent.  A method's out
  parameters are returned beside its response; on an error they are as the dispatcher initialised
  them.
\<close>

datatype SkipPauseRequest =
  RequestNoSkip | RequestContinue | RequestStepInto | RequestStepOut | RequestStepFrame

definition c_ErrorBreakpointCouldNotResolve :: string where
  "c_ErrorBreakpointCouldNotResolve = ''Breakpoint could not be resolved''"

definition c_ErrorBreakpointExists :: string where
  "c_ErrorBreakpointExists = ''Breakpoint at specified location already exists''"

definition c_ErrorBreakpointNotFound :: string where
  "c_ErrorBreakpointNotFound = ''Breakpoint could not be found''"

definition c_ErrorCallFrameInvalidId :: string where
  "c_ErrorCallFrameInvalidId = ''Invalid call frame ID specified''"

definition c_ErrorInvalidColumnNumber :: string where
  "c_ErrorInvalidColumnNumber = ''Invalid column number specified''"

definition c_ErrorNotEnabled :: string where
  "c_ErrorNotEnabled = ''Debugger is not enabled''"

definition c_ErrorNotImplemented :: string where
  "c_ErrorNotImplemented = ''Debugger method not implemented''"

definition c_ErrorScriptMustBeLoaded :: string where
  "c_ErrorScriptMustBeLoaded = ''Script must be loaded before resolving''"

definition c_ErrorUrlRequired :: string where
  "c_ErrorUrlRequired = ''Either url or urlRegex must be specified''"

abbreviation response_error :: "string \<Rightarrow> DispatchResponse" where
  "response_error message \<equiv> Response_Error (String16_cstr message)"

text \<open>\<open>HashMap::emplace\<close>: nothing happens when the key is there.\<close>

definition emplace :: "'k \<Rightarrow> 'v \<Rightarrow> ('k \<times> 'v) list \<Rightarrow> ('k \<times> 'v) list" where
  "emplace k v m = (if map_of m k = None then m @ [(k, v)] else m)"

text \<open>\<open>catch (const JsErrorException& e)\<close>\<close>

definition catch_js_error :: "('s, fault, 'a) M \<Rightarrow> (string \<Rightarrow> ('s, fault, 'a) M) \<Rightarrow> ('s, fault, 'a) M" where
  "catch_js_error body handler =
     (\<lambda>s. case body s of
            (Inl (Throw (JsErrorException code what)), t) \<Rightarrow> handler what t
          | result \<Rightarrow> result)"

subsection \<open>Resolving breakpoints\<close>

definition TryResolveBreakpoint ::
  "'w Env \<Rightarrow> DebuggerBreakpoint \<Rightarrow> ('w, bool \<times> DebuggerBreakpoint) H" where
  "TryResolveBreakpoint E breakpoint =
     (if \<not> IsScriptLoaded breakpoint then throwM (Throw (RuntimeError c_ErrorScriptMustBeLoaded))
      else bindM (SetBreakpoint (jsrt_of E) breakpoint) (\<lambda>bp. retM (IsResolved bp, bp)))"

text \<open>One turn of the loop over \<open>m_breakpointMap\<close> in \<open>HandleSourceEvent\<close>: the breakpoint is changed in place.\<close>

definition update_breakpoint :: "nat \<Rightarrow> string16 \<Rightarrow> DebuggerBreakpoint \<Rightarrow> ('w, unit) H" where
  "update_breakpoint this key bp =
     modDI this (\<lambda>a. a\<lparr>m_breakpointMap := AList.update key bp (m_breakpointMap a)\<rparr>)"

definition resolve_pending ::
  "'w Env \<Rightarrow> nat \<Rightarrow> DebuggerScript \<Rightarrow> string16 \<times> DebuggerBreakpoint \<Rightarrow> ('w, unit) H" where
  "resolve_pending E this script entry =
     bindM (getH m_debugContext) (\<lambda>debugContext.
     bindM (TryLoadScript (jsrt_of E) debugContext script (snd entry)) (\<lambda>(isLoaded, bp).
     seqM (update_breakpoint this (fst entry) bp)
       (if isLoaded then
          bindM (TryResolveBreakpoint E bp) (\<lambda>(resolved, bp').
          seqM (update_breakpoint this (fst entry) bp')
            (if resolved then
               bindM (deref (GetActualLocation bp'))
                 (Debugger_breakpointResolved (Some (handler_channel E)) (fst entry))
             else retM ()))
        else retM ())))"

definition DebuggerImpl_HandleSourceEvent ::
  "'w Env \<Rightarrow> nat \<Rightarrow> DebuggerScript \<Rightarrow> bool \<Rightarrow> ('w, unit) H" where
  "DebuggerImpl_HandleSourceEvent E this script success = (let J = jsrt_of E; channel = Some (handler_channel E) in
     bindM (SourceUrl J script) (\<lambda>scriptUrl.
     bindM (EndLine J script) (\<lambda>endLine.
     bindM (retM (if \<not> string_empty (ExecutionContextAuxData script)
             then DictionaryValue_cast (parseJSON (ExecutionContextAuxData script)) else None))
       (\<lambda>executionContextAuxData.
     seqM
       (if success then
          Debugger_scriptParsed channel (ScriptId script) scriptUrl (StartLine script)
            (StartColumn script) endLine (EndColumn script) (ExecutionContextId script) (Hash script)
            executionContextAuxData (Some (IsLiveEdit script)) (Some (SourceMappingUrl script))
            (Some (HasSourceUrl script))
        else
          Debugger_scriptFailedToParse channel (ScriptId script) scriptUrl (StartLine script)
            (StartColumn script) endLine (EndColumn script) (ExecutionContextId script) (Hash script)
            executionContextAuxData (Some (SourceMappingUrl script)) (Some (HasSourceUrl script)))
     (seqM (modDI this (\<lambda>a. a\<lparr>m_scriptMap := emplace (ScriptId script) script (m_scriptMap a)\<rparr>))
     (bindM (getDI this m_breakpointMap) (\<lambda>breakpoints.
       forM breakpoints (resolve_pending E this script))))))))"

subsection \<open>Enabling and disabling\<close>

definition DebuggerImpl_enable :: "'w Env \<Rightarrow> nat \<Rightarrow> ('w, DispatchResponse) H" where
  "DebuggerImpl_enable E this =
     bindM (getDI this di_isEnabled) (\<lambda>m_isEnabled.
       if m_isEnabled then retM Response_OK
       else
         seqM (modDI this (\<lambda>a. a\<lparr>di_isEnabled := True\<rparr>))
         (seqM Dbg_Enable
         (seqM (SetSourceEventHandler (Some this))
         (seqM (SetBreakEventHandler (Some this))
         (bindM (GetScripts E) (\<lambda>scripts.
            seqM (forM scripts (\<lambda>script. DebuggerImpl_HandleSourceEvent E this script True))
              (retM Response_OK)))))))"

definition DebuggerImpl_disable :: "'w Env \<Rightarrow> nat \<Rightarrow> ('w, DispatchResponse) H" where
  "DebuggerImpl_disable E this =
     bindM (getDI this di_isEnabled) (\<lambda>m_isEnabled.
       if \<not> m_isEnabled then retM Response_OK
       else
         seqM (modDI this (\<lambda>a. a\<lparr>di_isEnabled := False\<rparr>))
         (seqM (Dbg_Disable E)
         (seqM (SetSourceEventHandler None)
         (seqM (modDI this (\<lambda>a. a\<lparr>m_breakpointMap := [], m_scriptMap := [],
                  m_shouldSkipAllPauses := False\<rparr>))
           (retM Response_OK)))))"

subsection \<open>Breakpoints\<close>

text \<open>The loop over \<open>m_scriptMap\<close> in \<open>setBreakpointByUrl\<close>, with the breakpoint and the locations it changes.\<close>

fun load_scripts ::
  "'w Env \<Rightarrow> JsContextRef \<Rightarrow> (string16 \<times> DebuggerScript) list \<Rightarrow> DebuggerBreakpoint \<Rightarrow> Location list \<Rightarrow>
     ('w, DebuggerBreakpoint \<times> Location list) H" where
  "load_scripts E debugContext [] breakpoint locations = retM (breakpoint, locations)"
| "load_scripts E debugContext (script # scripts) breakpoint locations =
     bindM (TryLoadScript (jsrt_of E) debugContext (snd script) breakpoint) (\<lambda>(isLoaded, bp).
       if isLoaded then
         bindM (TryResolveBreakpoint E bp) (\<lambda>(resolved, bp').
           if resolved then
             bindM (deref (GetActualLocation bp')) (\<lambda>loc.
               load_scripts E debugContext scripts bp' (locations @ [loc]))
           else load_scripts E debugContext scripts bp' locations)
       else load_scripts E debugContext scripts bp locations)"

definition DebuggerImpl_setBreakpointByUrl ::
  "'w Env \<Rightarrow> nat \<Rightarrow> cint \<Rightarrow> string16 option \<Rightarrow> string16 option \<Rightarrow> cint option \<Rightarrow> string16 option \<Rightarrow>
     ('w, DispatchResponse \<times> string16 \<times> Location list option) H" where
  "DebuggerImpl_setBreakpointByUrl E this in_lineNumber in_url in_urlRegex in_columnNumber in_condition =
     (case (case in_url of
              Some url \<Rightarrow> Some (url, QueryUrl)
            | None \<Rightarrow> (case in_urlRegex of Some url \<Rightarrow> Some (url, QueryUrlRegex) | None \<Rightarrow> None)) of
        None \<Rightarrow> retM (response_error c_ErrorUrlRequired, [], None)
      | Some (url, type) \<Rightarrow>
          (let columnNumber = (case in_columnNumber of Some c \<Rightarrow> c | None \<Rightarrow> 0) in
           if sint columnNumber < 0 then retM (response_error c_ErrorInvalidColumnNumber, [], None)
           else
             (let condition = (case in_condition of Some c \<Rightarrow> c | None \<Rightarrow> []);
                  breakpoint = DebuggerBreakpoint_new url type in_lineNumber columnNumber condition;
                  breakpointId = GenerateKey breakpoint in
              bindM (getDI this m_breakpointMap) (\<lambda>breakpointMap.
                if map_of breakpointMap breakpointId \<noteq> None
                then retM (response_error c_ErrorBreakpointExists, [], None)
                else
                  bindM (getDI this m_scriptMap) (\<lambda>scriptMap.
                  bindM (getH m_debugContext) (\<lambda>debugContext.
                  bindM
                    (catch_js_error
                      (bindM (load_scripts E debugContext scriptMap breakpoint []) (\<lambda>r. retM (Inr r)))
                      (\<lambda>what. retM (Inl (response_error what))))
                    (\<lambda>r. case r of
                       Inl response \<Rightarrow> retM (response, [], None)
                     | Inr (breakpoint', locations) \<Rightarrow>
                         seqM (modDI this (\<lambda>a. a\<lparr>m_breakpointMap :=
                                 emplace breakpointId breakpoint' (m_breakpointMap a)\<rparr>))
                           (retM (Response_OK, breakpointId, Some locations)))))))))"

definition DebuggerImpl_setBreakpoint ::
  "'w Env \<Rightarrow> nat \<Rightarrow> Location option \<Rightarrow> string16 option \<Rightarrow>
     ('w, DispatchResponse \<times> string16 \<times> Location option) H" where
  "DebuggerImpl_setBreakpoint E this in_location in_condition =
     bindM (deref in_location) (\<lambda>loc.
       (let breakpoint = FromLocation loc (case in_condition of Some c \<Rightarrow> c | None \<Rightarrow> []);
            breakpointId = GenerateKey breakpoint in
        bindM (getDI this m_breakpointMap) (\<lambda>breakpointMap.
          if map_of breakpointMap breakpointId \<noteq> None
          then retM (response_error c_ErrorBreakpointExists, [], None)
          else
            bindM (TryResolveBreakpoint E breakpoint) (\<lambda>(resolved, bp).
              if resolved then
                seqM (modDI this (\<lambda>a. a\<lparr>m_breakpointMap := emplace breakpointId bp (m_breakpointMap a)\<rparr>))
                  (retM (Response_OK, breakpointId, GetActualLocation bp))
              else retM (response_error c_ErrorBreakpointCouldNotResolve, [], None)))))"

definition DebuggerImpl_removeBreakpoint :: "'w Env \<Rightarrow> nat \<Rightarrow> string16 \<Rightarrow> ('w, DispatchResponse) H" where
  "DebuggerImpl_removeBreakpoint E this in_breakpointId =
     bindM (getDI this m_breakpointMap) (\<lambda>breakpointMap.
       case map_of breakpointMap in_breakpointId of
         Some breakpoint \<Rightarrow>
           seqM (RemoveBreakpoint (jsrt_of E) breakpoint)
           (seqM (modDI this (\<lambda>a. a\<lparr>m_breakpointMap := AList.delete in_breakpointId (m_breakpointMap a)\<rparr>))
             (retM Response_OK))
       | None \<Rightarrow> retM (response_error c_ErrorBreakpointNotFound))"

subsection \<open>Stepping, sources and evaluation\<close>

definition DebuggerImpl_not_implemented :: "('w, DispatchResponse) H" where
  "DebuggerImpl_not_implemented = retM (response_error c_ErrorNotImplemented)"

text \<open>The methods that are not implemented, each with its parameters.\<close>

abbreviation DebuggerImpl_setBreakpointsActive :: "bool \<Rightarrow> ('w, DispatchResponse) H" where
  "DebuggerImpl_setBreakpointsActive in_active \<equiv> DebuggerImpl_not_implemented"

abbreviation DebuggerImpl_setSkipAllPauses :: "bool \<Rightarrow> ('w, DispatchResponse) H" where
  "DebuggerImpl_setSkipAllPauses in_skip \<equiv> DebuggerImpl_not_implemented"

abbreviation DebuggerImpl_continueToLocation :: "Location option \<Rightarrow> ('w, DispatchResponse) H" where
  "DebuggerImpl_continueToLocation in_location \<equiv> DebuggerImpl_not_implemented"

abbreviation DebuggerImpl_setVariableValue ::
  "cint \<Rightarrow> string16 \<Rightarrow> CallArgument option \<Rightarrow> string16 \<Rightarrow> ('w, DispatchResponse) H" where
  "DebuggerImpl_setVariableValue in_scopeNumber in_variableName in_newValue in_callFrameId \<equiv>
     DebuggerImpl_not_implemented"

abbreviation DebuggerImpl_setAsyncCallStackDepth :: "cint \<Rightarrow> ('w, DispatchResponse) H" where
  "DebuggerImpl_setAsyncCallStackDepth in_maxDepth \<equiv> DebuggerImpl_not_implemented"

abbreviation DebuggerImpl_setBlackboxPatterns :: "string16 list option \<Rightarrow> ('w, DispatchResponse) H" where
  "DebuggerImpl_setBlackboxPatterns in_patterns \<equiv> DebuggerImpl_not_implemented"

abbreviation DebuggerImpl_setBlackboxedRanges ::
  "string16 \<Rightarrow> ScriptPosition list option \<Rightarrow> ('w, DispatchResponse) H" where
  "DebuggerImpl_setBlackboxedRanges in_scriptId in_positions \<equiv> DebuggerImpl_not_implemented"

abbreviation DebuggerImpl_searchInContent ::
  "string16 \<Rightarrow> string16 \<Rightarrow> bool option \<Rightarrow> bool option \<Rightarrow> ('w, DispatchResponse \<times> SearchMatch list option) H" where
  "DebuggerImpl_searchInContent in_scriptId in_query in_caseSensitive in_isRegex \<equiv> retM (response_error
     c_ErrorNotImplemented, None)"

abbreviation DebuggerImpl_setScriptSource ::
  "string16 \<Rightarrow> string16 \<Rightarrow> bool option \<Rightarrow> ('w, DispatchResponse \<times> CallFrame list option \<times> bool option \<times> StackTrace option \<times> ExceptionDetails option) H" where
  "DebuggerImpl_setScriptSource in_scriptId in_scriptSource in_dryRun \<equiv> retM (response_error
     c_ErrorNotImplemented, None, None, None, None)"

abbreviation DebuggerImpl_restartFrame ::
  "string16 \<Rightarrow> ('w, DispatchResponse \<times> CallFrame list option \<times> StackTrace option) H" where
  "DebuggerImpl_restartFrame in_callFrameId \<equiv> retM (response_error c_ErrorNotImplemented, None, None)"

definition DebuggerImpl_stepOver :: "'w Env \<Rightarrow> ('w, DispatchResponse) H" where
  "DebuggerImpl_stepOver E = seqM (StepOver E) (retM Response_OK)"

definition DebuggerImpl_stepInto :: "'w Env \<Rightarrow> ('w, DispatchResponse) H" where
  "DebuggerImpl_stepInto E = seqM (StepIn E) (retM Response_OK)"

definition DebuggerImpl_stepOut :: "'w Env \<Rightarrow> ('w, DispatchResponse) H" where
  "DebuggerImpl_stepOut E = seqM (StepOut E) (retM Response_OK)"

definition DebuggerImpl_pause :: "'w Env \<Rightarrow> ('w, DispatchResponse) H" where
  "DebuggerImpl_pause E = seqM (PauseOnNextStatement E) (retM Response_OK)"

definition DebuggerImpl_resume :: "nat \<Rightarrow> ('w, DispatchResponse) H" where
  "DebuggerImpl_resume this =
     bindM (getDI this di_isEnabled) (\<lambda>isEnabled.
       if \<not> isEnabled then retM (response_error c_ErrorNotEnabled)
       else seqM Continue (retM Response_OK))"

definition DebuggerImpl_getScriptSource ::
  "'w Env \<Rightarrow> nat \<Rightarrow> string16 \<Rightarrow> ('w, DispatchResponse \<times> string16) H" where
  "DebuggerImpl_getScriptSource E this in_scriptId =
     bindM (getDI this di_isEnabled) (\<lambda>isEnabled.
       if \<not> isEnabled then retM (response_error c_ErrorNotEnabled, [])
       else
         bindM (getDI this m_scriptMap) (\<lambda>scriptMap.
           case map_of scriptMap in_scriptId of
             None \<Rightarrow> retM (Response_Error (plus_string (lit ''Script not found: '') in_scriptId), [])
           | Some script \<Rightarrow>
               bindM (Source (jsrt_of E) script) (\<lambda>source. retM (Response_OK, source))))"

definition pause_state_attributes :: "string16 \<Rightarrow> JsDiagBreakOnExceptionAttributes option" where
  "pause_state_attributes in_state =
     (if in_state = lit ''none'' then Some JsDiagBreakOnExceptionAttributeNone
      else if in_state = lit ''all'' then Some JsDiagBreakOnExceptionAttributeFirstChance
      else if in_state = lit ''uncaught'' then Some JsDiagBreakOnExceptionAttributeUncaught
      else None)"

definition DebuggerImpl_setPauseOnExceptions :: "'w Env \<Rightarrow> string16 \<Rightarrow> ('w, DispatchResponse) H" where
  "DebuggerImpl_setPauseOnExceptions E in_state =
     (case pause_state_attributes in_state of
        None \<Rightarrow> retM (Response_Error (plus_string (lit ''Unrecognized state value: '') in_state))
      | Some attributes \<Rightarrow> seqM (SetBreakOnException E attributes) (retM Response_OK))"

definition DebuggerImpl_evaluateOnCallFrame ::
  "'w Env \<Rightarrow> string16 \<Rightarrow> string16 \<Rightarrow> string16 option \<Rightarrow> bool option \<Rightarrow> bool option \<Rightarrow> bool option \<Rightarrow>
     bool option \<Rightarrow> ('w, DispatchResponse \<times> RemoteObject option \<times> ExceptionDetails option) H" where
  "DebuggerImpl_evaluateOnCallFrame E in_callFrameId in_expression in_objectGroup
       in_includeCommandLineAPI in_silent in_returnByValue in_generatePreview =
     bindM (ParseObjectId in_callFrameId) (\<lambda>parsedId.
       case getInteger parsedId (lit ''ordinal'') of
         Some ordinal \<Rightarrow>
           bindM (GetCallFrame E ordinal) (\<lambda>callFrame.
           bindM (Evaluate (jsrt_of E) callFrame in_expression
               (case in_returnByValue of Some b \<Rightarrow> b | None \<Rightarrow> False)) (\<lambda>(result, exceptionDetails).
             retM (Response_OK, Some result, exceptionDetails)))
       | None \<Rightarrow> retM (response_error c_ErrorCallFrameInvalidId, None, None))"

subsection \<open>Breaks\<close>

definition find_actual_id ::
  "cint \<Rightarrow> (string16 \<times> DebuggerBreakpoint) list \<Rightarrow> DebuggerBreakpoint option" where
  "find_actual_id bpId breakpoints =
     map_option snd (find (\<lambda>e. m_actualBreakpointId (snd e) = bpId) breakpoints)"

text \<open>
  A condition that evaluates to false skips the pause; so does one that cannot be evaluated, unless the engine
  throws.
\<close>

definition EvaluateConditionOnBreakpoint :: "'w Env \<Rightarrow> nat \<Rightarrow> cint \<Rightarrow> ('w, SkipPauseRequest) H" where
  "EvaluateConditionOnBreakpoint E this bpId = (let J = jsrt_of E in
     (if sint bpId < 0 then retM RequestNoSkip
      else
        bindM (getDI this m_breakpointMap) (\<lambda>breakpoints.
          case find_actual_id bpId breakpoints of
            None \<Rightarrow> retM RequestNoSkip
          | Some bp \<Rightarrow>
              catch_js_error
                (if length (m_condition bp) \<noteq> 0 then
                   bindM (GetCallFrame E 0) (\<lambda>callFrame.
                   bindM (jsrt (JsCreateStringUtf16 J (m_condition bp))) (\<lambda>(err, expressionStr).
                     if err = JsNoError then
                       bindM (jsrt (JsDiagEvaluate J expressionStr 0 True)) (\<lambda>(err', evalResult).
                         if err' = JsNoError then
                           bindM (GetPropertyBoolConvert J evalResult ''value'') (\<lambda>b.
                             retM (if b then RequestNoSkip else RequestContinue))
                         else retM RequestContinue)
                     else retM RequestContinue))
                 else retM RequestNoSkip)
                (\<lambda>what. retM RequestNoSkip))))"

fun mapM_frames :: "('b \<Rightarrow> ('s, 'e, 'a) M) \<Rightarrow> 'b list \<Rightarrow> ('s, 'e, 'a list) M" where
  "mapM_frames f [] = retM []"
| "mapM_frames f (x # xs) = bindM (f x) (\<lambda>y. bindM (mapM_frames f xs) (\<lambda>ys. retM (y # ys)))"

definition DebuggerImpl_HandleBreakEvent :: "'w Env \<Rightarrow> nat \<Rightarrow> JsValueRef \<Rightarrow> ('w, SkipPauseRequest) H" where
  "DebuggerImpl_HandleBreakEvent E this breakInfo = (let J = jsrt_of E in
     bindM (getDI this m_shouldSkipAllPauses) (\<lambda>shouldSkipAllPauses.
     bindM (if shouldSkipAllPauses then retM RequestContinue
            else bindM (GetHitBreakpoint J breakInfo) (EvaluateConditionOnBreakpoint E this))
       (\<lambda>request.
     if request \<noteq> RequestNoSkip then retM request
     else
       bindM (GetCallFrames E 0) (\<lambda>frames.
       bindM (mapM_frames (ToProtocolValue J) frames) (\<lambda>callFrames.
       bindM (GetReason J breakInfo) (\<lambda>reason.
       bindM (GetData J breakInfo) (\<lambda>data_value.
       bindM (GetHitBreakpoints J breakInfo) (\<lambda>hitBreakpoints.
       seqM (Debugger_paused (Some (handler_channel E)) callFrames reason data_value hitBreakpoints
               GetAsyncStackTrace)
         (retM request)))))))))"

end
