(* ===== verification/RuntimeAgent.thy ===== *)
theory RuntimeAgent
  imports DebuggerEngine
begin

section \<open>\<open>RuntimeImpl\<close>, \<open>ConsoleImpl\<close> and \<open>SchemaImpl\<close>\<close>

text \<open>
  The backends of the Runtime, Console and Schema domains, from \<open>RuntimeImpl.cpp\<close>, \<open>ConsoleImpl.cpp\<close>
  and \<open>SchemaImpl.cpp\<close>.
\<close>

subsection \<open>Runtime\<close>

definition c_Runtime_InvalidObjectId :: string where
  "c_Runtime_InvalidObjectId = ''Invalid object ID''"

definition c_Runtime_NotEnabled :: string where
  "c_Runtime_NotEnabled = ''Runtime is not enabled''"

definition c_NotImplemented :: string where
  "c_NotImplemented = ''Not implemented''"

abbreviation runtime_error :: "string \<Rightarrow> DispatchResponse" where
  "runtime_error message \<equiv> Response_Error (String16_cstr message)"

definition RuntimeImpl_new :: "nat \<Rightarrow> RuntimeImpl" where
  "RuntimeImpl_new this = RuntimeImpl.make this (dbl_of_int 1) 1 False"

definition RuntimeImpl_not_implemented :: "('w, DispatchResponse) H" where
  "RuntimeImpl_not_implemented = retM (runtime_error c_NotImplemented)"

text \<open>\<open>evaluate\<close>, \<open>awaitPromise\<close>, \<open>callFunctionOn\<close> and \<open>runScript\<close> all answer so.\<close>

definition RuntimeImpl_fail_callback :: "('w \<times> Handler) Callback \<Rightarrow> ('w, unit) H" where
  "RuntimeImpl_fail_callback callback = cb_sendFailure callback (runtime_error c_NotImplemented)"

abbreviation RuntimeImpl_evaluate ::
  "string16 \<Rightarrow> string16 option \<Rightarrow> bool option \<Rightarrow> bool option \<Rightarrow> cint option \<Rightarrow> bool option \<Rightarrow> bool option \<Rightarrow> bool option \<Rightarrow> bool option \<Rightarrow>
     ('w \<times> Handler) Callback \<Rightarrow> ('w, unit) H" where
  "RuntimeImpl_evaluate in_expression in_objectGroup in_includeCommandLineAPI in_silent in_contextId in_returnByValue
     in_generatePreview in_userGesture in_awaitPromise callback \<equiv> RuntimeImpl_fail_callback callback"

abbreviation RuntimeImpl_awaitPromise ::
  "string16 \<Rightarrow> bool option \<Rightarrow> bool option \<Rightarrow>
     ('w \<times> Handler) Callback \<Rightarrow> ('w, unit) H" where
  "RuntimeImpl_awaitPromise in_promiseObjectId in_returnByValue in_generatePreview callback \<equiv>
     RuntimeImpl_fail_callback callback"

abbreviation RuntimeImpl_callFunctionOn ::
  "string16 \<Rightarrow> string16 \<Rightarrow> CallArgument list option \<Rightarrow> bool option \<Rightarrow> bool option \<Rightarrow> bool option \<Rightarrow> bool option \<Rightarrow> bool option \<Rightarrow>
     ('w \<times> Handler) Callback \<Rightarrow> ('w, unit) H" where
  "RuntimeImpl_callFunctionOn in_objectId in_functionDeclaration in_arguments in_silent in_returnByValue
     in_generatePreview in_userGesture in_awaitPromise callback \<equiv> RuntimeImpl_fail_callback callback"

abbreviation RuntimeImpl_runScript ::
  "string16 \<Rightarrow> cint option \<Rightarrow> string16 option \<Rightarrow> bool option \<Rightarrow> bool option \<Rightarrow> bool option \<Rightarrow> bool option \<Rightarrow> bool option \<Rightarrow>
     ('w \<times> Handler) Callback \<Rightarrow> ('w, unit) H" where
  "RuntimeImpl_runScript in_scriptId in_executionContextId in_objectGroup in_silent in_includeCommandLineAPI
     in_returnByValue in_generatePreview in_awaitPromise callback \<equiv> RuntimeImpl_fail_callback callback"

abbreviation RuntimeImpl_releaseObject :: "string16 \<Rightarrow> ('w, DispatchResponse) H" where
  "RuntimeImpl_releaseObject in_objectId \<equiv> RuntimeImpl_not_implemented"

abbreviation RuntimeImpl_releaseObjectGroup :: "string16 \<Rightarrow> ('w, DispatchResponse) H" where
  "RuntimeImpl_releaseObjectGroup in_objectGroup \<equiv> RuntimeImpl_not_implemented"

abbreviation RuntimeImpl_discardConsoleEntries :: "('w, DispatchResponse) H" where
  "RuntimeImpl_discardConsoleEntries \<equiv> RuntimeImpl_not_implemented"

abbreviation RuntimeImpl_setCustomObjectFormatterEnabled :: "bool \<Rightarrow> ('w, DispatchResponse) H" where
  "RuntimeImpl_setCustomObjectFormatterEnabled in_enabled \<equiv> RuntimeImpl_not_implemented"

abbreviation RuntimeImpl_compileScript ::
  "string16 \<Rightarrow> string16 \<Rightarrow> bool \<Rightarrow> cint option \<Rightarrow>
     ('w, DispatchResponse \<times> string16 option \<times> ExceptionDetails option) H" where
  "RuntimeImpl_compileScript in_expression in_sourceURL in_persistScript in_executionContextId \<equiv> retM
     (runtime_error c_NotImplemented, None, None)"

definition both_descriptors ::
  "('w, PropertyDescriptor list) H \<Rightarrow> ('w, InternalPropertyDescriptor list) H \<Rightarrow>
     ('w, DispatchResponse \<times> PropertyDescriptor list option \<times>
        InternalPropertyDescriptor list option \<times> ExceptionDetails option) H" where
  "both_descriptors own internal =
     bindM own (\<lambda>result. bindM internal (\<lambda>internalProperties.
       retM (Response_OK, Some result, Some internalProperties, None)))"

definition RuntimeImpl_getProperties ::
  "'w Env \<Rightarrow> string16 \<Rightarrow> bool option \<Rightarrow> bool option \<Rightarrow> bool option \<Rightarrow>
     ('w, DispatchResponse \<times> PropertyDescriptor list option \<times>
        InternalPropertyDescriptor list option \<times> ExceptionDetails option) H" where
  "RuntimeImpl_getProperties E in_objectId in_ownProperties in_accessorPropertiesOnly in_generatePreview =
     (let J = jsrt_of E; invalid = retM (runtime_error c_Runtime_InvalidObjectId, None, None, None) in
     if in_accessorPropertiesOnly = Some True then retM (Response_OK, Some [], None, None)
     else
       bindM (ParseObjectId in_objectId) (\<lambda>parsedId.
         case getInteger parsedId (lit ''handle'') of
           Some handle \<Rightarrow>
             bindM (GetObjectFromHandle E handle) (\<lambda>obj.
               both_descriptors (GetPropertyDescriptors J obj) (GetInternalPropertyDescriptors J obj))
         | None \<Rightarrow>
             (case (getInteger parsedId (lit ''ordinal''), getString parsedId (lit ''name'')) of
                (Some ordinal, Some name) \<Rightarrow>
                  bindM (GetCallFrame E ordinal) (\<lambda>callFrame.
                    if name = lit ''locals'' then
                      bindM (GetLocals J callFrame) (\<lambda>obj.
                        both_descriptors (LocalScope_GetPropertyDescriptors J obj)
                          (LocalScope_GetInternalPropertyDescriptors obj))
                    else if name = lit ''globals'' then
                      bindM (GetGlobals J callFrame) (\<lambda>obj.
                        both_descriptors (GetPropertyDescriptors J obj)
                          (GetInternalPropertyDescriptors J obj))
                    else invalid)
              | _ \<Rightarrow> invalid)))"

definition RuntimeImpl_runIfWaitingForDebugger :: "nat \<Rightarrow> ('w, DispatchResponse) H" where
  "RuntimeImpl_runIfWaitingForDebugger this =
     bindM (getRI this ri_isEnabled) (\<lambda>isEnabled.
       if \<not> isEnabled then retM (runtime_error c_Runtime_NotEnabled)
       else seqM RunIfWaitingForDebugger (retM Response_OK))"

definition RuntimeImpl_enable :: "nat \<Rightarrow> ('w, DispatchResponse) H" where
  "RuntimeImpl_enable this =
     bindM (getRI this ri_isEnabled) (\<lambda>isEnabled.
       if isEnabled then retM Response_OK
       else seqM (modRI this (\<lambda>a. a\<lparr>ri_isEnabled := True\<rparr>)) (retM Response_OK))"

definition RuntimeImpl_disable :: "nat \<Rightarrow> ('w, DispatchResponse) H" where
  "RuntimeImpl_disable this =
     bindM (getRI this ri_isEnabled) (\<lambda>isEnabled.
       if \<not> isEnabled then retM Response_OK
       else seqM (modRI this (\<lambda>a. a\<lparr>ri_isEnabled := False\<rparr>)) (retM Response_OK))"

subsection \<open>Console messages of the script\<close>

fun type_name :: "JsValueType \<Rightarrow> string" where
  "type_name JsUndefined = ''undefined''"
| "type_name JsNull = ''null''"
| "type_name JsNumber = ''number''"
| "type_name JsString = ''string''"
| "type_name JsBoolean = ''boolean''"
| "type_name JsObject = ''object''"
| "type_name JsFunction = ''function''"
| "type_name JsError = ''error''"
| "type_name JsArray = ''array''"
| "type_name JsSymbol = ''symbol''"
| "type_name JsArrayBuffer = ''arraybuffer''"
| "type_name JsTypedArray = ''typedarray''"
| "type_name JsDataView = ''typedarray''"

text \<open>A null \<open>JsValueRef\<close> is \<open>None\<close> here.\<close>

definition GetTypeString :: "'w JSRT \<Rightarrow> JsValueRef \<Rightarrow> ('w \<times> 'p, fault, JsValueRef option) M" where
  "GetTypeString J object =
     bindM (jsrt (JsGetValueType J object)) (\<lambda>(err, type).
       if err \<noteq> JsNoError then retM None
       else if length (type_name type) \<noteq> 0 then
         bindM (jsrt (JsCreateString J (type_name type))) (\<lambda>(err', typeStringObject).
           retM (if err' = JsNoError then Some typeStringObject else None))
       else retM None)"

definition GetTypeStringAndValue ::
  "'w JSRT \<Rightarrow> JsValueRef \<Rightarrow> ('w \<times> 'p, fault, (JsValueRef \<times> JsValueRef) option) M" where
  "GetTypeStringAndValue J object =
     bindM (GetTypeString J object) (\<lambda>type.
       case type of
         Some t \<Rightarrow> retM (Some (t, object))
       | None \<Rightarrow>
           bindM (jsrt (JsConvertValueToString J object)) (\<lambda>(err, objectValue).
             if err \<noteq> JsNoError then retM None
             else
               bindM (jsrt (JsCreateString J ''string'')) (\<lambda>(err', t).
                 retM (if err' = JsNoError then Some (t, objectValue) else None))))"

text \<open>\<open>JsObjectToJson\<close>: each step only after the one before it succeeded.\<close>

definition if_ok ::
  "('w, 'a) api \<Rightarrow> ('a \<Rightarrow> ('w \<times> 'p, fault, 'b option) M) \<Rightarrow> ('w \<times> 'p, fault, 'b option) M" where
  "if_ok call k = bindM (jsrt call) (\<lambda>(err, v). if err = JsNoError then k v else retM None)"

definition JsObjectToJson :: "'w JSRT \<Rightarrow> JsValueRef \<Rightarrow> ('w \<times> 'p, fault, JsValueRef option) M" where
  "JsObjectToJson J value =
     bindM
       (if_ok (JsGetGlobalObject J) (\<lambda>globalObject.
        if_ok (JsGetPropertyIdFromName J ''JSON'') (\<lambda>propertyId.
        if_ok (JsGetProperty J globalObject propertyId) (\<lambda>jsonObject.
        if_ok (JsGetPropertyIdFromName J ''stringify'') (\<lambda>propertyId'.
        if_ok (JsGetProperty J jsonObject propertyId') (\<lambda>stringifyFunction.
        if_ok (JsCallFunction J stringifyFunction [jsonObject, value]) (\<lambda>returnValue.
          retM (Some returnValue))))))))
       (\<lambda>objectJson. bindM (jsrt (JsGetAndClearException J)) (\<lambda>_. retM objectJson))"

text \<open>One turn of the loop over the arguments; \<open>objectJson != nullptr\<close> is the test of the result.\<close>

definition console_argument ::
  "'w JSRT \<Rightarrow> JsValueRef \<Rightarrow> JsValueRef \<Rightarrow> ('w \<times> 'p, fault, RemoteObject list) M" where
  "console_argument J remoteObject argument =
     bindM (GetTypeStringAndValue J argument) (\<lambda>typeAndValue.
       case typeAndValue of
         None \<Rightarrow> retM []
       | Some (typeString, objectValue) \<Rightarrow>
           bindM (jsrt (JsGetValueType J objectValue)) (\<lambda>(_, valueType).
           bindM (if valueType = JsObject then
                    bindM (JsObjectToJson J objectValue) (\<lambda>objectJson.
                      retM (case objectJson of
                              Some json \<Rightarrow> if json \<noteq> JS_INVALID_REFERENCE then json else objectValue
                            | None \<Rightarrow> objectValue))
                  else retM objectValue) (\<lambda>objectValue'.
           bindM (SetProperty J remoteObject ''type'' typeString) (\<lambda>_.
           bindM (SetProperty J remoteObject ''value'' objectValue') (\<lambda>_.
           bindM (WrapObject J remoteObject) (\<lambda>wrapped. retM [wrapped]))))))"

fun console_arguments ::
  "'w JSRT \<Rightarrow> JsValueRef \<Rightarrow> JsValueRef list \<Rightarrow> ('w \<times> 'p, fault, RemoteObject list) M" where
  "console_arguments J remoteObject [] = retM []"
| "console_arguments J remoteObject (argument # arguments) =
     bindM (console_argument J remoteObject argument) (\<lambda>r.
     bindM (console_arguments J remoteObject arguments) (\<lambda>rs. retM (r @ rs)))"

text \<open>\<open>m_timestamp++\<close> on a \<open>double\<close>: the nearest double to the sum.\<close>

definition dbl_increment :: "dbl \<Rightarrow> dbl" where
  "dbl_increment d =
     (case d of
        Fin s m e \<Rightarrow>
          (let num = (if 0 \<le> e then m * 2 ^ nat e else m);
               den = (if 0 \<le> e then 1 else 2 ^ nat (- e));
               total = (if s then int den - int num else int den + int num)
           in case round_dbl (total < 0) (nat \<bar>total\<bar>) den of Some r \<Rightarrow> r | None \<Rightarrow> Inf (total < 0))
      | _ \<Rightarrow> d)"

definition RuntimeImpl_consoleAPICalled ::
  "'w Env \<Rightarrow> nat \<Rightarrow> string16 \<Rightarrow> JsValueRef list \<Rightarrow> ('w, unit) H" where
  "RuntimeImpl_consoleAPICalled E this type arguments = (let J = jsrt_of E in
     bindM (getRI this ri_isEnabled) (\<lambda>isEnabled.
       if \<not> isEnabled then retM ()
       else
         bindM (jsrt (JsCreateObject J)) (\<lambda>(err, remoteObject).
           if err = JsNoError then
             bindM (console_arguments J remoteObject (tl arguments)) (\<lambda>args.
             bindM (getRI this m_contextId) (\<lambda>contextId.
             bindM (getRI this m_timestamp) (\<lambda>timestamp.
             seqM (modRI this (\<lambda>a. a\<lparr>m_timestamp := dbl_increment timestamp\<rparr>))
               (Runtime_consoleAPICalled (Some (handler_channel E)) type args contextId timestamp None))))
           else retM ())))"

subsection \<open>Console and Schema\<close>

definition ConsoleImpl_enable :: "('w, DispatchResponse) H" where
  "ConsoleImpl_enable = retM Response_OK"

definition ConsoleImpl_disable :: "('w, DispatchResponse) H" where
  "ConsoleImpl_disable = retM Response_OK"

definition ConsoleImpl_clearMessages :: "('w, DispatchResponse) H" where
  "ConsoleImpl_clearMessages = retM (runtime_error c_NotImplemented)"

definition GetSupportedDomains :: "Domain list" where
  "GetSupportedDomains =
     [Domain.make (lit ''Console'') (lit ''1.2''), Domain.make (lit ''Debugger'') (lit ''1.2''),
      Domain.make (lit ''Runtime'') (lit ''1.2'')]"

definition SchemaImpl_getDomains :: "('w, DispatchResponse \<times> Domain list option) H" where
  "SchemaImpl_getDomains = retM (Response_OK, Some GetSupportedDomains)"

subsection \<open>Engine operations\<close>

lemma engine_if_ok [engine_intros]: "(\<And>v. engine_op (k v)) \<Longrightarrow> engine_op (if_ok c k)"
  unfolding if_ok_def by (intro engine_intros)

lemma engine_GetTypeStringAndValue [engine_intros]: "engine_op (GetTypeStringAndValue J v)"
  unfolding GetTypeStringAndValue_def GetTypeString_def by (intro engine_intros)

lemma engine_JsObjectToJson [engine_intros]: "engine_op (JsObjectToJson J v)"
  unfolding JsObjectToJson_def by (intro engine_intros)

lemma engine_console_argument [engine_intros]: "engine_op (console_argument J r v)"
  unfolding console_argument_def by (intro engine_intros)

lemma engine_console_arguments [engine_intros]: "engine_op (console_arguments J r vs)"
  by (induction vs) (auto intro!: engine_intros)

end
