(* ===== verification/ProtocolHandler.thy ===== *)
theory ProtocolHandler
  imports DebuggerAgent RuntimeAgent
begin

section \<open>\<open>ProtocolHandler\<close>\<close>

text \<open>
  \<open>lib/Debugger.ProtocolHandler/ProtocolHandler.\<close>\<open>cpp\<close>: the thread-safe entry points that enqueue commands, the loop
  that processes them on the script's thread, and the wiring of the agents to the dispatcher.

  The other threads of the host are an oracle, the component \<open>arrivals\<close> of the state: each time the
  loop takes the lock, the next batch of their calls has run.  A wait on the condition variable with no
  batch left never returns: \<open>Blocked\<close>.
\<close>

subsection \<open>Entry points of the host\<close>

definition c_ErrorCallbackRequired :: string where
  "c_ErrorCallbackRequired = [CHR 0x27] @ ''callback'' @ [CHR 0x27] @ '' is required''"

definition c_ErrorCommandRequired :: string where
  "c_ErrorCommandRequired = [CHR 0x27] @ ''command'' @ [CHR 0x27] @ '' is required''"

definition c_ErrorRuntimeRequired :: string where
  "c_ErrorRuntimeRequired = [CHR 0x27] @ ''runtime'' @ [CHR 0x27] @ '' is required''"

definition c_ErrorHandlerAlreadyConnected :: string where
  "c_ErrorHandlerAlreadyConnected = ''Handler is already connected''"

definition c_ErrorInvalidCallbackState :: string where
  "c_ErrorInvalidCallbackState =
     [CHR 0x27] @ ''callbackState'' @ [CHR 0x27] @ '' can only be provided with a valid callback''"

definition c_ErrorNoHandlerConnected :: string where
  "c_ErrorNoHandlerConnected = ''No handler is currently connected''"

definition EnqueueCommand :: "CommandType \<Rightarrow> string \<Rightarrow> ('w, unit) H" where
  "EnqueueCommand type message = modH (\<lambda>h. h\<lparr>m_commandQueue := m_commandQueue h @ [(type, message)]\<rparr>)"

definition Connect :: "'w Env \<Rightarrow> bool \<Rightarrow> nat option \<Rightarrow> nat \<Rightarrow> ('w, unit) H" where
  "Connect E breakOnNextLine callback callbackState =
     (case callback of
        None \<Rightarrow> throwM (Throw (JsErrorException JsErrorInvalidArgument c_ErrorCallbackRequired))
      | Some c \<Rightarrow>
          seqM
            (bindM (getH m_sendResponseCallback) (\<lambda>current.
               if current \<noteq> None then throwM (Throw (RuntimeError c_ErrorHandlerAlreadyConnected))
               else
                 seqM (modH (\<lambda>h. h\<lparr>m_sendResponseCallback := Some c,
                         m_sendResponseCallbackState := callbackState,
                         m_breakOnNextLine := breakOnNextLine\<rparr>))
                   (EnqueueCommand CommandConnect [])))
            (RequestAsyncBreak E))"

definition Disconnect :: "'w Env \<Rightarrow> ('w, unit) H" where
  "Disconnect E =
     seqM
       (bindM (getH m_sendResponseCallback) (\<lambda>current.
          if current = None then throwM (Throw (RuntimeError c_ErrorNoHandlerConnected))
          else
            seqM (modH (\<lambda>h. h\<lparr>m_sendResponseCallback := None, m_sendResponseCallbackState := 0,
                    m_breakOnNextLine := False\<rparr>))
              (EnqueueCommand CommandDisconnect [])))
       (RequestAsyncBreak E)"

definition SendCommand :: "'w Env \<Rightarrow> string option \<Rightarrow> ('w, unit) H" where
  "SendCommand E command =
     (case command of
        None \<Rightarrow> throwM (Throw (JsErrorException JsErrorInvalidArgument c_ErrorCommandRequired))
      | Some c \<Rightarrow>
          seqM (EnqueueCommand CommandMessageReceived c)
          (bindM (getH m_commandQueueCallback) (\<lambda>callback.
           bindM (getH m_commandQueueCallbackState) (\<lambda>state.
           seqM (RequestAsyncBreak E)
             (case callback of
                None \<Rightarrow> retM ()
              | Some f \<Rightarrow> modH (\<lambda>h. h\<lparr>host_log := host_log h @ [CommandQueueNotified f state]\<rparr>))))))"

definition SetCommandQueueCallback :: "nat option \<Rightarrow> nat \<Rightarrow> ('w, unit) H" where
  "SetCommandQueueCallback callback callbackState =
     (if callback = None \<and> callbackState \<noteq> 0
      then throwM (Throw (JsErrorException JsErrorInvalidArgument c_ErrorInvalidCallbackState))
      else modH (\<lambda>h. h\<lparr>m_commandQueueCallback := callback,
                   m_commandQueueCallbackState := callbackState\<rparr>))"

text \<open>One call of another thread; what it throws is that thread's error code.\<close>

definition run_host_call :: "'w Env \<Rightarrow> host_call \<Rightarrow> ('w, unit) H" where
  "run_host_call E call =
     bindM (TranslateException
       (case call of
          HostConnect b callback state \<Rightarrow> Connect E b callback state
        | HostDisconnect \<Rightarrow> Disconnect E
        | HostSendCommand command \<Rightarrow> SendCommand E command
        | HostSetCommandQueueCallback callback state \<Rightarrow> SetCommandQueueCallback callback state))
       (\<lambda>_. retM ())"

definition host_arrivals :: "'w Env \<Rightarrow> ('w, unit) H" where
  "host_arrivals E =
     bindM (getH arrivals) (\<lambda>batches.
       case batches of
         [] \<Rightarrow> retM ()
       | calls # rest \<Rightarrow>
           seqM (modH (\<lambda>h. h\<lparr>arrivals := rest\<rparr>)) (forM calls (run_host_call E)))"

subsection \<open>The backends behind the domain dispatchers\<close>

text \<open>A virtual call through the backend pointer reads the object it points to.\<close>

definition via_agent :: "(Handler \<Rightarrow> nat option) \<Rightarrow> nat \<Rightarrow> ('w, 'a) H \<Rightarrow> ('w, 'a) H" where
  "via_agent agent_of this m = seqM (live_agent agent_of this) m"

definition via_debugger :: "nat \<Rightarrow> ('w, 'a) H \<Rightarrow> ('w, 'a) H" where
  "via_debugger = via_agent (\<lambda>h. map_option di_id (m_debuggerAgent h))"

definition via_runtime :: "nat \<Rightarrow> ('w, 'a) H \<Rightarrow> ('w, 'a) H" where
  "via_runtime = via_agent (\<lambda>h. map_option ri_id (m_runtimeAgent h))"

definition debugger_backend :: "'w Env \<Rightarrow> nat \<Rightarrow> ('w \<times> Handler) DebuggerBackend" where
  "debugger_backend E this =
     DebuggerBackend.make
        (via_debugger this (DebuggerImpl_enable E this))
        (via_debugger this (DebuggerImpl_disable E this))
        (\<lambda>in_active. via_debugger this (DebuggerImpl_setBreakpointsActive in_active))
        (\<lambda>in_skip. via_debugger this (DebuggerImpl_setSkipAllPauses in_skip))
        (\<lambda>line url urlRegex column condition.
           via_debugger this
             (DebuggerImpl_setBreakpointByUrl E this line url urlRegex column condition))
        (\<lambda>loc condition. via_debugger this
           (DebuggerImpl_setBreakpoint E this loc condition))
        (\<lambda>breakpointId. via_debugger this (DebuggerImpl_removeBreakpoint E this breakpointId))
        (\<lambda>in_location. via_debugger this (DebuggerImpl_continueToLocation in_location))
        (via_debugger this (DebuggerImpl_stepOver E))
        (via_debugger this (DebuggerImpl_stepInto E))
        (via_debugger this (DebuggerImpl_stepOut E))
        (via_debugger this (DebuggerImpl_pause E))
        (via_debugger this (DebuggerImpl_resume this))
        (\<lambda>in_scriptId in_query in_caseSensitive in_isRegex. via_debugger this (DebuggerImpl_searchInContent
           in_scriptId in_query in_caseSensitive in_isRegex))
        (\<lambda>in_scriptId in_scriptSource in_dryRun. via_debugger this (DebuggerImpl_setScriptSource in_scriptId
           in_scriptSource in_dryRun))
        (\<lambda>in_callFrameId. via_debugger this (DebuggerImpl_restartFrame in_callFrameId))
        (\<lambda>scriptId. via_debugger this
           (DebuggerImpl_getScriptSource E this scriptId))
        (\<lambda>state. via_debugger this (DebuggerImpl_setPauseOnExceptions E state))
        (\<lambda>callFrameId expression objectGroup commandLineAPI silent returnByValue preview.
           via_debugger this
             (DebuggerImpl_evaluateOnCallFrame E callFrameId expression objectGroup commandLineAPI
               silent returnByValue preview))
        (\<lambda>in_scopeNumber in_variableName in_newValue in_callFrameId. via_debugger this
           (DebuggerImpl_setVariableValue in_scopeNumber in_variableName in_newValue in_callFrameId))
        (\<lambda>in_maxDepth. via_debugger this (DebuggerImpl_setAsyncCallStackDepth in_maxDepth))
        (\<lambda>in_patterns. via_debugger this (DebuggerImpl_setBlackboxPatterns in_patterns))
        (\<lambda>in_scriptId in_positions. via_debugger this (DebuggerImpl_setBlackboxedRanges in_scriptId
           in_positions))"

definition runtime_backend :: "'w Env \<Rightarrow> nat \<Rightarrow> ('w \<times> Handler) RuntimeBackend" where
  "runtime_backend E this =
     RuntimeBackend.make
        (\<lambda>in_expression in_objectGroup in_includeCommandLineAPI in_silent in_contextId in_returnByValue
           in_generatePreview in_userGesture in_awaitPromise callback. via_runtime this (RuntimeImpl_evaluate
           in_expression in_objectGroup in_includeCommandLineAPI in_silent in_contextId in_returnByValue
           in_generatePreview in_userGesture in_awaitPromise callback))
        (\<lambda>in_promiseObjectId in_returnByValue in_generatePreview callback. via_runtime this
           (RuntimeImpl_awaitPromise in_promiseObjectId in_returnByValue in_generatePreview callback))
        (\<lambda>in_objectId in_functionDeclaration in_arguments in_silent in_returnByValue in_generatePreview
           in_userGesture in_awaitPromise callback. via_runtime this (RuntimeImpl_callFunctionOn in_objectId
           in_functionDeclaration in_arguments in_silent in_returnByValue in_generatePreview in_userGesture
           in_awaitPromise callback))
        (\<lambda>objectId own accessorOnly preview.
           via_runtime this
             (RuntimeImpl_getProperties E objectId own accessorOnly preview))
        (\<lambda>in_objectId. via_runtime this (RuntimeImpl_releaseObject in_objectId))
        (\<lambda>in_objectGroup. via_runtime this (RuntimeImpl_releaseObjectGroup in_objectGroup))
        (via_runtime this (RuntimeImpl_runIfWaitingForDebugger this))
        (via_runtime this (RuntimeImpl_enable this))
        (via_runtime this (RuntimeImpl_disable this))
        (via_runtime this RuntimeImpl_discardConsoleEntries)
        (\<lambda>in_enabled. via_runtime this (RuntimeImpl_setCustomObjectFormatterEnabled in_enabled))
        (\<lambda>in_expression in_sourceURL in_persistScript in_executionContextId. via_runtime this
           (RuntimeImpl_compileScript in_expression in_sourceURL in_persistScript in_executionContextId))
        (\<lambda>in_scriptId in_executionContextId in_objectGroup in_silent in_includeCommandLineAPI in_returnByValue
           in_generatePreview in_awaitPromise callback. via_runtime this (RuntimeImpl_runScript in_scriptId
           in_executionContextId in_objectGroup in_silent in_includeCommandLineAPI in_returnByValue in_generatePreview
           in_awaitPromise callback))"

definition console_backend :: "nat \<Rightarrow> ('w \<times> Handler) ConsoleBackend" where
  "console_backend this =
     ConsoleBackend.make (via_agent m_consoleAgent this ConsoleImpl_enable)
       (via_agent m_consoleAgent this ConsoleImpl_disable)
       (via_agent m_consoleAgent this ConsoleImpl_clearMessages)"

definition schema_backend :: "nat \<Rightarrow> ('w \<times> Handler) SchemaBackend" where
  "schema_backend this = SchemaBackend.make (via_agent m_schemaAgent this SchemaImpl_getDomains)"

subsection \<open>The dispatcher\<close>

definition dispatcher_of :: "nat \<Rightarrow> Handler \<Rightarrow> DomainDispatcher option" where
  "dispatcher_of i h = find (\<lambda>d. dd_id d = i) (map snd (m_dispatchers (m_dispatcher h)))"

definition set_callbacks :: "nat \<Rightarrow> (CallbackState \<Rightarrow> CallbackState) \<Rightarrow> Handler \<Rightarrow> Handler" where
  "set_callbacks i f h =
     h\<lparr>m_dispatcher := (m_dispatcher h)\<lparr>m_dispatchers :=
        map (\<lambda>(name, d). (name, if dd_id d = i then d\<lparr>dd_callbacks := f (dd_callbacks d)\<rparr> else d))
          (m_dispatchers (m_dispatcher h))\<rparr>\<rparr>"

definition dispatcher_base :: "'w Env \<Rightarrow> DomainDispatcher \<Rightarrow> ('w \<times> Handler) DispatcherBase" where
  "dispatcher_base E d =
     DispatcherBase.make (Some (handler_channel E)) (dd_fallThrough d)
       (\<lambda>s. dispatcher_of (dd_id d) (snd s) \<noteq> None)
       (\<lambda>s. case dispatcher_of (dd_id d) (snd s) of
              Some d' \<Rightarrow> dd_callbacks d' | None \<Rightarrow> CallbackState_init)
       (\<lambda>f (w, h). (w, set_callbacks (dd_id d) f h))"

definition call_dispatcher ::
  "'w Env \<Rightarrow> DomainDispatcher \<Rightarrow> cint \<Rightarrow> string16 \<Rightarrow> dict \<Rightarrow> ('w, Status) H" where
  "call_dispatcher E d callId method messageObject =
     (let D = dispatcher_base E d in
      case dd_domain d of
        ConsoleDomain \<Rightarrow>
          domain_dispatch D (Console_dispatchMap D (console_backend (dd_backend d))) callId method
            messageObject
      | DebuggerDomain \<Rightarrow>
          domain_dispatch D (Debugger_dispatchMap D (debugger_backend E (dd_backend d))) callId method
            messageObject
      | RuntimeDomain \<Rightarrow>
          domain_dispatch D (Runtime_dispatchMap D (runtime_backend E (dd_backend d))) callId method
            messageObject
      | SchemaDomain \<Rightarrow>
          domain_dispatch D (Schema_dispatchMap D (schema_backend (dd_backend d))) callId method
            messageObject)"

definition dispatch :: "'w Env \<Rightarrow> val option \<Rightarrow> ('w, Status) H" where
  "dispatch E parsedMessage =
     bindM (getH m_dispatcher) (\<lambda>u.
       uber_dispatch (Some (handler_channel E)) (call_dispatcher E) u parsedMessage)"

fun domain_name :: "DomainName \<Rightarrow> string16" where
  "domain_name ConsoleDomain = lit ''Console''"
| "domain_name DebuggerDomain = lit ''Debugger''"
| "domain_name RuntimeDomain = lit ''Runtime''"
| "domain_name SchemaDomain = lit ''Schema''"

text \<open>\<open>Dispatcher::wire\<close> of each domain: a new dispatcher, without redirects, registered under the domain's name.\<close>

definition wire :: "DomainName \<Rightarrow> nat \<Rightarrow> ('w, unit) H" where
  "wire domain backend =
     modH (\<lambda>h. h\<lparr>next_object := Suc (next_object h),
       m_dispatcher := registerBackend (domain_name domain)
         (DomainDispatcher.make domain (next_object h) backend
           (u_fallThroughForNotFound (m_dispatcher h)) CallbackState_init)
         (setupRedirects [] (m_dispatcher h))\<rparr>)"

subsection \<open>Commands\<close>

text \<open>A destructor that throws calls \<open>std::terminate\<close>.\<close>

definition no_throw :: "('s, fault, 'a) M \<Rightarrow> ('s, fault, 'a) M" where
  "no_throw m = (\<lambda>s. case m s of (Inl (Throw e), t) \<Rightarrow> (Inl Terminated, t) | r \<Rightarrow> r)"

definition new_object :: "('w, nat) H" where
  "new_object = seqM (modH (\<lambda>h. h\<lparr>next_object := Suc (next_object h)\<rparr>))
     (getH (\<lambda>h. next_object h - 1))"

text \<open>\<open>m_debuggerAgent\<close> is reset or overwritten: \<open>~DebuggerImpl\<close> disables the old agent.\<close>

definition delete_debugger_agent :: "'w Env \<Rightarrow> ('w, unit) H" where
  "delete_debugger_agent E =
     bindM (getH m_debuggerAgent) (\<lambda>agent.
       case agent of
         None \<Rightarrow> retM ()
       | Some a \<Rightarrow>
           seqM (no_throw (DebuggerImpl_disable E (di_id a)))
             (modH (\<lambda>h. h\<lparr>m_debuggerAgent := None\<rparr>)))"

definition HandleConnect :: "'w Env \<Rightarrow> ('w, unit) H" where
  "HandleConnect E =
     bindM (getH m_isConnected) (\<lambda>isConnected.
       if isConnected then throwM (Throw (RuntimeError ''Already connected''))
       else
         seqM (bindM new_object (\<lambda>this.
           seqM (modH (\<lambda>h. h\<lparr>m_consoleAgent := Some this\<rparr>)) (wire ConsoleDomain this)))
         (seqM (bindM new_object (\<lambda>this.
           seqM (delete_debugger_agent E)
           (seqM (modH (\<lambda>h. h\<lparr>m_debuggerAgent := Some (DebuggerImpl.make this False False [] [])\<rparr>))
             (wire DebuggerDomain this))))
         (seqM (bindM new_object (\<lambda>this.
           seqM (modH (\<lambda>h. h\<lparr>m_runtimeAgent := Some (RuntimeImpl_new this)\<rparr>))
             (wire RuntimeDomain this)))
         (seqM (bindM new_object (\<lambda>this.
           seqM (modH (\<lambda>h. h\<lparr>m_schemaAgent := Some this\<rparr>)) (wire SchemaDomain this)))
         (seqM (bindM (getH m_breakOnNextLine) (\<lambda>breakOnNextLine.
           if breakOnNextLine then PauseOnNextStatement E else retM ()))
           (modH (\<lambda>h. h\<lparr>m_isConnected := True\<rparr>)))))))"

definition HandleDisconnect :: "'w Env \<Rightarrow> ('w, unit) H" where
  "HandleDisconnect E =
     bindM (getH m_isConnected) (\<lambda>isConnected.
       if \<not> isConnected then throwM (Throw (RuntimeError ''Not currently connected''))
       else
         seqM (modH (\<lambda>h. h\<lparr>m_consoleAgent := None\<rparr>))
         (seqM (delete_debugger_agent E)
         (seqM (modH (\<lambda>h. h\<lparr>m_runtimeAgent := None\<rparr>))
         (seqM (modH (\<lambda>h. h\<lparr>m_schemaAgent := None\<rparr>))
         (seqM RunIfWaitingForDebugger
           (modH (\<lambda>h. h\<lparr>m_isConnected := False\<rparr>)))))))"

definition HandleMessageReceived :: "'w Env \<Rightarrow> string \<Rightarrow> ('w, unit) H" where
  "HandleMessageReceived E message =
     bindM (dispatch E (parseJSON (fromUtf8 (utf8_decode E) message))) (\<lambda>_. retM ())"

definition process_command :: "'w Env \<Rightarrow> CommandType \<times> string \<Rightarrow> ('w, unit) H" where
  "process_command E command =
     (case fst command of
        CommandConnect \<Rightarrow> HandleConnect E
      | CommandDisconnect \<Rightarrow> HandleDisconnect E
      | CommandMessageReceived \<Rightarrow> HandleMessageReceived E (snd command)
      | CommandNone \<Rightarrow> throwM (Throw (RuntimeError ''Unknown command type'')))"

fun ProcessCommandQueue_loop :: "nat \<Rightarrow> 'w Env \<Rightarrow> ('w, unit) H" where
  "ProcessCommandQueue_loop 0 E = throwM (OutOfFuel CommandLoop)"
| "ProcessCommandQueue_loop (Suc fuel) E =
     seqM (host_arrivals E)
     (bindM (getH (\<lambda>h. m_waitingForDebugger h \<and> m_commandQueue h = [] \<and> arrivals h = [])) (\<lambda>blocked.
        if blocked then throwM Blocked
        else
          bindM (getH m_commandQueue) (\<lambda>current.
          seqM (modH (\<lambda>h. h\<lparr>m_commandQueue := []\<rparr>))
          (seqM (forM current (process_command E))
          (bindM (getH m_waitingForDebugger) (\<lambda>waiting.
             if waiting \<or> current \<noteq> [] then ProcessCommandQueue_loop fuel E else retM ()))))))"

text \<open>
  A batch is used up by each turn, and a turn without a batch left either ends the loop, blocks, or
  empties the queue for good: two more turns than batches are enough.
\<close>

definition ProcessCommandQueue :: "'w Env \<Rightarrow> ('w, unit) H" where
  "ProcessCommandQueue E =
     bindM (getH m_debugContext) (\<lambda>debugContext.
     with_scope (jsrt_of E) debugContext
       (bindM (getH (\<lambda>h. length (arrivals h) + 2)) (\<lambda>fuel. ProcessCommandQueue_loop fuel E)))"

definition WaitForDebugger :: "'w Env \<Rightarrow> ('w, unit) H" where
  "WaitForDebugger E =
     seqM (modH (\<lambda>h. h\<lparr>m_waitingForDebugger := True\<rparr>)) (ProcessCommandQueue E)"

subsection \<open>Construction, destruction and the console\<close>

definition Handler_init :: "JsContextRef \<Rightarrow> Handler" where
  "Handler_init debugContext =
     Handler.make debugContext False False False False None None None 0 None 0 [] False False False
       UberDispatcher_init None None None None 0 [] []"

text \<open>
  The constructor and the destructor of \<open>Debugger\<close>: its members are fields of \<open>Handler\<close>, whose initial values
  \<open>Handler_init\<close> holds; what can fail is the debug context and the start of debugging.  The destructor ignores errors.
\<close>

definition Debugger_new :: "'w Env \<Rightarrow> ('w \<times> 'p, fault, JsContextRef) M" where
  "Debugger_new E =
     bindM (DebuggerContext (jsrt_of E)) (\<lambda>debugContext.
     seqM (js (jsrt_of E) (JsDiagStartDebugging (jsrt_of E)))
       (retM debugContext))"

definition Debugger_delete :: "'w Env \<Rightarrow> ('w, unit) H" where
  "Debugger_delete E = bindM (jsrt (JsDiagStopDebugging (jsrt_of E))) (\<lambda>_. retM ())"

definition ProtocolHandler_new :: "'w Env \<Rightarrow> nat option \<Rightarrow> ('w \<times> 'p, fault, Handler) M" where
  "ProtocolHandler_new E runtime =
     (case runtime of
        None \<Rightarrow> throwM (Throw (JsErrorException JsErrorInvalidArgument c_ErrorRuntimeRequired))
      | Some r \<Rightarrow>
          bindM (Debugger_new E) (\<lambda>debugContext. retM (Handler_init debugContext)))"

definition ProtocolHandler_delete :: "'w Env \<Rightarrow> ('w, unit) H" where
  "ProtocolHandler_delete E =
     seqM (modH (\<lambda>h. h\<lparr>m_schemaAgent := None\<rparr>))
     (seqM (modH (\<lambda>h. h\<lparr>m_runtimeAgent := None\<rparr>))
     (seqM (delete_debugger_agent E)
     (seqM (modH (\<lambda>h. h\<lparr>m_consoleAgent := None\<rparr>))
       (Debugger_delete E))))"

definition ConsoleAPICalled :: "'w Env \<Rightarrow> string16 \<Rightarrow> JsValueRef list \<Rightarrow> ('w, unit) H" where
  "ConsoleAPICalled E apiType arguments =
     bindM (getH m_isConnected) (\<lambda>isConnected.
       if isConnected then
         bindM (getH m_runtimeAgent) (\<lambda>agent.
           case agent of
             Some a \<Rightarrow> RuntimeImpl_consoleAPICalled E (ri_id a) apiType arguments
           | None \<Rightarrow> throwM (Undefined NullDereference))
       else retM ())"

end
