(* ===== verification/Replies.thy ===== *)
theory Replies
  imports ProtocolHandler
begin

section \<open>Replies\<close>

text \<open>
  What the dispatchers rely on in a channel (\<open>reply_channel\<close>: every message that has a text is sent, once) and in
  the state of a dispatcher (\<open>reply_base\<close>), the lemmas on rejected messages and on callbacks proved from it, and
  the interpretations by the handler's channel and dispatchers.
\<close>

definition target :: "'d UberDispatcher \<Rightarrow> string16 \<Rightarrow> 'd option" where
  "target u method =
     (case find_string method (lit ''.'') of
        None \<Rightarrow> None
      | Some dotIndex \<Rightarrow> map_of (m_dispatchers u) (take dotIndex method))"

definition request :: "'d UberDispatcher \<Rightarrow> val \<Rightarrow> dict \<Rightarrow> cint \<Rightarrow> string16 \<Rightarrow> bool" where
  "request u v d callId method \<longleftrightarrow>
     DictionaryValue_cast (Some v) = Some d \<and>
     Option.bind (dict_get d (lit ''id'')) asInteger = Some callId \<and>
     Option.bind (dict_get d (lit ''method'')) asString = Some method \<and>
     m_redirects u = [] \<and> \<not> u_fallThroughForNotFound u"

locale reply_channel =
  fixes C :: "'s FrontendChannel" and ok :: "'s \<Rightarrow> bool" and push :: "Serializable \<Rightarrow> 's \<Rightarrow> 's"
    and replies :: "'s \<Rightarrow> 'r list" and encode :: "Serializable \<Rightarrow> 'r"
  assumes response: "ok s \<Longrightarrow> wf_message m \<Longrightarrow> sendProtocolResponse C callId m s = (Inr (), push m s)"
    and notification: "ok s \<Longrightarrow> wf_message m \<Longrightarrow> sendProtocolNotification C m s = (Inr (), push m s)"
    and ok_push: "ok s \<Longrightarrow> ok (push m s)"
    and replies_push: "ok s \<Longrightarrow> wf_message m \<Longrightarrow> replies (push m s) = replies s @ [encode m]"
begin

lemma error_wf [simp]:
  "wf_message (createErrorResponse callId code msg errs)" "wf_message (createErrorNotification code msg)"
  by (simp_all add: wf_message_def createErrorResponse_def createErrorNotification_def)

lemma error_reply:
  "ok s \<Longrightarrow> reportProtocolErrorTo (Some C) callId code msg errs s =
     (Inr (), push (createErrorResponse callId code msg errs) s)"
  by (simp add: reportProtocolErrorTo_def response)

lemma error_notification:
  "ok s \<Longrightarrow> reportProtocolErrorNotification (Some C) code msg s =
     (Inr (), push (createErrorNotification code msg) s)"
  by (simp add: reportProtocolErrorNotification_def notification)

text \<open>A handler whose parameters are wrong answers so and does not call the backend.\<close>

lemma invalid_params:
  assumes "ok s" and "m_frontendChannel D = Some C" and "read_params body obj = (p, errs)" and "hasErrors errs"
  shows "with_params D callId obj body call s =
    (Inr kError, push (createErrorResponse callId kInvalidParams (lit kInvalidParamsString) (Some errs)) s)"
  using assms by (simp add: with_params_def seqM_def bindM_def retM_def error_reply)

lemma unknown_method:
  assumes "ok s" and "m_frontendChannel D = Some C" and "\<not> m_fallThroughForNotFound D" and "map_of m method = None"
  shows "domain_dispatch D m callId method obj s =
    (Inr kError, push (createErrorResponse callId kMethodNotFound (notFoundMessage method) None) s)"
  using assms by (simp add: domain_dispatch_def seqM_def bindM_def retM_def error_reply)

lemma no_json:
  "ok s \<Longrightarrow> uber_dispatch (Some C) call u None s =
     (Inr kError, push (createErrorNotification kParseError (lit ''Message must be a valid JSON'')) s)"
  by (simp add: uber_dispatch_def seqM_def bindM_def retM_def error_notification)

lemma no_object:
  "ok s \<Longrightarrow> DictionaryValue_cast (Some v) = None \<Longrightarrow> uber_dispatch (Some C) call u (Some v) s =
     (Inr kError, push (createErrorNotification kInvalidRequest (lit ''Message must be an object'')) s)"
  by (simp add: uber_dispatch_def seqM_def bindM_def retM_def error_notification)

lemma no_id:
  "ok s \<Longrightarrow> DictionaryValue_cast (Some v) = Some d \<Longrightarrow> Option.bind (dict_get d (lit ''id'')) asInteger = None \<Longrightarrow>
     uber_dispatch (Some C) call u (Some v) s =
     (Inr kError, push (createErrorNotification kInvalidRequest
        (lit (''Message must have integer '' @ [CHR 0x27] @ ''id'' @ [CHR 0x27] @ '' property''))) s)"
  by (simp add: uber_dispatch_def seqM_def bindM_def retM_def error_notification)

lemma no_method:
  "ok s \<Longrightarrow> DictionaryValue_cast (Some v) = Some d \<Longrightarrow>
     Option.bind (dict_get d (lit ''id'')) asInteger = Some callId \<Longrightarrow>
     Option.bind (dict_get d (lit ''method'')) asString = None \<Longrightarrow>
     uber_dispatch (Some C) call u (Some v) s =
     (Inr kError, push (createErrorResponse callId kInvalidRequest
        (lit (''Message must have string '' @ [CHR 0x27] @ ''method'' @ [CHR 0x27] @ '' property'')) None) s)"
  by (simp add: uber_dispatch_def seqM_def bindM_def retM_def error_reply)

text \<open>A request for a domain: its dispatcher, or nobody.\<close>

lemma no_domain:
  "ok s \<Longrightarrow> request u v d callId method \<Longrightarrow> target u method = None \<Longrightarrow>
     uber_dispatch (Some C) call u (Some v) s =
     (Inr kError, push (createErrorResponse callId kMethodNotFound (notFoundMessage method) None) s)"
  by (auto simp: request_def target_def uber_dispatch_def seqM_def bindM_def retM_def error_reply
      split: option.splits)

lemma for_domain:
  "request u v d callId method \<Longrightarrow> target u method = Some it \<Longrightarrow>
     uber_dispatch (Some C) call u (Some v) s = call it callId method d s"
  by (auto simp: request_def target_def uber_dispatch_def split: option.splits)

end

text \<open>What a response is sent as.\<close>

definition response_message :: "cint \<Rightarrow> DispatchResponse \<Rightarrow> val option \<Rightarrow> Serializable" where
  "response_message callId response result =
     (if m_status response = kError
      then createErrorResponse callId (m_errorCode response) (m_errorMessage response) None
      else createResponse callId result)"

text \<open>
  The state of one dispatcher: what its callbacks write is read back, while it exists, and does not depend on what
  is sent.
\<close>

locale reply_base = reply_channel C ok push replies encode
  for C :: "'s FrontendChannel" and ok push and replies :: "'s \<Rightarrow> 'r list" and encode +
  fixes D :: "'s DispatcherBase"
  assumes channel: "m_frontendChannel D = Some C"
    and weak_push [simp]: "weak_get D (push m s) = weak_get D s"
    and state_push [simp]: "callback_state D (push m s) = callback_state D s"
    and weak_update [simp]: "weak_get D (update_callback_state D f s) = weak_get D s"
    and state_update [simp]: "weak_get D s \<Longrightarrow>
      callback_state D (update_callback_state D f s) = f (callback_state D s)"
    and ok_update [simp]: "ok (update_callback_state D f s) = ok s"
    and replies_update [simp]: "replies (update_callback_state D f s) = replies s"
begin

lemma send_response:
  "ok s \<Longrightarrow> wf_message (response_message callId response result) \<Longrightarrow>
     sendResponse (Some C) callId response result s = (Inr (), push (response_message callId response result) s)"
  by (simp add: sendResponse_def response_message_def error_reply response split: if_splits)

text \<open>A callback answers the first time it is used, if the dispatcher exists, and never again.\<close>

lemma answers:
  assumes "ok s" and "wf_message (response_message callId response result)"
    and "callback_active D callbackId s" and "sendIfActive D callId callbackId result response s = (r, t)"
  shows "r = Inr () \<and> ok t \<and> \<not> callback_active D callbackId t \<and>
    replies t = replies s @ [encode (response_message callId response result)]"
  using assms
  by (auto simp: sendIfActive_def callback_active_def dispose_callback_def seqM_def bindM_def getM_def
      modifyM_def channel send_response replies_push ok_push)

lemma silent:
  "\<not> callback_active D callbackId s \<Longrightarrow> sendIfActive D callId callbackId result response s = (Inr (), s)"
  by (simp add: sendIfActive_def bindM_def getM_def retM_def)

end

subsection \<open>The handler's channel and dispatchers\<close>

definition message_text :: "'w Env \<Rightarrow> Serializable \<Rightarrow> string" where
  "message_text E m = (case serialize_message m of Some t \<Rightarrow> toUtf8 (utf8_encode E) t | None \<Rightarrow> [])"

definition connected_to :: "nat \<Rightarrow> nat \<Rightarrow> 'w \<times> Handler \<Rightarrow> bool" where
  "connected_to callback state s \<longleftrightarrow>
     m_sendResponseCallback (snd s) = Some callback \<and> m_sendResponseCallbackState (snd s) = state"

definition log_reply :: "'w Env \<Rightarrow> nat \<Rightarrow> nat \<Rightarrow> Serializable \<Rightarrow> 'w \<times> Handler \<Rightarrow> 'w \<times> Handler" where
  "log_reply E callback state m s =
     (fst s, (snd s)\<lparr>host_log := host_log (snd s) @ [ResponseSent callback (message_text E m) state]\<rparr>)"

interpretation reply: reply_channel "handler_channel E" "connected_to callback state"
    "log_reply E callback state" "\<lambda>s. host_log (snd s)" "\<lambda>m. ResponseSent callback (message_text E m) state"
  for E callback state
proof unfold_locales
  fix s :: "'a \<times> Handler" and m callId
  show "connected_to callback state (log_reply E callback state m s)" if "connected_to callback state s"
    using that by (simp add: connected_to_def log_reply_def)
  show "host_log (snd (log_reply E callback state m s)) =
      host_log (snd s) @ [ResponseSent callback (message_text E m) state]"
    by (simp add: log_reply_def)
  assume ok: "connected_to callback state s" and "wf_message m"
  then obtain t where t: "serialize_message m = Some t" using serialize_message_total by blast
  show "sendProtocolResponse (handler_channel E) callId m s = (Inr (), log_reply E callback state m s)"
    using ok t by (cases s) (simp add: connected_to_def handler_channel_def FrontendChannel.make_def
        handler_sendProtocolResponse_def handler_sendProtocolNotification_def SendResponse_def modH_def
        modifyM_def log_reply_def message_text_def)
  show "sendProtocolNotification (handler_channel E) m s = (Inr (), log_reply E callback state m s)"
    using ok t by (cases s) (simp add: connected_to_def handler_channel_def FrontendChannel.make_def
        handler_sendProtocolNotification_def SendResponse_def modH_def
        modifyM_def log_reply_def message_text_def)
qed

lemma dispatcher_of_callbacks:
  "dispatcher_of i h = Some d \<Longrightarrow>
     dispatcher_of i (set_callbacks i f h) = Some (d\<lparr>dd_callbacks := f (dd_callbacks d)\<rparr>)"
  "dispatcher_of i h = None \<Longrightarrow> dispatcher_of i (set_callbacks j f h) = None"
proof -
  have "find (\<lambda>d. dd_id d = i) (map snd (map (\<lambda>(name, d).
      (name, if dd_id d = i then d\<lparr>dd_callbacks := f (dd_callbacks d)\<rparr> else d)) ds)) =
    map_option (\<lambda>d. d\<lparr>dd_callbacks := f (dd_callbacks d)\<rparr>) (find (\<lambda>d. dd_id d = i) (map snd ds))"
    for ds :: "(string16 \<times> DomainDispatcher) list"
    by (induction ds) auto
  then show "dispatcher_of i h = Some d \<Longrightarrow>
     dispatcher_of i (set_callbacks i f h) = Some (d\<lparr>dd_callbacks := f (dd_callbacks d)\<rparr>)"
    by (simp add: dispatcher_of_def set_callbacks_def)
  have "find (\<lambda>d. dd_id d = i) (map snd (map (\<lambda>(name, d).
      (name, if dd_id d = j then d\<lparr>dd_callbacks := f (dd_callbacks d)\<rparr> else d)) ds)) = None"
    if "find (\<lambda>d. dd_id d = i) (map snd ds) = None" for ds :: "(string16 \<times> DomainDispatcher) list"
    using that by (induction ds) (auto split: if_splits)
  then show "dispatcher_of i h = None \<Longrightarrow> dispatcher_of i (set_callbacks j f h) = None"
    by (simp add: dispatcher_of_def set_callbacks_def)
qed

interpretation base: reply_base "handler_channel E" "connected_to callback state"
    "log_reply E callback state" "\<lambda>s. host_log (snd s)" "\<lambda>m. ResponseSent callback (message_text E m) state"
    "dispatcher_base E d"
  for E callback state d
proof unfold_locales
  fix s :: "'a \<times> Handler" and m f
  show "m_frontendChannel (dispatcher_base E d) = Some (handler_channel E)"
    by (simp add: dispatcher_base_def DispatcherBase.make_def)
  show "weak_get (dispatcher_base E d) (log_reply E callback state m s) = weak_get (dispatcher_base E d) s"
    "callback_state (dispatcher_base E d) (log_reply E callback state m s) =
       callback_state (dispatcher_base E d) s"
    by (simp_all add: dispatcher_base_def DispatcherBase.make_def log_reply_def dispatcher_of_def)
  have update: "update_callback_state (dispatcher_base E d) f s = (fst s, set_callbacks (dd_id d) f (snd s))"
    by (cases s) (simp add: dispatcher_base_def DispatcherBase.make_def)
  show "weak_get (dispatcher_base E d) (update_callback_state (dispatcher_base E d) f s) =
      weak_get (dispatcher_base E d) s"
    unfolding update using dispatcher_of_callbacks [of "dd_id d" "snd s"]
    by (cases "dispatcher_of (dd_id d) (snd s)") (simp_all add: dispatcher_base_def DispatcherBase.make_def)
  show "callback_state (dispatcher_base E d) (update_callback_state (dispatcher_base E d) f s) =
      f (callback_state (dispatcher_base E d) s)" if "weak_get (dispatcher_base E d) s"
    unfolding update using that dispatcher_of_callbacks [of "dd_id d" "snd s"]
    by (auto simp add: dispatcher_base_def DispatcherBase.make_def)
  show "connected_to callback state (update_callback_state (dispatcher_base E d) f s) =
      connected_to callback state s"
    unfolding update by (simp add: connected_to_def set_callbacks_def)
  show "host_log (snd (update_callback_state (dispatcher_base E d) f s)) = host_log (snd s)"
    unfolding update by (simp add: set_callbacks_def)
qed

end
