(* ===== verification/DebugEvents.thy ===== *)
theory DebugEvents
  imports ProtocolHandler
begin

section \<open>Debug events, the console object and the C interface\<close>

text \<open>
  The event handling of \<open>Debugger.cpp\<close>, \<open>ConsoleHandler.cpp\<close> and the functions of
  \<open>ChakraDebugProtocolHandler.cpp\<close>.  A debug event is a step of its own: the engine calls
  \<open>DebugEventCallback\<close> while it runs the script.
\<close>

subsection \<open>Debug events\<close>

definition Debugger_HandleSourceEvent :: "'w Env \<Rightarrow> JsValueRef \<Rightarrow> bool \<Rightarrow> ('w, unit) H" where
  "Debugger_HandleSourceEvent E eventData success =
     bindM (getH m_sourceEventCallback) (\<lambda>callback.
       case callback of
         None \<Rightarrow> retM ()
       | Some this \<Rightarrow>
           bindM (getH m_debugContext) (\<lambda>debugContext.
           bindM (DebuggerScript_new (script_fuel E) (jsrt_of E) debugContext eventData) (\<lambda>scriptInfo.
             DebuggerImpl_HandleSourceEvent E this scriptInfo success)))"

definition Debugger_HandleBreak :: "'w Env \<Rightarrow> JsValueRef \<Rightarrow> ('w, unit) H" where
  "Debugger_HandleBreak E eventData = (let J = jsrt_of E in
     bindM (getH m_isRunningNestedMessageLoop) (\<lambda>nested.
       if nested then retM ()
       else
         bindM (getH m_breakEventCallback) (\<lambda>callback.
           case callback of
             None \<Rightarrow> retM ()
           | Some this \<Rightarrow>
               seqM (modH (\<lambda>h. h\<lparr>m_isPaused := True\<rparr>))
               (bindM (DebuggerImpl_HandleBreakEvent E this eventData) (\<lambda>request.
                seqM
                  (if request = RequestNoSkip then
                     seqM (modH (\<lambda>h. h\<lparr>m_isRunningNestedMessageLoop := True\<rparr>))
                     (seqM (WaitForDebugger E)
                       (modH (\<lambda>h. h\<lparr>m_isRunningNestedMessageLoop := False\<rparr>)))
                   else retM ())
                (seqM (modH (\<lambda>h. h\<lparr>m_isPaused := False\<rparr>))
                  (if request = RequestStepFrame \<or> request = RequestStepInto
                   then js J (JsDiagSetStepType J JsDiagStepTypeStepIn)
                   else if request = RequestStepOut
                   then js J (JsDiagSetStepType J JsDiagStepTypeStepOut)
                   else retM ())))))))"

definition Debugger_HandleDebugEvent :: "'w Env \<Rightarrow> JsDiagDebugEvent \<Rightarrow> JsValueRef \<Rightarrow> ('w, unit) H" where
  "Debugger_HandleDebugEvent E debugEvent eventData =
     seqM (ProcessCommandQueue E)
     (bindM (getH dbg_isEnabled) (\<lambda>isEnabled.
        if \<not> isEnabled then retM ()
        else
          bindM (getH m_debugContext) (\<lambda>debugContext.
          with_scope (jsrt_of E) debugContext
            (case debugEvent of
               JsDiagDebugEventSourceCompile \<Rightarrow> Debugger_HandleSourceEvent E eventData True
             | JsDiagDebugEventCompileError \<Rightarrow> Debugger_HandleSourceEvent E eventData False
             | JsDiagDebugEventBreakpoint \<Rightarrow> Debugger_HandleBreak E eventData
             | JsDiagDebugEventStepComplete \<Rightarrow> Debugger_HandleBreak E eventData
             | JsDiagDebugEventDebuggerStatement \<Rightarrow> Debugger_HandleBreak E eventData
             | JsDiagDebugEventRuntimeException \<Rightarrow> Debugger_HandleBreak E eventData
             | JsDiagDebugEventAsyncBreak \<Rightarrow>
                 bindM (getH m_shouldPauseOnNextStatement) (\<lambda>shouldPause.
                   if shouldPause then
                     seqM (modH (\<lambda>h. h\<lparr>m_shouldPauseOnNextStatement := False\<rparr>))
                       (Debugger_HandleBreak E eventData)
                   else retM ())))))"

subsection \<open>The console object\<close>

fun console_type :: "JsNativeFunction \<Rightarrow> string" where
  "console_type ConsoleLog = ''log''"
| "console_type ConsoleDebug = ''debug''"
| "console_type ConsoleInfo = ''info''"
| "console_type ConsoleError = ''error''"
| "console_type ConsoleWarning = ''warning''"
| "console_type ConsoleClear = ''clear''"
| "console_type ConsoleAssert = ''assert''"

text \<open>A console function called by the script, with \<open>this\<close> as its first argument.\<close>

definition ConsoleAPIRedirection ::
  "'w Env \<Rightarrow> JsNativeFunction \<Rightarrow> JsValueRef list \<Rightarrow> ('w, JsValueRef) H" where
  "ConsoleAPIRedirection E callee arguments =
     seqM (if 0 < length arguments then ConsoleAPICalled E (lit (console_type callee)) arguments
           else retM ())
       (js (jsrt_of E) (JsGetUndefinedValue (jsrt_of E)))"

definition AddFunctionCallback ::
  "'w JSRT \<Rightarrow> JsValueRef \<Rightarrow> string \<Rightarrow> JsNativeFunction \<Rightarrow> ('w \<times> 'p, fault, JsErrorCode) M" where
  "AddFunctionCallback J object callbackName callback =
     bindM (js J (JsGetPropertyIdFromName J callbackName)) (\<lambda>propertyId.
     bindM (js J (JsCreateFunction J callback)) (\<lambda>function_value.
     bindM (jsrt (JsSetProperty J object propertyId function_value True)) (\<lambda>(err, _). retM err)))"

definition console_functions :: "(string \<times> JsNativeFunction) list" where
  "console_functions =
     [(''log'', ConsoleLog), (''debug'', ConsoleDebug), (''info'', ConsoleInfo),
      (''error'', ConsoleError), (''warn'', ConsoleWarning), (''clear'', ConsoleClear),
      (''assert'', ConsoleAssert)]"

definition CreateConsoleObject_console :: "'w JSRT \<Rightarrow> ('w \<times> 'p, fault, JsValueRef) M" where
  "CreateConsoleObject_console J =
     bindM (js J (JsCreateObject J)) (\<lambda>consoleObject.
     seqM (forM console_functions (\<lambda>(name, callback).
             bindM (AddFunctionCallback J consoleObject name callback) (IfJsErrorThrow (codes J))))
       (retM consoleObject))"

definition CreateConsoleObject :: "'w Env \<Rightarrow> ('w, JsValueRef) H" where
  "CreateConsoleObject E = (let J = jsrt_of E in
     bindM (js J (JsGetCurrentContext J)) (\<lambda>currentContext.
       if currentContext = JS_INVALID_REFERENCE
       then throwM (Throw (JsErrorException_of (codes J) JsErrorNoCurrentContext))
       else CreateConsoleObject_console J))"

subsection \<open>The C interface\<close>

text \<open>
  A handle is null or the handler of the state.  The result is the error code; an out parameter is returned
  beside it when it was written.
\<close>

definition JsDebugProtocolHandlerCreate ::
  "'w Env \<Rightarrow> nat option \<Rightarrow> unit option \<Rightarrow> 'w \<Rightarrow> (JsErrorCode \<times> Handler option) \<times> 'w" where
  "JsDebugProtocolHandlerCreate E runtime protocolHandler w =
     (case protocolHandler of
        None \<Rightarrow> ((JsErrorInvalidArgument, None), w)
      | Some _ \<Rightarrow>
          (case ProtocolHandler_new E runtime (w, ()) of
             (Inr h, (w', _)) \<Rightarrow> ((JsNoError, Some h), w')
           | (Inl (Throw (JsErrorException code _)), (w', _)) \<Rightarrow> ((code, None), w')
           | (Inl _, (w', _)) \<Rightarrow> ((JsErrorFatal, None), w')))"

definition JsDebugProtocolHandlerDestroy :: "'w Env \<Rightarrow> unit option \<Rightarrow> ('w, JsErrorCode) H" where
  "JsDebugProtocolHandlerDestroy E protocolHandler =
     TranslateExceptionFor protocolHandler (\<lambda>_. ProtocolHandler_delete E)"

definition JsDebugProtocolHandlerConnect ::
  "'w Env \<Rightarrow> unit option \<Rightarrow> bool \<Rightarrow> nat option \<Rightarrow> nat \<Rightarrow> ('w, JsErrorCode) H" where
  "JsDebugProtocolHandlerConnect E protocolHandler breakOnNextLine callback callbackState =
     TranslateExceptionFor protocolHandler (\<lambda>_. Connect E breakOnNextLine callback callbackState)"

definition JsDebugProtocolHandlerDisconnect :: "'w Env \<Rightarrow> unit option \<Rightarrow> ('w, JsErrorCode) H" where
  "JsDebugProtocolHandlerDisconnect E protocolHandler =
     TranslateExceptionFor protocolHandler (\<lambda>_. Disconnect E)"

definition JsDebugProtocolHandlerSendCommand ::
  "'w Env \<Rightarrow> unit option \<Rightarrow> string option \<Rightarrow> ('w, JsErrorCode) H" where
  "JsDebugProtocolHandlerSendCommand E protocolHandler command =
     TranslateExceptionFor protocolHandler (\<lambda>_. SendCommand E command)"

definition JsDebugProtocolHandlerWaitForDebugger :: "'w Env \<Rightarrow> unit option \<Rightarrow> ('w, JsErrorCode) H" where
  "JsDebugProtocolHandlerWaitForDebugger E protocolHandler =
     TranslateExceptionFor protocolHandler (\<lambda>_. WaitForDebugger E)"

definition JsDebugProtocolHandlerProcessCommandQueue ::
  "'w Env \<Rightarrow> unit option \<Rightarrow> ('w, JsErrorCode) H" where
  "JsDebugProtocolHandlerProcessCommandQueue E protocolHandler =
     TranslateExceptionFor protocolHandler (\<lambda>_. ProcessCommandQueue E)"

definition JsDebugProtocolHandlerSetCommandQueueCallback ::
  "'w Env \<Rightarrow> unit option \<Rightarrow> nat option \<Rightarrow> nat \<Rightarrow> ('w, JsErrorCode) H" where
  "JsDebugProtocolHandlerSetCommandQueueCallback E protocolHandler callback callbackState =
     TranslateExceptionFor protocolHandler (\<lambda>_. SetCommandQueueCallback callback callbackState)"

definition JsDebugProtocolHandlerCreateConsoleObject ::
  "'w Env \<Rightarrow> unit option \<Rightarrow> ('w, JsErrorCode \<times> JsValueRef option) H" where
  "JsDebugProtocolHandlerCreateConsoleObject E protocolHandler =
     (case protocolHandler of
        None \<Rightarrow> retM (JsErrorInvalidArgument, None)
      | Some _ \<Rightarrow>
          (\<lambda>s. case CreateConsoleObject E s of
                 (Inr consoleObject, t) \<Rightarrow> (Inr (JsNoError, Some consoleObject), t)
               | (Inl f, t) \<Rightarrow>
                   (case TranslateException (\<lambda>_. (Inl f, t)) t of
                      (Inr code, t') \<Rightarrow> (Inr (code, None), t')
                    | (Inl g, t') \<Rightarrow> (Inl g, t'))))"

end
