(* ===== verification/AgentFrame.thy ===== *)
theory AgentFrame
  imports DebugEvents
begin

section \<open>What the debugger agent may do to the handler\<close>

text \<open>
  \<open>runs Q F m R\<close>: from any state that satisfies \<open>Q\<close>, the computation \<open>m\<close> ends in one that does,
  with a fault that satisfies \<open>F\<close> or a result that satisfies \<open>R\<close>.  The locale \<open>agent_frame\<close> states what \<open>Q\<close> must
  be insensitive to for the methods of \<open>DebuggerImpl\<close> to keep it; the properties of the
  handler are instances of it.
\<close>

named_theorems runs_intros \<open>computations that keep a property of the handler\<close>

definition runs ::
  "(Handler \<Rightarrow> bool) \<Rightarrow> (fault \<Rightarrow> bool) \<Rightarrow> ('w, 'a) H \<Rightarrow> ('a \<Rightarrow> bool) \<Rightarrow> bool" where
  "runs Q F m R \<longleftrightarrow>
     (\<forall>w h. Q h \<longrightarrow> Q (snd (snd (m (w, h)))) \<and>
        (case fst (m (w, h)) of Inl f \<Rightarrow> F f | Inr x \<Rightarrow> R x))"

lemma runs_ret [runs_intros]: "R x \<Longrightarrow> runs Q F (retM x) R"
  by (simp add: runs_def retM_def)

lemma runs_throw [runs_intros]: "F f \<Longrightarrow> runs Q F (throwM f) R"
  by (simp add: runs_def throwM_def)

lemma runs_bind:
  assumes m: "runs Q F m R" and f: "\<And>x. R x \<Longrightarrow> runs Q F (f x) S"
  shows "runs Q F (bindM m f) S"
proof -
  have "Q (snd (snd (bindM m f (w, h)))) \<and>
      (case fst (bindM m f (w, h)) of Inl g \<Rightarrow> F g | Inr x \<Rightarrow> S x)" if "Q h" for w h
  proof -
    obtain r w' h' where eq: "m (w, h) = (r, (w', h'))" by (cases "m (w, h)") auto
    with m \<open>Q h\<close> have q: "Q h'" and r: "case r of Inl g \<Rightarrow> F g | Inr x \<Rightarrow> R x"
      by (auto simp: runs_def dest!: spec [of _ w] spec [of _ h])
    show ?thesis
    proof (cases r)
      case (Inl g)
      with eq q r show ?thesis by (simp add: bindM_def)
    next
      case (Inr x)
      with r have "runs Q F (f x) S" by (simp add: f)
      with q have "Q (snd (snd (f x (w', h')))) \<and>
          (case fst (f x (w', h')) of Inl g \<Rightarrow> F g | Inr x \<Rightarrow> S x)"
        by (simp add: runs_def)
      with eq Inr show ?thesis by (simp add: bindM_def)
    qed
  qed
  then show ?thesis by (simp add: runs_def)
qed

lemma runs_state: "runs Q F m R \<Longrightarrow> Q h \<Longrightarrow> Q (snd (snd (m (w, h))))"
  by (simp add: runs_def)

lemma runs_weaken: "runs Q F m R \<Longrightarrow> (\<And>x. R x \<Longrightarrow> S x) \<Longrightarrow> runs Q F m S"
  by (fastforce simp: runs_def split: sum.splits)

lemma runs_True: "runs Q F m R \<Longrightarrow> runs Q F m (\<lambda>_. True)"
  by (erule runs_weaken) simp

lemma runs_bind_True [runs_intros]:
  "runs Q F m (\<lambda>_. True) \<Longrightarrow> (\<And>x. runs Q F (f x) S) \<Longrightarrow> runs Q F (bindM m f) S"
  by (rule runs_bind)

lemma runs_seq [runs_intros]: "runs Q F m (\<lambda>_. True) \<Longrightarrow> runs Q F n S \<Longrightarrow> runs Q F (seqM m n) S"
  unfolding seqM_def by (rule runs_bind_True)

lemma runs_if [runs_intros]:
  "(c \<Longrightarrow> runs Q F a R) \<Longrightarrow> (\<not> c \<Longrightarrow> runs Q F b R) \<Longrightarrow> runs Q F (if c then a else b) R"
  by simp

lemma runs_option [runs_intros]:
  "(x = None \<Longrightarrow> runs Q F a R) \<Longrightarrow> (\<And>y. x = Some y \<Longrightarrow> runs Q F (b y) R) \<Longrightarrow>
     runs Q F (case x of None \<Rightarrow> a | Some y \<Rightarrow> b y) R"
  by (simp split: option.split)

lemma runs_prod [runs_intros]:
  "(\<And>a b. p = (a, b) \<Longrightarrow> runs Q F (f a b) R) \<Longrightarrow> runs Q F (case p of (a, b) \<Rightarrow> f a b) R"
  by (simp split: prod.split)

lemma runs_sum [runs_intros]:
  "(\<And>a. x = Inl a \<Longrightarrow> runs Q F (f a) R) \<Longrightarrow> (\<And>b. x = Inr b \<Longrightarrow> runs Q F (g b) R) \<Longrightarrow>
     runs Q F (case x of Inl a \<Rightarrow> f a | Inr b \<Rightarrow> g b) R"
  by (simp split: sum.split)

lemma runs_getH: "(\<And>h. Q h \<Longrightarrow> R (f h)) \<Longrightarrow> runs Q F (getH f) R"
  by (simp add: runs_def getH_def getM_def)

lemma runs_getH_True [runs_intros]: "runs Q F (getH f) (\<lambda>_. True)"
  by (rule runs_getH) simp

lemma runs_getM_True [runs_intros]: "runs Q F (getM f) (\<lambda>_. True)"
  by (simp add: runs_def getM_def)

lemma runs_modH: "(\<And>h. Q h \<Longrightarrow> Q (f h)) \<Longrightarrow> runs Q F (modH f) (\<lambda>_. True)"
  by (simp add: runs_def modH_def modifyM_def)

lemma runs_forM:
  "(\<And>x. x \<in> set xs \<Longrightarrow> runs Q F (f x) (\<lambda>_. True)) \<Longrightarrow> runs Q F (forM xs f) (\<lambda>_. True)"
  by (induction xs) (auto intro!: runs_intros)

text \<open>Engine operations keep every property, and throw.\<close>

lemma runs_engine:
  assumes "engine_op m" and "\<And>e. F (Throw e)"
  shows "runs Q F m (\<lambda>_. True)"
  unfolding runs_def
proof (intro allI impI conjI)
  fix w h
  assume "Q h"
  have "snd (snd (m (w, h))) = h" and f: "\<And>f. fst (m (w, h)) = Inl f \<Longrightarrow> \<exists>e. f = Throw e"
    using assms(1) by (auto simp: engine_op_def)
  with \<open>Q h\<close> show "Q (snd (snd (m (w, h))))" by simp
  show "case fst (m (w, h)) of Inl f \<Rightarrow> F f | Inr x \<Rightarrow> True"
    using f assms(2) by (auto split: sum.split)
qed

lemma runs_with_scope [runs_intros]:
  assumes "runs Q F body R" and "\<And>e. F (Throw e)"
  shows "runs Q F (with_scope J c body) R"
  unfolding with_scope_def
proof (rule runs_bind_True)
  show "runs Q F (js J (JsGetCurrentContext J)) (\<lambda>_. True)"
    by (rule runs_engine) (rule engine_js, rule assms(2))
  have "runs Q F (scope_body J p body) R" for p
    using assms(1) by (simp add: runs_def)
  then show "runs Q F (seqM (js J (JsSetCurrentContext J c)) (scope_body J p body)) R" for p
    by (rule runs_seq [rotated]) (rule runs_engine, rule engine_js, rule assms(2))
qed

lemma runs_catch [runs_intros]:
  assumes "runs Q F m R" and "\<And>what. runs Q F (handler what) R"
  shows "runs Q F (catch_js_error m handler) R"
  unfolding runs_def
proof (intro allI impI)
  fix w h
  assume "Q h"
  obtain r w' h' where eq: "m (w, h) = (r, (w', h'))" by (cases "m (w, h)") auto
  with assms(1) \<open>Q h\<close> have q: "Q h'" and r: "case r of Inl g \<Rightarrow> F g | Inr x \<Rightarrow> R x"
    by (auto simp: runs_def dest!: spec [of _ w] spec [of _ h])
  show "Q (snd (snd (catch_js_error m handler (w, h)))) \<and>
      (case fst (catch_js_error m handler (w, h)) of Inl f \<Rightarrow> F f | Inr x \<Rightarrow> R x)"
  proof (cases "\<exists>code what. r = Inl (Throw (JsErrorException code what))")
    case True
    then obtain code what where "r = Inl (Throw (JsErrorException code what))" by blast
    with assms(2) [of what] q eq show ?thesis by (simp add: catch_js_error_def runs_def)
  next
    case False
    then have "catch_js_error m handler (w, h) = (r, (w', h'))"
      using eq by (auto simp: catch_js_error_def split: sum.splits fault.splits cpp_exn.splits)
    with q r show ?thesis by simp
  qed
qed

lemma runs_for_index [runs_intros]:
  "(\<And>i. runs Q F (f i) (\<lambda>_. True)) \<Longrightarrow> runs Q F (for_index n i f) (\<lambda>_. True)"
  by (induction n arbitrary: i) (auto intro!: runs_intros)

lemma runs_for_length [runs_intros]:
  "(\<And>i. runs Q F (f i) (\<lambda>_. True)) \<Longrightarrow> runs Q F (for_length n f) (\<lambda>_. True)"
  unfolding for_length_def by (intro runs_intros)

text \<open>The result of an engine operation whatever the state.\<close>

definition yields :: "('s, fault, 'a) M \<Rightarrow> ('a \<Rightarrow> bool) \<Rightarrow> bool" where
  "yields m R \<longleftrightarrow> (\<forall>s x. fst (m s) = Inr x \<longrightarrow> R x)"

lemma runs_yields: "runs Q F m (\<lambda>_. True) \<Longrightarrow> yields m R \<Longrightarrow> runs Q F m R"
  by (fastforce simp: runs_def yields_def split: sum.splits)

lemma yields_bind: "(\<And>x. yields (f x) R) \<Longrightarrow> yields (bindM m f) R"
  by (auto simp: yields_def bindM_def split: prod.splits sum.splits)

lemma yields_ret: "R x \<Longrightarrow> yields (retM x) R"
  by (simp add: yields_def retM_def)

lemma yields_throw: "yields (throwM f) R"
  by (simp add: yields_def throwM_def)

lemma yields_if: "yields a R \<Longrightarrow> yields b R \<Longrightarrow> yields (if c then a else b) R"
  by simp

lemmas yields_intros = yields_bind yields_ret yields_throw yields_if

lemma clear_breakpoints_runs:
  assumes "\<And>e. F (Throw e)"
  shows "runs Q F (ClearBreakpoints E) (\<lambda>_. True)"
proof -
  have "engine_op (bindM (jsrt (JsDiagGetBreakpoints J)) (\<lambda>(err, breakpoints).
      if err = JsNoError then
        bindM (for_items J breakpoints (\<lambda>breakpoint.
          bindM (GetPropertyInt J breakpoint ''breakpointId'') (\<lambda>breakpointId.
            js J (JsDiagRemoveBreakpoint J breakpointId)))) (\<lambda>_. retM ())
      else retM ()))" for J :: "'w JSRT"
    by (intro engine_intros)
  note scoped = runs_with_scope [OF runs_engine [OF this]]
  show ?thesis
    unfolding ClearBreakpoints_def Let_def
    by (rule runs_bind_True [OF runs_getH_True]) (rule scoped; rule assms)
qed

subsection \<open>The channel and the engine\<close>

text \<open>
  What every operation of an agent needs: exceptions, null pointers, inconsistent dictionaries and the fuel of
  the script scanner are admitted faults, and \<open>Q\<close> does not depend on what was sent, on the
  request to pause, or on the end of a wait.
\<close>

locale handler_frame =
  fixes Q :: "Handler \<Rightarrow> bool" and F :: "fault \<Rightarrow> bool"
  assumes F_Throw: "F (Throw e)"
    and F_null: "F (Undefined NullDereference)"
    and F_end: "F (Undefined EndIterator)"
    and F_fuel: "F (OutOfFuel ScriptComments)"
    and Q_log: "Q h \<Longrightarrow> Q (h\<lparr>host_log := host_log h @ events\<rparr>)"
    and Q_resume: "Q h \<Longrightarrow> Q (h\<lparr>m_waitingForDebugger := False\<rparr>)"
    and Q_pause: "Q h \<Longrightarrow> Q (h\<lparr>m_shouldPauseOnNextStatement := True\<rparr>)"
begin

lemma runs_eng: "engine_op m \<Longrightarrow> runs Q F m (\<lambda>_. True)"
  by (erule runs_engine) (rule F_Throw)

lemma runs_js [runs_intros]: "runs Q F (js J f) (\<lambda>_. True)" "runs Q F (jsrt g) (\<lambda>_. True)"
  by (rule runs_eng, rule engine_intros)+

lemma runs_throws [runs_intros]: "runs Q F (throwM (Throw e)) R"
  by (rule runs_throw) (rule F_Throw)

lemmas runs_calls [runs_intros] =
  engine_GetProperty [THEN runs_eng] engine_TryGetProperty [THEN runs_eng]
  engine_getters [THEN runs_eng] engine_indexed [THEN runs_eng] engine_tests [THEN runs_eng]
  engine_RegExp [THEN runs_eng] engine_script [THEN runs_eng] engine_ParseObjectId [THEN runs_eng]
  engine_WrapObject [THEN runs_eng] engine_wraps [THEN runs_eng] engine_objects [THEN runs_eng]
  engine_frames [THEN runs_eng] engine_ToProtocolValue [THEN runs_eng]
  engine_breaks [THEN runs_eng] engine_break_data [THEN runs_eng]
  engine_TryLoadScript [THEN runs_eng] engine_SetBreakpoint [THEN runs_eng]
  engine_RemoveBreakpoint [THEN runs_eng] engine_console_arguments [THEN runs_eng]
  engine_JsObjectToJson [THEN runs_eng]

lemma runs_deref [runs_intros]: "runs Q F (deref x) (\<lambda>_. True)"
  unfolding deref_def by (intro runs_intros) (simp_all add: F_null)

lemma runs_SendResponse [runs_intros]: "runs Q F (SendResponse text) (\<lambda>_. True)"
  unfolding SendResponse_def by (rule runs_modH) (auto intro: Q_log split: option.split)

lemma runs_notify [runs_intros]:
  "runs Q F (handler_sendProtocolNotification E message) (\<lambda>_. True)"
  unfolding handler_sendProtocolNotification_def by (intro runs_intros) (rule F_end)

lemma runs_channel [runs_intros]:
  "runs Q F (sendProtocolResponse (handler_channel E) callId message) (\<lambda>_. True)"
  "runs Q F (sendProtocolNotification (handler_channel E) message) (\<lambda>_. True)"
  by (simp_all add: handler_channel_def FrontendChannel.make_def handler_sendProtocolResponse_def
      runs_notify)

lemma runs_send_notification [runs_intros]:
  "runs Q F (send_notification (Some (handler_channel E)) name messageData) (\<lambda>_. True)"
  by (simp add: send_notification_def runs_channel)

lemma runs_resume [runs_intros]:
  "runs Q F RunIfWaitingForDebugger (\<lambda>_. True)" "runs Q F Continue (\<lambda>_. True)"
  unfolding Continue_def RunIfWaitingForDebugger_def by (auto intro: runs_modH Q_resume)

lemma runs_async_break [runs_intros]: "runs Q F (RequestAsyncBreak E) (\<lambda>_. True)"
  unfolding RequestAsyncBreak_def by (intro runs_intros)

lemma runs_pause [runs_intros]: "runs Q F (PauseOnNextStatement E) (\<lambda>_. True)"
  unfolding PauseOnNextStatement_def by (intro runs_intros runs_modH) (rule Q_pause)

lemma runs_steps [runs_intros]:
  "runs Q F (StepIn E) (\<lambda>_. True)" "runs Q F (StepOut E) (\<lambda>_. True)"
  "runs Q F (StepOver E) (\<lambda>_. True)"
  unfolding StepIn_def StepOut_def StepOver_def step_and_continue_def by (intro runs_intros)+

lemma runs_ClearBreakpoints [runs_intros]: "runs Q F (ClearBreakpoints E) (\<lambda>_. True)"
  by (rule clear_breakpoints_runs) (rule F_Throw)

lemma runs_frames [runs_intros]:
  "runs Q F (GetCallFrame E ordinal) (\<lambda>_. True)" "runs Q F (GetCallFrames E limit) (\<lambda>_. True)"
  "runs Q F (GetObjectFromHandle E handle) (\<lambda>_. True)"
  "runs Q F (SetBreakOnException E attributes) (\<lambda>_. True)"
  unfolding GetCallFrame_def GetCallFrames_def GetObjectFromHandle_def SetBreakOnException_def Let_def
  by (rule runs_eng, intro engine_intros)+

lemma runs_for_items [runs_intros]:
  "(\<And>v. runs Q F (f v) (\<lambda>_. True)) \<Longrightarrow> runs Q F (for_items J a f) (\<lambda>_. True)"
  unfolding for_items_def by (intro runs_intros TrueI)

lemma runs_ParseScriptSource_loop [runs_intros]:
  "runs Q F (ParseScriptSource_loop fuel J c r v script) (\<lambda>_. True)"
  by (induction fuel arbitrary: script)
    (auto intro!: runs_intros F_fuel)

lemma runs_DebuggerScript_new [runs_intros]:
  "runs Q F (DebuggerScript_new fuel J c info) (\<lambda>_. True)"
  unfolding DebuggerScript_new_def ParseScriptSource_def Let_def
  by (intro runs_intros TrueI)

lemma runs_GetScripts [runs_intros]: "runs Q F (GetScripts E) (\<lambda>_. True)"
  unfolding GetScripts_def Let_def by (intro runs_intros TrueI)

end

end
