(* ===== verification/DebuggerAgentFrame.thy ===== *)
theory DebuggerAgentFrame
  imports AgentFrame
begin

section \<open>What the methods of the debugger agent keep\<close>

text \<open>
  The breakpoints of the agent are stored under the key made of them, each key once.  The locale
  \<open>debugger_frame\<close> says what a property of the handler must be insensitive to for every method of
  \<open>DebuggerImpl\<close> to keep it while the agent is alive at the address \<open>this\<close>.
\<close>

definition keyed :: "(string16 \<times> DebuggerBreakpoint) list \<Rightarrow> bool" where
  "keyed m \<longleftrightarrow> distinct (map fst m) \<and> (\<forall>(key, bp) \<in> set m. key = GenerateKey bp)"

lemma keyed_Nil [simp, intro]: "keyed []"
  by (simp add: keyed_def)

lemma keyed_key: "keyed m \<Longrightarrow> (key, bp) \<in> set m \<Longrightarrow> GenerateKey bp = key"
  by (auto simp: keyed_def)

lemma keyed_update [intro]: "keyed m \<Longrightarrow> GenerateKey bp = key \<Longrightarrow> keyed (AList.update key bp m)"
  unfolding keyed_def
proof (intro conjI ballI; elim conjE)
  assume "distinct (map fst m)"
  then show "distinct (map fst (AList.update key bp m))" by (rule distinct_update)
next
  fix e
  assume "e \<in> set (AList.update key bp m)" and "\<forall>(key, bp) \<in> set m. key = GenerateKey bp"
    and "GenerateKey bp = key"
  then show "case e of (key, bp) \<Rightarrow> key = GenerateKey bp"
    by (induction m) (auto split: if_splits)
qed

lemma keyed_emplace [intro]: "keyed m \<Longrightarrow> GenerateKey bp = key \<Longrightarrow> keyed (emplace key bp m)"
  by (auto simp: keyed_def emplace_def map_of_eq_None_iff)

lemma keyed_delete [intro]: "keyed m \<Longrightarrow> keyed (AList.delete key m)"
  by (auto simp: keyed_def AList.delete_eq intro: distinct_map_filter)

text \<open>Loading and resolving a breakpoint does not change what its key is made of.\<close>

lemma yields_TryLoadScript:
  "yields (TryLoadScript J c script bp) (\<lambda>(_, bp'). GenerateKey bp' = GenerateKey bp)"
  unfolding TryLoadScript_def
  by (intro yields_intros) (simp_all add: GenerateKey_def)

lemma yields_SetBreakpoint:
  "yields (SetBreakpoint J bp) (\<lambda>bp'. GenerateKey bp' = GenerateKey bp)"
  unfolding SetBreakpoint_def
  by (cases "toInteger (bp_scriptId bp)")
    (auto intro!: yields_intros simp: OnBreakpointResolved_def GenerateKey_def)

lemma modDI_runs:
  assumes "\<And>h. Q h \<Longrightarrow>
    \<exists>a. m_debuggerAgent h = Some a \<and> di_id a = this \<and> Q (h\<lparr>m_debuggerAgent := Some (f a)\<rparr>)"
  shows "runs Q F (modDI this f) (\<lambda>_. True)"
  using assms by (fastforce simp: runs_def modDI_def getDI_def getH_def modH_def M_defs)

locale debugger_frame = handler_frame +
  fixes this :: nat
  assumes agent_here: "Q h \<Longrightarrow> \<exists>a. m_debuggerAgent h = Some a \<and> di_id a = this \<and> keyed (m_breakpointMap a)"
    and Q_maps: "Q h \<Longrightarrow> m_debuggerAgent h = Some a \<Longrightarrow> keyed breakpoints \<Longrightarrow>
      Q (h\<lparr>m_debuggerAgent :=
         Some (a\<lparr>m_shouldSkipAllPauses := skip, m_scriptMap := scripts, m_breakpointMap := breakpoints\<rparr>)\<rparr>)"
    and Q_enable: "Q h \<Longrightarrow> m_debuggerAgent h = Some a \<Longrightarrow>
      Q (h\<lparr>m_debuggerAgent := Some (a\<lparr>di_isEnabled := True\<rparr>), dbg_isEnabled := True,
           m_sourceEventCallback := Some this, m_breakEventCallback := Some this\<rparr>)"
    and Q_disable: "Q h \<Longrightarrow> m_debuggerAgent h = Some a \<Longrightarrow>
      Q (h\<lparr>m_debuggerAgent := Some (a\<lparr>di_isEnabled := False\<rparr>), dbg_isEnabled := False\<rparr>)"
    and Q_no_source: "Q h \<Longrightarrow> \<not> dbg_isEnabled h \<Longrightarrow> Q (h\<lparr>m_sourceEventCallback := None\<rparr>)"
begin

lemma runs_getDI:
  assumes "\<And>a. keyed (m_breakpointMap a) \<Longrightarrow> R (f a)"
  shows "runs Q F (getDI this f) R"
  using agent_here assms
  by (fastforce simp: runs_def getDI_def getH_def M_defs)

lemma runs_getDI_True [runs_intros]: "runs Q F (getDI this f) (\<lambda>_. True)"
  by (rule runs_getDI) simp

lemma runs_modDI:
  assumes "\<And>h a. Q h \<Longrightarrow> m_debuggerAgent h = Some a \<Longrightarrow> keyed (m_breakpointMap a) \<Longrightarrow>
    Q (h\<lparr>m_debuggerAgent := Some (f a)\<rparr>)"
  shows "runs Q F (modDI this f) (\<lambda>_. True)"
proof (rule modDI_runs)
  fix h
  assume "Q h"
  with agent_here [OF this] assms [of h]
  show "\<exists>a. m_debuggerAgent h = Some a \<and> di_id a = this \<and> Q (h\<lparr>m_debuggerAgent := Some (f a)\<rparr>)"
    by auto
qed

text \<open>A change of the maps that keeps the breakpoints keyed.\<close>

lemma runs_maps:
  assumes "\<And>a. keyed (m_breakpointMap a) \<Longrightarrow> keyed (m_breakpointMap (f a))"
    and "\<And>a. f a = a\<lparr>m_shouldSkipAllPauses := m_shouldSkipAllPauses (f a),
           m_scriptMap := m_scriptMap (f a), m_breakpointMap := m_breakpointMap (f a)\<rparr>"
  shows "runs Q F (modDI this f) (\<lambda>_. True)"
  by (rule runs_modDI) (metis Q_maps assms)

lemma runs_update_breakpoint [runs_intros]:
  "GenerateKey bp = key \<Longrightarrow> runs Q F (update_breakpoint this key bp) (\<lambda>_. True)"
  unfolding update_breakpoint_def by (rule runs_maps) auto

lemma runs_TryResolve:
  "runs Q F (TryResolveBreakpoint E bp) (\<lambda>(_, bp'). GenerateKey bp' = GenerateKey bp)"
  unfolding TryResolveBreakpoint_def
  by (intro runs_intros runs_bind [OF runs_yields [OF _ yields_SetBreakpoint]]) simp

lemma runs_TryLoad:
  "runs Q F (TryLoadScript J c script bp) (\<lambda>(_, bp'). GenerateKey bp' = GenerateKey bp)"
  by (rule runs_yields [OF _ yields_TryLoadScript]) (rule runs_intros)

lemma runs_resolve_pending:
  "GenerateKey (snd entry) = fst entry \<Longrightarrow> runs Q F (resolve_pending E this script entry) (\<lambda>_. True)"
  unfolding resolve_pending_def
  by (intro runs_intros runs_bind [OF runs_TryLoad] runs_bind [OF runs_TryResolve])
    (auto intro!: runs_intros simp: Debugger_breakpointResolved_def)

lemma runs_HandleSourceEvent [runs_intros]:
  "runs Q F (DebuggerImpl_HandleSourceEvent E this script success) (\<lambda>_. True)"
  unfolding DebuggerImpl_HandleSourceEvent_def Let_def Debugger_scriptParsed_def
    Debugger_scriptFailedToParse_def
  by (intro runs_intros runs_maps
      runs_bind [OF runs_getDI [where f = m_breakpointMap and R = keyed]] runs_forM
      runs_resolve_pending)
    (auto dest: keyed_key)

lemma enable_block:
  "runs Q F (seqM (modDI this (\<lambda>a. a\<lparr>di_isEnabled := True\<rparr>))
     (seqM Dbg_Enable (seqM (SetSourceEventHandler (Some this))
       (SetBreakEventHandler (Some this))))) (\<lambda>_. True)"
  unfolding runs_def
proof (intro allI impI)
  fix w h
  assume "Q h"
  then obtain a where a: "m_debuggerAgent h = Some a" "di_id a = this" using agent_here by blast
  note q = Q_enable [OF \<open>Q h\<close> a(1)]
  have "Q (h\<lparr>m_debuggerAgent := Some (a\<lparr>di_isEnabled := True\<rparr>), m_sourceEventCallback := Some this,
      m_breakEventCallback := Some this\<rparr>)" if "dbg_isEnabled h"
    using q that by (cases h) simp
  with q a
  show "Q (snd (snd (seqM (modDI this (\<lambda>a. a\<lparr>di_isEnabled := True\<rparr>))
     (seqM Dbg_Enable (seqM (SetSourceEventHandler (Some this))
       (SetBreakEventHandler (Some this)))) (w, h)))) \<and>
     (case fst (seqM (modDI this (\<lambda>a. a\<lparr>di_isEnabled := True\<rparr>))
     (seqM Dbg_Enable (seqM (SetSourceEventHandler (Some this))
       (SetBreakEventHandler (Some this)))) (w, h)) of Inl f \<Rightarrow> F f | Inr x \<Rightarrow> True)"
    by (simp add: modDI_def getDI_def getH_def modH_def M_defs
        Dbg_Enable_def SetSourceEventHandler_def SetBreakEventHandler_def)
qed

lemma runs_enable [runs_intros]: "runs Q F (DebuggerImpl_enable E this) (\<lambda>_. True)"
proof -
  have rest: "runs Q F (seqM (modDI this (\<lambda>a. a\<lparr>di_isEnabled := True\<rparr>))
      (seqM Dbg_Enable (seqM (SetSourceEventHandler (Some this))
        (seqM (SetBreakEventHandler (Some this)) m)))) (\<lambda>_. True)"
    if "runs Q F m (\<lambda>_. True)" for m :: "('w, DispatchResponse) H"
    using runs_seq [OF enable_block that] by (simp add: seqM_assoc)
  show ?thesis
    unfolding DebuggerImpl_enable_def
    by (rule runs_bind_True [OF runs_getDI_True], rule runs_if, rule runs_ret, rule TrueI, rule rest)
      (intro runs_intros runs_forM TrueI)
qed

text \<open>While the debugger is disabled, the source handler may be dropped.\<close>

lemma disabled_block:
  "runs (\<lambda>h. Q h \<and> \<not> dbg_isEnabled h) F
     (seqM (SetSourceEventHandler None)
     (seqM (modDI this (\<lambda>a. a\<lparr>m_breakpointMap := [], m_scriptMap := [],
              m_shouldSkipAllPauses := False\<rparr>))
       (retM Response_OK))) (\<lambda>_. True)"
proof (intro runs_seq)
  show "runs (\<lambda>h. Q h \<and> \<not> dbg_isEnabled h) F (SetSourceEventHandler None) (\<lambda>_. True)"
    unfolding SetSourceEventHandler_def by (rule runs_modH) (simp add: Q_no_source)
  show "runs (\<lambda>h. Q h \<and> \<not> dbg_isEnabled h) F
    (modDI this (\<lambda>a. a\<lparr>m_breakpointMap := [], m_scriptMap := [], m_shouldSkipAllPauses := False\<rparr>))
    (\<lambda>_. True)"
  proof (rule modDI_runs)
    fix h
    assume h: "Q h \<and> \<not> dbg_isEnabled h"
    then obtain a where a: "m_debuggerAgent h = Some a" "di_id a = this" using agent_here by blast
    with h Q_maps [of h a "[]" "[]" False]
    show "\<exists>a. m_debuggerAgent h = Some a \<and> di_id a = this \<and>
      (Q (h\<lparr>m_debuggerAgent := Some (a\<lparr>m_breakpointMap := [], m_scriptMap := [],
          m_shouldSkipAllPauses := False\<rparr>)\<rparr>) \<and>
       \<not> dbg_isEnabled (h\<lparr>m_debuggerAgent := Some (a\<lparr>m_breakpointMap := [], m_scriptMap := [],
          m_shouldSkipAllPauses := False\<rparr>)\<rparr>))"
      by (cases a) simp
  qed
qed (rule runs_ret, rule TrueI)

text \<open>Once the agent was enabled, the debugger is disabled whatever happens in between.\<close>

lemma disable_enabled:
  fixes E :: "'w Env" and w :: 'w
  assumes "Q h"
  defines "m \<equiv> seqM (modDI this (\<lambda>a. a\<lparr>di_isEnabled := False\<rparr>)) (seqM (Dbg_Disable E)
    (seqM (SetSourceEventHandler None)
      (seqM (modDI this (\<lambda>a. a\<lparr>m_breakpointMap := [], m_scriptMap := [], m_shouldSkipAllPauses := False\<rparr>))
        (retM Response_OK))))"
  shows "Q (snd (snd (m (w, h)))) \<and> \<not> dbg_isEnabled (snd (snd (m (w, h)))) \<and>
    (case fst (m (w, h)) of Inl f \<Rightarrow> F f | Inr x \<Rightarrow> True)"
proof -
  define rest :: "('w, DispatchResponse) H" where "rest =
    seqM (SetSourceEventHandler None)
      (seqM (modDI this (\<lambda>a. a\<lparr>m_breakpointMap := [], m_scriptMap := [], m_shouldSkipAllPauses := False\<rparr>))
        (retM Response_OK))"
  have rest: "runs (\<lambda>h. Q h \<and> \<not> dbg_isEnabled h) F rest (\<lambda>_. True)"
    unfolding rest_def by (rule disabled_block)
  then have clear: "runs (\<lambda>h. Q h \<and> \<not> dbg_isEnabled h) F (seqM (ClearBreakpoints E) rest) (\<lambda>_. True)"
    by (rule runs_seq [rotated]) (rule clear_breakpoints_runs, rule F_Throw)
  obtain a where a: "m_debuggerAgent h = Some a" "di_id a = this"
    using agent_here \<open>Q h\<close> by blast
  define h1 where "h1 = h\<lparr>m_debuggerAgent := Some (a\<lparr>di_isEnabled := False\<rparr>)\<rparr>"
  define h2 where "h2 = h1\<lparr>dbg_isEnabled := False\<rparr>"
  have q: "Q h2 \<and> \<not> dbg_isEnabled h2"
    using Q_disable [OF \<open>Q h\<close> a(1)] by (simp add: h1_def h2_def)
  have same: "h2 = h1" if "\<not> dbg_isEnabled h"
    using that by (cases h) (simp add: h1_def h2_def)
  have en: "dbg_isEnabled h1 = dbg_isEnabled h" by (simp add: h1_def)
  have "m (w, h) =
      (if dbg_isEnabled h then seqM (ClearBreakpoints E) rest (w, h2) else rest (w, h2))"
    using a same unfolding m_def rest_def [symmetric]
    by (simp add: en modDI_def getDI_def getH_def modH_def M_defs Dbg_Disable_def flip: h1_def h2_def)
  with rest clear q show ?thesis by (simp add: runs_def)
qed

lemma runs_disable [runs_intros]: "runs Q F (DebuggerImpl_disable E this) (\<lambda>_. True)"
  unfolding DebuggerImpl_disable_def
  by (intro runs_bind_True [OF runs_getDI_True] runs_if runs_ret TrueI)
    (unfold runs_def, intro allI impI, drule disable_enabled, elim conjE, intro conjI)

lemma disable_off:
  assumes "Q h" and "\<And>a. m_debuggerAgent h = Some a \<Longrightarrow> \<not> di_isEnabled a \<Longrightarrow> \<not> dbg_isEnabled h"
  shows "\<not> dbg_isEnabled (snd (snd (DebuggerImpl_disable E this (w, h))))"
proof -
  obtain a where a: "m_debuggerAgent h = Some a" "di_id a = this"
    using agent_here assms(1) by blast
  show ?thesis
    using a assms(2) [OF a(1)] disable_enabled [OF assms(1), where w = w and E = E]
    by (cases "di_isEnabled a")
      (simp_all add: DebuggerImpl_disable_def getDI_def getH_def bindM_def retM_def getM_def)
qed

lemma runs_load_scripts:
  "runs Q F (load_scripts E c scripts bp locations) (\<lambda>(bp', _). GenerateKey bp' = GenerateKey bp)"
proof (induction scripts arbitrary: bp locations)
  case Nil
  show ?case by (simp add: runs_ret)
next
  case (Cons script scripts)
  note IH = Cons.IH [of bp]
  have go: "runs Q F (load_scripts E c scripts b ls) (\<lambda>(bp', _). GenerateKey bp' = GenerateKey bp)"
    if "GenerateKey b = GenerateKey bp" for b ls
    using Cons.IH [of b ls] that by simp
  show ?case
    unfolding load_scripts.simps
    by (rule runs_bind [OF runs_TryLoad], clarify, rule runs_if, rule runs_bind [OF runs_TryResolve],
        clarify, rule runs_if, rule runs_bind_True [OF runs_deref])
      (rule go; simp)+
qed

lemma runs_setBreakpointByUrl [runs_intros]:
  "runs Q F (DebuggerImpl_setBreakpointByUrl E this line url urlRegex column condition) (\<lambda>_. True)"
proof -
  have loaded: "runs Q F (catch_js_error
        (bindM (load_scripts E c scripts bp locations) (\<lambda>r. retM (Inr r)))
        (\<lambda>what. retM (Inl (response_error what))))
      (\<lambda>r. case r of Inl _ \<Rightarrow> True | Inr (bp', _) \<Rightarrow> GenerateKey bp' = GenerateKey bp)"
    for c scripts bp locations
    by (rule runs_catch, rule runs_bind [OF runs_load_scripts]) (auto intro!: runs_ret)
  show ?thesis
    unfolding DebuggerImpl_setBreakpointByUrl_def Let_def
    by (intro runs_intros TrueI runs_bind [OF loaded] runs_maps) auto
qed

lemma runs_setBreakpoint [runs_intros]:
  "runs Q F (DebuggerImpl_setBreakpoint E this loc condition) (\<lambda>_. True)"
  unfolding DebuggerImpl_setBreakpoint_def Let_def
  by (intro runs_intros TrueI runs_bind [OF runs_TryResolve] runs_maps) auto

lemma runs_removeBreakpoint [runs_intros]:
  "runs Q F (DebuggerImpl_removeBreakpoint E this breakpointId) (\<lambda>_. True)"
  unfolding DebuggerImpl_removeBreakpoint_def
  by (intro runs_intros runs_maps) auto

lemma runs_simple [runs_intros]:
  "runs Q F DebuggerImpl_not_implemented (\<lambda>_. True)"
  "runs Q F (DebuggerImpl_stepOver E) (\<lambda>_. True)" "runs Q F (DebuggerImpl_stepInto E) (\<lambda>_. True)"
  "runs Q F (DebuggerImpl_stepOut E) (\<lambda>_. True)" "runs Q F (DebuggerImpl_pause E) (\<lambda>_. True)"
  "runs Q F (DebuggerImpl_resume this) (\<lambda>_. True)"
  "runs Q F (DebuggerImpl_getScriptSource E this scriptId) (\<lambda>_. True)"
  "runs Q F (DebuggerImpl_setPauseOnExceptions E state) (\<lambda>_. True)"
  "runs Q F (DebuggerImpl_evaluateOnCallFrame E i e g c s r p) (\<lambda>_. True)"
  unfolding DebuggerImpl_not_implemented_def DebuggerImpl_stepOver_def DebuggerImpl_stepInto_def
    DebuggerImpl_stepOut_def DebuggerImpl_pause_def DebuggerImpl_resume_def
    DebuggerImpl_getScriptSource_def DebuggerImpl_setPauseOnExceptions_def
    DebuggerImpl_evaluateOnCallFrame_def
  by (intro runs_intros TrueI)+

lemma runs_condition [runs_intros]:
  "runs Q F (EvaluateConditionOnBreakpoint E this bpId) (\<lambda>_. True)"
  unfolding EvaluateConditionOnBreakpoint_def Let_def by (intro runs_intros TrueI)

lemma runs_mapM_frames [runs_intros]:
  "(\<And>x. runs Q F (f x) (\<lambda>_. True)) \<Longrightarrow> runs Q F (mapM_frames f xs) (\<lambda>_. True)"
  by (induction xs) (auto intro!: runs_intros)

lemma runs_HandleBreakEvent [runs_intros]:
  "runs Q F (DebuggerImpl_HandleBreakEvent E this breakInfo) (\<lambda>_. True)"
  unfolding DebuggerImpl_HandleBreakEvent_def Let_def Debugger_paused_def
  by (intro runs_intros TrueI)

end

end
