(* ===== verification/MessageFrame.thy ===== *)
theory MessageFrame
  imports DebuggerAgentFrame
begin

section \<open>What a message of the frontend may do to the handler\<close>

text \<open>
  A message reaches an agent through a domain dispatcher, which holds the agent's address.  The locale
  \<open>message_frame\<close> collects what a property must be insensitive to for the handlers of the domains to keep
  it; \<open>dispatch_frame\<close> adds that a dangling pointer is an admitted fault, or that the dispatchers of
  the handler only point to living agents.
\<close>

fun agent_address :: "DomainName \<Rightarrow> Handler \<Rightarrow> nat option" where
  "agent_address ConsoleDomain h = m_consoleAgent h"
| "agent_address DebuggerDomain h = map_option di_id (m_debuggerAgent h)"
| "agent_address RuntimeDomain h = map_option ri_id (m_runtimeAgent h)"
| "agent_address SchemaDomain h = m_schemaAgent h"

definition live_backend :: "DomainDispatcher \<Rightarrow> Handler \<Rightarrow> bool" where
  "live_backend d h \<longleftrightarrow> agent_address (dd_domain d) h = Some (dd_backend d)"

definition live_backends :: "Handler \<Rightarrow> bool" where
  "live_backends h \<longleftrightarrow> (\<forall>(name, d) \<in> set (m_dispatchers (m_dispatcher h)). live_backend d h)"

lemma runs_strengthen:
  assumes "runs (\<lambda>h. Q h \<and> P h) F m R"
  shows "\<And>w h. Q h \<Longrightarrow> P h \<Longrightarrow> Q (snd (snd (m (w, h)))) \<and>
    (case fst (m (w, h)) of Inl f \<Rightarrow> F f | Inr x \<Rightarrow> R x)"
  using assms by (simp add: runs_def)

text \<open>What is known when a value is read from the state.\<close>

lemma runs_getH_bind:
  assumes "\<And>h. Q h \<Longrightarrow> runs (\<lambda>h'. Q h' \<and> P (g h) h') F (f (g h)) R" and "\<And>h. Q h \<Longrightarrow> P (g h) h"
  shows "runs Q F (bindM (getH g) f) R"
  unfolding runs_def
proof (intro allI impI)
  fix w h
  assume "Q h"
  from runs_strengthen [OF assms(1) [OF this] this assms(2) [OF this]]
  show "Q (snd (snd (bindM (getH g) f (w, h)))) \<and>
      (case fst (bindM (getH g) f (w, h)) of Inl f \<Rightarrow> F f | Inr x \<Rightarrow> R x)"
    by (simp add: getH_def M_defs)
qed

locale message_frame = handler_frame +
  assumes Q_keyed: "Q h \<Longrightarrow> m_debuggerAgent h = Some a \<Longrightarrow> keyed (m_breakpointMap a)"
    and Q_maps: "Q h \<Longrightarrow> m_debuggerAgent h = Some a \<Longrightarrow> keyed breakpoints \<Longrightarrow>
      Q (h\<lparr>m_debuggerAgent :=
         Some (a\<lparr>m_shouldSkipAllPauses := skip, m_scriptMap := scripts, m_breakpointMap := breakpoints\<rparr>)\<rparr>)"
    and Q_enable: "Q h \<Longrightarrow> m_debuggerAgent h = Some a \<Longrightarrow>
      Q (h\<lparr>m_debuggerAgent := Some (a\<lparr>di_isEnabled := True\<rparr>), dbg_isEnabled := True,
           m_sourceEventCallback := Some (di_id a), m_breakEventCallback := Some (di_id a)\<rparr>)"
    and Q_disable: "Q h \<Longrightarrow> m_debuggerAgent h = Some a \<Longrightarrow>
      Q (h\<lparr>m_debuggerAgent := Some (a\<lparr>di_isEnabled := False\<rparr>), dbg_isEnabled := False\<rparr>)"
    and Q_no_source: "Q h \<Longrightarrow> \<not> dbg_isEnabled h \<Longrightarrow> Q (h\<lparr>m_sourceEventCallback := None\<rparr>)"
    and Q_callbacks: "Q h \<Longrightarrow> Q (set_callbacks i f h)"
    and Q_runtime: "Q h \<Longrightarrow> m_runtimeAgent h = Some r \<Longrightarrow> ri_id r' = ri_id r \<Longrightarrow>
      Q (h\<lparr>m_runtimeAgent := Some r'\<rparr>)"

text \<open>While the debugger agent lives at an address, its methods keep the property.\<close>

sublocale message_frame < agent:
  debugger_frame "\<lambda>h. Q h \<and> agent_address DebuggerDomain h = Some this" F this for this
  by unfold_locales
    (auto intro: F_Throw F_null F_end F_fuel Q_log Q_resume Q_pause Q_keyed Q_maps Q_enable Q_disable
      Q_no_source dest: Q_enable)

context message_frame
begin

lemma runs_via:
  assumes "F (Undefined DanglingPointer) \<or> (\<forall>h. Q h \<longrightarrow> agent_of h = Some this)"
    and "runs (\<lambda>h. Q h \<and> agent_of h = Some this) F m (\<lambda>_. True)"
  shows "runs Q F (via_agent agent_of this m) (\<lambda>_. True)"
  unfolding runs_def
proof (intro allI impI)
  fix w h
  assume "Q h"
  show "Q (snd (snd (via_agent agent_of this m (w, h)))) \<and>
      (case fst (via_agent agent_of this m (w, h)) of Inl f \<Rightarrow> F f | Inr x \<Rightarrow> True)"
  proof (cases "agent_of h = Some this")
    case True
    with runs_strengthen [OF assms(2) \<open>Q h\<close>] show ?thesis
      by (simp add: via_agent_def live_agent_def getH_def M_defs)
  next
    case False
    with assms(1) \<open>Q h\<close> show ?thesis
      by (auto simp: via_agent_def live_agent_def getH_def M_defs)
  qed
qed

lemma runs_plain_via:
  assumes "F (Undefined DanglingPointer) \<or> (\<forall>h. Q h \<longrightarrow> agent_of h = Some this)"
    and "runs Q F m (\<lambda>_. True)"
  shows "runs Q F (via_agent agent_of this m) (\<lambda>_. True)"
  unfolding runs_def
proof (intro allI impI)
  fix w h
  assume "Q h"
  with assms show "Q (snd (snd (via_agent agent_of this m (w, h)))) \<and>
      (case fst (via_agent agent_of this m (w, h)) of Inl f \<Rightarrow> F f | Inr x \<Rightarrow> True)"
    by (cases "agent_of h = Some this")
      (auto simp: runs_def via_agent_def live_agent_def getH_def M_defs)
qed

text \<open>The parts of the generated handlers.\<close>

lemma runs_error [runs_intros]:
  "runs Q F (reportProtocolErrorTo (Some (handler_channel E)) callId code msg errs) (\<lambda>_. True)"
  "runs Q F (reportProtocolErrorNotification (Some (handler_channel E)) code msg) (\<lambda>_. True)"
  by (simp_all add: reportProtocolErrorTo_def reportProtocolErrorNotification_def runs_channel)

lemma runs_response [runs_intros]:
  "runs Q F (sendResponse (Some (handler_channel E)) callId response result) (\<lambda>_. True)"
  by (simp add: sendResponse_def runs_channel runs_error)

lemma base_channel [simp]: "m_frontendChannel (dispatcher_base E d) = Some (handler_channel E)"
  by (simp add: dispatcher_base_def DispatcherBase.make_def)

lemma runs_finish [runs_intros]:
  "runs Q F (finish (dispatcher_base E d) callId response result) (\<lambda>_. True)"
  unfolding finish_def base_channel by (intro runs_intros TrueI)

lemma runs_with_params [runs_intros]:
  "(\<And>p. runs Q F (call p) (\<lambda>_. True)) \<Longrightarrow>
     runs Q F (with_params (dispatcher_base E d) callId obj body call) (\<lambda>_. True)"
  unfolding with_params_def base_channel by (intro runs_intros TrueI)

lemma runs_callbacks [runs_intros]:
  "runs Q F (modifyM (update_callback_state (dispatcher_base E d) f)) (\<lambda>_. True)"
  by (simp add: runs_def modifyM_def dispatcher_base_def DispatcherBase.make_def Q_callbacks)

lemma runs_callback [runs_intros]:
  "runs Q F (cb_sendFailure (CallbackImpl (dispatcher_base E d) callId callbackId) response) (\<lambda>_. True)"
  unfolding CallbackImpl_def Callback.make_def Callback.simps sendIfActive_def dispose_callback_def
    base_channel
  by (intro runs_intros TrueI)

lemma runs_finish_async [runs_intros]:
  "(\<And>i. runs Q F (call (CallbackImpl (dispatcher_base E d) callId i)) (\<lambda>_. True)) \<Longrightarrow>
     runs Q F (finish_async (dispatcher_base E d) callId call) (\<lambda>_. True)"
  unfolding finish_async_def nextCallbackId_def by (intro runs_intros TrueI)

lemma runs_domain_dispatch:
  assumes "\<And>name handler. (name, handler) \<in> set m \<Longrightarrow> runs Q F (handler callId obj) (\<lambda>_. True)"
  shows "runs Q F (domain_dispatch (dispatcher_base E d) m callId method obj) (\<lambda>_. True)"
  unfolding domain_dispatch_def base_channel
  by (intro runs_intros TrueI) (auto dest: map_of_SomeD intro: assms)

text \<open>The methods of the backends, called through a pointer.\<close>

lemma runs_via_debugger:
  assumes "F (Undefined DanglingPointer) \<or> (\<forall>h. Q h \<longrightarrow> agent_address DebuggerDomain h = Some this)"
    and "runs (\<lambda>h. Q h \<and> agent_address DebuggerDomain h = Some this) F m (\<lambda>_. True)"
  shows "runs Q F (via_debugger this m) (\<lambda>_. True)"
  using runs_via [where agent_of = "\<lambda>h. map_option di_id (m_debuggerAgent h)"] assms
  by (simp add: via_debugger_def)

lemma runs_debugger_backend:
  assumes "F (Undefined DanglingPointer) \<or> (\<forall>h. Q h \<longrightarrow> agent_address DebuggerDomain h = Some this)"
  shows
    "runs Q F (be_Debugger_enable (debugger_backend E this)) (\<lambda>_. True)"
    "runs Q F (be_Debugger_disable (debugger_backend E this)) (\<lambda>_. True)"
    "runs Q F (be_Debugger_setBreakpointsActive (debugger_backend E this) b) (\<lambda>_. True)"
    "runs Q F (be_Debugger_setSkipAllPauses (debugger_backend E this) b) (\<lambda>_. True)"
    "runs Q F (be_Debugger_setBreakpointByUrl (debugger_backend E this) i u r c s) (\<lambda>_. True)"
    "runs Q F (be_Debugger_setBreakpoint (debugger_backend E this) l s) (\<lambda>_. True)"
    "runs Q F (be_Debugger_removeBreakpoint (debugger_backend E this) t) (\<lambda>_. True)"
    "runs Q F (be_Debugger_continueToLocation (debugger_backend E this) l) (\<lambda>_. True)"
    "runs Q F (be_Debugger_stepOver (debugger_backend E this)) (\<lambda>_. True)"
    "runs Q F (be_Debugger_stepInto (debugger_backend E this)) (\<lambda>_. True)"
    "runs Q F (be_Debugger_stepOut (debugger_backend E this)) (\<lambda>_. True)"
    "runs Q F (be_Debugger_pause (debugger_backend E this)) (\<lambda>_. True)"
    "runs Q F (be_Debugger_resume (debugger_backend E this)) (\<lambda>_. True)"
    "runs Q F (be_Debugger_searchInContent (debugger_backend E this) t q b1 b2) (\<lambda>_. True)"
    "runs Q F (be_Debugger_setScriptSource (debugger_backend E this) t q b1) (\<lambda>_. True)"
    "runs Q F (be_Debugger_restartFrame (debugger_backend E this) t) (\<lambda>_. True)"
    "runs Q F (be_Debugger_getScriptSource (debugger_backend E this) t) (\<lambda>_. True)"
    "runs Q F (be_Debugger_setPauseOnExceptions (debugger_backend E this) t) (\<lambda>_. True)"
    "runs Q F (be_Debugger_evaluateOnCallFrame (debugger_backend E this) t q g b1 b2 b3 b4) (\<lambda>_. True)"
    "runs Q F (be_Debugger_setVariableValue (debugger_backend E this) i t v q) (\<lambda>_. True)"
    "runs Q F (be_Debugger_setAsyncCallStackDepth (debugger_backend E this) i) (\<lambda>_. True)"
    "runs Q F (be_Debugger_setBlackboxPatterns (debugger_backend E this) p) (\<lambda>_. True)"
    "runs Q F (be_Debugger_setBlackboxedRanges (debugger_backend E this) t ps) (\<lambda>_. True)"
  unfolding debugger_backend_def Let_def DebuggerBackend.make_def DebuggerBackend.simps
  by (rule runs_via_debugger [OF assms]; intro agent.runs_simple agent.runs_enable
      agent.runs_disable agent.runs_setBreakpointByUrl agent.runs_setBreakpoint
      agent.runs_removeBreakpoint runs_ret TrueI)+

lemma runs_runtime_method:
  assumes "F (Undefined DanglingPointer) \<or> (\<forall>h. Q h \<longrightarrow> agent_address RuntimeDomain h = Some this)"
    and "\<And>w h r. Q h \<Longrightarrow> m_runtimeAgent h = Some r \<Longrightarrow> ri_id r = this \<Longrightarrow>
      Q (snd (snd (m (w, h)))) \<and> (case fst (m (w, h)) of Inl f \<Rightarrow> F f | Inr x \<Rightarrow> True)"
  shows "runs Q F (via_runtime this m) (\<lambda>_. True)"
  unfolding runs_def
proof (intro allI impI)
  fix w h
  assume "Q h"
  with assms show "Q (snd (snd (via_runtime this m (w, h)))) \<and>
      (case fst (via_runtime this m (w, h)) of Inl f \<Rightarrow> F f | Inr x \<Rightarrow> True)"
    by (cases "agent_address RuntimeDomain h = Some this")
      (auto simp: via_runtime_def via_agent_def live_agent_def getH_def M_defs)
qed

lemma runs_plain_runtime:
  assumes "F (Undefined DanglingPointer) \<or> (\<forall>h. Q h \<longrightarrow> agent_address RuntimeDomain h = Some this)"
    and "runs Q F m (\<lambda>_. True)"
  shows "runs Q F (via_runtime this m) (\<lambda>_. True)"
  using runs_plain_via [where agent_of = "\<lambda>h. map_option ri_id (m_runtimeAgent h)"] assms
  by (simp add: via_runtime_def)

lemma runs_getProperties [runs_intros]:
  "runs Q F (RuntimeImpl_getProperties E i own a p) (\<lambda>_. True)"
  unfolding RuntimeImpl_getProperties_def both_descriptors_def Let_def
    LocalScope_GetInternalPropertyDescriptors_def
  by (intro runs_intros TrueI)

lemma runs_runtime_methods:
  assumes "F (Undefined DanglingPointer) \<or> (\<forall>h. Q h \<longrightarrow> agent_address RuntimeDomain h = Some this)"
  shows "runs Q F (via_runtime this (RuntimeImpl_runIfWaitingForDebugger this)) (\<lambda>_. True)"
    and "runs Q F (via_runtime this (RuntimeImpl_enable this)) (\<lambda>_. True)"
    and "runs Q F (via_runtime this (RuntimeImpl_disable this)) (\<lambda>_. True)"
  by (rule runs_runtime_method [OF assms];
      simp add: RuntimeImpl_runIfWaitingForDebugger_def RuntimeImpl_enable_def RuntimeImpl_disable_def
        RunIfWaitingForDebugger_def getRI_def modRI_def getH_def modH_def M_defs Q_resume Q_runtime)+

lemma runs_runtime_backend:
  assumes "F (Undefined DanglingPointer) \<or> (\<forall>h. Q h \<longrightarrow> agent_address RuntimeDomain h = Some this)"
  shows
    "runs Q F (be_Runtime_runIfWaitingForDebugger (runtime_backend E this)) (\<lambda>_. True)"
    "runs Q F (be_Runtime_enable (runtime_backend E this)) (\<lambda>_. True)"
    "runs Q F (be_Runtime_disable (runtime_backend E this)) (\<lambda>_. True)"
    "runs Q F (be_Runtime_getProperties (runtime_backend E this) t b1 b2 b3) (\<lambda>_. True)"
    "runs Q F (be_Runtime_releaseObject (runtime_backend E this) t) (\<lambda>_. True)"
    "runs Q F (be_Runtime_releaseObjectGroup (runtime_backend E this) t) (\<lambda>_. True)"
    "runs Q F (be_Runtime_discardConsoleEntries (runtime_backend E this)) (\<lambda>_. True)"
    "runs Q F (be_Runtime_setCustomObjectFormatterEnabled (runtime_backend E this) en) (\<lambda>_. True)"
    "runs Q F (be_Runtime_compileScript (runtime_backend E this) t u en c) (\<lambda>_. True)"
  unfolding runtime_backend_def Let_def RuntimeBackend.make_def RuntimeBackend.simps
    RuntimeImpl_not_implemented_def
  by (rule runs_runtime_methods [OF assms])+
    (rule runs_plain_runtime [OF assms]; intro runs_getProperties runs_ret TrueI)+

lemma runs_runtime_async:
  assumes "F (Undefined DanglingPointer) \<or> (\<forall>h. Q h \<longrightarrow> agent_address RuntimeDomain h = Some this)"
    and "callback = CallbackImpl (dispatcher_base E' d) callId callbackId"
  shows
    "runs Q F (be_Runtime_evaluate (runtime_backend E this) t a2 a3 a4 a5 a6 a7 a8 a9 callback) (\<lambda>_. True)"
    "runs Q F (be_Runtime_awaitPromise (runtime_backend E this) t b2 b3 callback) (\<lambda>_. True)"
    "runs Q F (be_Runtime_callFunctionOn (runtime_backend E this) t c2 c3 c4 c5 c6 c7 c8 callback) (\<lambda>_. True)"
    "runs Q F (be_Runtime_runScript (runtime_backend E this) t d2 d3 d4 d5 d6 d7 d8 callback) (\<lambda>_. True)"
  unfolding runtime_backend_def Let_def RuntimeBackend.make_def RuntimeBackend.simps
    RuntimeImpl_fail_callback_def assms(2)
  by (rule runs_plain_runtime [OF assms(1)]; rule runs_callback)+

lemma runs_console_schema:
  "F (Undefined DanglingPointer) \<or> (\<forall>h. Q h \<longrightarrow> agent_address ConsoleDomain h = Some this) \<Longrightarrow>
     runs Q F (be_Console_enable (console_backend this)) (\<lambda>_. True) \<and>
     runs Q F (be_Console_disable (console_backend this)) (\<lambda>_. True) \<and>
     runs Q F (be_Console_clearMessages (console_backend this)) (\<lambda>_. True)"
  "F (Undefined DanglingPointer) \<or> (\<forall>h. Q h \<longrightarrow> agent_address SchemaDomain h = Some this) \<Longrightarrow>
     runs Q F (be_Schema_getDomains (schema_backend this)) (\<lambda>_. True)"
  unfolding console_backend_def ConsoleBackend.make_def ConsoleBackend.simps schema_backend_def
    SchemaBackend.make_def SchemaBackend.simps ConsoleImpl_enable_def ConsoleImpl_disable_def
    ConsoleImpl_clearMessages_def SchemaImpl_getDomains_def agent_address.simps
  by (intro conjI runs_plain_via runs_ret TrueI; assumption)+

text \<open>A console message of the script, while the runtime agent is alive.\<close>

lemma runs_consoleAPICalled:
  assumes "\<And>h. Q h \<Longrightarrow> agent_address RuntimeDomain h = Some this"
  shows "runs Q F (RuntimeImpl_consoleAPICalled E this type arguments) (\<lambda>_. True)"
proof -
  have get: "runs Q F (getRI this f) (\<lambda>_. True)" for f :: "RuntimeImpl \<Rightarrow> 'c"
    using assms by (fastforce simp: runs_def getRI_def getH_def M_defs)
  have mod: "runs Q F (modRI this (\<lambda>a. a\<lparr>m_timestamp := t\<rparr>)) (\<lambda>_. True)" for t
    using assms Q_runtime by (fastforce simp: runs_def modRI_def getRI_def getH_def modH_def M_defs)
  show ?thesis
    unfolding RuntimeImpl_consoleAPICalled_def Let_def Runtime_consoleAPICalled_def
    by (intro runs_intros get mod TrueI)
qed

text \<open>Every handler of a domain whose agent is alive, if that matters.\<close>

lemma runs_Debugger_handlers:
  assumes "F (Undefined DanglingPointer) \<or> (\<forall>h. Q h \<longrightarrow> agent_address DebuggerDomain h = Some this)"
  shows
    "runs Q F (Debugger_enable (dispatcher_base E d) (debugger_backend E this) callId obj) (\<lambda>_. True)"
    "runs Q F (Debugger_disable (dispatcher_base E d) (debugger_backend E this) callId obj) (\<lambda>_. True)"
    "runs Q F (Debugger_setBreakpointsActive (dispatcher_base E d) (debugger_backend E this) callId obj) (\<lambda>_. True)"
    "runs Q F (Debugger_setSkipAllPauses (dispatcher_base E d) (debugger_backend E this) callId obj) (\<lambda>_. True)"
    "runs Q F (Debugger_setBreakpointByUrl (dispatcher_base E d) (debugger_backend E this) callId obj) (\<lambda>_. True)"
    "runs Q F (Debugger_setBreakpoint (dispatcher_base E d) (debugger_backend E this) callId obj) (\<lambda>_. True)"
    "runs Q F (Debugger_removeBreakpoint (dispatcher_base E d) (debugger_backend E this) callId obj) (\<lambda>_. True)"
    "runs Q F (Debugger_continueToLocation (dispatcher_base E d) (debugger_backend E this) callId obj) (\<lambda>_. True)"
    "runs Q F (Debugger_stepOver (dispatcher_base E d) (debugger_backend E this) callId obj) (\<lambda>_. True)"
    "runs Q F (Debugger_stepInto (dispatcher_base E d) (debugger_backend E this) callId obj) (\<lambda>_. True)"
    "runs Q F (Debugger_stepOut (dispatcher_base E d) (debugger_backend E this) callId obj) (\<lambda>_. True)"
    "runs Q F (Debugger_pause (dispatcher_base E d) (debugger_backend E this) callId obj) (\<lambda>_. True)"
    "runs Q F (Debugger_resume (dispatcher_base E d) (debugger_backend E this) callId obj) (\<lambda>_. True)"
    "runs Q F (Debugger_searchInContent (dispatcher_base E d) (debugger_backend E this) callId obj) (\<lambda>_. True)"
    "runs Q F (Debugger_setScriptSource (dispatcher_base E d) (debugger_backend E this) callId obj) (\<lambda>_. True)"
    "runs Q F (Debugger_restartFrame (dispatcher_base E d) (debugger_backend E this) callId obj) (\<lambda>_. True)"
    "runs Q F (Debugger_getScriptSource (dispatcher_base E d) (debugger_backend E this) callId obj) (\<lambda>_. True)"
    "runs Q F (Debugger_setPauseOnExceptions (dispatcher_base E d) (debugger_backend E this) callId obj) (\<lambda>_. True)"
    "runs Q F (Debugger_evaluateOnCallFrame (dispatcher_base E d) (debugger_backend E this) callId obj) (\<lambda>_. True)"
    "runs Q F (Debugger_setVariableValue (dispatcher_base E d) (debugger_backend E this) callId obj) (\<lambda>_. True)"
    "runs Q F (Debugger_setAsyncCallStackDepth (dispatcher_base E d) (debugger_backend E this) callId obj) (\<lambda>_. True)"
    "runs Q F (Debugger_setBlackboxPatterns (dispatcher_base E d) (debugger_backend E this) callId obj) (\<lambda>_. True)"
    "runs Q F (Debugger_setBlackboxedRanges (dispatcher_base E d) (debugger_backend E this) callId obj) (\<lambda>_. True)"
  unfolding Debugger_enable_def Debugger_disable_def Debugger_setBreakpointsActive_def
    Debugger_setSkipAllPauses_def Debugger_setBreakpointByUrl_def Debugger_setBreakpoint_def
    Debugger_removeBreakpoint_def Debugger_continueToLocation_def Debugger_stepOver_def
    Debugger_stepInto_def Debugger_stepOut_def Debugger_pause_def Debugger_resume_def
    Debugger_searchInContent_def Debugger_setScriptSource_def Debugger_restartFrame_def
    Debugger_getScriptSource_def Debugger_setPauseOnExceptions_def
    Debugger_evaluateOnCallFrame_def Debugger_setVariableValue_def
    Debugger_setAsyncCallStackDepth_def Debugger_setBlackboxPatterns_def
    Debugger_setBlackboxedRanges_def
  by (intro runs_intros runs_debugger_backend [OF assms] TrueI)+

lemma runs_Debugger:
  assumes "F (Undefined DanglingPointer) \<or> (\<forall>h. Q h \<longrightarrow> agent_address DebuggerDomain h = Some this)"
  shows "runs Q F (domain_dispatch (dispatcher_base E d)
      (Debugger_dispatchMap (dispatcher_base E d) (debugger_backend E this)) callId method obj) (\<lambda>_. True)"
  by (rule runs_domain_dispatch)
    (auto simp: Debugger_dispatchMap_def runs_Debugger_handlers [OF assms])

lemma runs_Runtime_handlers:
  assumes "F (Undefined DanglingPointer) \<or> (\<forall>h. Q h \<longrightarrow> agent_address RuntimeDomain h = Some this)"
  shows
    "runs Q F (Runtime_evaluate (dispatcher_base E d) (runtime_backend E this) callId obj) (\<lambda>_. True)"
    "runs Q F (Runtime_awaitPromise (dispatcher_base E d) (runtime_backend E this) callId obj) (\<lambda>_. True)"
    "runs Q F (Runtime_callFunctionOn (dispatcher_base E d) (runtime_backend E this) callId obj) (\<lambda>_. True)"
    "runs Q F (Runtime_getProperties (dispatcher_base E d) (runtime_backend E this) callId obj) (\<lambda>_. True)"
    "runs Q F (Runtime_releaseObject (dispatcher_base E d) (runtime_backend E this) callId obj) (\<lambda>_. True)"
    "runs Q F (Runtime_releaseObjectGroup (dispatcher_base E d) (runtime_backend E this) callId obj) (\<lambda>_. True)"
    "runs Q F (Runtime_runIfWaitingForDebugger (dispatcher_base E d) (runtime_backend E this) callId obj) (\<lambda>_. True)"
    "runs Q F (Runtime_enable (dispatcher_base E d) (runtime_backend E this) callId obj) (\<lambda>_. True)"
    "runs Q F (Runtime_disable (dispatcher_base E d) (runtime_backend E this) callId obj) (\<lambda>_. True)"
    "runs Q F (Runtime_discardConsoleEntries (dispatcher_base E d) (runtime_backend E this) callId obj) (\<lambda>_. True)"
    "runs Q F (Runtime_setCustomObjectFormatterEnabled (dispatcher_base E d) (runtime_backend E this) callId obj) (\<lambda>_. True)"
    "runs Q F (Runtime_compileScript (dispatcher_base E d) (runtime_backend E this) callId obj) (\<lambda>_. True)"
    "runs Q F (Runtime_runScript (dispatcher_base E d) (runtime_backend E this) callId obj) (\<lambda>_. True)"
  unfolding Runtime_evaluate_def Runtime_awaitPromise_def Runtime_callFunctionOn_def
    Runtime_getProperties_def Runtime_releaseObject_def Runtime_releaseObjectGroup_def
    Runtime_runIfWaitingForDebugger_def Runtime_enable_def Runtime_disable_def
    Runtime_discardConsoleEntries_def Runtime_setCustomObjectFormatterEnabled_def
    Runtime_compileScript_def Runtime_runScript_def
  by (intro runs_intros runs_runtime_backend [OF assms]
      runs_runtime_async [OF assms refl] TrueI)+

lemma runs_Runtime:
  assumes "F (Undefined DanglingPointer) \<or> (\<forall>h. Q h \<longrightarrow> agent_address RuntimeDomain h = Some this)"
  shows "runs Q F (domain_dispatch (dispatcher_base E d)
      (Runtime_dispatchMap (dispatcher_base E d) (runtime_backend E this)) callId method obj) (\<lambda>_. True)"
  by (rule runs_domain_dispatch)
    (auto simp: Runtime_dispatchMap_def runs_Runtime_handlers [OF assms])

lemma runs_Console_handlers:
  assumes "F (Undefined DanglingPointer) \<or> (\<forall>h. Q h \<longrightarrow> agent_address ConsoleDomain h = Some this)"
  shows
    "runs Q F (Console_enable (dispatcher_base E d) (console_backend this) callId obj) (\<lambda>_. True)"
    "runs Q F (Console_disable (dispatcher_base E d) (console_backend this) callId obj) (\<lambda>_. True)"
    "runs Q F (Console_clearMessages (dispatcher_base E d) (console_backend this) callId obj) (\<lambda>_. True)"
  unfolding Console_enable_def Console_disable_def Console_clearMessages_def
  by (intro runs_intros runs_console_schema(1) [OF assms, THEN conjunct1]
      runs_console_schema(1) [OF assms, THEN conjunct2, THEN conjunct1]
      runs_console_schema(1) [OF assms, THEN conjunct2, THEN conjunct2] TrueI)+

lemma runs_Console:
  assumes "F (Undefined DanglingPointer) \<or> (\<forall>h. Q h \<longrightarrow> agent_address ConsoleDomain h = Some this)"
  shows "runs Q F (domain_dispatch (dispatcher_base E d)
      (Console_dispatchMap (dispatcher_base E d) (console_backend this)) callId method obj) (\<lambda>_. True)"
  by (rule runs_domain_dispatch)
    (auto simp: Console_dispatchMap_def runs_Console_handlers [OF assms])

lemma runs_Schema_handlers:
  assumes "F (Undefined DanglingPointer) \<or> (\<forall>h. Q h \<longrightarrow> agent_address SchemaDomain h = Some this)"
  shows
    "runs Q F (Schema_getDomains (dispatcher_base E d) (schema_backend this) callId obj) (\<lambda>_. True)"
  unfolding Schema_getDomains_def
  by (intro runs_intros runs_console_schema(2) [OF assms] TrueI)+

lemma runs_Schema:
  assumes "F (Undefined DanglingPointer) \<or> (\<forall>h. Q h \<longrightarrow> agent_address SchemaDomain h = Some this)"
  shows "runs Q F (domain_dispatch (dispatcher_base E d)
      (Schema_dispatchMap (dispatcher_base E d) (schema_backend this)) callId method obj) (\<lambda>_. True)"
  by (rule runs_domain_dispatch)
    (auto simp: Schema_dispatchMap_def runs_Schema_handlers [OF assms])

lemma runs_call_dispatcher:
  assumes "F (Undefined DanglingPointer) \<or> (\<forall>h. Q h \<longrightarrow> live_backend d h)"
  shows "runs Q F (call_dispatcher E d callId method obj) (\<lambda>_. True)"
  using assms unfolding call_dispatcher_def Let_def
  by (cases "dd_domain d")
    (auto simp: live_backend_def intro!: runs_Debugger runs_Runtime runs_Console runs_Schema)

end

subsection \<open>Dispatch\<close>

context message_frame
begin

lemma runs_uber:
  assumes "\<And>name d callId method obj. (name, d) \<in> set (m_dispatchers u) \<Longrightarrow>
    runs Q F (call_dispatcher E d callId method obj) (\<lambda>_. True)"
  shows "runs Q F (uber_dispatch (Some (handler_channel E)) (call_dispatcher E) u parsedMessage) (\<lambda>_. True)"
  unfolding uber_dispatch_def Let_def
  by (intro runs_intros TrueI) (auto dest!: map_of_SomeD intro: assms)

end

locale dispatch_frame = message_frame +
  assumes Q_dangling: "F (Undefined DanglingPointer) \<or> (\<forall>h. Q h \<longrightarrow> live_backends h)"

lemma live_backend_updates [simp]:
  "live_backend d (h\<lparr>host_log := events\<rparr>) = live_backend d h"
  "live_backend d (h\<lparr>m_waitingForDebugger := b\<rparr>) = live_backend d h"
  "live_backend d (h\<lparr>m_shouldPauseOnNextStatement := b\<rparr>) = live_backend d h"
  "live_backend d (h\<lparr>m_sourceEventCallback := c\<rparr>) = live_backend d h"
  "live_backend d (set_callbacks i f h) = live_backend d h"
  by (cases "dd_domain d"; simp add: live_backend_def set_callbacks_def)+

lemma live_backend_agents:
  "live_backend d h \<Longrightarrow> m_debuggerAgent h = Some a \<Longrightarrow> di_id a' = di_id a \<Longrightarrow>
     live_backend d (h\<lparr>m_debuggerAgent := Some a'\<rparr>)"
  "live_backend d h \<Longrightarrow> m_runtimeAgent h = Some r \<Longrightarrow> ri_id r' = ri_id r \<Longrightarrow>
     live_backend d (h\<lparr>m_runtimeAgent := Some r'\<rparr>)"
  "live_backend d (h\<lparr>dbg_isEnabled := b\<rparr>) = live_backend d h"
  "live_backend d (h\<lparr>m_breakEventCallback := c\<rparr>) = live_backend d h"
  by (cases "dd_domain d"; simp add: live_backend_def)+

text \<open>The dispatchers that were live when the message came in stay live while it is handled.\<close>

sublocale dispatch_frame < live:
  message_frame "\<lambda>h. Q h \<and> (\<forall>(name, d) \<in> set ds. live_backend d h)" F for ds :: "(string16 \<times> DomainDispatcher) list"
  by unfold_locales
    (auto intro!: F_Throw F_null F_end F_fuel Q_log Q_resume Q_pause Q_maps Q_enable Q_disable
      Q_no_source Q_callbacks Q_runtime intro: Q_keyed live_backend_agents simp: live_backend_agents)

context dispatch_frame
begin

lemma runs_dispatch [runs_intros]: "runs Q F (dispatch E parsedMessage) (\<lambda>_. True)"
proof (cases "F (Undefined DanglingPointer)")
  case True
  then show ?thesis
    unfolding dispatch_def by (intro runs_bind_True runs_getH_True runs_uber runs_call_dispatcher disjI1)
next
  case False
  with Q_dangling have here: "\<forall>(name, d) \<in> set (m_dispatchers (m_dispatcher h)). live_backend d h"
    if "Q h" for h using that by (auto simp: live_backends_def)
  have go: "runs (\<lambda>h. Q h \<and> (\<forall>(name, d) \<in> set (m_dispatchers u). live_backend d h)) F
      (uber_dispatch (Some (handler_channel E)) (call_dispatcher E) u parsedMessage) (\<lambda>_. True)" for u
    by (rule live.runs_uber, rule live.runs_call_dispatcher) auto
  show ?thesis
    unfolding dispatch_def
    by (rule runs_getH_bind [where P = "\<lambda>u h. \<forall>(name, d) \<in> set (m_dispatchers u). live_backend d h"])
      (rule go, rule here)
qed

lemma runs_HandleMessageReceived [runs_intros]: "runs Q F (HandleMessageReceived E message) (\<lambda>_. True)"
  unfolding HandleMessageReceived_def by (intro runs_intros TrueI)

end

end
