(* ===== verification/HandlerInvariant.thy ===== *)
theory HandlerInvariant
  imports MessageFrame
begin

section \<open>The invariant of a protocol handler\<close>

text \<open>
  \<open>handler_ok\<close> holds of a new handler and is kept by every entry point, command and debug event:
  the domains are registered under their names, without redirects; while the handler is connected every
  domain is registered and its dispatcher points to the living agent; the debugger is enabled exactly when its agent
  is, and then both event handlers lead to that agent; breakpoints are stored under their keys.
\<close>

definition dispatchers :: "Handler \<Rightarrow> (string16 \<times> DomainDispatcher) list" where
  "dispatchers h = m_dispatchers (m_dispatcher h)"

definition dispatcher_ok :: "Handler \<Rightarrow> bool" where
  "dispatcher_ok h \<longleftrightarrow>
     m_redirects (m_dispatcher h) = [] \<and> \<not> u_fallThroughForNotFound (m_dispatcher h) \<and>
     distinct (map fst (dispatchers h)) \<and> distinct (map (dd_id \<circ> snd) (dispatchers h)) \<and>
     (\<forall>(name, d) \<in> set (dispatchers h).
        name = domain_name (dd_domain d) \<and> dd_id d < next_object h \<and> \<not> dd_fallThrough d)"

definition wired :: "DomainName \<Rightarrow> Handler \<Rightarrow> bool" where
  "wired domain h \<longleftrightarrow>
     (\<exists>d. map_of (dispatchers h) (domain_name domain) = Some d \<and> dd_domain d = domain \<and>
        live_backend d h)"

definition debugger_ok :: "Handler \<Rightarrow> bool" where
  "debugger_ok h \<longleftrightarrow>
     (dbg_isEnabled h \<longleftrightarrow> (\<exists>a. m_debuggerAgent h = Some a \<and> di_isEnabled a)) \<and>
     (dbg_isEnabled h \<longrightarrow> m_sourceEventCallback h = agent_address DebuggerDomain h \<and>
        m_breakEventCallback h = agent_address DebuggerDomain h) \<and>
     (\<forall>a. m_debuggerAgent h = Some a \<longrightarrow> keyed (m_breakpointMap a))"

definition handler_ok :: "Handler \<Rightarrow> bool" where
  "handler_ok h \<longleftrightarrow>
     dispatcher_ok h \<and> debugger_ok h \<and> (m_isConnected h \<longrightarrow> (\<forall>domain. wired domain h))"

lemma debugger_ok_updates [simp]:
  "debugger_ok (h\<lparr>host_log := l\<rparr>) = debugger_ok h"
  "debugger_ok (h\<lparr>m_waitingForDebugger := b\<rparr>) = debugger_ok h"
  "debugger_ok (h\<lparr>m_shouldPauseOnNextStatement := b\<rparr>) = debugger_ok h"
  "debugger_ok (h\<lparr>m_runtimeAgent := r\<rparr>) = debugger_ok h"
  "debugger_ok (set_callbacks i f h) = debugger_ok h"
  by (simp_all add: debugger_ok_def set_callbacks_def)

lemma debugger_ok_parts [simp]:
  "debugger_ok (h\<lparr>next_object := n\<rparr>) = debugger_ok h"
  "debugger_ok (h\<lparr>m_consoleAgent := c\<rparr>) = debugger_ok h"
  "debugger_ok (h\<lparr>m_schemaAgent := c\<rparr>) = debugger_ok h"
  "debugger_ok (h\<lparr>m_isConnected := b\<rparr>) = debugger_ok h"
  by (simp_all add: debugger_ok_def)

lemma agent_address_console [simp]:
  "agent_address domain (h\<lparr>m_consoleAgent := c\<rparr>) =
     (if domain = ConsoleDomain then c else agent_address domain h)"
  by (cases domain) simp_all

lemma agent_address_debugger [simp]:
  "agent_address domain (h\<lparr>m_debuggerAgent := a\<rparr>) =
     (if domain = DebuggerDomain then map_option di_id a else agent_address domain h)"
  by (cases domain) simp_all

lemma agent_address_runtime [simp]:
  "agent_address domain (h\<lparr>m_runtimeAgent := a\<rparr>) =
     (if domain = RuntimeDomain then map_option ri_id a else agent_address domain h)"
  by (cases domain) simp_all

lemma agent_address_schema [simp]:
  "agent_address domain (h\<lparr>m_schemaAgent := c\<rparr>) =
     (if domain = SchemaDomain then c else agent_address domain h)"
  by (cases domain) simp_all

lemma agent_address_next [simp]: "agent_address domain (h\<lparr>next_object := n\<rparr>) = agent_address domain h"
  by (cases domain) simp_all

lemma agent_address_connected [simp]:
  "agent_address domain (h\<lparr>m_isConnected := b\<rparr>) = agent_address domain h"
  by (cases domain) simp_all

lemma dispatchers_parts [simp]:
  "dispatchers (h\<lparr>next_object := n\<rparr>) = dispatchers h"
  "dispatchers (h\<lparr>m_consoleAgent := c\<rparr>) = dispatchers h"
  "dispatchers (h\<lparr>m_debuggerAgent := a\<rparr>) = dispatchers h"
  "dispatchers (h\<lparr>m_runtimeAgent := r\<rparr>) = dispatchers h"
  "dispatchers (h\<lparr>m_schemaAgent := c\<rparr>) = dispatchers h"
  "dispatchers (h\<lparr>m_isConnected := b\<rparr>) = dispatchers h"
  by (simp_all add: dispatchers_def)

lemma handler_ok_same:
  assumes "m_dispatcher h' = m_dispatcher h" "next_object h' = next_object h"
    "debugger_ok h' = debugger_ok h" "m_isConnected h' = m_isConnected h"
    "\<And>domain. agent_address domain h' = agent_address domain h"
  shows "handler_ok h' = handler_ok h"
  using assms by (simp add: handler_ok_def dispatcher_ok_def wired_def live_backend_def dispatchers_def)

lemma handler_ok_updates [simp]:
  "handler_ok (h\<lparr>m_sendResponseCallback := c\<rparr>) = handler_ok h"
  "handler_ok (h\<lparr>m_sendResponseCallbackState := n\<rparr>) = handler_ok h"
  "handler_ok (h\<lparr>m_commandQueueCallback := c\<rparr>) = handler_ok h"
  "handler_ok (h\<lparr>m_commandQueueCallbackState := n\<rparr>) = handler_ok h"
  "handler_ok (h\<lparr>m_commandQueue := q\<rparr>) = handler_ok h"
  "handler_ok (h\<lparr>m_breakOnNextLine := b\<rparr>) = handler_ok h"
  "handler_ok (h\<lparr>m_waitingForDebugger := b\<rparr>) = handler_ok h"
  "handler_ok (h\<lparr>m_shouldPauseOnNextStatement := b\<rparr>) = handler_ok h"
  "handler_ok (h\<lparr>m_isPaused := b\<rparr>) = handler_ok h"
  "handler_ok (h\<lparr>m_isRunningNestedMessageLoop := b\<rparr>) = handler_ok h"
  "handler_ok (h\<lparr>host_log := l\<rparr>) = handler_ok h"
  "handler_ok (h\<lparr>arrivals := a\<rparr>) = handler_ok h"
  by (rule handler_ok_same; (simp add: debugger_ok_def; fail)?; case_tac domain; simp)+

lemma handler_ok_init: "handler_ok (Handler_init c)"
  by (simp add: handler_ok_def dispatcher_ok_def debugger_ok_def dispatchers_def Handler_init_def
      Handler.make_def UberDispatcher_init_def UberDispatcher.make_def)

lemma domain_name_inj: "domain_name a = domain_name b \<longleftrightarrow> a = b"
  by (cases a; cases b) (simp_all add: str_defs lit_Cons)

lemma wired_live_backends:
  assumes "handler_ok h" and "m_isConnected h"
  shows "live_backends h"
  unfolding live_backends_def
proof clarify
  fix name d
  assume "(name, d) \<in> set (m_dispatchers (m_dispatcher h))"
  with assms have "map_of (dispatchers h) name = Some d" and "name = domain_name (dd_domain d)"
    by (auto simp: handler_ok_def dispatcher_ok_def dispatchers_def)
  moreover have "wired (dd_domain d) h" using assms by (simp add: handler_ok_def)
  ultimately show "live_backend d h" by (simp add: wired_def)
qed

text \<open>What a message may not change.\<close>

definition dispatcher_entry :: "string16 \<times> DomainDispatcher \<Rightarrow> string16 \<times> DomainName \<times> nat \<times> nat \<times> bool" where
  "dispatcher_entry e = (fst e, dd_domain (snd e), dd_id (snd e), dd_backend (snd e), dd_fallThrough (snd e))"

definition fixed_parts where
  "fixed_parts h =
     (m_debugContext h, m_isPaused h, m_isRunningNestedMessageLoop h, m_sendResponseCallback h,
      m_sendResponseCallbackState h, m_commandQueueCallback h, m_commandQueueCallbackState h,
      m_commandQueue h, m_isConnected h, m_breakOnNextLine h, map dispatcher_entry (dispatchers h),
      m_redirects (m_dispatcher h), u_fallThroughForNotFound (m_dispatcher h),
      m_consoleAgent h, map_option di_id (m_debuggerAgent h), map_option ri_id (m_runtimeAgent h),
      m_schemaAgent h, next_object h, arrivals h)"

definition kept :: "Handler \<Rightarrow> Handler \<Rightarrow> bool" where
  "kept g h \<longleftrightarrow>
     fixed_parts h = fixed_parts g \<and>
     (m_waitingForDebugger h \<longrightarrow> m_waitingForDebugger g) \<and>
     (m_shouldPauseOnNextStatement g \<longrightarrow> m_shouldPauseOnNextStatement h) \<and>
     (\<exists>sent. host_log h = host_log g @ sent)"

lemma kept_refl [simp, intro]: "kept h h"
  by (simp add: kept_def)

lemma kept_fixed: "kept g h \<Longrightarrow> fixed_parts h = fixed_parts g"
  by (simp add: kept_def)

lemma kept_fields:
  assumes "kept g h"
  shows "m_isConnected h = m_isConnected g" "m_commandQueue h = m_commandQueue g"
    "arrivals h = arrivals g" "m_debugContext h = m_debugContext g" "m_isPaused h = m_isPaused g"
    "m_isRunningNestedMessageLoop h = m_isRunningNestedMessageLoop g"
    "m_breakOnNextLine h = m_breakOnNextLine g"
    "m_sendResponseCallback h = m_sendResponseCallback g"
  using kept_fixed [OF assms] by (simp_all add: fixed_parts_def)

lemma kept_trans: "kept f g \<Longrightarrow> kept g h \<Longrightarrow> kept f h"
  by (auto simp: kept_def)

text \<open>The faults an agent's method may end with.\<close>

fun agent_fault :: "fault \<Rightarrow> bool" where
  "agent_fault (Throw e) = True"
| "agent_fault (Undefined u) = (u \<noteq> DanglingPointer)"
| "agent_fault (OutOfFuel l) = (l = ScriptComments)"
| "agent_fault _ = False"

text \<open>The faults a command may end with.\<close>

definition command_fault :: "fault \<Rightarrow> bool" where
  "command_fault f \<longleftrightarrow> f \<noteq> Blocked \<and> f \<noteq> OutOfFuel CommandLoop"

lemma agent_command_fault: "agent_fault f \<Longrightarrow> command_fault f"
  by (cases f) (auto simp: command_fault_def)

text \<open>What the invariant says depends on the fixed parts for the dispatchers.\<close>

lemma entry_map_of:
  "map dispatcher_entry xs = map dispatcher_entry ys \<Longrightarrow> map_of ys n = Some d \<Longrightarrow>
     \<exists>d'. map_of xs n = Some d' \<and> dd_domain d' = dd_domain d \<and> dd_id d' = dd_id d \<and>
       dd_backend d' = dd_backend d \<and> dd_fallThrough d' = dd_fallThrough d"
  by (induction xs ys rule: list_induct2') (auto simp: dispatcher_entry_def split: if_splits)

lemma fixed_address: "fixed_parts h = fixed_parts g \<Longrightarrow> agent_address domain h = agent_address domain g"
  by (cases domain) (simp_all add: fixed_parts_def)

lemma fixed_entries:
  "fixed_parts h = fixed_parts g \<Longrightarrow> map dispatcher_entry (dispatchers h) = map dispatcher_entry (dispatchers g)"
  by (simp add: fixed_parts_def)

lemma fixed_wired:
  assumes "fixed_parts h = fixed_parts g" and "wired domain g"
  shows "wired domain h"
proof -
  obtain d where d: "map_of (dispatchers g) (domain_name domain) = Some d" "dd_domain d = domain"
    "agent_address domain g = Some (dd_backend d)"
    using assms(2) by (auto simp: wired_def live_backend_def)
  with entry_map_of [OF fixed_entries [OF assms(1)] d(1)] fixed_address [OF assms(1)]
  show ?thesis by (auto simp: wired_def live_backend_def)
qed

lemma fixed_dispatcher_ok:
  assumes "fixed_parts h = fixed_parts g" and "dispatcher_ok g"
  shows "dispatcher_ok h"
proof -
  note e = fixed_entries [OF assms(1)]
  have "map fst (dispatchers h) = map fst (dispatchers g)"
    using arg_cong [OF e, of "map fst"] by (simp add: dispatcher_entry_def comp_def)
  moreover have "map (dd_id \<circ> snd) (dispatchers h) = map (dd_id \<circ> snd) (dispatchers g)"
    using arg_cong [OF e, of "map (\<lambda>e. fst (snd (snd e)))"] by (simp add: dispatcher_entry_def comp_def)
  moreover have "name = domain_name (dd_domain d) \<and> dd_id d < next_object h \<and> \<not> dd_fallThrough d"
    if "(name, d) \<in> set (dispatchers h)" for name d
  proof -
    have "dispatcher_entry (name, d) \<in> dispatcher_entry ` set (dispatchers g)"
      using that e by (metis image_eqI list.set_map)
    then obtain d' where d': "(name, d') \<in> set (dispatchers g)" "dd_domain d' = dd_domain d"
      "dd_id d' = dd_id d" "dd_fallThrough d' = dd_fallThrough d"
      by (auto simp: dispatcher_entry_def)
    moreover have "next_object h = next_object g" using assms(1) by (simp add: fixed_parts_def)
    ultimately show ?thesis using assms(2) by (fastforce simp: dispatcher_ok_def)
  qed
  moreover have "m_redirects (m_dispatcher h) = m_redirects (m_dispatcher g)"
    "u_fallThroughForNotFound (m_dispatcher h) = u_fallThroughForNotFound (m_dispatcher g)"
    using assms(1) by (simp_all add: fixed_parts_def)
  ultimately show ?thesis using assms(2) by (auto simp: dispatcher_ok_def)
qed

lemma fixed_ok:
  assumes "fixed_parts h = fixed_parts g" and "handler_ok g" and "debugger_ok h"
  shows "handler_ok h"
proof -
  have "m_isConnected h = m_isConnected g" using assms(1) by (simp add: fixed_parts_def)
  with assms fixed_dispatcher_ok [OF assms(1)] fixed_wired [OF assms(1)] show ?thesis
    by (simp add: handler_ok_def)
qed

subsection \<open>Messages keep the invariant and the fixed parts\<close>

definition serving :: "Handler \<Rightarrow> Handler \<Rightarrow> bool" where
  "serving g h \<longleftrightarrow> kept g h \<and> debugger_ok h"

lemma serving_ok: "handler_ok g \<Longrightarrow> serving g h \<Longrightarrow> handler_ok h"
  using fixed_ok [of h g] by (simp add: serving_def kept_def)

lemma serving_self: "debugger_ok h \<Longrightarrow> serving h h"
  by (simp add: serving_def)

lemma keptI:
  assumes "kept g h" and "fixed_parts h' = fixed_parts h"
    and "m_waitingForDebugger h' \<Longrightarrow> m_waitingForDebugger h"
    and "m_shouldPauseOnNextStatement h \<Longrightarrow> m_shouldPauseOnNextStatement h'"
    and "host_log h' = host_log h @ events"
  shows "kept g h'"
  using assms by (auto simp: kept_def)

lemma set_callbacks_dispatchers [simp]:
  "map dispatcher_entry (dispatchers (set_callbacks i f h)) = map dispatcher_entry (dispatchers h)"
  by (simp add: set_callbacks_def dispatchers_def dispatcher_entry_def case_prod_unfold comp_def)

lemma message_frame_serving:
  assumes "\<And>f. agent_fault f \<Longrightarrow> F f"
  shows "message_frame (serving g) F"
proof unfold_locales
  fix h a r l
  show "F (Throw e)" for e by (rule assms) simp
  show "F (Undefined NullDereference)" and "F (Undefined EndIterator)"
    and "F (OutOfFuel ScriptComments)" by (rule assms; simp)+
  assume q: "serving g h"
  note k = keptI [of g h _ "[]"]
  show "serving g (h\<lparr>host_log := host_log h @ l\<rparr>)"
    using q keptI [of g h "h\<lparr>host_log := host_log h @ l\<rparr>" l]
    by (simp add: serving_def fixed_parts_def dispatchers_def)
  show "serving g (h\<lparr>m_waitingForDebugger := False\<rparr>)"
    using q k [of "h\<lparr>m_waitingForDebugger := False\<rparr>"]
    by (simp add: serving_def fixed_parts_def dispatchers_def)
  show "serving g (h\<lparr>m_shouldPauseOnNextStatement := True\<rparr>)"
    using q k [of "h\<lparr>m_shouldPauseOnNextStatement := True\<rparr>"]
    by (simp add: serving_def fixed_parts_def dispatchers_def)
  show "\<not> dbg_isEnabled h \<Longrightarrow> serving g (h\<lparr>m_sourceEventCallback := None\<rparr>)"
    using q k [of "h\<lparr>m_sourceEventCallback := None\<rparr>"]
    by (simp add: serving_def debugger_ok_def fixed_parts_def dispatchers_def)
  show "serving g (set_callbacks i f h)" for i f
    using q k [of "set_callbacks i f h"]
    by (simp add: serving_def fixed_parts_def) (simp add: set_callbacks_def)
  show "m_runtimeAgent h = Some r \<Longrightarrow> ri_id r' = ri_id r \<Longrightarrow> serving g (h\<lparr>m_runtimeAgent := Some r'\<rparr>)" for r'
    using q k [of "h\<lparr>m_runtimeAgent := Some r'\<rparr>"]
    by (simp add: serving_def fixed_parts_def dispatchers_def)
  assume a: "m_debuggerAgent h = Some a"
  show "keyed (m_breakpointMap a)" using q a by (simp add: serving_def debugger_ok_def)
  show "keyed bs \<Longrightarrow> serving g (h\<lparr>m_debuggerAgent :=
      Some (a\<lparr>m_shouldSkipAllPauses := skip, m_scriptMap := scripts, m_breakpointMap := bs\<rparr>)\<rparr>)"
    for bs skip scripts
    using q a k [of "h\<lparr>m_debuggerAgent :=
      Some (a\<lparr>m_shouldSkipAllPauses := skip, m_scriptMap := scripts, m_breakpointMap := bs\<rparr>)\<rparr>"]
    by (simp add: serving_def debugger_ok_def fixed_parts_def dispatchers_def)
  show "serving g (h\<lparr>m_debuggerAgent := Some (a\<lparr>di_isEnabled := True\<rparr>), dbg_isEnabled := True,
      m_sourceEventCallback := Some (di_id a), m_breakEventCallback := Some (di_id a)\<rparr>)"
    using q a k [of "h\<lparr>m_debuggerAgent := Some (a\<lparr>di_isEnabled := True\<rparr>), dbg_isEnabled := True,
      m_sourceEventCallback := Some (di_id a), m_breakEventCallback := Some (di_id a)\<rparr>"]
    by (simp add: serving_def debugger_ok_def fixed_parts_def dispatchers_def)
  show "serving g (h\<lparr>m_debuggerAgent := Some (a\<lparr>di_isEnabled := False\<rparr>), dbg_isEnabled := False\<rparr>)"
    using q a k [of "h\<lparr>m_debuggerAgent := Some (a\<lparr>di_isEnabled := False\<rparr>), dbg_isEnabled := False\<rparr>"]
    by (simp add: serving_def debugger_ok_def fixed_parts_def dispatchers_def)
qed

interpretation msg: message_frame "serving g" agent_fault for g
  by (rule message_frame_serving) simp

interpretation any: dispatch_frame "serving g" "\<lambda>f. agent_fault f \<or> f = Undefined DanglingPointer" for g
  by (intro dispatch_frame.intro dispatch_frame_axioms.intro message_frame_serving) simp_all

lemma connected_frame:
  assumes "handler_ok g" and "m_isConnected g"
  shows "dispatch_frame (serving g) agent_fault"
proof (intro dispatch_frame.intro dispatch_frame_axioms.intro disjI2 allI impI)
  show "message_frame (serving g) agent_fault" by (rule message_frame_serving) simp
  fix h
  assume "serving g h"
  with assms show "live_backends h"
    using wired_live_backends [OF serving_ok] kept_fields(1) [of g h] by (simp add: serving_def)
qed

lemma runs_result:
  assumes "runs Q F m R" and "Q h" and "m (w, h) = (r, (w', h'))"
  shows "Q h' \<and> (\<forall>f. r = Inl f \<longrightarrow> F f) \<and> (\<forall>x. r = Inr x \<longrightarrow> R x)"
  using assms by (auto simp: runs_def dest!: spec [of _ w] spec [of _ h])

lemma HandleMessageReceived_serving:
  assumes "handler_ok h" and "HandleMessageReceived E message (w, h) = (r, (w', h'))"
  shows "handler_ok h' \<and> kept h h' \<and>
    (\<forall>f. r = Inl f \<longrightarrow> agent_fault f \<or> \<not> m_isConnected h \<and> f = Undefined DanglingPointer)"
proof -
  have q: "serving h h" using assms(1) by (simp add: serving_self handler_ok_def)
  from runs_result [OF any.runs_HandleMessageReceived this assms(2)]
  have "serving h h' \<and> (\<forall>f. r = Inl f \<longrightarrow> agent_fault f \<or> f = Undefined DanglingPointer)" by simp
  moreover have "\<forall>f. r = Inl f \<longrightarrow> agent_fault f" if "m_isConnected h"
  proof -
    have "runs (serving h) agent_fault (HandleMessageReceived E message) (\<lambda>_. True)"
      by (rule dispatch_frame.runs_HandleMessageReceived) (rule connected_frame [OF assms(1) that])
    from runs_result [OF this q assms(2)] show ?thesis by simp
  qed
  ultimately show ?thesis using serving_ok [of h h'] assms(1) by (auto simp: serving_def)
qed

subsection \<open>Connecting and disconnecting\<close>

text \<open>\<open>ensures P m S T\<close>: from \<open>P\<close>, the computation ends in \<open>S\<close> with a result or in \<open>T\<close> with a fault.\<close>

definition ensures ::
  "(Handler \<Rightarrow> bool) \<Rightarrow> ('w, 'a) H \<Rightarrow> ('a \<Rightarrow> Handler \<Rightarrow> bool) \<Rightarrow> (fault \<Rightarrow> Handler \<Rightarrow> bool) \<Rightarrow> bool" where
  "ensures P m S T \<longleftrightarrow>
     (\<forall>w h. P h \<longrightarrow>
        (case m (w, h) of (Inl f, (_, h')) \<Rightarrow> T f h' | (Inr x, (_, h')) \<Rightarrow> S x h'))"

lemma ensuresD:
  "ensures P m S T \<Longrightarrow> P h \<Longrightarrow> m (w, h) = (r, (w', h')) \<Longrightarrow>
     (\<forall>f. r = Inl f \<longrightarrow> T f h') \<and> (\<forall>x. r = Inr x \<longrightarrow> S x h')"
  by (auto simp: ensures_def split: prod.splits sum.splits)

lemma ensuresI:
  "(\<And>w h r w' h'. P h \<Longrightarrow> m (w, h) = (r, (w', h')) \<Longrightarrow>
     (\<forall>f. r = Inl f \<longrightarrow> T f h') \<and> (\<forall>x. r = Inr x \<longrightarrow> S x h')) \<Longrightarrow> ensures P m S T"
  by (auto simp: ensures_def split: prod.splits sum.splits)

lemma ensures_bind:
  assumes m: "ensures P m S T" and f: "\<And>x. ensures (S x) (f x) S' T"
  shows "ensures P (bindM m f) S' T"
  unfolding ensures_def
proof (intro allI impI)
  fix w h
  assume "P h"
  obtain r w' h' where eq: "m (w, h) = (r, (w', h'))" by (cases "m (w, h)") auto
  from ensuresD [OF m \<open>P h\<close> eq] f show "case bindM m f (w, h) of
      (Inl g, (_, h')) \<Rightarrow> T g h' | (Inr x, (_, h')) \<Rightarrow> S' x h'"
    by (cases r) (auto simp: bindM_def eq ensures_def)
qed

lemma ensures_seq: "ensures P m S T \<Longrightarrow> ensures (S ()) n S' T \<Longrightarrow> ensures P (seqM m n) S' T"
  unfolding seqM_def by (rule ensures_bind) simp_all

lemma ensures_modH: "(\<And>h. P h \<Longrightarrow> S () (f h)) \<Longrightarrow> ensures P (modH f) S T"
  by (simp add: ensures_def modH_def modifyM_def)

lemma ensures_weaken:
  assumes "ensures P m S T" and "\<And>h. P' h \<Longrightarrow> P h" and "\<And>x h. S x h \<Longrightarrow> S' x h" and "\<And>f h. T f h \<Longrightarrow> T' f h"
  shows "ensures P' m S' T'"
proof (rule ensuresI)
  fix w h r w' h'
  assume "P' h" and "m (w, h) = (r, (w', h'))"
  note res = ensuresD [OF assms(1) assms(2) [OF this(1)] this(2)]
  show "(\<forall>f. r = Inl f \<longrightarrow> T' f h') \<and> (\<forall>x. r = Inr x \<longrightarrow> S' x h')"
  proof (intro conjI allI impI)
    fix f
    assume "r = Inl f"
    then have "T f h'" by (rule mp [OF spec [OF conjunct1 [OF res]]])
    then show "T' f h'" by (rule assms(4))
  next
    fix x
    assume "r = Inr x"
    then have "S x h'" by (rule mp [OF spec [OF conjunct2 [OF res]]])
    then show "S' x h'" by (rule assms(3))
  qed
qed

lemma ensures_ret: "(\<And>h. P h \<Longrightarrow> S x h) \<Longrightarrow> ensures P (retM x) S T"
  by (simp add: ensures_def retM_def)

lemma ensures_throw: "(\<And>h. P h \<Longrightarrow> T f h) \<Longrightarrow> ensures P (throwM f) S T"
  by (simp add: ensures_def throwM_def)

lemma ensures_if:
  "(c \<Longrightarrow> ensures P a S T) \<Longrightarrow> (\<not> c \<Longrightarrow> ensures P b S T) \<Longrightarrow> ensures P (if c then a else b) S T"
  by simp

lemma ensures_option:
  "(x = None \<Longrightarrow> ensures P a S T) \<Longrightarrow> (\<And>y. x = Some y \<Longrightarrow> ensures P (b y) S T) \<Longrightarrow>
     ensures P (case x of None \<Rightarrow> a | Some y \<Rightarrow> b y) S T"
  by (cases x) simp_all

lemma ensures_getH:
  "(\<And>v. ensures (\<lambda>h. P h \<and> g h = v) (f v) S T) \<Longrightarrow> ensures P (bindM (getH g) f) S T"
  by (simp add: ensures_def getH_def getM_def bindM_def)

lemma runs_ensures: "runs Q F m R \<Longrightarrow> ensures Q m (\<lambda>x h. Q h \<and> R x) (\<lambda>f h. Q h \<and> F f)"
  by (rule ensuresI) (drule (2) runs_result, simp)

end
