(* ===== verification/Requests.thy ===== *)
theory Requests
  imports Replies HandlerInvariant
begin

section \<open>What a message is answered with\<close>

text \<open>
  The handler's view of the rejected messages of theory \<open>Replies\<close>: each is answered once, with the text
  given here, and nothing else of the state changes.
\<close>

text \<open>The methods of the domains, in the order of their dispatch maps.\<close>

fun domain_methods :: "DomainName \<Rightarrow> string16 list" where
  "domain_methods ConsoleDomain =
     map lit [''Console.enable'', ''Console.disable'', ''Console.clearMessages'']"
| "domain_methods DebuggerDomain =
     map lit [''Debugger.enable'', ''Debugger.disable'', ''Debugger.setBreakpointsActive'',
       ''Debugger.setSkipAllPauses'', ''Debugger.setBreakpointByUrl'',
       ''Debugger.setBreakpoint'', ''Debugger.removeBreakpoint'',
       ''Debugger.continueToLocation'', ''Debugger.stepOver'', ''Debugger.stepInto'',
       ''Debugger.stepOut'', ''Debugger.pause'', ''Debugger.resume'',
       ''Debugger.searchInContent'', ''Debugger.setScriptSource'', ''Debugger.restartFrame'',
       ''Debugger.getScriptSource'', ''Debugger.setPauseOnExceptions'',
       ''Debugger.evaluateOnCallFrame'', ''Debugger.setVariableValue'',
       ''Debugger.setAsyncCallStackDepth'', ''Debugger.setBlackboxPatterns'',
       ''Debugger.setBlackboxedRanges'']"
| "domain_methods RuntimeDomain =
     map lit [''Runtime.evaluate'', ''Runtime.awaitPromise'', ''Runtime.callFunctionOn'',
       ''Runtime.getProperties'', ''Runtime.releaseObject'', ''Runtime.releaseObjectGroup'',
       ''Runtime.runIfWaitingForDebugger'', ''Runtime.enable'', ''Runtime.disable'',
       ''Runtime.discardConsoleEntries'', ''Runtime.setCustomObjectFormatterEnabled'',
       ''Runtime.compileScript'', ''Runtime.runScript'']"
| "domain_methods SchemaDomain =
     map lit [''Schema.getDomains'']"

lemma dispatch_map_names:
  "map fst (Console_dispatchMap D cb) = domain_methods ConsoleDomain"
  "map fst (Debugger_dispatchMap D db) = domain_methods DebuggerDomain"
  "map fst (Runtime_dispatchMap D rb) = domain_methods RuntimeDomain"
  "map fst (Schema_dispatchMap D sb) = domain_methods SchemaDomain"
  by (simp_all add: Console_dispatchMap_def Debugger_dispatchMap_def Runtime_dispatchMap_def
      Schema_dispatchMap_def)

lemma map_of_names: "map fst m = names \<Longrightarrow> k \<notin> set names \<Longrightarrow> map_of m k = None"
  by (simp add: map_of_eq_None_iff) (metis list.set_map)

lemma call_unknown:
  assumes "connected_to c st s" and "\<not> dd_fallThrough d" and "method \<notin> set (domain_methods (dd_domain d))"
  shows "call_dispatcher E d callId method obj s =
    (Inr kError, log_reply E c st (createErrorResponse callId kMethodNotFound (notFoundMessage method) None) s)"
proof -
  have f: "\<not> m_fallThroughForNotFound (dispatcher_base E d)"
    using assms(2) by (simp add: dispatcher_base_def DispatcherBase.make_def)
  note unknown = reply.unknown_method [OF assms(1) base.channel f map_of_names]
  show ?thesis
  proof (cases "dd_domain d")
    case ConsoleDomain
    with assms(3) show ?thesis
      by (simp add: call_dispatcher_def Let_def del: domain_methods.simps)
        (rule unknown [OF dispatch_map_names(1)])
  next
    case DebuggerDomain
    with assms(3) show ?thesis
      by (simp add: call_dispatcher_def Let_def del: domain_methods.simps)
        (rule unknown [OF dispatch_map_names(2)])
  next
    case RuntimeDomain
    with assms(3) show ?thesis
      by (simp add: call_dispatcher_def Let_def del: domain_methods.simps)
        (rule unknown [OF dispatch_map_names(3)])
  next
    case SchemaDomain
    with assms(3) show ?thesis
      by (simp add: call_dispatcher_def Let_def del: domain_methods.simps)
        (rule unknown [OF dispatch_map_names(4)])
  qed
qed

text \<open>The message a handler receives, parsed.\<close>

definition received :: "'w Env \<Rightarrow> string \<Rightarrow> val option" where
  "received E message = parseJSON (fromUtf8 (utf8_decode E) message)"

lemma HandleMessageReceived_eq:
  "HandleMessageReceived E message (w, h) =
     bindM (uber_dispatch (Some (handler_channel E)) (call_dispatcher E) (m_dispatcher h) (received E message))
       (\<lambda>_. retM ()) (w, h)"
  by (simp add: HandleMessageReceived_def dispatch_def received_def bindM_def getH_def getM_def)

lemma received_rejected:
  assumes "uber_dispatch (Some (handler_channel E)) (call_dispatcher E) (m_dispatcher h) (received E message) (w, h) =
    (Inr status, t)"
  shows "HandleMessageReceived E message (w, h) = (Inr (), t)"
  using assms by (simp add: HandleMessageReceived_eq bindM_def retM_def)

text \<open>A request some handler of the handler's domains takes.\<close>

definition handled_by :: "Handler \<Rightarrow> val option \<Rightarrow> DomainDispatcher \<Rightarrow> dict \<Rightarrow> cint \<Rightarrow> string16 \<Rightarrow> bool" where
  "handled_by h parsed d obj callId name \<longleftrightarrow>
     (\<exists>v. parsed = Some v \<and> request (m_dispatcher h) v obj callId name) \<and>
     target (m_dispatcher h) name = Some d \<and> name \<in> set (domain_methods (dd_domain d))"

lemma target_dispatcher:
  "target (m_dispatcher h) name = Some d \<Longrightarrow> \<exists>domain. (domain, d) \<in> set (dispatchers h)"
  by (auto simp: target_def dispatchers_def split: option.splits dest: map_of_SomeD)

lemma rejected_once:
  assumes ok: "dispatcher_ok h" and c: "connected_to c st (w, h)"
    and no: "\<nexists>d obj callId name. handled_by h (received E message) d obj callId name"
  shows "\<exists>code msg callId. HandleMessageReceived E message (w, h) =
      (Inr (), log_reply E c st (ProtocolError code msg [] callId) (w, h)) \<and>
    (code = kParseError \<longleftrightarrow> received E message = None)"
proof (cases "received E message")
  case None
  have "HandleMessageReceived E message (w, h) = (Inr (), log_reply E c st
      (createErrorNotification kParseError (lit ''Message must be a valid JSON'')) (w, h))"
    by (rule received_rejected) (simp add: None reply.no_json [OF c])
  with None show ?thesis by (auto simp: createErrorNotification_def)
next
  case (Some v)
  have fin: ?thesis if "HandleMessageReceived E message (w, h) =
      (Inr (), log_reply E c st (ProtocolError code msg [] callId) (w, h))" and "code \<noteq> kParseError"
    for code msg callId
    by (intro exI conjI, rule that(1)) (simp add: that(2) Some)
  have plain: "m_redirects (m_dispatcher h) = []" "\<not> u_fallThroughForNotFound (m_dispatcher h)"
    using ok by (simp_all add: dispatcher_ok_def)
  show ?thesis
  proof (cases "DictionaryValue_cast (Some v)")
    case None
    have "HandleMessageReceived E message (w, h) = (Inr (), log_reply E c st
        (createErrorNotification kInvalidRequest (lit ''Message must be an object'')) (w, h))"
      by (rule received_rejected) (simp add: Some reply.no_object [OF c None])
    from fin [OF this [unfolded createErrorNotification_def]] show ?thesis by simp
  next
    case (Some obj)
    note obj = this
    show ?thesis
    proof (cases "Option.bind (dict_get obj (lit ''id'')) asInteger")
      case None
      have "HandleMessageReceived E message (w, h) = (Inr (), log_reply E c st
          (createErrorNotification kInvalidRequest
            (lit (''Message must have integer '' @ [CHR 0x27] @ ''id'' @ [CHR 0x27] @ '' property''))) (w, h))"
        by (rule received_rejected) (simp only: \<open>received E message = Some v\<close> reply.no_id [OF c obj None])
      from fin [OF this [unfolded createErrorNotification_def]] show ?thesis by simp
    next
      case (Some callId)
      note callId = this
      show ?thesis
      proof (cases "Option.bind (dict_get obj (lit ''method'')) asString")
        case None
        have "HandleMessageReceived E message (w, h) = (Inr (), log_reply E c st
            (createErrorResponse callId kInvalidRequest
              (lit (''Message must have string '' @ [CHR 0x27] @ ''method'' @ [CHR 0x27] @ '' property'')) None)
            (w, h))"
          by (rule received_rejected)
            (simp only: \<open>received E message = Some v\<close> reply.no_method [OF c obj callId None])
        then show ?thesis unfolding createErrorResponse_def option.case by (rule fin) simp
      next
        case (Some name)
        have req: "request (m_dispatcher h) v obj callId name"
          using obj callId Some plain by (simp add: request_def)
        have "HandleMessageReceived E message (w, h) = (Inr (), log_reply E c st
            (createErrorResponse callId kMethodNotFound (notFoundMessage name) None) (w, h))"
        proof (cases "target (m_dispatcher h) name")
          case None
          show ?thesis
            by (rule received_rejected)
              (simp only: \<open>received E message = Some v\<close> reply.no_domain [OF c req None])
        next
          case (Some d)
          then have m: "name \<notin> set (domain_methods (dd_domain d))"
            using no \<open>received E message = Some v\<close> req unfolding handled_by_def by blast
          have f: "\<not> dd_fallThrough d"
            using target_dispatcher [OF Some] ok by (auto simp: dispatcher_ok_def)
          show ?thesis
            by (rule received_rejected)
              (simp only: \<open>received E message = Some v\<close> reply.for_domain [OF req Some] call_unknown [OF c f m])
        qed
        then show ?thesis unfolding createErrorResponse_def option.case by (rule fin) simp
      qed
    qed
  qed
qed

text \<open>The text of the reply to a message that is not JSON.\<close>

lemmas text_eval = quoted_lit plain_char_def fromInteger_lit lit_Cons dec_int_def dec_nat.simps digit_char_def
  uc_widen ascii_def char_of_def bit_0

lemma not_json_text:
  "serialize_message (createErrorNotification kParseError (lit ''Message must be a valid JSON'')) =
     Some (lit (''{'' @ [CHR 0x22] @ ''error'' @ [CHR 0x22] @ '':{'' @ [CHR 0x22] @ ''code'' @ [CHR 0x22] @
       '':-32700,'' @ [CHR 0x22] @ ''message'' @ [CHR 0x22] @ '':'' @ [CHR 0x22] @
       ''Message must be a valid JSON'' @ [CHR 0x22] @ ''}}''))"
  by (simp add: createErrorNotification_def serialize_wf set_defs wf_intros Let_def)
    (simp add: Dict_def dict_set_def dict_create_def quoted_lit plain_char_def, simp add: text_eval)

lemma not_json:
  assumes "connected_to c st (w, h)" and "received E message = None"
  shows "HandleMessageReceived E message (w, h) =
    (Inr (), log_reply E c st (createErrorNotification kParseError (lit ''Message must be a valid JSON'')) (w, h))"
  by (rule received_rejected) (simp only: assms(2) reply.no_json [OF assms(1)])

lemma received_empty [simp]: "received E [] = None"
  by (simp add: received_def fromUtf8_def parseJSON_def)

end
