(* ===== verification/HandlerConnect.thy ===== *)
theory HandlerConnect
  imports HandlerInvariant
begin

section \<open>Connecting and disconnecting keep the invariant\<close>

text \<open>
  \<open>HandleConnect\<close> creates the agents one after the other and wires each to its domain; the set of
  wired domains grows until all four are. \<open>HandleDisconnect\<close> destroys them again. Both may be stopped by an
  exception of the engine or by a destructor that throws.
\<close>

text \<open>What wiring a domain to a backend does to the state.\<close>

definition wire_state :: "DomainName \<Rightarrow> nat \<Rightarrow> Handler \<Rightarrow> Handler" where
  "wire_state domain backend h =
     h\<lparr>next_object := Suc (next_object h),
       m_dispatcher := (m_dispatcher h)\<lparr>m_dispatchers :=
         AList.update (domain_name domain)
           (DomainDispatcher.make domain (next_object h) backend
              (u_fallThroughForNotFound (m_dispatcher h)) CallbackState_init) (dispatchers h)\<rparr>\<rparr>"

lemma wire_eq: "wire domain backend = modH (wire_state domain backend)"
  by (simp add: wire_def wire_state_def [abs_def] dispatchers_def registerBackend_def setupRedirects_def)

lemma wire_state_simps [simp]:
  "dispatchers (wire_state domain backend h) =
     AList.update (domain_name domain)
       (DomainDispatcher.make domain (next_object h) backend
          (u_fallThroughForNotFound (m_dispatcher h)) CallbackState_init) (dispatchers h)"
  "debugger_ok (wire_state domain backend h) = debugger_ok h"
  "m_isConnected (wire_state domain backend h) = m_isConnected h"
  "next_object (wire_state domain backend h) = Suc (next_object h)"
  "m_debuggerAgent (wire_state domain backend h) = m_debuggerAgent h"
  "dbg_isEnabled (wire_state domain backend h) = dbg_isEnabled h"
  by (simp_all add: wire_state_def dispatchers_def debugger_ok_def)

lemma wire_state_address [simp]: "agent_address other (wire_state domain backend h) = agent_address other h"
  by (cases other) (simp_all add: wire_state_def)

lemma wired_wire: "agent_address domain h = Some backend \<Longrightarrow> wired domain (wire_state domain backend h)"
  by (simp add: wired_def live_backend_def update_conv' DomainDispatcher.make_def)

lemma wired_wire_other: "wired other h \<Longrightarrow> other \<noteq> domain \<Longrightarrow> wired other (wire_state domain backend h)"
  by (auto simp: wired_def live_backend_def update_conv' domain_name_inj)

lemma update_subset: "set (AList.update k v m) \<subseteq> insert (k, v) (set m)"
  by (induction m) auto

lemma distinct_update_map:
  fixes f :: "'v \<Rightarrow> nat"
  assumes "distinct (map (f \<circ> snd) m)" and "\<forall>(k', v') \<in> set m. f v' < f v"
  shows "distinct (map (f \<circ> snd) (AList.update k v m))"
  using assms
proof (induction m)
  case (Cons e m)
  obtain k' u where e: "e = (k', u)" by (cases e)
  show ?case
  proof (cases "k' = k")
    case True
    with Cons.prems e show ?thesis by auto
  next
    case False
    have "distinct (map (f \<circ> snd) (AList.update k v m))"
      by (rule Cons.IH) (use Cons.prems in auto)
    moreover have "f u \<noteq> f (snd x)" if "x \<in> set (AList.update k v m)" for x
    proof -
      from that consider "x = (k, v)" | "x \<in> set m" using update_subset [of k v m] by auto
      then show ?thesis
      proof cases
        case 1
        then show ?thesis using Cons.prems(2) e by simp
      next
        case 2
        then have m: "f (snd x) \<in> set (map (f \<circ> snd) m)" by (simp add: rev_image_eqI)
        have n: "f u \<notin> set (map (f \<circ> snd) m)" using Cons.prems(1) e by (simp add: comp_def)
        show ?thesis by (rule notI) (use m n in simp)
      qed
    qed
    then have "\<forall>x \<in> set (AList.update k v m). f u \<noteq> f (snd x)" by blast
    then have "f u \<notin> (\<lambda>x. f (snd x)) ` set (AList.update k v m)" by auto
    ultimately show ?thesis using False e by (simp add: comp_def image_image)
  qed
qed simp

lemma wire_dispatcher_ok:
  assumes "dispatcher_ok h"
  shows "dispatcher_ok (wire_state domain backend h)"
proof -
  define d where "d = DomainDispatcher.make domain (next_object h) backend
    (u_fallThroughForNotFound (m_dispatcher h)) CallbackState_init"
  have d: "dd_domain d = domain" "dd_id d = next_object h" "\<not> dd_fallThrough d"
    using assms by (simp_all add: d_def DomainDispatcher.make_def dispatcher_ok_def)
  have ids: "distinct (map (dd_id \<circ> snd) (AList.update (domain_name domain) d (dispatchers h)))"
    using assms by (intro distinct_update_map) (auto simp: dispatcher_ok_def d)
  have "name = domain_name (dd_domain x) \<and> dd_id x < Suc (next_object h) \<and> \<not> dd_fallThrough x"
    if "(name, x) \<in> set (AList.update (domain_name domain) d (dispatchers h))" for name x
    using subsetD [OF update_subset that] assms d by (auto simp: dispatcher_ok_def)
  moreover have "distinct (map fst (AList.update (domain_name domain) d (dispatchers h)))"
    using assms by (simp add: dispatcher_ok_def distinct_update)
  moreover have "dispatchers (wire_state domain backend h) =
      AList.update (domain_name domain) d (dispatchers h)"
    by (simp add: d_def)
  moreover have "m_redirects (m_dispatcher (wire_state domain backend h)) = []"
    "\<not> u_fallThroughForNotFound (m_dispatcher (wire_state domain backend h))"
    using assms by (simp_all add: wire_state_def dispatcher_ok_def)
  ultimately show ?thesis
    using ids unfolding dispatcher_ok_def by (simp only: wire_state_simps) blast
qed

text \<open>Giving a domain a new agent.\<close>

lemma wired_agents:
  "wired other h \<Longrightarrow> agent_address other h' = agent_address other h \<Longrightarrow> dispatchers h' = dispatchers h \<Longrightarrow>
     wired other h'"
  by (auto simp: wired_def live_backend_def)

text \<open>A handler that is being connected: some domains are wired.\<close>

definition connecting :: "DomainName set \<Rightarrow> Handler \<Rightarrow> bool" where
  "connecting ds h \<longleftrightarrow>
     dispatcher_ok h \<and> debugger_ok h \<and> \<not> m_isConnected h \<and> (\<forall>domain \<in> ds. wired domain h)"

lemma connecting_wire:
  assumes "connecting ds g" and "dispatchers h = dispatchers g" and "m_dispatcher h = m_dispatcher g"
    and "next_object g \<le> next_object h" and "debugger_ok h" and "\<not> m_isConnected h"
    and "\<And>other. other \<noteq> domain \<Longrightarrow> agent_address other h = agent_address other g"
    and "agent_address domain h = Some backend" and "domain \<notin> ds"
  shows "connecting (insert domain ds) (wire_state domain backend h)"
proof -
  have "dispatcher_ok h"
    using assms(1-4) by (auto simp: connecting_def dispatcher_ok_def intro: less_le_trans)
  then have "dispatcher_ok (wire_state domain backend h)" by (rule wire_dispatcher_ok)
  moreover have "wired other (wire_state domain backend h)" if "other \<in> ds" for other
  proof -
    have "other \<noteq> domain" using that assms(9) by blast
    moreover from this have "wired other h"
      using wired_agents [of other g h] assms(1,2,7) that by (simp add: connecting_def)
    ultimately show ?thesis by (simp add: wired_wire_other)
  qed
  ultimately show ?thesis
    using assms(5,6) wired_wire [OF assms(8)] by (simp add: connecting_def)
qed

lemma delete_debugger_agent_result:
  assumes "debugger_ok h" and "delete_debugger_agent E (w, h) = (r, (w', h'))"
  shows "(\<forall>f. r = Inl f \<longrightarrow> f \<noteq> Undefined DanglingPointer \<and> (\<forall>e. f \<noteq> Throw e) \<and>
      command_fault f \<and> serving h h') \<and>
    (r = Inr () \<longrightarrow> (\<exists>g. kept h g \<and> debugger_ok g \<and> \<not> dbg_isEnabled g \<and>
        h' = g\<lparr>m_debuggerAgent := None\<rparr>))"
proof (cases "m_debuggerAgent h")
  case None
  with assms(2) have "r = Inr ()" "h' = h" by (auto simp: delete_debugger_agent_def getH_def M_defs)
  moreover have "\<not> dbg_isEnabled h" using assms(1) None by (simp add: debugger_ok_def)
  ultimately show ?thesis
    using None assms(1) by (intro conjI allI impI exI [of _ h]) (cases h, auto)
next
  case (Some a)
  obtain r1 w1 g where run: "DebuggerImpl_disable E (di_id a) (w, h) = (r1, (w1, g))"
    by (metis surj_pair)
  have here: "serving h h \<and> agent_address DebuggerDomain h = Some (di_id a)"
    using assms(1) Some by (simp add: serving_self)
  note res = runs_result [OF msg.agent.runs_disable this run]
  then have g: "serving h g" by blast
  have f: "\<forall>f. r1 = Inl f \<longrightarrow> agent_fault f" using res by blast
  have "\<not> di_isEnabled a \<Longrightarrow> \<not> dbg_isEnabled h" using assms(1) Some by (auto simp: debugger_ok_def)
  then have off: "\<not> dbg_isEnabled g"
    using msg.agent.disable_off [of h h "di_id a" E w] here run Some by simp
  have eq: "delete_debugger_agent E (w, h) =
      (case r1 of
         Inl f \<Rightarrow> (Inl (case f of Throw _ \<Rightarrow> Terminated | _ \<Rightarrow> f), (w1, g))
       | Inr _ \<Rightarrow> (Inr (), (w1, g\<lparr>m_debuggerAgent := None\<rparr>)))"
    using run Some
    by (simp add: delete_debugger_agent_def no_throw_def getH_def modH_def M_defs
        split: fault.split sum.split)
  show ?thesis
  proof (cases r1)
    case (Inl e)
    with eq assms(2) have r: "r = Inl (case e of Throw _ \<Rightarrow> Terminated | _ \<Rightarrow> e)" by simp
    moreover have "h' = g" using eq assms(2) Inl by simp
    moreover have "agent_fault e" using f Inl by simp
    ultimately show ?thesis using g by (cases e) (simp_all add: command_fault_def)
  next
    case (Inr x)
    with eq assms(2) have "r = Inr ()" and "h' = g\<lparr>m_debuggerAgent := None\<rparr>" by simp_all
    with g off show ?thesis unfolding serving_def by blast
  qed
qed

lemma connecting_keeps:
  assumes "connecting ds h" and "kept h g" and "debugger_ok g"
  shows "connecting ds g"
  using assms kept_fields(1) [OF assms(2)] fixed_dispatcher_ok [OF kept_fixed [OF assms(2)]]
    fixed_wired [OF kept_fixed [OF assms(2)]]
  by (simp add: connecting_def)

text \<open>Each agent in turn.\<close>

lemma connect_console:
  "ensures (connecting {}) (bindM new_object (\<lambda>this.
     seqM (modH (\<lambda>h. h\<lparr>m_consoleAgent := Some this\<rparr>)) (wire ConsoleDomain this)))
   (\<lambda>_. connecting {ConsoleDomain}) T"
proof -
  have "connecting {ConsoleDomain}
      (wire_state ConsoleDomain (next_object h)
         (h\<lparr>next_object := Suc (next_object h), m_consoleAgent := Some (next_object h)\<rparr>))"
    if "connecting {} h" for h
    using that by (intro connecting_wire [of "{}" h]) (simp_all add: connecting_def)
  then show ?thesis
    by (simp add: ensures_def new_object_def wire_eq getH_def modH_def M_defs)
qed

lemma connect_runtime:
  "ensures (connecting {DebuggerDomain, ConsoleDomain}) (bindM new_object (\<lambda>this.
     seqM (modH (\<lambda>h. h\<lparr>m_runtimeAgent := Some (RuntimeImpl_new this)\<rparr>)) (wire RuntimeDomain this)))
   (\<lambda>_. connecting {RuntimeDomain, DebuggerDomain, ConsoleDomain}) T"
proof -
  have "connecting {RuntimeDomain, DebuggerDomain, ConsoleDomain}
      (wire_state RuntimeDomain (next_object h)
         (h\<lparr>next_object := Suc (next_object h), m_runtimeAgent := Some (RuntimeImpl_new (next_object h))\<rparr>))"
    if "connecting {DebuggerDomain, ConsoleDomain} h" for h
    using that
    by (intro connecting_wire [of _ h]) (simp_all add: connecting_def RuntimeImpl_new_def RuntimeImpl.make_def)
  then show ?thesis
    by (simp add: ensures_def new_object_def wire_eq getH_def modH_def M_defs)
qed

lemma connect_schema:
  "ensures (connecting {RuntimeDomain, DebuggerDomain, ConsoleDomain}) (bindM new_object (\<lambda>this.
     seqM (modH (\<lambda>h. h\<lparr>m_schemaAgent := Some this\<rparr>)) (wire SchemaDomain this)))
   (\<lambda>_. connecting {SchemaDomain, RuntimeDomain, DebuggerDomain, ConsoleDomain}) T"
proof -
  have "connecting {SchemaDomain, RuntimeDomain, DebuggerDomain, ConsoleDomain}
      (wire_state SchemaDomain (next_object h)
         (h\<lparr>next_object := Suc (next_object h), m_schemaAgent := Some (next_object h)\<rparr>))"
    if "connecting {RuntimeDomain, DebuggerDomain, ConsoleDomain} h" for h
    using that by (intro connecting_wire [of _ h]) (simp_all add: connecting_def)
  then show ?thesis
    by (simp add: ensures_def new_object_def wire_eq getH_def modH_def M_defs)
qed

text \<open>An exception never comes out of a destructor; a fault that is no exception ends the program.\<close>

definition stays_ok :: "fault \<Rightarrow> Handler \<Rightarrow> bool" where
  "stays_ok f h \<longleftrightarrow> f \<noteq> Undefined DanglingPointer \<and> ((\<exists>e. f = Throw e) \<longrightarrow> handler_ok h)"

lemma connecting_delete:
  fixes this :: nat
  assumes "connecting {ConsoleDomain} g" and "kept g h" and "debugger_ok h" and "\<not> dbg_isEnabled h"
  defines "h' \<equiv> h\<lparr>m_debuggerAgent := Some (DebuggerImpl.make this False False [] [])\<rparr>"
  shows "connecting {DebuggerDomain, ConsoleDomain} (wire_state DebuggerDomain this h')"
proof -
  have "connecting {ConsoleDomain} h" by (rule connecting_keeps [OF assms(1-3)])
  moreover have "debugger_ok h'"
    using assms(4) by (simp add: debugger_ok_def h'_def DebuggerImpl.make_def)
  ultimately show ?thesis
    by (intro connecting_wire [of _ h]) (simp_all add: connecting_def h'_def DebuggerImpl.make_def)
qed

lemma connecting_next:
  assumes "connecting ds h"
  shows "connecting ds (h\<lparr>next_object := Suc (next_object h)\<rparr>)"
proof -
  have "wired domain (h\<lparr>next_object := Suc (next_object h)\<rparr>)" if "domain \<in> ds" for domain
    by (rule wired_agents [of domain h]) (use assms that in \<open>simp_all add: connecting_def\<close>)
  with assms show ?thesis
    by (auto simp: connecting_def dispatcher_ok_def)
qed

lemma deleted:
  "ensures (connecting {ConsoleDomain}) (delete_debugger_agent E)
     (\<lambda>_ h'. \<exists>h g. kept h g \<and> connecting {ConsoleDomain} h \<and> debugger_ok g \<and> \<not> dbg_isEnabled g \<and>
        h' = g\<lparr>m_debuggerAgent := None\<rparr>) stays_ok"
proof (rule ensuresI)
  fix w h r w' h'
  assume c: "connecting {ConsoleDomain} h" and run: "delete_debugger_agent E (w, h) = (r, w', h')"
  from c have "debugger_ok h" by (simp add: connecting_def)
  from delete_debugger_agent_result [OF this run] c
  show "(\<forall>f. r = Inl f \<longrightarrow> stays_ok f h') \<and> (\<forall>x. r = Inr x \<longrightarrow>
      (\<exists>h g. kept h g \<and> connecting {ConsoleDomain} h \<and> debugger_ok g \<and> \<not> dbg_isEnabled g \<and>
        h' = g\<lparr>m_debuggerAgent := None\<rparr>))"
    by (auto simp: stays_ok_def)
qed

lemma connect_debugger:
  "ensures (connecting {ConsoleDomain}) (bindM new_object (\<lambda>this.
     seqM (delete_debugger_agent E)
     (seqM (modH (\<lambda>h. h\<lparr>m_debuggerAgent := Some (DebuggerImpl.make this False False [] [])\<rparr>))
       (wire DebuggerDomain this))))
   (\<lambda>_. connecting {DebuggerDomain, ConsoleDomain}) stays_ok"
proof (rule ensures_bind)
  show "ensures (connecting {ConsoleDomain}) new_object (\<lambda>_. connecting {ConsoleDomain}) stays_ok"
    by (simp add: ensures_def new_object_def getH_def modH_def M_defs connecting_next)
  fix this
  show "ensures (connecting {ConsoleDomain}) (seqM (delete_debugger_agent E)
      (seqM (modH (\<lambda>h. h\<lparr>m_debuggerAgent := Some (DebuggerImpl.make this False False [] [])\<rparr>))
       (wire DebuggerDomain this))) (\<lambda>_. connecting {DebuggerDomain, ConsoleDomain}) stays_ok"
    by (rule ensures_seq [OF deleted]) (auto simp: ensures_def wire_eq modH_def M_defs intro: connecting_delete)
qed

lemma connecting_ok: "connecting ds h \<Longrightarrow> handler_ok h"
  by (simp add: connecting_def handler_ok_def)

lemma connecting_runs:
  assumes "\<And>g. runs (serving g) agent_fault m (\<lambda>_. True)"
  shows "ensures (connecting ds) m (\<lambda>_. connecting ds) stays_ok"
proof (rule ensuresI)
  fix w h r w' h'
  assume c: "connecting ds h" and run: "m (w, h) = (r, w', h')"
  then have "serving h h" by (simp add: connecting_def serving_self)
  note res = runs_result [OF assms this run]
  then have "connecting ds h'" using connecting_keeps [OF c] by (simp add: serving_def)
  moreover have "stays_ok f h'" if "r = Inl f" for f
  proof -
    have "agent_fault f" using res that by simp
    with connecting_ok [OF \<open>connecting ds h'\<close>] show ?thesis by (cases f) (auto simp: stays_ok_def)
  qed
  ultimately show "(\<forall>f. r = Inl f \<longrightarrow> stays_ok f h') \<and> (\<forall>x. r = Inr x \<longrightarrow> connecting ds h')"
    by blast
qed

lemma connected_all:
  assumes "connecting {SchemaDomain, RuntimeDomain, DebuggerDomain, ConsoleDomain} h"
  shows "handler_ok (h\<lparr>m_isConnected := True\<rparr>)"
proof -
  have "wired domain (h\<lparr>m_isConnected := True\<rparr>)" for domain
    by (rule wired_agents [of domain h]) (use assms in \<open>cases domain, simp_all add: connecting_def\<close>)
  with assms show ?thesis
    by (simp add: handler_ok_def connecting_def dispatcher_ok_def)
qed

lemma HandleConnect_ensures:
  "ensures handler_ok (HandleConnect E) (\<lambda>_ h. handler_ok h \<and> m_isConnected h) stays_ok"
proof -
  have pause: "runs (serving g) agent_fault
      (bindM (getH m_breakOnNextLine) (\<lambda>b. if b then PauseOnNextStatement E else retM ())) (\<lambda>_. True)" for g
    by (intro msg.runs_pause runs_bind_True runs_getH_True runs_if runs_ret TrueI)
  show ?thesis
    unfolding HandleConnect_def
    apply (rule ensures_getH)
    apply (split if_split, intro conjI impI)
     apply (rule ensures_throw, simp add: stays_ok_def)
    apply (rule ensures_weaken [where P = "connecting {}" and T = stays_ok])
    apply (rule ensures_seq, rule connect_console)
    apply (rule ensures_seq, rule connect_debugger)
    apply (rule ensures_seq, rule connect_runtime)
    apply (rule ensures_seq, rule connect_schema)
    apply (rule ensures_seq, rule connecting_runs [OF pause])
    apply (rule ensures_modH, rule conjI, erule connected_all)
    apply simp_all
    apply (simp add: connecting_def handler_ok_def)
    done
qed

lemma dispatcher_ok_agents [simp]:
  "dispatcher_ok (h\<lparr>m_consoleAgent := c\<rparr>) = dispatcher_ok h"
  "dispatcher_ok (h\<lparr>m_debuggerAgent := a\<rparr>) = dispatcher_ok h"
  "dispatcher_ok (h\<lparr>m_runtimeAgent := r\<rparr>) = dispatcher_ok h"
  "dispatcher_ok (h\<lparr>m_schemaAgent := c\<rparr>) = dispatcher_ok h"
  "dispatcher_ok (h\<lparr>m_isConnected := b\<rparr>) = dispatcher_ok h"
  "dispatcher_ok (h\<lparr>m_waitingForDebugger := b\<rparr>) = dispatcher_ok h"
  by (simp_all add: dispatcher_ok_def dispatchers_def)

definition disconnected :: "Handler \<Rightarrow> bool" where
  "disconnected h \<longleftrightarrow>
     \<not> m_isConnected h \<and> \<not> m_waitingForDebugger h \<and> \<not> dbg_isEnabled h \<and> m_consoleAgent h = None \<and>
     m_debuggerAgent h = None \<and> m_runtimeAgent h = None \<and> m_schemaAgent h = None"

lemma HandleDisconnect_ensures:
  "ensures handler_ok (HandleDisconnect E) (\<lambda>_ h. handler_ok h \<and> disconnected h) stays_ok"
proof (rule ensuresI)
  fix w h r w' h'
  assume ok: "handler_ok h" and run: "HandleDisconnect E (w, h) = (r, w', h')"
  obtain r1 w1 h1 where del: "delete_debugger_agent E (w, h\<lparr>m_consoleAgent := None\<rparr>) = (r1, (w1, h1))"
    by (metis surj_pair)
  have "debugger_ok (h\<lparr>m_consoleAgent := None\<rparr>)" using ok by (simp add: handler_ok_def)
  note res = delete_debugger_agent_result [OF this del]
  show "(\<forall>f. r = Inl f \<longrightarrow> stays_ok f h') \<and> (\<forall>x. r = Inr x \<longrightarrow> handler_ok h' \<and> disconnected h')"
  proof (cases "m_isConnected h")
    case False
    with run ok show ?thesis by (auto simp: HandleDisconnect_def getH_def M_defs stays_ok_def)
  next
    case True
    show ?thesis
    proof (cases r1)
      case (Inl f)
      with True run del have "r = Inl f"
        by (simp add: HandleDisconnect_def getH_def modH_def M_defs)
      with res Inl show ?thesis by (auto simp: stays_ok_def)
    next
      case (Inr x)
      with res obtain g where g: "kept (h\<lparr>m_consoleAgent := None\<rparr>) g" "debugger_ok g"
        "\<not> dbg_isEnabled g" "h1 = g\<lparr>m_debuggerAgent := None\<rparr>" by auto
      have d: "dispatcher_ok g"
        using fixed_dispatcher_ok [OF kept_fixed [OF g(1)]] ok by (simp add: handler_ok_def)
      from Inr True run del have "r = Inr ()" and
        h': "h' = h1\<lparr>m_runtimeAgent := None, m_schemaAgent := None, m_waitingForDebugger := False,
               m_isConnected := False\<rparr>"
        by (simp_all add: HandleDisconnect_def RunIfWaitingForDebugger_def getH_def modH_def M_defs)
      moreover have "debugger_ok h'" using g(3) by (simp add: h' g(4) debugger_ok_def)
      moreover have "m_consoleAgent g = None" using kept_fixed [OF g(1)] by (simp add: fixed_parts_def)
      ultimately show ?thesis using d g(3) by (simp add: h' g(4) handler_ok_def disconnected_def)
    qed
  qed
qed

end
