(* ===== verification/CommandLoop.thy ===== *)
theory CommandLoop
  imports HandlerConnect
begin

section \<open>The command loop\<close>

text \<open>
  Commands neither touch the queue nor start a wait (\<open>steady\<close>), keep the invariant, and the loop over them
  takes one turn per batch of host calls and at most two more: its fuel suffices.  Without other threads it
  is the sequence of the queued commands.
\<close>

definition steady :: "Handler \<Rightarrow> Handler \<Rightarrow> bool" where
  "steady g h \<longleftrightarrow>
     m_commandQueue h = m_commandQueue g \<and> arrivals h = arrivals g \<and>
     (m_waitingForDebugger h \<longrightarrow> m_waitingForDebugger g)"

lemma steady_refl [simp, intro]: "steady h h"
  by (simp add: steady_def)

lemma steady_trans: "steady f g \<Longrightarrow> steady g h \<Longrightarrow> steady f h"
  by (simp add: steady_def)

lemma kept_steady: "kept g h \<Longrightarrow> steady g h"
  using kept_fields [of g h] by (simp add: steady_def kept_def)

abbreviation steady_ok :: "Handler \<Rightarrow> Handler \<Rightarrow> bool" where
  "steady_ok g h \<equiv> steady g h \<and> debugger_ok h"

lemma steady_parts [simp]:
  "steady g (h\<lparr>next_object := n\<rparr>) = steady g h"
  "steady g (h\<lparr>m_consoleAgent := c\<rparr>) = steady g h"
  "steady g (h\<lparr>m_debuggerAgent := a\<rparr>) = steady g h"
  "steady g (h\<lparr>m_runtimeAgent := r\<rparr>) = steady g h"
  "steady g (h\<lparr>m_schemaAgent := c\<rparr>) = steady g h"
  "steady g (h\<lparr>m_isConnected := b\<rparr>) = steady g h"
  "steady g (wire_state domain backend h) = steady g h"
  by (simp_all add: steady_def wire_state_def)

lemma runs_new_object [runs_intros]: "runs (steady_ok g) F new_object (\<lambda>_. True)"
  by (simp add: runs_def new_object_def getH_def modH_def M_defs)

lemma runs_wire [runs_intros]: "runs (steady_ok g) F (wire domain backend) (\<lambda>_. True)"
  unfolding wire_eq by (rule runs_modH) simp

lemma steady_serving:
  assumes "\<And>g. runs (serving g) agent_fault m (\<lambda>_. True)"
  shows "runs (steady_ok g) command_fault m (\<lambda>_. True)"
  unfolding runs_def
proof (intro allI impI)
  fix w h
  assume ok: "steady_ok g h"
  obtain r w' h' where run: "m (w, h) = (r, (w', h'))" by (metis surj_pair)
  from runs_result [OF assms serving_self run] ok
  have "serving h h'" and "\<forall>f. r = Inl f \<longrightarrow> agent_fault f" by auto
  with ok run show "steady_ok g (snd (snd (m (w, h)))) \<and>
      (case fst (m (w, h)) of Inl f \<Rightarrow> command_fault f | Inr x \<Rightarrow> True)"
    by (auto simp: serving_def intro: steady_trans kept_steady agent_command_fault split: sum.split)
qed

lemma delete_steady:
  assumes "debugger_ok h" and "delete_debugger_agent E (w, h) = (r, (w', h'))"
  shows "steady_ok h h' \<and> (\<forall>f. r = Inl f \<longrightarrow> command_fault f) \<and>
    (r = Inr () \<longrightarrow> m_debuggerAgent h' = None)"
proof (cases r)
  case (Inl f)
  with delete_debugger_agent_result [OF assms] show ?thesis
    by (auto simp: serving_def intro: kept_steady)
next
  case (Inr x)
  with delete_debugger_agent_result [OF assms] obtain g where
    g: "kept h g" "debugger_ok g" "\<not> dbg_isEnabled g" "h' = g\<lparr>m_debuggerAgent := None\<rparr>" by auto
  with Inr kept_steady [OF g(1)] show ?thesis by (simp add: debugger_ok_def)
qed

lemma runs_delete [runs_intros]:
  "runs (steady_ok g) command_fault (delete_debugger_agent E) (\<lambda>_. True)"
  unfolding runs_def
proof (intro allI impI)
  fix w h
  assume ok: "steady_ok g h"
  obtain r w' h' where run: "delete_debugger_agent E (w, h) = (r, (w', h'))" by (metis surj_pair)
  with ok delete_steady [OF _ run] show "steady_ok g (snd (snd (delete_debugger_agent E (w, h)))) \<and>
      (case fst (delete_debugger_agent E (w, h)) of Inl f \<Rightarrow> command_fault f | Inr x \<Rightarrow> True)"
    by (auto intro: steady_trans split: sum.split)
qed

text \<open>A new debugger agent replaces the old one only after that has been disabled.\<close>

lemma runs_new_debugger:
  "runs (steady_ok g) command_fault
     (seqM (delete_debugger_agent E)
       (seqM (modH (\<lambda>h. h\<lparr>m_debuggerAgent := Some (DebuggerImpl.make this False False [] [])\<rparr>)) m))
     (\<lambda>_. True)"
  if m: "runs (steady_ok g) command_fault m (\<lambda>_. True)"
  unfolding runs_def
proof (intro allI impI)
  fix w h
  assume ok: "steady_ok g h"
  obtain r w' h' where run: "delete_debugger_agent E (w, h) = (r, (w', h'))" by (metis surj_pair)
  note del = delete_steady [OF conjunct2 [OF ok] run]
  define h1 where "h1 = h'\<lparr>m_debuggerAgent := Some (DebuggerImpl.make this False False [] [])\<rparr>"
  have "steady_ok g h1" if "r = Inr ()"
    using del ok that steady_trans [of g h h'] by (auto simp: h1_def debugger_ok_def DebuggerImpl.make_def)
  then have "steady_ok g (snd (snd (m (w', h1)))) \<and>
      (case fst (m (w', h1)) of Inl f \<Rightarrow> command_fault f | Inr x \<Rightarrow> True)" if "r = Inr ()"
    using m that by (simp add: runs_def)
  with run del ok show "steady_ok g (snd (snd (seqM (delete_debugger_agent E)
       (seqM (modH (\<lambda>h. h\<lparr>m_debuggerAgent := Some (DebuggerImpl.make this False False [] [])\<rparr>)) m) (w, h)))) \<and>
      (case fst (seqM (delete_debugger_agent E)
       (seqM (modH (\<lambda>h. h\<lparr>m_debuggerAgent := Some (DebuggerImpl.make this False False [] [])\<rparr>)) m) (w, h)) of
       Inl f \<Rightarrow> command_fault f | Inr x \<Rightarrow> True)"
    by (cases r) (auto simp: modH_def M_defs intro: steady_trans simp flip: h1_def)
qed

lemma runs_HandleConnect [runs_intros]:
  "runs (steady_ok g) command_fault (HandleConnect E) (\<lambda>_. True)"
proof -
  have pause: "runs (steady_ok g) command_fault (PauseOnNextStatement E) (\<lambda>_. True)"
    by (rule steady_serving) (rule msg.runs_pause)
  have throw: "command_fault (Throw e)" for e by (simp add: command_fault_def)
  show ?thesis
    unfolding HandleConnect_def
    by (intro runs_intros runs_new_debugger runs_modH pause throw TrueI)
      (simp_all add: debugger_ok_def)
qed

lemma runs_HandleDisconnect [runs_intros]:
  "runs (steady_ok g) command_fault (HandleDisconnect E) (\<lambda>_. True)"
proof -
  have resume: "runs (steady_ok g) command_fault RunIfWaitingForDebugger (\<lambda>_. True)"
    by (rule steady_serving) (rule msg.runs_resume)
  have throw: "command_fault (Throw e)" for e by (simp add: command_fault_def)
  show ?thesis
    unfolding HandleDisconnect_def
    by (intro runs_intros runs_modH resume throw TrueI) (simp_all add: debugger_ok_def)
qed

lemma runs_process_message [runs_intros]:
  "runs (steady_ok g) command_fault (HandleMessageReceived E message) (\<lambda>_. True)"
  unfolding runs_def
proof (intro allI impI)
  fix w h
  assume ok: "steady_ok g h"
  obtain r w' h' where run: "HandleMessageReceived E message (w, h) = (r, (w', h'))" by (metis surj_pair)
  from runs_result [OF any.runs_HandleMessageReceived serving_self run] ok
  have "serving h h'" and "\<forall>f. r = Inl f \<longrightarrow> agent_fault f \<or> f = Undefined DanglingPointer" by auto
  with ok run show "steady_ok g (snd (snd (HandleMessageReceived E message (w, h)))) \<and>
      (case fst (HandleMessageReceived E message (w, h)) of Inl f \<Rightarrow> command_fault f | Inr x \<Rightarrow> True)"
    by (auto simp: serving_def command_fault_def intro: steady_trans kept_steady
        dest: agent_command_fault split: sum.split)
qed

lemma runs_process_command [runs_intros]:
  "runs (steady_ok g) command_fault (process_command E command) (\<lambda>_. True)"
proof -
  have "command_fault (Throw e)" for e by (simp add: command_fault_def)
  then show ?thesis
    unfolding process_command_def
    by (cases "fst command") (auto intro!: runs_intros)
qed

text \<open>The invariant, for every command.\<close>

lemma ensures_message: "ensures handler_ok (HandleMessageReceived E message) (\<lambda>_. handler_ok) (\<lambda>_. handler_ok)"
  by (rule ensuresI) (drule (1) HandleMessageReceived_serving, simp)

lemma process_command_ok:
  "ensures handler_ok (process_command E command) (\<lambda>_. handler_ok)
     (\<lambda>f h. (\<exists>e. f = Throw e) \<longrightarrow> handler_ok h)"
proof (cases "fst command")
  case CommandNone
  then show ?thesis by (simp add: process_command_def ensures_throw)
next
  case CommandConnect
  have "ensures handler_ok (HandleConnect E) (\<lambda>_. handler_ok) (\<lambda>f h. (\<exists>e. f = Throw e) \<longrightarrow> handler_ok h)"
    by (rule ensures_weaken [OF HandleConnect_ensures]) (simp_all add: stays_ok_def)
  with CommandConnect show ?thesis by (simp add: process_command_def)
next
  case CommandDisconnect
  have "ensures handler_ok (HandleDisconnect E) (\<lambda>_. handler_ok) (\<lambda>f h. (\<exists>e. f = Throw e) \<longrightarrow> handler_ok h)"
    by (rule ensures_weaken [OF HandleDisconnect_ensures]) (simp_all add: stays_ok_def)
  with CommandDisconnect show ?thesis by (simp add: process_command_def)
next
  case CommandMessageReceived
  have "ensures handler_ok (HandleMessageReceived E (snd command)) (\<lambda>_. handler_ok)
      (\<lambda>f h. (\<exists>e. f = Throw e) \<longrightarrow> handler_ok h)"
    by (rule ensures_weaken [OF ensures_message]) simp_all
  with CommandMessageReceived show ?thesis by (simp add: process_command_def)
qed

subsection \<open>The host's threads\<close>

text \<open>
  What a call of another thread touches: the response callback, the queue, the notification callback and the log.
\<close>

locale host_frame =
  fixes Q :: "Handler \<Rightarrow> bool"
  assumes Q_connect: "Q h \<Longrightarrow> Q (h\<lparr>m_sendResponseCallback := c, m_sendResponseCallbackState := s,
      m_breakOnNextLine := b\<rparr>)"
    and Q_enqueue: "Q h \<Longrightarrow> Q (h\<lparr>m_commandQueue := m_commandQueue h @ [command]\<rparr>)"
    and Q_notify: "Q h \<Longrightarrow> Q (h\<lparr>m_commandQueueCallback := c, m_commandQueueCallbackState := s\<rparr>)"
    and Q_host_log: "Q h \<Longrightarrow> Q (h\<lparr>host_log := host_log h @ events\<rparr>)"
begin

lemma runs_request_break: "(\<And>e. F (Throw e)) \<Longrightarrow> runs Q F (RequestAsyncBreak E) (\<lambda>_. True)"
  unfolding RequestAsyncBreak_def by (rule runs_engine) (rule engine_js)

lemma runs_enqueue: "runs Q F (EnqueueCommand type message) (\<lambda>_. True)"
  unfolding EnqueueCommand_def by (rule runs_modH) (rule Q_enqueue)

lemma runs_entry_points:
  assumes "\<And>e. F (Throw e)"
  shows "runs Q F (Connect E b callback state) (\<lambda>_. True)"
    and "runs Q F (Disconnect E) (\<lambda>_. True)"
    and "runs Q F (SendCommand E command) (\<lambda>_. True)"
    and "runs Q F (SetCommandQueueCallback callback state) (\<lambda>_. True)"
  unfolding Connect_def Disconnect_def SendCommand_def SetCommandQueueCallback_def
  by (intro runs_intros runs_request_break runs_enqueue runs_modH assms TrueI Q_connect Q_notify
      Q_host_log; assumption)+

text \<open>An exception of the call is its error code: the caller's thread sees it, the handler does not.\<close>

lemma runs_TranslateException:
  assumes "runs Q (\<lambda>f. \<exists>e. f = Throw e) m (\<lambda>_. True)"
  shows "runs Q F (TranslateException m) (\<lambda>_. True)"
  unfolding runs_def
proof (intro allI impI)
  fix w h
  assume "Q h"
  obtain r w' h' where run: "m (w, h) = (r, (w', h'))" by (metis surj_pair)
  note res = runs_result [OF assms \<open>Q h\<close> this]
  show "Q (snd (snd (TranslateException m (w, h)))) \<and>
      (case fst (TranslateException m (w, h)) of Inl f \<Rightarrow> F f | Inr x \<Rightarrow> True)"
  proof (cases r)
    case (Inl f)
    with res obtain e where "f = Throw e" by auto
    with res run Inl show ?thesis by (cases e) (simp_all add: TranslateException_def)
  next
    case (Inr x)
    with res run show ?thesis by (simp add: TranslateException_def)
  qed
qed

lemma runs_host_call: "runs Q F (run_host_call E call) (\<lambda>_. True)"
  unfolding run_host_call_def
  by (cases call) (auto intro!: runs_intros runs_TranslateException runs_entry_points)

lemma runs_host_calls: "runs Q F (forM calls (run_host_call E)) (\<lambda>_. True)"
  by (rule runs_forM) (rule runs_host_call)

end

interpretation host: host_frame "\<lambda>h. handler_ok h \<and> arrivals h = batches \<and> m_waitingForDebugger h = waiting"
  for batches waiting
  by unfold_locales simp_all

lemma host_arrivals_result:
  assumes "handler_ok h" and "host_arrivals E (w, h) = (r, (w', h'))"
  shows "r = Inr () \<and> handler_ok h' \<and> arrivals h' = tl (arrivals h) \<and>
    m_waitingForDebugger h' = m_waitingForDebugger h \<and> (arrivals h = [] \<longrightarrow> h' = h)"
proof (cases "arrivals h")
  case Nil
  with assms show ?thesis by (auto simp: host_arrivals_def getH_def M_defs)
next
  case (Cons calls rest)
  define h1 where "h1 = h\<lparr>arrivals := rest\<rparr>"
  have run: "forM calls (run_host_call E) (w, h1) = (r, (w', h'))"
    using Cons assms(2) by (simp add: host_arrivals_def getH_def modH_def M_defs h1_def)
  have q: "handler_ok h1 \<and> arrivals h1 = rest \<and> m_waitingForDebugger h1 = m_waitingForDebugger h"
    using assms(1) by (simp add: h1_def)
  from runs_result [OF host.runs_host_calls [where F = "\<lambda>_. False"] q run]
  have "handler_ok h' \<and> arrivals h' = rest \<and> m_waitingForDebugger h' = m_waitingForDebugger h" and
    "\<forall>f. r \<noteq> Inl f" by auto
  moreover from this(2) have "r = Inr ()" by (cases r) auto
  ultimately show ?thesis using Cons by simp
qed

subsection \<open>The loop\<close>

lemma ensures_forM:
  "(\<And>x. ensures P (f x) (\<lambda>_. P) T) \<Longrightarrow> ensures P (forM xs f) (\<lambda>_. P) T"
proof (induction xs)
  case Nil
  show ?case by (simp add: ensures_def retM_def)
next
  case (Cons x xs)
  have "ensures P (f x) (\<lambda>_. P) T" by (rule Cons.prems)
  moreover have "ensures P (forM xs f) (\<lambda>_. P) T" by (rule Cons.IH) (rule Cons.prems)
  ultimately show ?case unfolding forM.simps by (rule ensures_seq)
qed

lemma commands_result:
  assumes "handler_ok h" and run: "forM commands (process_command E) (w, h) = (r, (w', h'))"
  shows "steady h h' \<and> (\<forall>f. r = Inl f \<longrightarrow> command_fault f \<and> ((\<exists>e. f = Throw e) \<longrightarrow> handler_ok h')) \<and>
    (r = Inr () \<longrightarrow> handler_ok h')"
proof -
  have m: "runs (steady_ok h) command_fault (forM commands (process_command E)) (\<lambda>_. True)"
    by (rule runs_forM) (rule runs_process_command)
  have h: "steady_ok h h" using assms(1) by (simp add: handler_ok_def)
  have e: "ensures handler_ok (forM commands (process_command E)) (\<lambda>_. handler_ok)
      (\<lambda>f h. (\<exists>e. f = Throw e) \<longrightarrow> handler_ok h)"
    by (rule ensures_forM) (rule process_command_ok)
  from runs_result [OF m h run] ensuresD [OF e assms] show ?thesis by blast
qed

definition turns :: "Handler \<Rightarrow> nat" where
  "turns h =
     (if arrivals h \<noteq> [] then length (arrivals h) + 2 else if m_commandQueue h = [] then 1 else 2)"

definition loop_done :: "bool \<Rightarrow> fault + unit \<Rightarrow> Handler \<Rightarrow> bool" where
  "loop_done waiting r h \<longleftrightarrow>
     (case r of
        Inl f \<Rightarrow> f \<noteq> OutOfFuel CommandLoop \<and> (f = Blocked \<longrightarrow> waiting) \<and>
          ((\<exists>e. f = Throw e) \<longrightarrow> handler_ok h)
      | Inr _ \<Rightarrow> handler_ok h \<and> m_commandQueue h = [] \<and> \<not> m_waitingForDebugger h)"

lemma loop_turns:
  assumes "handler_ok h" and "turns h \<le> fuel"
    and "ProcessCommandQueue_loop fuel E (w, h) = (r, (w', h'))"
  shows "loop_done (m_waitingForDebugger h) r h'"
  using assms
proof (induction fuel arbitrary: w h)
  case 0
  then show ?case by (simp add: turns_def split: if_splits)
next
  case (Suc fuel)
  obtain r1 w1 h1 where host: "host_arrivals E (w, h) = (r1, (w1, h1))" by (metis surj_pair)
  note a = host_arrivals_result [OF Suc.prems(1) host]
  define h2 where "h2 = h1\<lparr>m_commandQueue := []\<rparr>"
  obtain r3 w3 h3 where cmds: "forM (m_commandQueue h1) (process_command E) (w1, h2) = (r3, (w3, h3))"
    by (metis surj_pair)
  have "handler_ok h2" using a by (simp add: h2_def)
  note c = commands_result [OF this cmds]
  define blocked where "blocked \<longleftrightarrow> m_waitingForDebugger h1 \<and> m_commandQueue h1 = [] \<and> arrivals h1 = []"
  have step: "ProcessCommandQueue_loop (Suc fuel) E (w, h) =
      (if blocked then (Inl Blocked, (w1, h1)) else
       case r3 of Inl f \<Rightarrow> (Inl f, (w3, h3))
       | Inr _ \<Rightarrow> if m_waitingForDebugger h3 \<or> m_commandQueue h1 \<noteq> []
                  then ProcessCommandQueue_loop fuel E (w3, h3) else (Inr (), (w3, h3)))"
    using a host cmds
    by (auto simp: seqM_def bindM_def getH_def modH_def getM_def modifyM_def throwM_def retM_def blocked_def
        h2_def split: sum.split)
  consider (blocked) blocked | (fault) f where "\<not> blocked" "r3 = Inl f"
    | (again) "\<not> blocked" "r3 = Inr ()" "m_waitingForDebugger h3 \<or> m_commandQueue h1 \<noteq> []"
    | (finished) "\<not> blocked" "r3 = Inr ()" "\<not> m_waitingForDebugger h3" "m_commandQueue h1 = []"
    by (cases r3) auto
  then show ?case
  proof cases
    case blocked
    with step Suc.prems(3) a show ?thesis by (auto simp: loop_done_def blocked_def)
  next
    case fault
    with step Suc.prems(3) c show ?thesis by (auto simp: loop_done_def command_fault_def)
  next
    case again
    have q: "m_commandQueue h3 = []" "arrivals h3 = tl (arrivals h)"
      "m_waitingForDebugger h3 \<longrightarrow> m_waitingForDebugger h"
      using a c by (auto simp: steady_def h2_def)
    have "arrivals h \<noteq> [] \<or> m_commandQueue h \<noteq> []"
      using again a q c by (auto simp: blocked_def steady_def h2_def)
    then have "turns h3 \<le> fuel"
      using q(1,2) Suc.prems(2) by (cases "arrivals h") (auto simp: turns_def split: if_splits)
    moreover have "handler_ok h3" using c again by simp
    moreover have "ProcessCommandQueue_loop fuel E (w3, h3) = (r, (w', h'))"
      using step again Suc.prems(3) by simp
    ultimately have "loop_done (m_waitingForDebugger h3) r h'" by (intro Suc.IH)
    with q(3) show ?thesis by (auto simp: loop_done_def split: sum.splits)
  next
    case finished
    with step Suc.prems(3) c show ?thesis by (auto simp: loop_done_def steady_def h2_def)
  qed
qed

lemma with_scope_result:
  assumes "with_scope J c body (w, h) = (r, (w', h'))"
  shows "(\<exists>e. r = Inl (Throw e) \<and> h' = h) \<or> (\<exists>w1 w2. body (w1, h) = (r, (w2, h')))"
proof -
  obtain r1 w1 h1 where get: "js J (JsGetCurrentContext J) (w, h) = (r1, (w1, h1))" by (metis surj_pair)
  then have h1: "h1 = h" and e1: "\<And>f. r1 = Inl f \<Longrightarrow> \<exists>e. f = Throw e"
    using engine_js [of J "JsGetCurrentContext J"] unfolding engine_op_def by (metis fst_conv snd_conv)+
  obtain r2 w2 h2 where set: "js J (JsSetCurrentContext J c) (w1, h1) = (r2, (w2, h2))" by (metis surj_pair)
  then have h2: "h2 = h1" and e2: "\<And>f. r2 = Inl f \<Longrightarrow> \<exists>e. f = Throw e"
    using engine_js [of J "JsSetCurrentContext J c"] unfolding engine_op_def by (metis fst_conv snd_conv)+
  show ?thesis
  proof (cases r1)
    case (Inl f)
    with assms get h1 e1 show ?thesis by (auto simp: with_scope_def bindM_def)
  next
    case (Inr p)
    note first = this
    show ?thesis
    proof (cases r2)
      case (Inl f)
      with assms first get set h1 h2 e2 show ?thesis by (auto simp: with_scope_def bindM_def seqM_def)
    next
      case (Inr x)
      obtain r3 w3 h3 where body: "body (w2, h2) = (r3, (w3, h3))" by (metis surj_pair)
      from assms first Inr get set have "scope_body J p body (w2, h2) = (r, (w', h'))"
        by (simp add: with_scope_def bindM_def seqM_def)
      then have "fst (body (w2, h2)) = r" and "snd (snd (body (w2, h2))) = h'"
        using scope_body_state [of J p body "(w2, h2)"] by simp_all
      with body h1 h2 show ?thesis by auto
    qed
  qed
qed

lemma ensures_with_scope:
  assumes "ensures P body S T" and "\<And>e h. P h \<Longrightarrow> T (Throw e) h"
  shows "ensures P (with_scope J c body) S T"
proof (rule ensuresI)
  fix w h r w' h'
  assume "P h" and "with_scope J c body (w, h) = (r, (w', h'))"
  from with_scope_result [OF this(2)] ensuresD [OF assms(1) this(1)] assms(2) [OF this(1)]
  show "(\<forall>f. r = Inl f \<longrightarrow> T f h') \<and> (\<forall>x. r = Inr x \<longrightarrow> S x h')" by auto
qed

lemma ProcessCommandQueue_ensures:
  "ensures (\<lambda>h. handler_ok h \<and> m_waitingForDebugger h = waiting) (ProcessCommandQueue E)
     (\<lambda>_ h. loop_done waiting (Inr ()) h) (\<lambda>f h. loop_done waiting (Inl f) h)"
  unfolding ProcessCommandQueue_def
proof (rule ensures_getH, rule ensures_with_scope, rule ensuresI)
  fix c w h r w' h'
  assume p: "(handler_ok h \<and> m_waitingForDebugger h = waiting) \<and> m_debugContext h = c"
    and run: "bindM (getH (\<lambda>h. length (arrivals h) + 2)) (\<lambda>fuel. ProcessCommandQueue_loop fuel E) (w, h) =
      (r, (w', h'))"
  then have "ProcessCommandQueue_loop (length (arrivals h) + 2) E (w, h) = (r, (w', h'))"
    by (simp add: bindM_def getH_def getM_def del: ProcessCommandQueue_loop.simps)
  from loop_turns [OF _ _ this] p have "loop_done waiting r h'" by (auto simp: turns_def)
  then show "(\<forall>f. r = Inl f \<longrightarrow> loop_done waiting (Inl f) h') \<and>
      (\<forall>x. r = Inr x \<longrightarrow> loop_done waiting (Inr ()) h')" by (auto simp: loop_done_def)
qed (simp add: loop_done_def)

subsection \<open>Without other threads\<close>

text \<open>What the loop means when no call arrives: the queue's commands in order, then the wait, which nobody ends.\<close>

definition run_queue :: "'w Env \<Rightarrow> ('w, unit) H" where
  "run_queue E =
     bindM (getH m_commandQueue) (\<lambda>commands.
     seqM (modH (\<lambda>h. h\<lparr>m_commandQueue := []\<rparr>))
     (seqM (forM commands (process_command E))
     (bindM (getH m_waitingForDebugger) (\<lambda>waiting. if waiting then throwM Blocked else retM ()))))"

lemma loop_quiet:
  assumes "arrivals h = []"
  shows "ProcessCommandQueue_loop (Suc fuel) E (w, h) =
    (if m_waitingForDebugger h \<and> m_commandQueue h = [] then (Inl Blocked, (w, h))
     else case forM (m_commandQueue h) (process_command E) (w, h\<lparr>m_commandQueue := []\<rparr>) of
            (Inl f, s) \<Rightarrow> (Inl f, s)
          | (Inr _, s) \<Rightarrow>
              if m_waitingForDebugger (snd s) \<or> m_commandQueue h \<noteq> []
              then ProcessCommandQueue_loop fuel E s else (Inr (), s))"
  using assms
  by (simp add: host_arrivals_def seqM_def bindM_def getH_def modH_def getM_def modifyM_def throwM_def retM_def
      split: prod.split sum.split)

lemma loop_empty:
  assumes "arrivals h = []" and "m_commandQueue h = []"
  shows "ProcessCommandQueue_loop (Suc fuel) E (w, h) =
    (if m_waitingForDebugger h then Inl Blocked else Inr (), (w, h))"
proof -
  have "h\<lparr>m_commandQueue := []\<rparr> = h" using assms(2) by (cases h) simp
  then show ?thesis by (simp add: loop_quiet assms retM_def del: ProcessCommandQueue_loop.simps)
qed

lemma loop_run_queue:
  assumes "handler_ok h" and "arrivals h = []" and "2 \<le> fuel"
  shows "ProcessCommandQueue_loop fuel E (w, h) = run_queue E (w, h)"
proof -
  obtain n where fuel: "fuel = Suc (Suc n)"
    by (rule that [of "fuel - 2"]) (use assms(3) in arith)
  obtain r w' h' where cmds: "forM (m_commandQueue h) (process_command E) (w, h\<lparr>m_commandQueue := []\<rparr>) = (r, (w', h'))"
    by (metis surj_pair)
  have "handler_ok (h\<lparr>m_commandQueue := []\<rparr>)" using assms(1) by simp
  from commands_result [OF this cmds] assms(2)
  have h': "arrivals h' = []" "m_commandQueue h' = []" "m_waitingForDebugger h' \<longrightarrow> m_waitingForDebugger h"
    by (simp_all add: steady_def)
  have "run_queue E (w, h) =
      (case r of Inl f \<Rightarrow> (Inl f, (w', h'))
       | Inr _ \<Rightarrow> (if m_waitingForDebugger h' then Inl Blocked else Inr (), (w', h')))"
    using cmds by (simp add: run_queue_def seqM_def bindM_def getH_def modH_def getM_def modifyM_def throwM_def
        retM_def split: sum.split)
  moreover have "ProcessCommandQueue_loop fuel E (w, h) =
      (case r of Inl f \<Rightarrow> (Inl f, (w', h'))
       | Inr _ \<Rightarrow> (if m_waitingForDebugger h' then Inl Blocked else Inr (), (w', h')))"
  proof (cases "m_waitingForDebugger h \<and> m_commandQueue h = []")
    case True
    moreover have "h\<lparr>m_commandQueue := []\<rparr> = h" using True by (cases h) simp
    ultimately show ?thesis
      using loop_quiet [OF assms(2), of "Suc n" E w] cmds by (auto simp: fuel retM_def)
  next
    case False
    with loop_quiet [OF assms(2), of "Suc n" E w] loop_empty [OF h'(1,2), of n E w'] cmds h'(3)
    show ?thesis by (auto simp: fuel simp del: ProcessCommandQueue_loop.simps split: sum.split)
  qed
  ultimately show ?thesis by simp
qed

lemma with_scope_cong:
  assumes "\<And>w. a (w, h) = b (w, h)"
  shows "with_scope J c a (w, h) = with_scope J c b (w, h)"
proof -
  obtain r1 w1 h1 where get: "js J (JsGetCurrentContext J) (w, h) = (r1, (w1, h1))" by (metis surj_pair)
  obtain r2 w2 h2 where set: "js J (JsSetCurrentContext J c) (w1, h1) = (r2, (w2, h2))" by (metis surj_pair)
  have "h1 = h" using engine_js [of J "JsGetCurrentContext J"] get unfolding engine_op_def by (metis snd_conv)
  moreover have "h2 = h1" using engine_js [of J "JsSetCurrentContext J c"] set unfolding engine_op_def
    by (metis snd_conv)
  ultimately show ?thesis
    using get set assms by (simp add: with_scope_def scope_body_def bindM_def seqM_def split: sum.split)
qed

lemma ProcessCommandQueue_quiet:
  assumes "handler_ok h" and "arrivals h = []"
  shows "ProcessCommandQueue E (w, h) = with_scope (jsrt_of E) (m_debugContext h) (run_queue E) (w, h)"
proof -
  have "ProcessCommandQueue E (w, h) = with_scope (jsrt_of E) (m_debugContext h)
      (bindM (getH (\<lambda>h. length (arrivals h) + 2)) (\<lambda>fuel. ProcessCommandQueue_loop fuel E)) (w, h)"
    by (simp add: ProcessCommandQueue_def bindM_def getH_def getM_def)
  also have "\<dots> = with_scope (jsrt_of E) (m_debugContext h) (run_queue E) (w, h)"
  proof (rule with_scope_cong)
    fix w
    show "bindM (getH (\<lambda>h. length (arrivals h) + 2)) (\<lambda>fuel. ProcessCommandQueue_loop fuel E) (w, h) =
        run_queue E (w, h)"
      using loop_run_queue [OF assms, of 2 E w] assms(2)
      by (simp add: bindM_def getH_def getM_def numeral_2_eq_2 del: ProcessCommandQueue_loop.simps)
  qed
  finally show ?thesis .
qed

subsection \<open>A disconnect of the host ends a wait\<close>

lemma forM_append: "forM (xs @ ys) f = seqM (forM xs f) (forM ys f)"
  by (induction xs) (simp_all add: seqM_def bindM_assoc)

lemma disconnect_arrives:
  assumes "m_sendResponseCallback h \<noteq> None" and "arrivals h = [[HostDisconnect]]"
  shows "\<exists>w'. host_arrivals E (w, h) = (Inr (), (w', h\<lparr>arrivals := [], m_sendResponseCallback := None,
    m_sendResponseCallbackState := 0, m_breakOnNextLine := False,
    m_commandQueue := m_commandQueue h @ [(CommandDisconnect, [])]\<rparr>))"
proof -
  define h1 where "h1 = h\<lparr>arrivals := [], m_sendResponseCallback := None,
    m_sendResponseCallbackState := 0, m_breakOnNextLine := False,
    m_commandQueue := m_commandQueue h @ [(CommandDisconnect, [])]\<rparr>"
  obtain r w1 where brk: "RequestAsyncBreak E (w, h1) = (r, (w1, h1))" and "\<And>f. r = Inl f \<Longrightarrow> \<exists>e. f = Throw e"
    using engine_js [of "jsrt_of E" "JsDiagRequestAsyncBreak (jsrt_of E)"]
    unfolding engine_op_def RequestAsyncBreak_def by (metis prod.collapse snd_conv fst_conv)
  note brk = this
  have "Disconnect E (w, h\<lparr>arrivals := []\<rparr>) = (r, (w1, h1))"
    using brk(1) assms(1)
    by (auto simp add: Disconnect_def EnqueueCommand_def getH_def modH_def M_defs h1_def)
  then have "run_host_call E HostDisconnect (w, h\<lparr>arrivals := []\<rparr>) = (Inr (), (w1, h1))"
    using brk(2) by (cases r) (auto simp: run_host_call_def TranslateException_def bindM_def retM_def
        split: cpp_exn.split)
  then show ?thesis
    using assms(2) by (simp add: host_arrivals_def getH_def modH_def M_defs h1_def)
qed

text \<open>Commands that end with a disconnection leave nobody waiting.\<close>

lemma disconnected_last:
  assumes "handler_ok h" and "forM (commands @ [(CommandDisconnect, [])]) (process_command E) (w, h) = (Inr (), (w', h'))"
  shows "\<not> m_waitingForDebugger h'"
proof -
  obtain r1 w1 h1 where first: "forM commands (process_command E) (w, h) = (r1, (w1, h1))" by (metis surj_pair)
  with assms(2) have r1: "r1 = Inr ()"
    by (cases r1) (simp_all add: forM_append seqM_def bindM_def)
  with assms(2) first have "HandleDisconnect E (w1, h1) = (Inr (), (w', h'))"
    by (simp add: forM_append seqM_def bindM_def process_command_def retM_def split: prod.splits sum.splits)
  from ensuresD [OF HandleDisconnect_ensures _ this] commands_result [OF assms(1) first] r1
  show ?thesis by (simp add: disconnected_def)
qed

lemma disconnect_ends_wait:
  assumes ok: "handler_ok h" and c: "m_sendResponseCallback h \<noteq> None" and a: "arrivals h = [[HostDisconnect]]"
    and run: "ProcessCommandQueue_loop (Suc (Suc fuel)) E (w, h) = (r, (w', h'))"
  shows "r \<noteq> Inl Blocked"
proof -
  define commands where "commands = m_commandQueue h @ [(CommandDisconnect, [])]"
  define h1 where "h1 = h\<lparr>arrivals := [], m_sendResponseCallback := None, m_sendResponseCallbackState := 0,
    m_breakOnNextLine := False, m_commandQueue := commands\<rparr>"
  obtain w1 where host: "host_arrivals E (w, h) = (Inr (), (w1, h1))"
    using disconnect_arrives [OF c a, of E w] by (auto simp: h1_def commands_def)
  define h2 where "h2 = h1\<lparr>m_commandQueue := []\<rparr>"
  obtain r3 w3 h3 where cmds: "forM commands (process_command E) (w1, h2) = (r3, (w3, h3))" by (metis surj_pair)
  have h2: "handler_ok h2" using ok by (simp add: h2_def h1_def)
  note c3 = commands_result [OF this cmds]
  have step: "ProcessCommandQueue_loop (Suc (Suc fuel)) E (w, h) =
      (case r3 of Inl f \<Rightarrow> (Inl f, (w3, h3)) | Inr _ \<Rightarrow> ProcessCommandQueue_loop (Suc fuel) E (w3, h3))"
    using host cmds
    by (simp add: seqM_def bindM_def getH_def modH_def getM_def modifyM_def h2_def h1_def commands_def
        del: ProcessCommandQueue_loop.simps(1) split: sum.split)
  show ?thesis
  proof (cases r3)
    case (Inl f)
    with step run c3 show ?thesis by (auto simp: command_fault_def)
  next
    case (Inr x)
    then have "\<not> m_waitingForDebugger h3" and "arrivals h3 = []" and "m_commandQueue h3 = []"
      using disconnected_last [OF h2, of "m_commandQueue h" E w1 w3 h3] c3 cmds
      by (simp_all add: steady_def h2_def h1_def commands_def)
    with Inr step run loop_empty [of h3 fuel E w3] show ?thesis by auto
  qed
qed

lemma disconnect_ends_queue:
  assumes "handler_ok h" and "m_sendResponseCallback h \<noteq> None" and "arrivals h = [[HostDisconnect]]"
    and "ProcessCommandQueue E (w, h) = (r, (w', h'))"
  shows "r \<noteq> Inl Blocked"
proof -
  have "with_scope (jsrt_of E) (m_debugContext h)
      (bindM (getH (\<lambda>h. length (arrivals h) + 2)) (\<lambda>fuel. ProcessCommandQueue_loop fuel E)) (w, h) = (r, (w', h'))"
    using assms(4) by (simp add: ProcessCommandQueue_def bindM_def getH_def getM_def)
  from with_scope_result [OF this] show ?thesis
  proof
    assume "\<exists>w1 w2. bindM (getH (\<lambda>h. length (arrivals h) + 2)) (\<lambda>fuel. ProcessCommandQueue_loop fuel E) (w1, h) =
      (r, (w2, h'))"
    then obtain w1 w2 where "ProcessCommandQueue_loop (Suc (Suc 1)) E (w1, h) = (r, (w2, h'))"
      using assms(3) by (auto simp: bindM_def getH_def getM_def simp del: ProcessCommandQueue_loop.simps)
    then show ?thesis by (rule disconnect_ends_wait [OF assms(1-3)])
  qed auto
qed

end
