(* ===== verification/EventInvariant.thy ===== *)
theory EventInvariant
  imports CommandLoop
begin

section \<open>Debug events keep the invariant\<close>

text \<open>
  The event handlers only run while the debugger is enabled, and then lead to the living agent.  A break that is
  reported waits in the command loop before the script goes on.
\<close>

text \<open>A computation that keeps what it is serving, from an enabled debugger with the agent at \<open>this\<close>.\<close>

lemma agent_ensures:
  assumes "\<And>g. runs (\<lambda>h. serving g h \<and> agent_address DebuggerDomain h = Some this) agent_fault m (\<lambda>_. True)"
  shows "ensures (\<lambda>h. handler_ok h \<and> agent_address DebuggerDomain h = Some this \<and> R (fixed_parts h)) m
    (\<lambda>_ h. handler_ok h \<and> R (fixed_parts h)) (\<lambda>f h. agent_fault f \<and> handler_ok h)"
proof (rule ensuresI)
  fix w h r w' h'
  assume ok: "handler_ok h \<and> agent_address DebuggerDomain h = Some this \<and> R (fixed_parts h)"
    and run: "m (w, h) = (r, (w', h'))"
  have "serving h h \<and> agent_address DebuggerDomain h = Some this"
    using ok by (simp add: serving_self handler_ok_def)
  note res = runs_result [OF assms this run]
  then have "serving h h'" and f: "\<forall>f. r = Inl f \<longrightarrow> agent_fault f" by blast+
  then have "handler_ok h'" and "fixed_parts h' = fixed_parts h"
    using ok serving_ok [of h h'] by (auto simp: serving_def kept_def)
  with f ok show "(\<forall>f. r = Inl f \<longrightarrow> agent_fault f \<and> handler_ok h') \<and>
      (\<forall>x. r = Inr x \<longrightarrow> handler_ok h' \<and> R (fixed_parts h'))" by simp
qed

lemma enabled_callbacks:
  "handler_ok h \<Longrightarrow> dbg_isEnabled h \<Longrightarrow>
     \<exists>this. agent_address DebuggerDomain h = Some this \<and> m_sourceEventCallback h = Some this \<and>
       m_breakEventCallback h = Some this"
  by (auto simp: handler_ok_def debugger_ok_def)

lemma HandleSourceEvent_ensures:
  "ensures (\<lambda>h. handler_ok h \<and> dbg_isEnabled h) (Debugger_HandleSourceEvent E eventData success)
     (\<lambda>_. handler_ok) (\<lambda>f h. agent_fault f \<and> handler_ok h)"
proof -
  have run: "ensures (\<lambda>h. handler_ok h \<and> agent_address DebuggerDomain h = Some this)
      (bindM (getH m_debugContext) (\<lambda>debugContext.
       bindM (DebuggerScript_new (script_fuel E) (jsrt_of E) debugContext eventData) (\<lambda>scriptInfo.
         DebuggerImpl_HandleSourceEvent E this scriptInfo success)))
      (\<lambda>_. handler_ok) (\<lambda>f h. agent_fault f \<and> handler_ok h)" for this
    by (rule ensures_weaken [OF agent_ensures [where R = "\<lambda>_. True" and this = this]])
      (intro runs_bind_True runs_getH_True msg.agent.runs_DebuggerScript_new
        msg.agent.runs_HandleSourceEvent, simp_all)
  show ?thesis
    unfolding Debugger_HandleSourceEvent_def
  proof (rule ensures_getH)
    fix c
    show "ensures (\<lambda>h. (handler_ok h \<and> dbg_isEnabled h) \<and> m_sourceEventCallback h = c)
      (case c of None \<Rightarrow> retM ()
       | Some this \<Rightarrow> bindM (getH m_debugContext) (\<lambda>debugContext.
           bindM (DebuggerScript_new (script_fuel E) (jsrt_of E) debugContext eventData) (\<lambda>scriptInfo.
             DebuggerImpl_HandleSourceEvent E this scriptInfo success)))
      (\<lambda>_. handler_ok) (\<lambda>f h. agent_fault f \<and> handler_ok h)"
    proof (cases c)
      case None
      then show ?thesis by (simp add: ensures_def retM_def)
    next
      case (Some this)
      have "ensures (\<lambda>h. (handler_ok h \<and> dbg_isEnabled h) \<and> m_sourceEventCallback h = c)
        (bindM (getH m_debugContext) (\<lambda>debugContext.
         bindM (DebuggerScript_new (script_fuel E) (jsrt_of E) debugContext eventData) (\<lambda>scriptInfo.
           DebuggerImpl_HandleSourceEvent E this scriptInfo success)))
        (\<lambda>_. handler_ok) (\<lambda>f h. agent_fault f \<and> handler_ok h)"
        by (rule ensures_weaken [OF run [of this]]) (use Some enabled_callbacks in \<open>fastforce+\<close>)
      with Some show ?thesis by simp
    qed
  qed
qed

definition event_fault :: "fault \<Rightarrow> Handler \<Rightarrow> bool" where
  "event_fault f h \<longleftrightarrow> f \<noteq> OutOfFuel CommandLoop \<and> ((\<exists>e. f = Throw e) \<longrightarrow> handler_ok h)"

lemma agent_event_fault: "agent_fault f \<Longrightarrow> handler_ok h \<Longrightarrow> event_fault f h"
  by (cases f) (auto simp: event_fault_def)

lemma ProcessCommandQueue_event:
  "ensures handler_ok (ProcessCommandQueue E)
     (\<lambda>_ h. handler_ok h \<and> m_commandQueue h = [] \<and> \<not> m_waitingForDebugger h) event_fault"
proof (rule ensuresI)
  fix w h r w' h'
  assume "handler_ok h" and run: "ProcessCommandQueue E (w, h) = (r, w', h')"
  then have "handler_ok h \<and> m_waitingForDebugger h = m_waitingForDebugger h" by simp
  from ensuresD [OF ProcessCommandQueue_ensures this run]
  show "(\<forall>f. r = Inl f \<longrightarrow> event_fault f h') \<and>
      (\<forall>x. r = Inr x \<longrightarrow> handler_ok h' \<and> m_commandQueue h' = [] \<and> \<not> m_waitingForDebugger h')"
    by (auto simp: loop_done_def event_fault_def)
qed

lemma WaitForDebugger_event:
  "ensures handler_ok (WaitForDebugger E)
     (\<lambda>_ h. handler_ok h \<and> m_commandQueue h = [] \<and> \<not> m_waitingForDebugger h) event_fault"
  unfolding WaitForDebugger_def
  by (rule ensures_seq [OF ensures_modH ProcessCommandQueue_event]) simp

definition break_wait :: "'w Env \<Rightarrow> SkipPauseRequest \<Rightarrow> ('w, unit) H" where
  "break_wait E request =
     (if request = RequestNoSkip then
        seqM (modH (\<lambda>h. h\<lparr>m_isRunningNestedMessageLoop := True\<rparr>))
        (seqM (WaitForDebugger E) (modH (\<lambda>h. h\<lparr>m_isRunningNestedMessageLoop := False\<rparr>)))
      else retM ())"

lemma break_wait_ensures:
  "ensures (\<lambda>h. handler_ok h \<and> \<not> m_isRunningNestedMessageLoop h) (break_wait E request)
     (\<lambda>_ h. handler_ok h \<and> \<not> m_isRunningNestedMessageLoop h) event_fault"
proof (cases "request = RequestNoSkip")
  case True
  have "ensures handler_ok (seqM (modH (\<lambda>h. h\<lparr>m_isRunningNestedMessageLoop := True\<rparr>))
        (seqM (WaitForDebugger E) (modH (\<lambda>h. h\<lparr>m_isRunningNestedMessageLoop := False\<rparr>))))
      (\<lambda>_ h. handler_ok h \<and> \<not> m_isRunningNestedMessageLoop h) event_fault"
    by (rule ensures_seq [OF ensures_modH ensures_seq [OF WaitForDebugger_event ensures_modH]]) simp_all
  then show ?thesis
    unfolding break_wait_def by (auto simp: True intro: ensures_weaken)
next
  case False
  then show ?thesis by (simp add: break_wait_def ensures_def retM_def)
qed

lemma ensures_js:
  assumes "\<And>h. P h \<Longrightarrow> S () h" and "\<And>h e. P h \<Longrightarrow> T (Throw e) h"
  shows "ensures P (js J f) S T"
proof (rule ensuresI)
  fix w h r w' h'
  assume p: "P h" and run: "js J f (w, h) = (r, w', h')"
  have "h' = h" and "\<And>g. r = Inl g \<Longrightarrow> \<exists>e. g = Throw e"
    using engine_js [of J f] run unfolding engine_op_def by (metis fst_conv snd_conv)+
  with assms p show "(\<forall>f. r = Inl f \<longrightarrow> T f h') \<and> (\<forall>x. r = Inr x \<longrightarrow> S x h')" by auto
qed

definition break_step :: "'w Env \<Rightarrow> SkipPauseRequest \<Rightarrow> ('w, unit) H" where
  "break_step E request = (let J = jsrt_of E in
     if request = RequestStepFrame \<or> request = RequestStepInto
     then js J (JsDiagSetStepType J JsDiagStepTypeStepIn)
     else if request = RequestStepOut
     then js J (JsDiagSetStepType J JsDiagStepTypeStepOut)
     else retM ())"

lemma HandleBreak_parts:
  "Debugger_HandleBreak E eventData =
     bindM (getH m_isRunningNestedMessageLoop) (\<lambda>nested.
       if nested then retM ()
       else
         bindM (getH m_breakEventCallback) (\<lambda>callback.
           case callback of
             None \<Rightarrow> retM ()
           | Some this \<Rightarrow>
               seqM (modH (\<lambda>h. h\<lparr>m_isPaused := True\<rparr>))
               (bindM (DebuggerImpl_HandleBreakEvent E this eventData) (\<lambda>request.
                seqM (break_wait E request)
                (seqM (modH (\<lambda>h. h\<lparr>m_isPaused := False\<rparr>)) (break_step E request))))))"
  unfolding Debugger_HandleBreak_def break_wait_def break_step_def Let_def by (rule refl)

lemma reported_ensures:
  "ensures (\<lambda>h. handler_ok h \<and> agent_address DebuggerDomain h = Some this \<and> \<not> m_isRunningNestedMessageLoop h)
     (DebuggerImpl_HandleBreakEvent E this eventData)
     (\<lambda>_ h. handler_ok h \<and> \<not> m_isRunningNestedMessageLoop h) event_fault"
  by (rule ensures_weaken [OF agent_ensures [where this = this and
        R = "\<lambda>p. \<not> (fst (snd (snd p)))", OF msg.agent.runs_HandleBreakEvent]])
    (auto simp: fixed_parts_def intro: agent_event_fault)

lemma HandleBreak_ensures:
  "ensures (\<lambda>h. handler_ok h \<and> dbg_isEnabled h \<and> \<not> m_isRunningNestedMessageLoop h)
     (Debugger_HandleBreak E eventData)
     (\<lambda>_ h. handler_ok h \<and> \<not> m_isPaused h \<and> \<not> m_isRunningNestedMessageLoop h) event_fault"
proof -
  have throw: "event_fault (Throw e) h" if "handler_ok h" for e h
    using that by (simp add: event_fault_def)
  have step: "ensures (\<lambda>h. handler_ok h \<and> \<not> m_isPaused h \<and> \<not> m_isRunningNestedMessageLoop h)
      (break_step E request)
      (\<lambda>_ h. handler_ok h \<and> \<not> m_isPaused h \<and> \<not> m_isRunningNestedMessageLoop h) event_fault" for request
    unfolding break_step_def Let_def by (intro ensures_if ensures_js ensures_ret) (simp_all add: throw)
  have body: "ensures (\<lambda>h. handler_ok h \<and> agent_address DebuggerDomain h = Some this \<and> \<not> m_isRunningNestedMessageLoop h)
      (seqM (modH (\<lambda>h. h\<lparr>m_isPaused := True\<rparr>))
       (bindM (DebuggerImpl_HandleBreakEvent E this eventData) (\<lambda>request.
        seqM (break_wait E request)
        (seqM (modH (\<lambda>h. h\<lparr>m_isPaused := False\<rparr>)) (break_step E request)))))
      (\<lambda>_ h. handler_ok h \<and> \<not> m_isPaused h \<and> \<not> m_isRunningNestedMessageLoop h) event_fault" for this
    by (rule ensures_seq [OF ensures_modH ensures_bind [OF reported_ensures
          ensures_seq [OF break_wait_ensures ensures_seq [OF ensures_modH step]]]]) simp_all
  show ?thesis
    unfolding HandleBreak_parts
  proof (intro ensures_getH ensures_if ensures_option)
    fix nested and c :: "nat option" and this
    assume "c = Some this"
    then show "ensures (\<lambda>h. ((handler_ok h \<and> dbg_isEnabled h \<and> \<not> m_isRunningNestedMessageLoop h) \<and>
        m_isRunningNestedMessageLoop h = nested) \<and> m_breakEventCallback h = c)
      (seqM (modH (\<lambda>h. h\<lparr>m_isPaused := True\<rparr>))
       (bindM (DebuggerImpl_HandleBreakEvent E this eventData) (\<lambda>request.
        seqM (break_wait E request)
        (seqM (modH (\<lambda>h. h\<lparr>m_isPaused := False\<rparr>)) (break_step E request)))))
      (\<lambda>_ h. handler_ok h \<and> \<not> m_isPaused h \<and> \<not> m_isRunningNestedMessageLoop h) event_fault"
      by (intro ensures_weaken [OF body [of this]]) (auto dest: enabled_callbacks)
  qed (auto intro!: ensures_ret dest: enabled_callbacks)
qed

lemma nested_break: "Debugger_HandleBreak E eventData (w, h) = (Inr (), (w, h))"
  if "m_isRunningNestedMessageLoop h"
  using that by (simp add: Debugger_HandleBreak_def Let_def bindM_def getH_def getM_def retM_def)

lemma HandleBreak_event:
  "ensures (\<lambda>h. handler_ok h \<and> dbg_isEnabled h) (Debugger_HandleBreak E eventData)
     (\<lambda>_. handler_ok) event_fault"
proof (rule ensuresI)
  fix w h r w' h'
  assume ok: "handler_ok h \<and> dbg_isEnabled h" and run: "Debugger_HandleBreak E eventData (w, h) = (r, w', h')"
  show "(\<forall>f. r = Inl f \<longrightarrow> event_fault f h') \<and> (\<forall>x. r = Inr x \<longrightarrow> handler_ok h')"
  proof (cases "m_isRunningNestedMessageLoop h")
    case True
    with ok run show ?thesis by (auto simp: nested_break)
  next
    case False
    with ok have "handler_ok h \<and> dbg_isEnabled h \<and> \<not> m_isRunningNestedMessageLoop h" by simp
    from ensuresD [OF HandleBreak_ensures this run] show ?thesis by simp
  qed
qed

text \<open>Every debug event: the queue first, then, while the debugger is enabled, the event.\<close>

lemma HandleDebugEvent_ensures:
  fixes E :: "'w Env"
  shows "ensures handler_ok (Debugger_HandleDebugEvent E debugEvent eventData) (\<lambda>_. handler_ok) event_fault"
proof -
  have throw: "event_fault (Throw e) h" if "handler_ok h" for e h
    using that by (simp add: event_fault_def)
  have source: "ensures (\<lambda>h. handler_ok h \<and> dbg_isEnabled h) (Debugger_HandleSourceEvent E eventData b)
      (\<lambda>_. handler_ok) event_fault" for b
    by (rule ensures_weaken [OF HandleSourceEvent_ensures]) (auto intro: agent_event_fault)
  have async: "ensures (\<lambda>h. handler_ok h \<and> dbg_isEnabled h)
      (bindM (getH m_shouldPauseOnNextStatement) (\<lambda>shouldPause.
         if shouldPause then
           seqM (modH (\<lambda>h. h\<lparr>m_shouldPauseOnNextStatement := False\<rparr>)) (Debugger_HandleBreak E eventData)
         else retM ())) (\<lambda>_. handler_ok) event_fault"
    by (intro ensures_getH ensures_if ensures_ret ensures_seq [OF ensures_modH HandleBreak_event]) simp_all
  have body: "ensures (\<lambda>h. handler_ok h \<and> dbg_isEnabled h)
      (case debugEvent of
         JsDiagDebugEventSourceCompile \<Rightarrow> Debugger_HandleSourceEvent E eventData True
       | JsDiagDebugEventCompileError \<Rightarrow> Debugger_HandleSourceEvent E eventData False
       | JsDiagDebugEventBreakpoint \<Rightarrow> Debugger_HandleBreak E eventData
       | JsDiagDebugEventStepComplete \<Rightarrow> Debugger_HandleBreak E eventData
       | JsDiagDebugEventDebuggerStatement \<Rightarrow> Debugger_HandleBreak E eventData
       | JsDiagDebugEventRuntimeException \<Rightarrow> Debugger_HandleBreak E eventData
       | JsDiagDebugEventAsyncBreak \<Rightarrow>
           bindM (getH m_shouldPauseOnNextStatement) (\<lambda>shouldPause.
             if shouldPause then
               seqM (modH (\<lambda>h. h\<lparr>m_shouldPauseOnNextStatement := False\<rparr>)) (Debugger_HandleBreak E eventData)
             else retM ()))
      (\<lambda>_. handler_ok) event_fault"
    using source HandleBreak_event async by (cases debugEvent) simp_all
  have enabled: "ensures (\<lambda>h. (handler_ok h \<and> dbg_isEnabled h) \<and> m_debugContext h = c)
      (with_scope (jsrt_of E) c m) (\<lambda>_. handler_ok) event_fault"
    if "ensures (\<lambda>h. handler_ok h \<and> dbg_isEnabled h) m (\<lambda>_. handler_ok) event_fault"
    for c and m :: "('w, unit) H"
    by (rule ensures_with_scope, rule ensures_weaken [OF that]) (auto intro: throw)
  have queue: "ensures handler_ok (ProcessCommandQueue E) (\<lambda>_. handler_ok) event_fault"
    by (rule ensures_weaken [OF ProcessCommandQueue_event]) simp_all
  show ?thesis
    unfolding Debugger_HandleDebugEvent_def
    apply (rule ensures_seq [OF queue])
    apply (rule ensures_getH)
    apply (rule ensures_if, rule ensures_ret, simp)
    apply (rule ensures_getH)
    apply (rule ensures_weaken [OF enabled [OF body]])
      apply auto
    done
qed

text \<open>Console messages of the script.\<close>

lemma ConsoleAPICalled_ensures:
  "ensures handler_ok (ConsoleAPICalled E apiType arguments) (\<lambda>_. handler_ok)
     (\<lambda>f h. agent_fault f \<and> handler_ok h)"
proof (rule ensuresI)
  fix w h r w' h'
  assume ok: "handler_ok h" and run: "ConsoleAPICalled E apiType arguments (w, h) = (r, w', h')"
  show "(\<forall>f. r = Inl f \<longrightarrow> agent_fault f \<and> handler_ok h') \<and> (\<forall>x. r = Inr x \<longrightarrow> handler_ok h')"
  proof (cases "m_isConnected h")
    case False
    with run ok show ?thesis by (auto simp: ConsoleAPICalled_def bindM_def getH_def getM_def retM_def)
  next
    case True
    with ok have "wired RuntimeDomain h" by (simp add: handler_ok_def)
    then obtain a where a: "m_runtimeAgent h = Some a"
      by (auto simp: wired_def live_backend_def)
    then have "agent_address RuntimeDomain g = Some (ri_id a)" if "serving h g" for g
      using fixed_address [of g h RuntimeDomain] kept_fixed [of h g] that by (simp add: serving_def)
    note frame = msg.runs_consoleAPICalled [OF this]
    have "RuntimeImpl_consoleAPICalled E (ri_id a) apiType arguments (w, h) = (r, w', h')"
      using run True a by (simp add: ConsoleAPICalled_def bindM_def getH_def getM_def)
    then have "RuntimeImpl_consoleAPICalled E (ri_id a) apiType arguments (w, h) = (r, w', h')"
      and "serving h h" using ok by (simp_all add: serving_self handler_ok_def)
    note res = runs_result [OF frame this(2) this(1)]
    then have "handler_ok h'" using serving_ok [OF ok, of h'] by simp
    with res show ?thesis by simp
  qed
qed

text \<open>The entry points of the host.\<close>

lemma entry_points_ok:
  assumes "handler_ok h"
  shows "handler_ok (snd (snd (Connect E b callback state (w, h))))"
    and "handler_ok (snd (snd (Disconnect E (w, h))))"
    and "handler_ok (snd (snd (SendCommand E command (w, h))))"
    and "handler_ok (snd (snd (SetCommandQueueCallback callback state (w, h))))"
proof -
  have "handler_ok h \<and> arrivals h = arrivals h \<and> m_waitingForDebugger h = m_waitingForDebugger h"
    using assms by simp
  note e = host.runs_entry_points [where F = "\<lambda>_. True", THEN runs_state, OF TrueI this]
  show "handler_ok (snd (snd (Connect E b callback state (w, h))))" by (rule conjunct1 [OF e(1)])
  show "handler_ok (snd (snd (Disconnect E (w, h))))" by (rule conjunct1 [OF e(2)])
  show "handler_ok (snd (snd (SendCommand E command (w, h))))" by (rule conjunct1 [OF e(3)])
  show "handler_ok (snd (snd (SetCommandQueueCallback callback state (w, h))))"
    by (rule conjunct1 [OF e(4)])
qed

end
