(* ===== verification/HostSteps.thy ===== *)
theory HostSteps
  imports EventInvariant
begin

section \<open>The handler as a state machine\<close>

text \<open>
  The steps a host, its threads and the engine take with a handler: a call of the C interface, the arrival
  of calls from other threads, a debug event, a console message.  A computation that ends with an
  exception leaves a state from which the host goes on; one that ends with another fault ends the program.
\<close>

inductive host_step :: "'w Env \<Rightarrow> Handler \<Rightarrow> Handler \<Rightarrow> bool" for E :: "'w Env" where
  host_call: "run_host_call E call (w, h) = (Inr (), (w', h')) \<Longrightarrow> host_step E h h'"
| wait: "JsDebugProtocolHandlerWaitForDebugger E (Some ()) (w, h) = (Inr code, (w', h')) \<Longrightarrow> host_step E h h'"
| process: "JsDebugProtocolHandlerProcessCommandQueue E (Some ()) (w, h) = (Inr code, (w', h')) \<Longrightarrow>
    host_step E h h'"
| event: "Debugger_HandleDebugEvent E debugEvent eventData (w, h) = (r, (w', h')) \<Longrightarrow> unwinds r \<Longrightarrow>
    host_step E h h'"
| console: "ConsoleAPIRedirection E callee arguments (w, h) = (r, (w', h')) \<Longrightarrow> unwinds r \<Longrightarrow>
    host_step E h h'"
| threads: "host_step E h (h\<lparr>arrivals := batches\<rparr>)"

inductive_cases host_stepE: "host_step E h h'"

inductive reachable :: "'w Env \<Rightarrow> Handler \<Rightarrow> bool" for E :: "'w Env" where
  created: "reachable E (Handler_init context_ref)"
| step: "reachable E h \<Longrightarrow> host_step E h h' \<Longrightarrow> reachable E h'"

lemma unwinds_iff: "unwinds r \<longleftrightarrow> (\<forall>f. r = Inl f \<longrightarrow> (\<exists>e. f = Throw e))"
  by (auto simp: unwinds_def split: sum.split fault.split)

text \<open>A computation translated to an error code ends where the computation does.\<close>

lemma TranslateException_state:
  assumes "TranslateException m s = (Inr code, t)"
  shows "snd (m s) = t \<and> unwinds (fst (m s))"
  using assms by (auto simp: TranslateException_def unwinds_def
      split: prod.splits sum.splits fault.splits cpp_exn.splits)

lemma event_keeps:
  assumes "ensures handler_ok m (\<lambda>_. handler_ok) event_fault" and "handler_ok h"
    and "m (w, h) = (r, (w', h'))" and "unwinds r"
  shows "handler_ok h'"
proof (cases r)
  case (Inl f)
  with ensuresD [OF assms(1,2,3)] assms(4) show ?thesis by (auto simp: unwinds_iff event_fault_def)
next
  case (Inr x)
  then show ?thesis using ensuresD [OF assms(1,2,3)] by simp
qed

lemma translated_keeps:
  assumes "ensures handler_ok m (\<lambda>_. handler_ok) event_fault" and "handler_ok h"
    and "TranslateExceptionFor (Some ()) (\<lambda>_. m) (w, h) = (Inr code, (w', h'))"
  shows "handler_ok h'"
proof -
  obtain r t where run: "m (w, h) = (r, t)" by (metis surj_pair)
  have t: "t = (w', h')" and u: "unwinds r"
    using TranslateException_state [of m "(w, h)" code "(w', h')"] assms(3) run
    by (simp_all add: TranslateExceptionFor_def)
  show ?thesis by (rule event_keeps [OF assms(1,2) run [unfolded t] u])
qed

lemma console_keeps:
  assumes "handler_ok h" and "ConsoleAPIRedirection E callee arguments (w, h) = (r, (w', h'))"
  shows "handler_ok h'"
proof -
  have "ensures handler_ok (ConsoleAPIRedirection E callee arguments) (\<lambda>_. handler_ok) (\<lambda>_. handler_ok)"
    unfolding ConsoleAPIRedirection_def
  proof (rule ensures_seq)
    show "ensures handler_ok (if 0 < length arguments
        then ConsoleAPICalled E (lit (console_type callee)) arguments else retM ())
      (\<lambda>_. handler_ok) (\<lambda>_. handler_ok)"
      by (intro ensures_if ensures_ret ensures_weaken [OF ConsoleAPICalled_ensures]) simp_all
    show "ensures handler_ok (js (jsrt_of E) (JsGetUndefinedValue (jsrt_of E)))
      (\<lambda>_. handler_ok) (\<lambda>_. handler_ok)"
      using runs_ensures [OF runs_engine [OF engine_js], where F = "\<lambda>_. True" and Q = handler_ok]
      by (rule ensures_weaken) simp_all
  qed
  from ensuresD [OF this assms] show ?thesis by (cases r) simp_all
qed

lemma queue_keeps:
  "ensures handler_ok (ProcessCommandQueue E) (\<lambda>_. handler_ok) event_fault"
  "ensures handler_ok (WaitForDebugger E) (\<lambda>_. handler_ok) event_fault"
  by (rule ensures_weaken [OF ProcessCommandQueue_event], simp_all)
    (rule ensures_weaken [OF WaitForDebugger_event], simp_all)

lemma host_step_ok: "host_step E h h' \<Longrightarrow> handler_ok h \<Longrightarrow> handler_ok h'"
proof (induction rule: host_step.induct)
  case (host_call call w h w' h')
  then have "handler_ok h \<and> arrivals h = arrivals h \<and> m_waitingForDebugger h = m_waitingForDebugger h"
    by simp
  from runs_result [OF host.runs_host_call [where F = "\<lambda>_. True"] this host_call.hyps] show ?case
    by simp
next
  case (wait w h code w' h')
  show ?case
    by (rule translated_keeps [OF queue_keeps(2) wait.prems
          wait.hyps [unfolded JsDebugProtocolHandlerWaitForDebugger_def]])
next
  case (process w h code w' h')
  show ?case
    by (rule translated_keeps [OF queue_keeps(1) process.prems
          process.hyps [unfolded JsDebugProtocolHandlerProcessCommandQueue_def]])
next
  case (event debugEvent eventData w h r w' h')
  show ?case by (rule event_keeps [OF HandleDebugEvent_ensures event.prems event.hyps])
next
  case (console callee arguments w h r w' h')
  show ?case by (rule console_keeps [OF console.prems console.hyps(1)])
next
  case (threads h batches)
  then show ?case by simp
qed

lemma reachable_ok: "reachable E h \<Longrightarrow> handler_ok h"
  by (induction rule: reachable.induct) (auto intro: handler_ok_init host_step_ok)

end
