(* ===== verification/SampleEngine.thy ===== *)
theory SampleEngine
  imports HostSteps Requests JsonRoundtrip
begin

section \<open>A small engine to evaluate the model on\<close>

text \<open>
  The engine is a parameter of the model.  The examples that instantiate the theorems use this one: its state is
  the current context, every call succeeds, every value is the same undefined value, and numbers and strings are
  zero and empty.  Its UTF-8 conversions are those of ASCII text.
\<close>

definition sample_codes :: error_codes where
  "sample_codes = error_codes.make (\<lambda>c. if c = JsNoError then 0 else 0x10001) 0x10000 0x20000 0x30000 0x40000 0x50000"

definition succeed :: "'a \<Rightarrow> (nat, 'a) api" where
  "succeed x = (\<lambda>w. ((JsNoError, x), w))"

definition sample_engine :: "nat JSRT" where
  "sample_engine =
     \<lparr>codes = sample_codes, JsGetUndefinedValue = succeed 1, JsGetNullValue = succeed 2, JsGetGlobalObject = succeed 3,
      JsCreateObject = succeed 4, JsCreateString = (\<lambda>_. succeed 1), JsCreateStringUtf16 = (\<lambda>_. succeed 1),
      JsGetStringLength = (\<lambda>_. succeed 0), JsCopyStringUtf16 = (\<lambda>_ _ _. succeed []),
      JsConvertValueToString = succeed, JsConvertValueToBoolean = succeed, JsConvertValueToNumber = succeed,
      JsBooleanToBool = (\<lambda>_. succeed False), JsNumberToInt = (\<lambda>_. succeed 0), JsIntToNumber = (\<lambda>_. succeed 1),
      JsGetValueType = (\<lambda>_. succeed JsUndefined), JsCreatePropertyId = (\<lambda>_. succeed 1),
      JsGetPropertyIdFromName = (\<lambda>_. succeed 1), JsGetProperty = (\<lambda>_ _. succeed 1),
      JsSetProperty = (\<lambda>_ _ _ _. succeed ()), JsHasProperty = (\<lambda>_ _. succeed False),
      JsGetIndexedProperty = (\<lambda>_ _. succeed 1), JsCallFunction = (\<lambda>_ _. succeed 2),
      JsConstructObject = (\<lambda>_ _. succeed 4), JsCreateFunction = (\<lambda>_. succeed 5),
      JsGetAndClearException = succeed 1, JsCreateContext = succeed 1,
      JsGetCurrentContext = (\<lambda>w. ((JsNoError, w), w)), JsSetCurrentContext = (\<lambda>c _. ((JsNoError, ()), c)),
      JsGetContextOfObject = (\<lambda>_. succeed 1), JsAddRef = (\<lambda>_. succeed ()), JsRelease = (\<lambda>_. succeed ()),
      JsDiagStartDebugging = succeed (), JsDiagStopDebugging = succeed (), JsDiagRequestAsyncBreak = succeed (),
      JsDiagGetScripts = succeed 4, JsDiagGetSource = (\<lambda>_. succeed 4), JsDiagGetStackTrace = succeed 4,
      JsDiagGetStackProperties = (\<lambda>_. succeed 4), JsDiagGetObjectFromHandle = (\<lambda>_. succeed 4),
      JsDiagGetProperties = (\<lambda>_ _ _. succeed 4), JsDiagEvaluate = (\<lambda>_ _ _. succeed 4),
      JsDiagSetBreakpoint = (\<lambda>_ _ _. succeed 4), JsDiagRemoveBreakpoint = (\<lambda>_. succeed ()),
      JsDiagGetBreakpoints = succeed 4, JsDiagSetBreakOnException = (\<lambda>_. succeed ()),
      JsDiagGetBreakOnException = succeed JsDiagBreakOnExceptionAttributeNone,
      JsDiagSetStepType = (\<lambda>_. succeed ())\<rparr>"

definition sample_env :: "nat Env" where
  "sample_env = Env.make sample_engine (\<lambda>s. Some (map (\<lambda>c. char_of (unat c)) s)) (\<lambda>s. Some (lit s)) 100"

lemma sample_fields [simp]:
  "jsrt_of sample_env = sample_engine" "utf8_encode sample_env s = Some (map (\<lambda>c. char_of (unat c)) s)"
  "utf8_decode sample_env t = Some (lit t)" "script_fuel sample_env = 100"
  by (simp_all add: sample_env_def Env.make_def)

lemma sample_utf8: "list_all ascii s \<Longrightarrow> toUtf8 (utf8_encode sample_env) (lit s) = s"
proof -
  assume "list_all ascii s"
  then have "map (\<lambda>c. char_of (unat c)) (lit s) = s"
    by (induction s) (simp_all add: lit_Cons char_of_unat_widen)
  then show ?thesis by (simp add: toUtf8_def)
qed

lemma sample_calls [simp]:
  "codes sample_engine = sample_codes"
  "JsGetUndefinedValue sample_engine = succeed 1"
  "JsGetCurrentContext sample_engine w = ((JsNoError, w), w)"
  "JsSetCurrentContext sample_engine c w = ((JsNoError, ()), c)"
  "JsDiagRequestAsyncBreak sample_engine = succeed ()"
  "JsDiagSetBreakOnException sample_engine attributes = succeed ()"
  "JsDiagSetStepType sample_engine step = succeed ()"
  "JsDiagGetScripts sample_engine = succeed 4"
  "JsCreateContext sample_engine = succeed 1"
  "JsDiagStartDebugging sample_engine = succeed ()"
  "JsNumberToInt sample_engine v = succeed 0"
  "JsCreatePropertyId sample_engine name = succeed 1"
  "JsGetProperty sample_engine v p = succeed 1" "JsHasProperty sample_engine v p = succeed False"
  "JsDiagRemoveBreakpoint sample_engine i = succeed ()" "JsDiagGetStackTrace sample_engine = succeed 4"
  "JsDiagGetBreakpoints sample_engine = succeed 4"
  by (simp_all add: sample_engine_def)

text \<open>An engine call that succeeds.\<close>

lemma js_succeed [simp]: "js J f (w, p) = (Inr x, (w', p))" if "f w = ((JsNoError, x), w')"
  using that by (simp add: js_def jsrt_def IfJsErrorThrow_def M_defs)

lemma js_succeed_value [simp]: "js J (succeed x) (w, p) = (Inr x, (w, p))"
  by (simp add: js_def jsrt_def IfJsErrorThrow_def succeed_def M_defs)

lemma succeed_apply [simp]: "succeed x w = ((JsNoError, x), w)"
  by (simp add: succeed_def)

text \<open>
  A host with response callback 7 connects to a handler with debug context 1 (\<open>sample_attached\<close>), and the script's thread
  processes the command (\<open>sample_connected\<close>).
\<close>

definition sample_attached :: Handler where
  "sample_attached = snd (snd (run_host_call sample_env (HostConnect False (Some 7) 0) (0, Handler_init 1)))"

definition sample_connected :: Handler where
  "sample_connected = snd (snd (ProcessCommandQueue sample_env (0, sample_attached)))"

lemmas sample_run = getH_def modH_def M_defs TranslateException_def Connect_def EnqueueCommand_def RequestAsyncBreak_def
  host_arrivals_def ProcessCommandQueue_def with_scope_def scope_body_def leave_scope_def jsrt_def unwinds_def

lemma sample_attach:
  "run_host_call sample_env (HostConnect False (Some 7) 0) (0, Handler_init 1) = (Inr (), (0, sample_attached))"
  by (simp add: sample_attached_def run_host_call_def Handler_init_def Handler.make_def sample_run)

lemma sample_attached_eq:
  "sample_attached = (Handler_init 1)\<lparr>m_sendResponseCallback := Some 7, m_commandQueue := [(CommandConnect, [])]\<rparr>"
  by (simp add: sample_attached_def run_host_call_def Handler_init_def Handler.make_def sample_run)

lemma sample_connect:
  "ProcessCommandQueue sample_env (0, sample_attached) = (Inr (), (0, sample_connected))"
  by (simp add: sample_connected_def sample_attached_eq Handler_init_def Handler.make_def HandleConnect_def
      process_command_def new_object_def wire_def delete_debugger_agent_def sample_run eval_nat_numeral)

definition sample_dispatcher :: "DomainName \<Rightarrow> nat \<Rightarrow> DomainDispatcher" where
  "sample_dispatcher domain address = DomainDispatcher.make domain (Suc address) address False CallbackState_init"

lemma sample_connected_eq:
  "sample_connected =
     (Handler_init 1)\<lparr>m_sendResponseCallback := Some 7, m_isConnected := True, next_object := 8,
       m_consoleAgent := Some 0, m_debuggerAgent := Some (DebuggerImpl.make 2 False False [] []),
       m_runtimeAgent := Some (RuntimeImpl_new 4), m_schemaAgent := Some 6,
       m_dispatcher := UberDispatcher.make False []
         (map (\<lambda>(domain, address). (domain_name domain, sample_dispatcher domain address))
           [(ConsoleDomain, 0), (DebuggerDomain, 2), (RuntimeDomain, 4), (SchemaDomain, 6)])\<rparr>"
  by (simp add: sample_connected_def sample_attached_eq Handler_init_def Handler.make_def HandleConnect_def
      process_command_def new_object_def wire_def delete_debugger_agent_def sample_run eval_nat_numeral
      registerBackend_def setupRedirects_def UberDispatcher_init_def UberDispatcher.make_def sample_dispatcher_def
      domain_name_inj del: domain_name.simps)

lemma sample_attached_reachable: "reachable sample_env sample_attached"
  by (rule reachable.step [OF reachable.created host_step.host_call]) (rule sample_attach)

lemma sample_process:
  "JsDebugProtocolHandlerProcessCommandQueue sample_env (Some ()) (0, sample_attached) =
     (Inr JsNoError, (0, sample_connected))"
  by (simp add: JsDebugProtocolHandlerProcessCommandQueue_def TranslateExceptionFor_def TranslateException_def
      sample_connect)

lemma sample_reachable: "reachable sample_env sample_connected"
  by (rule reachable.step [OF sample_attached_reachable host_step.process]) (rule sample_process)

lemma sample_ok [simp]: "handler_ok sample_connected" "handler_ok sample_attached"
  using reachable_ok [OF sample_reachable] reachable_ok [OF sample_attached_reachable] by simp_all

lemma sample_connected_fields [simp]:
  "m_isConnected sample_connected" "m_sendResponseCallback sample_connected = Some 7"
  "m_sendResponseCallbackState sample_connected = 0" "m_commandQueue sample_connected = []"
  "arrivals sample_connected = []" "\<not> m_waitingForDebugger sample_connected" "host_log sample_connected = []"
  "m_debugContext sample_connected = 1" "\<not> m_isPaused sample_connected"
  "\<not> m_isRunningNestedMessageLoop sample_connected" "\<not> dbg_isEnabled sample_connected"
  by (simp_all add: sample_connected_eq Handler_init_def Handler.make_def)

text \<open>The debugger enabled, and a break there: the host is told, and the script waits until the host disconnects.\<close>

definition sample_enabled :: Handler where
  "sample_enabled = snd (snd (DebuggerImpl_enable sample_env 2 (0, sample_connected)))"

lemmas sample_debugger = DebuggerImpl.make_def getDI_def modDI_def SetSourceEventHandler_def for_items_def
  GetPropertyInt_def GetProperty_def ValueToNative_def for_length_def Handler_init_def Handler.make_def

lemma sample_enable:
  "DebuggerImpl_enable sample_env 2 (0, sample_connected) = (Inr Response_OK, (0, sample_enabled))"
  by (simp add: sample_enabled_def sample_connected_eq DebuggerImpl_enable_def Dbg_Enable_def
      SetBreakEventHandler_def GetScripts_def sample_debugger sample_run)

lemma sample_enabled_eq:
  "sample_enabled = sample_connected\<lparr>m_debuggerAgent := Some (DebuggerImpl.make 2 True False [] []),
     dbg_isEnabled := True, m_sourceEventCallback := Some 2, m_breakEventCallback := Some 2\<rparr>"
  by (simp add: sample_enabled_def sample_connected_eq DebuggerImpl_enable_def Dbg_Enable_def
      SetBreakEventHandler_def GetScripts_def sample_debugger sample_run)

lemma sample_enabled_ok: "handler_ok sample_enabled"
proof -
  have "m_debuggerAgent sample_connected = Some (DebuggerImpl.make 2 False False [] [])"
    by (simp add: sample_connected_eq)
  then have "agent_address domain sample_enabled = agent_address domain sample_connected" for domain
    by (cases domain) (simp_all add: sample_enabled_eq DebuggerImpl.make_def)
  then have "wired domain sample_enabled" for domain
    using sample_ok(1) by (simp add: handler_ok_def wired_def live_backend_def dispatchers_def sample_enabled_eq)
  moreover have "dispatcher_ok sample_enabled"
    using sample_ok(1) by (simp add: handler_ok_def sample_enabled_eq dispatcher_ok_def dispatchers_def)
  ultimately show ?thesis
    by (simp add: handler_ok_def debugger_ok_def sample_enabled_eq DebuggerImpl.make_def)
qed

lemma sample_break_event:
  assumes "m_debuggerAgent h = Some (DebuggerImpl.make 2 True False [] [])" and "connected_to 7 0 (0 :: nat, h)"
  shows "\<exists>m. DebuggerImpl_HandleBreakEvent sample_env 2 9 (0, h) =
    (Inr RequestNoSkip, log_reply sample_env 7 0 m (0, h))"
proof -
  define p where "p = PausedNotification_toValue (PausedNotification.make [] (lit ''other'') None (Some []) None)"
  have "wf_message (createNotification (lit ''Debugger.paused'') (Some p))"
    unfolding wf_message_def createNotification_def p_def
    by (simp add: PausedNotification_wf wf_PausedNotification_def PausedNotification.make_def)
  from reply.notification [OF assms(2) this] show ?thesis
    using assms
    by (intro exI [of _ "createNotification (lit ''Debugger.paused'') (Some p)"])
      (simp add: DebuggerImpl_HandleBreakEvent_def GetHitBreakpoint_def TryGetPropertyInt_def TryGetPropertyAs_def
        TryGetProperty_def EvaluateConditionOnBreakpoint_def GetCallFrames_def GetReason_def GetData_def
        GetException_def GetHitBreakpoints_def GetAsyncStackTrace_def Debugger_paused_def send_notification_def
        p_def sample_debugger sample_run log_reply_def)
qed

lemma sample_wait:
  assumes "h = sample_enabled\<lparr>m_isPaused := True, m_isRunningNestedMessageLoop := True,
    arrivals := [[HostDisconnect]], host_log := l\<rparr>"
  shows "\<exists>h'. WaitForDebugger sample_env (0, h) = (Inr (), (0, h'))"
  using assms
  by (simp add: WaitForDebugger_def sample_enabled_eq sample_connected_eq numeral_3_eq_3 run_host_call_def
      Disconnect_def process_command_def HandleDisconnect_def delete_debugger_agent_def no_throw_def
      DebuggerImpl_disable_def Dbg_Disable_def RunIfWaitingForDebugger_def ClearBreakpoints_def sample_debugger
      sample_run)

lemma sample_break:
  "\<exists>h'. Debugger_HandleBreak sample_env 9 (0, sample_enabled\<lparr>arrivals := [[HostDisconnect]]\<rparr>) = (Inr (), (0, h'))"
proof -
  define h where "h = sample_enabled\<lparr>arrivals := [[HostDisconnect]], m_isPaused := True\<rparr>"
  have "m_debuggerAgent h = Some (DebuggerImpl.make 2 True False [] [])" and "connected_to 7 0 (0 :: nat, h)"
    by (simp_all add: h_def sample_enabled_eq connected_to_def)
  from sample_break_event [OF this] obtain m where
    event: "DebuggerImpl_HandleBreakEvent sample_env 2 9 (0, h) = (Inr RequestNoSkip, log_reply sample_env 7 0 m (0, h))"
    by blast
  define g where "g = (snd (log_reply sample_env 7 0 m (0 :: nat, h)))\<lparr>m_isRunningNestedMessageLoop := True\<rparr>"
  obtain h' where wait: "WaitForDebugger sample_env (0, g) = (Inr (), (0, h'))"
    using sample_wait [of g "host_log g"] by (auto simp: g_def h_def log_reply_def sample_enabled_eq)
  show ?thesis
    using event wait
    by (simp add: Debugger_HandleBreak_def Let_def getH_def modH_def M_defs h_def g_def log_reply_def
        sample_enabled_eq)
qed

text \<open>A request without parameters, as text and as the value it is parsed to.\<close>

definition sample_request :: "string \<Rightarrow> dict" where
  "sample_request name = setString (lit ''method'') (lit name) (setInteger (lit ''id'') 1 dict_create)"

definition sample_message :: "string \<Rightarrow> string" where
  "sample_message name = ''{'' @ [CHR 0x22] @ ''id'' @ [CHR 0x22] @ '':1,'' @ [CHR 0x22] @ ''method'' @ [CHR 0x22] @
     '':'' @ [CHR 0x22] @ name @ [CHR 0x22] @ ''}''"

lemma sample_request_json: "list_all plain_char name \<Longrightarrow> json_text (Dict (sample_request name)) = lit (sample_message name)"
  by (simp add: sample_request_def sample_message_def set_defs Dict_def dict_set_def dict_create_def quoted_lit
      plain_char_def) (simp add: text_eval lit_append)

lemma sample_received:
  assumes "list_all plain_char name"
  shows "received sample_env (sample_message name) = Some (Dict (sample_request name))"
proof -
  have "parseJSON (json_text (Dict (sample_request name))) = Some (Dict (sample_request name))"
    by (rule parse_json_text) (simp_all add: sample_request_def set_defs wf_intros,
        simp_all add: Dict_def dict_set_def dict_create_def stackLimit_def)
  then show ?thesis
    by (simp add: received_def fromUtf8_def sample_request_json [OF assms]) (simp add: sample_message_def)
qed

lemma sample_request_fields:
  "dict_get (sample_request name) (lit ''id'') = Some (IntegerValue 1)"
  "dict_get (sample_request name) (lit ''method'') = Some (StringValue (lit name))"
  by (simp_all add: sample_request_def set_defs)

end
