(* ===== verification/Breakpoints.thy ===== *)
theory Breakpoints
  imports EventInvariant
begin

section \<open>Setting and removing breakpoints\<close>

text \<open>
  What \<open>setBreakpointByUrl\<close>, \<open>setBreakpoint\<close> and \<open>removeBreakpoint\<close> do to the agent's breakpoints, on every branch: an error leaves the
  handler as it was, a success adds or removes exactly one entry.
\<close>

text \<open>A computation that leaves the handler alone.\<close>

abbreviation reads :: "Handler \<Rightarrow> ('w, 'a) H \<Rightarrow> ('a \<Rightarrow> bool) \<Rightarrow> bool" where
  "reads h \<equiv> runs (\<lambda>g. g = h) (\<lambda>_. True)"

lemma reads_engine: "engine_op m \<Longrightarrow> reads h m (\<lambda>_. True)"
  by (rule runs_engine) simp_all

lemma reads_resolve:
  "reads h (TryLoadScript J c script bp) (\<lambda>(_, bp'). GenerateKey bp' = GenerateKey bp)"
  "reads h (TryResolveBreakpoint E bp) (\<lambda>(_, bp'). GenerateKey bp' = GenerateKey bp)"
proof -
  show "reads h (TryLoadScript J c script bp) (\<lambda>(_, bp'). GenerateKey bp' = GenerateKey bp)"
    by (rule runs_yields [OF reads_engine yields_TryLoadScript]) (rule engine_intros)
  have "reads h (SetBreakpoint (jsrt_of E) bp) (\<lambda>bp'. GenerateKey bp' = GenerateKey bp)"
    by (rule runs_yields [OF reads_engine yields_SetBreakpoint]) (rule engine_intros)
  from runs_bind [OF this, of "\<lambda>bp'. retM (IsResolved bp', bp')" "\<lambda>(_, bp'). GenerateKey bp' = GenerateKey bp"]
  show "reads h (TryResolveBreakpoint E bp) (\<lambda>(_, bp'). GenerateKey bp' = GenerateKey bp)"
    unfolding TryResolveBreakpoint_def by (auto intro!: runs_throw runs_ret)
qed

lemma reads_deref: "reads h (deref x) (\<lambda>_. True)"
  unfolding deref_def by (intro runs_option runs_throw runs_ret) simp_all

lemma reads_load_scripts:
  "reads h (load_scripts E c scripts bp locations) (\<lambda>(bp', _). GenerateKey bp' = GenerateKey bp)"
proof (induction scripts arbitrary: bp locations)
  case Nil
  show ?case by (simp add: runs_ret)
next
  case (Cons script scripts)
  have go: "reads h (load_scripts E c scripts b ls) (\<lambda>(bp', _). GenerateKey bp' = GenerateKey bp)"
    if "GenerateKey b = GenerateKey bp" for b ls
    using Cons.IH [of b ls] that by simp
  show ?case
    unfolding load_scripts.simps
    by (rule runs_bind [OF reads_resolve(1)], clarify, rule runs_if, rule runs_bind [OF reads_resolve(2)],
        clarify, rule runs_if, rule runs_bind_True [OF reads_deref])
      (rule go; simp)+
qed

lemma reads_result:
  assumes "reads h m R" and "m (w, h) = (r, (w', h'))"
  shows "h' = h \<and> (\<forall>x. r = Inr x \<longrightarrow> R x)"
  using runs_result [OF assms(1) refl assms(2)] by auto

text \<open>The agent at its address.\<close>

definition agent_is :: "nat \<Rightarrow> DebuggerImpl \<Rightarrow> Handler \<Rightarrow> bool" where
  "agent_is this a h \<longleftrightarrow> m_debuggerAgent h = Some a \<and> di_id a = this"

lemma getDI_here: "agent_is this a h \<Longrightarrow> getDI this f (w, h) = (Inr (f a), (w, h))"
  by (simp add: agent_is_def getDI_def getH_def M_defs)

lemma modDI_here: "agent_is this a h \<Longrightarrow> modDI this f (w, h) = (Inr (), (w, h\<lparr>m_debuggerAgent := Some (f a)\<rparr>))"
  by (simp add: modDI_def bindM_def getDI_here modH_def modifyM_def)

text \<open>One more breakpoint.\<close>

definition with_breakpoint :: "DebuggerImpl \<Rightarrow> DebuggerBreakpoint \<Rightarrow> DebuggerImpl" where
  "with_breakpoint a bp = a\<lparr>m_breakpointMap := m_breakpointMap a @ [(GenerateKey bp, bp)]\<rparr>"

lemma with_breakpoint_emplace:
  "map_of (m_breakpointMap a) key = None \<Longrightarrow> GenerateKey bp = key \<Longrightarrow>
     a\<lparr>m_breakpointMap := emplace key bp (m_breakpointMap a)\<rparr> = with_breakpoint a bp"
  by (simp add: with_breakpoint_def emplace_def)

text \<open>What a request that may set a breakpoint ends with: \<open>m\<close> from a handler with the agent.\<close>

definition sets_breakpoint ::
  "DebuggerImpl \<Rightarrow> Handler \<Rightarrow> DispatchResponse \<Rightarrow> string16 \<Rightarrow> Handler \<Rightarrow> bool" where
  "sets_breakpoint a h response breakpointId h' \<longleftrightarrow>
     m_status response = kError \<and> h' = h \<or>
     m_status response = kSuccess \<and> map_of (m_breakpointMap a) breakpointId = None \<and>
       (\<exists>bp. GenerateKey bp = breakpointId \<and> h' = h\<lparr>m_debuggerAgent := Some (with_breakpoint a bp)\<rparr>)"

lemma response_status [simp]:
  "m_status (Response_Error e) = kError" "m_status Response_OK = kSuccess"
  by (simp_all add: response_defs)

lemma setBreakpointByUrl_result:
  assumes here: "agent_is this a h"
    and run: "DebuggerImpl_setBreakpointByUrl E this line url urlRegex column condition (w, h) =
      (Inr (response, breakpointId, locations), (w', h'))"
  shows "sets_breakpoint a h response breakpointId h'"
proof -
  define query where "query = (case url of Some u \<Rightarrow> Some (u, QueryUrl)
    | None \<Rightarrow> (case urlRegex of Some u \<Rightarrow> Some (u, QueryUrlRegex) | None \<Rightarrow> None))"
  define col where "col = (case column of Some c \<Rightarrow> c | None \<Rightarrow> 0)"
  show ?thesis
  proof (cases query)
    case None
    then have "url = None" and "urlRegex = None" by (auto simp: query_def split: option.splits)
    with run show ?thesis by (auto simp: DebuggerImpl_setBreakpointByUrl_def retM_def sets_breakpoint_def)
  next
    case (Some q)
    obtain u ty where q: "q = (u, ty)" by (cases q)
    define bp where "bp = DebuggerBreakpoint_new u ty line col (case condition of Some c \<Rightarrow> c | None \<Rightarrow> [])"
    define key where "key = GenerateKey bp"
    define load :: "('a, DispatchResponse + DebuggerBreakpoint \<times> Location list) H" where
      "load = catch_js_error
        (bindM (load_scripts E (m_debugContext h) (m_scriptMap a) bp []) (\<lambda>r. retM (Inr r)))
        (\<lambda>what. retM (Inl (response_error what)))"
    have eq: "DebuggerImpl_setBreakpointByUrl E this line url urlRegex column condition (w, h) =
        (if sint col < 0 then (Inr (response_error c_ErrorInvalidColumnNumber, [], None), (w, h))
         else if map_of (m_breakpointMap a) key \<noteq> None
         then (Inr (response_error c_ErrorBreakpointExists, [], None), (w, h))
         else bindM load (\<lambda>r. case r of
                Inl response \<Rightarrow> retM (response, [], None)
              | Inr (breakpoint', locations) \<Rightarrow>
                  seqM (modDI this (\<lambda>a. a\<lparr>m_breakpointMap := emplace key breakpoint' (m_breakpointMap a)\<rparr>))
                    (retM (Response_OK, key, Some locations))) (w, h))"
      unfolding load_def key_def bp_def col_def using Some [unfolded query_def q] here
      by (simp add: DebuggerImpl_setBreakpointByUrl_def Let_def bindM_def getDI_here getH_def getM_def retM_def)
    have load: "reads h load (\<lambda>r. case r of Inl x \<Rightarrow> m_status x = kError
        | Inr (bp', _) \<Rightarrow> GenerateKey bp' = key)"
      unfolding load_def
      by (rule runs_catch, rule runs_bind [OF reads_load_scripts])
        (auto intro!: runs_ret simp: key_def)
    obtain r1 w1 h1 where l: "load (w, h) = (r1, (w1, h1))" by (metis surj_pair)
    note res = reads_result [OF load l]
    show ?thesis
      using run res here
      by (cases r1)
        (auto simp: eq bindM_def seqM_def l retM_def modDI_here sets_breakpoint_def with_breakpoint_emplace
          split: if_splits sum.splits)
  qed
qed

lemma setBreakpoint_result:
  assumes here: "agent_is this a h"
    and run: "DebuggerImpl_setBreakpoint E this loc condition (w, h) =
      (Inr (response, breakpointId, actual), (w', h'))"
  shows "sets_breakpoint a h response breakpointId h'"
proof (cases loc)
  case None
  with run show ?thesis by (simp add: DebuggerImpl_setBreakpoint_def deref_def M_defs)
next
  case (Some l)
  define bp where "bp = FromLocation l (case condition of Some c \<Rightarrow> c | None \<Rightarrow> [])"
  define key where "key = GenerateKey bp"
  have eq: "DebuggerImpl_setBreakpoint E this loc condition (w, h) =
      (if map_of (m_breakpointMap a) key \<noteq> None
       then (Inr (response_error c_ErrorBreakpointExists, [], None), (w, h))
       else bindM (TryResolveBreakpoint E bp) (\<lambda>(resolved, bp').
         if resolved then
           seqM (modDI this (\<lambda>a. a\<lparr>m_breakpointMap := emplace key bp' (m_breakpointMap a)\<rparr>))
             (retM (Response_OK, key, GetActualLocation bp'))
         else retM (response_error c_ErrorBreakpointCouldNotResolve, [], None)) (w, h))"
    unfolding key_def bp_def using Some here
    by (simp add: DebuggerImpl_setBreakpoint_def deref_def Let_def bindM_def getDI_here retM_def)
  obtain r1 w1 h1 where t: "TryResolveBreakpoint E bp (w, h) = (r1, (w1, h1))" by (metis surj_pair)
  note res = reads_result [OF reads_resolve(2) t]
  show ?thesis
    using run res here
    by (cases r1)
      (auto simp: eq bindM_def seqM_def t retM_def modDI_here sets_breakpoint_def with_breakpoint_emplace key_def
        split: if_splits)
qed

lemma removeBreakpoint_result:
  assumes here: "agent_is this a h"
    and run: "DebuggerImpl_removeBreakpoint E this breakpointId (w, h) = (Inr response, (w', h'))"
  shows "(if map_of (m_breakpointMap a) breakpointId = None then m_status response = kError \<and> h' = h
    else m_status response = kSuccess \<and>
      h' = h\<lparr>m_debuggerAgent := Some (a\<lparr>m_breakpointMap := AList.delete breakpointId (m_breakpointMap a)\<rparr>)\<rparr>)"
proof (cases "map_of (m_breakpointMap a) breakpointId")
  case None
  with run here show ?thesis
    by (auto simp: DebuggerImpl_removeBreakpoint_def bindM_def getDI_here retM_def)
next
  case (Some bp)
  obtain r1 w1 h1 where rm: "RemoveBreakpoint (jsrt_of E) bp (w, h) = (r1, (w1, h1))" by (metis surj_pair)
  have "h1 = h" using reads_result [OF reads_engine [OF engine_RemoveBreakpoint] rm] by simp
  with Some run here rm show ?thesis
    by (cases r1) (auto simp: DebuggerImpl_removeBreakpoint_def bindM_def seqM_def getDI_here modDI_here retM_def)
qed

end
