(* ===== verification/JsPersistent.thy ===== *)
theory JsPersistent
  imports Jsrt
begin

section \<open>References on engine values that keep them alive\<close>

text \<open>
  \<open>JsPersistent.cpp\<close>: an object that holds one reference of the engine's count on its value.  Constructors and
  assignments return the objects they change; temporaries are destroyed where their scope ends.  A destructor swallows every
  exception.  In the other theories a member of this type is the reference it holds.
\<close>

record JsPersistent =
  m_value :: JsValueRef

definition JsPersistent_default :: JsPersistent where
  "JsPersistent_default = JsPersistent.make JS_INVALID_REFERENCE"

definition JsPersistent_value :: "'w JSRT \<Rightarrow> JsValueRef \<Rightarrow> ('w \<times> 'p, fault, JsPersistent) M" where
  "JsPersistent_value J value =
     seqM (if value \<noteq> JS_INVALID_REFERENCE then js J (JsAddRef J value) else retM ())
       (retM (JsPersistent.make value))"

text \<open>\<open>try { ... } catch (...) { }\<close>\<close>

definition swallow :: "('s, fault, unit) M \<Rightarrow> ('s, fault, unit) M" where
  "swallow m = (\<lambda>s. case m s of (Inl (Throw _), t) \<Rightarrow> (Inr (), t) | r \<Rightarrow> r)"

text \<open>
  If the host has already cleared the context, release fails: the reference is released in the context of the object,
  which is cleared again.
\<close>

definition release :: "'w JSRT \<Rightarrow> JsValueRef \<Rightarrow> ('w \<times> 'p, fault, unit) M" where
  "release J v =
     bindM (jsrt (JsRelease J v)) (\<lambda>(err, _).
          if err = JsErrorNoCurrentContext then
            bindM (js J (JsGetContextOfObject J v)) (\<lambda>objContext.
            seqM (js J (JsSetCurrentContext J objContext))
              (bindM (jsrt (JsRelease J v)) (\<lambda>(err, _).
               seqM (js J (JsSetCurrentContext J JS_INVALID_REFERENCE))
                 (IfJsErrorThrow (codes J) err))))
          else IfJsErrorThrow (codes J) err)"

definition JsPersistent_delete :: "'w JSRT \<Rightarrow> JsPersistent \<Rightarrow> ('w \<times> 'p, fault, unit) M" where
  "JsPersistent_delete J this =
     swallow (if m_value this \<noteq> JS_INVALID_REFERENCE then release J (m_value this) else retM ())"

definition swap_values :: "JsPersistent \<Rightarrow> JsPersistent \<Rightarrow> JsPersistent \<times> JsPersistent" where
  "swap_values a b = (a\<lparr>m_value := m_value b\<rparr>, b\<lparr>m_value := m_value a\<rparr>)"

text \<open>Move construction and move assignment: the object and what is left of the other one.\<close>

definition JsPersistent_move :: "JsPersistent \<Rightarrow> JsPersistent \<times> JsPersistent" where
  "JsPersistent_move other = swap_values JsPersistent_default other"

definition JsPersistent_move_assign :: "JsPersistent \<Rightarrow> JsPersistent \<Rightarrow> JsPersistent \<times> JsPersistent" where
  "JsPersistent_move_assign this other = swap_values this other"

text \<open>\<open>std::swap\<close> moves the first object to a temporary and destroys that at its end.\<close>

definition std_swap ::
  "'w JSRT \<Rightarrow> JsPersistent \<Rightarrow> JsPersistent \<Rightarrow> ('w \<times> 'p, fault, JsPersistent \<times> JsPersistent) M" where
  "std_swap J a b =
     (let (tmp, a1) = JsPersistent_move a;
          (a2, b1) = JsPersistent_move_assign a1 b;
          (b2, tmp1) = JsPersistent_move_assign b1 tmp
      in seqM (JsPersistent_delete J tmp1) (retM (a2, b2)))"

definition JsPersistent_copy :: "'w JSRT \<Rightarrow> JsPersistent \<Rightarrow> ('w \<times> 'p, fault, JsPersistent) M" where
  "JsPersistent_copy J other =
     bindM (JsPersistent_value J (m_value other)) (\<lambda>temp.
     bindM (std_swap J JsPersistent_default temp) (\<lambda>(this, temp).
     seqM (JsPersistent_delete J temp) (retM this)))"

definition JsPersistent_assign ::
  "'w JSRT \<Rightarrow> JsPersistent \<Rightarrow> JsPersistent \<Rightarrow> ('w \<times> 'p, fault, JsPersistent) M" where
  "JsPersistent_assign J this other =
     bindM (JsPersistent_copy J other) (\<lambda>temp.
     bindM (std_swap J this temp) (\<lambda>(this, temp).
     seqM (JsPersistent_delete J temp) (retM this)))"

definition JsPersistent_assign_value ::
  "'w JSRT \<Rightarrow> JsPersistent \<Rightarrow> JsValueRef \<Rightarrow> ('w \<times> 'p, fault, JsPersistent) M" where
  "JsPersistent_assign_value J this other =
     bindM (JsPersistent_value J other) (\<lambda>temp.
     bindM (std_swap J this temp) (\<lambda>(this, temp).
     seqM (JsPersistent_delete J temp) (retM this)))"

definition IsEmpty :: "JsPersistent \<Rightarrow> bool" where
  "IsEmpty this \<longleftrightarrow> m_value this = JS_INVALID_REFERENCE"

definition Get :: "JsPersistent \<Rightarrow> JsValueRef" where
  "Get this = m_value this"

subsection \<open>A program over several objects\<close>

text \<open>
  The objects live in a store; an operation names them by their addresses.  An exception leaves an operation to its
  caller, who may go on with further ones.
\<close>

type_synonym persistents = "nat \<Rightarrow> JsPersistent option"

datatype ref_op =
    Construct nat
  | ConstructValue nat JsValueRef
  | ConstructCopy nat nat
  | ConstructMove nat nat
  | AssignMove nat nat
  | AssignCopy nat nat
  | AssignValue nat JsValueRef
  | Destroy nat

definition object_at :: "nat \<Rightarrow> ('w \<times> persistents, fault, JsPersistent) M" where
  "object_at a = bindM (getM (\<lambda>(w, m). m a)) (\<lambda>p.
     case p of Some x \<Rightarrow> retM x | None \<Rightarrow> throwM (Undefined DanglingPointer))"

definition put :: "nat \<Rightarrow> JsPersistent option \<Rightarrow> ('w \<times> persistents, fault, unit) M" where
  "put a p = modifyM (\<lambda>(w, m). (w, m(a := p)))"

text \<open>A constructor runs on storage in which no object lives.\<close>

definition construct ::
  "nat \<Rightarrow> ('w \<times> persistents, fault, JsPersistent) M \<Rightarrow> ('w \<times> persistents, fault, unit) M" where
  "construct a m = bindM (getM (\<lambda>(w, m). m a)) (\<lambda>p.
     if p \<noteq> None then throwM (Undefined DanglingPointer) else bindM m (\<lambda>x. put a (Some x)))"

fun run_op :: "'w JSRT \<Rightarrow> ref_op \<Rightarrow> ('w \<times> persistents, fault, unit) M" where
  "run_op J (Construct a) = construct a (retM JsPersistent_default)"
| "run_op J (ConstructValue a v) = construct a (JsPersistent_value J v)"
| "run_op J (ConstructCopy a b) = construct a (bindM (object_at b) (JsPersistent_copy J))"
| "run_op J (ConstructMove a b) = construct a (bindM (object_at b) (\<lambda>y.
     case JsPersistent_move y of (x, y') \<Rightarrow> seqM (put b (Some y')) (retM x)))"
| "run_op J (AssignMove a b) = bindM (object_at a) (\<lambda>x. bindM (object_at b) (\<lambda>y.
     case JsPersistent_move_assign x y of (x', y') \<Rightarrow> seqM (put a (Some x')) (put b (Some y'))))"
| "run_op J (AssignCopy a b) = bindM (object_at a) (\<lambda>x. bindM (object_at b) (\<lambda>y.
     bindM (JsPersistent_assign J x y) (\<lambda>x'. put a (Some x'))))"
| "run_op J (AssignValue a v) = bindM (object_at a) (\<lambda>x.
     bindM (JsPersistent_assign_value J x v) (\<lambda>x'. put a (Some x')))"
| "run_op J (Destroy a) = bindM (object_at a) (\<lambda>x. seqM (JsPersistent_delete J x) (put a None))"

fun run_ops :: "'w JSRT \<Rightarrow> ref_op list \<Rightarrow> 'w \<times> persistents \<Rightarrow> 'w \<times> persistents" where
  "run_ops J [] s = s"
| "run_ops J (op # ops) s = run_ops J ops (snd (run_op J op s))"

subsection \<open>What the engine promises\<close>

text \<open>
  \<open>counting\<close>: a reference added or released with success counts, a failure changes nothing, and changing the context
  does not matter.  \<open>releasing\<close>: a reference that is held can be released, if need be in the context of its value.
\<close>

definition counting :: "'w JSRT \<Rightarrow> ('w \<Rightarrow> JsValueRef \<Rightarrow> nat) \<Rightarrow> bool" where
  "counting J count \<longleftrightarrow>
     (\<forall>v w. case JsAddRef J v w of ((err, _), w') \<Rightarrow>
        count w' = (if err = JsNoError then (count w)(v := Suc (count w v)) else count w)) \<and>
     (\<forall>v w. case JsRelease J v w of ((err, _), w') \<Rightarrow>
        count w' = (if err = JsNoError then (count w)(v := count w v - 1) else count w)) \<and>
     (\<forall>v w. count (snd (JsGetContextOfObject J v w)) = count w) \<and>
     (\<forall>c w. count (snd (JsSetCurrentContext J c w)) = count w)"

definition releasing :: "'w JSRT \<Rightarrow> ('w \<Rightarrow> JsValueRef \<Rightarrow> nat) \<Rightarrow> bool" where
  "releasing J count \<longleftrightarrow>
     (\<forall>v w. 0 < count w v \<longrightarrow> (case JsRelease J v w of ((err, _), w1) \<Rightarrow>
        err = JsNoError \<or> err = JsErrorNoCurrentContext \<and>
          (case JsGetContextOfObject J v w1 of ((err1, c), w2) \<Rightarrow> err1 = JsNoError \<and>
            (case JsSetCurrentContext J c w2 of ((err2, _), w3) \<Rightarrow> err2 = JsNoError \<and>
              fst (fst (JsRelease J v w3)) = JsNoError))))"

definition held :: "persistents \<Rightarrow> JsValueRef \<Rightarrow> nat" where
  "held m v = card {a. \<exists>p. m a = Some p \<and> m_value p = v}"


subsection \<open>Properties\<close>

lemma std_swap_eq: "std_swap J a b = retM (b, a)"
  by (cases a; cases b) (simp add: std_swap_def JsPersistent_move_def JsPersistent_move_assign_def swap_values_def
      JsPersistent_default_def JsPersistent.make_def JsPersistent_delete_def swallow_def M_defs)

lemma delete_empty: "JsPersistent_delete J JsPersistent_default = retM ()"
  by (simp add: JsPersistent_delete_def JsPersistent_default_def JsPersistent.make_def swallow_def retM_def)

text \<open>Copying is constructing from the value, and both assignments go through it.\<close>

lemma JsPersistent_copy_eq: "JsPersistent_copy J other = JsPersistent_value J (m_value other)"
  by (simp add: JsPersistent_copy_def std_swap_eq delete_empty seqM_def)

lemma JsPersistent_assign_eq: "JsPersistent_assign J this other = JsPersistent_assign_value J this (m_value other)"
  by (simp add: JsPersistent_assign_def JsPersistent_assign_value_def JsPersistent_copy_eq)

lemma countingD:
  assumes "counting J count"
  shows "JsAddRef J v w = ((err, u), w') \<Longrightarrow>
      count w' = (if err = JsNoError then (count w)(v := Suc (count w v)) else count w)"
    and "JsRelease J v w = ((err, u), w') \<Longrightarrow>
      count w' = (if err = JsNoError then (count w)(v := count w v - 1) else count w)"
    and "JsGetContextOfObject J v w = ((err, c), w') \<Longrightarrow> count w' = count w"
    and "JsSetCurrentContext J c w = ((err, u), w') \<Longrightarrow> count w' = count w"
proof -
  note c = assms [unfolded counting_def]
  show "JsAddRef J v w = ((err, u), w') \<Longrightarrow>
      count w' = (if err = JsNoError then (count w)(v := Suc (count w v)) else count w)"
    using conjunct1 [OF c, rule_format, of w v] by simp
  show "JsRelease J v w = ((err, u), w') \<Longrightarrow>
      count w' = (if err = JsNoError then (count w)(v := count w v - 1) else count w)"
    using conjunct1 [OF conjunct2 [OF c], rule_format, of w v] by simp
  show "JsGetContextOfObject J v w = ((err, c), w') \<Longrightarrow> count w' = count w"
    using c by (metis snd_conv)
  show "JsSetCurrentContext J c w = ((err, u), w') \<Longrightarrow> count w' = count w"
    using c by (metis snd_conv)
qed

lemma value_counts:
  assumes "counting J count" and "JsPersistent_value J v (w, p) = (r, (w', p'))"
  shows "p' = p \<and>
    (case r of
       Inr x \<Rightarrow> m_value x = v \<and> (\<forall>u. u \<noteq> JS_INVALID_REFERENCE \<longrightarrow> count w' u = count w u + of_bool (u = v))
     | Inl _ \<Rightarrow> count w' = count w)"
proof -
  obtain err u w1 where add: "JsAddRef J v w = ((err, u), w1)" by (metis surj_pair)
  show ?thesis
    using assms(2) countingD(1) [OF assms(1) add] add
    by (auto simp: JsPersistent_value_def js_def jsrt_def IfJsErrorThrow_def M_defs JsPersistent.make_def
        split: if_splits)
qed

lemma release_counts:
  assumes "counting J count" and "release J v (w, p) = (r, (w', p'))"
  shows "p' = p \<and> (count w' = count w \<or> count w' = (count w)(v := count w v - 1)) \<and>
    (case r of Inr _ \<Rightarrow> True | Inl f \<Rightarrow> \<exists>e. f = Throw e)"
proof -
  obtain err u w1 where r1: "JsRelease J v w = ((err, u), w1)" by (metis surj_pair)
  obtain err1 c w2 where g: "JsGetContextOfObject J v w1 = ((err1, c), w2)" by (metis surj_pair)
  obtain err2 u2 w3 where s: "JsSetCurrentContext J c w2 = ((err2, u2), w3)" by (metis surj_pair)
  obtain err3 u3 w4 where r3: "JsRelease J v w3 = ((err3, u3), w4)" by (metis surj_pair)
  obtain err5 u5 w5 where s5: "JsSetCurrentContext J JS_INVALID_REFERENCE w4 = ((err5, u5), w5)"
    by (metis surj_pair)
  note counts = countingD(2) [OF assms(1) r1] countingD(3) [OF assms(1) g] countingD(4) [OF assms(1) s]
    countingD(2) [OF assms(1) r3] countingD(4) [OF assms(1) s5]
  show ?thesis
    using assms(2) counts r1 g s r3 s5
    by (auto simp: release_def js_def jsrt_def IfJsErrorThrow_def M_defs split: if_splits)
qed

lemma release_exact:
  assumes "counting J count" and "releasing J count" and "0 < count w v"
    and "release J v (w, p) = (r, (w', p'))"
  shows "count w' = (count w)(v := count w v - 1)"
proof -
  obtain err u w1 where r1: "JsRelease J v w = ((err, u), w1)" by (metis surj_pair)
  obtain err1 c w2 where g: "JsGetContextOfObject J v w1 = ((err1, c), w2)" by (metis surj_pair)
  obtain err2 u2 w3 where s: "JsSetCurrentContext J c w2 = ((err2, u2), w3)" by (metis surj_pair)
  obtain err3 u3 w4 where r3: "JsRelease J v w3 = ((err3, u3), w4)" by (metis surj_pair)
  obtain err5 u5 w5 where s5: "JsSetCurrentContext J JS_INVALID_REFERENCE w4 = ((err5, u5), w5)"
    by (metis surj_pair)
  note counts = countingD(2) [OF assms(1) r1] countingD(3) [OF assms(1) g] countingD(4) [OF assms(1) s]
    countingD(2) [OF assms(1) r3] countingD(4) [OF assms(1) s5]
  have "err = JsNoError \<or> err = JsErrorNoCurrentContext \<and> err1 = JsNoError \<and> err2 = JsNoError \<and> err3 = JsNoError"
    using assms(2,3) r1 g s r3 unfolding releasing_def by (fastforce dest!: spec [of _ v] spec [of _ w])
  then show ?thesis
    using assms(4) counts r1 g s r3 s5
    by (auto simp: release_def js_def jsrt_def IfJsErrorThrow_def M_defs split: if_splits)
qed

subsection \<open>The balance of references\<close>

definition holds :: "JsPersistent option \<Rightarrow> JsValueRef \<Rightarrow> nat" where
  "holds p v = (case p of Some x \<Rightarrow> of_bool (m_value x = v) | None \<Rightarrow> 0)"

lemma holds_simps [simp]: "holds None v = 0" "holds (Some x) v = of_bool (m_value x = v)"
  by (simp_all add: holds_def)

lemma held_update:
  assumes "finite (dom m)"
  shows "held (m(a := p)) v + holds (m a) v = held m v + holds p v"
proof -
  define A where "A = {c. c \<noteq> a \<and> (\<exists>x. m c = Some x \<and> m_value x = v)}"
  have fin: "finite A" by (rule finite_subset [OF _ assms]) (auto simp: A_def)
  have away: "a \<notin> A" by (simp add: A_def)
  have new: "{c. \<exists>x. (m(a := p)) c = Some x \<and> m_value x = v} = (if holds p v = 1 then insert a A else A)"
    by (auto simp: A_def holds_def split: option.splits if_splits)
  have old: "{c. \<exists>x. m c = Some x \<and> m_value x = v} = (if holds (m a) v = 1 then insert a A else A)"
    by (auto simp: A_def holds_def split: option.splits if_splits)
  have "card (insert a A) = Suc (card A)" using fin away by simp
  then show ?thesis
    unfolding held_def new old using holds_def [of p v] holds_def [of "m a" v]
    by (auto split: option.splits)
qed

text \<open>
  The engine counts at least the references the objects hold, and no more when it can release them all; \<open>base\<close> is what
  others hold.
\<close>

definition covered ::
  "('w \<Rightarrow> JsValueRef \<Rightarrow> nat) \<Rightarrow> bool \<Rightarrow> (JsValueRef \<Rightarrow> nat) \<Rightarrow> 'w \<times> persistents \<Rightarrow> bool" where
  "covered count exact base s \<longleftrightarrow>
     finite (dom (snd s)) \<and>
     (\<forall>v. v \<noteq> JS_INVALID_REFERENCE \<longrightarrow>
        (if exact then count (fst s) v = base v + held (snd s) v
         else base v + held (snd s) v \<le> count (fst s) v))"

text \<open>Updating an object and the count of the engine by the same amount keeps the balance.\<close>

lemma covered_update:
  assumes "covered count exact base (w, m)"
    and "\<And>v. v \<noteq> JS_INVALID_REFERENCE \<Longrightarrow>
      (if exact then count w' v + holds (m a) v = count w v + holds p v
       else count w v + holds p v \<le> count w' v + holds (m a) v)"
  shows "covered count exact base (w', m(a := p))"
proof -
  have fin: "finite (dom m)" using assms(1) by (simp add: covered_def)
  show ?thesis
    unfolding covered_def
  proof (intro conjI allI impI)
    show "finite (dom (snd (w', m(a := p))))" using fin by simp
    fix v :: JsValueRef
    assume v: "v \<noteq> JS_INVALID_REFERENCE"
    show "if exact then count (fst (w', m(a := p))) v = base v + held (snd (w', m(a := p))) v
      else base v + held (snd (w', m(a := p))) v \<le> count (fst (w', m(a := p))) v"
      using assms(1) assms(2) [OF v] held_update [OF fin, of a p v] v
      by (auto simp: covered_def split: if_splits)
  qed
qed

lemma covered_same: "covered count exact base (w, m) \<Longrightarrow> count w' = count w \<Longrightarrow> covered count exact base (w', m)"
  by (cases exact) (simp_all add: covered_def)

lemma covered_held:
  assumes "covered count exact base (w, m)" and "m a = Some x" and "m_value x \<noteq> JS_INVALID_REFERENCE"
  shows "0 < count w (m_value x)"
proof -
  have fin: "finite (dom m)" using assms(1) by (simp add: covered_def)
  have "held (m(a := None)) (m_value x) + 1 = held m (m_value x)"
    using held_update [OF fin, of a None "m_value x"] assms(2) by simp
  then show ?thesis using assms(1,3) by (auto simp: covered_def split: if_splits)
qed

text \<open>Destroying an object that holds \<open>v\<close>.\<close>

lemma delete_counts:
  assumes "counting J count" and "exact \<Longrightarrow> releasing J count" and "JsPersistent_delete J x (w, p) = (r, (w', p'))"
    and "m_value x \<noteq> JS_INVALID_REFERENCE \<Longrightarrow> 0 < count w (m_value x)" and "v \<noteq> JS_INVALID_REFERENCE"
  shows "p' = p \<and> r = Inr () \<and>
    (if exact then count w' v + of_bool (m_value x = v) = count w v else count w v \<le> count w' v + of_bool (m_value x = v))"
proof (cases "m_value x = JS_INVALID_REFERENCE")
  case True
  then show ?thesis using assms(3,5) by (auto simp: JsPersistent_delete_def swallow_def retM_def)
next
  case False
  obtain r1 w1 p1 where run: "release J (m_value x) (w, p) = (r1, (w1, p1))" by (metis surj_pair)
  note rc = release_counts [OF assms(1) run]
  have w': "w' = w1 \<and> p' = p1 \<and> r = Inr ()"
    using assms(3) rc False run by (cases r1) (auto simp: JsPersistent_delete_def swallow_def)
  have "exact \<Longrightarrow> count w1 = (count w)(m_value x := count w (m_value x) - 1)"
    using release_exact [OF assms(1) assms(2) _ run] assms(4) [OF False] by blast
  then show ?thesis using rc w' assms(4) [OF False] by (auto split: if_splits)
qed

text \<open>Assigning a value holds the new one before it releases the old one.\<close>

lemma assign_counts:
  assumes "counting J count" and "exact \<Longrightarrow> releasing J count"
    and "JsPersistent_assign_value J x u (w, p) = (r, (w', p'))"
    and "m_value x \<noteq> JS_INVALID_REFERENCE \<Longrightarrow> 0 < count w (m_value x)"
  shows "p' = p \<and>
    (case r of
       Inl _ \<Rightarrow> count w' = count w
     | Inr x' \<Rightarrow> m_value x' = u \<and>
         (\<forall>v. v \<noteq> JS_INVALID_REFERENCE \<longrightarrow>
           (if exact then count w' v + of_bool (m_value x = v) = count w v + of_bool (u = v)
            else count w v + of_bool (u = v) \<le> count w' v + of_bool (m_value x = v))))"
proof -
  obtain r1 w1 p1 where new: "JsPersistent_value J u (w, p) = (r1, (w1, p1))" by (metis surj_pair)
  note nc = value_counts [OF assms(1) new]
  show ?thesis
  proof (cases r1)
    case (Inl f)
    then show ?thesis using assms(3) new nc by (auto simp: JsPersistent_assign_value_def bindM_def)
  next
    case (Inr x1)
    obtain r2 w2 p2 where old: "JsPersistent_delete J x (w1, p) = (r2, (w2, p2))" by (metis surj_pair)
    have pos: "0 < count w1 (m_value x)" if "m_value x \<noteq> JS_INVALID_REFERENCE"
      using that nc Inr assms(4) by simp
    have dc: "p2 = p" "r2 = Inr ()"
      "v \<noteq> JS_INVALID_REFERENCE \<Longrightarrow> (if exact then count w2 v + of_bool (m_value x = v) = count w1 v
         else count w1 v \<le> count w2 v + of_bool (m_value x = v))" for v
      using delete_counts [OF assms(1,2) old pos, where v = 1] delete_counts [OF assms(1,2) old pos, where v = v]
      by (simp_all add: JS_INVALID_REFERENCE_def)
    have parts: "p1 = p" "m_value x1 = u"
      "v \<noteq> JS_INVALID_REFERENCE \<Longrightarrow> count w1 v = count w v + of_bool (u = v)" for v
      using nc Inr by (simp_all add: eq_commute [of u])
    have "p' = p \<and> r = Inr x1 \<and> w' = w2"
      using assms(3) new Inr old dc(1,2) parts(1)
      by (simp add: JsPersistent_assign_value_def std_swap_eq M_defs)
    moreover have "(if exact then count w2 v + of_bool (m_value x = v) = count w v + of_bool (u = v)
            else count w v + of_bool (u = v) \<le> count w2 v + of_bool (m_value x = v))"
      if "v \<noteq> JS_INVALID_REFERENCE" for v
      using dc(3) [OF that] parts(3) [OF that] by (cases exact) simp_all
    ultimately show ?thesis using parts(2) by simp
  qed
qed

subsection \<open>Every operation keeps the balance\<close>

definition keeps_covered :: "('w \<times> persistents, fault, 'a) M \<Rightarrow> ('w \<Rightarrow> JsValueRef \<Rightarrow> nat) \<Rightarrow> bool \<Rightarrow> bool" where
  "keeps_covered m count exact \<longleftrightarrow> (\<forall>base. keeps (covered count exact base) m)"

lemma keeps_coveredI:
  "(\<And>base w m. covered count exact base (w, m) \<Longrightarrow> covered count exact base (snd (f (w, m)))) \<Longrightarrow>
     keeps_covered f count exact"
  by (auto simp: keeps_covered_def keeps_def)

text \<open>Constructing at a free address an object that holds \<open>v\<close>.\<close>

lemma covered_construct_value:
  assumes "counting J count"
  shows "keeps_covered (construct a (JsPersistent_value J v)) count exact"
proof (rule keeps_coveredI)
  fix base w m
  assume c: "covered count exact base (w, m)"
  obtain r w1 m1 where run: "JsPersistent_value J v (w, m) = (r, (w1, m1))" by (metis surj_pair)
  note vc = value_counts [OF assms run]
  show "covered count exact base (snd (construct a (JsPersistent_value J v) (w, m)))"
  proof (cases "m a")
    case (Some x)
    then show ?thesis using c by (simp add: construct_def M_defs)
  next
    case None
    show ?thesis
    proof (cases r)
      case (Inl f)
      then show ?thesis using c vc run None covered_same [of count exact base w m w1]
        by (simp add: construct_def M_defs)
    next
      case (Inr x)
      have "covered count exact base (w1, m(a := Some x))"
        by (rule covered_update [OF c]) (use vc Inr None in \<open>auto simp: eq_commute [of v]\<close>)
      then show ?thesis using vc run None Inr by (simp add: construct_def put_def M_defs)
    qed
  qed
qed

lemma covered_put_same:
  assumes "covered count exact base (w, m)" and "\<And>v. v \<noteq> JS_INVALID_REFERENCE \<Longrightarrow> holds p v = holds (m a) v"
  shows "covered count exact base (w, m(a := p))"
  by (rule covered_update [OF assms(1)]) (use assms(2) in auto)

lemma covered_construct_empty: "keeps_covered (construct a (retM JsPersistent_default)) count exact"
proof (rule keeps_coveredI)
  fix base w m
  assume c: "covered count exact base (w, m)"
  show "covered count exact base (snd (construct a (retM JsPersistent_default) (w, m)))"
  proof (cases "m a")
    case None
    have "covered count exact base (w, m(a := Some JsPersistent_default))"
      by (rule covered_put_same [OF c])
        (simp add: None JsPersistent_default_def JsPersistent.make_def)
    then show ?thesis using None by (simp add: construct_def put_def M_defs)
  qed (use c in \<open>simp add: construct_def M_defs\<close>)
qed

text \<open>Copying is constructing from the value of the other object.\<close>

lemma covered_construct_copy:
  assumes "counting J count"
  shows "keeps_covered (construct a (bindM (object_at b) (JsPersistent_copy J))) count exact"
proof (rule keeps_coveredI)
  fix base w m
  assume c: "covered count exact base (w, m)"
  show "covered count exact base (snd (construct a (bindM (object_at b) (JsPersistent_copy J)) (w, m)))"
  proof (cases "m b")
    case (Some y)
    have "construct a (bindM (object_at b) (JsPersistent_copy J)) (w, m) =
      construct a (JsPersistent_value J (m_value y)) (w, m)"
      by (simp add: construct_def object_at_def JsPersistent_copy_eq M_defs Some)
    then show ?thesis
      using covered_construct_value [OF assms, of a "m_value y" exact] c
      by (simp add: keeps_covered_def keeps_def)
  qed (use c in \<open>auto simp: construct_def object_at_def M_defs\<close>)
qed

lemma covered_construct_move:
  "keeps_covered (construct a (bindM (object_at b) (\<lambda>y.
     case JsPersistent_move y of (x, y') \<Rightarrow> seqM (put b (Some y')) (retM x)))) count exact"
proof (rule keeps_coveredI)
  fix base w m
  assume c: "covered count exact base (w, m)"
  show "covered count exact base (snd (construct a (bindM (object_at b) (\<lambda>y.
     case JsPersistent_move y of (x, y') \<Rightarrow> seqM (put b (Some y')) (retM x))) (w, m)))" (is "covered _ _ _ (snd ?r)")
  proof (cases "m a = None \<and> m b \<noteq> None")
    case True
    then obtain y where y: "m b = Some y" and a0: "m a = None" by auto
    have a: "m a = None" "a \<noteq> b" using y a0 by auto
    have r: "snd ?r = (w, m(b := Some (y\<lparr>m_value := JS_INVALID_REFERENCE\<rparr>), a := Some y))"
      using y a by (cases y) (simp add: construct_def object_at_def put_def JsPersistent_move_def swap_values_def
          JsPersistent_default_def JsPersistent.make_def M_defs fun_upd_twist)
    have fin: "finite (dom m)" using c by (simp add: covered_def)
    have "held (m(b := Some (y\<lparr>m_value := JS_INVALID_REFERENCE\<rparr>), a := Some y)) v = held m v"
      if "v \<noteq> JS_INVALID_REFERENCE" for v
      using held_update [of "m(b := Some (y\<lparr>m_value := JS_INVALID_REFERENCE\<rparr>))" a "Some y" v]
        held_update [OF fin, of b "Some (y\<lparr>m_value := JS_INVALID_REFERENCE\<rparr>)" v] fin that y a by simp
    then show ?thesis unfolding r using c fin by (cases exact) (simp_all add: covered_def)
  qed (use c in \<open>auto simp: construct_def object_at_def M_defs\<close>)
qed

text \<open>Moving between two objects exchanges what they hold, also of an object to itself.\<close>

lemma covered_assign_move:
  "keeps_covered (bindM (object_at a) (\<lambda>x. bindM (object_at b) (\<lambda>y.
     case JsPersistent_move_assign x y of (x', y') \<Rightarrow> seqM (put a (Some x')) (put b (Some y'))))) count exact"
proof (rule keeps_coveredI)
  fix base w m
  assume c: "covered count exact base (w, m)"
  show "covered count exact base (snd (bindM (object_at a) (\<lambda>x. bindM (object_at b) (\<lambda>y.
     case JsPersistent_move_assign x y of (x', y') \<Rightarrow> seqM (put a (Some x')) (put b (Some y')))) (w, m)))"
    (is "covered _ _ _ (snd ?r)")
  proof (cases "m a \<noteq> None \<and> m b \<noteq> None")
    case True
    then obtain x y where xy: "m a = Some x" "m b = Some y" by auto
    have r: "snd ?r = (w, m(a := Some y, b := Some x))"
      using xy by (cases x; cases y) (simp add: object_at_def put_def JsPersistent_move_assign_def swap_values_def M_defs)
    have fin: "finite (dom m)" using c by (simp add: covered_def)
    have "held (m(a := Some y, b := Some x)) v = held m v" for v
      using held_update [of "m(a := Some y)" b "Some x" v] held_update [OF fin, of a "Some y" v] fin xy
      by (cases "a = b") simp_all
    then show ?thesis unfolding r using c fin by (cases exact) (simp_all add: covered_def)
  qed (use c in \<open>cases "m a"; cases "m b"; simp add: object_at_def M_defs\<close>)
qed

lemma covered_assign_value:
  assumes "counting J count" and "exact \<Longrightarrow> releasing J count"
  shows "keeps_covered (bindM (object_at a) (\<lambda>x.
     bindM (JsPersistent_assign_value J x v) (\<lambda>x'. put a (Some x')))) count exact"
proof (rule keeps_coveredI)
  fix base w m
  assume c: "covered count exact base (w, m)"
  show "covered count exact base (snd (bindM (object_at a) (\<lambda>x.
     bindM (JsPersistent_assign_value J x v) (\<lambda>x'. put a (Some x'))) (w, m)))"
  proof (cases "m a")
    case (Some x)
    obtain r w1 m1 where run: "JsPersistent_assign_value J x v (w, m) = (r, (w1, m1))" by (metis surj_pair)
    note ac = assign_counts [OF assms run covered_held [OF c Some]]
    show ?thesis
    proof (cases r)
      case (Inl f)
      then show ?thesis using ac run Some covered_same [OF c, of w1] by (simp add: object_at_def M_defs)
    next
      case (Inr x')
      have "covered count exact base (w1, m(a := Some x'))"
        by (rule covered_update [OF c]) (use ac Inr Some in simp)
      then show ?thesis using ac run Some Inr by (simp add: object_at_def put_def M_defs)
    qed
  qed (use c in \<open>simp add: object_at_def M_defs\<close>)
qed

lemma covered_assign_copy:
  assumes "counting J count" and "exact \<Longrightarrow> releasing J count"
  shows "keeps_covered (bindM (object_at a) (\<lambda>x. bindM (object_at b) (\<lambda>y.
     bindM (JsPersistent_assign J x y) (\<lambda>x'. put a (Some x'))))) count exact"
proof (rule keeps_coveredI)
  fix base w m
  assume c: "covered count exact base (w, m)"
  show "covered count exact base (snd (bindM (object_at a) (\<lambda>x. bindM (object_at b) (\<lambda>y.
     bindM (JsPersistent_assign J x y) (\<lambda>x'. put a (Some x')))) (w, m)))" (is "covered _ _ _ (snd ?r)")
  proof (cases "m b")
    case (Some y)
    have "?r = bindM (object_at a) (\<lambda>x.
      bindM (JsPersistent_assign_value J x (m_value y)) (\<lambda>x'. put a (Some x'))) (w, m)"
      by (simp add: object_at_def JsPersistent_assign_eq M_defs Some split: option.split)
    then show ?thesis
      using covered_assign_value [OF assms, where a = a and v = "m_value y"] c by (simp add: keeps_covered_def keeps_def)
  qed (use c in \<open>auto simp: object_at_def M_defs split: option.split\<close>)
qed

lemma covered_destroy:
  assumes "counting J count" and "exact \<Longrightarrow> releasing J count"
  shows "keeps_covered (bindM (object_at a) (\<lambda>x. seqM (JsPersistent_delete J x) (put a None))) count exact"
proof (rule keeps_coveredI)
  fix base w m
  assume c: "covered count exact base (w, m)"
  show "covered count exact base
    (snd (bindM (object_at a) (\<lambda>x. seqM (JsPersistent_delete J x) (put a None)) (w, m)))"
  proof (cases "m a")
    case (Some x)
    obtain r w1 m1 where run: "JsPersistent_delete J x (w, m) = (r, (w1, m1))" by (metis surj_pair)
    have dc: "m1 = m" "r = Inr ()"
      "v \<noteq> JS_INVALID_REFERENCE \<Longrightarrow> (if exact then count w1 v + of_bool (m_value x = v) = count w v
         else count w v \<le> count w1 v + of_bool (m_value x = v))" for v
      using delete_counts [OF assms run covered_held [OF c Some], where v = 1]
        delete_counts [OF assms run covered_held [OF c Some], where v = v]
      by (simp_all add: JS_INVALID_REFERENCE_def)
    have "covered count exact base (w1, m(a := None))"
      by (rule covered_update [OF c]) (use dc(3) Some in simp)
    then show ?thesis using dc(1,2) run Some by (simp add: object_at_def put_def M_defs)
  qed (use c in \<open>simp add: object_at_def M_defs\<close>)
qed

lemma run_op_covered:
  assumes "counting J count" and "exact \<Longrightarrow> releasing J count"
  shows "keeps_covered (run_op J op) count exact"
  using covered_construct_empty covered_construct_value [OF assms(1)] covered_construct_copy [OF assms(1)]
    covered_construct_move covered_assign_move covered_assign_copy [OF assms] covered_assign_value [OF assms]
    covered_destroy [OF assms]
  by (cases op) simp_all

lemma run_ops_covered:
  assumes "counting J count" and "exact \<Longrightarrow> releasing J count"
  shows "covered count exact base s \<Longrightarrow> covered count exact base (run_ops J ops s)"
proof (induction ops arbitrary: s)
  case (Cons op ops)
  have "covered count exact base (snd (run_op J op s))"
    using run_op_covered [where exact = exact and op = op, OF assms] Cons.prems
    by (cases s) (simp add: keeps_covered_def keeps_def)
  then show ?case using Cons.IH by simp
qed simp

lemma covered_start: "covered count exact (count w) (w, Map.empty)"
  by (simp add: covered_def held_def)

end
