(* ===== verification/Interface.thy ===== *)
theory Interface
  imports HostSteps
begin

section \<open>What the calls of the C interface do\<close>

text \<open>
  The results of connecting, disconnecting and sending a command, on every branch, and that each of the calls is a step of
  the host.
\<close>

lemma break_request:
  "RequestAsyncBreak E (w, h) =
     (case JsDiagRequestAsyncBreak (jsrt_of E) w of
        ((code, _), w') \<Rightarrow>
          (if code = JsNoError then Inr () else Inl (Throw (JsErrorException_of (codes (jsrt_of E)) code)), (w', h)))"
  by (simp add: RequestAsyncBreak_def js_def jsrt_def IfJsErrorThrow_def M_defs split: prod.split)

lemma connect_result:
  assumes "JsDebugProtocolHandlerConnect E handle b callback state (w, h) = (r, (w', h'))"
  shows "if handle = None \<or> callback = None then r = Inr JsErrorInvalidArgument \<and> h' = h
    else if m_sendResponseCallback h \<noteq> None then r = Inr JsErrorFatal \<and> h' = h
    else h' = h\<lparr>m_sendResponseCallback := callback, m_sendResponseCallbackState := state, m_breakOnNextLine := b,
           m_commandQueue := m_commandQueue h @ [(CommandConnect, [])]\<rparr> \<and>
         r = Inr (fst (fst (JsDiagRequestAsyncBreak (jsrt_of E) w)))"
proof -
  obtain code w1 where call: "JsDiagRequestAsyncBreak (jsrt_of E) w = ((code, ()), w1)"
    by (metis (full_types) old.unit.exhaust prod.exhaust)
  then have "RequestAsyncBreak E (w, g) = (if code = JsNoError then Inr ()
      else Inl (Throw (JsErrorException_of (codes (jsrt_of E)) code)), (w1, g))" for g
    by (simp add: break_request)
  with assms call show ?thesis
    by (cases handle; cases callback; cases "m_sendResponseCallback h"; cases "code = JsNoError")
      (simp_all add: JsDebugProtocolHandlerConnect_def TranslateExceptionFor_def TranslateException_def Connect_def
        EnqueueCommand_def getH_def modH_def M_defs JsErrorException_of_def split: if_splits)
qed

lemma disconnect_result:
  assumes "JsDebugProtocolHandlerDisconnect E handle (w, h) = (r, (w', h'))"
  shows "if handle = None then r = Inr JsErrorInvalidArgument \<and> h' = h
    else if m_sendResponseCallback h = None then r = Inr JsErrorFatal \<and> h' = h
    else h' = h\<lparr>m_sendResponseCallback := None, m_sendResponseCallbackState := 0, m_breakOnNextLine := False,
           m_commandQueue := m_commandQueue h @ [(CommandDisconnect, [])]\<rparr> \<and>
         r = Inr (fst (fst (JsDiagRequestAsyncBreak (jsrt_of E) w)))"
proof -
  obtain code w1 where call: "JsDiagRequestAsyncBreak (jsrt_of E) w = ((code, ()), w1)"
    by (metis (full_types) old.unit.exhaust prod.exhaust)
  then have "RequestAsyncBreak E (w, g) = (if code = JsNoError then Inr ()
      else Inl (Throw (JsErrorException_of (codes (jsrt_of E)) code)), (w1, g))" for g
    by (simp add: break_request)
  with assms call show ?thesis
    by (cases handle; cases "m_sendResponseCallback h"; cases "code = JsNoError")
      (simp_all add: JsDebugProtocolHandlerDisconnect_def TranslateExceptionFor_def TranslateException_def Disconnect_def
        EnqueueCommand_def getH_def modH_def M_defs JsErrorException_of_def split: if_splits)
qed

lemma send_result:
  assumes "JsDebugProtocolHandlerSendCommand E handle command (w, h) = (r, (w', h'))"
  shows "if handle = None \<or> command = None then r = Inr JsErrorInvalidArgument \<and> h' = h
    else r = Inr (fst (fst (JsDiagRequestAsyncBreak (jsrt_of E) w))) \<and>
      h' = (case m_commandQueueCallback h of
          Some f \<Rightarrow>
            if r = Inr JsNoError
            then h\<lparr>m_commandQueue := m_commandQueue h @ [(CommandMessageReceived, the command)],
                   host_log := host_log h @ [CommandQueueNotified f (m_commandQueueCallbackState h)]\<rparr>
            else h\<lparr>m_commandQueue := m_commandQueue h @ [(CommandMessageReceived, the command)]\<rparr>
        | None \<Rightarrow> h\<lparr>m_commandQueue := m_commandQueue h @ [(CommandMessageReceived, the command)]\<rparr>)"
proof -
  obtain code w1 where call: "JsDiagRequestAsyncBreak (jsrt_of E) w = ((code, ()), w1)"
    by (metis (full_types) old.unit.exhaust prod.exhaust)
  then have "RequestAsyncBreak E (w, g) = (if code = JsNoError then Inr ()
      else Inl (Throw (JsErrorException_of (codes (jsrt_of E)) code)), (w1, g))" for g
    by (simp add: break_request)
  then have sent: "SendCommand E (Some c) (w, h) =
      (let g = h\<lparr>m_commandQueue := m_commandQueue h @ [(CommandMessageReceived, c)]\<rparr> in
       if code = JsNoError then
         (Inr (), (w1, case m_commandQueueCallback h of
            Some f \<Rightarrow> g\<lparr>host_log := host_log h @ [CommandQueueNotified f (m_commandQueueCallbackState h)]\<rparr>
          | None \<Rightarrow> g))
       else (Inl (Throw (JsErrorException_of (codes (jsrt_of E)) code)), (w1, g)))" for c
    by (simp add: SendCommand_def EnqueueCommand_def getH_def modH_def M_defs Let_def split: option.split)
  have "JsDebugProtocolHandlerSendCommand E handle command (w, h) =
      (if handle = None \<or> command = None then (Inr JsErrorInvalidArgument, (w, h))
       else (Inr code, snd (SendCommand E command (w, h))))"
    using sent by (cases handle; cases command)
      (simp_all add: JsDebugProtocolHandlerSendCommand_def TranslateExceptionFor_def TranslateException_def
        retM_def throwM_def SendCommand_def [of E None] JsErrorException_of_def Let_def)
  with assms call sent show ?thesis
    by (cases handle; cases command; cases "code = JsNoError") (auto simp: Let_def split: option.split)
qed

lemma host_call_step:
  assumes "TranslateException
       (case call of
          HostConnect b callback state \<Rightarrow> Connect E b callback state
        | HostDisconnect \<Rightarrow> Disconnect E
        | HostSendCommand command \<Rightarrow> SendCommand E command
        | HostSetCommandQueueCallback callback state \<Rightarrow> SetCommandQueueCallback callback state) (w, h) =
      (Inr code, (w', h'))"
  shows "host_step E h h'"
  by (rule host_step.host_call [of E call w h w' h']) (simp add: run_host_call_def bindM_def retM_def assms)

lemma connect_step:
  "JsDebugProtocolHandlerConnect E (Some ()) b callback state (w, h) = (Inr code, (w', h')) \<Longrightarrow> host_step E h h'"
  using host_call_step [where call = "HostConnect b callback state"]
  by (simp add: JsDebugProtocolHandlerConnect_def TranslateExceptionFor_def)

lemma disconnect_step:
  "JsDebugProtocolHandlerDisconnect E (Some ()) (w, h) = (Inr code, (w', h')) \<Longrightarrow> host_step E h h'"
  using host_call_step [where call = "HostDisconnect"]
  by (simp add: JsDebugProtocolHandlerDisconnect_def TranslateExceptionFor_def)

lemma send_step:
  "JsDebugProtocolHandlerSendCommand E (Some ()) command (w, h) = (Inr code, (w', h')) \<Longrightarrow> host_step E h h'"
  using host_call_step [where call = "HostSendCommand command"]
  by (simp add: JsDebugProtocolHandlerSendCommand_def TranslateExceptionFor_def)

end
