(* ===== verification/Service.thy ===== *)
theory Service
  imports HostSteps
begin

section \<open>The web server in front of the protocol handlers\<close>

text \<open>
  \<open>ServiceHandler.cpp\<close>, \<open>Service.cpp\<close> and \<open>ChakraDebugService.cpp\<close>: handlers are registered under an id; a client that
  opens a web socket for the id is connected to the protocol handler behind it, and HTTP requests list the handlers.

  The websocketpp library is the parameter \<open>Websocket\<close> over an arbitrary state of the network.  Connections and the weak
  handles to them are numbers; \<open>expired\<close> tells whether a handle's connection is gone.  A call that fails throws the library's
  exception.  A \<open>ServiceHandler\<close> has an address, which it gives away as the state of its callbacks.
\<close>

subsection \<open>The server library\<close>

type_synonym ('n, 'a) ws_call = "'n \<Rightarrow> (string + 'a) \<times> 'n"

record 'n Websocket =
  expired :: "nat \<Rightarrow> 'n \<Rightarrow> bool"
  get_con_from_hdl :: "nat \<Rightarrow> ('n, nat option) ws_call"
  get_resource :: "nat \<Rightarrow> 'n \<Rightarrow> string"
  set_message_handler :: "nat \<Rightarrow> nat option \<Rightarrow> 'n \<Rightarrow> 'n"
  set_close_handler :: "nat \<Rightarrow> nat option \<Rightarrow> 'n \<Rightarrow> 'n"
  close_connection :: "nat \<Rightarrow> string \<Rightarrow> ('n, unit) ws_call"
  close_hdl :: "nat \<Rightarrow> string \<Rightarrow> ('n, unit) ws_call"
  send_text :: "nat \<Rightarrow> string \<Rightarrow> ('n, unit) ws_call"
  append_header :: "nat \<Rightarrow> string \<Rightarrow> string \<Rightarrow> 'n \<Rightarrow> 'n"
  set_body :: "nat \<Rightarrow> string \<Rightarrow> 'n \<Rightarrow> 'n"
  set_status :: "nat \<Rightarrow> nat \<Rightarrow> 'n \<Rightarrow> 'n"
  ws_listen :: "string \<Rightarrow> string \<Rightarrow> ('n, unit) ws_call"
  start_accept :: "('n, unit) ws_call"
  stop_listening :: "('n, unit) ws_call"

definition status_ok :: nat where
  "status_ok = 200"

definition status_not_found :: nat where
  "status_not_found = 404"

subsection \<open>State\<close>

record ServiceHandler =
  sh_address :: nat
  sh_connected :: bool
  sh_id :: string
  sh_protocolHandler :: "nat option"
  sh_breakOnNextLine :: bool
  sh_hdl :: "nat option"

text \<open>The thread that runs the server is there from \<open>Listen\<close> to the end of \<open>Close\<close> (\<open>m_thread\<close> is joinable).\<close>

record Service =
  m_thread :: bool
  m_port :: "16 word"
  m_handlers :: "(string \<times> ServiceHandler) list"

text \<open>
  The service in its surroundings: the network, the engine, and the protocol handlers at their addresses; the addresses
  of service handlers are given out in order.
\<close>

record ('n, 'w) World =
  network :: 'n
  engine :: 'w
  protocol_handlers :: "nat \<Rightarrow> Handler option"
  next_address :: nat
  web_service :: Service

type_synonym ('n, 'w, 'a) S = "(('n, 'w) World, fault, 'a) M"

definition getS :: "(Service \<Rightarrow> 'a) \<Rightarrow> ('n, 'w, 'a) S" where
  "getS f = getM (\<lambda>s. f (web_service s))"

definition modS :: "(Service \<Rightarrow> Service) \<Rightarrow> ('n, 'w, unit) S" where
  "modS f = modifyM (\<lambda>s. s\<lparr>web_service := f (web_service s)\<rparr>)"

definition on_network :: "('n \<Rightarrow> 'n) \<Rightarrow> ('n, 'w, unit) S" where
  "on_network f = modifyM (\<lambda>s. s\<lparr>network := f (network s)\<rparr>)"

definition ws :: "('n, 'a) ws_call \<Rightarrow> ('n, 'w, 'a) S" where
  "ws f = (\<lambda>s. case f (network s) of
     (Inl what, n) \<Rightarrow> (Inl (Throw (OtherException what)), s\<lparr>network := n\<rparr>)
   | (Inr x, n) \<Rightarrow> (Inr x, s\<lparr>network := n\<rparr>))"

text \<open>
  A call of the protocol handler's C interface.  \<open>E\<close> gives the environment of each protocol handler; a null handle is
  passed on and refused there.
\<close>

definition call_handler ::
  "(nat \<Rightarrow> 'w Env) \<Rightarrow> nat option \<Rightarrow> ('w Env \<Rightarrow> unit option \<Rightarrow> ('w, JsErrorCode) H) \<Rightarrow> ('n, 'w, JsErrorCode) S" where
  "call_handler E protocolHandler f =
     (case protocolHandler of
        None \<Rightarrow> retM JsErrorInvalidArgument
      | Some p \<Rightarrow> (\<lambda>s. case protocol_handlers s p of
            None \<Rightarrow> (Inl (Undefined DanglingPointer), s)
          | Some h \<Rightarrow> (case f (E p) (Some ()) (engine s, h) of
              (r, (w', h')) \<Rightarrow>
                (r, s\<lparr>engine := w', protocol_handlers := (protocol_handlers s)(p := Some h')\<rparr>))))"

text \<open>A service handler through its address.\<close>

definition handler_at :: "nat \<Rightarrow> Service \<Rightarrow> ServiceHandler option" where
  "handler_at this sv = List.find (\<lambda>h. sh_address h = this) (map snd (m_handlers sv))"

definition getSH :: "nat \<Rightarrow> (ServiceHandler \<Rightarrow> 'a) \<Rightarrow> ('n, 'w, 'a) S" where
  "getSH this f = bindM (getS (handler_at this)) (\<lambda>h.
     case h of Some x \<Rightarrow> retM (f x) | None \<Rightarrow> throwM (Undefined DanglingPointer))"

definition modSH :: "nat \<Rightarrow> (ServiceHandler \<Rightarrow> ServiceHandler) \<Rightarrow> ('n, 'w, unit) S" where
  "modSH this f = seqM (getSH this (\<lambda>_. ()))
     (modS (\<lambda>sv. sv\<lparr>m_handlers :=
        map (\<lambda>(ident, h). (ident, if sh_address h = this then f h else h)) (m_handlers sv)\<rparr>))"

subsection \<open>\<open>ServiceHandler\<close>\<close>

definition c_MessageServerShutdown :: string where
  "c_MessageServerShutdown = ''Server shutting down...''"

definition hdl_expired :: "'n Websocket \<Rightarrow> nat option \<Rightarrow> ('n, 'w, bool) S" where
  "hdl_expired W hdl = getM (\<lambda>s. case hdl of None \<Rightarrow> True | Some c \<Rightarrow> expired W c (network s))"

text \<open>The connection behind a handle, where the code does not check for a null pointer.\<close>

definition get_con :: "'n Websocket \<Rightarrow> nat \<Rightarrow> ('n, 'w, nat) S" where
  "get_con W hdl =
     bindM (ws (get_con_from_hdl W hdl)) (\<lambda>connection.
       case connection of Some con \<Rightarrow> retM con | None \<Rightarrow> throwM (Undefined NullDereference))"

text \<open>What to do with the connection of a handle unless it is gone.\<close>

definition unless_expired :: "'n Websocket \<Rightarrow> nat option \<Rightarrow> (nat \<Rightarrow> ('n, 'w, unit) S) \<Rightarrow> ('n, 'w, unit) S" where
  "unless_expired W hdl m =
     (case hdl of
        None \<Rightarrow> retM ()
      | Some c \<Rightarrow> bindM (hdl_expired W hdl) (\<lambda>gone. if gone then retM () else m c))"

definition ServiceHandler_new :: "nat \<Rightarrow> string \<Rightarrow> nat option \<Rightarrow> bool \<Rightarrow> ServiceHandler" where
  "ServiceHandler_new this ident protocolHandler breakOnNextLine =
     ServiceHandler.make this False ident protocolHandler breakOnNextLine None"

text \<open>\<open>try { ... } catch (...) { }\<close>\<close>

definition ignore_exceptions :: "('s, fault, unit) M \<Rightarrow> ('s, fault, unit) M" where
  "ignore_exceptions m = (\<lambda>s. case m s of (Inl (Throw _), t) \<Rightarrow> (Inr (), t) | r \<Rightarrow> r)"

definition ServiceHandler_delete ::
  "(nat \<Rightarrow> 'w Env) \<Rightarrow> 'n Websocket \<Rightarrow> ServiceHandler \<Rightarrow> ('n, 'w, unit) S" where
  "ServiceHandler_delete E W this =
     seqM (ignore_exceptions (unless_expired W (sh_hdl this) (\<lambda>hdl.
         bindM (get_con W hdl) (\<lambda>connection.
           seqM (on_network (set_message_handler W connection None))
          (seqM (on_network (set_close_handler W connection None))
                (ws (close_connection W connection c_MessageServerShutdown)))))))
       (if sh_connected this
        then bindM (call_handler E (sh_protocolHandler this) JsDebugProtocolHandlerDisconnect) (\<lambda>err. retM ())
        else retM ())"

text \<open>The function all handlers give to their protocol handler, as a pointer.\<close>

definition SendResponseCallback :: nat where
  "SendResponseCallback = 1"

definition ServiceHandler_Connect ::
  "(nat \<Rightarrow> 'w Env) \<Rightarrow> 'n Websocket \<Rightarrow> nat \<Rightarrow> nat \<Rightarrow> ('n, 'w, bool) S" where
  "ServiceHandler_Connect E W this hdl =
     bindM (getSH this (\<lambda>h. h)) (\<lambda>h.
     bindM (hdl_expired W (sh_hdl h)) (\<lambda>gone.
       if gone then
         bindM (get_con W hdl) (\<lambda>connection.
         seqM (on_network (set_message_handler W connection (Some this)))
        (seqM (on_network (set_close_handler W connection (Some this)))
         (bindM (call_handler E (sh_protocolHandler h) (\<lambda>e p.
             JsDebugProtocolHandlerConnect e p (sh_breakOnNextLine h) (Some SendResponseCallback) this)) (\<lambda>err.
            if err \<noteq> JsNoError then retM False
            else seqM (modSH this (\<lambda>h. h\<lparr>sh_connected := True, sh_hdl := Some hdl\<rparr>)) (retM True)))))
       else retM False))"

definition ServiceHandler_Disconnect :: "'n Websocket \<Rightarrow> ServiceHandler \<Rightarrow> ('n, 'w, unit) S" where
  "ServiceHandler_Disconnect W this =
     unless_expired W (sh_hdl this) (\<lambda>hdl. ws (close_hdl W hdl c_MessageServerShutdown))"

definition ServiceHandler_SendResponse :: "'n Websocket \<Rightarrow> nat \<Rightarrow> string \<Rightarrow> ('n, 'w, unit) S" where
  "ServiceHandler_SendResponse W this response =
     bindM (getSH this sh_hdl) (\<lambda>hdl. unless_expired W hdl (\<lambda>c. ws (send_text W c response)))"

text \<open>The payload is passed on as a C string: it ends at its first zero byte.\<close>

definition ServiceHandler_OnMessage :: "(nat \<Rightarrow> 'w Env) \<Rightarrow> nat \<Rightarrow> string \<Rightarrow> ('n, 'w, unit) S" where
  "ServiceHandler_OnMessage E this payload =
     bindM (getSH this sh_protocolHandler) (\<lambda>protocolHandler.
     bindM (call_handler E protocolHandler (\<lambda>e p.
         JsDebugProtocolHandlerSendCommand e p (Some (takeWhile (\<lambda>c. c \<noteq> CHR 0x00) payload)))) (\<lambda>err.
       retM ()))"

definition ServiceHandler_OnClose :: "(nat \<Rightarrow> 'w Env) \<Rightarrow> nat \<Rightarrow> ('n, 'w, unit) S" where
  "ServiceHandler_OnClose E this =
     bindM (getSH this (\<lambda>h. h)) (\<lambda>h.
       if sh_connected h then
         bindM (call_handler E (sh_protocolHandler h) JsDebugProtocolHandlerDisconnect) (\<lambda>err.
           modSH this (\<lambda>h. h\<lparr>sh_connected := False\<rparr>))
       else retM ())"

subsection \<open>\<open>Service\<close>\<close>

text \<open>\<open>std::map\<close> keeps its entries ordered by key; strings compare by their unsigned characters.\<close>

fun string_less :: "string \<Rightarrow> string \<Rightarrow> bool" where
  "string_less _ [] = False"
| "string_less [] (_ # _) = True"
| "string_less (a # s) (b # t) =
     ((of_char a :: nat) < of_char b \<or> (of_char a :: nat) = of_char b \<and> string_less s t)"

fun map_emplace :: "string \<Rightarrow> 'v \<Rightarrow> (string \<times> 'v) list \<Rightarrow> (string \<times> 'v) list" where
  "map_emplace k v [] = [(k, v)]"
| "map_emplace k v ((k', v') # m) =
     (if k = k' then (k', v') # m
      else if string_less k k' then (k, v) # (k', v') # m
      else (k', v') # map_emplace k v m)"

definition map_erase :: "string \<Rightarrow> (string \<times> 'v) list \<Rightarrow> (string \<times> 'v) list" where
  "map_erase k m = filter (\<lambda>e. fst e \<noteq> k) m"

definition c_LocalHostName :: string where
  "c_LocalHostName = ''127.0.0.1''"

definition Service_new :: Service where
  "Service_new = \<lparr>m_thread = False, m_port = 0, m_handlers = []\<rparr>"

text \<open>\<open>emplace\<close> constructs the entry first, and destroys it again when the key is taken.\<close>

definition RegisterHandler ::
  "(nat \<Rightarrow> 'w Env) \<Rightarrow> 'n Websocket \<Rightarrow> string \<Rightarrow> nat option \<Rightarrow> bool \<Rightarrow> ('n, 'w, unit) S" where
  "RegisterHandler E W ident protocolHandler breakOnNextLine =
     bindM (getM next_address) (\<lambda>this.
     seqM (modifyM (\<lambda>s. s\<lparr>next_address := Suc this\<rparr>))
     (bindM (getS m_handlers) (\<lambda>handlers.
       let handler = ServiceHandler_new this ident protocolHandler breakOnNextLine in
       if map_of handlers ident = None then modS (\<lambda>sv. sv\<lparr>m_handlers := map_emplace ident handler handlers\<rparr>)
       else ServiceHandler_delete E W handler)))"

definition UnregisterHandler :: "(nat \<Rightarrow> 'w Env) \<Rightarrow> 'n Websocket \<Rightarrow> string \<Rightarrow> ('n, 'w, unit) S" where
  "UnregisterHandler E W ident =
     bindM (getS m_handlers) (\<lambda>handlers.
       case map_of handlers ident of
         None \<Rightarrow> retM ()
       | Some handler \<Rightarrow>
           seqM (modS (\<lambda>sv. sv\<lparr>m_handlers := map_erase ident handlers\<rparr>)) (ServiceHandler_delete E W handler))"

text \<open>Assigning to a thread that is still joinable terminates the program.\<close>

definition Listen :: "'n Websocket \<Rightarrow> 16 word \<Rightarrow> ('n, 'w, unit) S" where
  "Listen W port =
     seqM (modS (\<lambda>sv. sv\<lparr>m_port := port\<rparr>))
    (seqM (ws (ws_listen W c_LocalHostName (dec_nat (unat port))))
    (seqM (ws (start_accept W))
     (bindM (getS m_thread) (\<lambda>joinable.
        if joinable then throwM Terminated else modS (\<lambda>sv. sv\<lparr>m_thread := True\<rparr>)))))"

definition Close :: "'n Websocket \<Rightarrow> ('n, 'w, unit) S" where
  "Close W =
     seqM (ws (stop_listening W))
    (seqM (modS (\<lambda>sv. sv\<lparr>m_port := 0\<rparr>))
     (bindM (getS m_handlers) (\<lambda>handlers.
       seqM (forM handlers (\<lambda>(ident, handler). ServiceHandler_Disconnect W handler))
         (modS (\<lambda>sv. sv\<lparr>m_thread := False\<rparr>)))))"

text \<open>The members are destroyed last to first; destroying a joinable thread terminates the program.\<close>

definition Service_delete :: "(nat \<Rightarrow> 'w Env) \<Rightarrow> 'n Websocket \<Rightarrow> ('n, 'w, unit) S" where
  "Service_delete E W =
     seqM (ignore_exceptions (Close W))
    (bindM (getS m_handlers) (\<lambda>handlers.
     seqM (modS (\<lambda>sv. sv\<lparr>m_handlers := []\<rparr>))
    (seqM (forM handlers (\<lambda>(ident, handler). ServiceHandler_delete E W handler))
     (bindM (getS m_thread) (\<lambda>joinable. if joinable then throwM Terminated else retM ())))))"

definition OnValidate :: "(nat \<Rightarrow> 'w Env) \<Rightarrow> 'n Websocket \<Rightarrow> nat \<Rightarrow> ('n, 'w, bool) S" where
  "OnValidate E W hdl =
     bindM (ws (get_con_from_hdl W hdl)) (\<lambda>connection.
       case connection of
         None \<Rightarrow> retM False
       | Some con \<Rightarrow>
           bindM (getM (\<lambda>s. drop 1 (get_resource W con (network s)))) (\<lambda>resource.
           bindM (getS m_handlers) (\<lambda>handlers.
             case map_of handlers resource of
               None \<Rightarrow> retM False
             | Some handler \<Rightarrow> ServiceHandler_Connect E W (sh_address handler) hdl)))"

subsection \<open>HTTP requests\<close>

definition c_HeaderCacheControlName :: string where
  "c_HeaderCacheControlName = ''Cache-Control''"

definition c_HeaderCacheControlValue :: string where
  "c_HeaderCacheControlValue = ''no-cache''"

definition c_HeaderContentTypeName :: string where
  "c_HeaderContentTypeName = ''Content-Type''"

definition c_HeaderContentTypeValue :: string where
  "c_HeaderContentTypeValue = ''application/json; charset=UTF-8''"

definition c_ResourceJson :: string where
  "c_ResourceJson = ''/json''"

definition c_ResourceJsonList :: string where
  "c_ResourceJsonList = ''/json/list''"

definition c_ResourceJsonProtocol :: string where
  "c_ResourceJsonProtocol = ''/json/protocol''"

definition c_ResourceJsonVersion :: string where
  "c_ResourceJsonVersion = ''/json/version''"

text \<open>\<open>std::string::rfind\<close>: the last occurrence.\<close>

fun rfind :: "'a list \<Rightarrow> 'a list \<Rightarrow> nat option" where
  "rfind [] str = (if str = [] then Some 0 else None)"
| "rfind (c # s) str =
     (case rfind s str of
        Some i \<Rightarrow> Some (Suc i)
      | None \<Rightarrow> if begins_with str (c # s) then Some 0 else None)"

definition SendHttpJsonResponse :: "'n Websocket \<Rightarrow> nat \<Rightarrow> string \<Rightarrow> ('n, 'w, unit) S" where
  "SendHttpJsonResponse W hdl jsonBody =
     bindM (ws (get_con_from_hdl W hdl)) (\<lambda>connection.
       case connection of
         None \<Rightarrow> retM ()
       | Some con \<Rightarrow>
           seqM (on_network (append_header W con c_HeaderContentTypeName c_HeaderContentTypeValue))
          (seqM (on_network (append_header W con c_HeaderCacheControlName c_HeaderCacheControlValue))
          (seqM (on_network (set_body W con jsonBody))
                (on_network (set_status W con status_ok)))))"

text \<open>A line of the texts: its end is a newline.\<close>

definition text_line :: "string \<Rightarrow> string" where
  "text_line s = s @ [CHR 0x0A]"

definition list_entry :: "16 word \<Rightarrow> string \<Rightarrow> string" where
  "list_entry port ident =
     text_line '' {'' @
     text_line ''  \"description\": \"ChakraCore instance\",'' @
     text_line (''  \"devtoolsFrontendUrl\": '' @
       ''\"chrome-devtools://devtools/bundled/inspector.html?experiments=true&v8only=true&ws=localhost:'' @
       dec_nat (unat port) @ ''/'' @ ident @ ''\",'') @
     text_line (''  \"id\": \"'' @ ident @ ''\",'') @
     text_line ''  \"title\": \"ChakraCore instance\",'' @
     text_line ''  \"type\": \"node\",'' @
     text_line ''  \"url\": \"file://\",'' @
     text_line (''  \"webSocketDebuggerUrl\": \"ws://localhost:'' @ dec_nat (unat port) @ ''/'' @ ident @ ''\"'') @
     ''}''"

text \<open>The loop over the handlers, with the flag \<open>first\<close>.\<close>

fun list_entries :: "16 word \<Rightarrow> bool \<Rightarrow> (string \<times> ServiceHandler) list \<Rightarrow> string" where
  "list_entries port first [] = []"
| "list_entries port first ((_, handler) # handlers) =
     (if first then [] else '','') @ list_entry port (sh_id handler) @ list_entries port False handlers"

definition list_json :: "Service \<Rightarrow> string" where
  "list_json sv = ''['' @ list_entries (m_port sv) True (m_handlers sv) @ '' ]''"

definition HandleListRequest :: "'n Websocket \<Rightarrow> nat \<Rightarrow> ('n, 'w, unit) S" where
  "HandleListRequest W hdl = bindM (getS list_json) (SendHttpJsonResponse W hdl)"

definition HandleProtocolRequest :: "'n Websocket \<Rightarrow> nat \<Rightarrow> ('n, 'w, unit) S" where
  "HandleProtocolRequest W hdl = SendHttpJsonResponse W hdl ''{}''"

definition version_json :: string where
  "version_json =
     text_line ''{'' @
     text_line ''  \"Browser\": \"ChakraCore/1.8.3\",'' @
     text_line ''  \"Protocol-Version\": \"1.2\"'' @
     ''}''"

definition HandleVersionRequest :: "'n Websocket \<Rightarrow> nat \<Rightarrow> ('n, 'w, unit) S" where
  "HandleVersionRequest W hdl = SendHttpJsonResponse W hdl version_json"

definition OnHttpRequest :: "'n Websocket \<Rightarrow> nat \<Rightarrow> ('n, 'w, unit) S" where
  "OnHttpRequest W hdl =
     bindM (ws (get_con_from_hdl W hdl)) (\<lambda>connection.
       case connection of
         None \<Rightarrow> retM ()
       | Some con \<Rightarrow>
           bindM (getM (\<lambda>s. get_resource W con (network s))) (\<lambda>resource.
             if rfind resource c_ResourceJsonProtocol = Some 0 then HandleProtocolRequest W hdl
             else if rfind resource c_ResourceJsonVersion = Some 0 then HandleVersionRequest W hdl
             else if rfind resource c_ResourceJsonList = Some 0 \<or> rfind resource c_ResourceJson = Some 0
             then HandleListRequest W hdl
             else on_network (set_status W con status_not_found)))"

subsection \<open>The C interface of the service\<close>

definition JsDebugServiceCreate :: "unit option \<Rightarrow> JsErrorCode \<times> Service option" where
  "JsDebugServiceCreate service =
     (case service of
        None \<Rightarrow> (JsErrorInvalidArgument, None)
      | Some _ \<Rightarrow> (JsNoError, Some Service_new))"

definition JsDebugServiceDestroy ::
  "(nat \<Rightarrow> 'w Env) \<Rightarrow> 'n Websocket \<Rightarrow> unit option \<Rightarrow> ('n, 'w, JsErrorCode) S" where
  "JsDebugServiceDestroy E W service = TranslateExceptionFor service (\<lambda>_. Service_delete E W)"

definition JsDebugServiceRegisterHandler ::
  "(nat \<Rightarrow> 'w Env) \<Rightarrow> 'n Websocket \<Rightarrow> unit option \<Rightarrow> string \<Rightarrow> nat option \<Rightarrow> bool \<Rightarrow> ('n, 'w, JsErrorCode) S" where
  "JsDebugServiceRegisterHandler E W service ident protocolHandler breakOnNextLine =
     TranslateExceptionFor service (\<lambda>_. RegisterHandler E W ident protocolHandler breakOnNextLine)"

definition JsDebugServiceUnregisterHandler ::
  "(nat \<Rightarrow> 'w Env) \<Rightarrow> 'n Websocket \<Rightarrow> unit option \<Rightarrow> string \<Rightarrow> ('n, 'w, JsErrorCode) S" where
  "JsDebugServiceUnregisterHandler E W service ident = TranslateExceptionFor service (\<lambda>_. UnregisterHandler E W ident)"

definition JsDebugServiceListen ::
  "'n Websocket \<Rightarrow> unit option \<Rightarrow> 16 word \<Rightarrow> ('n, 'w, JsErrorCode) S" where
  "JsDebugServiceListen W service port = TranslateExceptionFor service (\<lambda>_. Listen W port)"

definition JsDebugServiceClose :: "'n Websocket \<Rightarrow> unit option \<Rightarrow> ('n, 'w, JsErrorCode) S" where
  "JsDebugServiceClose W service = TranslateExceptionFor service (\<lambda>_. Close W)"

end
