(* ===== verification/ServiceInvariant.thy ===== *)
theory ServiceInvariant
  imports Interface Service
begin

section \<open>The states of a service\<close>

text \<open>
  The invariant of the service and its protocol handlers, and the steps that lead from one state to the next: calls of the
  host, callbacks of the server library, changes of the network, and steps of the protocol handlers on the engine's thread.
\<close>

subsection \<open>The invariant\<close>

definition strings_sorted :: "string list \<Rightarrow> bool" where
  "strings_sorted keys = sorted_wrt string_less keys"

text \<open>A service handler that counts as connected is the one its protocol handler answers to.\<close>

definition linked :: "(nat \<Rightarrow> Handler option) \<Rightarrow> ServiceHandler \<Rightarrow> bool" where
  "linked ph h \<longleftrightarrow> sh_hdl h \<noteq> None \<and>
     (\<exists>p g. sh_protocolHandler h = Some p \<and> ph p = Some g \<and> m_sendResponseCallback g = Some SendResponseCallback \<and>
        m_sendResponseCallbackState g = sh_address h)"

definition entries_ok :: "nat \<Rightarrow> (string \<times> ServiceHandler) list \<Rightarrow> bool" where
  "entries_ok next hs \<longleftrightarrow>
     strings_sorted (map fst hs) \<and> distinct (map (sh_address \<circ> snd) hs) \<and>
     (\<forall>(key, h) \<in> set hs. sh_id h = key \<and> sh_address h < next)"

definition links_ok :: "(nat \<Rightarrow> Handler option) \<Rightarrow> (string \<times> ServiceHandler) list \<Rightarrow> bool" where
  "links_ok ph hs \<longleftrightarrow> (\<forall>(key, h) \<in> set hs. sh_connected h \<longrightarrow> linked ph h)"

definition service_ok :: "(nat \<Rightarrow> 'w Env) \<Rightarrow> ('n, 'w) World \<Rightarrow> bool" where
  "service_ok E s \<longleftrightarrow>
     entries_ok (next_address s) (m_handlers (web_service s)) \<and>
     links_ok (protocol_handlers s) (m_handlers (web_service s)) \<and>
     (\<forall>p g. protocol_handlers s p = Some g \<longrightarrow> reachable (E p) g)"

subsection \<open>Ordered maps\<close>

lemma string_less_irrefl [simp]: "\<not> string_less s s"
  by (induction s) auto

lemma string_less_trans: "string_less a b \<Longrightarrow> string_less b c \<Longrightarrow> string_less a c"
proof (induction a b arbitrary: c rule: string_less.induct)
  case (1 a)
  then show ?case by simp
next
  case (2 x b)
  then show ?case by (cases c) simp_all
next
  case (3 x a y b)
  then show ?case by (cases c) auto
qed

lemma string_less_total: "a \<noteq> b \<Longrightarrow> string_less a b \<or> string_less b a"
proof (induction a b rule: string_less.induct)
  case (1 a)
  then show ?case by (cases a) simp_all
next
  case (3 x a y b)
  show ?case
  proof (cases "x = y")
    case False
    then have "(of_char x :: nat) \<noteq> of_char y" by simp
    then have "(of_char x :: nat) < of_char y \<or> (of_char y :: nat) < of_char x" by (rule nat_neq_iff [THEN iffD1])
    then show ?thesis by auto
  qed (use 3 in simp)
qed simp

lemma set_map_emplace: "k \<notin> fst ` set m \<Longrightarrow> set (map_emplace k v m) = insert (k, v) (set m)"
  by (induction k v m rule: map_emplace.induct) auto

lemma distinct_emplace:
  "k \<notin> fst ` set m \<Longrightarrow> distinct (map (f \<circ> snd) (map_emplace k v m)) \<longleftrightarrow>
     f v \<notin> (f \<circ> snd) ` set m \<and> distinct (map (f \<circ> snd) m)"
proof (induction k v m rule: map_emplace.induct)
  case (2 k v k' v' m)
  then show ?case
    using set_map_emplace [of k m v] by (cases "string_less k k'") auto
qed simp

lemma sorted_map_emplace: "strings_sorted (map fst m) \<Longrightarrow> strings_sorted (map fst (map_emplace k v m))"
proof (induction k v m rule: map_emplace.induct)
  case (2 k v k' v' m)
  show ?case
  proof (cases "k = k'")
    case True
    then show ?thesis using 2 by simp
  next
    case False
    show ?thesis
    proof (cases "string_less k k'")
      case True
      then show ?thesis using 2(2) False
        by (auto simp: strings_sorted_def intro: string_less_trans)
    next
      case less: False
      have keys: "fst ` set (map_emplace k v m) \<subseteq> insert k (fst ` set m)"
        by (induction k v m rule: map_emplace.induct) auto
      have "string_less k' k" using string_less_total [OF False] less by simp
      then have "\<forall>x \<in> insert k (fst ` set m). string_less k' x" using 2(2) by (auto simp: strings_sorted_def)
      then have "\<forall>x \<in> fst ` set (map_emplace k v m). string_less k' x" using keys by blast
      then show ?thesis
        using 2(1) [OF False less] 2(2) False less by (simp add: strings_sorted_def)
    qed
  qed
qed (simp add: strings_sorted_def)

lemma sorted_map_erase: "strings_sorted (map fst m) \<Longrightarrow> strings_sorted (map fst (map_erase k m))"
  unfolding strings_sorted_def map_erase_def
  by (induction m) auto

lemma strings_sorted_distinct: "strings_sorted keys \<Longrightarrow> distinct keys"
  unfolding strings_sorted_def by (induction keys) auto


subsection \<open>Calls of a protocol handler\<close>

lemma call_handler_run:
  assumes "protocol_handlers s p = Some g" and "f (E p) (Some ()) (engine s, g) = (r, (w', g'))"
  shows "call_handler E (Some p) f s =
    (r, s\<lparr>engine := w', protocol_handlers := (protocol_handlers s)(p := Some g')\<rparr>)"
  using assms by (simp add: call_handler_def)

text \<open>
  Disconnecting the handler that a service handler is linked to succeeds or fails in the engine; either way the protocol
  handler is free.
\<close>

lemma call_disconnect:
  assumes "protocol_handlers s p = Some g" and "m_sendResponseCallback g \<noteq> None"
  obtains code w' g' where
    "call_handler E (Some p) JsDebugProtocolHandlerDisconnect s =
      (Inr code, s\<lparr>engine := w', protocol_handlers := (protocol_handlers s)(p := Some g')\<rparr>)"
    and "m_sendResponseCallback g' = None" and "host_step (E p) g g'"
proof -
  obtain r w' g' where run: "JsDebugProtocolHandlerDisconnect (E p) (Some ()) (engine s, g) = (r, (w', g'))"
    by (metis surj_pair)
  have d: "g' = g\<lparr>m_sendResponseCallback := None, m_sendResponseCallbackState := 0, m_breakOnNextLine := False,
         m_commandQueue := m_commandQueue g @ [(CommandDisconnect, [])]\<rparr>"
      "r = Inr (fst (fst (JsDiagRequestAsyncBreak (jsrt_of (E p)) (engine s))))"
    using disconnect_result [OF run] assms(2) by simp_all
  note call = call_handler_run [where E = E and f = JsDebugProtocolHandlerDisconnect, OF assms(1) run]
  show thesis
    by (rule that [OF call [unfolded d(2)]]) (use d(1) disconnect_step [OF run [unfolded d(2)]] in simp_all)
qed

text \<open>Connecting takes a free protocol handler, even if the engine fails then; a handler that is taken stays as it is.\<close>

lemma call_connect:
  assumes "protocol_handlers s p = Some g"
  obtains code w' g' where
    "call_handler E (Some p) (\<lambda>e q. JsDebugProtocolHandlerConnect e q b (Some c) this) s =
      (Inr code, s\<lparr>engine := w', protocol_handlers := (protocol_handlers s)(p := Some g')\<rparr>)"
    and "if m_sendResponseCallback g = None
         then m_sendResponseCallback g' = Some c \<and> m_sendResponseCallbackState g' = this
         else code \<noteq> JsNoError \<and> g' = g"
    and "host_step (E p) g g'"
proof -
  obtain r w' g' where run: "JsDebugProtocolHandlerConnect (E p) (Some ()) b (Some c) this (engine s, g) = (r, (w', g'))"
    by (metis surj_pair)
  note d = connect_result [OF run]
  then obtain code where r: "r = Inr code" by (cases "m_sendResponseCallback g") auto
  note call = call_handler_run [where E = E and f = "\<lambda>e q. JsDebugProtocolHandlerConnect e q b (Some c) this", OF assms(1) run]
  show thesis
    by (rule that [OF call [unfolded r]])
      (use d r connect_step [OF run [unfolded r]] in \<open>auto split: if_splits\<close>)
qed

lemma call_send:
  assumes "protocol_handlers s p = Some g"
  obtains code w' g' where
    "call_handler E (Some p) (\<lambda>e q. JsDebugProtocolHandlerSendCommand e q (Some c)) s =
      (Inr code, s\<lparr>engine := w', protocol_handlers := (protocol_handlers s)(p := Some g')\<rparr>)"
    and "m_sendResponseCallback g' = m_sendResponseCallback g"
    and "m_sendResponseCallbackState g' = m_sendResponseCallbackState g"
    and "m_commandQueue g' = m_commandQueue g @ [(CommandMessageReceived, c)]"
    and "host_step (E p) g g'"
proof -
  obtain r w' g' where run: "JsDebugProtocolHandlerSendCommand (E p) (Some ()) (Some c) (engine s, g) = (r, (w', g'))"
    by (metis surj_pair)
  note d = send_result [OF run]
  then obtain code where r: "r = Inr code" by auto
  have g': "m_sendResponseCallback g' = m_sendResponseCallback g \<and>
      m_sendResponseCallbackState g' = m_sendResponseCallbackState g \<and>
      m_commandQueue g' = m_commandQueue g @ [(CommandMessageReceived, c)]"
    using d by (cases "m_commandQueueCallback g") auto
  note call = call_handler_run [where E = E and f = "\<lambda>e q. JsDebugProtocolHandlerSendCommand e q (Some c)", OF assms(1) run]
  show thesis
    by (rule that [OF call [unfolded r]]) (use g' send_step [OF run [unfolded r]] in simp_all)
qed


subsection \<open>What every operation keeps\<close>

text \<open>Changes of the network, the port and the server's thread do not matter.\<close>

lemma service_ok_updates [simp]:
  "service_ok E (s\<lparr>network := n\<rparr>) = service_ok E s"
  "service_ok E (s\<lparr>web_service := (web_service s)\<lparr>m_port := port\<rparr>\<rparr>) = service_ok E s"
  "service_ok E (s\<lparr>web_service := (web_service s)\<lparr>m_thread := joinable\<rparr>\<rparr>) = service_ok E s"
  by (simp_all add: service_ok_def)

lemma keeps_if: "(b \<Longrightarrow> keeps P m) \<Longrightarrow> (\<not> b \<Longrightarrow> keeps P n) \<Longrightarrow> keeps P (if b then m else n)"
  by simp

lemma keeps_option:
  "keeps P m \<Longrightarrow> (\<And>x. keeps P (f x)) \<Longrightarrow> keeps P (case v of None \<Rightarrow> m | Some x \<Rightarrow> f x)"
  by (simp split: option.split)

lemmas keeps_parts = keeps_bind keeps_seq keeps_if keeps_option keeps_ret keeps_throw keeps_get

lemma keeps_network:
  assumes "\<And>s n. P s \<Longrightarrow> P (s\<lparr>network := n\<rparr>)"
  shows "keeps P (ws f)" and "keeps P (on_network g)"
  using assms by (auto simp: keeps_def ws_def on_network_def modifyM_def split: prod.split sum.split)

lemma keeps_getS: "keeps P (getS f)"
  unfolding getS_def by (rule keeps_get)

lemma keeps_getSH: "keeps P (getSH this f)"
  unfolding getSH_def by (intro keeps_parts keeps_getS)

lemma keeps_hdl_expired: "keeps P (hdl_expired W hdl)"
  unfolding hdl_expired_def by (rule keeps_get)

lemma keeps_get_con:
  assumes "\<And>s n. P s \<Longrightarrow> P (s\<lparr>network := n\<rparr>)"
  shows "keeps P (get_con W hdl)"
  unfolding get_con_def by (intro keeps_parts keeps_network assms)

lemma keeps_unless_expired:
  assumes "\<And>c. keeps P (m c)"
  shows "keeps P (unless_expired W hdl m)"
  unfolding unless_expired_def by (intro keeps_parts keeps_hdl_expired assms)

lemma keeps_ignore_exceptions: "keeps P m \<Longrightarrow> keeps P (ignore_exceptions m)"
  by (auto simp: keeps_def ignore_exceptions_def split: prod.splits sum.splits fault.splits)

text \<open>The parts that only talk to the network.\<close>

lemma network_only:
  assumes "\<And>s n. P s \<Longrightarrow> P (s\<lparr>network := n\<rparr>)"
  shows "keeps P (ServiceHandler_Disconnect W h)" "keeps P (ServiceHandler_SendResponse W this response)"
    "keeps P (SendHttpJsonResponse W hdl body)" "keeps P (OnHttpRequest W hdl)"
proof -
  show "keeps P (ServiceHandler_Disconnect W h)"
    unfolding ServiceHandler_Disconnect_def by (intro keeps_unless_expired keeps_network assms)
  show "keeps P (ServiceHandler_SendResponse W this response)"
    unfolding ServiceHandler_SendResponse_def
    by (intro keeps_parts keeps_getSH keeps_unless_expired keeps_network assms)
  have send: "keeps P (SendHttpJsonResponse W hdl body)" for body
    unfolding SendHttpJsonResponse_def by (intro keeps_parts keeps_network assms)
  show "keeps P (SendHttpJsonResponse W hdl body)" by (rule send)
  show "keeps P (OnHttpRequest W hdl)"
    unfolding OnHttpRequest_def HandleProtocolRequest_def HandleVersionRequest_def HandleListRequest_def
    by (intro keeps_parts keeps_getS keeps_network send assms)
qed

text \<open>\<open>linked\<close> depends only on the protocol handler of its service handler.\<close>

lemma linked_freed:
  assumes "linked ph h" and "sh_protocolHandler h = Some p" and "linked ph h2" and "sh_address h2 \<noteq> sh_address h"
  shows "linked (ph(p := g')) h2"
  using assms by (auto simp: linked_def)

lemma linked_taken:
  assumes "ph p = Some g" and "m_sendResponseCallback g = None \<or> g' = g" and "linked ph h"
  shows "linked (ph(p := Some g')) h"
  using assms by (auto simp: linked_def)

lemma links_taken:
  assumes "ph p = Some g" and "m_sendResponseCallback g = None \<or> g' = g" and "links_ok ph hs"
  shows "links_ok (ph(p := Some g')) hs"
  using assms linked_taken [where ph = ph and p = p and g = g and g' = g'] by (auto simp: links_ok_def)

lemma service_ok_engine:
  assumes "service_ok E s" and "links_ok ((protocol_handlers s)(p := Some g')) (m_handlers (web_service s))"
    and "reachable (E p) g'"
  shows "service_ok E (s\<lparr>engine := w', protocol_handlers := (protocol_handlers s)(p := Some g')\<rparr>)"
  using assms by (auto simp: service_ok_def)


subsection \<open>Destroying service handlers\<close>

text \<open>Service handlers that are no longer registered but still to be destroyed.\<close>

definition pending_ok :: "(nat \<Rightarrow> 'w Env) \<Rightarrow> ServiceHandler list \<Rightarrow> ('n, 'w) World \<Rightarrow> bool" where
  "pending_ok E hs s \<longleftrightarrow>
     service_ok E s \<and> (\<forall>h \<in> set hs. sh_connected h \<longrightarrow> linked (protocol_handlers s) h) \<and>
     distinct (map sh_address hs @ map (sh_address \<circ> snd) (m_handlers (web_service s)))"

lemma pending_network: "pending_ok E hs s \<Longrightarrow> pending_ok E hs (s\<lparr>network := n\<rparr>)"
  by (simp add: pending_ok_def)

lemma pending_tl: "pending_ok E (h # hs) s \<Longrightarrow> pending_ok E hs s"
  by (simp add: pending_ok_def)

lemma closing_keeps:
  "keeps (pending_ok E hs) (ignore_exceptions (unless_expired W hdl (\<lambda>hdl.
     bindM (get_con W hdl) (\<lambda>connection.
       seqM (on_network (set_message_handler W connection None))
      (seqM (on_network (set_close_handler W connection None))
            (ws (close_connection W connection c_MessageServerShutdown)))))))"
  by (intro keeps_ignore_exceptions keeps_unless_expired keeps_parts keeps_get_con keeps_network pending_network)

lemma disconnect_pending:
  assumes "pending_ok E (h # hs) s" and "sh_connected h"
  shows "pending_ok E hs (snd (call_handler E (sh_protocolHandler h) JsDebugProtocolHandlerDisconnect s))"
proof -
  have ok: "service_ok E s" and link: "linked (protocol_handlers s) h"
    using assms by (simp_all add: pending_ok_def)
  from link obtain p g where p: "sh_protocolHandler h = Some p" "protocol_handlers s p = Some g"
      "m_sendResponseCallback g = Some SendResponseCallback" by (auto simp: linked_def)
  obtain code w' g' where call: "call_handler E (Some p) JsDebugProtocolHandlerDisconnect s =
      (Inr code, s\<lparr>engine := w', protocol_handlers := (protocol_handlers s)(p := Some g')\<rparr>)"
    and step: "host_step (E p) g g'"
    using call_disconnect [OF p(2), of E] p(3) by (metis option.distinct(1))
  have away: "sh_address h \<notin> sh_address ` set hs" using assms(1) by (simp add: pending_ok_def)
  have others: "linked ((protocol_handlers s)(p := Some g')) h2"
    if "linked (protocol_handlers s) h2" "sh_address h2 \<noteq> sh_address h" for h2
    by (rule linked_freed [OF link p(1) that])
  have far: "sh_address (snd e) \<noteq> sh_address h" if "e \<in> set (m_handlers (web_service s))" for e
  proof -
    have "sh_address h \<notin> (sh_address \<circ> snd) ` set (m_handlers (web_service s))"
      using assms(1) by (simp add: pending_ok_def)
    then show ?thesis using that by (metis comp_apply imageI)
  qed
  have "links_ok ((protocol_handlers s)(p := Some g')) (m_handlers (web_service s))"
    using ok others far by (fastforce simp: service_ok_def links_ok_def)
  moreover have "reachable (E p) g'"
    using reachable.step [OF _ step] ok p(2) by (simp add: service_ok_def)
  ultimately have "service_ok E (s\<lparr>engine := w', protocol_handlers := (protocol_handlers s)(p := Some g')\<rparr>)"
    by (rule service_ok_engine [OF ok])
  moreover have "sh_connected h2 \<longrightarrow> linked ((protocol_handlers s)(p := Some g')) h2" if "h2 \<in> set hs" for h2
  proof
    assume "sh_connected h2"
    then have "linked (protocol_handlers s) h2" using assms(1) that by (simp add: pending_ok_def)
    moreover have "sh_address h2 \<noteq> sh_address h" using away that by (metis imageI)
    ultimately show "linked ((protocol_handlers s)(p := Some g')) h2" by (rule others)
  qed
  moreover have "distinct (map sh_address hs @ map (sh_address \<circ> snd) (m_handlers (web_service s)))"
    using assms(1) by (simp add: pending_ok_def)
  ultimately show ?thesis unfolding p(1) call pending_ok_def by (simp del: distinct_append)
qed

text \<open>A computation after one that keeps \<open>P\<close>.\<close>

lemma seqM_keeps:
  assumes "keeps P m" and "P s" and "\<And>t. P t \<Longrightarrow> Q t" and "\<And>t. P t \<Longrightarrow> Q (snd (n t))"
  shows "Q (snd (seqM m n s))"
proof -
  obtain r t where run: "m s = (r, t)" by (rule prod.exhaust)
  have "P t" using keepsD [OF assms(1,2)] run by simp
  then show ?thesis using assms(3,4) run by (cases r) (simp_all add: seqM_def bindM_def)
qed

lemma bindM_ret_state: "snd (bindM m (\<lambda>_. retM ()) s) = snd (m s)"
  by (cases "m s"; cases "fst (m s)") (auto simp: bindM_def retM_def)

lemma delete_pending:
  assumes "pending_ok E (h # hs) s"
  shows "pending_ok E hs (snd (ServiceHandler_delete E W h s))"
  unfolding ServiceHandler_delete_def
proof (rule seqM_keeps [OF closing_keeps assms])
  fix t
  assume t: "pending_ok E (h # hs) t"
  show "pending_ok E hs t" by (rule pending_tl [OF t])
  show "pending_ok E hs (snd ((if sh_connected h
      then bindM (call_handler E (sh_protocolHandler h) JsDebugProtocolHandlerDisconnect) (\<lambda>err. retM ())
      else retM ()) t))"
  proof (cases "sh_connected h")
    case True
    show ?thesis unfolding if_P [OF True] bindM_ret_state by (rule disconnect_pending [OF t True])
  next
    case False
    show ?thesis unfolding if_not_P [OF False] retM_def snd_conv by (rule pending_tl [OF t])
  qed
qed

lemma delete_all_pending:
  "pending_ok E (map snd handlers) s \<Longrightarrow>
     service_ok E (snd (forM handlers (\<lambda>(ident, handler). ServiceHandler_delete E W handler) s))"
proof (induction handlers arbitrary: s)
  case Nil
  then show ?case by (simp add: retM_def pending_ok_def)
next
  case (Cons e handlers)
  obtain r t where run: "ServiceHandler_delete E W (snd e) s = (r, t)" by (metis surj_pair)
  have t: "pending_ok E (map snd handlers) t"
    using delete_pending [of E "snd e" "map snd handlers" s W] Cons.prems run by simp
  then have "service_ok E t" by (simp add: pending_ok_def)
  then show ?case
    using Cons.IH [OF t] run by (cases e; cases r) (simp_all add: seqM_def bindM_def)
qed


subsection \<open>The operations of the service\<close>

lemma entries_ok_addresses: "entries_ok next hs \<Longrightarrow> e \<in> set hs \<Longrightarrow> sh_address (snd e) < next"
  by (auto simp: entries_ok_def)

lemma pending_registered:
  assumes "service_ok E s" and "m_handlers (web_service s) = hs"
  shows "pending_ok E (map snd hs) (s\<lparr>web_service := (web_service s)\<lparr>m_handlers := []\<rparr>\<rparr>)"
  using assms by (auto simp: pending_ok_def service_ok_def entries_ok_def links_ok_def strings_sorted_def)

lemma pending_erased:
  assumes "service_ok E s" and "map_of (m_handlers (web_service s)) ident = Some h"
  shows "pending_ok E [h]
    (s\<lparr>web_service := (web_service s)\<lparr>m_handlers := map_erase ident (m_handlers (web_service s))\<rparr>\<rparr>)"
proof -
  let ?hs = "m_handlers (web_service s)"
  have mem: "(ident, h) \<in> set ?hs" by (rule map_of_SomeD [OF assms(2)])
  have ok: "entries_ok (next_address s) ?hs" and links: "links_ok (protocol_handlers s) ?hs"
    using assms(1) by (simp_all add: service_ok_def)
  have subset: "set (map_erase ident ?hs) \<subseteq> set ?hs" by (auto simp: map_erase_def)
  have inj: "inj_on (sh_address \<circ> snd) (set ?hs)" using ok by (simp add: entries_ok_def distinct_map)
  have "sh_address h \<noteq> sh_address (snd e)" if "e \<in> set (map_erase ident ?hs)" for e
  proof
    assume same: "sh_address h = sh_address (snd e)"
    have "e \<in> set ?hs" "fst e \<noteq> ident" using that by (auto simp: map_erase_def)
    moreover have "e = (ident, h)" by (rule inj_onD [OF inj]) (use same mem \<open>e \<in> set ?hs\<close> in simp_all)
    ultimately show False by simp
  qed
  moreover have "distinct (map (sh_address \<circ> snd) (map_erase ident ?hs))"
    using ok by (simp add: entries_ok_def map_erase_def distinct_map_filter)
  moreover have "entries_ok (next_address s) (map_erase ident ?hs)"
    using ok subset calculation(2) sorted_map_erase [of ?hs ident] unfolding entries_ok_def by blast
  moreover have "links_ok (protocol_handlers s) (map_erase ident ?hs)"
    using links subset unfolding links_ok_def by blast
  moreover have "sh_connected h \<longrightarrow> linked (protocol_handlers s) h" using links mem by (auto simp: links_ok_def)
  ultimately show ?thesis using assms(1) by (auto simp: pending_ok_def service_ok_def)
qed

lemma keeps_modS:
  assumes "\<And>s. P s \<Longrightarrow> P (s\<lparr>web_service := f (web_service s)\<rparr>)"
  shows "keeps P (modS f)"
  using assms by (simp add: keeps_def modS_def modifyM_def)

lemma getS_bind: "bindM (getS f) k s = k (f (web_service s)) s"
  by (simp add: getS_def getM_def bindM_def)

lemma modS_seq: "seqM (modS f) m s = m (s\<lparr>web_service := f (web_service s)\<rparr>)"
  by (simp add: modS_def modifyM_def seqM_def bindM_def)

lemma keeps_UnregisterHandler:
  fixes E :: "nat \<Rightarrow> 'w Env" and W :: "'n Websocket"
  shows "keeps (service_ok E) (UnregisterHandler E W ident)"
  unfolding keeps_def
proof (intro allI impI)
  fix s :: "('n, 'w) World"
  assume s: "service_ok E s"
  show "service_ok E (snd (UnregisterHandler E W ident s))"
  proof (cases "map_of (m_handlers (web_service s)) ident")
    case None
    then show ?thesis using s by (simp add: UnregisterHandler_def getS_bind retM_def)
  next
    case (Some h)
    show ?thesis
      using delete_pending [OF pending_erased [OF s Some], of W]
      by (simp add: UnregisterHandler_def getS_bind modS_seq Some pending_ok_def)
  qed
qed

lemma delete_new:
  assumes "service_ok E s" and "\<not> sh_connected h"
    and "sh_address h \<notin> (sh_address \<circ> snd) ` set (m_handlers (web_service s))"
  shows "service_ok E (snd (ServiceHandler_delete E W h s))"
proof -
  have "pending_ok E [h] s"
    using assms by (auto simp: pending_ok_def service_ok_def entries_ok_def)
  from delete_pending [OF this] show ?thesis by (simp add: pending_ok_def)
qed

lemma keeps_RegisterHandler:
  fixes E :: "nat \<Rightarrow> 'w Env" and W :: "'n Websocket"
  shows "keeps (service_ok E) (RegisterHandler E W ident protocolHandler b)"
  unfolding keeps_def
proof (intro allI impI)
  fix s :: "('n, 'w) World"
  assume s: "service_ok E s"
  let ?addr = "next_address s" and ?hs = "m_handlers (web_service s)"
  let ?h = "ServiceHandler_new ?addr ident protocolHandler b"
  have h: "sh_address ?h = ?addr" "\<not> sh_connected ?h" "sh_id ?h = ident"
    by (simp_all add: ServiceHandler_new_def ServiceHandler.make_def)
  have ok: "entries_ok ?addr ?hs" using s by (simp add: service_ok_def)
  have new: "?addr \<notin> (sh_address \<circ> snd) ` set ?hs" using entries_ok_addresses [OF ok] by fastforce
  have s1: "service_ok E (s\<lparr>next_address := Suc ?addr\<rparr>)"
    using s by (fastforce simp: service_ok_def entries_ok_def)
  show "service_ok E (snd (RegisterHandler E W ident protocolHandler b s))"
  proof (cases "map_of ?hs ident = None")
    case True
    then have free: "ident \<notin> fst ` set ?hs" by (simp add: map_of_eq_None_iff)
    note entries = set_map_emplace [OF free, of ?h]
    have "distinct (map (sh_address \<circ> snd) (map_emplace ident ?h ?hs))"
      using distinct_emplace [OF free, of sh_address ?h] ok new h(1) by (simp add: entries_ok_def)
    then have "entries_ok (Suc ?addr) (map_emplace ident ?h ?hs)"
      using ok entries h sorted_map_emplace [of ?hs ident ?h] unfolding entries_ok_def by fastforce
    moreover have "links_ok (protocol_handlers s) (map_emplace ident ?h ?hs)"
      using s entries h(2) by (auto simp: service_ok_def links_ok_def)
    ultimately show ?thesis using s True
      by (simp add: RegisterHandler_def M_defs getS_def modS_def service_ok_def Let_def)
  next
    case False
    have "service_ok E (snd (ServiceHandler_delete E W ?h (s\<lparr>next_address := Suc ?addr\<rparr>)))"
      by (rule delete_new [OF s1]) (use h new in simp_all)
    then show ?thesis
      using False by (cases "map_of ?hs ident") (simp_all add: RegisterHandler_def M_defs getS_def Let_def)
  qed
qed


lemma keeps_Listen: "keeps (service_ok E) (Listen W port)"
  unfolding Listen_def by (intro keeps_parts keeps_modS keeps_network keeps_getS) simp_all

lemma keeps_Close: "keeps (service_ok E) (Close W)"
  unfolding Close_def
  by (intro keeps_parts keeps_modS keeps_network keeps_getS keeps_forM)
    (auto intro: network_only(1) split: prod.split)

lemma keeps_Service_delete:
  fixes E :: "nat \<Rightarrow> 'w Env" and W :: "'n Websocket"
  shows "keeps (service_ok E) (Service_delete E W)"
  unfolding keeps_def Service_delete_def
proof (intro allI impI)
  fix s :: "('n, 'w) World"
  assume s: "service_ok E s"
  show "service_ok E (snd (seqM (ignore_exceptions (Close W))
    (bindM (getS m_handlers) (\<lambda>handlers.
     seqM (modS (\<lambda>sv. sv\<lparr>m_handlers := []\<rparr>))
    (seqM (forM handlers (\<lambda>(ident, handler). ServiceHandler_delete E W handler))
     (bindM (getS m_thread) (\<lambda>joinable. if joinable then throwM Terminated else retM ()))))) s))"
  proof (rule seqM_keeps [OF keeps_ignore_exceptions [OF keeps_Close] s])
    fix t :: "('n, 'w) World"
    assume t: "service_ok E t"
    let ?t = "t\<lparr>web_service := (web_service t)\<lparr>m_handlers := []\<rparr>\<rparr>"
    obtain r u where run: "forM (m_handlers (web_service t)) (\<lambda>(ident, handler). ServiceHandler_delete E W handler) ?t = (r, u)"
      by (rule prod.exhaust)
    have "service_ok E u"
      using delete_all_pending [OF pending_registered [OF t refl], of W] run by simp
    then show "service_ok E (snd (bindM (getS m_handlers) (\<lambda>handlers.
     seqM (modS (\<lambda>sv. sv\<lparr>m_handlers := []\<rparr>))
    (seqM (forM handlers (\<lambda>(ident, handler). ServiceHandler_delete E W handler))
     (bindM (getS m_thread) (\<lambda>joinable. if joinable then throwM Terminated else retM ())))) t))"
      using run by (cases r) (simp_all add: getS_bind modS_seq, simp_all add: seqM_def bindM_def getS_def getM_def
        retM_def throwM_def)
  qed
qed

text \<open>Finding a service handler by its address.\<close>

lemma handler_at_Some:
  assumes "entries_ok next hs" and "List.find (\<lambda>h. sh_address h = this) (map snd hs) = Some h"
  shows "(sh_id h, h) \<in> set hs \<and> sh_address h = this"
proof -
  have "h \<in> snd ` set hs" "sh_address h = this"
    using assms(2) by (auto simp: find_Some_iff)
  then show ?thesis using assms(1) by (auto simp: entries_ok_def)
qed

text \<open>Updating the service handler at an address.\<close>

lemma update_entries:
  assumes "entries_ok next hs" and "\<And>h. sh_id (f h) = sh_id h \<and> sh_address (f h) = sh_address h"
  shows "entries_ok next (map (\<lambda>(ident, h). (ident, if sh_address h = this then f h else h)) hs)"
proof -
  let ?f = "\<lambda>(ident, h). (ident, if sh_address h = this then f h else h)"
  have keys: "map fst (map ?f hs) = map fst hs" by (auto simp: case_prod_beta)
  have addresses: "map (sh_address \<circ> snd) (map ?f hs) = map (sh_address \<circ> snd) hs"
    using assms(2) by (auto simp: case_prod_beta)
  show ?thesis
    unfolding entries_ok_def keys addresses using assms by (auto simp: entries_ok_def split: if_splits)
qed


lemma find_update:
  assumes "\<And>h. sh_address (f h) = sh_address h"
  shows "List.find (\<lambda>h. sh_address h = this)
      (map snd (map (\<lambda>(ident, h). (ident, if sh_address h = this then f h else h)) hs)) =
    map_option f (List.find (\<lambda>h. sh_address h = this) (map snd hs))"
  using assms by (induction hs) auto

lemma getSH_here: "handler_at this (web_service s) = Some h \<Longrightarrow> getSH this f s = (Inr (f h), s)"
  by (simp add: getSH_def getS_bind retM_def)

lemma bindM_Inr: "m s = (Inr x, t) \<Longrightarrow> bindM m f s = f x t"
  by (simp add: bindM_def)

lemma modSH_here: "handler_at this (web_service s) = Some h \<Longrightarrow>
   modSH this f s = (Inr (), s\<lparr>web_service := (web_service s)\<lparr>m_handlers :=
     map (\<lambda>(ident, h). (ident, if sh_address h = this then f h else h)) (m_handlers (web_service s))\<rparr>\<rparr>)"
  by (simp add: modSH_def seqM_def bindM_def getSH_here modS_def modifyM_def)

text \<open>A computation whose first part keeps \<open>P\<close> and whose rest does, too, for results of a kind.\<close>

lemma bindM_keeps:
  assumes "keeps P m" and "P s" and "\<And>t. P t \<Longrightarrow> Q t" and "\<And>x t. P t \<Longrightarrow> Q (snd (n x t))"
  shows "Q (snd (bindM m n s))"
proof -
  obtain r t where run: "m s = (r, t)" by (rule prod.exhaust)
  have "P t" using keepsD [OF assms(1,2)] run by simp
  then show ?thesis using assms(3,4) run by (cases r) (simp_all add: bindM_def)
qed

text \<open>Unchanged except for the network.\<close>

definition same_but_network :: "('n, 'w) World \<Rightarrow> ('n, 'w) World \<Rightarrow> bool" where
  "same_but_network s t \<longleftrightarrow> (\<exists>n. t = s\<lparr>network := n\<rparr>)"

lemma same_but_network_refl: "same_but_network s s"
  unfolding same_but_network_def by (rule exI [of _ "network s"]) simp

lemma same_but_network_update: "same_but_network s t \<Longrightarrow> same_but_network s (t\<lparr>network := n\<rparr>)"
  by (auto simp: same_but_network_def)

lemma same_but_network_ok: "same_but_network s t \<Longrightarrow> service_ok E t = service_ok E s"
  by (auto simp: same_but_network_def)

lemma same_but_network_parts:
  "same_but_network s t \<Longrightarrow> web_service t = web_service s \<and> protocol_handlers t = protocol_handlers s \<and>
     engine t = engine s \<and> next_address t = next_address s"
  by (auto simp: same_but_network_def)

lemma network_frame:
  "keeps (same_but_network s) (ws f)" "keeps (same_but_network s) (on_network g)"
  "keeps (same_but_network s) (get_con W hdl)"
  by (rule keeps_network(1), erule same_but_network_update)
    (rule keeps_network(2), erule same_but_network_update, rule keeps_get_con, erule same_but_network_update)


subsection \<open>A client connects\<close>

text \<open>
  \<open>ServiceHandler::Connect\<close> in three parts: the checks and the network, the protocol handler, and the new connection.
\<close>

lemma Connect_taken:
  assumes "handler_at this (web_service s) = Some h" and "sh_hdl h = Some c" and "\<not> expired W c (network s)"
  shows "ServiceHandler_Connect E W this hdl s = (Inr False, s)"
  using assms by (simp add: ServiceHandler_Connect_def bindM_def getSH_here hdl_expired_def getM_def retM_def)

definition connect_handler :: "(nat \<Rightarrow> 'w Env) \<Rightarrow> nat \<Rightarrow> nat \<Rightarrow> ServiceHandler \<Rightarrow> ('n, 'w, bool) S" where
  "connect_handler E this hdl h =
     bindM (call_handler E (sh_protocolHandler h) (\<lambda>e p.
       JsDebugProtocolHandlerConnect e p (sh_breakOnNextLine h) (Some SendResponseCallback) this)) (\<lambda>err.
     if err \<noteq> JsNoError then retM False
     else seqM (modSH this (\<lambda>h. h\<lparr>sh_connected := True, sh_hdl := Some hdl\<rparr>)) (retM True))"

lemma Connect_free:
  assumes "handler_at this (web_service s) = Some h"
    and "\<And>c. sh_hdl h = Some c \<Longrightarrow> expired W c (network s)"
  shows "ServiceHandler_Connect E W this hdl s =
    bindM (get_con W hdl) (\<lambda>connection.
      seqM (on_network (set_message_handler W connection (Some this)))
     (seqM (on_network (set_close_handler W connection (Some this))) (connect_handler E this hdl h))) s"
proof -
  have "hdl_expired W (sh_hdl h) s = (Inr True, s)"
    using assms(2) by (cases "sh_hdl h") (simp_all add: hdl_expired_def getM_def)
  then show ?thesis
    unfolding ServiceHandler_Connect_def connect_handler_def
    by (simp add: bindM_Inr getSH_here [OF assms(1)])
qed


text \<open>The service with the handler at \<open>this\<close> connected to \<open>hdl\<close>.\<close>

definition with_client :: "nat \<Rightarrow> nat \<Rightarrow> Service \<Rightarrow> Service" where
  "with_client this hdl sv = sv\<lparr>m_handlers :=
     map (\<lambda>(ident, h). (ident, if sh_address h = this then h\<lparr>sh_connected := True, sh_hdl := Some hdl\<rparr> else h))
       (m_handlers sv)\<rparr>"

lemma handler_at_mem:
  assumes "service_ok E s" and "handler_at this (web_service s) = Some h"
  shows "(sh_id h, h) \<in> set (m_handlers (web_service s)) \<and> sh_address h = this"
  using handler_at_Some [of "next_address s" "m_handlers (web_service s)" this h] assms
  by (simp add: service_ok_def handler_at_def)

lemma address_key:
  assumes "service_ok E s" and "(key, h) \<in> set (m_handlers (web_service s))"
    and "(key2, h2) \<in> set (m_handlers (web_service s))" and "sh_address h = sh_address h2"
  shows "key = key2 \<and> h = h2"
proof -
  have "inj_on (sh_address \<circ> snd) (set (m_handlers (web_service s)))"
    using assms(1) by (simp add: service_ok_def entries_ok_def distinct_map)
  then have "(key, h) = (key2, h2)" by (rule inj_onD) (use assms in simp_all)
  then show ?thesis by simp
qed

lemma update_service_ok:
  assumes ok: "service_ok E s" and at: "handler_at this (web_service s) = Some h"
    and keep: "\<And>h. sh_id (f h) = sh_id h \<and> sh_address (f h) = sh_address h"
    and links: "\<And>key h2. (key, h2) \<in> set (m_handlers (web_service s)) \<Longrightarrow> h2 \<noteq> h \<Longrightarrow> sh_connected h2 \<Longrightarrow> linked ph h2"
    and link: "sh_connected (f h) \<Longrightarrow> linked ph (f h)"
    and reach: "\<And>p g. ph p = Some g \<Longrightarrow> reachable (E p) g"
  shows "service_ok E (s\<lparr>engine := w, protocol_handlers := ph, web_service := (web_service s)\<lparr>m_handlers :=
     map (\<lambda>(ident, h). (ident, if sh_address h = this then f h else h)) (m_handlers (web_service s))\<rparr>\<rparr>)"
proof -
  let ?hs = "m_handlers (web_service s)"
  let ?f = "\<lambda>(ident, h). (ident, if sh_address h = this then f h else h)"
  note h = handler_at_mem [OF ok at]
  have "links_ok ph (map ?f ?hs)"
    unfolding links_ok_def
  proof (intro ballI)
    fix e
    assume "e \<in> set (map ?f ?hs)"
    then obtain key h2 where mem: "(key, h2) \<in> set ?hs"
      and e: "e = (key, if sh_address h2 = this then f h2 else h2)" by auto
    show "case e of (key, h) \<Rightarrow> sh_connected h \<longrightarrow> linked ph h"
    proof (cases "sh_address h2 = this")
      case True
      then have "h2 = h" using address_key [OF ok mem, of "sh_id h" h] h by simp
      then show ?thesis using link True e by simp
    next
      case False
      then have "h2 \<noteq> h" using h by auto
      then show ?thesis using links [OF mem] e False by simp
    qed
  qed
  moreover have "entries_ok (next_address s) (map ?f ?hs)"
    by (rule update_entries [OF _ keep]) (use ok in \<open>simp add: service_ok_def\<close>)
  ultimately show ?thesis using reach by (simp add: service_ok_def)
qed

lemma connect_handler_result:
  assumes ok: "service_ok E s" and at: "handler_at this (web_service s) = Some h"
    and run: "connect_handler E this hdl h s = (r, s')"
  shows "service_ok E s' \<and>
    (case sh_protocolHandler h of
       None \<Rightarrow> r = Inr False \<and> s' = s
     | Some p \<Rightarrow>
         (case protocol_handlers s p of
            None \<Rightarrow> r = Inl (Undefined DanglingPointer) \<and> s' = s
          | Some g \<Rightarrow> \<exists>accepted w' g'. r = Inr accepted \<and>
              s' = s\<lparr>engine := w', protocol_handlers := (protocol_handlers s)(p := Some g'),
                web_service := if accepted then with_client this hdl (web_service s) else web_service s\<rparr> \<and>
              (if m_sendResponseCallback g = None
               then m_sendResponseCallback g' = Some SendResponseCallback \<and> m_sendResponseCallbackState g' = this
               else \<not> accepted \<and> g' = g)))"
proof (cases "sh_protocolHandler h")
  case None
  then show ?thesis using run ok by (simp add: connect_handler_def call_handler_def bindM_def retM_def)
next
  case (Some p)
  show ?thesis
  proof (cases "protocol_handlers s p")
    case None
    then show ?thesis using run ok Some by (auto simp: connect_handler_def call_handler_def bindM_def)
  next
    case g: (Some g)
    obtain code w' g' where call: "call_handler E (Some p) (\<lambda>e q. JsDebugProtocolHandlerConnect e q
          (sh_breakOnNextLine h) (Some SendResponseCallback) this) s =
        (Inr code, s\<lparr>engine := w', protocol_handlers := (protocol_handlers s)(p := Some g')\<rparr>)"
      and taken: "if m_sendResponseCallback g = None
         then m_sendResponseCallback g' = Some SendResponseCallback \<and> m_sendResponseCallbackState g' = this
         else code \<noteq> JsNoError \<and> g' = g"
      and step: "host_step (E p) g g'"
      by (rule call_connect [OF g])
    let ?ph = "(protocol_handlers s)(p := Some g')"
    let ?t = "s\<lparr>engine := w', protocol_handlers := ?ph\<rparr>"
    have free: "m_sendResponseCallback g = None \<or> g' = g" using taken by (auto split: if_splits)
    have reach: "reachable (E p) g'" using reachable.step [OF _ step] ok g by (simp add: service_ok_def)
    have links: "links_ok ?ph (m_handlers (web_service s))"
      by (rule links_taken [where ph = "protocol_handlers s" and p = p, OF g free]) (use ok in \<open>simp add: service_ok_def\<close>)
    have ok1: "service_ok E ?t" by (rule service_ok_engine [OF ok links reach])
    have "r = Inr (code = JsNoError) \<and> s' = ?t\<lparr>web_service :=
        if code = JsNoError then with_client this hdl (web_service s) else web_service s\<rparr>"
      using run at
      by (cases "code = JsNoError") (auto simp: connect_handler_def Some bindM_Inr call retM_def seqM_def modSH_here
          with_client_def)
    moreover have "service_ok E (?t\<lparr>web_service := with_client this hdl (web_service s)\<rparr>)" if "code = JsNoError"
      unfolding with_client_def
    proof (rule update_service_ok [OF ok at])
      show "linked ?ph h2" if "(key, h2) \<in> set (m_handlers (web_service s))" "sh_connected h2" for key h2
        using links that by (auto simp: links_ok_def)
      show "linked ?ph (h\<lparr>sh_connected := True, sh_hdl := Some hdl\<rparr>)"
        using taken \<open>code = JsNoError\<close> Some handler_at_mem [OF ok at] by (auto simp: linked_def split: if_splits)
      show "reachable (E q) f" if "?ph q = Some f" for q f
        using that reach ok by (auto simp: service_ok_def split: if_splits)
    qed simp_all
    moreover have "\<exists>accepted v f. Inr (code = JsNoError) = (Inr accepted :: fault + bool) \<and>
        ?t\<lparr>web_service := if code = JsNoError then with_client this hdl (web_service s) else web_service s\<rparr> =
        s\<lparr>engine := v, protocol_handlers := (protocol_handlers s)(p := Some f),
          web_service := if accepted then with_client this hdl (web_service s) else web_service s\<rparr> \<and>
        (if m_sendResponseCallback g = None
         then m_sendResponseCallback f = Some SendResponseCallback \<and> m_sendResponseCallbackState f = this
         else \<not> accepted \<and> f = g)"
      by (rule exI [of _ "code = JsNoError"], rule exI [of _ w'], rule exI [of _ g']) (use taken in \<open>auto split: if_splits\<close>)
    ultimately show ?thesis using ok1 Some g by (cases "code = JsNoError") simp_all
  qed
qed


lemma handler_at_network: "same_but_network s t \<Longrightarrow> handler_at this (web_service t) = handler_at this (web_service s)"
  by (simp add: same_but_network_parts)

text \<open>The network part of connecting ends with a failure, or hands over with only the network changed.\<close>

lemma Connect_network:
  assumes "handler_at this (web_service s) = Some h" and "\<And>c. sh_hdl h = Some c \<Longrightarrow> expired W c (network s)"
    and "ServiceHandler_Connect E W this hdl s = (r, s')"
  shows "\<exists>t. same_but_network s t \<and>
    ((\<exists>f. r = Inl f) \<and> s' = t \<or> connect_handler E this hdl h t = (r, s'))"
proof -
  have run: "bindM (get_con W hdl) (\<lambda>connection.
      seqM (on_network (set_message_handler W connection (Some this)))
     (seqM (on_network (set_close_handler W connection (Some this))) (connect_handler E this hdl h))) s = (r, s')"
    using Connect_free [OF assms(1,2)] assms(3) by simp
  obtain rc t where con: "get_con W hdl s = (rc, t)" by (rule prod.exhaust)
  have t: "same_but_network s t" using keepsD [OF network_frame(3) [where W = W and hdl = hdl] same_but_network_refl [of s]] con by simp
  show ?thesis
  proof (cases rc)
    case (Inl f)
    then show ?thesis using run con t by (auto simp: bindM_def)
  next
    case (Inr c)
    let ?t = "t\<lparr>network := set_close_handler W c (Some this) (set_message_handler W c (Some this) (network t))\<rparr>"
    have "same_but_network s ?t" by (rule same_but_network_update [OF t])
    moreover have "connect_handler E this hdl h ?t = (r, s')"
      using run con Inr by (simp add: bindM_Inr seqM_def on_network_def modifyM_def)
    ultimately show ?thesis by blast
  qed
qed

lemma keeps_Connect:
  fixes E :: "nat \<Rightarrow> 'w Env" and W :: "'n Websocket"
  shows "keeps (service_ok E) (ServiceHandler_Connect E W this hdl)"
  unfolding keeps_def
proof (intro allI impI)
  fix s :: "('n, 'w) World"
  assume s: "service_ok E s"
  obtain r s' where run: "ServiceHandler_Connect E W this hdl s = (r, s')" by (rule prod.exhaust)
  have "service_ok E s'"
  proof (cases "handler_at this (web_service s)")
    case None
    then have "s' = s"
      using run by (simp add: ServiceHandler_Connect_def bindM_def getSH_def getS_def getM_def throwM_def)
    then show ?thesis using s by simp
  next
    case (Some h)
    show ?thesis
    proof (cases "\<exists>c. sh_hdl h = Some c \<and> \<not> expired W c (network s)")
      case True
      then show ?thesis using Connect_taken [OF Some, where W = W and E = E and hdl = hdl] run s by auto
    next
      case False
      then obtain t where t: "same_but_network s t"
        and cases: "s' = t \<or> connect_handler E this hdl h t = (r, s')"
        using Connect_network [OF Some _ run] by blast
      have ok: "service_ok E t" using s same_but_network_ok [OF t] by simp
      then show ?thesis
        using cases connect_handler_result [OF ok, of this h hdl r s'] Some handler_at_network [OF t, of this] by auto
    qed
  qed
  then show "service_ok E (snd (ServiceHandler_Connect E W this hdl s))" using run by simp
qed

lemma keeps_OnValidate: "keeps (service_ok E) (OnValidate E W hdl)"
  unfolding OnValidate_def by (intro keeps_parts keeps_getS keeps_network keeps_Connect) simp_all

lemma keeps_OnMessage:
  fixes E :: "nat \<Rightarrow> 'w Env" and W :: "'n Websocket"
  shows "keeps (service_ok E :: ('n, 'w) World \<Rightarrow> bool) (ServiceHandler_OnMessage E this payload)"
proof -
  have send: "keeps (service_ok E :: ('n, 'w) World \<Rightarrow> bool)
    (call_handler E handler (\<lambda>e q. JsDebugProtocolHandlerSendCommand e q (Some c)))" for handler c
    unfolding keeps_def
  proof (intro allI impI)
    fix s :: "('n, 'w) World"
    assume s: "service_ok E s"
    show "service_ok E (snd (call_handler E handler (\<lambda>e q. JsDebugProtocolHandlerSendCommand e q (Some c)) s))"
    proof (cases handler)
      case None
      then show ?thesis using s by (simp add: call_handler_def retM_def)
    next
      case (Some p)
      show ?thesis
      proof (cases "protocol_handlers s p")
        case None
        then show ?thesis using s Some by (simp add: call_handler_def)
      next
        case g: (Some g)
        obtain code w' g' where call: "call_handler E (Some p) (\<lambda>e q. JsDebugProtocolHandlerSendCommand e q (Some c)) s =
            (Inr code, s\<lparr>engine := w', protocol_handlers := (protocol_handlers s)(p := Some g')\<rparr>)"
          and same: "m_sendResponseCallback g' = m_sendResponseCallback g"
            "m_sendResponseCallbackState g' = m_sendResponseCallbackState g" and step: "host_step (E p) g g'"
          by (rule call_send [OF g])
        have "links_ok ((protocol_handlers s)(p := Some g')) (m_handlers (web_service s))"
          using s g same by (fastforce simp: service_ok_def links_ok_def linked_def)
        then have "service_ok E (s\<lparr>engine := w', protocol_handlers := (protocol_handlers s)(p := Some g')\<rparr>)"
          by (rule service_ok_engine [OF s]) (use reachable.step [OF _ step] s g in \<open>simp add: service_ok_def\<close>)
        then show ?thesis unfolding Some call by simp
      qed
    qed
  qed
  show ?thesis unfolding ServiceHandler_OnMessage_def by (intro keeps_parts keeps_getSH send)
qed


text \<open>
  The client of a connected service handler goes away: the disconnect reaches the protocol handler that answers to it, and both
  are free afterwards.
\<close>

lemma OnClose_connected:
  assumes ok: "service_ok E s" and at: "handler_at this (web_service s) = Some h" and conn: "sh_connected h"
  shows "\<exists>s' p g'. ServiceHandler_OnClose E this s = (Inr (), s') \<and> service_ok E s' \<and>
    sh_protocolHandler h = Some p \<and> protocol_handlers s' p = Some g' \<and> m_sendResponseCallback g' = None \<and>
    handler_at this (web_service s') = Some (h\<lparr>sh_connected := False\<rparr>)"
proof -
  let ?hs = "m_handlers (web_service s)"
  note h = handler_at_mem [OF ok at]
  have link: "linked (protocol_handlers s) h" using ok conn h by (auto simp: service_ok_def links_ok_def)
  then obtain p g where p: "sh_protocolHandler h = Some p" "protocol_handlers s p = Some g"
      "m_sendResponseCallback g = Some SendResponseCallback" by (auto simp: linked_def)
  obtain code w' g' where call: "call_handler E (Some p) JsDebugProtocolHandlerDisconnect s =
      (Inr code, s\<lparr>engine := w', protocol_handlers := (protocol_handlers s)(p := Some g')\<rparr>)"
    and free: "m_sendResponseCallback g' = None" and step: "host_step (E p) g g'"
    using call_disconnect [OF p(2), of E] p(3) by (metis option.distinct(1))
  let ?ph = "(protocol_handlers s)(p := Some g')"
  let ?f = "\<lambda>h :: ServiceHandler. h\<lparr>sh_connected := False\<rparr>"
  let ?s = "s\<lparr>engine := w', protocol_handlers := ?ph, web_service := (web_service s)\<lparr>m_handlers :=
     map (\<lambda>(ident, h). (ident, if sh_address h = this then ?f h else h)) ?hs\<rparr>\<rparr>"
  have run: "ServiceHandler_OnClose E this s = (Inr (), ?s)"
    using at by (simp add: ServiceHandler_OnClose_def bindM_Inr getSH_here conn p(1) call modSH_here)
  have "service_ok E ?s"
  proof (rule update_service_ok [OF ok at])
    show "linked ?ph h2" if "(key, h2) \<in> set ?hs" "h2 \<noteq> h" "sh_connected h2" for key h2
    proof (rule linked_freed [OF link p(1)])
      show "linked (protocol_handlers s) h2" using ok that by (auto simp: service_ok_def links_ok_def)
      show "sh_address h2 \<noteq> sh_address h" using address_key [OF ok that(1), of "sh_id h" h] h that(2) by auto
    qed
    show "reachable (E q) f" if "?ph q = Some f" for q f
      using that reachable.step [OF _ step] ok p(2) by (auto simp: service_ok_def split: if_splits)
  qed simp_all
  moreover have "handler_at this (web_service ?s) = Some (?f h)"
    using find_update [of ?f this ?hs] at by (simp add: handler_at_def)
  ultimately show ?thesis using run p(1) free by (intro exI [of _ ?s] exI [of _ p] exI [of _ g']) simp
qed

lemma keeps_OnClose:
  fixes E :: "nat \<Rightarrow> 'w Env"
  shows "keeps (service_ok E :: ('n, 'w) World \<Rightarrow> bool) (ServiceHandler_OnClose E this)"
  unfolding keeps_def
proof (intro allI impI)
  fix s :: "('n, 'w) World"
  assume s: "service_ok E s"
  show "service_ok E (snd (ServiceHandler_OnClose E this s))"
  proof (cases "handler_at this (web_service s)")
    case None
    then show ?thesis
      using s by (simp add: ServiceHandler_OnClose_def bindM_def getSH_def getS_def getM_def throwM_def)
  next
    case (Some h)
    show ?thesis
    proof (cases "sh_connected h")
      case True
      from OnClose_connected [OF s Some True] show ?thesis by auto
    next
      case False
      then show ?thesis using s Some by (simp add: ServiceHandler_OnClose_def bindM_Inr getSH_here retM_def)
    qed
  qed
qed

subsection \<open>Steps\<close>

text \<open>
  The host calls the C interface of the service, creates and destroys protocol handlers (destroys only those no client is
  connected to); the server library calls back, as often and in whatever order it likes; the network changes; and the protocol
  handlers take their own steps on the engine's thread, between two calls of the service, and answer to the client.
\<close>

inductive service_step ::
  "(nat \<Rightarrow> 'w Env) \<Rightarrow> 'n Websocket \<Rightarrow> ('n, 'w) World \<Rightarrow> ('n, 'w) World \<Rightarrow> bool" for E W where
  register: "JsDebugServiceRegisterHandler E W (Some ()) ident protocolHandler b s = (r, s') \<Longrightarrow> service_step E W s s'"
| unregister: "JsDebugServiceUnregisterHandler E W (Some ()) ident s = (r, s') \<Longrightarrow> service_step E W s s'"
| listen: "JsDebugServiceListen W (Some ()) port s = (r, s') \<Longrightarrow> service_step E W s s'"
| close: "JsDebugServiceClose W (Some ()) s = (r, s') \<Longrightarrow> service_step E W s s'"
| destroy: "JsDebugServiceDestroy E W (Some ()) s = (r, s') \<Longrightarrow> service_step E W s s'"
| validate: "OnValidate E W hdl s = (ok, s') \<Longrightarrow> service_step E W s s'"
| http: "OnHttpRequest W hdl s = (r, s') \<Longrightarrow> service_step E W s s'"
| on_message: "ServiceHandler_OnMessage E this payload s = (r, s') \<Longrightarrow> service_step E W s s'"
| on_close: "ServiceHandler_OnClose E this s = (r, s') \<Longrightarrow> service_step E W s s'"
| response: "ServiceHandler_SendResponse W this answer s = (r, s') \<Longrightarrow> service_step E W s s'"
| network: "service_step E W s (s\<lparr>network := n\<rparr>)"
| handler_created: "protocol_handlers s p = None \<Longrightarrow>
    service_step E W s (s\<lparr>protocol_handlers := (protocol_handlers s)(p := Some (Handler_init context_ref))\<rparr>)"
| handler_destroyed: "protocol_handlers s p = Some g \<Longrightarrow> m_sendResponseCallback g = None \<Longrightarrow>
    service_step E W s (s\<lparr>protocol_handlers := (protocol_handlers s)(p := None)\<rparr>)"
| handler_step: "protocol_handlers s p = Some g \<Longrightarrow> host_step (E p) g g' \<Longrightarrow>
    m_sendResponseCallback g' = m_sendResponseCallback g \<Longrightarrow>
    m_sendResponseCallbackState g' = m_sendResponseCallbackState g \<Longrightarrow>
    service_step E W s (s\<lparr>engine := w, protocol_handlers := (protocol_handlers s)(p := Some g')\<rparr>)"

inductive service_reachable ::
  "(nat \<Rightarrow> 'w Env) \<Rightarrow> 'n Websocket \<Rightarrow> ('n, 'w) World \<Rightarrow> bool" for E W where
  start: "web_service s = Service_new \<Longrightarrow> protocol_handlers s = Map.empty \<Longrightarrow> service_reachable E W s"
| step: "service_reachable E W s \<Longrightarrow> service_step E W s s' \<Longrightarrow> service_reachable E W s'"

lemma kept_by:
  assumes "keeps P m" and "P s" and "m s = (r, s')"
  shows "P s'"
  using keepsD [OF assms(1,2)] assms(3) by simp

lemmas interface_defs = JsDebugServiceRegisterHandler_def JsDebugServiceUnregisterHandler_def JsDebugServiceListen_def
  JsDebugServiceClose_def JsDebugServiceDestroy_def

lemma service_step_ok: "service_step E W s s' \<Longrightarrow> service_ok E s \<Longrightarrow> service_ok E s'"
proof (induction rule: service_step.induct)
  case (register ident protocolHandler b s r s')
  then show ?case
    using kept_by [OF keeps_TranslateExceptionFor [OF keeps_RegisterHandler]] by (simp add: interface_defs)
next
  case (unregister ident s r s')
  then show ?case
    using kept_by [OF keeps_TranslateExceptionFor [OF keeps_UnregisterHandler]] by (simp add: interface_defs)
next
  case (listen port s r s')
  then show ?case using kept_by [OF keeps_TranslateExceptionFor [OF keeps_Listen]] by (simp add: interface_defs)
next
  case (close s r s')
  then show ?case using kept_by [OF keeps_TranslateExceptionFor [OF keeps_Close]] by (simp add: interface_defs)
next
  case (destroy s r s')
  then show ?case
    using kept_by [OF keeps_TranslateExceptionFor [OF keeps_Service_delete]] by (simp add: interface_defs)
next
  case (validate hdl s ok s')
  show ?case by (rule kept_by [OF keeps_OnValidate validate(2,1)])
next
  case (http hdl s r s')
  show ?case by (rule kept_by [OF network_only(4) _ http(1)]) (simp_all add: http(2))
next
  case (on_message this payload s r s')
  show ?case by (rule kept_by [OF keeps_OnMessage on_message(2,1)])
next
  case (on_close this s r s')
  show ?case by (rule kept_by [OF keeps_OnClose on_close(2,1)])
next
  case (response this answer s r s')
  show ?case by (rule kept_by [OF network_only(2) _ response(1)]) (simp_all add: response(2))
next
  case (handler_created s p context_ref)
  have "linked ((protocol_handlers s)(p := Some (Handler_init context_ref))) h" if "linked (protocol_handlers s) h" for h
    using that handler_created(1) by (auto simp: linked_def)
  then show ?case
    using handler_created by (auto simp: service_ok_def links_ok_def intro: reachable.created)
next
  case (handler_destroyed s p g)
  have "linked ((protocol_handlers s)(p := None)) h" if "linked (protocol_handlers s) h" for h
    using that handler_destroyed(1,2) unfolding linked_def
    by (metis fun_upd_other option.inject option.distinct(1))
  then show ?case using handler_destroyed by (auto simp: service_ok_def links_ok_def)
next
  case (handler_step s p g g' w)
  have "linked ((protocol_handlers s)(p := Some g')) h" if "linked (protocol_handlers s) h" for h
    using that handler_step(1,3,4) by (auto simp: linked_def)
  then have "links_ok ((protocol_handlers s)(p := Some g')) (m_handlers (web_service s))"
    using handler_step(5) by (auto simp: service_ok_def links_ok_def)
  then show ?case
    by (rule service_ok_engine [OF handler_step(5)])
      (use reachable.step [OF _ handler_step(2)] handler_step(1,5) in \<open>simp add: service_ok_def\<close>)
qed simp

lemma service_start_ok: "web_service s = Service_new \<Longrightarrow> protocol_handlers s = Map.empty \<Longrightarrow> service_ok E s"
  by (simp add: service_ok_def Service_new_def entries_ok_def links_ok_def strings_sorted_def)

lemma service_reachable_ok: "service_reachable E W s \<Longrightarrow> service_ok E s"
  by (induction rule: service_reachable.induct) (auto intro: service_start_ok service_step_ok)


subsection \<open>Who may connect\<close>

lemma registered_at:
  assumes "service_ok E s" and "map_of (m_handlers (web_service s)) key = Some h"
  shows "handler_at (sh_address h) (web_service s) = Some h"
proof -
  note mem = map_of_SomeD [OF assms(2)]
  obtain h2 where h2: "handler_at (sh_address h) (web_service s) = Some h2"
    using mem by (cases "handler_at (sh_address h) (web_service s)")
      (auto simp: handler_at_def find_None_iff image_iff)
  with address_key [OF assms(1) _ mem, of "sh_id h2" h2] handler_at_mem [OF assms(1) h2] show ?thesis by simp
qed

lemma validate_result:
  assumes ok: "service_ok E s" and con: "get_con_from_hdl W hdl (network s) = (Inr (Some c), n)"
    and key: "map_of (m_handlers (web_service s)) (drop 1 (get_resource W c n)) = Some h"
    and run: "OnValidate E W hdl s = (Inr accepted, s')"
  shows "if \<exists>d. sh_hdl h = Some d \<and> \<not> expired W d n then \<not> accepted \<and> same_but_network s s'
    else if accepted then
      web_service s' = with_client (sh_address h) hdl (web_service s) \<and>
      (\<exists>p g g'. sh_protocolHandler h = Some p \<and> protocol_handlers s p = Some g \<and> m_sendResponseCallback g = None \<and>
         protocol_handlers s' p = Some g' \<and> m_sendResponseCallback g' = Some SendResponseCallback \<and>
         m_sendResponseCallbackState g' = sh_address h)
    else web_service s' = web_service s"
proof -
  let ?s = "s\<lparr>network := n\<rparr>"
  have same: "same_but_network s ?s" by (auto simp: same_but_network_def)
  have at: "handler_at (sh_address h) (web_service ?s) = Some h" using registered_at [OF ok key] by simp
  have connect: "ServiceHandler_Connect E W (sh_address h) hdl ?s = (Inr accepted, s')"
    using run con key by (simp add: OnValidate_def bindM_def ws_def getM_def getS_def)
  show ?thesis
  proof (cases "\<exists>d. sh_hdl h = Some d \<and> \<not> expired W d n")
    case True
    then obtain d where d: "sh_hdl h = Some d" "\<not> expired W d (network ?s)" by auto
    show ?thesis using Connect_taken [where E = E and hdl = hdl, OF at d] connect same True by simp
  next
    case False
    then have "expired W d (network ?s)" if "sh_hdl h = Some d" for d using that by simp
    from Connect_network [OF at this connect] obtain t where t: "same_but_network ?s t"
      and hand: "connect_handler E (sh_address h) hdl h t = (Inr accepted, s')" by auto
    note parts = same_but_network_parts [OF t]
    have ok1: "service_ok E t" using ok same_but_network_ok [OF t] same_but_network_ok [OF same] by simp
    have at1: "handler_at (sh_address h) (web_service t) = Some h" using at handler_at_network [OF t] by simp
    have result: "case sh_protocolHandler h of
       None \<Rightarrow> Inr accepted = (Inr False :: fault + bool) \<and> s' = t
     | Some p \<Rightarrow>
         (case protocol_handlers t p of
            None \<Rightarrow> Inr accepted = Inl (Undefined DanglingPointer) \<and> s' = t
          | Some g \<Rightarrow> \<exists>acc w' g'. Inr accepted = (Inr acc :: fault + bool) \<and>
              s' = t\<lparr>engine := w', protocol_handlers := (protocol_handlers t)(p := Some g'),
                web_service := if acc then with_client (sh_address h) hdl (web_service t) else web_service t\<rparr> \<and>
              (if m_sendResponseCallback g = None
               then m_sendResponseCallback g' = Some SendResponseCallback \<and> m_sendResponseCallbackState g' = sh_address h
               else \<not> acc \<and> g' = g))"
      using connect_handler_result [OF ok1 at1 hand] by blast
    show ?thesis
    proof (cases "sh_protocolHandler h")
      case None
      then show ?thesis unfolding if_not_P [OF False] using result parts by simp
    next
      case p: (Some p)
      show ?thesis
      proof (cases "protocol_handlers t p")
        case None
        then show ?thesis using result p by simp
      next
        case g: (Some g)
        have "\<exists>w' g'. s' = t\<lparr>engine := w', protocol_handlers := (protocol_handlers t)(p := Some g'),
                web_service := if accepted then with_client (sh_address h) hdl (web_service t) else web_service t\<rparr> \<and>
              (if m_sendResponseCallback g = None
               then m_sendResponseCallback g' = Some SendResponseCallback \<and> m_sendResponseCallbackState g' = sh_address h
               else \<not> accepted \<and> g' = g)"
          using result p g by simp
        then obtain w' g' where s': "s' = t\<lparr>engine := w', protocol_handlers := (protocol_handlers t)(p := Some g'),
                web_service := if accepted then with_client (sh_address h) hdl (web_service t) else web_service t\<rparr>"
          and taken: "if m_sendResponseCallback g = None
               then m_sendResponseCallback g' = Some SendResponseCallback \<and> m_sendResponseCallbackState g' = sh_address h
               else \<not> accepted \<and> g' = g" by blast
        show ?thesis
        proof (cases accepted)
          case True
          then have "m_sendResponseCallback g = None" using taken by (auto split: if_splits)
          with True show ?thesis unfolding if_not_P [OF False] using s' taken p g parts by simp
        next
          case acc: False
          then show ?thesis unfolding if_not_P [OF False] using s' parts by simp
        qed
      qed
    qed
  qed
qed

end
