(* ===== verification/ServiceList.thy ===== *)
theory ServiceList
  imports ServiceInvariant ProtocolHelpers
begin

section \<open>The list of handlers is JSON\<close>

text \<open>
  The body of \<open>Service::HandleListRequest\<close>, read by the parser of the protocol: white space does not matter to it, so the
  text is an array of objects with the fields of every handler.
\<close>

subsection \<open>White space before a token\<close>

lemma skip_space [simp]:
  "skipWhitespaceAndComments (32 # s) = skipWhitespaceAndComments s"
  "skipWhitespaceAndComments (10 # s) = skipWhitespaceAndComments s"
  by (simp_all add: isSpaceOrNewLine_def isASCII_def)

lemma token_space [simp]:
  "parseToken (32 # s) = parseToken s" "parseToken (10 # s) = parseToken s"
  by (simp_all add: parseToken_def del: skipWhitespaceAndComments.simps)

lemma value_space [simp]:
  "buildValue d (32 # s) = buildValue d s" "buildValue d (10 # s) = buildValue d s"
  by (subst (1 2) buildValue.simps, simp)+

lemma objectLoop_space [simp]:
  "objectLoop d (32 # s) ob = objectLoop d s ob" "objectLoop d (10 # s) ob = objectLoop d s ob"
  by (subst (1 2) objectLoop.simps, simp)+

lemma arrayLoop_space [simp]: "arrayLoop d (32 # s) vs = arrayLoop d s vs"
  by (subst (1 2) arrayLoop.simps) (unfold token_space value_space, rule refl)

subsection \<open>Objects written over several lines\<close>

definition member_line :: "string16 \<times> string16 \<Rightarrow> string16" where
  "member_line e = [32, 32] @ quoted (fst e) @ [58, 32] @ quoted (snd e)"

lemma value_line:
  assumes "d \<le> stackLimit"
  shows "buildValue d (quoted v @ r) = Some (StringValue v, skipWhitespaceAndComments r)"
  using assms by (simp add: buildValue.simps [of d] parseToken_quoted stringText_quoted decodeString_text)

text \<open>One member, followed by a comma and another one, or by the end of the object.\<close>

lemma object_member:
  assumes "Suc d \<le> stackLimit"
  shows "objectLoop d (member_line (k, v) @ 44 # 10 # member_line (k2, v2) @ r) ob =
      objectLoop d (member_line (k2, v2) @ r) (dict_set k (StringValue v) ob)"
    and "objectLoop d (member_line (k, v) @ 10 # 125 # r) ob = Some (dict_set k (StringValue v) ob, r)"
proof -
  have run: "objectLoop d (member_line (k, v) @ r) ob =
     (case parseToken (skipWhitespaceAndComments r) of (token2, _, start3) \<Rightarrow>
        if token2 = ListSeparator then
          (case parseToken start3 of (token3, _, _) \<Rightarrow>
             if token3 = ObjectEnd then None
             else objectLoop d start3 (setValue k (StringValue v) ob))
        else if token2 \<noteq> ObjectEnd then None
        else Some (setValue k (StringValue v) ob, start3))" for r
    by (simp add: member_line_def)
      (subst objectLoop.simps, simp add: parseToken_quoted stringText_quoted decodeString_text parseToken_punct
        value_line [OF assms])
  show "objectLoop d (member_line (k, v) @ 44 # 10 # member_line (k2, v2) @ r) ob =
      objectLoop d (member_line (k2, v2) @ r) (dict_set k (StringValue v) ob)"
    unfolding run by (simp add: skip_id isSpaceOrNewLine_def parseToken_punct setValue_def)
      (simp add: member_line_def parseToken_quoted setValue_def)
  show "objectLoop d (member_line (k, v) @ 10 # 125 # r) ob = Some (dict_set k (StringValue v) ob, r)"
    unfolding run by (simp add: skip_id isSpaceOrNewLine_def parseToken_punct setValue_def)
qed


lemma object_members:
  assumes "Suc d \<le> stackLimit" and "es \<noteq> []"
  shows "objectLoop d (join [44, 10] (map member_line es) @ 10 # 125 # r) ob =
    Some (fold (\<lambda>(k, v). dict_set k (StringValue v)) es ob, r)"
  using assms(2)
proof (induction es arbitrary: ob)
  case (Cons e es)
  obtain k v where e: "e = (k, v)" by (cases e)
  show ?case
  proof (cases es)
    case Nil
    then show ?thesis using object_member(2) [OF assms(1)] e by simp
  next
    case (Cons e2 es2)
    obtain k2 v2 where e2: "e2 = (k2, v2)" by (cases e2)
    obtain z where z: "join [44, 10] (map member_line es) @ 10 # 125 # r = member_line (k2, v2) @ z"
      using Cons e2 by (cases es2) auto
    have "objectLoop d (join [44, 10] (map member_line (e # es)) @ 10 # 125 # r) ob =
        objectLoop d (member_line (k, v) @ 44 # 10 # member_line (k2, v2) @ z) ob"
      using z Cons e by simp
    also have "\<dots> = objectLoop d (member_line (k2, v2) @ z) (dict_set k (StringValue v) ob)"
      by (rule object_member(1) [OF assms(1)])
    also have "\<dots> = Some (fold (\<lambda>(k, v). dict_set k (StringValue v)) (e # es) ob, r)"
      unfolding z [symmetric] using Cons.IH [of "dict_set k (StringValue v) ob"] Cons e by simp
    finally show ?thesis .
  qed
qed simp

definition object_lines :: "(string16 \<times> string16) list \<Rightarrow> string16" where
  "object_lines es = [123, 10] @ join [44, 10] (map member_line es) @ [10, 125]"

definition lines_value :: "(string16 \<times> string16) list \<Rightarrow> val" where
  "lines_value es = Dict (fold (\<lambda>(k, v). dict_set k (StringValue v)) es dict_create)"

lemma object_lines_value:
  assumes "Suc d \<le> stackLimit" and "es \<noteq> []"
  shows "buildValue d (object_lines es @ r) = Some (lines_value es, skipWhitespaceAndComments r)"
  using object_members [OF assms, of r dict_create] assms(1)
  by (simp add: buildValue.simps [of d] object_lines_def parseToken_punct lines_value_def)

subsection \<open>The array\<close>

lemma array_lines:
  assumes "Suc (Suc d) \<le> stackLimit" and "ess \<noteq> []" and "\<forall>es \<in> set ess. es \<noteq> []"
  shows "arrayLoop d (32 # join [44, 32] (map object_lines ess) @ 32 # 93 # r) vs =
    Some (vs @ map lines_value ess, r)"
  using assms(2,3)
proof (induction ess arbitrary: vs)
  case (Cons es ess)
  have first: "parseToken (object_lines es @ t) = (ObjectBegin, object_lines es @ t, tl (object_lines es @ t))" for es t
    by (simp add: object_lines_def parseToken_punct)
  note vals = object_lines_value [OF assms(1), of es]
  show ?case
  proof (cases ess)
    case Nil
    show ?thesis
      using Cons.prems vals Nil
      by (simp add: arrayLoop.simps [of d "object_lines es @ _"] first skip_id isSpaceOrNewLine_def parseToken_punct)
  next
    case (Cons es2 ess2)
    let ?s = "32 # join [44, 32] (map object_lines ess) @ 32 # 93 # r"
    obtain z where z: "?s = 32 # object_lines es2 @ z" using Cons by (cases ess2) auto
    have "arrayLoop d (32 # join [44, 32] (map object_lines (es # ess)) @ 32 # 93 # r) vs =
        arrayLoop d (object_lines es @ 44 # ?s) vs"
      using Cons by simp
    also have "\<dots> = arrayLoop d ?s (vs @ [lines_value es])"
      unfolding z using Cons.prems vals
      by (simp add: arrayLoop.simps [of d "object_lines es @ _"] first skip_id isSpaceOrNewLine_def parseToken_punct)
    also have "\<dots> = Some (vs @ map lines_value (es # ess), r)"
      using Cons.IH [of "vs @ [lines_value es]"] Cons.prems Cons by simp
    finally show ?thesis .
  qed
qed simp

lemma array_lines_json:
  assumes "\<forall>es \<in> set ess. es \<noteq> []"
  shows "parseJSON ([91] @ (if ess = [] then [] else [32]) @ join [44, 32] (map object_lines ess) @ [32, 93]) =
    Some (ListValue (map lines_value ess))"
proof (cases "ess = []")
  case True
  then show ?thesis
    by (simp add: parseJSON_def parseJSONInternal_def buildValue.simps [of 0] parseToken_punct stackLimit_def
        arrayLoop.simps)
next
  case False
  have "arrayLoop 0 (32 # join [44, 32] (map object_lines ess) @ 32 # 93 # []) [] = Some (map lines_value ess, [])"
    using array_lines [OF _ False assms, of 0 "[]" "[]"] by (simp add: stackLimit_def)
  then show ?thesis
    using False by (simp add: parseJSON_def parseJSONInternal_def buildValue.simps [of 0] parseToken_punct stackLimit_def
        del: arrayLoop_space)
qed


subsection \<open>The text of the service\<close>

definition handler_members :: "16 word \<Rightarrow> string \<Rightarrow> (string \<times> string) list" where
  "handler_members port ident =
     [(''description'', ''ChakraCore instance''),
      (''devtoolsFrontendUrl'',
        ''chrome-devtools://devtools/bundled/inspector.html?experiments=true&v8only=true&ws=localhost:'' @
        dec_nat (unat port) @ ''/'' @ ident),
      (''id'', ident),
      (''title'', ''ChakraCore instance''),
      (''type'', ''node''),
      (''url'', ''file://''),
      (''webSocketDebuggerUrl'', ''ws://localhost:'' @ dec_nat (unat port) @ ''/'' @ ident)]"

definition member_text :: "string \<times> string \<Rightarrow> string" where
  "member_text e = ''  \"'' @ fst e @ ''\": \"'' @ snd e @ ''\"''"

lemma list_entry_members:
  "list_entry port ident = '' {'' @ CHR 0x0A # join [CHR '','', CHR 0x0A] (map member_text (handler_members port ident)) @
     CHR 0x0A # ''}''"
  by (simp add: list_entry_def text_line_def handler_members_def member_text_def)

definition lit_pair :: "string \<times> string \<Rightarrow> string16 \<times> string16" where
  "lit_pair e = (lit (fst e), lit (snd e))"

lemma lit_join: "lit (join sep ss) = join (lit sep) (map lit ss)"
  by (induction sep ss rule: join.induct) (simp_all add: lit_append)

lemma member_text_line:
  assumes "list_all plain_char (fst e)" and "list_all plain_char (snd e)"
  shows "lit (member_text e) = member_line (lit_pair e)"
  using assms
  by (simp add: member_text_def member_line_def lit_pair_def quoted_lit lit_append lit_quote lit_Cons uc_widen ascii_def)

lemma dec_nat_plain: "list_all plain_char (dec_nat n)"
proof (unfold list_all_iff, intro ballI)
  fix c
  assume "c \<in> set (dec_nat n)"
  then have "is_digit c" using dec_nat_digits [of n] by blast
  then have b: "48 \<le> (of_char c :: nat)" "(of_char c :: nat) \<le> 57" by (simp_all add: is_digit_def)
  then have "c \<noteq> CHR 0x22" "c \<noteq> CHR 0x5C" by auto
  then show "plain_char c" using b by (simp add: plain_char_def)
qed

lemma members_plain:
  assumes "list_all plain_char ident"
  shows "\<forall>e \<in> set (handler_members port ident). list_all plain_char (fst e) \<and> list_all plain_char (snd e)"
  using assms dec_nat_plain by (simp add: handler_members_def plain_char_def)

lemma list_entry_lines:
  assumes "list_all plain_char ident"
  shows "lit (list_entry port ident) = 32 # object_lines (map lit_pair (handler_members port ident))"
proof -
  have "map (lit \<circ> member_text) (handler_members port ident) =
      map (member_line \<circ> lit_pair) (handler_members port ident)"
    using member_text_line members_plain [OF assms, of port] by (intro map_cong) auto
  then have "map lit (map member_text (handler_members port ident)) =
      map member_line (map lit_pair (handler_members port ident))" by simp
  then show ?thesis
    unfolding list_entry_members object_lines_def
    by (simp add: lit_append lit_join lit_Cons uc_widen ascii_def del: map_map map_eq_conv)
qed

text \<open>The value the body stands for.\<close>

definition handler_value :: "16 word \<Rightarrow> string \<Rightarrow> val" where
  "handler_value port ident = lines_value (map lit_pair (handler_members port ident))"

lemma list_entries_text:
  assumes "\<forall>e \<in> set hs. list_all plain_char (sh_id (snd e))"
  shows "lit (list_entries port first hs) =
    (if first \<or> hs = [] then [] else [44]) @ (if hs = [] then [] else [32]) @
    join [44, 32] (map (\<lambda>e. object_lines (map lit_pair (handler_members port (sh_id (snd e))))) hs)"
  using assms
proof (induction hs arbitrary: first)
  case (Cons e hs)
  obtain ident h where e: "e = (ident, h)" by (cases e)
  have entry: "lit (list_entry port (sh_id h)) = 32 # object_lines (map lit_pair (handler_members port (sh_id h)))"
    by (rule list_entry_lines) (use Cons.prems e in simp)
  show ?case
    using Cons.IH [of False] Cons.prems entry e
    by (cases hs) (simp_all add: lit_append lit_Cons uc_widen ascii_def)
qed simp

theorem list_json_value:
  assumes "\<forall>e \<in> set (m_handlers sv). list_all plain_char (sh_id (snd e))"
  shows "parseJSON (lit (list_json sv)) =
    Some (ListValue (map (\<lambda>e. handler_value (m_port sv) (sh_id (snd e))) (m_handlers sv)))"
proof -
  let ?ess = "map (\<lambda>e. map lit_pair (handler_members (m_port sv) (sh_id (snd e)))) (m_handlers sv)"
  have "\<forall>es \<in> set ?ess. es \<noteq> []" by (auto simp: handler_members_def)
  from array_lines_json [OF this] show ?thesis
    unfolding list_json_def
    by (simp add: lit_append list_entries_text [OF assms] lit_Cons uc_widen ascii_def comp_def handler_value_def)
qed

lemma handler_value_fields:
  obtains d where "handler_value port ident = Dict d" and "getString d (lit ''id'') = Some (lit ident)"
    and "getString d (lit ''webSocketDebuggerUrl'') =
      Some (lit (''ws://localhost:'' @ dec_nat (unat port) @ ''/'' @ ident))"
  by (rule that [OF handler_value_def [unfolded lines_value_def]])
    (simp_all add: handler_members_def lit_pair_def getString_def)

end
