(* ===== verification/SampleService.thy ===== *)
theory SampleService
  imports ServiceList SampleEngine
begin

section \<open>A small network to evaluate the service on\<close>

text \<open>
  The network is the list of open connections; every call for an open connection succeeds, and every connection asks for the
  resource \<open>/a\<close>.
\<close>

definition sample_server :: "nat list Websocket" where
  "sample_server =
     \<lparr>expired = (\<lambda>c n. c \<notin> set n),
      get_con_from_hdl = (\<lambda>c n. (if c \<in> set n then Inr (Some c) else Inl ''Bad Connection'', n)),
      get_resource = (\<lambda>_ _. ''/a''),
      set_message_handler = (\<lambda>_ _ n. n), set_close_handler = (\<lambda>_ _ n. n),
      close_connection = (\<lambda>_ _ n. (Inr (), n)), close_hdl = (\<lambda>_ _ n. (Inr (), n)), send_text = (\<lambda>_ _ n. (Inr (), n)),
      append_header = (\<lambda>_ _ _ n. n), set_body = (\<lambda>_ _ n. n), set_status = (\<lambda>_ _ n. n),
      ws_listen = (\<lambda>_ _ n. (Inr (), n)), start_accept = (\<lambda>n. (Inr (), n)), stop_listening = (\<lambda>n. (Inr (), n))\<rparr>"

text \<open>A service without handlers, with connections 5 and 6 open and protocol handler 3 created; then with the handler registered.\<close>

definition sample_world :: "(nat list, nat) World" where
  "sample_world = \<lparr>network = [5, 6], engine = 0, protocol_handlers = [3 \<mapsto> Handler_init 1], next_address = 0,
     web_service = Service_new\<rparr>"

definition sample_entry :: ServiceHandler where
  "sample_entry = ServiceHandler_new 0 ''a'' (Some 3) False"

definition sample_registered :: "(nat list, nat) World" where
  "sample_registered = sample_world\<lparr>next_address := 1, web_service := Service_new\<lparr>m_handlers := [(''a'', sample_entry)]\<rparr>\<rparr>"

lemma sample_world_reachable: "service_reachable (\<lambda>_. sample_env) sample_server sample_world"
proof -
  let ?s = "sample_world\<lparr>protocol_handlers := Map.empty\<rparr>"
  have "service_reachable (\<lambda>_. sample_env) sample_server ?s"
    by (rule service_reachable.start) (simp_all add: sample_world_def)
  moreover have "service_step (\<lambda>_. sample_env) sample_server ?s
      (?s\<lparr>protocol_handlers := (protocol_handlers ?s)(3 := Some (Handler_init 1))\<rparr>)"
    by (rule service_step.handler_created) simp
  ultimately have "service_reachable (\<lambda>_. sample_env) sample_server
      (?s\<lparr>protocol_handlers := (protocol_handlers ?s)(3 := Some (Handler_init 1))\<rparr>)"
    by (rule service_reachable.step)
  then show ?thesis by (simp add: sample_world_def)
qed

lemma sample_registered_reachable: "service_reachable (\<lambda>_. sample_env) sample_server sample_registered"
proof (rule service_reachable.step [OF sample_world_reachable])
  have "JsDebugServiceRegisterHandler (\<lambda>_. sample_env) sample_server (Some ()) ''a'' (Some 3) False sample_world =
      (Inr JsNoError, sample_registered)"
    by (simp add: JsDebugServiceRegisterHandler_def TranslateExceptionFor_def TranslateException_def RegisterHandler_def
        M_defs getS_def modS_def sample_world_def Service_new_def sample_registered_def sample_entry_def Let_def)
  then show "service_step (\<lambda>_. sample_env) sample_server sample_world sample_registered"
    by (rule service_step.register)
qed

text \<open>Connection 5 is accepted.\<close>

lemma sample_validate:
  "OnValidate (\<lambda>_. sample_env) sample_server 5 sample_registered =
     (Inr True, sample_registered\<lparr>
        protocol_handlers := [3 \<mapsto> (Handler_init 1)\<lparr>m_sendResponseCallback := Some SendResponseCallback,
          m_sendResponseCallbackState := 0, m_commandQueue := [(CommandConnect, [])]\<rparr>],
        web_service := with_client 0 5 (web_service sample_registered)\<rparr>)"
  by (simp add: OnValidate_def ServiceHandler_Connect_def call_handler_def get_con_def ws_def on_network_def getSH_def
      modSH_def handler_at_def hdl_expired_def M_defs getS_def modS_def sample_world_def Service_new_def
      sample_registered_def sample_entry_def sample_server_def ServiceHandler_new_def ServiceHandler.make_def with_client_def
      JsDebugProtocolHandlerConnect_def TranslateExceptionFor_def TranslateException_def Connect_def EnqueueCommand_def
      RequestAsyncBreak_def getH_def modH_def Handler_init_def Handler.make_def js_def jsrt_def IfJsErrorThrow_def)

end
