(* ===== verification/CommandLine.thy ===== *)
theory CommandLine
  imports ErrorHelpers String16 "HOL-Library.Sublist"
begin

section \<open>The command line of the sample host\<close>

text \<open>
  \<open>CommandLineArguments\<close> of \<open>Debugger.Sample.cpp\<close>.  The arguments are wide strings; \<open>argv\<close> is the list behind the
  program's own name.  \<open>std::stoi\<close> is the standard library's: white space, a sign, decimal digits, and an exception
  when there are none or the value is no \<open>int\<close>.
\<close>

record CommandLineArguments =
  breakOnNextLine :: bool
  enableDebugging :: bool
  show_help :: bool
  enableConsoleRedirect :: bool
  loadScriptUsingBuffer :: bool
  port :: cint
  scripts :: "string16 list"
  scriptArgs :: "string16 list"

definition CommandLineArguments_new :: CommandLineArguments where
  "CommandLineArguments_new = CommandLineArguments.make False False False True False 9229 [] []"

definition wide_space :: "uchar \<Rightarrow> bool" where
  "wide_space c \<longleftrightarrow> c = 0x20 \<or> 0x9 \<le> c \<and> c \<le> 0xD"

definition wide_digit :: "uchar \<Rightarrow> bool" where
  "wide_digit c \<longleftrightarrow> 0x30 \<le> c \<and> c \<le> 0x39"

definition wide_digits_value :: "string16 \<Rightarrow> int" where
  "wide_digits_value ds = foldl (\<lambda>n c. 10 * n + int (unat c - 0x30)) 0 ds"

definition stoi :: "string16 \<Rightarrow> fault + cint" where
  "stoi s =
     (let s1 = dropWhile wide_space s;
          negative = (s1 \<noteq> [] \<and> hd s1 = 0x2D);
          s2 = (if s1 \<noteq> [] \<and> (hd s1 = 0x2D \<or> hd s1 = 0x2B) then tl s1 else s1);
          ds = takeWhile wide_digit s2;
          n = (if negative then - wide_digits_value ds else wide_digits_value ds)
      in if ds = [] then Inl (Throw InvalidArgument)
         else if n < - (2 ^ 31) \<or> 2 ^ 31 \<le> n then Inl (Throw OutOfRange)
         else Inr (word_of_int n))"

text \<open>The loop over the arguments with its flag \<open>foundScript\<close>.\<close>

fun parse_arguments ::
  "bool \<Rightarrow> string16 list \<Rightarrow> CommandLineArguments \<Rightarrow> fault + CommandLineArguments" where
  "parse_arguments foundScript [] this = Inr this"
| "parse_arguments foundScript (arg # rest) this =
     (if \<not> foundScript \<and> 0 < length arg \<and> hd arg = uc (CHR ''-'') then
        if arg = lit ''--inspect'' then parse_arguments foundScript rest (this\<lparr>enableDebugging := True\<rparr>)
        else if arg = lit ''--inspect-brk'' then
          parse_arguments foundScript rest (this\<lparr>enableDebugging := True, breakOnNextLine := True\<rparr>)
        else if arg = lit ''--port'' \<or> arg = lit ''-p'' then
          (case rest of
             [] \<Rightarrow> Inr this
           | v # rest' \<Rightarrow>
               (case stoi v of
                  Inl f \<Rightarrow> Inl f
                | Inr n \<Rightarrow> parse_arguments foundScript rest' (this\<lparr>port := n\<rparr>)))
        else if arg = lit ''--script'' then
          (case rest of
             [] \<Rightarrow> Inr this
           | script # rest' \<Rightarrow> parse_arguments foundScript rest' (this\<lparr>scripts := scripts this @ [script]\<rparr>))
        else if arg = lit ''--buffer'' then
          parse_arguments foundScript rest (this\<lparr>loadScriptUsingBuffer := True\<rparr>)
        else if arg = lit ''--no-console-redirect'' then
          parse_arguments foundScript rest (this\<lparr>enableConsoleRedirect := False\<rparr>)
        else parse_arguments foundScript rest (this\<lparr>show_help := True\<rparr>)
      else parse_arguments True rest (this\<lparr>scriptArgs := scriptArgs this @ [arg]\<rparr>))"

definition ParseCommandLine :: "string16 list \<Rightarrow> CommandLineArguments \<Rightarrow> fault + CommandLineArguments" where
  "ParseCommandLine argv this =
     (case parse_arguments False argv this of
        Inl f \<Rightarrow> Inl f
      | Inr a \<Rightarrow>
          Inr (if sint (port a) \<le> 0 \<or> sint (port a) > 65535 \<or> scriptArgs a = []
               then a\<lparr>show_help := True\<rparr> else a))"

subsection \<open>Properties\<close>

text \<open>Behind the script nothing is a host flag any more.\<close>

lemma parse_arguments_script:
  "parse_arguments True args this = Inr (this\<lparr>scriptArgs := scriptArgs this @ args\<rparr>)"
  by (induction args arbitrary: this) simp_all

definition host_argument :: "string16 \<Rightarrow> bool" where
  "host_argument arg \<longleftrightarrow> arg \<noteq> [] \<and> hd arg = uc (CHR ''-'')"

text \<open>A host flag uses up itself and at most one more argument, and leaves the script's arguments alone.\<close>

lemma parse_arguments_flag:
  assumes "parse_arguments False (arg # rest) this = Inr a" and "host_argument arg"
    and "breakOnNextLine this \<longrightarrow> enableDebugging this"
  obtains "a = this"
  | rest' this' where "parse_arguments False rest' this' = Inr a" and "suffix rest' rest"
    and "scriptArgs this' = scriptArgs this" and "breakOnNextLine this' \<longrightarrow> enableDebugging this'"
proof -
  have flag: "\<not> False \<and> 0 < length arg \<and> hd arg = uc (CHR ''-'')"
    using assms(2) by (simp add: host_argument_def)
  have "a = this \<or> (\<exists>rest' this'. parse_arguments False rest' this' = Inr a \<and> suffix rest' rest \<and>
      scriptArgs this' = scriptArgs this \<and> (breakOnNextLine this' \<longrightarrow> enableDebugging this'))"
    using assms(1,3)
    unfolding parse_arguments.simps(2) if_P [OF flag]
    by (simp split: if_split_asm list.split_asm sum.split_asm)
       (rule disjI2, intro exI conjI, assumption, simp_all add: suffix_ConsI)+
  then show thesis using that by blast
qed

text \<open>What the loop has done when it ends: the script's arguments are the end of the command line.\<close>

lemma parse_arguments_result:
  assumes "parse_arguments False argv this = Inr a" and "scriptArgs this = []"
    and "breakOnNextLine this \<longrightarrow> enableDebugging this"
  shows "suffix (scriptArgs a) argv \<and> (scriptArgs a \<noteq> [] \<longrightarrow> \<not> host_argument (hd (scriptArgs a))) \<and>
    (breakOnNextLine a \<longrightarrow> enableDebugging a)"
  using assms
proof (induction argv arbitrary: this rule: length_induct)
  case (1 argv)
  show ?case
  proof (cases argv)
    case Nil
    then show ?thesis using "1.prems" by simp
  next
    case (Cons arg rest)
    show ?thesis
    proof (cases "host_argument arg")
      case False
      then have "a = this\<lparr>scriptArgs := argv\<rparr>"
        using "1.prems" Cons by (auto simp: host_argument_def parse_arguments_script)
      then show ?thesis using "1.prems" False Cons by simp
    next
      case True
      show ?thesis
        using "1.prems"(1) [unfolded Cons] True "1.prems"(3)
      proof (cases rule: parse_arguments_flag)
        case 1
        then show ?thesis using "1.prems" by simp
      next
        case (2 rest' this')
        then have "length rest' < length argv" and "suffix rest' argv"
          using Cons by (auto dest: suffix_length_le intro: suffix_ConsI)
        then show ?thesis
          using "1.IH" 2 "1.prems"(2) by (metis suffix_order.trans)
      qed
    qed
  qed
qed

text \<open>The only exceptions are those of \<open>std::stoi\<close> on the number behind \<open>--port\<close>.\<close>

lemma stoi_fault: "stoi s = Inl f \<Longrightarrow> f = Throw InvalidArgument \<or> f = Throw OutOfRange"
  by (auto simp: stoi_def Let_def split: if_split_asm)

lemma parse_arguments_fault:
  "parse_arguments found argv this = Inl f \<Longrightarrow> f = Throw InvalidArgument \<or> f = Throw OutOfRange"
proof (induction found argv this rule: parse_arguments.induct)
  case (1 found this)
  then show ?case by simp
next
  case (2 found arg rest this)
  show ?case
  proof (cases "\<not> found \<and> 0 < length arg \<and> hd arg = uc (CHR ''-'')")
    case False
    then show ?thesis using "2.prems" by (simp only: parse_arguments.simps(2) if_False parse_arguments_script sum.distinct)
  next
    case True
    show ?thesis
      using "2.prems" unfolding parse_arguments.simps(2) if_P [OF True]
      by (simp only: split: if_split_asm list.split_asm sum.split_asm)
         (simp_all add: "2.IH"(1-7) [OF True] stoi_fault)
  qed
qed

text \<open>\<open>static_cast<uint16_t>\<close> keeps a port that passed the check.\<close>

lemma port_narrows:
  fixes n :: cint
  assumes "0 < sint n" and "sint n \<le> 65535"
  shows "uint (ucast n :: 16 word) = sint n"
proof -
  have "uint n = sint n" unfolding uint_sint by (rule take_bit_int_eq_self) (use assms in simp_all)
  then show ?thesis using assms by (simp add: unsigned_ucast_eq take_bit_eq_mod)
qed

lemma ParseCommandLine_result:
  assumes "ParseCommandLine argv this = Inr a" and "\<not> show_help a"
  shows "parse_arguments False argv this = Inr a" and "0 < sint (port a)" and "sint (port a) \<le> 65535"
    and "scriptArgs a \<noteq> []"
  using assms by (auto simp: ParseCommandLine_def split: sum.split_asm if_split_asm)

lemma CommandLineArguments_new_simps [simp]:
  "scriptArgs CommandLineArguments_new = []" "\<not> breakOnNextLine CommandLineArguments_new"
  by (simp_all add: CommandLineArguments_new_def CommandLineArguments.make_def)

end
