(* ===== verification/Builder.thy ===== *)
theory Builder
  imports Prelude
begin

section \<open>The builders of the protocol types\<close>

text \<open>
  Every class of \<open>Generated/protocol/*.h\<close> has a nested class template \<open>XBuilder<int STATE>\<close>: \<open>STATE\<close> has a bit for
  every required property that has been set.  A setter of a required property asserts at compile time that its bit is not set
  and returns the builder with the bit set; a setter of an optional property returns the same builder; \<open>build\<close> asserts
  that all bits are set.  A chain of calls that does not compile is \<open>None\<close> here.
\<close>

unbundle bit_operations_syntax

record 'r builder =
  STATE :: cint
  m_result :: 'r

text \<open>A call of a setter: the bit of its property, if that is required, and what it does to the object.\<close>

datatype 'r setter = Setter (setter_flag: "nat option") (setter_put: "'r \<Rightarrow> 'r")

definition field_flag :: "nat \<Rightarrow> cint" where
  "field_flag k = push_bit k 1"

definition all_fields :: "nat list \<Rightarrow> cint" where
  "all_fields ks = foldr (\<lambda>k s. field_flag k OR s) ks 0"

definition required_field :: "nat \<Rightarrow> ('r \<Rightarrow> 'r) \<Rightarrow> 'r setter" where
  "required_field k = Setter (Some k)"

definition optional_field :: "('r \<Rightarrow> 'r) \<Rightarrow> 'r setter" where
  "optional_field = Setter None"

definition create_builder :: "'r \<Rightarrow> 'r builder" where
  "create_builder object = \<lparr>STATE = 0, m_result = object\<rparr>"

definition castState :: "cint \<Rightarrow> 'r builder \<Rightarrow> 'r builder" where
  "castState step b = b\<lparr>STATE := STATE b OR step\<rparr>"

definition call_setter :: "'r setter \<Rightarrow> 'r builder \<Rightarrow> 'r builder option" where
  "call_setter c b =
     (case setter_flag c of
        Some k \<Rightarrow>
          if STATE b AND field_flag k \<noteq> 0 then None
          else Some (castState (field_flag k) (b\<lparr>m_result := setter_put c (m_result b)\<rparr>))
      | None \<Rightarrow> Some (b\<lparr>m_result := setter_put c (m_result b)\<rparr>))"

fun call_setters :: "'r setter list \<Rightarrow> 'r builder \<Rightarrow> 'r builder option" where
  "call_setters [] b = Some b"
| "call_setters (c # cs) b = Option.bind (call_setter c b) (call_setters cs)"

definition build :: "cint \<Rightarrow> 'r builder \<Rightarrow> 'r option" where
  "build AllFieldsSet b = (if STATE b = AllFieldsSet then Some (m_result b) else None)"

text \<open>\<open>X::create().setA(a).setB(b).build()\<close>\<close>

definition built :: "cint \<Rightarrow> 'r \<Rightarrow> 'r setter list \<Rightarrow> 'r option" where
  "built AllFieldsSet object calls = Option.bind (call_setters calls (create_builder object)) (build AllFieldsSet)"

subsection \<open>What compiles\<close>

lemmas setter_simps [simp] = required_field_def optional_field_def

abbreviation flags_of :: "'r setter list \<Rightarrow> nat list" where
  "flags_of calls \<equiv> List.map_filter setter_flag calls"

lemma set_flags: "k \<in> set (flags_of cs) \<longleftrightarrow> (\<exists>c \<in> set cs. setter_flag c = Some k)"
  by (induction cs) (auto simp: map_filter_simps split: option.split)

lemma flags_append: "flags_of (cs @ ds) = flags_of cs @ flags_of ds"
  by (induction cs) (auto simp: map_filter_simps split: option.split)

lemma field_flag_set: "s AND field_flag k \<noteq> 0 \<longleftrightarrow> bit s k"
  by (simp add: field_flag_def bit_iff_and_push_bit_not_eq_0)

lemma bit_field_flag: "k < 32 \<Longrightarrow> bit (field_flag k) n \<longleftrightarrow> n = k"
  by (auto simp: field_flag_def bit_simps)

lemma bit_all_fields: "\<forall>k \<in> set ks. k < 32 \<Longrightarrow> bit (all_fields ks) n \<longleftrightarrow> n \<in> set ks"
  by (induction ks) (auto simp: all_fields_def bit_or_iff bit_field_flag)

lemma all_fields_eq:
  assumes "\<forall>k \<in> set ks \<union> set ls. k < 32"
  shows "all_fields ks = all_fields ls \<longleftrightarrow> set ks = set ls"
  using assms by (auto simp: bit_eq_iff bit_all_fields)

lemma call_setters_result:
  assumes "\<forall>k \<in> set (flags_of cs). k < 32"
  shows "call_setters cs b =
    (if distinct (flags_of cs) \<and> (\<forall>k \<in> set (flags_of cs). \<not> bit (STATE b) k)
     then Some \<lparr>STATE = STATE b OR all_fields (flags_of cs), m_result = fold setter_put cs (m_result b)\<rparr> else None)"
  using assms
proof (induction cs arbitrary: b)
  case (Cons c cs)
  show ?case
  proof (cases "setter_flag c")
    case None
    then show ?thesis using Cons by (simp add: call_setter_def map_filter_simps)
  next
    case (Some k)
    show ?thesis
    proof (cases "bit (STATE b) k")
      case True
      then show ?thesis using Some by (simp add: call_setter_def map_filter_simps field_flag_set)
    next
      case False
      then have "k < 32 \<and> (\<forall>j \<in> set (flags_of cs). j < 32)" using Cons.prems Some by (simp add: map_filter_simps)
      then show ?thesis
        using Cons.IH False Some
        by (auto simp: call_setter_def map_filter_simps field_flag_set castState_def bit_or_iff bit_field_flag
            all_fields_def ac_simps)
    qed
  qed
qed (simp add: all_fields_def map_filter_simps)

text \<open>
  The contract of a builder class: its setters have the bits of its required properties.  Exactly the chains that set
  every required property once compile, and the object is what the setters do to a new one.
\<close>

locale builder_class =
  fixes setters :: "'r setter set" and required :: "nat list" and AllFieldsSet :: cint
  assumes setter_required: "c \<in> setters \<Longrightarrow> setter_flag c = Some k \<Longrightarrow> k \<in> set required"
    and required_bits: "distinct required" "\<forall>k \<in> set required. k < 32"
    and all_set: "AllFieldsSet = all_fields required"
begin

lemma flags_required: "set cs \<subseteq> setters \<Longrightarrow> set (flags_of cs) \<subseteq> set required"
  using setter_required by (auto simp: set_flags subset_iff)

lemma built_result:
  assumes "set cs \<subseteq> setters"
  shows "built AllFieldsSet object cs =
    (if distinct (flags_of cs) \<and> set (flags_of cs) = set required then Some (fold setter_put cs object) else None)"
proof -
  have bits: "\<forall>k \<in> set (flags_of cs). k < 32"
    using flags_required [OF assms] required_bits by auto
  have "all_fields (flags_of cs) = all_fields required \<longleftrightarrow> set (flags_of cs) = set required"
    using bits required_bits by (intro all_fields_eq) auto
  then show ?thesis
    by (simp add: built_def call_setters_result [OF bits] create_builder_def build_def all_set)
qed

end

text \<open>A member that only the setter with bit \<open>k\<close> writes has, at the end, what that one call has put there.\<close>

lemma flag_once:
  assumes "distinct (flags_of cs)" and "c \<in> set cs" and "d \<in> set cs"
    and "setter_flag c = Some k" and "setter_flag d = Some k"
  shows "c = d"
  using assms
proof (induction cs)
  case (Cons b cs)
  then show ?case by (cases "setter_flag b = Some k") (auto simp: map_filter_simps set_flags split: option.splits)
qed simp

lemma fold_keeps:
  assumes "\<And>c r. c \<in> set cs \<Longrightarrow> sel (setter_put c r) = sel r"
  shows "sel (fold setter_put cs r) = sel r"
  using assms by (induction cs arbitrary: r) auto

lemma fold_setter_once:
  assumes "distinct (flags_of cs)" and "k \<in> set (flags_of cs)"
    and "\<And>c r. c \<in> set cs \<Longrightarrow> setter_flag c \<noteq> Some k \<Longrightarrow> sel (setter_put c r) = sel r"
  obtains c r' where "c \<in> set cs" and "setter_flag c = Some k" and "sel (fold setter_put cs r) = sel (setter_put c r')"
proof -
  obtain c where c: "c \<in> set cs" "setter_flag c = Some k"
    using assms(2) by (auto simp: set_flags)
  then obtain xs ys where cs: "cs = xs @ c # ys" by (meson split_list)
  have "setter_flag d \<noteq> Some k" if "d \<in> set ys" for d
    using assms(1) that c(2) by (auto simp: cs flags_append map_filter_simps set_flags)
  then have "sel (fold setter_put ys r') = sel r'" for r'
    by (intro fold_keeps assms(3)) (auto simp: cs)
  then show thesis using c by (intro that [of c "fold setter_put xs r"]) (auto simp: cs)
qed

end
