(* ===== verification/TypeTexts.thy ===== *)
theory TypeTexts
  imports DebuggerTypes JsonRoundtrip Frontend
begin

section \<open>Copies and texts of the protocol types\<close>

text \<open>
  The \<open>clone\<close> of every generated class writes the object as a JSON value and reads that again.  The classes other
  programs may use (\<open>API\<close>) are read from a text by \<open>fromJSONString\<close>; their \<open>toJSONString\<close> ends in
  \<open>StringBufferImpl::adopt\<close>, which is not implemented: it fails an assertion and, where assertions are compiled out, returns
  a null pointer.  \<open>Object\<close> holds a dictionary.  \<open>InspectRequestedNotification\<close> is the one type with a required
  dictionary: its reader calls a method of that value without a test.
\<close>

subsection \<open>The shapes\<close>

definition clone_by :: "('a \<Rightarrow> val) \<Rightarrow> (val option \<Rightarrow> 'a option reader) \<Rightarrow> 'a \<Rightarrow> 'a option" where
  "clone_by toValue fromValue x = fst (run_state (fromValue (Some (toValue x))) no_errors)"

definition from_text :: "(val option \<Rightarrow> 'a option reader) \<Rightarrow> StringView \<Rightarrow> 'a option" where
  "from_text fromValue json =
     (case parseJSON_view json of
        None \<Rightarrow> None
      | Some value \<Rightarrow> fst (run_state (fromValue (Some value)) no_errors))"

typedecl StringBuffer

definition StringBufferImpl_adopt :: "string16 option \<Rightarrow> StringBuffer option" where
  "StringBufferImpl_adopt s = None"

text \<open>What a codec gives: copies are the object, and so is what is read from its text.\<close>

context object_codec
begin

lemma clone_by_toValue: "ok x \<Longrightarrow> clone_by toValue fromValue x = Some x"
  by (simp add: clone_by_def fromValue_toValue no_errors_def)

lemma from_text_toValue:
  assumes "ok x" and "plain_val (toValue x)" and "nesting (toValue x) \<le> stackLimit"
  shows "from_text fromValue (View16 (the (serialize (toValue x)))) = Some x"
proof -
  have "parseJSON (json_text (toValue x)) = Some (toValue x)"
    using parse_json_text [OF wf_toValue assms(2,3)] assms(1) by simp
  then have "parseJSON_view (View16 (json_text (toValue x))) = Some (toValue x)"
    by (simp add: parseJSON_def)
  then show ?thesis
    using assms(1) by (simp add: from_text_def serialize_wf wf_toValue fromValue_toValue no_errors_def)
qed

end

subsection \<open>Objects and lists\<close>

record Object =
  m_dictionary :: dict

definition Object_fromValue :: "val option \<Rightarrow> Object option reader" where
  "Object_fromValue value =
     (case DictionaryValue_cast value of
        None \<Rightarrow> do { update (addError (lit ''object expected'')); ret None }
      | Some dictionary \<Rightarrow> ret (map_option Object.make (DictionaryValue_cast (clone (Dict dictionary)))))"

definition Object_toValue :: "Object \<Rightarrow> dict option" where
  "Object_toValue x = DictionaryValue_cast (clone (Dict (m_dictionary x)))"

definition Object_clone :: "Object \<Rightarrow> Object option" where
  "Object_clone x = map_option Object.make (DictionaryValue_cast (clone (Dict (m_dictionary x))))"

definition ListValue_fromValue :: "val option \<Rightarrow> ErrorSupport \<Rightarrow> fault + val list option \<times> ErrorSupport" where
  "ListValue_fromValue value e =
     (let e' = (if map_option val_type value = Some TypeArray then e else addError (lit ''list expected'') e)
      in case value of
           None \<Rightarrow> Inl (Undefined NullDereference)
         | Some v \<Rightarrow> Inr (ListValue_cast (clone v), e'))"

subsection \<open>The notification with a required dictionary\<close>

record InspectRequestedNotification =
  m_object :: RemoteObject
  m_hints :: dict

definition InspectRequestedNotification_fromValue ::
  "val option \<Rightarrow> ErrorSupport \<Rightarrow> fault + InspectRequestedNotification option \<times> ErrorSupport" where
  "InspectRequestedNotification_fromValue value e =
     (if Option.bind (DictionaryValue_cast value) (\<lambda>object. Some (dict_get object (lit ''hints''))) = Some None
      then Inl (Undefined NullDereference)
      else Inr (run_state (fromObject value (\<lambda>get. do {
        obj \<leftarrow> required RemoteObject_fromValue get ''object'';
        hints \<leftarrow> required DictionaryValue_fromValue get ''hints'';
        ret (do { obj \<leftarrow> obj; hints \<leftarrow> hints; Some (InspectRequestedNotification.make obj hints) })
      })) e))"

definition InspectRequestedNotification_toValue :: "InspectRequestedNotification \<Rightarrow> val" where
  "InspectRequestedNotification_toValue x = build_object
     [setField RemoteObject_toValue ''object'' (InspectRequestedNotification.m_object x),
      setField Dict ''hints'' (InspectRequestedNotification.m_hints x)]"

definition InspectRequestedNotification_clone ::
  "InspectRequestedNotification \<Rightarrow> fault + InspectRequestedNotification option" where
  "InspectRequestedNotification_clone x =
     map_sum id fst (InspectRequestedNotification_fromValue (Some (InspectRequestedNotification_toValue x)) no_errors)"

definition Runtime_inspectRequested ::
  "'s FrontendChannel option \<Rightarrow> RemoteObject \<Rightarrow> dict \<Rightarrow> ('s, fault, unit) M" where
  "Runtime_inspectRequested channel object hints =
     send_notification channel ''Runtime.inspectRequested''
       (Some (InspectRequestedNotification_toValue (InspectRequestedNotification.make object hints)))"

text \<open>Its reader fails on an object without \<open>hints\<close>, whatever else the object holds, and on nothing else.\<close>

lemma inspect_requested_null:
  "InspectRequestedNotification_fromValue (Some (Dict d)) e = Inl (Undefined NullDereference) \<longleftrightarrow>
     dict_get d (lit ''hints'') = None"
  by (simp add: InspectRequestedNotification_fromValue_def Dict_def)

subsection \<open>Texts\<close>

definition RemoteObject_toJSONString :: "RemoteObject \<Rightarrow> StringBuffer option" where
  "RemoteObject_toJSONString x = StringBufferImpl_adopt (serialize (RemoteObject_toValue x))"

definition RemoteObject_fromJSONString :: "StringView \<Rightarrow> RemoteObject option" where
  "RemoteObject_fromJSONString json = from_text RemoteObject_fromValue json"

definition StackTrace_toJSONString :: "StackTrace \<Rightarrow> StringBuffer option" where
  "StackTrace_toJSONString x = StringBufferImpl_adopt (serialize (StackTrace_toValue x))"

definition StackTrace_fromJSONString :: "StringView \<Rightarrow> StackTrace option" where
  "StackTrace_fromJSONString json = from_text StackTrace_fromValue json"

definition SearchMatch_toJSONString :: "SearchMatch \<Rightarrow> StringBuffer option" where
  "SearchMatch_toJSONString x = StringBufferImpl_adopt (serialize (SearchMatch_toValue x))"

definition SearchMatch_fromJSONString :: "StringView \<Rightarrow> SearchMatch option" where
  "SearchMatch_fromJSONString json = from_text SearchMatch_fromValue json"

definition Domain_toJSONString :: "Domain \<Rightarrow> StringBuffer option" where
  "Domain_toJSONString x = StringBufferImpl_adopt (serialize (Domain_toValue x))"

definition Domain_fromJSONString :: "StringView \<Rightarrow> Domain option" where
  "Domain_fromJSONString json = from_text Domain_fromValue json"

subsection \<open>Copies\<close>

definition RemoteObject_clone :: "RemoteObject \<Rightarrow> RemoteObject option" where
  "RemoteObject_clone x = clone_by RemoteObject_toValue RemoteObject_fromValue x"

definition CustomPreview_clone :: "CustomPreview \<Rightarrow> CustomPreview option" where
  "CustomPreview_clone x = clone_by CustomPreview_toValue CustomPreview_fromValue x"

definition ObjectPreview_clone :: "ObjectPreview \<Rightarrow> ObjectPreview option" where
  "ObjectPreview_clone x = clone_by ObjectPreview_toValue ObjectPreview_fromValue x"

definition PropertyPreview_clone :: "PropertyPreview \<Rightarrow> PropertyPreview option" where
  "PropertyPreview_clone x = clone_by PropertyPreview_toValue PropertyPreview_fromValue x"

definition EntryPreview_clone :: "EntryPreview \<Rightarrow> EntryPreview option" where
  "EntryPreview_clone x = clone_by EntryPreview_toValue EntryPreview_fromValue x"

definition PropertyDescriptor_clone :: "PropertyDescriptor \<Rightarrow> PropertyDescriptor option" where
  "PropertyDescriptor_clone x = clone_by PropertyDescriptor_toValue PropertyDescriptor_fromValue x"

definition InternalPropertyDescriptor_clone :: "InternalPropertyDescriptor \<Rightarrow> InternalPropertyDescriptor option" where
  "InternalPropertyDescriptor_clone x = clone_by InternalPropertyDescriptor_toValue InternalPropertyDescriptor_fromValue x"

definition CallArgument_clone :: "CallArgument \<Rightarrow> CallArgument option" where
  "CallArgument_clone x = clone_by CallArgument_toValue CallArgument_fromValue x"

definition ExecutionContextDescription_clone :: "ExecutionContextDescription \<Rightarrow> ExecutionContextDescription option" where
  "ExecutionContextDescription_clone x = clone_by ExecutionContextDescription_toValue ExecutionContextDescription_fromValue x"

definition ExceptionDetails_clone :: "ExceptionDetails \<Rightarrow> ExceptionDetails option" where
  "ExceptionDetails_clone x = clone_by ExceptionDetails_toValue ExceptionDetails_fromValue x"

definition RtCallFrame_clone :: "RtCallFrame \<Rightarrow> RtCallFrame option" where
  "RtCallFrame_clone x = clone_by RtCallFrame_toValue RtCallFrame_fromValue x"

definition StackTrace_clone :: "StackTrace \<Rightarrow> StackTrace option" where
  "StackTrace_clone x = clone_by StackTrace_toValue StackTrace_fromValue x"

definition ExecutionContextCreatedNotification_clone :: "ExecutionContextCreatedNotification \<Rightarrow> ExecutionContextCreatedNotification option" where
  "ExecutionContextCreatedNotification_clone x = clone_by ExecutionContextCreatedNotification_toValue ExecutionContextCreatedNotification_fromValue x"

definition ExecutionContextDestroyedNotification_clone :: "ExecutionContextDestroyedNotification \<Rightarrow> ExecutionContextDestroyedNotification option" where
  "ExecutionContextDestroyedNotification_clone x = clone_by ExecutionContextDestroyedNotification_toValue ExecutionContextDestroyedNotification_fromValue x"

definition ExceptionThrownNotification_clone :: "ExceptionThrownNotification \<Rightarrow> ExceptionThrownNotification option" where
  "ExceptionThrownNotification_clone x = clone_by ExceptionThrownNotification_toValue ExceptionThrownNotification_fromValue x"

definition ExceptionRevokedNotification_clone :: "ExceptionRevokedNotification \<Rightarrow> ExceptionRevokedNotification option" where
  "ExceptionRevokedNotification_clone x = clone_by ExceptionRevokedNotification_toValue ExceptionRevokedNotification_fromValue x"

definition ConsoleAPICalledNotification_clone :: "ConsoleAPICalledNotification \<Rightarrow> ConsoleAPICalledNotification option" where
  "ConsoleAPICalledNotification_clone x = clone_by ConsoleAPICalledNotification_toValue ConsoleAPICalledNotification_fromValue x"

definition Location_clone :: "Location \<Rightarrow> Location option" where
  "Location_clone x = clone_by Location_toValue Location_fromValue x"

definition ScriptPosition_clone :: "ScriptPosition \<Rightarrow> ScriptPosition option" where
  "ScriptPosition_clone x = clone_by ScriptPosition_toValue ScriptPosition_fromValue x"

definition CallFrame_clone :: "CallFrame \<Rightarrow> CallFrame option" where
  "CallFrame_clone x = clone_by CallFrame_toValue CallFrame_fromValue x"

definition Scope_clone :: "Scope \<Rightarrow> Scope option" where
  "Scope_clone x = clone_by Scope_toValue Scope_fromValue x"

definition SearchMatch_clone :: "SearchMatch \<Rightarrow> SearchMatch option" where
  "SearchMatch_clone x = clone_by SearchMatch_toValue SearchMatch_fromValue x"

definition ScriptParsedNotification_clone :: "ScriptParsedNotification \<Rightarrow> ScriptParsedNotification option" where
  "ScriptParsedNotification_clone x = clone_by ScriptParsedNotification_toValue ScriptParsedNotification_fromValue x"

definition ScriptFailedToParseNotification_clone :: "ScriptFailedToParseNotification \<Rightarrow> ScriptFailedToParseNotification option" where
  "ScriptFailedToParseNotification_clone x = clone_by ScriptFailedToParseNotification_toValue ScriptFailedToParseNotification_fromValue x"

definition BreakpointResolvedNotification_clone :: "BreakpointResolvedNotification \<Rightarrow> BreakpointResolvedNotification option" where
  "BreakpointResolvedNotification_clone x = clone_by BreakpointResolvedNotification_toValue BreakpointResolvedNotification_fromValue x"

definition PausedNotification_clone :: "PausedNotification \<Rightarrow> PausedNotification option" where
  "PausedNotification_clone x = clone_by PausedNotification_toValue PausedNotification_fromValue x"

definition ConsoleMessage_clone :: "ConsoleMessage \<Rightarrow> ConsoleMessage option" where
  "ConsoleMessage_clone x = clone_by ConsoleMessage_toValue ConsoleMessage_fromValue x"

definition MessageAddedNotification_clone :: "MessageAddedNotification \<Rightarrow> MessageAddedNotification option" where
  "MessageAddedNotification_clone x = clone_by MessageAddedNotification_toValue MessageAddedNotification_fromValue x"

definition Domain_clone :: "Domain \<Rightarrow> Domain option" where
  "Domain_clone x = clone_by Domain_toValue Domain_fromValue x"

lemmas clone_defs =
  RemoteObject_clone_def
  CustomPreview_clone_def
  ObjectPreview_clone_def
  PropertyDescriptor_clone_def
  InternalPropertyDescriptor_clone_def
  CallArgument_clone_def
  ExecutionContextDescription_clone_def
  ExceptionDetails_clone_def
  RtCallFrame_clone_def
  StackTrace_clone_def
  ExecutionContextCreatedNotification_clone_def
  ExecutionContextDestroyedNotification_clone_def
  ExceptionThrownNotification_clone_def
  ExceptionRevokedNotification_clone_def
  ConsoleAPICalledNotification_clone_def
  Location_clone_def
  ScriptPosition_clone_def
  CallFrame_clone_def
  Scope_clone_def
  SearchMatch_clone_def
  ScriptParsedNotification_clone_def
  ScriptFailedToParseNotification_clone_def
  BreakpointResolvedNotification_clone_def
  PausedNotification_clone_def
  ConsoleMessage_clone_def
  MessageAddedNotification_clone_def
  Domain_clone_def

text \<open>Every copy of an object is the object.\<close>

lemma clone_is_object:
  "wf_RemoteObject x0 \<Longrightarrow> RemoteObject_clone x0 = Some x0"
  "CustomPreview_clone x1 = Some x1"
  "ObjectPreview_clone x2 = Some x2"
  "wf_PropertyDescriptor x3 \<Longrightarrow> PropertyDescriptor_clone x3 = Some x3"
  "wf_InternalPropertyDescriptor x4 \<Longrightarrow> InternalPropertyDescriptor_clone x4 = Some x4"
  "wf_CallArgument x5 \<Longrightarrow> CallArgument_clone x5 = Some x5"
  "wf_ExecutionContextDescription x6 \<Longrightarrow> ExecutionContextDescription_clone x6 = Some x6"
  "wf_ExceptionDetails x7 \<Longrightarrow> ExceptionDetails_clone x7 = Some x7"
  "RtCallFrame_clone x8 = Some x8"
  "StackTrace_clone x9 = Some x9"
  "wf_ExecutionContextCreatedNotification x10 \<Longrightarrow> ExecutionContextCreatedNotification_clone x10 = Some x10"
  "ExecutionContextDestroyedNotification_clone x11 = Some x11"
  "wf_ExceptionThrownNotification x12 \<Longrightarrow> ExceptionThrownNotification_clone x12 = Some x12"
  "ExceptionRevokedNotification_clone x13 = Some x13"
  "wf_ConsoleAPICalledNotification x14 \<Longrightarrow> ConsoleAPICalledNotification_clone x14 = Some x14"
  "Location_clone x15 = Some x15"
  "ScriptPosition_clone x16 = Some x16"
  "wf_CallFrame x17 \<Longrightarrow> CallFrame_clone x17 = Some x17"
  "wf_Scope x18 \<Longrightarrow> Scope_clone x18 = Some x18"
  "SearchMatch_clone x19 = Some x19"
  "wf_ScriptParsedNotification x20 \<Longrightarrow> ScriptParsedNotification_clone x20 = Some x20"
  "wf_ScriptFailedToParseNotification x21 \<Longrightarrow> ScriptFailedToParseNotification_clone x21 = Some x21"
  "BreakpointResolvedNotification_clone x22 = Some x22"
  "wf_PausedNotification x23 \<Longrightarrow> PausedNotification_clone x23 = Some x23"
  "ConsoleMessage_clone x24 = Some x24"
  "MessageAddedNotification_clone x25 = Some x25"
  "Domain_clone x26 = Some x26"
  by (simp_all add: clone_defs remote_object.clone_by_toValue
    custom_preview.clone_by_toValue
    object_preview.clone_by_toValue
    property_descriptor.clone_by_toValue
    internal_property_descriptor.clone_by_toValue
    call_argument.clone_by_toValue
    execution_context_description.clone_by_toValue
    exception_details.clone_by_toValue
    rt_call_frame.clone_by_toValue
    stack_trace.clone_by_toValue
    execution_context_created_notification.clone_by_toValue
    execution_context_destroyed_notification.clone_by_toValue
    exception_thrown_notification.clone_by_toValue
    exception_revoked_notification.clone_by_toValue
    console_a_p_i_called_notification.clone_by_toValue
    location.clone_by_toValue
    script_position.clone_by_toValue
    call_frame.clone_by_toValue
    scope.clone_by_toValue
    search_match.clone_by_toValue
    script_parsed_notification.clone_by_toValue
    script_failed_to_parse_notification.clone_by_toValue
    breakpoint_resolved_notification.clone_by_toValue
    paused_notification.clone_by_toValue
    console_message.clone_by_toValue
    message_added_notification.clone_by_toValue
    domain.clone_by_toValue)

lemma inspect_requested_clone:
  assumes "wf_RemoteObject (InspectRequestedNotification.m_object x)"
    and "wf_dict (InspectRequestedNotification.m_hints x)"
  shows "InspectRequestedNotification_clone x = Inr (Some x)"
  using assms
  by (simp add: InspectRequestedNotification_clone_def InspectRequestedNotification_fromValue_def
      InspectRequestedNotification_toValue_def build_object_def codec_simps no_errors_def
      InspectRequestedNotification.make_def)

lemma Object_copies:
  assumes "wf_dict (m_dictionary x)"
  shows "Object_toValue x = Some (m_dictionary x)" and "Object_clone x = Some x"
    and "run_state (Object_fromValue (Some (Dict (m_dictionary x)))) e = (Some x, e)"
  using assms by (simp_all add: Object_toValue_def Object_clone_def Object_fromValue_def clone_id Object.make_def)

end
