(* ===== verification/RuntimeBuilders.thy ===== *)
theory RuntimeBuilders
  imports Builder TypeTexts
begin

section \<open>The builders of the Runtime domain\<close>

text \<open>
  The builder classes of \<open>Generated/protocol/Runtime.h\<close>.
  Each class has its new object (the constructor), \<open>create\<close>, one definition per setter of its builder, and \<open>build\<close>.  An
  argument that is a pointer is an option, \<open>None\<close> for a null one.  Where a required member is a pointer, the object under
  construction is a record of its own (\<open>X_members\<close>), in which the member may still be null; \<open>X_complete\<close> is the object
  when none is.
\<close>

subsection \<open>\<open>RemoteObject\<close>\<close>

definition RemoteObject_new :: RemoteObject where
  "RemoteObject_new = RemoteObject.make [] None None None None None None None None"

definition RemoteObject_create :: "RemoteObject builder" where
  "RemoteObject_create = create_builder RemoteObject_new"

definition RemoteObjectBuilder_setType :: "string16 \<Rightarrow> RemoteObject setter" where
  "RemoteObjectBuilder_setType value = required_field 1 (\<lambda>r. r\<lparr>RemoteObject.m_type := value\<rparr>)"

definition RemoteObjectBuilder_setSubtype :: "string16 \<Rightarrow> RemoteObject setter" where
  "RemoteObjectBuilder_setSubtype value = optional_field (\<lambda>r. r\<lparr>RemoteObject.m_subtype := Some value\<rparr>)"

definition RemoteObjectBuilder_setClassName :: "string16 \<Rightarrow> RemoteObject setter" where
  "RemoteObjectBuilder_setClassName value = optional_field (\<lambda>r. r\<lparr>RemoteObject.m_className := Some value\<rparr>)"

definition RemoteObjectBuilder_setValue :: "val option \<Rightarrow> RemoteObject setter" where
  "RemoteObjectBuilder_setValue value = optional_field (\<lambda>r. r\<lparr>RemoteObject.m_value := value\<rparr>)"

definition RemoteObjectBuilder_setUnserializableValue :: "string16 \<Rightarrow> RemoteObject setter" where
  "RemoteObjectBuilder_setUnserializableValue value =
     optional_field (\<lambda>r. r\<lparr>RemoteObject.m_unserializableValue := Some value\<rparr>)"

definition RemoteObjectBuilder_setDescription :: "string16 \<Rightarrow> RemoteObject setter" where
  "RemoteObjectBuilder_setDescription value =
     optional_field (\<lambda>r. r\<lparr>RemoteObject.m_description := Some value\<rparr>)"

definition RemoteObjectBuilder_setObjectId :: "string16 \<Rightarrow> RemoteObject setter" where
  "RemoteObjectBuilder_setObjectId value = optional_field (\<lambda>r. r\<lparr>RemoteObject.m_objectId := Some value\<rparr>)"

definition RemoteObjectBuilder_setPreview :: "ObjectPreview option \<Rightarrow> RemoteObject setter" where
  "RemoteObjectBuilder_setPreview value = optional_field (\<lambda>r. r\<lparr>RemoteObject.m_preview := value\<rparr>)"

definition RemoteObjectBuilder_setCustomPreview :: "CustomPreview option \<Rightarrow> RemoteObject setter" where
  "RemoteObjectBuilder_setCustomPreview value =
     optional_field (\<lambda>r. r\<lparr>RemoteObject.m_customPreview := value\<rparr>)"

definition RemoteObjectBuilder_AllFieldsSet :: cint where
  "RemoteObjectBuilder_AllFieldsSet = all_fields [1]"

definition RemoteObjectBuilder_build :: "RemoteObject builder \<Rightarrow> RemoteObject option" where
  "RemoteObjectBuilder_build = build RemoteObjectBuilder_AllFieldsSet"

definition RemoteObjectBuilder_setters :: "RemoteObject setter set" where
  "RemoteObjectBuilder_setters =
     range RemoteObjectBuilder_setType \<union>
     range RemoteObjectBuilder_setSubtype \<union>
     range RemoteObjectBuilder_setClassName \<union>
     range RemoteObjectBuilder_setValue \<union>
     range RemoteObjectBuilder_setUnserializableValue \<union>
     range RemoteObjectBuilder_setDescription \<union>
     range RemoteObjectBuilder_setObjectId \<union>
     range RemoteObjectBuilder_setPreview \<union>
     range RemoteObjectBuilder_setCustomPreview"

lemmas RemoteObjectBuilder_defs =
  RemoteObjectBuilder_setters_def RemoteObjectBuilder_setType_def
  RemoteObjectBuilder_setSubtype_def
  RemoteObjectBuilder_setClassName_def
  RemoteObjectBuilder_setValue_def
  RemoteObjectBuilder_setUnserializableValue_def
  RemoteObjectBuilder_setDescription_def
  RemoteObjectBuilder_setObjectId_def
  RemoteObjectBuilder_setPreview_def
  RemoteObjectBuilder_setCustomPreview_def

interpretation remote_object_builder: builder_class RemoteObjectBuilder_setters "[1]" RemoteObjectBuilder_AllFieldsSet
  by unfold_locales (auto simp: RemoteObjectBuilder_defs RemoteObjectBuilder_AllFieldsSet_def)

subsection \<open>\<open>CustomPreview\<close>\<close>

definition CustomPreview_new :: CustomPreview where
  "CustomPreview_new = CustomPreview.make [] False [] [] None"

definition CustomPreview_create :: "CustomPreview builder" where
  "CustomPreview_create = create_builder CustomPreview_new"

definition CustomPreviewBuilder_setHeader :: "string16 \<Rightarrow> CustomPreview setter" where
  "CustomPreviewBuilder_setHeader value = required_field 1 (\<lambda>r. r\<lparr>CustomPreview.m_header := value\<rparr>)"

definition CustomPreviewBuilder_setHasBody :: "bool \<Rightarrow> CustomPreview setter" where
  "CustomPreviewBuilder_setHasBody value = required_field 2 (\<lambda>r. r\<lparr>CustomPreview.m_hasBody := value\<rparr>)"

definition CustomPreviewBuilder_setFormatterObjectId :: "string16 \<Rightarrow> CustomPreview setter" where
  "CustomPreviewBuilder_setFormatterObjectId value =
     required_field 3 (\<lambda>r. r\<lparr>CustomPreview.m_formatterObjectId := value\<rparr>)"

definition CustomPreviewBuilder_setBindRemoteObjectFunctionId :: "string16 \<Rightarrow> CustomPreview setter" where
  "CustomPreviewBuilder_setBindRemoteObjectFunctionId value =
     required_field 4 (\<lambda>r. r\<lparr>CustomPreview.m_bindRemoteObjectFunctionId := value\<rparr>)"

definition CustomPreviewBuilder_setConfigObjectId :: "string16 \<Rightarrow> CustomPreview setter" where
  "CustomPreviewBuilder_setConfigObjectId value =
     optional_field (\<lambda>r. r\<lparr>CustomPreview.m_configObjectId := Some value\<rparr>)"

definition CustomPreviewBuilder_AllFieldsSet :: cint where
  "CustomPreviewBuilder_AllFieldsSet = all_fields [1, 2, 3, 4]"

definition CustomPreviewBuilder_build :: "CustomPreview builder \<Rightarrow> CustomPreview option" where
  "CustomPreviewBuilder_build = build CustomPreviewBuilder_AllFieldsSet"

definition CustomPreviewBuilder_setters :: "CustomPreview setter set" where
  "CustomPreviewBuilder_setters =
     range CustomPreviewBuilder_setHeader \<union>
     range CustomPreviewBuilder_setHasBody \<union>
     range CustomPreviewBuilder_setFormatterObjectId \<union>
     range CustomPreviewBuilder_setBindRemoteObjectFunctionId \<union>
     range CustomPreviewBuilder_setConfigObjectId"

lemmas CustomPreviewBuilder_defs =
  CustomPreviewBuilder_setters_def CustomPreviewBuilder_setHeader_def
  CustomPreviewBuilder_setHasBody_def
  CustomPreviewBuilder_setFormatterObjectId_def
  CustomPreviewBuilder_setBindRemoteObjectFunctionId_def
  CustomPreviewBuilder_setConfigObjectId_def

interpretation custom_preview_builder: builder_class CustomPreviewBuilder_setters "[1, 2, 3, 4]" CustomPreviewBuilder_AllFieldsSet
  by unfold_locales (auto simp: CustomPreviewBuilder_defs CustomPreviewBuilder_AllFieldsSet_def)

subsection \<open>\<open>ObjectPreview\<close>\<close>

record ObjectPreview_members =
  m_type :: string16
  m_subtype :: "string16 option"
  m_description :: "string16 option"
  m_overflow :: bool
  m_properties :: "(PropertyPreview list) option"
  m_entries :: "(EntryPreview list) option"

definition ObjectPreview_new :: ObjectPreview_members where
  "ObjectPreview_new = ObjectPreview_members.make [] None None False None None"

definition ObjectPreview_create :: "ObjectPreview_members builder" where
  "ObjectPreview_create = create_builder ObjectPreview_new"

definition ObjectPreviewBuilder_setType :: "string16 \<Rightarrow> ObjectPreview_members setter" where
  "ObjectPreviewBuilder_setType value = required_field 1 (\<lambda>r. r\<lparr>ObjectPreview_members.m_type := value\<rparr>)"

definition ObjectPreviewBuilder_setSubtype :: "string16 \<Rightarrow> ObjectPreview_members setter" where
  "ObjectPreviewBuilder_setSubtype value =
     optional_field (\<lambda>r. r\<lparr>ObjectPreview_members.m_subtype := Some value\<rparr>)"

definition ObjectPreviewBuilder_setDescription :: "string16 \<Rightarrow> ObjectPreview_members setter" where
  "ObjectPreviewBuilder_setDescription value =
     optional_field (\<lambda>r. r\<lparr>ObjectPreview_members.m_description := Some value\<rparr>)"

definition ObjectPreviewBuilder_setOverflow :: "bool \<Rightarrow> ObjectPreview_members setter" where
  "ObjectPreviewBuilder_setOverflow value =
     required_field 2 (\<lambda>r. r\<lparr>ObjectPreview_members.m_overflow := value\<rparr>)"

definition ObjectPreviewBuilder_setProperties :: "(PropertyPreview list) option \<Rightarrow> ObjectPreview_members setter" where
  "ObjectPreviewBuilder_setProperties value =
     required_field 3 (\<lambda>r. r\<lparr>ObjectPreview_members.m_properties := value\<rparr>)"

definition ObjectPreviewBuilder_setEntries :: "(EntryPreview list) option \<Rightarrow> ObjectPreview_members setter" where
  "ObjectPreviewBuilder_setEntries value =
     optional_field (\<lambda>r. r\<lparr>ObjectPreview_members.m_entries := value\<rparr>)"

definition ObjectPreviewBuilder_AllFieldsSet :: cint where
  "ObjectPreviewBuilder_AllFieldsSet = all_fields [1, 2, 3]"

definition ObjectPreviewBuilder_build :: "ObjectPreview_members builder \<Rightarrow> ObjectPreview_members option" where
  "ObjectPreviewBuilder_build = build ObjectPreviewBuilder_AllFieldsSet"

definition ObjectPreview_complete :: "ObjectPreview_members \<Rightarrow> ObjectPreview option" where
  "ObjectPreview_complete r = do {
     x4 \<leftarrow> ObjectPreview_members.m_properties r;
     Some (ObjectPreview
       (ObjectPreview_members.m_type r) (ObjectPreview_members.m_subtype r)
       (ObjectPreview_members.m_description r) (ObjectPreview_members.m_overflow r) x4
       (ObjectPreview_members.m_entries r))
   }"

definition ObjectPreviewBuilder_setters :: "ObjectPreview_members setter set" where
  "ObjectPreviewBuilder_setters =
     range ObjectPreviewBuilder_setType \<union>
     range ObjectPreviewBuilder_setSubtype \<union>
     range ObjectPreviewBuilder_setDescription \<union>
     range ObjectPreviewBuilder_setOverflow \<union>
     range ObjectPreviewBuilder_setProperties \<union>
     range ObjectPreviewBuilder_setEntries"

lemmas ObjectPreviewBuilder_defs =
  ObjectPreviewBuilder_setters_def ObjectPreviewBuilder_setType_def
  ObjectPreviewBuilder_setSubtype_def
  ObjectPreviewBuilder_setDescription_def
  ObjectPreviewBuilder_setOverflow_def
  ObjectPreviewBuilder_setProperties_def
  ObjectPreviewBuilder_setEntries_def

interpretation object_preview_builder: builder_class ObjectPreviewBuilder_setters "[1, 2, 3]" ObjectPreviewBuilder_AllFieldsSet
  by unfold_locales (auto simp: ObjectPreviewBuilder_defs ObjectPreviewBuilder_AllFieldsSet_def)

subsection \<open>\<open>PropertyPreview\<close>\<close>

record PropertyPreview_members =
  m_name :: string16
  m_type :: string16
  m_value :: "string16 option"
  m_valuePreview :: "ObjectPreview option"
  m_subtype :: "string16 option"

definition PropertyPreview_new :: PropertyPreview_members where
  "PropertyPreview_new = PropertyPreview_members.make [] [] None None None"

definition PropertyPreview_create :: "PropertyPreview_members builder" where
  "PropertyPreview_create = create_builder PropertyPreview_new"

definition PropertyPreviewBuilder_setName :: "string16 \<Rightarrow> PropertyPreview_members setter" where
  "PropertyPreviewBuilder_setName value =
     required_field 1 (\<lambda>r. r\<lparr>PropertyPreview_members.m_name := value\<rparr>)"

definition PropertyPreviewBuilder_setType :: "string16 \<Rightarrow> PropertyPreview_members setter" where
  "PropertyPreviewBuilder_setType value =
     required_field 2 (\<lambda>r. r\<lparr>PropertyPreview_members.m_type := value\<rparr>)"

definition PropertyPreviewBuilder_setValue :: "string16 \<Rightarrow> PropertyPreview_members setter" where
  "PropertyPreviewBuilder_setValue value =
     optional_field (\<lambda>r. r\<lparr>PropertyPreview_members.m_value := Some value\<rparr>)"

definition PropertyPreviewBuilder_setValuePreview :: "ObjectPreview option \<Rightarrow> PropertyPreview_members setter" where
  "PropertyPreviewBuilder_setValuePreview value =
     optional_field (\<lambda>r. r\<lparr>PropertyPreview_members.m_valuePreview := value\<rparr>)"

definition PropertyPreviewBuilder_setSubtype :: "string16 \<Rightarrow> PropertyPreview_members setter" where
  "PropertyPreviewBuilder_setSubtype value =
     optional_field (\<lambda>r. r\<lparr>PropertyPreview_members.m_subtype := Some value\<rparr>)"

definition PropertyPreviewBuilder_AllFieldsSet :: cint where
  "PropertyPreviewBuilder_AllFieldsSet = all_fields [1, 2]"

definition PropertyPreviewBuilder_build :: "PropertyPreview_members builder \<Rightarrow> PropertyPreview_members option" where
  "PropertyPreviewBuilder_build = build PropertyPreviewBuilder_AllFieldsSet"

definition PropertyPreview_complete :: "PropertyPreview_members \<Rightarrow> PropertyPreview option" where
  "PropertyPreview_complete r = do {
     Some (PropertyPreview
       (PropertyPreview_members.m_name r) (PropertyPreview_members.m_type r)
       (PropertyPreview_members.m_value r) (PropertyPreview_members.m_valuePreview r)
       (PropertyPreview_members.m_subtype r))
   }"

definition PropertyPreviewBuilder_setters :: "PropertyPreview_members setter set" where
  "PropertyPreviewBuilder_setters =
     range PropertyPreviewBuilder_setName \<union>
     range PropertyPreviewBuilder_setType \<union>
     range PropertyPreviewBuilder_setValue \<union>
     range PropertyPreviewBuilder_setValuePreview \<union>
     range PropertyPreviewBuilder_setSubtype"

lemmas PropertyPreviewBuilder_defs =
  PropertyPreviewBuilder_setters_def PropertyPreviewBuilder_setName_def
  PropertyPreviewBuilder_setType_def
  PropertyPreviewBuilder_setValue_def
  PropertyPreviewBuilder_setValuePreview_def
  PropertyPreviewBuilder_setSubtype_def

interpretation property_preview_builder: builder_class PropertyPreviewBuilder_setters "[1, 2]" PropertyPreviewBuilder_AllFieldsSet
  by unfold_locales (auto simp: PropertyPreviewBuilder_defs PropertyPreviewBuilder_AllFieldsSet_def)

subsection \<open>\<open>EntryPreview\<close>\<close>

record EntryPreview_members =
  m_key :: "ObjectPreview option"
  m_value :: "ObjectPreview option"

definition EntryPreview_new :: EntryPreview_members where
  "EntryPreview_new = EntryPreview_members.make None None"

definition EntryPreview_create :: "EntryPreview_members builder" where
  "EntryPreview_create = create_builder EntryPreview_new"

definition EntryPreviewBuilder_setKey :: "ObjectPreview option \<Rightarrow> EntryPreview_members setter" where
  "EntryPreviewBuilder_setKey value = optional_field (\<lambda>r. r\<lparr>EntryPreview_members.m_key := value\<rparr>)"

definition EntryPreviewBuilder_setValue :: "ObjectPreview option \<Rightarrow> EntryPreview_members setter" where
  "EntryPreviewBuilder_setValue value = required_field 1 (\<lambda>r. r\<lparr>EntryPreview_members.m_value := value\<rparr>)"

definition EntryPreviewBuilder_AllFieldsSet :: cint where
  "EntryPreviewBuilder_AllFieldsSet = all_fields [1]"

definition EntryPreviewBuilder_build :: "EntryPreview_members builder \<Rightarrow> EntryPreview_members option" where
  "EntryPreviewBuilder_build = build EntryPreviewBuilder_AllFieldsSet"

definition EntryPreview_complete :: "EntryPreview_members \<Rightarrow> EntryPreview option" where
  "EntryPreview_complete r = do {
     x1 \<leftarrow> EntryPreview_members.m_value r;
     Some (EntryPreview
       (EntryPreview_members.m_key r) x1)
   }"

definition EntryPreviewBuilder_setters :: "EntryPreview_members setter set" where
  "EntryPreviewBuilder_setters =
     range EntryPreviewBuilder_setKey \<union>
     range EntryPreviewBuilder_setValue"

lemmas EntryPreviewBuilder_defs =
  EntryPreviewBuilder_setters_def EntryPreviewBuilder_setKey_def
  EntryPreviewBuilder_setValue_def

interpretation entry_preview_builder: builder_class EntryPreviewBuilder_setters "[1]" EntryPreviewBuilder_AllFieldsSet
  by unfold_locales (auto simp: EntryPreviewBuilder_defs EntryPreviewBuilder_AllFieldsSet_def)

subsection \<open>\<open>PropertyDescriptor\<close>\<close>

definition PropertyDescriptor_new :: PropertyDescriptor where
  "PropertyDescriptor_new = PropertyDescriptor.make [] None None None None False False None None None"

definition PropertyDescriptor_create :: "PropertyDescriptor builder" where
  "PropertyDescriptor_create = create_builder PropertyDescriptor_new"

definition PropertyDescriptorBuilder_setName :: "string16 \<Rightarrow> PropertyDescriptor setter" where
  "PropertyDescriptorBuilder_setName value = required_field 1 (\<lambda>r. r\<lparr>PropertyDescriptor.m_name := value\<rparr>)"

definition PropertyDescriptorBuilder_setValue :: "RemoteObject option \<Rightarrow> PropertyDescriptor setter" where
  "PropertyDescriptorBuilder_setValue value = optional_field (\<lambda>r. r\<lparr>PropertyDescriptor.m_value := value\<rparr>)"

definition PropertyDescriptorBuilder_setWritable :: "bool \<Rightarrow> PropertyDescriptor setter" where
  "PropertyDescriptorBuilder_setWritable value =
     optional_field (\<lambda>r. r\<lparr>PropertyDescriptor.m_writable := Some value\<rparr>)"

definition PropertyDescriptorBuilder_setGet :: "RemoteObject option \<Rightarrow> PropertyDescriptor setter" where
  "PropertyDescriptorBuilder_setGet value = optional_field (\<lambda>r. r\<lparr>PropertyDescriptor.m_get := value\<rparr>)"

definition PropertyDescriptorBuilder_setSet :: "RemoteObject option \<Rightarrow> PropertyDescriptor setter" where
  "PropertyDescriptorBuilder_setSet value = optional_field (\<lambda>r. r\<lparr>PropertyDescriptor.m_set := value\<rparr>)"

definition PropertyDescriptorBuilder_setConfigurable :: "bool \<Rightarrow> PropertyDescriptor setter" where
  "PropertyDescriptorBuilder_setConfigurable value =
     required_field 2 (\<lambda>r. r\<lparr>PropertyDescriptor.m_configurable := value\<rparr>)"

definition PropertyDescriptorBuilder_setEnumerable :: "bool \<Rightarrow> PropertyDescriptor setter" where
  "PropertyDescriptorBuilder_setEnumerable value =
     required_field 3 (\<lambda>r. r\<lparr>PropertyDescriptor.m_enumerable := value\<rparr>)"

definition PropertyDescriptorBuilder_setWasThrown :: "bool \<Rightarrow> PropertyDescriptor setter" where
  "PropertyDescriptorBuilder_setWasThrown value =
     optional_field (\<lambda>r. r\<lparr>PropertyDescriptor.m_wasThrown := Some value\<rparr>)"

definition PropertyDescriptorBuilder_setIsOwn :: "bool \<Rightarrow> PropertyDescriptor setter" where
  "PropertyDescriptorBuilder_setIsOwn value =
     optional_field (\<lambda>r. r\<lparr>PropertyDescriptor.m_isOwn := Some value\<rparr>)"

definition PropertyDescriptorBuilder_setSymbol :: "RemoteObject option \<Rightarrow> PropertyDescriptor setter" where
  "PropertyDescriptorBuilder_setSymbol value =
     optional_field (\<lambda>r. r\<lparr>PropertyDescriptor.m_symbol := value\<rparr>)"

definition PropertyDescriptorBuilder_AllFieldsSet :: cint where
  "PropertyDescriptorBuilder_AllFieldsSet = all_fields [1, 2, 3]"

definition PropertyDescriptorBuilder_build :: "PropertyDescriptor builder \<Rightarrow> PropertyDescriptor option" where
  "PropertyDescriptorBuilder_build = build PropertyDescriptorBuilder_AllFieldsSet"

definition PropertyDescriptorBuilder_setters :: "PropertyDescriptor setter set" where
  "PropertyDescriptorBuilder_setters =
     range PropertyDescriptorBuilder_setName \<union>
     range PropertyDescriptorBuilder_setValue \<union>
     range PropertyDescriptorBuilder_setWritable \<union>
     range PropertyDescriptorBuilder_setGet \<union>
     range PropertyDescriptorBuilder_setSet \<union>
     range PropertyDescriptorBuilder_setConfigurable \<union>
     range PropertyDescriptorBuilder_setEnumerable \<union>
     range PropertyDescriptorBuilder_setWasThrown \<union>
     range PropertyDescriptorBuilder_setIsOwn \<union>
     range PropertyDescriptorBuilder_setSymbol"

lemmas PropertyDescriptorBuilder_defs =
  PropertyDescriptorBuilder_setters_def PropertyDescriptorBuilder_setName_def
  PropertyDescriptorBuilder_setValue_def
  PropertyDescriptorBuilder_setWritable_def
  PropertyDescriptorBuilder_setGet_def
  PropertyDescriptorBuilder_setSet_def
  PropertyDescriptorBuilder_setConfigurable_def
  PropertyDescriptorBuilder_setEnumerable_def
  PropertyDescriptorBuilder_setWasThrown_def
  PropertyDescriptorBuilder_setIsOwn_def
  PropertyDescriptorBuilder_setSymbol_def

interpretation property_descriptor_builder: builder_class PropertyDescriptorBuilder_setters "[1, 2, 3]" PropertyDescriptorBuilder_AllFieldsSet
  by unfold_locales (auto simp: PropertyDescriptorBuilder_defs PropertyDescriptorBuilder_AllFieldsSet_def)

subsection \<open>\<open>InternalPropertyDescriptor\<close>\<close>

definition InternalPropertyDescriptor_new :: InternalPropertyDescriptor where
  "InternalPropertyDescriptor_new = InternalPropertyDescriptor.make [] None"

definition InternalPropertyDescriptor_create :: "InternalPropertyDescriptor builder" where
  "InternalPropertyDescriptor_create = create_builder InternalPropertyDescriptor_new"

definition InternalPropertyDescriptorBuilder_setName :: "string16 \<Rightarrow> InternalPropertyDescriptor setter" where
  "InternalPropertyDescriptorBuilder_setName value =
     required_field 1 (\<lambda>r. r\<lparr>InternalPropertyDescriptor.m_name := value\<rparr>)"

definition InternalPropertyDescriptorBuilder_setValue :: "RemoteObject option \<Rightarrow> InternalPropertyDescriptor setter" where
  "InternalPropertyDescriptorBuilder_setValue value =
     optional_field (\<lambda>r. r\<lparr>InternalPropertyDescriptor.m_value := value\<rparr>)"

definition InternalPropertyDescriptorBuilder_AllFieldsSet :: cint where
  "InternalPropertyDescriptorBuilder_AllFieldsSet = all_fields [1]"

definition InternalPropertyDescriptorBuilder_build :: "InternalPropertyDescriptor builder \<Rightarrow> InternalPropertyDescriptor option" where
  "InternalPropertyDescriptorBuilder_build = build InternalPropertyDescriptorBuilder_AllFieldsSet"

definition InternalPropertyDescriptorBuilder_setters :: "InternalPropertyDescriptor setter set" where
  "InternalPropertyDescriptorBuilder_setters =
     range InternalPropertyDescriptorBuilder_setName \<union>
     range InternalPropertyDescriptorBuilder_setValue"

lemmas InternalPropertyDescriptorBuilder_defs =
  InternalPropertyDescriptorBuilder_setters_def InternalPropertyDescriptorBuilder_setName_def
  InternalPropertyDescriptorBuilder_setValue_def

interpretation internal_property_descriptor_builder: builder_class InternalPropertyDescriptorBuilder_setters "[1]" InternalPropertyDescriptorBuilder_AllFieldsSet
  by unfold_locales (auto simp: InternalPropertyDescriptorBuilder_defs InternalPropertyDescriptorBuilder_AllFieldsSet_def)

subsection \<open>\<open>CallArgument\<close>\<close>

definition CallArgument_new :: CallArgument where
  "CallArgument_new = CallArgument.make None None None"

definition CallArgument_create :: "CallArgument builder" where
  "CallArgument_create = create_builder CallArgument_new"

definition CallArgumentBuilder_setValue :: "val option \<Rightarrow> CallArgument setter" where
  "CallArgumentBuilder_setValue value = optional_field (\<lambda>r. r\<lparr>CallArgument.m_value := value\<rparr>)"

definition CallArgumentBuilder_setUnserializableValue :: "string16 \<Rightarrow> CallArgument setter" where
  "CallArgumentBuilder_setUnserializableValue value =
     optional_field (\<lambda>r. r\<lparr>CallArgument.m_unserializableValue := Some value\<rparr>)"

definition CallArgumentBuilder_setObjectId :: "string16 \<Rightarrow> CallArgument setter" where
  "CallArgumentBuilder_setObjectId value = optional_field (\<lambda>r. r\<lparr>CallArgument.m_objectId := Some value\<rparr>)"

definition CallArgumentBuilder_AllFieldsSet :: cint where
  "CallArgumentBuilder_AllFieldsSet = all_fields []"

definition CallArgumentBuilder_build :: "CallArgument builder \<Rightarrow> CallArgument option" where
  "CallArgumentBuilder_build = build CallArgumentBuilder_AllFieldsSet"

definition CallArgumentBuilder_setters :: "CallArgument setter set" where
  "CallArgumentBuilder_setters =
     range CallArgumentBuilder_setValue \<union>
     range CallArgumentBuilder_setUnserializableValue \<union>
     range CallArgumentBuilder_setObjectId"

lemmas CallArgumentBuilder_defs =
  CallArgumentBuilder_setters_def CallArgumentBuilder_setValue_def
  CallArgumentBuilder_setUnserializableValue_def
  CallArgumentBuilder_setObjectId_def

interpretation call_argument_builder: builder_class CallArgumentBuilder_setters "[]" CallArgumentBuilder_AllFieldsSet
  by unfold_locales (auto simp: CallArgumentBuilder_defs CallArgumentBuilder_AllFieldsSet_def)

subsection \<open>\<open>ExecutionContextDescription\<close>\<close>

definition ExecutionContextDescription_new :: ExecutionContextDescription where
  "ExecutionContextDescription_new = ExecutionContextDescription.make 0 [] [] None"

definition ExecutionContextDescription_create :: "ExecutionContextDescription builder" where
  "ExecutionContextDescription_create = create_builder ExecutionContextDescription_new"

definition ExecutionContextDescriptionBuilder_setId :: "cint \<Rightarrow> ExecutionContextDescription setter" where
  "ExecutionContextDescriptionBuilder_setId value =
     required_field 1 (\<lambda>r. r\<lparr>ExecutionContextDescription.m_id := value\<rparr>)"

definition ExecutionContextDescriptionBuilder_setOrigin :: "string16 \<Rightarrow> ExecutionContextDescription setter" where
  "ExecutionContextDescriptionBuilder_setOrigin value =
     required_field 2 (\<lambda>r. r\<lparr>ExecutionContextDescription.m_origin := value\<rparr>)"

definition ExecutionContextDescriptionBuilder_setName :: "string16 \<Rightarrow> ExecutionContextDescription setter" where
  "ExecutionContextDescriptionBuilder_setName value =
     required_field 3 (\<lambda>r. r\<lparr>ExecutionContextDescription.m_name := value\<rparr>)"

definition ExecutionContextDescriptionBuilder_setAuxData :: "dict option \<Rightarrow> ExecutionContextDescription setter" where
  "ExecutionContextDescriptionBuilder_setAuxData value =
     optional_field (\<lambda>r. r\<lparr>ExecutionContextDescription.m_auxData := value\<rparr>)"

definition ExecutionContextDescriptionBuilder_AllFieldsSet :: cint where
  "ExecutionContextDescriptionBuilder_AllFieldsSet = all_fields [1, 2, 3]"

definition ExecutionContextDescriptionBuilder_build :: "ExecutionContextDescription builder \<Rightarrow> ExecutionContextDescription option" where
  "ExecutionContextDescriptionBuilder_build = build ExecutionContextDescriptionBuilder_AllFieldsSet"

definition ExecutionContextDescriptionBuilder_setters :: "ExecutionContextDescription setter set" where
  "ExecutionContextDescriptionBuilder_setters =
     range ExecutionContextDescriptionBuilder_setId \<union>
     range ExecutionContextDescriptionBuilder_setOrigin \<union>
     range ExecutionContextDescriptionBuilder_setName \<union>
     range ExecutionContextDescriptionBuilder_setAuxData"

lemmas ExecutionContextDescriptionBuilder_defs =
  ExecutionContextDescriptionBuilder_setters_def ExecutionContextDescriptionBuilder_setId_def
  ExecutionContextDescriptionBuilder_setOrigin_def
  ExecutionContextDescriptionBuilder_setName_def
  ExecutionContextDescriptionBuilder_setAuxData_def

interpretation execution_context_description_builder: builder_class ExecutionContextDescriptionBuilder_setters "[1, 2, 3]" ExecutionContextDescriptionBuilder_AllFieldsSet
  by unfold_locales (auto simp: ExecutionContextDescriptionBuilder_defs ExecutionContextDescriptionBuilder_AllFieldsSet_def)

subsection \<open>\<open>ExceptionDetails\<close>\<close>

definition ExceptionDetails_new :: ExceptionDetails where
  "ExceptionDetails_new = ExceptionDetails.make 0 [] 0 0 None None None None None"

definition ExceptionDetails_create :: "ExceptionDetails builder" where
  "ExceptionDetails_create = create_builder ExceptionDetails_new"

definition ExceptionDetailsBuilder_setExceptionId :: "cint \<Rightarrow> ExceptionDetails setter" where
  "ExceptionDetailsBuilder_setExceptionId value =
     required_field 1 (\<lambda>r. r\<lparr>ExceptionDetails.m_exceptionId := value\<rparr>)"

definition ExceptionDetailsBuilder_setText :: "string16 \<Rightarrow> ExceptionDetails setter" where
  "ExceptionDetailsBuilder_setText value = required_field 2 (\<lambda>r. r\<lparr>ExceptionDetails.m_text := value\<rparr>)"

definition ExceptionDetailsBuilder_setLineNumber :: "cint \<Rightarrow> ExceptionDetails setter" where
  "ExceptionDetailsBuilder_setLineNumber value =
     required_field 3 (\<lambda>r. r\<lparr>ExceptionDetails.m_lineNumber := value\<rparr>)"

definition ExceptionDetailsBuilder_setColumnNumber :: "cint \<Rightarrow> ExceptionDetails setter" where
  "ExceptionDetailsBuilder_setColumnNumber value =
     required_field 4 (\<lambda>r. r\<lparr>ExceptionDetails.m_columnNumber := value\<rparr>)"

definition ExceptionDetailsBuilder_setScriptId :: "string16 \<Rightarrow> ExceptionDetails setter" where
  "ExceptionDetailsBuilder_setScriptId value =
     optional_field (\<lambda>r. r\<lparr>ExceptionDetails.m_scriptId := Some value\<rparr>)"

definition ExceptionDetailsBuilder_setUrl :: "string16 \<Rightarrow> ExceptionDetails setter" where
  "ExceptionDetailsBuilder_setUrl value = optional_field (\<lambda>r. r\<lparr>ExceptionDetails.m_url := Some value\<rparr>)"

definition ExceptionDetailsBuilder_setStackTrace :: "StackTrace option \<Rightarrow> ExceptionDetails setter" where
  "ExceptionDetailsBuilder_setStackTrace value =
     optional_field (\<lambda>r. r\<lparr>ExceptionDetails.m_stackTrace := value\<rparr>)"

definition ExceptionDetailsBuilder_setException :: "RemoteObject option \<Rightarrow> ExceptionDetails setter" where
  "ExceptionDetailsBuilder_setException value =
     optional_field (\<lambda>r. r\<lparr>ExceptionDetails.m_exception := value\<rparr>)"

definition ExceptionDetailsBuilder_setExecutionContextId :: "cint \<Rightarrow> ExceptionDetails setter" where
  "ExceptionDetailsBuilder_setExecutionContextId value =
     optional_field (\<lambda>r. r\<lparr>ExceptionDetails.m_executionContextId := Some value\<rparr>)"

definition ExceptionDetailsBuilder_AllFieldsSet :: cint where
  "ExceptionDetailsBuilder_AllFieldsSet = all_fields [1, 2, 3, 4]"

definition ExceptionDetailsBuilder_build :: "ExceptionDetails builder \<Rightarrow> ExceptionDetails option" where
  "ExceptionDetailsBuilder_build = build ExceptionDetailsBuilder_AllFieldsSet"

definition ExceptionDetailsBuilder_setters :: "ExceptionDetails setter set" where
  "ExceptionDetailsBuilder_setters =
     range ExceptionDetailsBuilder_setExceptionId \<union>
     range ExceptionDetailsBuilder_setText \<union>
     range ExceptionDetailsBuilder_setLineNumber \<union>
     range ExceptionDetailsBuilder_setColumnNumber \<union>
     range ExceptionDetailsBuilder_setScriptId \<union>
     range ExceptionDetailsBuilder_setUrl \<union>
     range ExceptionDetailsBuilder_setStackTrace \<union>
     range ExceptionDetailsBuilder_setException \<union>
     range ExceptionDetailsBuilder_setExecutionContextId"

lemmas ExceptionDetailsBuilder_defs =
  ExceptionDetailsBuilder_setters_def ExceptionDetailsBuilder_setExceptionId_def
  ExceptionDetailsBuilder_setText_def
  ExceptionDetailsBuilder_setLineNumber_def
  ExceptionDetailsBuilder_setColumnNumber_def
  ExceptionDetailsBuilder_setScriptId_def
  ExceptionDetailsBuilder_setUrl_def
  ExceptionDetailsBuilder_setStackTrace_def
  ExceptionDetailsBuilder_setException_def
  ExceptionDetailsBuilder_setExecutionContextId_def

interpretation exception_details_builder: builder_class ExceptionDetailsBuilder_setters "[1, 2, 3, 4]" ExceptionDetailsBuilder_AllFieldsSet
  by unfold_locales (auto simp: ExceptionDetailsBuilder_defs ExceptionDetailsBuilder_AllFieldsSet_def)

subsection \<open>\<open>CallFrame\<close>\<close>

definition RtCallFrame_new :: RtCallFrame where
  "RtCallFrame_new = RtCallFrame.make [] [] [] 0 0"

definition RtCallFrame_create :: "RtCallFrame builder" where
  "RtCallFrame_create = create_builder RtCallFrame_new"

definition RtCallFrameBuilder_setFunctionName :: "string16 \<Rightarrow> RtCallFrame setter" where
  "RtCallFrameBuilder_setFunctionName value =
     required_field 1 (\<lambda>r. r\<lparr>RtCallFrame.m_functionName := value\<rparr>)"

definition RtCallFrameBuilder_setScriptId :: "string16 \<Rightarrow> RtCallFrame setter" where
  "RtCallFrameBuilder_setScriptId value = required_field 2 (\<lambda>r. r\<lparr>RtCallFrame.m_scriptId := value\<rparr>)"

definition RtCallFrameBuilder_setUrl :: "string16 \<Rightarrow> RtCallFrame setter" where
  "RtCallFrameBuilder_setUrl value = required_field 3 (\<lambda>r. r\<lparr>RtCallFrame.m_url := value\<rparr>)"

definition RtCallFrameBuilder_setLineNumber :: "cint \<Rightarrow> RtCallFrame setter" where
  "RtCallFrameBuilder_setLineNumber value = required_field 4 (\<lambda>r. r\<lparr>RtCallFrame.m_lineNumber := value\<rparr>)"

definition RtCallFrameBuilder_setColumnNumber :: "cint \<Rightarrow> RtCallFrame setter" where
  "RtCallFrameBuilder_setColumnNumber value =
     required_field 5 (\<lambda>r. r\<lparr>RtCallFrame.m_columnNumber := value\<rparr>)"

definition RtCallFrameBuilder_AllFieldsSet :: cint where
  "RtCallFrameBuilder_AllFieldsSet = all_fields [1, 2, 3, 4, 5]"

definition RtCallFrameBuilder_build :: "RtCallFrame builder \<Rightarrow> RtCallFrame option" where
  "RtCallFrameBuilder_build = build RtCallFrameBuilder_AllFieldsSet"

definition RtCallFrameBuilder_setters :: "RtCallFrame setter set" where
  "RtCallFrameBuilder_setters =
     range RtCallFrameBuilder_setFunctionName \<union>
     range RtCallFrameBuilder_setScriptId \<union>
     range RtCallFrameBuilder_setUrl \<union>
     range RtCallFrameBuilder_setLineNumber \<union>
     range RtCallFrameBuilder_setColumnNumber"

lemmas RtCallFrameBuilder_defs =
  RtCallFrameBuilder_setters_def RtCallFrameBuilder_setFunctionName_def
  RtCallFrameBuilder_setScriptId_def
  RtCallFrameBuilder_setUrl_def
  RtCallFrameBuilder_setLineNumber_def
  RtCallFrameBuilder_setColumnNumber_def

interpretation rt_call_frame_builder: builder_class RtCallFrameBuilder_setters "[1, 2, 3, 4, 5]" RtCallFrameBuilder_AllFieldsSet
  by unfold_locales (auto simp: RtCallFrameBuilder_defs RtCallFrameBuilder_AllFieldsSet_def)

subsection \<open>\<open>StackTrace\<close>\<close>

record StackTrace_members =
  m_description :: "string16 option"
  m_callFrames :: "(RtCallFrame list) option"
  m_parent :: "StackTrace option"

definition StackTrace_new :: StackTrace_members where
  "StackTrace_new = StackTrace_members.make None None None"

definition StackTrace_create :: "StackTrace_members builder" where
  "StackTrace_create = create_builder StackTrace_new"

definition StackTraceBuilder_setDescription :: "string16 \<Rightarrow> StackTrace_members setter" where
  "StackTraceBuilder_setDescription value =
     optional_field (\<lambda>r. r\<lparr>StackTrace_members.m_description := Some value\<rparr>)"

definition StackTraceBuilder_setCallFrames :: "(RtCallFrame list) option \<Rightarrow> StackTrace_members setter" where
  "StackTraceBuilder_setCallFrames value =
     required_field 1 (\<lambda>r. r\<lparr>StackTrace_members.m_callFrames := value\<rparr>)"

definition StackTraceBuilder_setParent :: "StackTrace option \<Rightarrow> StackTrace_members setter" where
  "StackTraceBuilder_setParent value = optional_field (\<lambda>r. r\<lparr>StackTrace_members.m_parent := value\<rparr>)"

definition StackTraceBuilder_AllFieldsSet :: cint where
  "StackTraceBuilder_AllFieldsSet = all_fields [1]"

definition StackTraceBuilder_build :: "StackTrace_members builder \<Rightarrow> StackTrace_members option" where
  "StackTraceBuilder_build = build StackTraceBuilder_AllFieldsSet"

definition StackTrace_complete :: "StackTrace_members \<Rightarrow> StackTrace option" where
  "StackTrace_complete r = do {
     x1 \<leftarrow> StackTrace_members.m_callFrames r;
     Some (StackTrace
       (StackTrace_members.m_description r) x1 (StackTrace_members.m_parent r))
   }"

definition StackTraceBuilder_setters :: "StackTrace_members setter set" where
  "StackTraceBuilder_setters =
     range StackTraceBuilder_setDescription \<union>
     range StackTraceBuilder_setCallFrames \<union>
     range StackTraceBuilder_setParent"

lemmas StackTraceBuilder_defs =
  StackTraceBuilder_setters_def StackTraceBuilder_setDescription_def
  StackTraceBuilder_setCallFrames_def
  StackTraceBuilder_setParent_def

interpretation stack_trace_builder: builder_class StackTraceBuilder_setters "[1]" StackTraceBuilder_AllFieldsSet
  by unfold_locales (auto simp: StackTraceBuilder_defs StackTraceBuilder_AllFieldsSet_def)

subsection \<open>\<open>ExecutionContextCreatedNotification\<close>\<close>

record ExecutionContextCreatedNotification_members =
  m_context :: "ExecutionContextDescription option"

definition ExecutionContextCreatedNotification_new :: ExecutionContextCreatedNotification_members where
  "ExecutionContextCreatedNotification_new = ExecutionContextCreatedNotification_members.make None"

definition ExecutionContextCreatedNotification_create :: "ExecutionContextCreatedNotification_members builder" where
  "ExecutionContextCreatedNotification_create = create_builder ExecutionContextCreatedNotification_new"

definition ExecutionContextCreatedNotificationBuilder_setContext :: "ExecutionContextDescription option \<Rightarrow> ExecutionContextCreatedNotification_members setter" where
  "ExecutionContextCreatedNotificationBuilder_setContext value =
     required_field 1 (\<lambda>r. r\<lparr>ExecutionContextCreatedNotification_members.m_context := value\<rparr>)"

definition ExecutionContextCreatedNotificationBuilder_AllFieldsSet :: cint where
  "ExecutionContextCreatedNotificationBuilder_AllFieldsSet = all_fields [1]"

definition ExecutionContextCreatedNotificationBuilder_build :: "ExecutionContextCreatedNotification_members builder \<Rightarrow> ExecutionContextCreatedNotification_members option" where
  "ExecutionContextCreatedNotificationBuilder_build = build ExecutionContextCreatedNotificationBuilder_AllFieldsSet"

definition ExecutionContextCreatedNotification_complete :: "ExecutionContextCreatedNotification_members \<Rightarrow> ExecutionContextCreatedNotification option" where
  "ExecutionContextCreatedNotification_complete r = do {
     x0 \<leftarrow> ExecutionContextCreatedNotification_members.m_context r;
     Some (ExecutionContextCreatedNotification.make
       x0)
   }"

definition ExecutionContextCreatedNotificationBuilder_setters :: "ExecutionContextCreatedNotification_members setter set" where
  "ExecutionContextCreatedNotificationBuilder_setters =
     range ExecutionContextCreatedNotificationBuilder_setContext"

lemmas ExecutionContextCreatedNotificationBuilder_defs =
  ExecutionContextCreatedNotificationBuilder_setters_def ExecutionContextCreatedNotificationBuilder_setContext_def

interpretation execution_context_created_notification_builder: builder_class ExecutionContextCreatedNotificationBuilder_setters "[1]" ExecutionContextCreatedNotificationBuilder_AllFieldsSet
  by unfold_locales (auto simp: ExecutionContextCreatedNotificationBuilder_defs ExecutionContextCreatedNotificationBuilder_AllFieldsSet_def)

subsection \<open>\<open>ExecutionContextDestroyedNotification\<close>\<close>

definition ExecutionContextDestroyedNotification_new :: ExecutionContextDestroyedNotification where
  "ExecutionContextDestroyedNotification_new = ExecutionContextDestroyedNotification.make 0"

definition ExecutionContextDestroyedNotification_create :: "ExecutionContextDestroyedNotification builder" where
  "ExecutionContextDestroyedNotification_create = create_builder ExecutionContextDestroyedNotification_new"

definition ExecutionContextDestroyedNotificationBuilder_setExecutionContextId :: "cint \<Rightarrow> ExecutionContextDestroyedNotification setter" where
  "ExecutionContextDestroyedNotificationBuilder_setExecutionContextId value =
     required_field 1 (\<lambda>r. r\<lparr>ExecutionContextDestroyedNotification.m_executionContextId := value\<rparr>)"

definition ExecutionContextDestroyedNotificationBuilder_AllFieldsSet :: cint where
  "ExecutionContextDestroyedNotificationBuilder_AllFieldsSet = all_fields [1]"

definition ExecutionContextDestroyedNotificationBuilder_build :: "ExecutionContextDestroyedNotification builder \<Rightarrow> ExecutionContextDestroyedNotification option" where
  "ExecutionContextDestroyedNotificationBuilder_build = build ExecutionContextDestroyedNotificationBuilder_AllFieldsSet"

definition ExecutionContextDestroyedNotificationBuilder_setters :: "ExecutionContextDestroyedNotification setter set" where
  "ExecutionContextDestroyedNotificationBuilder_setters =
     range ExecutionContextDestroyedNotificationBuilder_setExecutionContextId"

lemmas ExecutionContextDestroyedNotificationBuilder_defs =
  ExecutionContextDestroyedNotificationBuilder_setters_def ExecutionContextDestroyedNotificationBuilder_setExecutionContextId_def

interpretation execution_context_destroyed_notification_builder: builder_class ExecutionContextDestroyedNotificationBuilder_setters "[1]" ExecutionContextDestroyedNotificationBuilder_AllFieldsSet
  by unfold_locales (auto simp: ExecutionContextDestroyedNotificationBuilder_defs ExecutionContextDestroyedNotificationBuilder_AllFieldsSet_def)

subsection \<open>\<open>ExceptionThrownNotification\<close>\<close>

record ExceptionThrownNotification_members =
  m_timestamp :: dbl
  m_exceptionDetails :: "ExceptionDetails option"

definition ExceptionThrownNotification_new :: ExceptionThrownNotification_members where
  "ExceptionThrownNotification_new = ExceptionThrownNotification_members.make (Fin False 0 0) None"

definition ExceptionThrownNotification_create :: "ExceptionThrownNotification_members builder" where
  "ExceptionThrownNotification_create = create_builder ExceptionThrownNotification_new"

definition ExceptionThrownNotificationBuilder_setTimestamp :: "dbl \<Rightarrow> ExceptionThrownNotification_members setter" where
  "ExceptionThrownNotificationBuilder_setTimestamp value =
     required_field 1 (\<lambda>r. r\<lparr>ExceptionThrownNotification_members.m_timestamp := value\<rparr>)"

definition ExceptionThrownNotificationBuilder_setExceptionDetails :: "ExceptionDetails option \<Rightarrow> ExceptionThrownNotification_members setter" where
  "ExceptionThrownNotificationBuilder_setExceptionDetails value =
     required_field 2 (\<lambda>r. r\<lparr>ExceptionThrownNotification_members.m_exceptionDetails := value\<rparr>)"

definition ExceptionThrownNotificationBuilder_AllFieldsSet :: cint where
  "ExceptionThrownNotificationBuilder_AllFieldsSet = all_fields [1, 2]"

definition ExceptionThrownNotificationBuilder_build :: "ExceptionThrownNotification_members builder \<Rightarrow> ExceptionThrownNotification_members option" where
  "ExceptionThrownNotificationBuilder_build = build ExceptionThrownNotificationBuilder_AllFieldsSet"

definition ExceptionThrownNotification_complete :: "ExceptionThrownNotification_members \<Rightarrow> ExceptionThrownNotification option" where
  "ExceptionThrownNotification_complete r = do {
     x1 \<leftarrow> ExceptionThrownNotification_members.m_exceptionDetails r;
     Some (ExceptionThrownNotification.make
       (ExceptionThrownNotification_members.m_timestamp r) x1)
   }"

definition ExceptionThrownNotificationBuilder_setters :: "ExceptionThrownNotification_members setter set" where
  "ExceptionThrownNotificationBuilder_setters =
     range ExceptionThrownNotificationBuilder_setTimestamp \<union>
     range ExceptionThrownNotificationBuilder_setExceptionDetails"

lemmas ExceptionThrownNotificationBuilder_defs =
  ExceptionThrownNotificationBuilder_setters_def ExceptionThrownNotificationBuilder_setTimestamp_def
  ExceptionThrownNotificationBuilder_setExceptionDetails_def

interpretation exception_thrown_notification_builder: builder_class ExceptionThrownNotificationBuilder_setters "[1, 2]" ExceptionThrownNotificationBuilder_AllFieldsSet
  by unfold_locales (auto simp: ExceptionThrownNotificationBuilder_defs ExceptionThrownNotificationBuilder_AllFieldsSet_def)

subsection \<open>\<open>ExceptionRevokedNotification\<close>\<close>

definition ExceptionRevokedNotification_new :: ExceptionRevokedNotification where
  "ExceptionRevokedNotification_new = ExceptionRevokedNotification.make [] 0"

definition ExceptionRevokedNotification_create :: "ExceptionRevokedNotification builder" where
  "ExceptionRevokedNotification_create = create_builder ExceptionRevokedNotification_new"

definition ExceptionRevokedNotificationBuilder_setReason :: "string16 \<Rightarrow> ExceptionRevokedNotification setter" where
  "ExceptionRevokedNotificationBuilder_setReason value =
     required_field 1 (\<lambda>r. r\<lparr>ExceptionRevokedNotification.m_reason := value\<rparr>)"

definition ExceptionRevokedNotificationBuilder_setExceptionId :: "cint \<Rightarrow> ExceptionRevokedNotification setter" where
  "ExceptionRevokedNotificationBuilder_setExceptionId value =
     required_field 2 (\<lambda>r. r\<lparr>ExceptionRevokedNotification.m_exceptionId := value\<rparr>)"

definition ExceptionRevokedNotificationBuilder_AllFieldsSet :: cint where
  "ExceptionRevokedNotificationBuilder_AllFieldsSet = all_fields [1, 2]"

definition ExceptionRevokedNotificationBuilder_build :: "ExceptionRevokedNotification builder \<Rightarrow> ExceptionRevokedNotification option" where
  "ExceptionRevokedNotificationBuilder_build = build ExceptionRevokedNotificationBuilder_AllFieldsSet"

definition ExceptionRevokedNotificationBuilder_setters :: "ExceptionRevokedNotification setter set" where
  "ExceptionRevokedNotificationBuilder_setters =
     range ExceptionRevokedNotificationBuilder_setReason \<union>
     range ExceptionRevokedNotificationBuilder_setExceptionId"

lemmas ExceptionRevokedNotificationBuilder_defs =
  ExceptionRevokedNotificationBuilder_setters_def ExceptionRevokedNotificationBuilder_setReason_def
  ExceptionRevokedNotificationBuilder_setExceptionId_def

interpretation exception_revoked_notification_builder: builder_class ExceptionRevokedNotificationBuilder_setters "[1, 2]" ExceptionRevokedNotificationBuilder_AllFieldsSet
  by unfold_locales (auto simp: ExceptionRevokedNotificationBuilder_defs ExceptionRevokedNotificationBuilder_AllFieldsSet_def)

subsection \<open>\<open>ConsoleAPICalledNotification\<close>\<close>

record ConsoleAPICalledNotification_members =
  m_type :: string16
  m_args :: "(RemoteObject list) option"
  m_executionContextId :: cint
  m_timestamp :: dbl
  m_stackTrace :: "StackTrace option"

definition ConsoleAPICalledNotification_new :: ConsoleAPICalledNotification_members where
  "ConsoleAPICalledNotification_new = ConsoleAPICalledNotification_members.make [] None 0 (Fin False 0 0) None"

definition ConsoleAPICalledNotification_create :: "ConsoleAPICalledNotification_members builder" where
  "ConsoleAPICalledNotification_create = create_builder ConsoleAPICalledNotification_new"

definition ConsoleAPICalledNotificationBuilder_setType :: "string16 \<Rightarrow> ConsoleAPICalledNotification_members setter" where
  "ConsoleAPICalledNotificationBuilder_setType value =
     required_field 1 (\<lambda>r. r\<lparr>ConsoleAPICalledNotification_members.m_type := value\<rparr>)"

definition ConsoleAPICalledNotificationBuilder_setArgs :: "(RemoteObject list) option \<Rightarrow> ConsoleAPICalledNotification_members setter" where
  "ConsoleAPICalledNotificationBuilder_setArgs value =
     required_field 2 (\<lambda>r. r\<lparr>ConsoleAPICalledNotification_members.m_args := value\<rparr>)"

definition ConsoleAPICalledNotificationBuilder_setExecutionContextId :: "cint \<Rightarrow> ConsoleAPICalledNotification_members setter" where
  "ConsoleAPICalledNotificationBuilder_setExecutionContextId value =
     required_field 3 (\<lambda>r. r\<lparr>ConsoleAPICalledNotification_members.m_executionContextId := value\<rparr>)"

definition ConsoleAPICalledNotificationBuilder_setTimestamp :: "dbl \<Rightarrow> ConsoleAPICalledNotification_members setter" where
  "ConsoleAPICalledNotificationBuilder_setTimestamp value =
     required_field 4 (\<lambda>r. r\<lparr>ConsoleAPICalledNotification_members.m_timestamp := value\<rparr>)"

definition ConsoleAPICalledNotificationBuilder_setStackTrace :: "StackTrace option \<Rightarrow> ConsoleAPICalledNotification_members setter" where
  "ConsoleAPICalledNotificationBuilder_setStackTrace value =
     optional_field (\<lambda>r. r\<lparr>ConsoleAPICalledNotification_members.m_stackTrace := value\<rparr>)"

definition ConsoleAPICalledNotificationBuilder_AllFieldsSet :: cint where
  "ConsoleAPICalledNotificationBuilder_AllFieldsSet = all_fields [1, 2, 3, 4]"

definition ConsoleAPICalledNotificationBuilder_build :: "ConsoleAPICalledNotification_members builder \<Rightarrow> ConsoleAPICalledNotification_members option" where
  "ConsoleAPICalledNotificationBuilder_build = build ConsoleAPICalledNotificationBuilder_AllFieldsSet"

definition ConsoleAPICalledNotification_complete :: "ConsoleAPICalledNotification_members \<Rightarrow> ConsoleAPICalledNotification option" where
  "ConsoleAPICalledNotification_complete r = do {
     x1 \<leftarrow> ConsoleAPICalledNotification_members.m_args r;
     Some (ConsoleAPICalledNotification.make
       (ConsoleAPICalledNotification_members.m_type r) x1
       (ConsoleAPICalledNotification_members.m_executionContextId r)
       (ConsoleAPICalledNotification_members.m_timestamp r)
       (ConsoleAPICalledNotification_members.m_stackTrace r))
   }"

definition ConsoleAPICalledNotificationBuilder_setters :: "ConsoleAPICalledNotification_members setter set" where
  "ConsoleAPICalledNotificationBuilder_setters =
     range ConsoleAPICalledNotificationBuilder_setType \<union>
     range ConsoleAPICalledNotificationBuilder_setArgs \<union>
     range ConsoleAPICalledNotificationBuilder_setExecutionContextId \<union>
     range ConsoleAPICalledNotificationBuilder_setTimestamp \<union>
     range ConsoleAPICalledNotificationBuilder_setStackTrace"

lemmas ConsoleAPICalledNotificationBuilder_defs =
  ConsoleAPICalledNotificationBuilder_setters_def ConsoleAPICalledNotificationBuilder_setType_def
  ConsoleAPICalledNotificationBuilder_setArgs_def
  ConsoleAPICalledNotificationBuilder_setExecutionContextId_def
  ConsoleAPICalledNotificationBuilder_setTimestamp_def
  ConsoleAPICalledNotificationBuilder_setStackTrace_def

interpretation console_a_p_i_called_notification_builder: builder_class ConsoleAPICalledNotificationBuilder_setters "[1, 2, 3, 4]" ConsoleAPICalledNotificationBuilder_AllFieldsSet
  by unfold_locales (auto simp: ConsoleAPICalledNotificationBuilder_defs ConsoleAPICalledNotificationBuilder_AllFieldsSet_def)

subsection \<open>\<open>InspectRequestedNotification\<close>\<close>

record InspectRequestedNotification_members =
  m_object :: "RemoteObject option"
  m_hints :: "dict option"

definition InspectRequestedNotification_new :: InspectRequestedNotification_members where
  "InspectRequestedNotification_new = InspectRequestedNotification_members.make None None"

definition InspectRequestedNotification_create :: "InspectRequestedNotification_members builder" where
  "InspectRequestedNotification_create = create_builder InspectRequestedNotification_new"

definition InspectRequestedNotificationBuilder_setObject :: "RemoteObject option \<Rightarrow> InspectRequestedNotification_members setter" where
  "InspectRequestedNotificationBuilder_setObject value =
     required_field 1 (\<lambda>r. r\<lparr>InspectRequestedNotification_members.m_object := value\<rparr>)"

definition InspectRequestedNotificationBuilder_setHints :: "dict option \<Rightarrow> InspectRequestedNotification_members setter" where
  "InspectRequestedNotificationBuilder_setHints value =
     required_field 2 (\<lambda>r. r\<lparr>InspectRequestedNotification_members.m_hints := value\<rparr>)"

definition InspectRequestedNotificationBuilder_AllFieldsSet :: cint where
  "InspectRequestedNotificationBuilder_AllFieldsSet = all_fields [1, 2]"

definition InspectRequestedNotificationBuilder_build :: "InspectRequestedNotification_members builder \<Rightarrow> InspectRequestedNotification_members option" where
  "InspectRequestedNotificationBuilder_build = build InspectRequestedNotificationBuilder_AllFieldsSet"

definition InspectRequestedNotification_complete :: "InspectRequestedNotification_members \<Rightarrow> InspectRequestedNotification option" where
  "InspectRequestedNotification_complete r = do {
     x0 \<leftarrow> InspectRequestedNotification_members.m_object r;
     x1 \<leftarrow> InspectRequestedNotification_members.m_hints r;
     Some (InspectRequestedNotification.make
       x0 x1)
   }"

definition InspectRequestedNotificationBuilder_setters :: "InspectRequestedNotification_members setter set" where
  "InspectRequestedNotificationBuilder_setters =
     range InspectRequestedNotificationBuilder_setObject \<union>
     range InspectRequestedNotificationBuilder_setHints"

lemmas InspectRequestedNotificationBuilder_defs =
  InspectRequestedNotificationBuilder_setters_def InspectRequestedNotificationBuilder_setObject_def
  InspectRequestedNotificationBuilder_setHints_def

interpretation inspect_requested_notification_builder: builder_class InspectRequestedNotificationBuilder_setters "[1, 2]" InspectRequestedNotificationBuilder_AllFieldsSet
  by unfold_locales (auto simp: InspectRequestedNotificationBuilder_defs InspectRequestedNotificationBuilder_AllFieldsSet_def)

end
