(* ===== verification/DebuggerBuilders.thy ===== *)
theory DebuggerBuilders
  imports Builder TypeTexts
begin

section \<open>The builders of the other domains\<close>

text \<open>
  The builder classes of \<open>Generated/protocol/Debugger.h\<close>, \<open>Console.h\<close> and \<open>Schema.h\<close>.
  Each class has its new object (the constructor), \<open>create\<close>, one definition per setter of its builder, and \<open>build\<close>.  An
  argument that is a pointer is an option, \<open>None\<close> for a null one.  Where a required member is a pointer, the object under
  construction is a record of its own (\<open>X_members\<close>), in which the member may still be null; \<open>X_complete\<close> is the object
  when none is.
\<close>

subsection \<open>\<open>Location\<close>\<close>

definition Location_new :: Location where
  "Location_new = Location.make [] 0 None"

definition Location_create :: "Location builder" where
  "Location_create = create_builder Location_new"

definition LocationBuilder_setScriptId :: "string16 \<Rightarrow> Location setter" where
  "LocationBuilder_setScriptId value = required_field 1 (\<lambda>r. r\<lparr>Location.m_scriptId := value\<rparr>)"

definition LocationBuilder_setLineNumber :: "cint \<Rightarrow> Location setter" where
  "LocationBuilder_setLineNumber value = required_field 2 (\<lambda>r. r\<lparr>Location.m_lineNumber := value\<rparr>)"

definition LocationBuilder_setColumnNumber :: "cint \<Rightarrow> Location setter" where
  "LocationBuilder_setColumnNumber value = optional_field (\<lambda>r. r\<lparr>Location.m_columnNumber := Some value\<rparr>)"

definition LocationBuilder_AllFieldsSet :: cint where
  "LocationBuilder_AllFieldsSet = all_fields [1, 2]"

definition LocationBuilder_build :: "Location builder \<Rightarrow> Location option" where
  "LocationBuilder_build = build LocationBuilder_AllFieldsSet"

definition LocationBuilder_setters :: "Location setter set" where
  "LocationBuilder_setters =
     range LocationBuilder_setScriptId \<union>
     range LocationBuilder_setLineNumber \<union>
     range LocationBuilder_setColumnNumber"

lemmas LocationBuilder_defs =
  LocationBuilder_setters_def LocationBuilder_setScriptId_def
  LocationBuilder_setLineNumber_def
  LocationBuilder_setColumnNumber_def

interpretation location_builder: builder_class LocationBuilder_setters "[1, 2]" LocationBuilder_AllFieldsSet
  by unfold_locales (auto simp: LocationBuilder_defs LocationBuilder_AllFieldsSet_def)

subsection \<open>\<open>ScriptPosition\<close>\<close>

definition ScriptPosition_new :: ScriptPosition where
  "ScriptPosition_new = ScriptPosition.make 0 0"

definition ScriptPosition_create :: "ScriptPosition builder" where
  "ScriptPosition_create = create_builder ScriptPosition_new"

definition ScriptPositionBuilder_setLineNumber :: "cint \<Rightarrow> ScriptPosition setter" where
  "ScriptPositionBuilder_setLineNumber value =
     required_field 1 (\<lambda>r. r\<lparr>ScriptPosition.m_lineNumber := value\<rparr>)"

definition ScriptPositionBuilder_setColumnNumber :: "cint \<Rightarrow> ScriptPosition setter" where
  "ScriptPositionBuilder_setColumnNumber value =
     required_field 2 (\<lambda>r. r\<lparr>ScriptPosition.m_columnNumber := value\<rparr>)"

definition ScriptPositionBuilder_AllFieldsSet :: cint where
  "ScriptPositionBuilder_AllFieldsSet = all_fields [1, 2]"

definition ScriptPositionBuilder_build :: "ScriptPosition builder \<Rightarrow> ScriptPosition option" where
  "ScriptPositionBuilder_build = build ScriptPositionBuilder_AllFieldsSet"

definition ScriptPositionBuilder_setters :: "ScriptPosition setter set" where
  "ScriptPositionBuilder_setters =
     range ScriptPositionBuilder_setLineNumber \<union>
     range ScriptPositionBuilder_setColumnNumber"

lemmas ScriptPositionBuilder_defs =
  ScriptPositionBuilder_setters_def ScriptPositionBuilder_setLineNumber_def
  ScriptPositionBuilder_setColumnNumber_def

interpretation script_position_builder: builder_class ScriptPositionBuilder_setters "[1, 2]" ScriptPositionBuilder_AllFieldsSet
  by unfold_locales (auto simp: ScriptPositionBuilder_defs ScriptPositionBuilder_AllFieldsSet_def)

subsection \<open>\<open>CallFrame\<close>\<close>

record CallFrame_members =
  m_callFrameId :: string16
  m_functionName :: string16
  m_functionLocation :: "Location option"
  m_location :: "Location option"
  m_scopeChain :: "(Scope list) option"
  m_this :: "RemoteObject option"
  m_returnValue :: "RemoteObject option"

definition CallFrame_new :: CallFrame_members where
  "CallFrame_new = CallFrame_members.make [] [] None None None None None"

definition CallFrame_create :: "CallFrame_members builder" where
  "CallFrame_create = create_builder CallFrame_new"

definition CallFrameBuilder_setCallFrameId :: "string16 \<Rightarrow> CallFrame_members setter" where
  "CallFrameBuilder_setCallFrameId value =
     required_field 1 (\<lambda>r. r\<lparr>CallFrame_members.m_callFrameId := value\<rparr>)"

definition CallFrameBuilder_setFunctionName :: "string16 \<Rightarrow> CallFrame_members setter" where
  "CallFrameBuilder_setFunctionName value =
     required_field 2 (\<lambda>r. r\<lparr>CallFrame_members.m_functionName := value\<rparr>)"

definition CallFrameBuilder_setFunctionLocation :: "Location option \<Rightarrow> CallFrame_members setter" where
  "CallFrameBuilder_setFunctionLocation value =
     optional_field (\<lambda>r. r\<lparr>CallFrame_members.m_functionLocation := value\<rparr>)"

definition CallFrameBuilder_setLocation :: "Location option \<Rightarrow> CallFrame_members setter" where
  "CallFrameBuilder_setLocation value = required_field 3 (\<lambda>r. r\<lparr>CallFrame_members.m_location := value\<rparr>)"

definition CallFrameBuilder_setScopeChain :: "(Scope list) option \<Rightarrow> CallFrame_members setter" where
  "CallFrameBuilder_setScopeChain value =
     required_field 4 (\<lambda>r. r\<lparr>CallFrame_members.m_scopeChain := value\<rparr>)"

definition CallFrameBuilder_setThis :: "RemoteObject option \<Rightarrow> CallFrame_members setter" where
  "CallFrameBuilder_setThis value = required_field 5 (\<lambda>r. r\<lparr>CallFrame_members.m_this := value\<rparr>)"

definition CallFrameBuilder_setReturnValue :: "RemoteObject option \<Rightarrow> CallFrame_members setter" where
  "CallFrameBuilder_setReturnValue value =
     optional_field (\<lambda>r. r\<lparr>CallFrame_members.m_returnValue := value\<rparr>)"

definition CallFrameBuilder_AllFieldsSet :: cint where
  "CallFrameBuilder_AllFieldsSet = all_fields [1, 2, 3, 4, 5]"

definition CallFrameBuilder_build :: "CallFrame_members builder \<Rightarrow> CallFrame_members option" where
  "CallFrameBuilder_build = build CallFrameBuilder_AllFieldsSet"

definition CallFrame_complete :: "CallFrame_members \<Rightarrow> CallFrame option" where
  "CallFrame_complete r = do {
     x3 \<leftarrow> CallFrame_members.m_location r;
     x4 \<leftarrow> CallFrame_members.m_scopeChain r;
     x5 \<leftarrow> CallFrame_members.m_this r;
     Some (CallFrame.make
       (CallFrame_members.m_callFrameId r) (CallFrame_members.m_functionName r)
       (CallFrame_members.m_functionLocation r) x3 x4 x5 (CallFrame_members.m_returnValue r))
   }"

definition CallFrameBuilder_setters :: "CallFrame_members setter set" where
  "CallFrameBuilder_setters =
     range CallFrameBuilder_setCallFrameId \<union>
     range CallFrameBuilder_setFunctionName \<union>
     range CallFrameBuilder_setFunctionLocation \<union>
     range CallFrameBuilder_setLocation \<union>
     range CallFrameBuilder_setScopeChain \<union>
     range CallFrameBuilder_setThis \<union>
     range CallFrameBuilder_setReturnValue"

lemmas CallFrameBuilder_defs =
  CallFrameBuilder_setters_def CallFrameBuilder_setCallFrameId_def
  CallFrameBuilder_setFunctionName_def
  CallFrameBuilder_setFunctionLocation_def
  CallFrameBuilder_setLocation_def
  CallFrameBuilder_setScopeChain_def
  CallFrameBuilder_setThis_def
  CallFrameBuilder_setReturnValue_def

interpretation call_frame_builder: builder_class CallFrameBuilder_setters "[1, 2, 3, 4, 5]" CallFrameBuilder_AllFieldsSet
  by unfold_locales (auto simp: CallFrameBuilder_defs CallFrameBuilder_AllFieldsSet_def)

subsection \<open>\<open>Scope\<close>\<close>

record Scope_members =
  m_type :: string16
  m_object :: "RemoteObject option"
  m_name :: "string16 option"
  m_startLocation :: "Location option"
  m_endLocation :: "Location option"

definition Scope_new :: Scope_members where
  "Scope_new = Scope_members.make [] None None None None"

definition Scope_create :: "Scope_members builder" where
  "Scope_create = create_builder Scope_new"

definition ScopeBuilder_setType :: "string16 \<Rightarrow> Scope_members setter" where
  "ScopeBuilder_setType value = required_field 1 (\<lambda>r. r\<lparr>Scope_members.m_type := value\<rparr>)"

definition ScopeBuilder_setObject :: "RemoteObject option \<Rightarrow> Scope_members setter" where
  "ScopeBuilder_setObject value = required_field 2 (\<lambda>r. r\<lparr>Scope_members.m_object := value\<rparr>)"

definition ScopeBuilder_setName :: "string16 \<Rightarrow> Scope_members setter" where
  "ScopeBuilder_setName value = optional_field (\<lambda>r. r\<lparr>Scope_members.m_name := Some value\<rparr>)"

definition ScopeBuilder_setStartLocation :: "Location option \<Rightarrow> Scope_members setter" where
  "ScopeBuilder_setStartLocation value = optional_field (\<lambda>r. r\<lparr>Scope_members.m_startLocation := value\<rparr>)"

definition ScopeBuilder_setEndLocation :: "Location option \<Rightarrow> Scope_members setter" where
  "ScopeBuilder_setEndLocation value = optional_field (\<lambda>r. r\<lparr>Scope_members.m_endLocation := value\<rparr>)"

definition ScopeBuilder_AllFieldsSet :: cint where
  "ScopeBuilder_AllFieldsSet = all_fields [1, 2]"

definition ScopeBuilder_build :: "Scope_members builder \<Rightarrow> Scope_members option" where
  "ScopeBuilder_build = build ScopeBuilder_AllFieldsSet"

definition Scope_complete :: "Scope_members \<Rightarrow> Scope option" where
  "Scope_complete r = do {
     x1 \<leftarrow> Scope_members.m_object r;
     Some (Scope.make
       (Scope_members.m_type r) x1 (Scope_members.m_name r) (Scope_members.m_startLocation r)
       (Scope_members.m_endLocation r))
   }"

definition ScopeBuilder_setters :: "Scope_members setter set" where
  "ScopeBuilder_setters =
     range ScopeBuilder_setType \<union>
     range ScopeBuilder_setObject \<union>
     range ScopeBuilder_setName \<union>
     range ScopeBuilder_setStartLocation \<union>
     range ScopeBuilder_setEndLocation"

lemmas ScopeBuilder_defs =
  ScopeBuilder_setters_def ScopeBuilder_setType_def
  ScopeBuilder_setObject_def
  ScopeBuilder_setName_def
  ScopeBuilder_setStartLocation_def
  ScopeBuilder_setEndLocation_def

interpretation scope_builder: builder_class ScopeBuilder_setters "[1, 2]" ScopeBuilder_AllFieldsSet
  by unfold_locales (auto simp: ScopeBuilder_defs ScopeBuilder_AllFieldsSet_def)

subsection \<open>\<open>SearchMatch\<close>\<close>

definition SearchMatch_new :: SearchMatch where
  "SearchMatch_new = SearchMatch.make (Fin False 0 0) []"

definition SearchMatch_create :: "SearchMatch builder" where
  "SearchMatch_create = create_builder SearchMatch_new"

definition SearchMatchBuilder_setLineNumber :: "dbl \<Rightarrow> SearchMatch setter" where
  "SearchMatchBuilder_setLineNumber value = required_field 1 (\<lambda>r. r\<lparr>SearchMatch.m_lineNumber := value\<rparr>)"

definition SearchMatchBuilder_setLineContent :: "string16 \<Rightarrow> SearchMatch setter" where
  "SearchMatchBuilder_setLineContent value = required_field 2 (\<lambda>r. r\<lparr>SearchMatch.m_lineContent := value\<rparr>)"

definition SearchMatchBuilder_AllFieldsSet :: cint where
  "SearchMatchBuilder_AllFieldsSet = all_fields [1, 2]"

definition SearchMatchBuilder_build :: "SearchMatch builder \<Rightarrow> SearchMatch option" where
  "SearchMatchBuilder_build = build SearchMatchBuilder_AllFieldsSet"

definition SearchMatchBuilder_setters :: "SearchMatch setter set" where
  "SearchMatchBuilder_setters =
     range SearchMatchBuilder_setLineNumber \<union>
     range SearchMatchBuilder_setLineContent"

lemmas SearchMatchBuilder_defs =
  SearchMatchBuilder_setters_def SearchMatchBuilder_setLineNumber_def
  SearchMatchBuilder_setLineContent_def

interpretation search_match_builder: builder_class SearchMatchBuilder_setters "[1, 2]" SearchMatchBuilder_AllFieldsSet
  by unfold_locales (auto simp: SearchMatchBuilder_defs SearchMatchBuilder_AllFieldsSet_def)

subsection \<open>\<open>ScriptParsedNotification\<close>\<close>

definition ScriptParsedNotification_new :: ScriptParsedNotification where
  "ScriptParsedNotification_new = ScriptParsedNotification.make [] [] 0 0 0 0 0 [] None None None None"

definition ScriptParsedNotification_create :: "ScriptParsedNotification builder" where
  "ScriptParsedNotification_create = create_builder ScriptParsedNotification_new"

definition ScriptParsedNotificationBuilder_setScriptId :: "string16 \<Rightarrow> ScriptParsedNotification setter" where
  "ScriptParsedNotificationBuilder_setScriptId value =
     required_field 1 (\<lambda>r. r\<lparr>ScriptParsedNotification.m_scriptId := value\<rparr>)"

definition ScriptParsedNotificationBuilder_setUrl :: "string16 \<Rightarrow> ScriptParsedNotification setter" where
  "ScriptParsedNotificationBuilder_setUrl value =
     required_field 2 (\<lambda>r. r\<lparr>ScriptParsedNotification.m_url := value\<rparr>)"

definition ScriptParsedNotificationBuilder_setStartLine :: "cint \<Rightarrow> ScriptParsedNotification setter" where
  "ScriptParsedNotificationBuilder_setStartLine value =
     required_field 3 (\<lambda>r. r\<lparr>ScriptParsedNotification.m_startLine := value\<rparr>)"

definition ScriptParsedNotificationBuilder_setStartColumn :: "cint \<Rightarrow> ScriptParsedNotification setter" where
  "ScriptParsedNotificationBuilder_setStartColumn value =
     required_field 4 (\<lambda>r. r\<lparr>ScriptParsedNotification.m_startColumn := value\<rparr>)"

definition ScriptParsedNotificationBuilder_setEndLine :: "cint \<Rightarrow> ScriptParsedNotification setter" where
  "ScriptParsedNotificationBuilder_setEndLine value =
     required_field 5 (\<lambda>r. r\<lparr>ScriptParsedNotification.m_endLine := value\<rparr>)"

definition ScriptParsedNotificationBuilder_setEndColumn :: "cint \<Rightarrow> ScriptParsedNotification setter" where
  "ScriptParsedNotificationBuilder_setEndColumn value =
     required_field 6 (\<lambda>r. r\<lparr>ScriptParsedNotification.m_endColumn := value\<rparr>)"

definition ScriptParsedNotificationBuilder_setExecutionContextId :: "cint \<Rightarrow> ScriptParsedNotification setter" where
  "ScriptParsedNotificationBuilder_setExecutionContextId value =
     required_field 7 (\<lambda>r. r\<lparr>ScriptParsedNotification.m_executionContextId := value\<rparr>)"

definition ScriptParsedNotificationBuilder_setHash :: "string16 \<Rightarrow> ScriptParsedNotification setter" where
  "ScriptParsedNotificationBuilder_setHash value =
     required_field 8 (\<lambda>r. r\<lparr>ScriptParsedNotification.m_hash := value\<rparr>)"

definition ScriptParsedNotificationBuilder_setExecutionContextAuxData :: "dict option \<Rightarrow> ScriptParsedNotification setter" where
  "ScriptParsedNotificationBuilder_setExecutionContextAuxData value =
     optional_field (\<lambda>r. r\<lparr>ScriptParsedNotification.m_executionContextAuxData := value\<rparr>)"

definition ScriptParsedNotificationBuilder_setIsLiveEdit :: "bool \<Rightarrow> ScriptParsedNotification setter" where
  "ScriptParsedNotificationBuilder_setIsLiveEdit value =
     optional_field (\<lambda>r. r\<lparr>ScriptParsedNotification.m_isLiveEdit := Some value\<rparr>)"

definition ScriptParsedNotificationBuilder_setSourceMapURL :: "string16 \<Rightarrow> ScriptParsedNotification setter" where
  "ScriptParsedNotificationBuilder_setSourceMapURL value =
     optional_field (\<lambda>r. r\<lparr>ScriptParsedNotification.m_sourceMapURL := Some value\<rparr>)"

definition ScriptParsedNotificationBuilder_setHasSourceURL :: "bool \<Rightarrow> ScriptParsedNotification setter" where
  "ScriptParsedNotificationBuilder_setHasSourceURL value =
     optional_field (\<lambda>r. r\<lparr>ScriptParsedNotification.m_hasSourceURL := Some value\<rparr>)"

definition ScriptParsedNotificationBuilder_AllFieldsSet :: cint where
  "ScriptParsedNotificationBuilder_AllFieldsSet = all_fields [1, 2, 3, 4, 5, 6, 7, 8]"

definition ScriptParsedNotificationBuilder_build :: "ScriptParsedNotification builder \<Rightarrow> ScriptParsedNotification option" where
  "ScriptParsedNotificationBuilder_build = build ScriptParsedNotificationBuilder_AllFieldsSet"

definition ScriptParsedNotificationBuilder_setters :: "ScriptParsedNotification setter set" where
  "ScriptParsedNotificationBuilder_setters =
     range ScriptParsedNotificationBuilder_setScriptId \<union>
     range ScriptParsedNotificationBuilder_setUrl \<union>
     range ScriptParsedNotificationBuilder_setStartLine \<union>
     range ScriptParsedNotificationBuilder_setStartColumn \<union>
     range ScriptParsedNotificationBuilder_setEndLine \<union>
     range ScriptParsedNotificationBuilder_setEndColumn \<union>
     range ScriptParsedNotificationBuilder_setExecutionContextId \<union>
     range ScriptParsedNotificationBuilder_setHash \<union>
     range ScriptParsedNotificationBuilder_setExecutionContextAuxData \<union>
     range ScriptParsedNotificationBuilder_setIsLiveEdit \<union>
     range ScriptParsedNotificationBuilder_setSourceMapURL \<union>
     range ScriptParsedNotificationBuilder_setHasSourceURL"

lemmas ScriptParsedNotificationBuilder_defs =
  ScriptParsedNotificationBuilder_setters_def ScriptParsedNotificationBuilder_setScriptId_def
  ScriptParsedNotificationBuilder_setUrl_def
  ScriptParsedNotificationBuilder_setStartLine_def
  ScriptParsedNotificationBuilder_setStartColumn_def
  ScriptParsedNotificationBuilder_setEndLine_def
  ScriptParsedNotificationBuilder_setEndColumn_def
  ScriptParsedNotificationBuilder_setExecutionContextId_def
  ScriptParsedNotificationBuilder_setHash_def
  ScriptParsedNotificationBuilder_setExecutionContextAuxData_def
  ScriptParsedNotificationBuilder_setIsLiveEdit_def
  ScriptParsedNotificationBuilder_setSourceMapURL_def
  ScriptParsedNotificationBuilder_setHasSourceURL_def

interpretation script_parsed_notification_builder: builder_class ScriptParsedNotificationBuilder_setters "[1, 2, 3, 4, 5, 6, 7, 8]" ScriptParsedNotificationBuilder_AllFieldsSet
  by unfold_locales (auto simp: ScriptParsedNotificationBuilder_defs ScriptParsedNotificationBuilder_AllFieldsSet_def)

subsection \<open>\<open>ScriptFailedToParseNotification\<close>\<close>

definition ScriptFailedToParseNotification_new :: ScriptFailedToParseNotification where
  "ScriptFailedToParseNotification_new = ScriptFailedToParseNotification.make [] [] 0 0 0 0 0 [] None None None"

definition ScriptFailedToParseNotification_create :: "ScriptFailedToParseNotification builder" where
  "ScriptFailedToParseNotification_create = create_builder ScriptFailedToParseNotification_new"

definition ScriptFailedToParseNotificationBuilder_setScriptId :: "string16 \<Rightarrow> ScriptFailedToParseNotification setter" where
  "ScriptFailedToParseNotificationBuilder_setScriptId value =
     required_field 1 (\<lambda>r. r\<lparr>ScriptFailedToParseNotification.m_scriptId := value\<rparr>)"

definition ScriptFailedToParseNotificationBuilder_setUrl :: "string16 \<Rightarrow> ScriptFailedToParseNotification setter" where
  "ScriptFailedToParseNotificationBuilder_setUrl value =
     required_field 2 (\<lambda>r. r\<lparr>ScriptFailedToParseNotification.m_url := value\<rparr>)"

definition ScriptFailedToParseNotificationBuilder_setStartLine :: "cint \<Rightarrow> ScriptFailedToParseNotification setter" where
  "ScriptFailedToParseNotificationBuilder_setStartLine value =
     required_field 3 (\<lambda>r. r\<lparr>ScriptFailedToParseNotification.m_startLine := value\<rparr>)"

definition ScriptFailedToParseNotificationBuilder_setStartColumn :: "cint \<Rightarrow> ScriptFailedToParseNotification setter" where
  "ScriptFailedToParseNotificationBuilder_setStartColumn value =
     required_field 4 (\<lambda>r. r\<lparr>ScriptFailedToParseNotification.m_startColumn := value\<rparr>)"

definition ScriptFailedToParseNotificationBuilder_setEndLine :: "cint \<Rightarrow> ScriptFailedToParseNotification setter" where
  "ScriptFailedToParseNotificationBuilder_setEndLine value =
     required_field 5 (\<lambda>r. r\<lparr>ScriptFailedToParseNotification.m_endLine := value\<rparr>)"

definition ScriptFailedToParseNotificationBuilder_setEndColumn :: "cint \<Rightarrow> ScriptFailedToParseNotification setter" where
  "ScriptFailedToParseNotificationBuilder_setEndColumn value =
     required_field 6 (\<lambda>r. r\<lparr>ScriptFailedToParseNotification.m_endColumn := value\<rparr>)"

definition ScriptFailedToParseNotificationBuilder_setExecutionContextId :: "cint \<Rightarrow> ScriptFailedToParseNotification setter" where
  "ScriptFailedToParseNotificationBuilder_setExecutionContextId value =
     required_field 7 (\<lambda>r. r\<lparr>ScriptFailedToParseNotification.m_executionContextId := value\<rparr>)"

definition ScriptFailedToParseNotificationBuilder_setHash :: "string16 \<Rightarrow> ScriptFailedToParseNotification setter" where
  "ScriptFailedToParseNotificationBuilder_setHash value =
     required_field 8 (\<lambda>r. r\<lparr>ScriptFailedToParseNotification.m_hash := value\<rparr>)"

definition ScriptFailedToParseNotificationBuilder_setExecutionContextAuxData :: "dict option \<Rightarrow> ScriptFailedToParseNotification setter" where
  "ScriptFailedToParseNotificationBuilder_setExecutionContextAuxData value =
     optional_field (\<lambda>r. r\<lparr>ScriptFailedToParseNotification.m_executionContextAuxData := value\<rparr>)"

definition ScriptFailedToParseNotificationBuilder_setSourceMapURL :: "string16 \<Rightarrow> ScriptFailedToParseNotification setter" where
  "ScriptFailedToParseNotificationBuilder_setSourceMapURL value =
     optional_field (\<lambda>r. r\<lparr>ScriptFailedToParseNotification.m_sourceMapURL := Some value\<rparr>)"

definition ScriptFailedToParseNotificationBuilder_setHasSourceURL :: "bool \<Rightarrow> ScriptFailedToParseNotification setter" where
  "ScriptFailedToParseNotificationBuilder_setHasSourceURL value =
     optional_field (\<lambda>r. r\<lparr>ScriptFailedToParseNotification.m_hasSourceURL := Some value\<rparr>)"

definition ScriptFailedToParseNotificationBuilder_AllFieldsSet :: cint where
  "ScriptFailedToParseNotificationBuilder_AllFieldsSet = all_fields [1, 2, 3, 4, 5, 6, 7, 8]"

definition ScriptFailedToParseNotificationBuilder_build :: "ScriptFailedToParseNotification builder \<Rightarrow> ScriptFailedToParseNotification option" where
  "ScriptFailedToParseNotificationBuilder_build = build ScriptFailedToParseNotificationBuilder_AllFieldsSet"

definition ScriptFailedToParseNotificationBuilder_setters :: "ScriptFailedToParseNotification setter set" where
  "ScriptFailedToParseNotificationBuilder_setters =
     range ScriptFailedToParseNotificationBuilder_setScriptId \<union>
     range ScriptFailedToParseNotificationBuilder_setUrl \<union>
     range ScriptFailedToParseNotificationBuilder_setStartLine \<union>
     range ScriptFailedToParseNotificationBuilder_setStartColumn \<union>
     range ScriptFailedToParseNotificationBuilder_setEndLine \<union>
     range ScriptFailedToParseNotificationBuilder_setEndColumn \<union>
     range ScriptFailedToParseNotificationBuilder_setExecutionContextId \<union>
     range ScriptFailedToParseNotificationBuilder_setHash \<union>
     range ScriptFailedToParseNotificationBuilder_setExecutionContextAuxData \<union>
     range ScriptFailedToParseNotificationBuilder_setSourceMapURL \<union>
     range ScriptFailedToParseNotificationBuilder_setHasSourceURL"

lemmas ScriptFailedToParseNotificationBuilder_defs =
  ScriptFailedToParseNotificationBuilder_setters_def ScriptFailedToParseNotificationBuilder_setScriptId_def
  ScriptFailedToParseNotificationBuilder_setUrl_def
  ScriptFailedToParseNotificationBuilder_setStartLine_def
  ScriptFailedToParseNotificationBuilder_setStartColumn_def
  ScriptFailedToParseNotificationBuilder_setEndLine_def
  ScriptFailedToParseNotificationBuilder_setEndColumn_def
  ScriptFailedToParseNotificationBuilder_setExecutionContextId_def
  ScriptFailedToParseNotificationBuilder_setHash_def
  ScriptFailedToParseNotificationBuilder_setExecutionContextAuxData_def
  ScriptFailedToParseNotificationBuilder_setSourceMapURL_def
  ScriptFailedToParseNotificationBuilder_setHasSourceURL_def

interpretation script_failed_to_parse_notification_builder: builder_class ScriptFailedToParseNotificationBuilder_setters "[1, 2, 3, 4, 5, 6, 7, 8]" ScriptFailedToParseNotificationBuilder_AllFieldsSet
  by unfold_locales (auto simp: ScriptFailedToParseNotificationBuilder_defs ScriptFailedToParseNotificationBuilder_AllFieldsSet_def)

subsection \<open>\<open>BreakpointResolvedNotification\<close>\<close>

record BreakpointResolvedNotification_members =
  m_breakpointId :: string16
  m_location :: "Location option"

definition BreakpointResolvedNotification_new :: BreakpointResolvedNotification_members where
  "BreakpointResolvedNotification_new = BreakpointResolvedNotification_members.make [] None"

definition BreakpointResolvedNotification_create :: "BreakpointResolvedNotification_members builder" where
  "BreakpointResolvedNotification_create = create_builder BreakpointResolvedNotification_new"

definition BreakpointResolvedNotificationBuilder_setBreakpointId :: "string16 \<Rightarrow> BreakpointResolvedNotification_members setter" where
  "BreakpointResolvedNotificationBuilder_setBreakpointId value =
     required_field 1 (\<lambda>r. r\<lparr>BreakpointResolvedNotification_members.m_breakpointId := value\<rparr>)"

definition BreakpointResolvedNotificationBuilder_setLocation :: "Location option \<Rightarrow> BreakpointResolvedNotification_members setter" where
  "BreakpointResolvedNotificationBuilder_setLocation value =
     required_field 2 (\<lambda>r. r\<lparr>BreakpointResolvedNotification_members.m_location := value\<rparr>)"

definition BreakpointResolvedNotificationBuilder_AllFieldsSet :: cint where
  "BreakpointResolvedNotificationBuilder_AllFieldsSet = all_fields [1, 2]"

definition BreakpointResolvedNotificationBuilder_build :: "BreakpointResolvedNotification_members builder \<Rightarrow> BreakpointResolvedNotification_members option" where
  "BreakpointResolvedNotificationBuilder_build = build BreakpointResolvedNotificationBuilder_AllFieldsSet"

definition BreakpointResolvedNotification_complete :: "BreakpointResolvedNotification_members \<Rightarrow> BreakpointResolvedNotification option" where
  "BreakpointResolvedNotification_complete r = do {
     x1 \<leftarrow> BreakpointResolvedNotification_members.m_location r;
     Some (BreakpointResolvedNotification.make
       (BreakpointResolvedNotification_members.m_breakpointId r) x1)
   }"

definition BreakpointResolvedNotificationBuilder_setters :: "BreakpointResolvedNotification_members setter set" where
  "BreakpointResolvedNotificationBuilder_setters =
     range BreakpointResolvedNotificationBuilder_setBreakpointId \<union>
     range BreakpointResolvedNotificationBuilder_setLocation"

lemmas BreakpointResolvedNotificationBuilder_defs =
  BreakpointResolvedNotificationBuilder_setters_def BreakpointResolvedNotificationBuilder_setBreakpointId_def
  BreakpointResolvedNotificationBuilder_setLocation_def

interpretation breakpoint_resolved_notification_builder: builder_class BreakpointResolvedNotificationBuilder_setters "[1, 2]" BreakpointResolvedNotificationBuilder_AllFieldsSet
  by unfold_locales (auto simp: BreakpointResolvedNotificationBuilder_defs BreakpointResolvedNotificationBuilder_AllFieldsSet_def)

subsection \<open>\<open>PausedNotification\<close>\<close>

record PausedNotification_members =
  m_callFrames :: "(CallFrame list) option"
  m_reason :: string16
  m_data :: "dict option"
  m_hitBreakpoints :: "(string16 list) option"
  m_asyncStackTrace :: "StackTrace option"

definition PausedNotification_new :: PausedNotification_members where
  "PausedNotification_new = PausedNotification_members.make None [] None None None"

definition PausedNotification_create :: "PausedNotification_members builder" where
  "PausedNotification_create = create_builder PausedNotification_new"

definition PausedNotificationBuilder_setCallFrames :: "(CallFrame list) option \<Rightarrow> PausedNotification_members setter" where
  "PausedNotificationBuilder_setCallFrames value =
     required_field 1 (\<lambda>r. r\<lparr>PausedNotification_members.m_callFrames := value\<rparr>)"

definition PausedNotificationBuilder_setReason :: "string16 \<Rightarrow> PausedNotification_members setter" where
  "PausedNotificationBuilder_setReason value =
     required_field 2 (\<lambda>r. r\<lparr>PausedNotification_members.m_reason := value\<rparr>)"

definition PausedNotificationBuilder_setData :: "dict option \<Rightarrow> PausedNotification_members setter" where
  "PausedNotificationBuilder_setData value =
     optional_field (\<lambda>r. r\<lparr>PausedNotification_members.m_data := value\<rparr>)"

definition PausedNotificationBuilder_setHitBreakpoints :: "(string16 list) option \<Rightarrow> PausedNotification_members setter" where
  "PausedNotificationBuilder_setHitBreakpoints value =
     optional_field (\<lambda>r. r\<lparr>PausedNotification_members.m_hitBreakpoints := value\<rparr>)"

definition PausedNotificationBuilder_setAsyncStackTrace :: "StackTrace option \<Rightarrow> PausedNotification_members setter" where
  "PausedNotificationBuilder_setAsyncStackTrace value =
     optional_field (\<lambda>r. r\<lparr>PausedNotification_members.m_asyncStackTrace := value\<rparr>)"

definition PausedNotificationBuilder_AllFieldsSet :: cint where
  "PausedNotificationBuilder_AllFieldsSet = all_fields [1, 2]"

definition PausedNotificationBuilder_build :: "PausedNotification_members builder \<Rightarrow> PausedNotification_members option" where
  "PausedNotificationBuilder_build = build PausedNotificationBuilder_AllFieldsSet"

definition PausedNotification_complete :: "PausedNotification_members \<Rightarrow> PausedNotification option" where
  "PausedNotification_complete r = do {
     x0 \<leftarrow> PausedNotification_members.m_callFrames r;
     Some (PausedNotification.make
       x0 (PausedNotification_members.m_reason r) (PausedNotification_members.m_data r)
       (PausedNotification_members.m_hitBreakpoints r) (PausedNotification_members.m_asyncStackTrace r))
   }"

definition PausedNotificationBuilder_setters :: "PausedNotification_members setter set" where
  "PausedNotificationBuilder_setters =
     range PausedNotificationBuilder_setCallFrames \<union>
     range PausedNotificationBuilder_setReason \<union>
     range PausedNotificationBuilder_setData \<union>
     range PausedNotificationBuilder_setHitBreakpoints \<union>
     range PausedNotificationBuilder_setAsyncStackTrace"

lemmas PausedNotificationBuilder_defs =
  PausedNotificationBuilder_setters_def PausedNotificationBuilder_setCallFrames_def
  PausedNotificationBuilder_setReason_def
  PausedNotificationBuilder_setData_def
  PausedNotificationBuilder_setHitBreakpoints_def
  PausedNotificationBuilder_setAsyncStackTrace_def

interpretation paused_notification_builder: builder_class PausedNotificationBuilder_setters "[1, 2]" PausedNotificationBuilder_AllFieldsSet
  by unfold_locales (auto simp: PausedNotificationBuilder_defs PausedNotificationBuilder_AllFieldsSet_def)

subsection \<open>\<open>ConsoleMessage\<close>\<close>

definition ConsoleMessage_new :: ConsoleMessage where
  "ConsoleMessage_new = ConsoleMessage.make [] [] [] None None None"

definition ConsoleMessage_create :: "ConsoleMessage builder" where
  "ConsoleMessage_create = create_builder ConsoleMessage_new"

definition ConsoleMessageBuilder_setSource :: "string16 \<Rightarrow> ConsoleMessage setter" where
  "ConsoleMessageBuilder_setSource value = required_field 1 (\<lambda>r. r\<lparr>ConsoleMessage.m_source := value\<rparr>)"

definition ConsoleMessageBuilder_setLevel :: "string16 \<Rightarrow> ConsoleMessage setter" where
  "ConsoleMessageBuilder_setLevel value = required_field 2 (\<lambda>r. r\<lparr>ConsoleMessage.m_level := value\<rparr>)"

definition ConsoleMessageBuilder_setText :: "string16 \<Rightarrow> ConsoleMessage setter" where
  "ConsoleMessageBuilder_setText value = required_field 3 (\<lambda>r. r\<lparr>ConsoleMessage.m_text := value\<rparr>)"

definition ConsoleMessageBuilder_setUrl :: "string16 \<Rightarrow> ConsoleMessage setter" where
  "ConsoleMessageBuilder_setUrl value = optional_field (\<lambda>r. r\<lparr>ConsoleMessage.m_url := Some value\<rparr>)"

definition ConsoleMessageBuilder_setLine :: "cint \<Rightarrow> ConsoleMessage setter" where
  "ConsoleMessageBuilder_setLine value = optional_field (\<lambda>r. r\<lparr>ConsoleMessage.m_line := Some value\<rparr>)"

definition ConsoleMessageBuilder_setColumn :: "cint \<Rightarrow> ConsoleMessage setter" where
  "ConsoleMessageBuilder_setColumn value = optional_field (\<lambda>r. r\<lparr>ConsoleMessage.m_column := Some value\<rparr>)"

definition ConsoleMessageBuilder_AllFieldsSet :: cint where
  "ConsoleMessageBuilder_AllFieldsSet = all_fields [1, 2, 3]"

definition ConsoleMessageBuilder_build :: "ConsoleMessage builder \<Rightarrow> ConsoleMessage option" where
  "ConsoleMessageBuilder_build = build ConsoleMessageBuilder_AllFieldsSet"

definition ConsoleMessageBuilder_setters :: "ConsoleMessage setter set" where
  "ConsoleMessageBuilder_setters =
     range ConsoleMessageBuilder_setSource \<union>
     range ConsoleMessageBuilder_setLevel \<union>
     range ConsoleMessageBuilder_setText \<union>
     range ConsoleMessageBuilder_setUrl \<union>
     range ConsoleMessageBuilder_setLine \<union>
     range ConsoleMessageBuilder_setColumn"

lemmas ConsoleMessageBuilder_defs =
  ConsoleMessageBuilder_setters_def ConsoleMessageBuilder_setSource_def
  ConsoleMessageBuilder_setLevel_def
  ConsoleMessageBuilder_setText_def
  ConsoleMessageBuilder_setUrl_def
  ConsoleMessageBuilder_setLine_def
  ConsoleMessageBuilder_setColumn_def

interpretation console_message_builder: builder_class ConsoleMessageBuilder_setters "[1, 2, 3]" ConsoleMessageBuilder_AllFieldsSet
  by unfold_locales (auto simp: ConsoleMessageBuilder_defs ConsoleMessageBuilder_AllFieldsSet_def)

subsection \<open>\<open>MessageAddedNotification\<close>\<close>

record MessageAddedNotification_members =
  m_message :: "ConsoleMessage option"

definition MessageAddedNotification_new :: MessageAddedNotification_members where
  "MessageAddedNotification_new = MessageAddedNotification_members.make None"

definition MessageAddedNotification_create :: "MessageAddedNotification_members builder" where
  "MessageAddedNotification_create = create_builder MessageAddedNotification_new"

definition MessageAddedNotificationBuilder_setMessage :: "ConsoleMessage option \<Rightarrow> MessageAddedNotification_members setter" where
  "MessageAddedNotificationBuilder_setMessage value =
     required_field 1 (\<lambda>r. r\<lparr>MessageAddedNotification_members.m_message := value\<rparr>)"

definition MessageAddedNotificationBuilder_AllFieldsSet :: cint where
  "MessageAddedNotificationBuilder_AllFieldsSet = all_fields [1]"

definition MessageAddedNotificationBuilder_build :: "MessageAddedNotification_members builder \<Rightarrow> MessageAddedNotification_members option" where
  "MessageAddedNotificationBuilder_build = build MessageAddedNotificationBuilder_AllFieldsSet"

definition MessageAddedNotification_complete :: "MessageAddedNotification_members \<Rightarrow> MessageAddedNotification option" where
  "MessageAddedNotification_complete r = do {
     x0 \<leftarrow> MessageAddedNotification_members.m_message r;
     Some (MessageAddedNotification.make
       x0)
   }"

definition MessageAddedNotificationBuilder_setters :: "MessageAddedNotification_members setter set" where
  "MessageAddedNotificationBuilder_setters =
     range MessageAddedNotificationBuilder_setMessage"

lemmas MessageAddedNotificationBuilder_defs =
  MessageAddedNotificationBuilder_setters_def MessageAddedNotificationBuilder_setMessage_def

interpretation message_added_notification_builder: builder_class MessageAddedNotificationBuilder_setters "[1]" MessageAddedNotificationBuilder_AllFieldsSet
  by unfold_locales (auto simp: MessageAddedNotificationBuilder_defs MessageAddedNotificationBuilder_AllFieldsSet_def)

subsection \<open>\<open>Domain\<close>\<close>

definition Domain_new :: Domain where
  "Domain_new = Domain.make [] []"

definition Domain_create :: "Domain builder" where
  "Domain_create = create_builder Domain_new"

definition DomainBuilder_setName :: "string16 \<Rightarrow> Domain setter" where
  "DomainBuilder_setName value = required_field 1 (\<lambda>r. r\<lparr>Domain.m_name := value\<rparr>)"

definition DomainBuilder_setVersion :: "string16 \<Rightarrow> Domain setter" where
  "DomainBuilder_setVersion value = required_field 2 (\<lambda>r. r\<lparr>Domain.m_version := value\<rparr>)"

definition DomainBuilder_AllFieldsSet :: cint where
  "DomainBuilder_AllFieldsSet = all_fields [1, 2]"

definition DomainBuilder_build :: "Domain builder \<Rightarrow> Domain option" where
  "DomainBuilder_build = build DomainBuilder_AllFieldsSet"

definition DomainBuilder_setters :: "Domain setter set" where
  "DomainBuilder_setters =
     range DomainBuilder_setName \<union>
     range DomainBuilder_setVersion"

lemmas DomainBuilder_defs =
  DomainBuilder_setters_def DomainBuilder_setName_def
  DomainBuilder_setVersion_def

interpretation domain_builder: builder_class DomainBuilder_setters "[1, 2]" DomainBuilder_AllFieldsSet
  by unfold_locales (auto simp: DomainBuilder_defs DomainBuilder_AllFieldsSet_def)

end
