(* ===== verification/CallFrameBuilt.thy ===== *)
theory CallFrameBuilt
  imports RuntimeBuilders DebuggerBuilders
begin

section \<open>Call frames that are built\<close>

text \<open>
  What a chain of calls of \<open>CallFrameBuilder\<close> gives: the location, the scope chain and the receiver, which are pointers,
  are those the chain was given.
\<close>

lemma other_setters_keep:
  "c \<in> CallFrameBuilder_setters \<Longrightarrow> setter_flag c \<noteq> Some 3 \<Longrightarrow>
     CallFrame_members.m_location (setter_put c r) = CallFrame_members.m_location r"
  "c \<in> CallFrameBuilder_setters \<Longrightarrow> setter_flag c \<noteq> Some 4 \<Longrightarrow>
     CallFrame_members.m_scopeChain (setter_put c r) = CallFrame_members.m_scopeChain r"
  "c \<in> CallFrameBuilder_setters \<Longrightarrow> setter_flag c \<noteq> Some 5 \<Longrightarrow>
     CallFrame_members.m_this (setter_put c r) = CallFrame_members.m_this r"
  by (auto simp: CallFrameBuilder_defs)

lemma pointer_setters_inject [simp]:
  "CallFrameBuilder_setLocation l = CallFrameBuilder_setLocation l' \<longleftrightarrow> l = l'"
  "CallFrameBuilder_setScopeChain s = CallFrameBuilder_setScopeChain s' \<longleftrightarrow> s = s'"
  "CallFrameBuilder_setThis t = CallFrameBuilder_setThis t' \<longleftrightarrow> t = t'"
  by (auto simp: CallFrameBuilder_defs
      dest: fun_cong [where x = CallFrame_new, THEN arg_cong [where f = CallFrame_members.m_location]]
        fun_cong [where x = CallFrame_new, THEN arg_cong [where f = CallFrame_members.m_scopeChain]]
        fun_cong [where x = CallFrame_new, THEN arg_cong [where f = CallFrame_members.m_this]])

lemma pointer_setters_flag [simp]:
  "setter_flag (CallFrameBuilder_setLocation l) = Some 3"
  "setter_flag (CallFrameBuilder_setScopeChain s) = Some 4"
  "setter_flag (CallFrameBuilder_setThis t) = Some 5"
  by (simp_all add: CallFrameBuilder_defs)

lemma call_frame_pointers:
  assumes "set cs \<subseteq> CallFrameBuilder_setters" and "distinct (flags_of cs)" and "set (flags_of cs) = {1, 2, 3, 4, 5}"
  obtains l s t where
    "CallFrameBuilder_setLocation l \<in> set cs" "CallFrame_members.m_location (fold setter_put cs r) = l"
    "CallFrameBuilder_setScopeChain s \<in> set cs" "CallFrame_members.m_scopeChain (fold setter_put cs r) = s"
    "CallFrameBuilder_setThis t \<in> set cs" "CallFrame_members.m_this (fold setter_put cs r) = t"
proof -
  have own: "c \<in> CallFrameBuilder_setters" if "c \<in> set cs" for c using assms(1) that by auto
  obtain a r1 where a: "a \<in> set cs" "setter_flag a = Some 3"
      "CallFrame_members.m_location (fold setter_put cs r) = CallFrame_members.m_location (setter_put a r1)"
    by (rule fold_setter_once [OF assms(2), where k = 3 and sel = CallFrame_members.m_location and r = r])
       (use assms(3) own in \<open>simp_all add: other_setters_keep\<close>)
  obtain b r2 where b: "b \<in> set cs" "setter_flag b = Some 4"
      "CallFrame_members.m_scopeChain (fold setter_put cs r) = CallFrame_members.m_scopeChain (setter_put b r2)"
    by (rule fold_setter_once [OF assms(2), where k = 4 and sel = CallFrame_members.m_scopeChain and r = r])
       (use assms(3) own in \<open>simp_all add: other_setters_keep\<close>)
  obtain c r3 where c: "c \<in> set cs" "setter_flag c = Some 5"
      "CallFrame_members.m_this (fold setter_put cs r) = CallFrame_members.m_this (setter_put c r3)"
    by (rule fold_setter_once [OF assms(2), where k = 5 and sel = CallFrame_members.m_this and r = r])
       (use assms(3) own in \<open>simp_all add: other_setters_keep\<close>)
  obtain l s t where "a = CallFrameBuilder_setLocation l" "b = CallFrameBuilder_setScopeChain s"
      "c = CallFrameBuilder_setThis t"
    using own [OF a(1)] own [OF b(1)] own [OF c(1)] a(2) b(2) c(2) by (auto simp: CallFrameBuilder_defs)
  then show thesis using a b c that by (simp add: CallFrameBuilder_defs)
qed

text \<open>A chain is given a null pointer for one of them.\<close>

definition null_given :: "CallFrame_members setter list \<Rightarrow> bool" where
  "null_given cs \<longleftrightarrow>
     CallFrameBuilder_setLocation None \<in> set cs \<or> CallFrameBuilder_setScopeChain None \<in> set cs \<or>
     CallFrameBuilder_setThis None \<in> set cs"

lemma call_frame_complete:
  assumes "set cs \<subseteq> CallFrameBuilder_setters" and "distinct (flags_of cs)" and "set (flags_of cs) = {1, 2, 3, 4, 5}"
  shows "CallFrame_complete (fold setter_put cs r) = None \<longleftrightarrow> null_given cs"
proof -
  obtain l s t where p:
    "CallFrameBuilder_setLocation l \<in> set cs" "CallFrame_members.m_location (fold setter_put cs r) = l"
    "CallFrameBuilder_setScopeChain s \<in> set cs" "CallFrame_members.m_scopeChain (fold setter_put cs r) = s"
    "CallFrameBuilder_setThis t \<in> set cs" "CallFrame_members.m_this (fold setter_put cs r) = t"
    by (rule call_frame_pointers [OF assms])
  have "CallFrameBuilder_setLocation None \<in> set cs \<longleftrightarrow> l = None"
    using flag_once [OF assms(2) _ p(1), of "CallFrameBuilder_setLocation None" 3] p(1) by auto
  moreover have "CallFrameBuilder_setScopeChain None \<in> set cs \<longleftrightarrow> s = None"
    using flag_once [OF assms(2) _ p(3), of "CallFrameBuilder_setScopeChain None" 4] p(3) by auto
  moreover have "CallFrameBuilder_setThis None \<in> set cs \<longleftrightarrow> t = None"
    using flag_once [OF assms(2) _ p(5), of "CallFrameBuilder_setThis None" 5] p(5) by auto
  ultimately have "null_given cs \<longleftrightarrow> l = None \<or> s = None \<or> t = None"
    by (simp only: null_given_def)
  then show ?thesis
    using p(2,4,6) by (cases l; cases s; cases t) (simp_all add: CallFrame_complete_def)
qed

text \<open>The chain of \<open>DebuggerCallFrame::ToProtocolValue\<close>: the object the model makes at once.\<close>

lemma call_frame_chain:
  "Option.bind (Option.bind (call_setters
      [CallFrameBuilder_setCallFrameId callFrameId, CallFrameBuilder_setFunctionName functionName,
       CallFrameBuilder_setLocation (Some loc), CallFrameBuilder_setScopeChain (Some scopes),
       CallFrameBuilder_setThis (Some this)] CallFrame_create) CallFrameBuilder_build) CallFrame_complete =
   Some (CallFrame.make callFrameId functionName None loc scopes this None)"
  by (simp add: CallFrameBuilder_defs CallFrame_create_def create_builder_def call_setter_def castState_def
      field_flag_def CallFrameBuilder_build_def build_def CallFrameBuilder_AllFieldsSet_def all_fields_def
      CallFrame_new_def CallFrame_complete_def CallFrame_members.make_def)

end
