(* ===== verification/UnitTests.thy ===== *)
theory UnitTests
  imports Requests HostSteps
begin

section \<open>A unit test of the repository\<close>

text \<open>
  The messages and the expected responses of the test \<open>JsDebugProtocolHandler SendMessage\<close> in
  \<open>src/test/Debugger.UnitTests/ProtocolHandler.UnitTests.cpp\<close>, up to the point where it enables the debugger: the five
  invalid payloads and \<open>Schema.getDomains\<close>.  They are answered by any connected handler as the test expects, as long as the
  conversions leave ASCII texts alone.
\<close>

definition send_message_test :: "(string \<times> string) list" where
  "send_message_test =
     [('''', ''{\"error\":{\"code\":-32700,\"message\":\"Message must be a valid JSON\"}}''),
      (''Hi!'', ''{\"error\":{\"code\":-32700,\"message\":\"Message must be a valid JSON\"}}''),
      (''{\"foo\":\"bar\"}'',
       ''{\"error\":{\"code\":-32600,\"message\":\"Message must have integer '' @ [CHR 0x27] @ ''id'' @ [CHR 0x27] @
       '' property\"}}''),
      (''{\"id\":0}'',
       ''{\"error\":{\"code\":-32600,\"message\":\"Message must have string '' @ [CHR 0x27] @ ''method'' @ [CHR 0x27] @
       '' property\"},\"id\":0}''),
      (''{\"id\":1,\"method\":\"Foo.bar\"}'',
       ''{\"error\":{\"code\":-32601,\"message\":\"'' @ [CHR 0x27] @ ''Foo.bar'' @ [CHR 0x27] @
       '' wasn'' @ [CHR 0x27] @ ''t found\"},\"id\":1}''),
      (''{\"id\":2,\"method\":\"Schema.getDomains\"}'',
       ''{\"id\":2,\"result\":{\"domains\":[{\"name\":\"Console\",\"version\":\"1.2\"},'' @
       ''{\"name\":\"Debugger\",\"version\":\"1.2\"},{\"name\":\"Runtime\",\"version\":\"1.2\"}]}}'')]"

definition ascii_transparent :: "'w Env \<Rightarrow> bool" where
  "ascii_transparent E \<longleftrightarrow>
     (\<forall>s. s \<noteq> [] \<and> list_all ascii s \<longrightarrow> utf8_decode E s = Some (lit s) \<and> utf8_encode E (lit s) = Some s)"

lemma received_ascii: "ascii_transparent E \<Longrightarrow> list_all ascii s \<Longrightarrow> received E s = parseJSON (lit s)"
  by (cases "s = []") (simp_all add: received_def fromUtf8_def ascii_transparent_def)

lemma message_text_ascii:
  "ascii_transparent E \<Longrightarrow> list_all ascii t \<Longrightarrow> serialize_message m = Some (lit t) \<Longrightarrow> message_text E m = t"
  by (cases "t = []") (simp_all add: message_text_def toUtf8_def ascii_transparent_def)

subsection \<open>The messages and the texts of their responses\<close>

lemma parse_text:
  assumes "lit s = json_text v" and "wf_val v" and "plain_val v" and "nesting v \<le> stackLimit"
  shows "parseJSON (lit s) = Some v"
  using parse_json_text [OF assms(2-4)] assms(1) by simp

lemmas object_eval = set_defs Dict_def dict_set_def dict_create_def

lemma parse_empty: "parseJSON (lit []) = None"
  by (simp add: parseJSON_def)

lemma parse_hi: "parseJSON (lit ''Hi!'') = None"
  by code_simp

lemma parse_foo: "parseJSON (lit ''{\"foo\":\"bar\"}'') = Some (Dict (setString (lit ''foo'') (lit ''bar'') dict_create))"
  by code_simp

lemma parse_id: "parseJSON (lit ''{\"id\":0}'') = Some (Dict (setInteger (lit ''id'') 0 dict_create))"
proof (rule parse_text)
  show "lit ''{\"id\":0}'' = json_text (Dict (setInteger (lit ''id'') 0 dict_create))"
    by (simp add: object_eval quoted_lit plain_char_def, simp add: text_eval)
qed (simp_all add: object_eval wf_intros stackLimit_def)

lemma parse_request:
  "parseJSON (lit ''{\"id\":1,\"method\":\"Foo.bar\"}'') =
     Some (Dict (setString (lit ''method'') (lit ''Foo.bar'') (setInteger (lit ''id'') 1 dict_create)))"
proof (rule parse_text)
  show "lit ''{\"id\":1,\"method\":\"Foo.bar\"}'' =
      json_text (Dict (setString (lit ''method'') (lit ''Foo.bar'') (setInteger (lit ''id'') 1 dict_create)))"
    by (simp add: object_eval quoted_lit plain_char_def, simp add: text_eval)
qed (simp_all add: object_eval wf_intros stackLimit_def)

lemma parse_get_domains:
  "parseJSON (lit ''{\"id\":2,\"method\":\"Schema.getDomains\"}'') =
     Some (Dict (setString (lit ''method'') (lit ''Schema.getDomains'') (setInteger (lit ''id'') 2 dict_create)))"
proof (rule parse_text)
  show "lit ''{\"id\":2,\"method\":\"Schema.getDomains\"}'' =
      json_text (Dict (setString (lit ''method'') (lit ''Schema.getDomains'') (setInteger (lit ''id'') 2 dict_create)))"
    by (simp add: object_eval quoted_lit plain_char_def, simp add: text_eval)
qed (simp_all add: object_eval wf_intros stackLimit_def)

lemma no_json_text:
  "serialize_message (createErrorNotification kParseError (lit ''Message must be a valid JSON'')) =
     Some (lit ''{\"error\":{\"code\":-32700,\"message\":\"Message must be a valid JSON\"}}'')"
  by (simp add: createErrorNotification_def serialize_wf set_defs wf_intros Let_def)
    (simp add: Dict_def dict_set_def dict_create_def quoted_lit plain_char_def, simp add: text_eval)

lemma no_id_text:
  "serialize_message (createErrorNotification kInvalidRequest
      (lit (''Message must have integer '' @ [CHR 0x27] @ ''id'' @ [CHR 0x27] @ '' property''))) =
     Some (lit (''{\"error\":{\"code\":-32600,\"message\":\"Message must have integer '' @ [CHR 0x27] @ ''id'' @
       [CHR 0x27] @ '' property\"}}''))"
  by (simp add: createErrorNotification_def serialize_wf set_defs wf_intros Let_def)
    (simp add: Dict_def dict_set_def dict_create_def quoted_lit plain_char_def, simp add: text_eval)

lemma no_method_text:
  "serialize_message (createErrorResponse 0 kInvalidRequest
      (lit (''Message must have string '' @ [CHR 0x27] @ ''method'' @ [CHR 0x27] @ '' property'')) None) =
     Some (lit (''{\"error\":{\"code\":-32600,\"message\":\"Message must have string '' @ [CHR 0x27] @ ''method'' @
       [CHR 0x27] @ '' property\"},\"id\":0}''))"
  by (simp add: createErrorResponse_def serialize_wf set_defs wf_intros Let_def)
    (simp add: Dict_def dict_set_def dict_create_def quoted_lit plain_char_def, simp add: text_eval)

lemma not_found_text:
  "serialize_message (createErrorResponse 1 kMethodNotFound (notFoundMessage (lit ''Foo.bar'')) None) =
     Some (lit (''{\"error\":{\"code\":-32601,\"message\":\"'' @ [CHR 0x27] @ ''Foo.bar'' @ [CHR 0x27] @
       '' wasn'' @ [CHR 0x27] @ ''t found\"},\"id\":1}''))"
proof -
  have "notFoundMessage (lit ''Foo.bar'') =
      lit ([CHR 0x27] @ ''Foo.bar'' @ [CHR 0x27] @ '' wasn'' @ [CHR 0x27] @ ''t found'')"
    by (simp add: notFoundMessage_def plus_string_def text_eval)
  then show ?thesis
    by (simp add: createErrorResponse_def serialize_wf set_defs wf_intros Let_def del: append_Cons append_Nil)
      (simp add: Dict_def dict_set_def dict_create_def quoted_lit plain_char_def, simp add: text_eval)
qed

lemma get_domains_text:
  "serialize_message (createResponse 2 (Some (build_object
      [setField (Array_toValue Domain_toValue) ''domains'' GetSupportedDomains]))) =
     Some (lit (''{\"id\":2,\"result\":{\"domains\":[{\"name\":\"Console\",\"version\":\"1.2\"},'' @
       ''{\"name\":\"Debugger\",\"version\":\"1.2\"},{\"name\":\"Runtime\",\"version\":\"1.2\"}]}}''))"
proof -
  have wf: "wf_val (build_object [setField (Array_toValue Domain_toValue) ''domains'' GetSupportedDomains])"
    by (simp add: wf_intros)
  have "json_text (build_object [setField (Array_toValue Domain_toValue) ''domains'' GetSupportedDomains]) =
      lit (''{\"domains\":[{\"name\":\"Console\",\"version\":\"1.2\"},'' @
       ''{\"name\":\"Debugger\",\"version\":\"1.2\"},{\"name\":\"Runtime\",\"version\":\"1.2\"}]}'')"
    by (simp add: build_object_def setField_def setValue_def Array_toValue_def Domain_toValue_def GetSupportedDomains_def
        Domain.make_def object_eval quoted_lit plain_char_def, simp add: text_eval)
  then show ?thesis
    using wf
    by (simp add: createResponse_def serialize_wf set_defs wf_intros Let_def)
      (simp add: object_eval quoted_lit plain_char_def, simp add: text_eval)
qed

subsection \<open>The answers\<close>

lemma get_domains_answered:
  assumes ok: "handler_ok h" "m_isConnected h" and c: "connected_to c st (w, h)"
    and v: "received E message = Some v" "request (m_dispatcher h) v obj callId (lit ''Schema.getDomains'')"
  shows "HandleMessageReceived E message (w, h) = (Inr (), log_reply E c st (createResponse callId (Some (build_object
    [setField (Array_toValue Domain_toValue) ''domains'' GetSupportedDomains]))) (w, h))"
proof -
  have "wired SchemaDomain h" using ok by (simp add: handler_ok_def)
  then obtain d where d: "map_of (dispatchers h) (lit ''Schema'') = Some d" "dd_domain d = SchemaDomain" "live_backend d h"
    by (auto simp: wired_def)
  have dot: "find_string (lit ''Schema.getDomains'') (lit ''.'') = Some 6" by code_simp
  have name: "take 6 (lit ''Schema.getDomains'') = lit ''Schema''" by (simp add: lit_Cons)
  have target: "target (m_dispatcher h) (lit ''Schema.getDomains'') = Some d"
    using d(1) name by (simp only: target_def dot option.case dispatchers_def)
  have weak: "dispatcher_of (dd_id d) h \<noteq> None"
    using map_of_SomeD [OF d(1)] by (auto simp: dispatcher_of_def dispatchers_def find_None_iff intro!: bexI)
  have wf: "wf_message (createResponse callId (Some (build_object
      [setField (Array_toValue Domain_toValue) ''domains'' GetSupportedDomains])))"
    by (simp add: wf_message_def createResponse_def wf_intros)
  have "call_dispatcher E d callId (lit ''Schema.getDomains'') obj (w, h) = (Inr kSuccess,
      log_reply E c st (createResponse callId (Some (build_object
        [setField (Array_toValue Domain_toValue) ''domains'' GetSupportedDomains]))) (w, h))"
    using d(2,3) weak reply.response [OF c wf]
    by (simp add: call_dispatcher_def Let_def domain_dispatch_def Schema_dispatchMap_def Schema_getDomains_def
        schema_backend_def SchemaBackend.make_def via_agent_def live_agent_def live_backend_def SchemaImpl_getDomains_def
        deref_def finish_def sendResponse_def dispatcher_base_def DispatcherBase.make_def Response_OK_def
        DispatchResponse.make_def getH_def M_defs)
  then show ?thesis
    by (intro received_rejected) (simp only: v reply.for_domain [OF v(2) target])
qed

text \<open>What is logged of a response, and the answers one by one.\<close>

lemma logged:
  assumes "ascii_transparent E" and "connected_to c st (w, h)" and "list_all ascii t"
    and "HandleMessageReceived E message (w, h) = (Inr (), log_reply E c st m (w, h))"
    and "serialize_message m = Some (lit t)"
  shows "HandleMessageReceived E message (w, h) =
    (Inr (), (w, h\<lparr>host_log := host_log h @ [ResponseSent c t st]\<rparr>))"
  using assms(4) message_text_ascii [OF assms(1,3,5)] by (simp add: log_reply_def)

lemma answer_no_id:
  assumes "connected_to c st (w, h)" and "received E message = Some (Dict d)"
    and "Option.bind (dict_get d (lit ''id'')) asInteger = None"
  shows "HandleMessageReceived E message (w, h) = (Inr (), log_reply E c st (createErrorNotification kInvalidRequest
    (lit (''Message must have integer '' @ [CHR 0x27] @ ''id'' @ [CHR 0x27] @ '' property''))) (w, h))"
  by (rule received_rejected) (simp only: assms(2) reply.no_id [OF assms(1) Dict_cast assms(3)])

lemma answer_no_method:
  assumes "connected_to c st (w, h)" and "received E message = Some (Dict d)"
    and "Option.bind (dict_get d (lit ''id'')) asInteger = Some callId"
    and "Option.bind (dict_get d (lit ''method'')) asString = None"
  shows "HandleMessageReceived E message (w, h) = (Inr (), log_reply E c st (createErrorResponse callId kInvalidRequest
    (lit (''Message must have string '' @ [CHR 0x27] @ ''method'' @ [CHR 0x27] @ '' property'')) None) (w, h))"
  by (rule received_rejected) (simp only: assms(2) reply.no_method [OF assms(1) Dict_cast assms(3,4)])

lemma answer_no_domain:
  assumes "connected_to c st (w, h)" and "received E message = Some v"
    and "request (m_dispatcher h) v obj callId name" and "target (m_dispatcher h) name = None"
  shows "HandleMessageReceived E message (w, h) =
    (Inr (), log_reply E c st (createErrorResponse callId kMethodNotFound (notFoundMessage name) None) (w, h))"
  by (rule received_rejected) (simp only: assms(2) reply.no_domain [OF assms(1,3,4)])

lemma no_foo_domain:
  assumes "handler_ok h"
  shows "target (m_dispatcher h) (lit ''Foo.bar'') = None"
proof -
  have dot: "find_string (lit ''Foo.bar'') (lit ''.'') = Some 3" by code_simp
  have name: "take 3 (lit ''Foo.bar'') = lit ''Foo''" by (simp add: lit_Cons)
  have "map_of (dispatchers h) (lit ''Foo'') = None"
  proof (rule ccontr)
    assume "map_of (dispatchers h) (lit ''Foo'') \<noteq> None"
    then obtain d where "(lit ''Foo'', d) \<in> set (dispatchers h)" by (auto dest: map_of_SomeD)
    then have "lit ''Foo'' = domain_name (dd_domain d)" using assms by (auto simp: handler_ok_def dispatcher_ok_def)
    then show False by (cases "dd_domain d") simp_all
  qed
  then show ?thesis by (simp only: target_def dot option.case name dispatchers_def)
qed

lemma request_Dict:
  "handler_ok h \<Longrightarrow> Option.bind (dict_get d (lit ''id'')) asInteger = Some callId \<Longrightarrow>
     Option.bind (dict_get d (lit ''method'')) asString = Some name \<Longrightarrow> request (m_dispatcher h) (Dict d) d callId name"
  by (simp add: request_def handler_ok_def dispatcher_ok_def)

lemma send_message_answers:
  assumes ok: "handler_ok h" "m_isConnected h" and c: "m_sendResponseCallback h = Some c"
    and E: "ascii_transparent E" and pair: "(message, response) \<in> set send_message_test"
  shows "HandleMessageReceived E message (w, h) =
    (Inr (), (w, h\<lparr>host_log := host_log h @ [ResponseSent c response (m_sendResponseCallbackState h)]\<rparr>))"
proof -
  have to: "connected_to c (m_sendResponseCallbackState h) (w, h)" using c by (simp add: connected_to_def)
  note got = received_ascii [OF E] and answered = logged [OF E to]
  have empty: "received E '''' = None" by simp
  have hi: "received E ''Hi!'' = None" by (simp add: got ascii_def parse_hi)
  have foo: "received E ''{\"foo\":\"bar\"}'' = Some (Dict (setString (lit ''foo'') (lit ''bar'') dict_create))"
    by (simp add: got ascii_def parse_foo)
  have ident: "received E ''{\"id\":0}'' = Some (Dict (setInteger (lit ''id'') 0 dict_create))"
    by (simp add: got ascii_def parse_id)
  have req: "received E ''{\"id\":1,\"method\":\"Foo.bar\"}'' =
      Some (Dict (setString (lit ''method'') (lit ''Foo.bar'') (setInteger (lit ''id'') 1 dict_create)))"
    by (simp add: got ascii_def parse_request)
  have dom: "received E ''{\"id\":2,\"method\":\"Schema.getDomains\"}'' =
      Some (Dict (setString (lit ''method'') (lit ''Schema.getDomains'') (setInteger (lit ''id'') 2 dict_create)))"
    by (simp add: got ascii_def parse_get_domains)
  have r1: "request (m_dispatcher h) (Dict (setString (lit ''method'') (lit ''Foo.bar'') (setInteger (lit ''id'') 1 dict_create)))
      (setString (lit ''method'') (lit ''Foo.bar'') (setInteger (lit ''id'') 1 dict_create)) 1 (lit ''Foo.bar'')"
    by (rule request_Dict [OF ok(1)]) (simp_all add: set_defs)
  have r2: "request (m_dispatcher h)
      (Dict (setString (lit ''method'') (lit ''Schema.getDomains'') (setInteger (lit ''id'') 2 dict_create)))
      (setString (lit ''method'') (lit ''Schema.getDomains'') (setInteger (lit ''id'') 2 dict_create)) 2
      (lit ''Schema.getDomains'')"
    by (rule request_Dict [OF ok(1)]) (simp_all add: set_defs)
  note a = answered [OF _ not_json [OF to empty] no_json_text]
    answered [OF _ not_json [OF to hi] no_json_text]
    answered [OF _ answer_no_id [OF to foo] no_id_text]
    answered [OF _ answer_no_method [OF to ident] no_method_text]
    answered [OF _ answer_no_domain [OF to req r1 no_foo_domain [OF ok(1)]] not_found_text]
    answered [OF _ get_domains_answered [OF ok to dom r2] get_domains_text]
  show ?thesis using pair a unfolding send_message_test_def by (auto simp: ascii_def set_defs)
qed

text \<open>The messages of the test one after the other.\<close>

lemma send_messages_answers:
  assumes "set ts \<subseteq> set send_message_test" and "handler_ok h" and "m_isConnected h"
    and "m_sendResponseCallback h = Some c" and "ascii_transparent E"
  shows "forM (map fst ts) (HandleMessageReceived E) (w, h) = (Inr (), (w, h\<lparr>host_log := host_log h @
    map (\<lambda>t. ResponseSent c (snd t) (m_sendResponseCallbackState h)) ts\<rparr>))"
  using assms
proof (induction ts arbitrary: h)
  case Nil
  then show ?case by (simp add: M_defs)
next
  case (Cons t ts)
  let ?h = "h\<lparr>host_log := host_log h @ [ResponseSent c (snd t) (m_sendResponseCallbackState h)]\<rparr>"
  have "HandleMessageReceived E (fst t) (w, h) = (Inr (), (w, ?h))"
    using Cons.prems by (intro send_message_answers) auto
  with Cons.IH [of ?h] Cons.prems show ?case by (simp add: seqM_def bindM_def)
qed

end
