(* ===== verification/SampleHost.thy ===== *)
theory SampleHost
  imports Service CommandLine
begin

section \<open>The sample host\<close>

text \<open>
  \<open>Debugger.Sample.cpp\<close> with its helpers \<open>ErrorHelpers.h\<close>, \<open>DebugProtocolHandler.h\<close> and \<open>DebugService.h\<close>: a program that
  creates a runtime, puts a protocol handler and the web server in front of it, and runs the scripts of its command line.

  The engine functions only the host uses are the record \<open>HostEngine\<close>.  Running a script is a parameter over everything that
  is not local to \<open>wmain\<close>, because the script calls back into the host, the debugger and, on the server's thread, the
  service.  The file system and the conversion of texts are the system's.
\<close>

subsection \<open>The surroundings\<close>

datatype HostCallback = EchoCallback | RunScriptCallback | ThrowCallback

datatype JsParseScriptAttributes = JsParseScriptAttributeNone | JsParseScriptAttributeLibraryCode

record 'w HostEngine =
  JsCreateRuntime :: "('w, nat) api"
  JsDisposeRuntime :: "nat \<Rightarrow> ('w, unit) api"
  JsPointerToString :: "string16 \<Rightarrow> ('w, JsValueRef) api"
  JsStringToPointer :: "JsValueRef \<Rightarrow> ('w, string16) api"
  JsCreateExternalArrayBuffer :: "string \<Rightarrow> 32 word \<Rightarrow> ('w, JsValueRef) api"
  JsCreateError :: "JsValueRef \<Rightarrow> ('w, JsValueRef) api"
  JsSetException :: "JsValueRef \<Rightarrow> ('w, unit) api"
  JsCreateArray :: "32 word \<Rightarrow> ('w, JsValueRef) api"
  JsSetIndexedProperty :: "JsValueRef \<Rightarrow> JsValueRef \<Rightarrow> JsValueRef \<Rightarrow> ('w, unit) api"
  JsCreateHostFunction :: "HostCallback \<Rightarrow> ('w, JsValueRef) api"
  JsNumberToDouble :: "JsValueRef \<Rightarrow> ('w, dbl) api"

datatype HostOutput = ToStdout string16 | ToStderr string16

text \<open>What is not local to \<open>wmain\<close>; the static counter of \<open>GetNextSourceContext\<close> belongs to it.\<close>

record ('n, 'w) HostState =
  world :: "('n, 'w) World"
  sourceContext :: "32 word"
  host_output :: "HostOutput list"

type_synonym ('n, 'w, 'a) HM = "(('n, 'w) HostState, fault, 'a) M"

text \<open>
  \<open>GetFullPathName\<close> returns its result and what it has left in the buffer; \<open>MultiByteToWideChar\<close> what it has written, of
  the given numbers of bytes and wide characters, nothing when it fails.  The server's thread acts before the host waits for the
  debugger, and while scripts run.
\<close>

record ('n, 'w) HostEnv =
  handler_env :: "nat \<Rightarrow> 'w Env"
  server_library :: "'n Websocket"
  host_engine :: "'w HostEngine"
  handler_address :: nat
  GetFullPathName :: "string16 \<Rightarrow> 32 word \<times> string16"
  file_contents :: "string16 \<Rightarrow> string option"
  MultiByteToWideChar :: "string \<Rightarrow> cint \<Rightarrow> cint \<Rightarrow> string16"
  JsRun :: "JsValueRef \<Rightarrow> 64 word \<Rightarrow> JsValueRef \<Rightarrow> JsParseScriptAttributes \<Rightarrow> ('n, 'w, JsErrorCode \<times> JsValueRef) HM"
  JsRunScript :: "string16 \<Rightarrow> 64 word \<Rightarrow> string16 \<Rightarrow> ('n, 'w, JsErrorCode \<times> JsValueRef) HM"
  call_script_function :: "JsValueRef \<Rightarrow> JsValueRef list \<Rightarrow> ('n, 'w, JsErrorCode \<times> JsValueRef) HM"
  server_thread :: "('n, 'w, unit) HM"

definition host_jsrt :: "('n, 'w) HostEnv \<Rightarrow> 'w JSRT" where
  "host_jsrt A = jsrt_of (handler_env A (handler_address A))"

definition on_world :: "('n, 'w, 'a) S \<Rightarrow> ('n, 'w, 'a) HM" where
  "on_world m = (\<lambda>s. case m (world s) of (r, w) \<Rightarrow> (r, s\<lparr>world := w\<rparr>))"

definition on_engine :: "('w, 'a) api \<Rightarrow> ('n, 'w, JsErrorCode \<times> 'a) HM" where
  "on_engine f = on_world (\<lambda>s. case f (engine s) of (r, w) \<Rightarrow> (Inr r, s\<lparr>engine := w\<rparr>))"

definition print_out :: "string16 \<Rightarrow> ('n, 'w, unit) HM" where
  "print_out text_out = modifyM (\<lambda>s. s\<lparr>host_output := host_output s @ [ToStdout text_out]\<rparr>)"

definition print_err :: "string16 \<Rightarrow> ('n, 'w, unit) HM" where
  "print_err text_out = modifyM (\<lambda>s. s\<lparr>host_output := host_output s @ [ToStderr text_out]\<rparr>)"

text \<open>A wide C string: the \<open>c_str\<close> of a text, or what \<open>%s\<close> prints of it.\<close>

definition c_wstr :: "string16 \<Rightarrow> string16" where
  "c_wstr s = takeWhile (\<lambda>c. c \<noteq> 0) s"

subsection \<open>\<open>ErrorHelpers.h\<close>\<close>

text \<open>
  The macros leave the function they are used in: \<open>Leave c\<close> is a \<open>return\<close> (or a \<open>goto\<close>) out of the middle of a
  function, \<open>Fail f\<close> a fault.
\<close>

datatype 'c exit = Leave 'c | Fail fault

definition in_function :: "('s, fault, 'a) M \<Rightarrow> ('s, 'c exit, 'a) M" where
  "in_function m = (\<lambda>s. case m s of (Inl f, t) \<Rightarrow> (Inl (Fail f), t) | (Inr x, t) \<Rightarrow> (Inr x, t))"

definition left_by :: "('s, 'c exit, 'c) M \<Rightarrow> ('s, fault, 'c) M" where
  "left_by m = (\<lambda>s. case m s of
     (Inl (Leave c), t) \<Rightarrow> (Inr c, t) | (Inl (Fail f), t) \<Rightarrow> (Inl f, t) | (Inr c, t) \<Rightarrow> (Inr c, t))"

text \<open>\<open>result\<close> adds to the error code what the function's out parameter holds then.\<close>

definition IfFailRet :: "(JsErrorCode \<Rightarrow> 'c) \<Rightarrow> ('s, fault, JsErrorCode \<times> 'a) M \<Rightarrow> ('s, 'c exit, 'a) M" where
  "IfFailRet result m =
     bindM (in_function m) (\<lambda>(code, x). if code \<noteq> JsNoError then throwM (Leave (result code)) else retM x)"

definition ThrowJsError :: "('n, 'w) HostEnv \<Rightarrow> string16 \<Rightarrow> ('n, 'w, unit) HM" where
  "ThrowJsError A errorString =
     bindM (on_engine (JsPointerToString (host_engine A) errorString)) (\<lambda>(_, errorValue).
     bindM (on_engine (JsCreateError (host_engine A) errorValue)) (\<lambda>(_, errorObject).
     bindM (on_engine (JsSetException (host_engine A) errorObject)) (\<lambda>_. retM ())))"

definition IfFailThrowJsError ::
  "('n, 'w) HostEnv \<Rightarrow> ('n, 'w, JsErrorCode \<times> 'a) HM \<Rightarrow> string \<Rightarrow> (('n, 'w) HostState, JsValueRef exit, 'a) M" where
  "IfFailThrowJsError A m e =
     bindM (in_function m) (\<lambda>(code, x).
       if code \<noteq> JsNoError then seqM (in_function (ThrowJsError A (lit e))) (throwM (Leave JS_INVALID_REFERENCE))
       else retM x)"

subsection \<open>\<open>DebugProtocolHandler.h\<close> and \<open>DebugService.h\<close>\<close>

text \<open>The wrapper classes: a handle that is null once it has been destroyed.\<close>

record DebugProtocolHandler =
  m_protocolHandler :: "nat option"

record DebugService =
  m_service :: "unit option"

definition DebugProtocolHandler_new :: "('n, 'w) HostEnv \<Rightarrow> nat \<Rightarrow> ('n, 'w, DebugProtocolHandler) HM" where
  "DebugProtocolHandler_new A runtime = on_world (\<lambda>s.
     case JsDebugProtocolHandlerCreate (handler_env A (handler_address A))
         (if runtime = JS_INVALID_REFERENCE then None else Some runtime) (Some ()) (engine s) of
       ((code, h), w) \<Rightarrow>
         if code \<noteq> JsNoError
         then (Inl (Throw (OtherException ''Unable to create debug protocol handler.'')), s\<lparr>engine := w\<rparr>)
         else (Inr \<lparr>m_protocolHandler = Some (handler_address A)\<rparr>,
               s\<lparr>engine := w, protocol_handlers := (protocol_handlers s)(handler_address A := h)\<rparr>))"

definition DebugProtocolHandler_Connect ::
  "('n, 'w) HostEnv \<Rightarrow> DebugProtocolHandler \<Rightarrow> bool \<Rightarrow> nat option \<Rightarrow> nat \<Rightarrow> ('n, 'w, JsErrorCode) HM" where
  "DebugProtocolHandler_Connect A this b callback callbackState =
     on_world (call_handler (handler_env A) (m_protocolHandler this)
       (\<lambda>e h. JsDebugProtocolHandlerConnect e h b callback callbackState))"

definition forget_handler :: "nat option \<Rightarrow> ('n, 'w, unit) S" where
  "forget_handler p = modifyM (\<lambda>s. case p of
     None \<Rightarrow> s | Some a \<Rightarrow> s\<lparr>protocol_handlers := (protocol_handlers s)(a := None)\<rparr>)"

text \<open>With the error code the object as it is afterwards; a handler that was destroyed is gone.\<close>

definition DebugProtocolHandler_Destroy ::
  "('n, 'w) HostEnv \<Rightarrow> DebugProtocolHandler \<Rightarrow> ('n, 'w, JsErrorCode \<times> DebugProtocolHandler) HM" where
  "DebugProtocolHandler_Destroy A this =
     (if m_protocolHandler this \<noteq> None then
        bindM (on_world (call_handler (handler_env A) (m_protocolHandler this) JsDebugProtocolHandlerDestroy)) (\<lambda>code.
          if code = JsNoError
          then seqM (on_world (forget_handler (m_protocolHandler this))) (retM (code, this\<lparr>m_protocolHandler := None\<rparr>))
          else retM (code, this))
      else retM (JsNoError, this))"

definition DebugProtocolHandler_delete ::
  "('n, 'w) HostEnv \<Rightarrow> DebugProtocolHandler \<Rightarrow> ('n, 'w, unit) HM" where
  "DebugProtocolHandler_delete A this = bindM (DebugProtocolHandler_Destroy A this) (\<lambda>_. retM ())"

definition DebugProtocolHandler_Disconnect ::
  "('n, 'w) HostEnv \<Rightarrow> DebugProtocolHandler \<Rightarrow> ('n, 'w, JsErrorCode) HM" where
  "DebugProtocolHandler_Disconnect A this =
     on_world (call_handler (handler_env A) (m_protocolHandler this) JsDebugProtocolHandlerDisconnect)"

definition DebugProtocolHandler_WaitForDebugger ::
  "('n, 'w) HostEnv \<Rightarrow> DebugProtocolHandler \<Rightarrow> ('n, 'w, JsErrorCode) HM" where
  "DebugProtocolHandler_WaitForDebugger A this =
     on_world (call_handler (handler_env A) (m_protocolHandler this) JsDebugProtocolHandlerWaitForDebugger)"

definition DebugProtocolHandler_ProcessCommandQueue ::
  "('n, 'w) HostEnv \<Rightarrow> DebugProtocolHandler \<Rightarrow> ('n, 'w, JsErrorCode) HM" where
  "DebugProtocolHandler_ProcessCommandQueue A this =
     on_world (call_handler (handler_env A) (m_protocolHandler this) JsDebugProtocolHandlerProcessCommandQueue)"

definition DebugProtocolHandler_SetCommandQueueCallback ::
  "('n, 'w) HostEnv \<Rightarrow> DebugProtocolHandler \<Rightarrow> nat option \<Rightarrow> nat \<Rightarrow> ('n, 'w, JsErrorCode) HM" where
  "DebugProtocolHandler_SetCommandQueueCallback A this callback callbackState =
     on_world (call_handler (handler_env A) (m_protocolHandler this)
       (\<lambda>e h. JsDebugProtocolHandlerSetCommandQueueCallback e h callback callbackState))"

definition DebugProtocolHandler_GetConsoleObject ::
  "('n, 'w) HostEnv \<Rightarrow> DebugProtocolHandler \<Rightarrow> ('n, 'w, JsErrorCode \<times> JsValueRef) HM" where
  "DebugProtocolHandler_GetConsoleObject A this =
     (case m_protocolHandler this of
        None \<Rightarrow> retM (JsErrorInvalidArgument, JS_INVALID_REFERENCE)
      | Some p \<Rightarrow> on_world (\<lambda>s. case protocol_handlers s p of
            None \<Rightarrow> (Inl (Undefined DanglingPointer), s)
          | Some h \<Rightarrow> (case JsDebugProtocolHandlerCreateConsoleObject (handler_env A p) (Some ()) (engine s, h) of
              (r, (w, h')) \<Rightarrow>
                (case r of
                   Inl f \<Rightarrow> Inl f
                 | Inr (code, object) \<Rightarrow> Inr (code, case object of Some v \<Rightarrow> v | None \<Rightarrow> JS_INVALID_REFERENCE),
                 s\<lparr>engine := w, protocol_handlers := (protocol_handlers s)(p := Some h')\<rparr>))))"

definition DebugService_new :: "('n, 'w) HostEnv \<Rightarrow> ('n, 'w, DebugService) HM" where
  "DebugService_new A = on_world (\<lambda>s.
     case JsDebugServiceCreate (Some ()) of
       (JsNoError, Some service) \<Rightarrow> (Inr \<lparr>m_service = Some ()\<rparr>, s\<lparr>web_service := service\<rparr>)
     | _ \<Rightarrow> (Inl (Throw (OtherException ''Unable to create debug service.'')), s))"

definition DebugService_Destroy ::
  "('n, 'w) HostEnv \<Rightarrow> DebugService \<Rightarrow> ('n, 'w, JsErrorCode \<times> DebugService) HM" where
  "DebugService_Destroy A this =
     (if m_service this \<noteq> None then
        bindM (on_world (JsDebugServiceDestroy (handler_env A) (server_library A) (m_service this))) (\<lambda>code.
          if code = JsNoError then retM (code, this\<lparr>m_service := None\<rparr>) else retM (code, this))
      else retM (JsNoError, this))"

definition DebugService_delete :: "('n, 'w) HostEnv \<Rightarrow> DebugService \<Rightarrow> ('n, 'w, unit) HM" where
  "DebugService_delete A this = bindM (DebugService_Destroy A this) (\<lambda>_. retM ())"

definition DebugService_Close :: "('n, 'w) HostEnv \<Rightarrow> DebugService \<Rightarrow> ('n, 'w, JsErrorCode) HM" where
  "DebugService_Close A this = on_world (JsDebugServiceClose (server_library A) (m_service this))"

definition DebugService_Listen :: "('n, 'w) HostEnv \<Rightarrow> DebugService \<Rightarrow> 16 word \<Rightarrow> ('n, 'w, JsErrorCode) HM" where
  "DebugService_Listen A this p = on_world (JsDebugServiceListen (server_library A) (m_service this) p)"

definition DebugService_RegisterHandler ::
  "('n, 'w) HostEnv \<Rightarrow> DebugService \<Rightarrow> string \<Rightarrow> DebugProtocolHandler \<Rightarrow> bool \<Rightarrow> ('n, 'w, JsErrorCode) HM" where
  "DebugService_RegisterHandler A this runtimeName protocolHandler b =
     on_world (JsDebugServiceRegisterHandler (handler_env A) (server_library A) (m_service this) runtimeName
       (m_protocolHandler protocolHandler) b)"

definition DebugService_UnregisterHandler ::
  "('n, 'w) HostEnv \<Rightarrow> DebugService \<Rightarrow> string \<Rightarrow> ('n, 'w, JsErrorCode) HM" where
  "DebugService_UnregisterHandler A this runtimeName =
     on_world (JsDebugServiceUnregisterHandler (handler_env A) (server_library A) (m_service this) runtimeName)"

subsection \<open>Loading and running scripts\<close>

record ScriptData =
  m_script :: string

definition ScriptData_Create :: "string \<Rightarrow> ScriptData" where
  "ScriptData_Create script = \<lparr>m_script = script\<rparr>"

text \<open>The vector is as long as the UTF-8 text; what the conversion does not fill stays zero.\<close>

definition ConvertStringFromUtf8ToUtf16 :: "('n, 'w) HostEnv \<Rightarrow> string \<Rightarrow> ('n, 'w, string16) HM" where
  "ConvertStringFromUtf8ToUtf16 A s =
     (let size = word_of_int (int (length s));
          converted = MultiByteToWideChar A s size size;
          message = ''chakrahost: unable to convert string from UTF-8 to UTF-16.''
      in if length converted = 0
         then seqM (print_err (lit message)) (seqM (print_err [0x0A]) (throwM (Throw (OtherException message))))
         else retM (take (length s) (converted @ replicate (length s - length converted) 0)))"

definition GetNextSourceContext :: "('n, 'w, 32 word) HM" where
  "GetNextSourceContext =
     bindM (getM sourceContext) (\<lambda>c. seqM (modifyM (\<lambda>s. s\<lparr>sourceContext := c + 1\<rparr>)) (retM c))"

definition LoadScriptUtf8 :: "('n, 'w) HostEnv \<Rightarrow> string16 \<Rightarrow> ('n, 'w, string) HM" where
  "LoadScriptUtf8 A filename =
     (case file_contents A filename of
        None \<Rightarrow>
          seqM (print_err (lit ''chakrahost: unable to open file: '' @ filename @ lit ''.'' @ [0x0A])) (retM [])
      | Some contents \<Rightarrow> retM contents)"

definition LoadScriptUtf16 :: "('n, 'w) HostEnv \<Rightarrow> string16 \<Rightarrow> ('n, 'w, string16) HM" where
  "LoadScriptUtf16 A filename = bindM (LoadScriptUtf8 A filename) (ConvertStringFromUtf8ToUtf16 A)"

definition MAX_PATH :: "32 word" where
  "MAX_PATH = 260"

text \<open>\<open>RunScript\<close> with its out parameter, which the callers initialise with \<open>JS_INVALID_REFERENCE\<close>.\<close>

definition no_result :: "JsErrorCode \<Rightarrow> JsErrorCode \<times> JsValueRef" where
  "no_result code = (code, JS_INVALID_REFERENCE)"

definition RunScript_buffer :: "('n, 'w) HostEnv \<Rightarrow> string16 \<Rightarrow> ('n, 'w, JsErrorCode \<times> JsValueRef) HM" where
  "RunScript_buffer A fullPath = left_by
     (bindM (in_function (LoadScriptUtf8 A fullPath)) (\<lambda>script.
        if script = [] then throwM (Leave (no_result JsErrorInvalidArgument))
        else
          let scriptData = ScriptData_Create script;
              dataLength = word_of_int (int (length (m_script scriptData))) in
          bindM (IfFailRet no_result (on_engine (JsCreateExternalArrayBuffer (host_engine A) (m_script scriptData) dataLength)))
            (\<lambda>scriptValueRef.
          bindM (IfFailRet no_result (on_engine (JsPointerToString (host_engine A) fullPath))) (\<lambda>sourceUrl.
          bindM (in_function GetNextSourceContext) (\<lambda>cookie.
            in_function (JsRun A scriptValueRef (ucast cookie) sourceUrl JsParseScriptAttributeNone))))))"

definition RunScript_source :: "('n, 'w) HostEnv \<Rightarrow> string16 \<Rightarrow> ('n, 'w, JsErrorCode \<times> JsValueRef) HM" where
  "RunScript_source A fullPath =
     bindM (LoadScriptUtf16 A fullPath) (\<lambda>script.
       if script = [] then retM (no_result JsErrorInvalidArgument)
       else bindM GetNextSourceContext (\<lambda>cookie. JsRunScript A (c_wstr script) (ucast cookie) fullPath))"

definition RunScript :: "('n, 'w) HostEnv \<Rightarrow> bool \<Rightarrow> string16 \<Rightarrow> ('n, 'w, JsErrorCode \<times> JsValueRef) HM" where
  "RunScript A useBuffer filename =
     (case GetFullPathName A filename of
        (pathLength, fullPath) \<Rightarrow>
          if pathLength > MAX_PATH \<or> pathLength = 0 then retM (no_result JsErrorInvalidArgument)
          else if useBuffer then RunScript_buffer A fullPath
          else RunScript_source A fullPath)"

subsection \<open>The functions a script can call\<close>

text \<open>The arguments from index 1 on, with a blank before every one but the first; \<open>arguments\<close> starts with \<open>this\<close>.\<close>

fun echo_arguments :: "('n, 'w) HostEnv \<Rightarrow> nat \<Rightarrow> JsValueRef list \<Rightarrow> (('n, 'w) HostState, JsValueRef exit, unit) M" where
  "echo_arguments A index [] = retM ()"
| "echo_arguments A index (argument # rest) =
     seqM (if index > 1 then in_function (print_out (lit '' '')) else retM ())
    (bindM (IfFailThrowJsError A (on_engine (JsConvertValueToString (host_jsrt A) argument)) ''invalid argument'')
       (\<lambda>stringValue.
     bindM (IfFailThrowJsError A (on_engine (JsStringToPointer (host_engine A) stringValue)) ''invalid argument'')
       (\<lambda>text_out.
     seqM (in_function (print_out (c_wstr text_out))) (echo_arguments A (Suc index) rest))))"

definition HostEcho :: "('n, 'w) HostEnv \<Rightarrow> JsValueRef list \<Rightarrow> ('n, 'w, JsValueRef) HM" where
  "HostEcho A arguments = left_by
     (seqM (echo_arguments A 1 (drop 1 arguments))
     (seqM (in_function (print_out [0x0A])) (retM JS_INVALID_REFERENCE)))"

definition HostThrow :: "('n, 'w) HostEnv \<Rightarrow> JsValueRef list \<Rightarrow> ('n, 'w, JsValueRef) HM" where
  "HostThrow A arguments =
     bindM (if length arguments \<ge> 2 then retM (arguments ! 1)
            else bindM (on_engine (JsCreateString (host_jsrt A) ''Sample error message'')) (\<lambda>(_, errorMsg).
                 bindM (on_engine (JsCreateError (host_engine A) errorMsg)) (\<lambda>(_, error_value). retM error_value)))
       (\<lambda>error_value.
     bindM (on_engine (JsSetException (host_engine A) error_value)) (\<lambda>_. retM JS_INVALID_REFERENCE))"

definition HostRunScript :: "('n, 'w) HostEnv \<Rightarrow> JsValueRef list \<Rightarrow> ('n, 'w, JsValueRef) HM" where
  "HostRunScript A arguments =
     (if length arguments < 2 then
        seqM (ThrowJsError A (lit ''not enough arguments'')) (retM JS_INVALID_REFERENCE)
      else left_by
        (bindM (IfFailThrowJsError A (on_engine (JsStringToPointer (host_engine A) (arguments ! 1)))
            ''invalid filename argument'') (\<lambda>filename.
         IfFailThrowJsError A (RunScript A False (c_wstr filename)) ''failed to run script'')))"

subsection \<open>Setting up the engine\<close>

definition code_only :: "('s, fault, JsErrorCode) M \<Rightarrow> ('s, fault, JsErrorCode \<times> unit) M" where
  "code_only m = bindM m (\<lambda>code. retM (code, ()))"

definition DefineHostCallback ::
  "('n, 'w) HostEnv \<Rightarrow> JsValueRef \<Rightarrow> string \<Rightarrow> HostCallback \<Rightarrow> ('n, 'w, JsErrorCode) HM" where
  "DefineHostCallback A globalObject callbackName callback = left_by
     (bindM (IfFailRet id (on_engine (JsGetPropertyIdFromName (host_jsrt A) callbackName))) (\<lambda>propertyId.
      bindM (IfFailRet id (on_engine (JsCreateHostFunction (host_engine A) callback))) (\<lambda>function_value.
      seqM (IfFailRet id (on_engine (JsSetProperty (host_jsrt A) globalObject propertyId function_value True)))
        (retM JsNoError))))"

definition patch_console_script :: string where
  "patch_console_script = concat (map (\<lambda>line. line @ [CHR 0x0A])
     [''function patchConsoleObject$$1(global, console, debugConsole) {'',
      ''var obj = {};'',
      ''for (var fn in console) {'',
      ''if (typeof console[fn] === \"function\") {'',
      ''(function(name) {'',
      ''obj[name] = function(...args) {'',
      ''console[name](...args);'',
      ''if (name in debugConsole && typeof debugConsole[name] === \"function\") {'',
      ''debugConsole[name](...args);'',
      ''}'',
      ''}'',
      ''})(fn);'',
      ''}'',
      ''}'',
      ''global.console = obj;'',
      ''}'',
      ''patchConsoleObject$$1;''])"

definition JS_SOURCE_CONTEXT_NONE :: "64 word" where
  "JS_SOURCE_CONTEXT_NONE = - 1"

definition RedirectConsoleToDebugger ::
  "('n, 'w) HostEnv \<Rightarrow> DebugProtocolHandler option \<Rightarrow> ('n, 'w, JsErrorCode) HM" where
  "RedirectConsoleToDebugger A handler = (let J = host_jsrt A in left_by
     (bindM (IfFailRet id (on_engine (JsGetGlobalObject J))) (\<lambda>globalObject.
      bindM (IfFailRet id (on_engine (JsGetPropertyIdFromName J ''console''))) (\<lambda>consolePropertyId.
      bindM (IfFailRet id (on_engine (JsGetProperty J globalObject consolePropertyId))) (\<lambda>consoleObject.
      bindM (IfFailRet id (on_engine (JsGetUndefinedValue J))) (\<lambda>undefinedValue.
        if consoleObject = JS_INVALID_REFERENCE \<or> consoleObject = undefinedValue then throwM (Leave JsNoError)
        else
          bindM (case handler of
              None \<Rightarrow> throwM (Fail (Undefined NullDereference))
            | Some h \<Rightarrow> IfFailRet id (DebugProtocolHandler_GetConsoleObject A h)) (\<lambda>debuggerConsoleObject.
          bindM (IfFailRet id (on_engine (JsCreateString J []))) (\<lambda>scriptUrl.
          bindM (IfFailRet id (on_engine (JsCreateString J patch_console_script))) (\<lambda>scriptContentValue.
          bindM (IfFailRet id (JsRun A scriptContentValue JS_SOURCE_CONTEXT_NONE scriptUrl
              JsParseScriptAttributeLibraryCode)) (\<lambda>patchFunction.
          seqM (IfFailRet id (call_script_function A patchFunction
              [undefinedValue, globalObject, consoleObject, debuggerConsoleObject]))
            (retM JsNoError)))))))))))"

fun set_arguments ::
  "('n, 'w) HostEnv \<Rightarrow> JsValueRef \<Rightarrow> cint \<Rightarrow> string16 list \<Rightarrow>
     (('n, 'w) HostState, (JsErrorCode \<times> JsContextRef) exit, unit) M" where
  "set_arguments A arguments index [] = retM ()"
| "set_arguments A arguments index (str # rest) =
     bindM (IfFailRet no_result (on_engine (JsPointerToString (host_engine A) str))) (\<lambda>argument.
     bindM (IfFailRet no_result (on_engine (JsIntToNumber (host_jsrt A) index))) (\<lambda>indexValue.
     seqM (IfFailRet no_result (on_engine (JsSetIndexedProperty (host_engine A) arguments indexValue argument)))
       (set_arguments A arguments (index + 1) rest)))"

definition host_callbacks :: "(string \<times> HostCallback) list" where
  "host_callbacks = [(''echo'', EchoCallback), (''runScript'', RunScriptCallback), (''throw'', ThrowCallback)]"

definition console_callbacks :: "(string \<times> HostCallback) list" where
  "console_callbacks = map (\<lambda>name. (name, EchoCallback)) [''debug'', ''error'', ''info'', ''log'', ''warn'']"

text \<open>The context is the out parameter; its caller reads it after a success only.\<close>

definition CreateHostContext ::
  "('n, 'w) HostEnv \<Rightarrow> nat \<Rightarrow> string16 list \<Rightarrow> ('n, 'w, JsErrorCode \<times> JsContextRef) HM" where
  "CreateHostContext A runtime args =
     (let J = host_jsrt A; define_all = (\<lambda>object callbacks. forM callbacks (\<lambda>(name, callback).
            IfFailRet no_result (code_only (DefineHostCallback A object name callback)))) in left_by
     (bindM (IfFailRet no_result (on_engine (JsCreateContext J))) (\<lambda>context.
      seqM (IfFailRet no_result (on_engine (JsSetCurrentContext J context)))
     (bindM (IfFailRet no_result (on_engine (JsCreateObject J))) (\<lambda>hostObject.
      bindM (IfFailRet no_result (on_engine (JsGetGlobalObject J))) (\<lambda>globalObject.
      bindM (IfFailRet no_result (on_engine (JsGetPropertyIdFromName J ''global''))) (\<lambda>globalPropertyId.
      seqM (IfFailRet no_result (on_engine (JsSetProperty J globalObject globalPropertyId globalObject True)))
     (bindM (IfFailRet no_result (on_engine (JsCreateObject J))) (\<lambda>consoleObject.
      bindM (IfFailRet no_result (on_engine (JsGetPropertyIdFromName J ''host''))) (\<lambda>hostPropertyId.
      bindM (IfFailRet no_result (on_engine (JsGetPropertyIdFromName J ''console''))) (\<lambda>consolePropertyId.
      seqM (IfFailRet no_result (on_engine (JsSetProperty J globalObject hostPropertyId hostObject True)))
     (seqM (IfFailRet no_result (on_engine (JsSetProperty J globalObject consolePropertyId consoleObject True)))
     (seqM (define_all hostObject host_callbacks)
     (seqM (define_all consoleObject console_callbacks)
     (bindM (IfFailRet no_result (on_engine (JsCreateArray (host_engine A) (word_of_int (int (length args)))))) (\<lambda>arguments.
      seqM (set_arguments A arguments 0 args)
     (bindM (IfFailRet no_result (on_engine (JsGetPropertyIdFromName J ''arguments''))) (\<lambda>argumentsPropertyId.
      seqM (IfFailRet no_result (on_engine (JsSetProperty J hostObject argumentsPropertyId arguments True)))
     (seqM (IfFailRet no_result (on_engine (JsSetCurrentContext J JS_INVALID_REFERENCE)))
        (retM (JsNoError, context)))))))))))))))))))))"

definition PrintScriptException :: "('n, 'w) HostEnv \<Rightarrow> ('n, 'w, JsErrorCode) HM" where
  "PrintScriptException A = (let J = host_jsrt A in left_by
     (bindM (IfFailRet id (on_engine (JsGetAndClearException J))) (\<lambda>exception.
      bindM (IfFailRet id (on_engine (JsGetPropertyIdFromName J ''message''))) (\<lambda>messageName.
      bindM (IfFailRet id (on_engine (JsGetProperty J exception messageName))) (\<lambda>messageValue.
      bindM (IfFailRet id (on_engine (JsStringToPointer (host_engine A) messageValue))) (\<lambda>message.
      seqM (in_function (print_err (lit ''chakrahost: exception: '' @ c_wstr message @ [0x0A]))) (retM JsNoError)))))))"

subsection \<open>Debugging\<close>

text \<open>The local variables of \<open>wmain\<close> that own something, and what it will return.\<close>

record ('n, 'w) Locals =
  shared :: "('n, 'w) HostState"
  debugProtocolHandler :: "DebugProtocolHandler option"
  debugService :: "DebugService option"
  returnValue :: cint

type_synonym ('n, 'w, 'a) LM = "(('n, 'w) Locals, fault, 'a) M"

definition outside :: "('n, 'w, 'a) HM \<Rightarrow> ('n, 'w, 'a) LM" where
  "outside m = (\<lambda>l. case m (shared l) of (r, s) \<Rightarrow> (r, l\<lparr>shared := s\<rparr>))"

text \<open>An exception runs the destructor \<open>d\<close> and goes on; other faults end the program where they are.\<close>

definition unwinding :: "('s, fault, unit) M \<Rightarrow> ('s, fault, 'a) M \<Rightarrow> ('s, fault, 'a) M" where
  "unwinding d m = (\<lambda>s. case m s of (Inl (Throw e), t) \<Rightarrow> seqM d (throwM (Throw e)) t | r \<Rightarrow> r)"

definition EnableDebugging_run ::
  "('n, 'w) HostEnv \<Rightarrow> string \<Rightarrow> bool \<Rightarrow> 16 word \<Rightarrow> DebugProtocolHandler \<Rightarrow> DebugService \<Rightarrow> ('n, 'w, JsErrorCode) HM" where
  "EnableDebugging_run A runtimeName b p protocolHandler service =
     bindM (DebugService_RegisterHandler A service runtimeName protocolHandler b) (\<lambda>result.
       if result = JsNoError then
         bindM (DebugService_Listen A service p) (\<lambda>result.
           seqM (print_out (lit (''Listening on ws://127.0.0.1:'' @ dec_nat (unat p) @ ''/'' @ runtimeName @ [CHR 0x0A])))
             (retM result))
       else retM result)"

definition EnableDebugging ::
  "('n, 'w) HostEnv \<Rightarrow> nat \<Rightarrow> string \<Rightarrow> bool \<Rightarrow> 16 word \<Rightarrow> ('n, 'w, JsErrorCode) LM" where
  "EnableDebugging A runtime runtimeName b p =
     bindM (outside (DebugProtocolHandler_new A runtime)) (\<lambda>protocolHandler.
     bindM (unwinding (outside (DebugProtocolHandler_delete A protocolHandler)) (outside (DebugService_new A)))
       (\<lambda>service.
       let destructors = outside (seqM (DebugService_delete A service) (DebugProtocolHandler_delete A protocolHandler)) in
       bindM (unwinding destructors (outside (EnableDebugging_run A runtimeName b p protocolHandler service))) (\<lambda>result.
         if result = JsNoError then
           seqM (modifyM (\<lambda>l. l\<lparr>debugProtocolHandler := Some protocolHandler, debugService := Some service\<rparr>))
             (retM result)
         else seqM destructors (retM result))))"

subsection \<open>\<open>wmain\<close>\<close>

definition EXIT_FAILURE :: cint where
  "EXIT_FAILURE = 1"

definition help_lines :: "string list" where
  "help_lines =
     [[],
      ''Usage: ChakraCore.Debugger.Sample.exe [host-options] <script> [script-arguments]'',
      [],
      ''Options: '',
      ''      --buffer               Load script using JsCreateExternalArrayBuffer/JsRun'',
      ''  -?  --help                 Show this help info'',
      ''      --inspect              Enable debugging'',
      ''      --inspect-brk          Enable debugging and break'',
      ''      --no-console-redirect  Disable console redirection'',
      ''  -p, --port <number>        Specify the port number'',
      ''      --script <script>      Additional script to load'',
      []]"

definition ShowHelp :: "('n, 'w, unit) HM" where
  "ShowHelp = print_err (lit (concat (map (\<lambda>line. line @ [CHR 0x0A]) help_lines)))"

text \<open>\<open>Leave None\<close> is \<open>goto error\<close>, \<open>Leave (Some v)\<close> is \<open>return v\<close>.\<close>

definition IfFailError ::
  "('n, 'w, JsErrorCode \<times> 'a) LM \<Rightarrow> string \<Rightarrow> (('n, 'w) Locals, cint option exit, 'a) M" where
  "IfFailError m e =
     bindM (in_function m) (\<lambda>(code, x).
       if code \<noteq> JsNoError then
         seqM (in_function (outside (print_err (lit (''chakrahost: fatal error: '' @ e @ ''.'' @ [CHR 0x0A])))))
           (throwM (Leave None))
       else retM x)"

definition print_line :: "string \<Rightarrow> (('n, 'w) Locals, cint option exit, unit) M" where
  "print_line t = in_function (outside (print_out (lit (t @ [CHR 0x0A]))))"

fun run_scripts ::
  "('n, 'w) HostEnv \<Rightarrow> bool \<Rightarrow> string16 list \<Rightarrow> (('n, 'w) Locals, cint option exit, unit) M" where
  "run_scripts A useBuffer [] = retM ()"
| "run_scripts A useBuffer (script # rest) =
     bindM (in_function (outside (RunScript A useBuffer (c_wstr script)))) (\<lambda>(errorCode, result).
     seqM
       (if errorCode = JsErrorScriptException then
          seqM (IfFailError (outside (code_only (PrintScriptException A))) ''failed to print exception'')
            (throwM (Leave (Some EXIT_FAILURE)))
        else IfFailError (retM (errorCode, ())) ''failed to run script.'')
    (bindM (IfFailError (outside (on_engine (JsConvertValueToNumber (host_jsrt A) result)))
         ''failed to convert return value.'') (\<lambda>numberResult.
     bindM (IfFailError (outside (on_engine (JsNumberToDouble (host_engine A) numberResult)))
         ''failed to convert return value.'') (\<lambda>doubleResult.
     seqM (in_function (modifyM (\<lambda>l. l\<lparr>returnValue := cast_int doubleResult\<rparr>)))
    (seqM (print_line (dec_int (sint (cast_int doubleResult))))
       (run_scripts A useBuffer rest))))))"

text \<open>The service and the protocol handler are closed one after the other, then destroyed.\<close>

definition close_debugging :: "('n, 'w) HostEnv \<Rightarrow> string \<Rightarrow> (('n, 'w) Locals, cint option exit, unit) M" where
  "close_debugging A runtimeName =
     seqM (bindM (getM debugService) (\<lambda>service.
       case service of
         None \<Rightarrow> retM ()
       | Some sv \<Rightarrow>
           seqM (IfFailError (outside (code_only (DebugService_Close A sv))) ''failed to close service'')
          (seqM (IfFailError (outside (code_only (DebugService_UnregisterHandler A sv runtimeName)))
             ''failed to unregister handler'')
           (bindM (IfFailError (outside (DebugService_Destroy A sv)) ''failed to destroy service'') (\<lambda>sv'.
             modifyM (\<lambda>l. l\<lparr>debugService := Some sv'\<rparr>))))))
     (bindM (getM debugProtocolHandler) (\<lambda>handler.
       case handler of
         None \<Rightarrow> retM ()
       | Some h \<Rightarrow>
           bindM (IfFailError (outside (DebugProtocolHandler_Destroy A h)) ''failed to destroy handler'') (\<lambda>h'.
             modifyM (\<lambda>l. l\<lparr>debugProtocolHandler := Some h'\<rparr>))))"

definition wait_for_debugger ::
  "('n, 'w) HostEnv \<Rightarrow> CommandLineArguments \<Rightarrow> (('n, 'w) Locals, cint option exit, unit) M" where
  "wait_for_debugger A arguments =
     bindM (getM debugProtocolHandler) (\<lambda>handler.
       case handler of
         None \<Rightarrow> retM ()
       | Some h \<Rightarrow>
           if breakOnNextLine arguments then
             seqM (print_line ''Waiting for debugger to connect...'')
            (seqM (in_function (outside (server_thread A)))
            (seqM (IfFailError (outside (code_only (DebugProtocolHandler_WaitForDebugger A h)))
                ''failed to wait for debugger'')
               (print_line ''Debugger connected'')))
           else retM ())"

definition main_body ::
  "('n, 'w) HostEnv \<Rightarrow> CommandLineArguments \<Rightarrow> (('n, 'w) Locals, cint option exit, cint option) M" where
  "main_body A arguments = (let J = host_jsrt A; runtimeName = ''runtime1'' in
     bindM (IfFailError (outside (on_engine (JsCreateRuntime (host_engine A)))) ''failed to create runtime.'')
       (\<lambda>runtime.
     seqM (if enableDebugging arguments then
             IfFailError (code_only (EnableDebugging A runtime runtimeName (breakOnNextLine arguments) (ucast (port arguments))))
               ''failed to enable debugging.''
           else retM ())
    (bindM (IfFailError (outside (CreateHostContext A runtime (scriptArgs arguments)))
         ''failed to create execution context.'') (\<lambda>context.
     seqM (IfFailError (outside (on_engine (JsSetCurrentContext J context))) ''failed to set current context.'')
    (seqM (if enableConsoleRedirect arguments \<and> enableDebugging arguments then
             bindM (getM debugProtocolHandler) (\<lambda>handler.
               IfFailError (outside (code_only (RedirectConsoleToDebugger A handler)))
                 ''Failed to redirect console to debugger.'')
           else retM ())
    (seqM (wait_for_debugger A arguments)
    (seqM (run_scripts A (loadScriptUsingBuffer arguments)
             (scripts arguments @ take 1 (scriptArgs arguments)))
    (seqM (IfFailError (outside (on_engine (JsSetCurrentContext J JS_INVALID_REFERENCE)))
             ''failed to cleanup current context.'')
    (seqM (close_debugging A runtimeName)
    (seqM (IfFailError (outside (on_engine (JsDisposeRuntime (host_engine A) runtime))) ''failed to cleanup runtime.'')
       (retM None)))))))))))"

text \<open>The end of the block destroys the service first: it was declared last.\<close>

definition destroy_locals :: "('n, 'w) HostEnv \<Rightarrow> ('n, 'w, unit) LM" where
  "destroy_locals A =
     seqM (bindM (getM debugService) (\<lambda>service.
       case service of None \<Rightarrow> retM () | Some sv \<Rightarrow> outside (DebugService_delete A sv)))
     (bindM (getM debugProtocolHandler) (\<lambda>handler.
       case handler of None \<Rightarrow> retM () | Some h \<Rightarrow> outside (DebugProtocolHandler_delete A h)))"

definition try_block :: "('n, 'w) HostEnv \<Rightarrow> CommandLineArguments \<Rightarrow> ('n, 'w, cint option) LM" where
  "try_block A arguments =
     bindM (unwinding (destroy_locals A) (left_by (main_body A arguments))) (\<lambda>v.
       seqM (destroy_locals A) (retM v))"

definition main_catch :: "('n, 'w, cint option) LM \<Rightarrow> ('n, 'w, cint option) LM" where
  "main_catch m = (\<lambda>l. case m l of
     (Inl (Throw e), t) \<Rightarrow>
       seqM (outside (print_err (lit (''chakrahost: fatal error: internal error.'' @ [CHR 0x0A])))) (retM None) t
   | r \<Rightarrow> r)"

text \<open>An exception of the command line leaves \<open>wmain\<close>, which ends the program.\<close>

definition wmain :: "('n, 'w) HostEnv \<Rightarrow> string16 list \<Rightarrow> ('n, 'w, cint) HM" where
  "wmain A argv =
     (case ParseCommandLine argv CommandLineArguments_new of
        Inl _ \<Rightarrow> throwM Terminated
      | Inr arguments \<Rightarrow>
          if show_help arguments then seqM ShowHelp (retM EXIT_FAILURE)
          else (\<lambda>s. case main_catch (try_block A arguments) (Locals.make s None None EXIT_FAILURE) of
                  (Inl f, l) \<Rightarrow> (Inl f, shared l)
                | (Inr v, l) \<Rightarrow> (Inr (case v of Some c \<Rightarrow> c | None \<Rightarrow> returnValue l), shared l)))"

end
