(* ===== verification/HostLifetime.thy ===== *)
theory HostLifetime
  imports
  SampleHost ServiceInvariant
begin

section \<open>What the sample host owns\<close>

text \<open>
  The protocol handler must outlive the service that refers to it.  A triple \<open>triple P m Q F\<close> says what holds when a
  computation is left, by a result or by a fault; a fault that is no exception ends the program, so nothing is asked of the
  state behind it.
\<close>

definition triple ::
  "('s \<Rightarrow> bool) \<Rightarrow> ('s, 'e, 'a) M \<Rightarrow> ('a \<Rightarrow> 's \<Rightarrow> bool) \<Rightarrow> ('e \<Rightarrow> 's \<Rightarrow> bool) \<Rightarrow> bool" where
  "triple P m Q F \<longleftrightarrow> (\<forall>s. P s \<longrightarrow> (case m s of (Inr x, t) \<Rightarrow> Q x t | (Inl f, t) \<Rightarrow> F f t))"

named_theorems triple_intros \<open>triples of the host's operations\<close>

lemma tripleI: "(\<And>s. P s \<Longrightarrow> case m s of (Inr x, t) \<Rightarrow> Q x t | (Inl f, t) \<Rightarrow> F f t) \<Longrightarrow> triple P m Q F"
  by (simp add: triple_def)

lemma triple_Inr: "triple P m Q F \<Longrightarrow> P s \<Longrightarrow> m s = (Inr x, t) \<Longrightarrow> Q x t"
  by (fastforce simp: triple_def)

lemma triple_Inl: "triple P m Q F \<Longrightarrow> P s \<Longrightarrow> m s = (Inl f, t) \<Longrightarrow> F f t"
  by (fastforce simp: triple_def)

lemma triple_weaken:
  assumes "triple P' m Q' F'" and "\<And>s. P s \<Longrightarrow> P' s" and "\<And>x s. Q' x s \<Longrightarrow> Q x s" and "\<And>f s. F' f s \<Longrightarrow> F f s"
  shows "triple P m Q F"
  using assms by (fastforce simp: triple_def split: prod.splits sum.splits)

lemma triple_ret: "(\<And>s. P s \<Longrightarrow> Q x s) \<Longrightarrow> triple P (retM x) Q F"
  by (simp add: triple_def retM_def)

lemma triple_throw: "(\<And>s. P s \<Longrightarrow> F e s) \<Longrightarrow> triple P (throwM e) Q F"
  by (simp add: triple_def throwM_def)

lemma triple_bind:
  assumes "triple P m R F" and "\<And>x. triple (R x) (f x) Q F"
  shows "triple P (bindM m f) Q F"
proof (rule tripleI)
  fix s
  assume s: "P s"
  obtain r t where run: "m s = (r, t)" by (metis surj_pair)
  show "case bindM m f s of (Inr x, t) \<Rightarrow> Q x t | (Inl f, t) \<Rightarrow> F f t"
  proof (cases r)
    case (Inl e)
    then show ?thesis using triple_Inl [OF assms(1) s] run by (simp add: bindM_def)
  next
    case (Inr x)
    then have "R x t" using triple_Inr [OF assms(1) s] run by simp
    then show ?thesis using assms(2) [of x] run Inr by (simp add: bindM_def triple_def)
  qed
qed

lemma triple_seq:
  assumes "triple P m (\<lambda>_. R) F" and "triple R n Q F"
  shows "triple P (seqM m n) Q F"
  unfolding seqM_def by (rule triple_bind [OF assms(1)]) (rule assms(2))

lemma triple_if:
  "(b \<Longrightarrow> triple P m Q F) \<Longrightarrow> (\<not> b \<Longrightarrow> triple P n Q F) \<Longrightarrow> triple P (if b then m else n) Q F"
  by simp

lemma triple_option:
  "(v = None \<Longrightarrow> triple P m Q F) \<Longrightarrow> (\<And>x. v = Some x \<Longrightarrow> triple P (f x) Q F) \<Longrightarrow>
     triple P (case v of None \<Rightarrow> m | Some x \<Rightarrow> f x) Q F"
  by (simp split: option.split)

lemma triple_prod: "(\<And>a b. triple P (f a b) Q F) \<Longrightarrow> triple P (case p of (a, b) \<Rightarrow> f a b) Q F"
  by (simp split: prod.split)

lemma triple_get: "(\<And>s. P s \<Longrightarrow> Q (f s) s) \<Longrightarrow> triple P (getM f) Q F"
  by (simp add: triple_def getM_def)

lemma triple_modify: "(\<And>s. P s \<Longrightarrow> Q () (f s)) \<Longrightarrow> triple P (modifyM f) Q F"
  by (simp add: triple_def modifyM_def)

lemma triple_forM: "(\<And>x. x \<in> set xs \<Longrightarrow> triple P (f x) (\<lambda>_. P) F) \<Longrightarrow> triple P (forM xs f) (\<lambda>_. P) F"
  by (induction xs) (auto intro: triple_ret triple_seq)

subsection \<open>Staying within the program\<close>

fun throws :: "fault \<Rightarrow> bool" where
  "throws (Throw e) = True"
| "throws _ = False"

fun goes :: "'c exit \<Rightarrow> bool" where
  "goes (Leave c) = True"
| "goes (Fail f) = throws f"

text \<open>\<open>lasting\<close>: \<open>P\<close> holds throughout as long as the program goes on.\<close>

definition lasting :: "('s \<Rightarrow> bool) \<Rightarrow> ('s, fault, 'a) M \<Rightarrow> bool" where
  "lasting P m = triple P m (\<lambda>_. P) (\<lambda>f s. throws f \<longrightarrow> P s)"

definition lasting_exit :: "('s \<Rightarrow> bool) \<Rightarrow> ('s, 'c exit, 'a) M \<Rightarrow> bool" where
  "lasting_exit P m = triple P m (\<lambda>_. P) (\<lambda>f s. goes f \<longrightarrow> P s)"

lemma lasting_intros [triple_intros]:
  "lasting P (retM x0)" "lasting P (throwM e0)" "lasting P (getM f0)"
  "lasting P m1 \<Longrightarrow> (\<And>x. lasting P (k1 x)) \<Longrightarrow> lasting P (bindM m1 k1)"
  "lasting P m2 \<Longrightarrow> lasting P n2 \<Longrightarrow> lasting P (seqM m2 n2)"
  "lasting P m3 \<Longrightarrow> lasting P n3 \<Longrightarrow> lasting P (if b then m3 else n3)"
  "lasting P n4 \<Longrightarrow> (\<And>x. lasting P (k4 x)) \<Longrightarrow> lasting P (case v of None \<Rightarrow> n4 | Some x \<Rightarrow> k4 x)"
  "(\<And>a b. lasting P (g a b)) \<Longrightarrow> lasting P (case q of (a, b) \<Rightarrow> g a b)"
  unfolding lasting_def
  by (auto intro: triple_ret triple_throw triple_get triple_bind triple_seq split: option.split prod.split)

lemma lasting_exit_intros [triple_intros]:
  "lasting_exit P (retM x0)" "lasting_exit P (throwM e0)" "lasting_exit P (getM f0)"
  "lasting_exit P m1 \<Longrightarrow> (\<And>x. lasting_exit P (k1 x)) \<Longrightarrow> lasting_exit P (bindM m1 k1)"
  "lasting_exit P m2 \<Longrightarrow> lasting_exit P n2 \<Longrightarrow> lasting_exit P (seqM m2 n2)"
  "lasting_exit P m3 \<Longrightarrow> lasting_exit P n3 \<Longrightarrow> lasting_exit P (if b then m3 else n3)"
  "lasting_exit P n4 \<Longrightarrow> (\<And>x. lasting_exit P (k4 x)) \<Longrightarrow> lasting_exit P (case v of None \<Rightarrow> n4 | Some x \<Rightarrow> k4 x)"
  "(\<And>a b. lasting_exit P (g a b)) \<Longrightarrow> lasting_exit P (case q of (a, b) \<Rightarrow> g a b)"
  unfolding lasting_exit_def
  by (auto intro: triple_ret triple_throw triple_get triple_bind triple_seq split: option.split prod.split)

lemma lasting_forM [triple_intros]: "(\<And>x. lasting_exit P (f x)) \<Longrightarrow> lasting_exit P (forM xs f)"
  by (induction xs) (auto intro: triple_intros)

lemma lasting_calls [triple_intros]: "lasting P m \<Longrightarrow> lasting_exit P (in_function m)"
  by (auto simp: lasting_def lasting_exit_def triple_def in_function_def split: prod.splits sum.splits)

lemma lasting_left_by [triple_intros]: "lasting_exit P m \<Longrightarrow> lasting P (left_by m)"
  by (fastforce simp: lasting_def lasting_exit_def triple_def left_by_def split: prod.splits sum.splits exit.splits)

lemma lasting_IfFailRet [triple_intros]: "lasting P m \<Longrightarrow> lasting_exit P (IfFailRet c m)"
  unfolding IfFailRet_def by (intro triple_intros)

lemma lasting_code_only [triple_intros]: "lasting P m \<Longrightarrow> lasting P (code_only m)"
  unfolding code_only_def by (intro triple_intros)

subsection \<open>What the host leaves alone\<close>

text \<open>The protocol handlers there are, the ones the service refers to, and whether all are in order.\<close>

definition living :: "('n, 'w) World \<Rightarrow> nat set" where
  "living w = dom (protocol_handlers w)"

definition referred :: "('n, 'w) World \<Rightarrow> nat option list" where
  "referred w = map (\<lambda>e. sh_protocolHandler (snd e)) (m_handlers (web_service w))"

definition handlers_ok :: "('n, 'w) World \<Rightarrow> bool" where
  "handlers_ok w \<longleftrightarrow> (\<forall>p g. protocol_handlers w p = Some g \<longrightarrow> handler_ok g)"

definition undisturbed :: "('n, 'w) World \<Rightarrow> ('n, 'w) World \<Rightarrow> bool" where
  "undisturbed w w' \<longleftrightarrow> living w' = living w \<and> referred w' = referred w \<and> (handlers_ok w \<longrightarrow> handlers_ok w')"

abbreviation same :: "('n, 'w) World \<Rightarrow> ('n, 'w) HostState \<Rightarrow> bool" where
  "same w s \<equiv> undisturbed w (world s)"

lemma undisturbed_trans: "undisturbed u v \<Longrightarrow> undisturbed v w \<Longrightarrow> undisturbed u w"
  by (simp add: undisturbed_def)

lemma undisturbed_refl [simp]: "undisturbed w w"
  by (simp add: undisturbed_def)

lemma undisturbed_updates [simp]:
  "undisturbed u (w\<lparr>engine := e\<rparr>) = undisturbed u w"
  "undisturbed u (w\<lparr>network := n\<rparr>) = undisturbed u w"
  "undisturbed u (w\<lparr>next_address := a\<rparr>) = undisturbed u w"
  "undisturbed u (w\<lparr>web_service := (web_service w)\<lparr>m_port := p\<rparr>\<rparr>) = undisturbed u w"
  "undisturbed u (w\<lparr>web_service := (web_service w)\<lparr>m_thread := j\<rparr>\<rparr>) = undisturbed u w"
  by (simp_all add: undisturbed_def living_def referred_def handlers_ok_def)

lemma undisturbed_handler:
  assumes "undisturbed u w" and "protocol_handlers w p = Some g" and "handler_ok g \<Longrightarrow> handler_ok g'"
  shows "undisturbed u (w\<lparr>engine := e, protocol_handlers := (protocol_handlers w)(p := Some g')\<rparr>)"
  using assms by (auto simp: undisturbed_def living_def referred_def handlers_ok_def)

lemma lasting_on_world [triple_intros]: "lasting (undisturbed u) m \<Longrightarrow> lasting (same u) (on_world m)"
  by (auto simp: lasting_def triple_def on_world_def split: prod.splits sum.splits)

lemma lasting_on_engine [triple_intros]: "lasting (same u) (on_engine f)"
  unfolding on_engine_def
  by (intro lasting_on_world) (simp add: lasting_def triple_def split: prod.splits)

lemma lasting_print [triple_intros]: "lasting (same u) (print_out t)" "lasting (same u) (print_err t)"
  by (simp_all add: lasting_def print_out_def print_err_def triple_modify)

text \<open>A call of a protocol handler that keeps its invariant.\<close>

lemma lasting_call_handler:
  assumes "\<And>e w h r w' h'. f e (Some ()) (w, h) = (r, (w', h')) \<Longrightarrow> unwinds r \<Longrightarrow> handler_ok h \<Longrightarrow> handler_ok h'"
  shows "lasting (undisturbed u) (call_handler E p f)"
  unfolding lasting_def
proof (rule tripleI)
  fix w :: "('b, 'a) World"
  assume w: "undisturbed u w"
  show "case call_handler E p f w of (Inr x, t) \<Rightarrow> undisturbed u t | (Inl e, t) \<Rightarrow> throws e \<longrightarrow> undisturbed u t"
  proof (cases p)
    case None
    then show ?thesis using w by (simp add: call_handler_def retM_def)
  next
    case (Some a)
    show ?thesis
    proof (cases "protocol_handlers w a")
      case None
      then show ?thesis using w Some by (simp add: call_handler_def)
    next
      case h: (Some h)
      obtain r w' h' where run: "f (E a) (Some ()) (engine w, h) = (r, (w', h'))" by (metis surj_pair)
      have "undisturbed u (w\<lparr>engine := w', protocol_handlers := (protocol_handlers w)(a := Some h')\<rparr>)" if "unwinds r"
        by (rule undisturbed_handler [OF w h assms [OF run that]])
      then show ?thesis using call_handler_run [where f = f and E = E, OF h run] Some
        by (cases r) (auto simp: unwinds_iff elim: throws.elims)
    qed
  qed
qed

text \<open>The calls of the C interface among them.\<close>

lemma translated_code:
  "TranslateExceptionFor handle m s = (r, t) \<Longrightarrow> unwinds r \<Longrightarrow> \<exists>code. r = Inr code"
  by (cases handle) (auto simp: TranslateExceptionFor_def TranslateException_def retM_def unwinds_def
      split: prod.splits sum.splits fault.splits cpp_exn.splits)

lemma lasting_step:
  assumes "\<And>e w h code w' h'. f e (Some ()) (w, h) = (Inr code, (w', h')) \<Longrightarrow> host_step e h h'"
    and "\<And>e w h r w' h'. f e (Some ()) (w, h) = (r, (w', h')) \<Longrightarrow> unwinds r \<Longrightarrow> \<exists>code. r = Inr code"
  shows "lasting (undisturbed u) (call_handler E p f)"
  by (rule lasting_call_handler) (metis assms host_step_ok)

lemma lasting_host_calls [triple_intros]:
  "lasting (undisturbed u) (call_handler E p (\<lambda>e h. JsDebugProtocolHandlerConnect e h b callback state))"
  "lasting (undisturbed u) (call_handler E p JsDebugProtocolHandlerDisconnect)"
  "lasting (undisturbed u) (call_handler E p (\<lambda>e h. JsDebugProtocolHandlerSendCommand e h command))"
  "lasting (undisturbed u) (call_handler E p JsDebugProtocolHandlerWaitForDebugger)"
      apply (rule lasting_step, erule connect_step)
      apply (simp add: JsDebugProtocolHandlerConnect_def translated_code)
     apply (rule lasting_step, erule disconnect_step)
     apply (simp add: JsDebugProtocolHandlerDisconnect_def translated_code)
    apply (rule lasting_step, erule send_step)
    apply (simp add: JsDebugProtocolHandlerSendCommand_def translated_code)
   apply (rule lasting_step, erule host_step.wait)
   apply (simp add: JsDebugProtocolHandlerWaitForDebugger_def translated_code)
  done

lemma engine_forM: "(\<And>x. engine_op (f x)) \<Longrightarrow> engine_op (forM xs f)"
  by (induction xs) (auto intro!: engine_intros)

lemma engine_console: "engine_op (CreateConsoleObject E)"
  unfolding CreateConsoleObject_def CreateConsoleObject_console_def AddFunctionCallback_def Let_def
  by (intro engine_intros engine_forM)

lemma console_object_handler:
  assumes "JsDebugProtocolHandlerCreateConsoleObject E (Some ()) (w, h) = (r, (w', h'))"
  shows "h' = h"
proof -
  have "snd (snd (CreateConsoleObject E (w, h))) = h" using engine_console [of E] by (simp add: engine_op_def)
  then show ?thesis using assms
    by (auto simp: JsDebugProtocolHandlerCreateConsoleObject_def TranslateException_def
        split: prod.splits sum.splits fault.splits cpp_exn.splits)
qed

lemma lasting_GetConsoleObject [triple_intros]:
  "lasting (same u) (DebugProtocolHandler_GetConsoleObject A this)"
proof (cases "m_protocolHandler this")
  case None
  then show ?thesis by (simp add: DebugProtocolHandler_GetConsoleObject_def triple_intros)
next
  case (Some p)
  show ?thesis
    unfolding DebugProtocolHandler_GetConsoleObject_def Some option.case
    by (intro lasting_on_world)
      (auto simp: lasting_def triple_def undisturbed_handler dest!: console_object_handler split: option.split prod.split sum.split)
qed

subsection \<open>The callbacks of the server\<close>

lemma lasting_modify [triple_intros]: "(\<And>s. P s \<Longrightarrow> P (f s)) \<Longrightarrow> lasting P (modifyM f)"
  unfolding lasting_def by (rule triple_modify)

lemma lasting_ws [triple_intros]: "lasting (undisturbed u) (ws f)" "lasting (undisturbed u) (on_network g)"
  by (auto simp: lasting_def triple_def ws_def on_network_def modifyM_def split: prod.splits sum.splits)

lemma lasting_getS [triple_intros]: "lasting (undisturbed u) (getS f)" "lasting (undisturbed u) (getSH this g)"
  "lasting (undisturbed u) (hdl_expired W hdl)"
  unfolding getSH_def getS_def hdl_expired_def by (intro triple_intros)+

lemma lasting_get_con [triple_intros]: "lasting (undisturbed u) (get_con W hdl)"
  unfolding get_con_def by (intro triple_intros)

lemma lasting_unless_expired [triple_intros]:
  "(\<And>c. lasting (undisturbed u) (m c)) \<Longrightarrow> lasting (undisturbed u) (unless_expired W hdl m)"
  unfolding unless_expired_def by (intro triple_intros)

lemma referred_update: "(\<And>h. sh_protocolHandler (f h) = sh_protocolHandler h) \<Longrightarrow>
    referred (w\<lparr>web_service := (web_service w)\<lparr>m_handlers :=
      map (\<lambda>(ident, h). (ident, if sh_address h = this then f h else h)) (m_handlers (web_service w))\<rparr>\<rparr>) = referred w"
  by (auto simp: referred_def)

lemma lasting_modSH [triple_intros]:
  assumes "\<And>h. sh_protocolHandler (f h) = sh_protocolHandler h"
  shows "lasting (undisturbed u) (modSH this f)"
  unfolding modSH_def modS_def
proof (intro triple_intros)
  fix w :: "('a, 'b) World"
  assume "undisturbed u w"
  then show "undisturbed u (w\<lparr>web_service := (web_service w)\<lparr>m_handlers :=
      map (\<lambda>(ident, h). (ident, if sh_address h = this then f h else h)) (m_handlers (web_service w))\<rparr>\<rparr>)"
    using referred_update [where w = w and this = this, OF assms] by (simp add: undisturbed_def living_def handlers_ok_def)
qed

inductive service_callback :: "(nat \<Rightarrow> 'w Env) \<Rightarrow> 'n Websocket \<Rightarrow> ('n, 'w) World \<Rightarrow> ('n, 'w) World \<Rightarrow> bool" for E W where
  validate: "OnValidate E W hdl w = (r, w') \<Longrightarrow> unwinds r \<Longrightarrow> service_callback E W w w'"
| http: "OnHttpRequest W hdl w = (r, w') \<Longrightarrow> unwinds r \<Longrightarrow> service_callback E W w w'"
| message: "ServiceHandler_OnMessage E this payload w = (r, w') \<Longrightarrow> unwinds r \<Longrightarrow> service_callback E W w w'"
| close: "ServiceHandler_OnClose E this w = (r, w') \<Longrightarrow> unwinds r \<Longrightarrow> service_callback E W w w'"
| response: "ServiceHandler_SendResponse W this answer w = (r, w') \<Longrightarrow> unwinds r \<Longrightarrow> service_callback E W w w'"

lemma lasting_callbacks:
  "lasting (undisturbed u) (OnValidate E W hdl)"
  "lasting (undisturbed u) (OnHttpRequest W hdl)"
  "lasting (undisturbed u) (ServiceHandler_OnMessage E this payload)"
  "lasting (undisturbed u) (ServiceHandler_OnClose E this)"
  "lasting (undisturbed u) (ServiceHandler_SendResponse W this answer)"
  unfolding OnValidate_def ServiceHandler_Connect_def OnHttpRequest_def HandleProtocolRequest_def HandleVersionRequest_def
    HandleListRequest_def SendHttpJsonResponse_def ServiceHandler_OnMessage_def ServiceHandler_OnClose_def
    ServiceHandler_SendResponse_def
  by (intro triple_intros; simp)+

lemma lastingD: "lasting P m \<Longrightarrow> P s \<Longrightarrow> m s = (r, t) \<Longrightarrow> unwinds r \<Longrightarrow> P t"
  by (cases r) (auto simp: lasting_def unwinds_iff dest: triple_Inl triple_Inr)

lemma callback_undisturbed: "service_callback E W w w' \<Longrightarrow> undisturbed w w'"
  by (induction rule: service_callback.induct) (blast intro: lastingD lasting_callbacks undisturbed_refl)+

subsection \<open>Running scripts\<close>

text \<open>
  What happens while a script runs: the engine and the network change, the host's functions print, the protocol handlers take
  their steps (calls of the client, debug events, console messages), and the server calls back.  Scripts and the server's
  thread can do nothing else.
\<close>

inductive script_step :: "('n, 'w) HostEnv \<Rightarrow> ('n, 'w) HostState \<Rightarrow> ('n, 'w) HostState \<Rightarrow> bool" for A where
  surroundings: "script_step A s (s\<lparr>world := (world s)\<lparr>engine := e, network := n\<rparr>, sourceContext := c, host_output := out\<rparr>)"
| handler: "protocol_handlers (world s) p = Some g \<Longrightarrow> host_step (handler_env A p) g g' \<Longrightarrow>
    script_step A s (s\<lparr>world := (world s)\<lparr>protocol_handlers := (protocol_handlers (world s))(p := Some g')\<rparr>\<rparr>)"
| server: "service_callback (handler_env A) (server_library A) (world s) w \<Longrightarrow> script_step A s (s\<lparr>world := w\<rparr>)"

definition takes_steps :: "('n, 'w) HostEnv \<Rightarrow> ('n, 'w, 'a) HM \<Rightarrow> bool" where
  "takes_steps A m \<longleftrightarrow> (\<forall>s r s'. m s = (r, s') \<longrightarrow> unwinds r \<longrightarrow> (script_step A)\<^sup>*\<^sup>* s s')"

definition script_steps_only :: "('n, 'w) HostEnv \<Rightarrow> bool" where
  "script_steps_only A \<longleftrightarrow>
     (\<forall>script cookie url attributes. takes_steps A (JsRun A script cookie url attributes)) \<and>
     (\<forall>script cookie url. takes_steps A (JsRunScript A script cookie url)) \<and>
     (\<forall>function_value arguments. takes_steps A (call_script_function A function_value arguments)) \<and>
     takes_steps A (server_thread A)"

lemma script_step_undisturbed: "script_step A s s' \<Longrightarrow> undisturbed (world s) (world s')"
proof (induction rule: script_step.induct)
  case (handler s p g g')
  have "undisturbed (world s) ((world s)\<lparr>engine := engine (world s),
      protocol_handlers := (protocol_handlers (world s))(p := Some g')\<rparr>)"
    by (rule undisturbed_handler [OF undisturbed_refl handler(1) host_step_ok [OF handler(2)]])
  then show ?case by simp
qed (simp_all add: callback_undisturbed)

lemma script_steps_undisturbed: "(script_step A)\<^sup>*\<^sup>* s s' \<Longrightarrow> undisturbed (world s) (world s')"
  by (induction rule: rtranclp_induct) (auto dest: script_step_undisturbed intro: undisturbed_trans)

lemma lastingI:
  assumes "\<And>s r t. P s \<Longrightarrow> m s = (r, t) \<Longrightarrow> unwinds r \<Longrightarrow> P t"
  shows "lasting P m"
  unfolding lasting_def
proof (rule tripleI)
  fix s
  assume s: "P s"
  obtain r t where run: "m s = (r, t)" by (metis surj_pair)
  show "case m s of (Inr x, t) \<Rightarrow> P t | (Inl f, t) \<Rightarrow> throws f \<longrightarrow> P t"
    using assms [OF s run] run by (cases r) (auto simp: unwinds_iff elim: throws.elims)
qed

lemma lasting_steps: "takes_steps A m \<Longrightarrow> lasting (same u) m"
  by (rule lastingI) (metis takes_steps_def script_steps_undisturbed undisturbed_trans)

lemma lasting_scripts [triple_intros]:
  assumes "script_steps_only A"
  shows "lasting (same u) (JsRun A script cookie url attributes)"
  "lasting (same u) (JsRunScript A source cookie url2)"
  "lasting (same u) (call_script_function A function_value arguments)"
  "lasting (same u) (server_thread A)"
  using assms by (auto simp: script_steps_only_def intro!: lasting_steps [where A = A])

lemma lasting_load [triple_intros]:
  "lasting (same u) (LoadScriptUtf8 A filename)"
  "lasting (same u) (ConvertStringFromUtf8ToUtf16 A text8)"
  "lasting (same u) GetNextSourceContext"
  unfolding LoadScriptUtf8_def ConvertStringFromUtf8ToUtf16_def GetNextSourceContext_def Let_def
  by (intro triple_intros; simp)+

lemma lasting_RunScript [triple_intros]:
  assumes "script_steps_only A"
  shows "lasting (same u) (RunScript A useBuffer filename)"
  unfolding RunScript_def RunScript_buffer_def RunScript_source_def LoadScriptUtf16_def Let_def
  by (intro triple_intros assms)

lemma lasting_set_arguments [triple_intros]: "lasting_exit (same u) (set_arguments A arguments index args)"
  by (induction args arbitrary: index) (simp_all add: triple_intros)

lemma lasting_DefineHostCallback [triple_intros]: "lasting (same u) (DefineHostCallback A object name callback)"
  unfolding DefineHostCallback_def by (intro triple_intros)

lemma lasting_setup [triple_intros]:
  assumes "script_steps_only A"
  shows "lasting (same u) (CreateHostContext A runtime args)"
  "lasting (same u) (RedirectConsoleToDebugger A handler)"
  "lasting (same u) (PrintScriptException A)"
  unfolding CreateHostContext_def RedirectConsoleToDebugger_def PrintScriptException_def Let_def
  by (intro triple_intros assms)+

lemma lasting_wait [triple_intros]: "lasting (same u) (DebugProtocolHandler_WaitForDebugger A h)"
  unfolding DebugProtocolHandler_WaitForDebugger_def by (intro triple_intros)

end
