(* ===== verification/HostOwnership.thy ===== *)
theory HostOwnership
  imports
  HostLifetime
begin

section \<open>The order in which the sample host destroys what it owns\<close>

text \<open>
  \<open>world_ok L R w\<close>: the living protocol handlers are those of \<open>L\<close>, all in order, and the service refers to those of
  \<open>R\<close> only.
\<close>

definition world_ok :: "nat set \<Rightarrow> nat option set \<Rightarrow> ('n, 'w) World \<Rightarrow> bool" where
  "world_ok L R w \<longleftrightarrow> handlers_ok w \<and> living w = L \<and> set (referred w) \<subseteq> R"

text \<open>A fault that is neither an exception nor a pointer to something destroyed.\<close>

definition ends :: "fault \<Rightarrow> bool" where
  "ends f \<longleftrightarrow> \<not> throws f \<and> f \<noteq> Undefined DanglingPointer"

definition alive_in :: "nat set \<Rightarrow> nat option set \<Rightarrow> bool" where
  "alive_in L R \<longleftrightarrow> (\<forall>p. Some p \<in> R \<longrightarrow> p \<in> L)"

lemma quiet_world_ok: "(\<And>u. lasting (undisturbed u) m) \<Longrightarrow> lasting (world_ok L R) m"
  by (rule lastingI) (metis (no_types) lastingD undisturbed_refl undisturbed_def world_ok_def)

subsection \<open>The service\<close>

lemma lasting_forM_world [triple_intros]: "(\<And>x. lasting P (f x)) \<Longrightarrow> lasting P (forM xs f)"
  by (induction xs) (simp_all add: lasting_intros)

lemma ignored:
  "ignore_exceptions m s = (r, t) \<Longrightarrow>
     (\<exists>f. m s = (Inl f, t) \<and> (if throws f then r = Inr () else r = Inl f)) \<or> m s = (r, t) \<and> r = Inr ()"
  by (cases "m s"; cases "fst (m s)") (auto simp: ignore_exceptions_def split: fault.splits)

lemma lasting_ignore [triple_intros]: "lasting P m \<Longrightarrow> lasting P (ignore_exceptions m)"
  by (rule lastingI, drule ignored) (auto simp: lasting_def unwinds_iff dest: triple_Inl triple_Inr split: if_splits)

lemma lasting_ServiceHandler_delete [triple_intros]: "lasting (undisturbed u) (ServiceHandler_delete E W h)"
  unfolding ServiceHandler_delete_def by (intro triple_intros)

lemma lasting_modS [triple_intros]:
  "lasting (undisturbed u) (modS (\<lambda>sv. sv\<lparr>m_port := p\<rparr>))" "lasting (undisturbed u) (modS (\<lambda>sv. sv\<lparr>m_thread := b\<rparr>))"
  unfolding modS_def by (intro triple_intros; simp)+

lemma lasting_Close [triple_intros]: "lasting (undisturbed u) (Close W)"
  unfolding Close_def ServiceHandler_Disconnect_def by (intro triple_intros)

lemma lasting_Listen [triple_intros]: "lasting (undisturbed u) (Listen W p)"
  unfolding Listen_def by (intro triple_intros)

lemma lasting_translated: "lasting P m \<Longrightarrow> lasting P (TranslateExceptionFor handle (\<lambda>_. m))"
proof (rule lastingI)
  fix s r t
  assume m: "lasting P m" and s: "P s" and run: "TranslateExceptionFor handle (\<lambda>_. m) s = (r, t)" and r: "unwinds r"
  show "P t"
  proof (cases handle)
    case None
    then show ?thesis using run s by (simp add: TranslateExceptionFor_def retM_def)
  next
    case (Some h)
    obtain code where "r = Inr code" using translated_code [OF run r] by blast
    then have "snd (m s) = t" "unwinds (fst (m s))"
      using TranslateException_state [of m s code t] run Some by (simp_all add: TranslateExceptionFor_def)
    then show ?thesis using lastingD [OF m s, of "fst (m s)" t] by (simp add: prod_eq_iff)
  qed
qed

lemma set_emplace: "set (map_emplace k v m) \<subseteq> insert (k, v) (set m)"
  by (induction k v m rule: map_emplace.induct) auto

lemma lasting_RegisterHandler:
  assumes "ph \<in> R"
  shows "lasting (world_ok L R) (RegisterHandler E W ident ph b)"
proof (rule lastingI)
  fix w :: "('a, 'b) World" and r w'
  assume w: "world_ok L R w" and run: "RegisterHandler E W ident ph b w = (r, w')" and r: "unwinds r"
  let ?w = "w\<lparr>next_address := Suc (next_address w)\<rparr>" and ?hs = "m_handlers (web_service w)"
  let ?h = "ServiceHandler_new (next_address w) ident ph b"
  have w1: "world_ok L R ?w" using w by (simp add: world_ok_def handlers_ok_def living_def referred_def)
  show "world_ok L R w'"
  proof (cases "map_of ?hs ident")
    case None
    then have "w' = ?w\<lparr>web_service := (web_service w)\<lparr>m_handlers := map_emplace ident ?h ?hs\<rparr>\<rparr>"
      using run by (simp add: RegisterHandler_def getS_def modS_def M_defs Let_def)
    moreover have "set (map (\<lambda>e. sh_protocolHandler (snd e)) (map_emplace ident ?h ?hs)) \<subseteq> R"
      using set_emplace [of ident ?h ?hs] w assms
      by (fastforce simp: world_ok_def referred_def ServiceHandler_new_def ServiceHandler.make_def)
    ultimately show ?thesis using w by (simp add: world_ok_def handlers_ok_def living_def referred_def)
  next
    case (Some h)
    then have del: "ServiceHandler_delete E W ?h ?w = (r, w')"
      using run by (simp add: RegisterHandler_def getS_def M_defs Let_def)
    show ?thesis by (rule lastingD [OF quiet_world_ok [OF lasting_ServiceHandler_delete] w1 del r])
  qed
qed

lemma lasting_UnregisterHandler: "lasting (world_ok L R) (UnregisterHandler E W ident)"
proof (rule lastingI)
  fix w :: "('a, 'b) World" and r w'
  assume w: "world_ok L R w" and run: "UnregisterHandler E W ident w = (r, w')" and r: "unwinds r"
  let ?hs = "m_handlers (web_service w)"
  show "world_ok L R w'"
  proof (cases "map_of ?hs ident")
    case None
    then show ?thesis using run w by (simp add: UnregisterHandler_def getS_def M_defs)
  next
    case (Some h)
    let ?w = "w\<lparr>web_service := (web_service w)\<lparr>m_handlers := map_erase ident ?hs\<rparr>\<rparr>"
    have "world_ok L R ?w"
      using w by (auto simp: world_ok_def handlers_ok_def living_def referred_def map_erase_def)
    moreover have "ServiceHandler_delete E W h ?w = (r, w')"
      using run Some by (simp add: UnregisterHandler_def getS_def modS_def M_defs)
    ultimately show ?thesis using r by (rule lastingD [OF quiet_world_ok [OF lasting_ServiceHandler_delete]])
  qed
qed

text \<open>\<open>holds F P m\<close>: besides, a fault satisfies \<open>F\<close>.\<close>

definition holds :: "(fault \<Rightarrow> bool) \<Rightarrow> ('s \<Rightarrow> bool) \<Rightarrow> ('s, fault, 'a) M \<Rightarrow> bool" where
  "holds F P m = triple P m (\<lambda>_. P) (\<lambda>f s. F f \<and> (throws f \<longrightarrow> P s))"

lemma holds_intros:
  "holds F P (retM x0)" "F e0 \<Longrightarrow> holds F P (throwM e0)" "holds F P (getM f0)"
  "holds F P m1 \<Longrightarrow> (\<And>x. holds F P (k1 x)) \<Longrightarrow> holds F P (bindM m1 k1)"
  "holds F P m2 \<Longrightarrow> holds F P n2 \<Longrightarrow> holds F P (seqM m2 n2)"
  "(b \<Longrightarrow> holds F P m3) \<Longrightarrow> (\<not> b \<Longrightarrow> holds F P n3) \<Longrightarrow> holds F P (if b then m3 else n3)"
  "holds F P n4 \<Longrightarrow> (\<And>x. v = Some x \<Longrightarrow> holds F P (k4 x)) \<Longrightarrow> holds F P (case v of None \<Rightarrow> n4 | Some x \<Rightarrow> k4 x)"
  "(\<And>a b. holds F P (g a b)) \<Longrightarrow> holds F P (case q of (a, b) \<Rightarrow> g a b)"
  unfolding holds_def
  by (auto intro: triple_ret triple_throw triple_get triple_bind triple_seq split: option.split prod.split)

lemma holds_forM: "(\<And>x. x \<in> set xs \<Longrightarrow> holds F P (f x)) \<Longrightarrow> holds F P (forM xs f)"
  by (induction xs) (auto intro: holds_intros)

lemma holds_ignore:
  assumes "holds F P m" and "\<And>f. F f \<Longrightarrow> \<not> throws f \<Longrightarrow> G f"
  shows "holds G P (ignore_exceptions m)"
  unfolding holds_def
proof (rule tripleI)
  fix s
  assume s: "P s"
  obtain r t where run: "ignore_exceptions m s = (r, t)" by (metis surj_pair)
  show "case ignore_exceptions m s of (Inr x, t) \<Rightarrow> P t | (Inl f, t) \<Rightarrow> G f \<and> (throws f \<longrightarrow> P t)"
    using ignored [OF run] triple_Inl [OF assms(1) [unfolded holds_def] s] triple_Inr [OF assms(1) [unfolded holds_def] s]
      assms(2) run
    by (auto split: if_splits)
qed

lemma holds_lasting:
  assumes "lasting P m" and "\<And>s f t. P s \<Longrightarrow> m s = (Inl f, t) \<Longrightarrow> F f"
  shows "holds F P m"
  unfolding holds_def
proof (rule tripleI)
  fix s
  assume s: "P s"
  obtain r t where run: "m s = (r, t)" by (metis surj_pair)
  show "case m s of (Inr x, t) \<Rightarrow> P t | (Inl f, t) \<Rightarrow> F f \<and> (throws f \<longrightarrow> P t)"
    using triple_Inl [OF assms(1) [unfolded lasting_def] s] triple_Inr [OF assms(1) [unfolded lasting_def] s]
      assms(2) [OF s] run
    by (cases r) auto
qed

abbreviation not_dangling :: "fault \<Rightarrow> bool" where
  "not_dangling f \<equiv> f \<noteq> Undefined DanglingPointer"

lemma holds_network:
  assumes "\<And>w n. P w \<Longrightarrow> P (w\<lparr>network := n\<rparr>)"
  shows "holds not_dangling P (ws f)" "holds not_dangling P (on_network g)"
  using assms by (auto simp: holds_def triple_def ws_def on_network_def modifyM_def split: prod.split sum.split)

lemma holds_weaken: "holds F P m \<Longrightarrow> (\<And>f. F f \<Longrightarrow> G f) \<Longrightarrow> holds G P m"
  unfolding holds_def by (erule triple_weaken) auto

lemma triple_pre: "(\<And>s. P s \<Longrightarrow> triple P m Q F) \<Longrightarrow> triple P m Q F"
  by (auto simp: triple_def)

lemma triple_getS:
  "(\<And>x. triple (\<lambda>w. P w \<and> f (web_service w) = x) (k x) Q F) \<Longrightarrow> triple P (bindM (getS f) k) Q F"
  by (auto simp: triple_def bindM_def getS_def getM_def)

lemma world_ok_network: "world_ok L R w \<Longrightarrow> world_ok L R (w\<lparr>network := n\<rparr>)"
  by (simp add: world_ok_def handlers_ok_def living_def referred_def)

lemma holds_disconnect:
  assumes "\<And>p. ph = Some p \<Longrightarrow> p \<in> L"
  shows "holds (\<lambda>_. False) (world_ok L R) (call_handler E ph JsDebugProtocolHandlerDisconnect)"
proof (rule holds_lasting [OF quiet_world_ok [OF lasting_host_calls(2)]])
  fix w t :: "('a, 'b) World" and f
  assume w: "world_ok L R w" and run: "call_handler E ph JsDebugProtocolHandlerDisconnect w = (Inl f, t)"
  show False
  proof (cases ph)
    case None
    then show ?thesis using run by (simp add: call_handler_def retM_def)
  next
    case (Some p)
    obtain g where g: "protocol_handlers w p = Some g"
      using assms [OF Some] w by (auto simp: world_ok_def living_def)
    obtain r w' g' where call: "JsDebugProtocolHandlerDisconnect (E p) (Some ()) (engine w, g) = (r, (w', g'))"
      by (metis surj_pair)
    have "\<exists>code. r = Inr code" using disconnect_result [OF call] by (auto split: if_splits)
    then show ?thesis
      using run Some call_handler_run [where E = E and f = JsDebugProtocolHandlerDisconnect, OF g call] by auto
  qed
qed

lemma holds_closing:
  "holds not_dangling (world_ok L R) (unless_expired W hdl (\<lambda>hdl.
     bindM (get_con W hdl) (\<lambda>connection.
       seqM (on_network (set_message_handler W connection None))
      (seqM (on_network (set_close_handler W connection None))
            (ws (close_connection W connection c_MessageServerShutdown))))))"
  unfolding unless_expired_def hdl_expired_def get_con_def
  by (intro holds_intros holds_network world_ok_network) simp_all

lemma holds_ServiceHandler_delete:
  assumes "\<And>p. sh_protocolHandler h = Some p \<Longrightarrow> p \<in> L"
  shows "holds ends (world_ok L R) (ServiceHandler_delete E W h)"
  unfolding ServiceHandler_delete_def
  by (intro holds_intros holds_ignore [OF holds_closing] holds_weaken [OF holds_disconnect] assms) (simp_all add: ends_def)

lemma holds_Close: "holds not_dangling (world_ok L R) (Close W)"
proof -
  have "holds not_dangling (world_ok L R) (modS (\<lambda>sv. sv\<lparr>m_port := p\<rparr>))"
    and "holds not_dangling (world_ok L R) (modS (\<lambda>sv. sv\<lparr>m_thread := b\<rparr>))" for p b
    by (auto simp: holds_def modS_def intro!: triple_modify simp: world_ok_def handlers_ok_def living_def referred_def)
  then show ?thesis
    unfolding Close_def ServiceHandler_Disconnect_def unless_expired_def hdl_expired_def getS_def
    by (intro holds_intros holds_network world_ok_network holds_forM) simp_all
qed

lemma Service_delete_triple:
  assumes "alive_in L R"
  shows "triple (world_ok L R) (Service_delete E W) (\<lambda>_. world_ok L {}) (\<lambda>f _. ends f)"
proof -
  define rest :: "(string \<times> ServiceHandler) list \<Rightarrow> ('a, 'b, unit) S" where
    "rest handlers = seqM (modS (\<lambda>sv. sv\<lparr>m_handlers := []\<rparr>))
      (seqM (forM handlers (\<lambda>(ident, handler). ServiceHandler_delete E W handler))
       (bindM (getS m_thread) (\<lambda>joinable. if joinable then throwM Terminated else retM ())))" for handlers
  have rest: "triple (\<lambda>w. world_ok L R w \<and> m_handlers (web_service w) = handlers) (rest handlers)
      (\<lambda>_. world_ok L {}) (\<lambda>f _. ends f)" for handlers
  proof (rule triple_pre)
    fix w :: "('a, 'b) World"
    assume w: "world_ok L R w \<and> m_handlers (web_service w) = handlers"
    have alive: "p \<in> L" if "e \<in> set handlers" "sh_protocolHandler (snd e) = Some p" for e p
    proof -
      have "Some p \<in> set (referred w)" using w that by (force simp: referred_def)
      then show ?thesis using w assms by (auto simp: world_ok_def alive_in_def)
    qed
    have each: "triple (world_ok L {}) (forM handlers (\<lambda>(ident, handler). ServiceHandler_delete E W handler))
        (\<lambda>_. world_ok L {}) (\<lambda>f _. ends f)"
    proof (rule triple_forM)
      fix e
      assume e: "e \<in> set handlers"
      have "holds ends (world_ok L {}) (ServiceHandler_delete E W (snd e))"
        by (rule holds_ServiceHandler_delete) (rule alive [OF e])
      then show "triple (world_ok L {}) (case e of (ident, handler) \<Rightarrow> ServiceHandler_delete E W handler)
          (\<lambda>_. world_ok L {}) (\<lambda>f _. ends f)"
        unfolding holds_def by (cases e) (auto elim: triple_weaken)
    qed
    show "triple (\<lambda>w. world_ok L R w \<and> m_handlers (web_service w) = handlers) (rest handlers)
        (\<lambda>_. world_ok L {}) (\<lambda>f _. ends f)"
      unfolding rest_def modS_def
      by (rule triple_seq, rule triple_modify [where Q = "\<lambda>_. world_ok L {}"],
          simp add: world_ok_def handlers_ok_def living_def referred_def,
          rule triple_seq [OF each], rule triple_getS, intro triple_if triple_throw triple_ret)
        (simp_all add: ends_def)
  qed
  have close: "triple (world_ok L R) (ignore_exceptions (Close W)) (\<lambda>_. world_ok L R) (\<lambda>f _. ends f)"
    by (rule triple_weaken [OF holds_ignore [OF holds_Close, where G = ends, unfolded holds_def]]) (auto simp: ends_def)
  show ?thesis
    unfolding Service_delete_def rest_def [symmetric]
    by (rule triple_seq [OF close], rule triple_getS, rule rest)
qed

subsection \<open>Destroying the protocol handler\<close>

lemma handler_deleted:
  assumes "handler_ok h" and "ProtocolHandler_delete E (w, h) = (r, (w', h'))"
  shows "r = Inr () \<or> (\<exists>f. r = Inl f \<and> ends f)"
proof -
  let ?h = "h\<lparr>m_schemaAgent := None, m_runtimeAgent := None\<rparr>"
  obtain r1 w1 h1 where del: "delete_debugger_agent E (w, ?h) = (r1, (w1, h1))" by (metis surj_pair)
  have "debugger_ok ?h" using assms(1) by (simp add: handler_ok_def)
  note res = delete_debugger_agent_result [OF this del]
  show ?thesis
  proof (cases r1)
    case (Inl f)
    then have "r = Inl f" using assms(2) del by (simp add: ProtocolHandler_delete_def modH_def M_defs)
    then show ?thesis using res Inl by (auto simp: ends_def elim: throws.elims)
  next
    case (Inr x)
    then show ?thesis using assms(2) del
      by (auto simp: ProtocolHandler_delete_def Debugger_delete_def modH_def jsrt_def M_defs split: prod.splits)
  qed
qed

lemma destroy_handler_triple:
  "triple (\<lambda>w. world_ok {p} {} w)
     (bindM (call_handler E (Some p) JsDebugProtocolHandlerDestroy) (\<lambda>code.
        if code = JsNoError then seqM (forget_handler (Some p)) (retM code) else retM code))
     (\<lambda>code w. code = JsNoError \<and> world_ok {} {} w) (\<lambda>f _. ends f)"
proof (rule tripleI)
  fix w :: "('a, 'b) World"
  assume w: "world_ok {p} {} w"
  then have "p \<in> dom (protocol_handlers w)" by (simp add: world_ok_def living_def)
  then obtain g where g: "protocol_handlers w p = Some g" "handler_ok g"
    using w by (auto simp: world_ok_def handlers_ok_def)
  obtain r w' g' where del: "ProtocolHandler_delete (E p) (engine w, g) = (r, (w', g'))" by (metis surj_pair)
  note call = call_handler_run [where E = E and f = JsDebugProtocolHandlerDestroy, OF g(1)]
  have gone: "world_ok {} {} (w\<lparr>engine := w', protocol_handlers := (protocol_handlers w)(p := None)\<rparr>)"
    using w by (auto simp: world_ok_def living_def handlers_ok_def referred_def)
  show "case bindM (call_handler E (Some p) JsDebugProtocolHandlerDestroy) (\<lambda>code.
        if code = JsNoError then seqM (forget_handler (Some p)) (retM code) else retM code) w of
      (Inr code, t) \<Rightarrow> code = JsNoError \<and> world_ok {} {} t | (Inl f, t) \<Rightarrow> ends f"
    using handler_deleted [OF g(2) del]
  proof
    assume "r = Inr ()"
    then have "JsDebugProtocolHandlerDestroy (E p) (Some ()) (engine w, g) = (Inr JsNoError, (w', g'))"
      using del by (simp add: JsDebugProtocolHandlerDestroy_def TranslateExceptionFor_def TranslateException_def)
    from call [OF this] gone show ?thesis by (simp add: forget_handler_def M_defs)
  next
    assume "\<exists>f. r = Inl f \<and> ends f"
    then obtain f where f: "r = Inl f" "ends f" by blast
    then have "JsDebugProtocolHandlerDestroy (E p) (Some ()) (engine w, g) = (Inl f, (w', g'))"
      using del by (cases f) (simp_all add: JsDebugProtocolHandlerDestroy_def TranslateExceptionFor_def
        TranslateException_def ends_def)
    from call [OF this] f show ?thesis by (simp add: M_defs)
  qed
qed

subsection \<open>The wrapper classes\<close>

definition on_shared :: "(('n, 'w) World \<Rightarrow> bool) \<Rightarrow> ('n, 'w) HostState \<Rightarrow> bool" where
  "on_shared P s = P (world s)"

lemma triple_on_world:
  "triple P m Q F \<Longrightarrow> triple (on_shared P) (on_world m) (\<lambda>x. on_shared (Q x)) (\<lambda>f. on_shared (F f))"
  unfolding triple_def on_shared_def on_world_def by (fastforce split: prod.splits sum.splits)

lemma on_world_bind: "on_world (bindM m k) = bindM (on_world m) (\<lambda>x. on_world (k x))"
  by (auto simp: on_world_def M_defs fun_eq_iff split: prod.splits sum.splits)

lemma on_world_ret: "on_world (retM x) = retM x"
  by (simp add: on_world_def M_defs)

lemma destroy_triple:
  assumes "m_protocolHandler this = Some p"
  shows "triple (on_shared (world_ok {p} {})) (DebugProtocolHandler_Destroy A this)
    (\<lambda>(code, this') s. code = JsNoError \<and> m_protocolHandler this' = None \<and> world_ok {} {} (world s)) (\<lambda>f _. ends f)"
proof -
  let ?m = "bindM (call_handler (handler_env A) (Some p) JsDebugProtocolHandlerDestroy) (\<lambda>code.
        if code = JsNoError then seqM (forget_handler (Some p)) (retM code) else retM code)"
  have eq: "DebugProtocolHandler_Destroy A this =
      bindM (on_world ?m) (\<lambda>code. retM (code, if code = JsNoError then this\<lparr>m_protocolHandler := None\<rparr> else this))"
    unfolding DebugProtocolHandler_Destroy_def assms on_world_bind bindM_assoc
    by (simp, rule arg_cong [where f = "bindM _"], rule ext)
      (simp add: seqM_def on_world_bind on_world_ret bindM_assoc)
  have "triple (on_shared (world_ok {p} {})) (on_world ?m)
      (\<lambda>code s. code = JsNoError \<and> world_ok {} {} (world s)) (\<lambda>f _. ends f)"
    by (rule triple_weaken [OF triple_on_world [OF destroy_handler_triple]]) (simp_all add: on_shared_def)
  then show ?thesis unfolding eq by (rule triple_bind) (intro triple_ret, simp)
qed

lemma handler_delete_triple:
  assumes "m_protocolHandler this = Some p"
  shows "triple (on_shared (world_ok {p} {})) (DebugProtocolHandler_delete A this)
    (\<lambda>_. on_shared (world_ok {} {})) (\<lambda>f _. ends f)"
  unfolding DebugProtocolHandler_delete_def
  by (rule triple_bind [OF destroy_triple [OF assms]]) (auto intro!: triple_ret simp: on_shared_def)

lemma translated_triple:
  assumes "triple P m (\<lambda>_. Q) (\<lambda>f _. ends f)"
  shows "triple P (TranslateExceptionFor (Some h) (\<lambda>_. m)) (\<lambda>code s. code = JsNoError \<and> Q s) (\<lambda>f _. ends f)"
proof (rule tripleI)
  fix s
  assume s: "P s"
  obtain r t where run: "m s = (r, t)" by (metis surj_pair)
  show "case TranslateExceptionFor (Some h) (\<lambda>_. m) s of (Inr code, t) \<Rightarrow> code = JsNoError \<and> Q t | (Inl f, t) \<Rightarrow> ends f"
  proof (cases r)
    case (Inl f)
    then have "ends f" using triple_Inl [OF assms s] run by simp
    then show ?thesis using run Inl
      by (cases f) (simp_all add: TranslateExceptionFor_def TranslateException_def ends_def)
  next
    case (Inr x)
    then show ?thesis using triple_Inr [OF assms s] run
      by (simp add: TranslateExceptionFor_def TranslateException_def)
  qed
qed

lemma service_destroy_triple:
  assumes "m_service this = Some ()" and "alive_in L R"
  shows "triple (on_shared (world_ok L R)) (DebugService_Destroy A this)
    (\<lambda>(code, this') s. code = JsNoError \<and> m_service this' = None \<and> world_ok L {} (world s)) (\<lambda>f _. ends f)"
proof -
  have "triple (on_shared (world_ok L R)) (on_world (JsDebugServiceDestroy (handler_env A) (server_library A) (Some ())))
      (\<lambda>code s. code = JsNoError \<and> world_ok L {} (world s)) (\<lambda>f _. ends f)"
    unfolding JsDebugServiceDestroy_def
    by (rule triple_weaken [OF triple_on_world [OF translated_triple [OF Service_delete_triple [OF assms(2)]]]])
      (simp_all add: on_shared_def)
  then show ?thesis
    unfolding DebugService_Destroy_def assms(1) by simp (erule triple_bind, rule triple_if, auto intro: triple_ret)
qed

lemma service_delete_triple:
  assumes "m_service this = Some ()" and "alive_in L R"
  shows "triple (on_shared (world_ok L R)) (DebugService_delete A this) (\<lambda>_. on_shared (world_ok L {})) (\<lambda>f _. ends f)"
  unfolding DebugService_delete_def
  by (rule triple_bind [OF service_destroy_triple [OF assms]]) (auto intro!: triple_ret simp: on_shared_def)

subsection \<open>The local variables of \<open>wmain\<close>\<close>

definition owner :: "('n, 'w) Locals \<Rightarrow> nat option" where
  "owner l = Option.bind (debugProtocolHandler l) m_protocolHandler"

definition served :: "('n, 'w) Locals \<Rightarrow> unit option" where
  "served l = Option.bind (debugService l) m_service"

definition owners :: "('n, 'w) Locals \<Rightarrow> nat set" where
  "owners l = {p. owner l = Some p}"

definition referents :: "('n, 'w) Locals \<Rightarrow> nat option set" where
  "referents l = (if served l = None then {} else Some ` owners l)"

lemma locals_simps [simp]:
  "owners (l\<lparr>shared := s\<rparr>) = owners l" "referents (l\<lparr>shared := s\<rparr>) = referents l"
  "owners (l\<lparr>returnValue := v\<rparr>) = owners l" "referents (l\<lparr>returnValue := v\<rparr>) = referents l"
  "debugProtocolHandler l = None \<Longrightarrow> owners l = {}"
  "debugProtocolHandler l = Some h \<Longrightarrow> owners l = {p. m_protocolHandler h = Some p}"
  "debugService l = None \<Longrightarrow> referents l = {}"
  "debugService l = Some sv \<Longrightarrow> referents l = (if m_service sv = None then {} else Some ` owners l)"
  by (simp_all add: owners_def referents_def owner_def served_def)

text \<open>
  The living protocol handler is the one the local variable holds; the service refers to it at most, and to none once it is
  destroyed.
\<close>

definition owned :: "('n, 'w) Locals \<Rightarrow> bool" where
  "owned l \<longleftrightarrow> world_ok (owners l) (referents l) (world (shared l))"

definition nothing_owned :: "('n, 'w) Locals \<Rightarrow> bool" where
  "nothing_owned l \<longleftrightarrow> debugProtocolHandler l = None \<and> debugService l = None \<and> world_ok {} {} (world (shared l))"

lemma nothing_owned_owned: "nothing_owned l \<Longrightarrow> owned l"
  by (simp add: nothing_owned_def owned_def)

lemma outside_result: "outside m l = (r, l') \<Longrightarrow> \<exists>s. m (shared l) = (r, s) \<and> l' = l\<lparr>shared := s\<rparr>"
  by (auto simp: outside_def split: prod.splits)

text \<open>What is done with everything outside the local variables.\<close>

lemma lasting_outside:
  assumes "\<And>u. lasting (same u) m"
  shows "lasting owned (outside m)" "lasting nothing_owned (outside m)"
proof -
  have und: "undisturbed (world (shared l)) (world s)" if "m (shared l) = (r, s)" "unwinds r" for l r s
    by (rule lastingD [OF assms undisturbed_refl that])
  have "world_ok L R (world s)" if "world_ok L R (world (shared l))" "m (shared l) = (r, s)" "unwinds r" for L R l r s
    using und [OF that(2,3)] that(1) by (simp add: undisturbed_def world_ok_def)
  then show "lasting owned (outside m)" "lasting nothing_owned (outside m)"
    by (auto intro!: lastingI dest!: outside_result simp: owned_def nothing_owned_def)
qed

lemma lasting_outside_service:
  assumes "\<And>L R. lasting (world_ok L R) m"
  shows "lasting owned (outside (on_world m))"
proof (rule lastingI)
  fix l r l'
  assume l: "owned l" and run: "outside (on_world m) l = (r, l')" and r: "unwinds r"
  obtain s where s: "on_world m (shared l) = (r, s)" "l' = l\<lparr>shared := s\<rparr>" using outside_result [OF run] by blast
  then have "m (world (shared l)) = (r, world s)" by (auto simp: on_world_def split: prod.splits)
  from lastingD [OF assms l [unfolded owned_def] this r] s(2) show "owned l'"
    by (simp add: owned_def)
qed

lemma triple_outside:
  assumes "\<And>l. P l \<Longrightarrow> p (shared l)" and "triple p m q f"
    and "\<And>l x s. P l \<Longrightarrow> q x s \<Longrightarrow> Q x (l\<lparr>shared := s\<rparr>)" and "\<And>l e s. P l \<Longrightarrow> f e s \<Longrightarrow> F e (l\<lparr>shared := s\<rparr>)"
  shows "triple P (outside m) Q F"
  using assms by (fastforce simp: triple_def outside_def split: prod.splits sum.splits)

lemma triple_split: "(\<And>x. triple (\<lambda>s. P s \<and> f s = x) m Q F) \<Longrightarrow> triple P m Q F"
  by (auto simp: triple_def)

lemma triple_read: "(\<And>x. triple (\<lambda>s. P s \<and> f s = x) (k x) Q F) \<Longrightarrow> triple P (bindM (getM f) k) Q F"
  by (auto simp: triple_def bindM_def getM_def)

lemma deleted_already:
  "m_service sv = None \<Longrightarrow> DebugService_Destroy A sv = retM (JsNoError, sv)"
  "m_protocolHandler h = None \<Longrightarrow> DebugProtocolHandler_Destroy A h = retM (JsNoError, h)"
  by (simp_all add: DebugService_Destroy_def DebugProtocolHandler_Destroy_def)

lemma outside_ret [simp]: "outside (retM x) = retM x"
  by (simp add: outside_def M_defs)

definition service_gone :: "('n, 'w) Locals \<Rightarrow> bool" where
  "service_gone l \<longleftrightarrow> world_ok (owners l) {} (world (shared l))"

lemma delete_service_local:
  "triple owned (bindM (getM debugService) (\<lambda>service.
     case service of None \<Rightarrow> retM () | Some sv \<Rightarrow> outside (DebugService_delete A sv))) (\<lambda>_. service_gone) (\<lambda>f _. ends f)"
proof (rule triple_read, rule triple_option)
  show "triple (\<lambda>l. owned l \<and> debugService l = x) (retM ()) (\<lambda>_. service_gone) (\<lambda>f _. ends f)"
    if "x = None" for x :: "DebugService option"
    by (rule triple_ret) (use that in \<open>auto simp: owned_def service_gone_def\<close>)
next
  fix x :: "DebugService option" and sv
  assume x: "x = Some sv"
  show "triple (\<lambda>l. owned l \<and> debugService l = x) (outside (DebugService_delete A sv)) (\<lambda>_. service_gone) (\<lambda>f _. ends f)"
  proof (cases "m_service sv")
    case None
    then show ?thesis using x
      by (auto intro!: triple_ret simp: DebugService_delete_def deleted_already owned_def service_gone_def)
  next
    case (Some u)
    show ?thesis
    proof (rule triple_split [where f = "\<lambda>l. owners l"])
      fix L
      have "alive_in L (Some ` L)" by (auto simp: alive_in_def)
      from service_delete_triple [OF _ this, of sv] Some
      have del: "triple (on_shared (world_ok L (Some ` L))) (DebugService_delete A sv)
          (\<lambda>_. on_shared (world_ok L {})) (\<lambda>f _. ends f)" by simp
      show "triple (\<lambda>l. (owned l \<and> debugService l = x) \<and> owners l = L) (outside (DebugService_delete A sv))
          (\<lambda>_. service_gone) (\<lambda>f _. ends f)"
        by (rule triple_outside [OF _ del])
          (use x Some in \<open>auto simp: on_shared_def owned_def service_gone_def\<close>)
    qed
  qed
qed

lemma delete_handler_local:
  "triple service_gone (bindM (getM debugProtocolHandler) (\<lambda>handler.
     case handler of None \<Rightarrow> retM () | Some h \<Rightarrow> outside (DebugProtocolHandler_delete A h)))
     (\<lambda>_ l. world_ok {} {} (world (shared l))) (\<lambda>f _. ends f)"
proof (rule triple_read, rule triple_option)
  show "triple (\<lambda>l. service_gone l \<and> debugProtocolHandler l = x) (retM ()) (\<lambda>_ l. world_ok {} {} (world (shared l)))
      (\<lambda>f _. ends f)" if "x = None" for x :: "DebugProtocolHandler option"
    by (rule triple_ret) (use that in \<open>auto simp: service_gone_def\<close>)
next
  fix x :: "DebugProtocolHandler option" and h
  assume x: "x = Some h"
  show "triple (\<lambda>l. service_gone l \<and> debugProtocolHandler l = x) (outside (DebugProtocolHandler_delete A h))
      (\<lambda>_ l. world_ok {} {} (world (shared l))) (\<lambda>f _. ends f)"
  proof (cases "m_protocolHandler h")
    case None
    then show ?thesis using x
      by (auto intro!: triple_ret simp: DebugProtocolHandler_delete_def deleted_already service_gone_def)
  next
    case (Some p)
    show ?thesis
      by (rule triple_outside [OF _ handler_delete_triple [OF Some]])
        (use x Some in \<open>auto simp: on_shared_def service_gone_def\<close>)
  qed
qed

lemma destroy_locals_triple:
  "triple owned (destroy_locals A) (\<lambda>_ l. world_ok {} {} (world (shared l))) (\<lambda>f _. ends f)"
  unfolding destroy_locals_def by (rule triple_seq [OF delete_service_local delete_handler_local])

subsection \<open>Enabling the debugger\<close>

text \<open>Between the creation of the two objects and their transfer to the local variables.\<close>

definition starting :: "('n, 'w) HostEnv \<Rightarrow> ('n, 'w) Locals \<Rightarrow> bool" where
  "starting A l \<longleftrightarrow> debugProtocolHandler l = None \<and> debugService l = None \<and>
     world_ok {handler_address A} {Some (handler_address A)} (world (shared l))"

definition handler_created :: "('n, 'w) HostEnv \<Rightarrow> ('n, 'w) Locals \<Rightarrow> bool" where
  "handler_created A l \<longleftrightarrow> debugProtocolHandler l = None \<and> debugService l = None \<and>
     world_ok {handler_address A} {} (world (shared l))"

lemma handler_new_triple:
  "triple (on_shared (world_ok {} {})) (DebugProtocolHandler_new A runtime)
     (\<lambda>this s. m_protocolHandler this = Some (handler_address A) \<and> world_ok {handler_address A} {} (world s))
     (\<lambda>f s. throws f \<longrightarrow> world_ok {} {} (world s))"
proof (rule tripleI)
  fix s :: "('a, 'b) HostState"
  assume s: "on_shared (world_ok {} {}) s"
  obtain code h w where run: "JsDebugProtocolHandlerCreate (handler_env A (handler_address A))
      (if runtime = JS_INVALID_REFERENCE then None else Some runtime) (Some ()) (engine (world s)) = ((code, h), w)"
    by (metis surj_pair)
  have h: "\<exists>c. h = Some (Handler_init c)" if "code = JsNoError"
    using run that
    by (auto simp: JsDebugProtocolHandlerCreate_def ProtocolHandler_new_def Debugger_new_def M_defs IfJsErrorThrow_def
        DebuggerContext_def js_def jsrt_def JsErrorException_of_def
        split: prod.splits sum.splits fault.splits cpp_exn.splits option.splits if_splits)
  show "case DebugProtocolHandler_new A runtime s of
      (Inr this, t) \<Rightarrow> m_protocolHandler this = Some (handler_address A) \<and> world_ok {handler_address A} {} (world t)
    | (Inl f, t) \<Rightarrow> throws f \<longrightarrow> world_ok {} {} (world t)"
  proof (cases "code = JsNoError")
    case True
    then obtain c where "h = Some (Handler_init c)" using h by blast
    then show ?thesis
      using run True s
      by (auto simp: DebugProtocolHandler_new_def on_world_def on_shared_def world_ok_def handlers_ok_def living_def
          referred_def handler_ok_init)
  next
    case False
    then show ?thesis
      using run s by (simp add: DebugProtocolHandler_new_def on_world_def on_shared_def world_ok_def handlers_ok_def
          living_def referred_def)
  qed
qed

lemma triple_unwinding:
  assumes "triple P m Q (\<lambda>f s. throws f \<longrightarrow> R s)" and "triple R d (\<lambda>_. S) (\<lambda>f _. \<not> throws f)"
  shows "triple P (unwinding d m) Q (\<lambda>f s. throws f \<longrightarrow> S s)"
proof (rule tripleI)
  fix s
  assume s: "P s"
  obtain r t where run: "m s = (r, t)" by (metis surj_pair)
  obtain r' t' where d: "d t = (r', t')" by (metis surj_pair)
  show "case unwinding d m s of (Inr x, t) \<Rightarrow> Q x t | (Inl f, t) \<Rightarrow> throws f \<longrightarrow> S t"
  proof (cases r)
    case (Inr x)
    then show ?thesis using triple_Inr [OF assms(1) s] run by (simp add: unwinding_def)
  next
    case (Inl f)
    show ?thesis
    proof (cases f)
      case (Throw e)
      then have "R t" using triple_Inl [OF assms(1) s] run Inl by simp
      then show ?thesis
        using triple_Inr [OF assms(2)] triple_Inl [OF assms(2)] run Inl Throw d
        by (cases r') (auto simp: unwinding_def seqM_def bindM_def throwM_def)
    qed (use run Inl in \<open>simp_all add: unwinding_def\<close>)
  qed
qed

lemma DebugService_new_triple:
  "triple (on_shared (world_ok L {})) (DebugService_new A) (\<lambda>sv s. m_service sv = Some () \<and> world_ok L {} (world s))
     (\<lambda>_ _. False)"
  by (auto simp: triple_def DebugService_new_def JsDebugServiceCreate_def on_world_def on_shared_def world_ok_def
      handlers_ok_def living_def referred_def Service_new_def)

lemma lasting_shared_world: "lasting (world_ok L R) m \<Longrightarrow> lasting (on_shared (world_ok L R)) (on_world m)"
  unfolding lasting_def on_shared_def [abs_def] by (drule triple_on_world) (simp add: on_shared_def [abs_def])

lemma lasting_shared:
  assumes "\<And>u. lasting (same u) m"
  shows "lasting (on_shared (world_ok L R)) m"
proof (rule lastingI)
  fix s r t
  assume s: "on_shared (world_ok L R) s" and run: "m s = (r, t)" and r: "unwinds r"
  from lastingD [OF assms undisturbed_refl run r] s show "on_shared (world_ok L R) t"
    by (simp add: on_shared_def undisturbed_def world_ok_def)
qed

lemma lasting_EnableDebugging_run:
  assumes "m_protocolHandler protocolHandler \<in> R"
  shows "lasting (on_shared (world_ok L R)) (EnableDebugging_run A runtimeName b p protocolHandler service)"
  unfolding EnableDebugging_run_def DebugService_RegisterHandler_def DebugService_Listen_def
    JsDebugServiceRegisterHandler_def JsDebugServiceListen_def
  by (intro lasting_intros lasting_shared [OF lasting_print(1)] lasting_shared_world
      lasting_translated lasting_RegisterHandler assms quiet_world_ok triple_intros)

lemma destructors_triple:
  assumes "m_protocolHandler h = Some (handler_address A)" and "m_service sv = Some ()"
  shows "triple (starting A) (outside (seqM (DebugService_delete A sv) (DebugProtocolHandler_delete A h)))
    (\<lambda>_. nothing_owned) (\<lambda>f _. ends f)"
proof -
  have "alive_in {handler_address A} {Some (handler_address A)}" by (simp add: alive_in_def)
  from triple_seq [OF service_delete_triple [OF assms(2) this] handler_delete_triple [OF assms(1)]] show ?thesis
    by (rule triple_outside [rotated]) (simp_all add: starting_def on_shared_def nothing_owned_def)
qed

lemma triple_faults: "triple P m Q (\<lambda>f _. ends f) \<Longrightarrow> (\<And>f s. ends f \<Longrightarrow> F f s) \<Longrightarrow> triple P m Q F"
  by (erule triple_weaken) auto

text \<open>What follows the creation of the service, and what follows that of the protocol handler.\<close>

definition enable_with ::
  "('n, 'w) HostEnv \<Rightarrow> string \<Rightarrow> bool \<Rightarrow> 16 word \<Rightarrow> DebugProtocolHandler \<Rightarrow> DebugService \<Rightarrow> ('n, 'w, JsErrorCode) LM" where
  "enable_with A runtimeName b p h service =
     (let destructors = outside (seqM (DebugService_delete A service) (DebugProtocolHandler_delete A h)) in
      bindM (unwinding destructors (outside (EnableDebugging_run A runtimeName b p h service))) (\<lambda>result.
        if result = JsNoError then
          seqM (modifyM (\<lambda>l. l\<lparr>debugProtocolHandler := Some h, debugService := Some service\<rparr>)) (retM result)
        else seqM destructors (retM result)))"

lemma enable_with_triple:
  assumes h: "m_protocolHandler h = Some (handler_address A)" and sv: "m_service sv = Some ()"
  shows "triple (starting A) (enable_with A runtimeName b p h sv) (\<lambda>_. owned) (\<lambda>f l. throws f \<longrightarrow> owned l)"
  unfolding enable_with_def Let_def
proof (rule triple_bind)
  let ?ds = "outside (seqM (DebugService_delete A sv) (DebugProtocolHandler_delete A h))"
  have run: "triple (starting A) (outside (EnableDebugging_run A runtimeName b p h sv)) (\<lambda>_. starting A)
      (\<lambda>f l. throws f \<longrightarrow> starting A l)"
    by (rule triple_outside [OF _ lasting_EnableDebugging_run [unfolded lasting_def,
          where L = "{handler_address A}" and R = "{Some (handler_address A)}"]])
      (auto simp: starting_def on_shared_def h)
  have "triple (starting A) ?ds (\<lambda>_. nothing_owned) (\<lambda>f _. \<not> throws f)"
    by (rule triple_faults [OF destructors_triple [OF h sv]]) (simp add: ends_def)
  from triple_unwinding [OF run this]
  show "triple (starting A) (unwinding ?ds (outside (EnableDebugging_run A runtimeName b p h sv))) (\<lambda>_. starting A)
      (\<lambda>f l. throws f \<longrightarrow> owned l)"
    by (rule triple_weaken) (auto simp: nothing_owned_owned)
  have taken: "triple (starting A) (seqM (modifyM (\<lambda>l. l\<lparr>debugProtocolHandler := Some h, debugService := Some sv\<rparr>))
      (retM result)) (\<lambda>_. owned) (\<lambda>f l. throws f \<longrightarrow> owned l)" for result :: JsErrorCode
    by (rule triple_seq [OF triple_modify [where Q = "\<lambda>_. owned"]])
      (auto simp: starting_def owned_def h sv intro: triple_ret)
  have dropped: "triple (starting A) (seqM ?ds (retM result)) (\<lambda>_. owned) (\<lambda>f l. throws f \<longrightarrow> owned l)"
    for result :: JsErrorCode
    by (rule triple_seq [OF triple_faults [OF destructors_triple [OF h sv]]])
      (auto simp: ends_def nothing_owned_owned intro: triple_ret)
  show "triple (starting A) (if result = JsNoError then
         seqM (modifyM (\<lambda>l. l\<lparr>debugProtocolHandler := Some h, debugService := Some sv\<rparr>)) (retM result)
       else seqM ?ds (retM result)) (\<lambda>_. owned) (\<lambda>f l. throws f \<longrightarrow> owned l)" for result :: JsErrorCode
    by (rule triple_if [OF taken dropped])
qed

lemma service_created_triple:
  assumes h: "m_protocolHandler h = Some (handler_address A)"
  shows "triple (handler_created A) (unwinding (outside (DebugProtocolHandler_delete A h)) (outside (DebugService_new A)))
    (\<lambda>sv l. m_service sv = Some () \<and> starting A l) (\<lambda>f l. throws f \<longrightarrow> owned l)"
proof -
  have new: "triple (handler_created A) (outside (DebugService_new A))
      (\<lambda>sv l. m_service sv = Some () \<and> starting A l) (\<lambda>f l. throws f \<longrightarrow> handler_created A l)"
    by (rule triple_outside [OF _ DebugService_new_triple [where L = "{handler_address A}"]])
      (auto simp: handler_created_def starting_def on_shared_def world_ok_def)
  have "triple (handler_created A) (outside (DebugProtocolHandler_delete A h)) (\<lambda>_. nothing_owned) (\<lambda>f _. \<not> throws f)"
    by (rule triple_outside [OF _ handler_delete_triple [OF h]])
      (auto simp: handler_created_def nothing_owned_def on_shared_def ends_def)
  from triple_unwinding [OF new this] show ?thesis by (rule triple_weaken) (auto simp: nothing_owned_owned)
qed

lemma triple_assume: "(b \<Longrightarrow> triple P m Q F) \<Longrightarrow> triple (\<lambda>s. b \<and> P s) m Q F"
  by (auto simp: triple_def)

lemma EnableDebugging_triple:
  "triple nothing_owned (EnableDebugging A runtime runtimeName b p) (\<lambda>_. owned) (\<lambda>f l. throws f \<longrightarrow> owned l)"
proof -
  have "EnableDebugging A runtime runtimeName b p =
      bindM (outside (DebugProtocolHandler_new A runtime)) (\<lambda>h.
      bindM (unwinding (outside (DebugProtocolHandler_delete A h)) (outside (DebugService_new A)))
        (enable_with A runtimeName b p h))"
    by (simp add: EnableDebugging_def enable_with_def [abs_def])
  moreover have "triple nothing_owned (outside (DebugProtocolHandler_new A runtime))
      (\<lambda>h l. m_protocolHandler h = Some (handler_address A) \<and> handler_created A l) (\<lambda>f l. throws f \<longrightarrow> owned l)"
    by (rule triple_outside [OF _ handler_new_triple])
      (auto simp: nothing_owned_def handler_created_def on_shared_def owned_def)
  ultimately show ?thesis
    by simp (erule triple_bind, rule triple_assume, rule triple_bind, erule service_created_triple,
      rule triple_assume, rule enable_with_triple)
qed

subsection \<open>\<open>wmain\<close>\<close>

lemma owned_returnValue [simp]: "owned (l\<lparr>returnValue := v\<rparr>) = owned l" "nothing_owned (l\<lparr>returnValue := v\<rparr>) = nothing_owned l"
  by (simp_all add: owned_def nothing_owned_def)

lemma lasting_IfFailError [triple_intros]: "lasting owned m \<Longrightarrow> lasting_exit owned (IfFailError m e)"
  unfolding IfFailError_def by (intro lasting_exit_intros lasting_calls lasting_outside lasting_print)

lemma lasting_print_line [triple_intros]: "lasting_exit owned (print_line t)"
  unfolding print_line_def by (intro lasting_calls lasting_outside lasting_print)

lemma triple_calls:
  "triple P m Q (\<lambda>f s. throws f \<longrightarrow> R s) \<Longrightarrow> triple P (in_function m) Q (\<lambda>e s. goes e \<longrightarrow> R s)"
  unfolding triple_def in_function_def by (fastforce split: prod.splits sum.splits)

lemma triple_IfFailError:
  assumes "triple P m (\<lambda>(code, x) l. if code = JsNoError then Q x l else owned l) (\<lambda>f l. throws f \<longrightarrow> owned l)"
  shows "triple P (IfFailError m e) Q (\<lambda>f l. goes f \<longrightarrow> owned l)"
  unfolding IfFailError_def
proof (rule triple_bind [OF triple_calls [OF assms]], clarify, rule triple_if)
  fix code :: JsErrorCode and x
  let ?message = "lit (''chakrahost: fatal error: '' @ e @ ''.'' @ [CHR 0x0A])"
  have "lasting_exit owned (seqM (in_function (outside (print_err ?message))) (throwM (Leave None)))"
    by (intro lasting_exit_intros lasting_calls lasting_outside lasting_print)
  moreover assume "code \<noteq> JsNoError"
  ultimately show "triple (\<lambda>l. if code = JsNoError then Q x l else owned l)
      (seqM (in_function (outside (print_err ?message))) (throwM (Leave None))) Q (\<lambda>f l. goes f \<longrightarrow> owned l)"
    unfolding lasting_exit_def
    by (auto simp: triple_def M_defs in_function_def split: prod.splits sum.splits)
qed (auto intro: triple_ret)

text \<open>Closing: first the service, on which the destruction of the protocol handler depends.\<close>

lemma world_ok_mono: "world_ok L R w \<Longrightarrow> R \<subseteq> S \<Longrightarrow> world_ok L S w"
  by (auto simp: world_ok_def)

definition owned_with :: "DebugService \<Rightarrow> ('n, 'w) Locals \<Rightarrow> bool" where
  "owned_with sv l \<longleftrightarrow> owned l \<and> debugService l = Some sv"

lemma lasting_owned_with: "lasting owned (outside m) \<Longrightarrow> lasting (owned_with sv) (outside m)"
proof (rule lastingI)
  fix l l' r
  assume m: "lasting owned (outside m)" and l: "owned_with sv l" and run: "outside m l = (r, l')" and r: "unwinds r"
  have "owned l'" by (rule lastingD [OF m _ run r]) (use l in \<open>simp add: owned_with_def\<close>)
  then show "owned_with sv l'" using outside_result [OF run] l by (auto simp: owned_with_def)
qed

lemma IfFailError_owned_with:
  assumes "lasting owned (outside m)"
  shows "lasting_exit (owned_with sv) (IfFailError (outside m) e)"
  unfolding IfFailError_def
  by (intro lasting_exit_intros lasting_calls lasting_owned_with [OF assms] lasting_owned_with [OF lasting_outside(1)]
      lasting_print)

lemma destroy_service_local:
  "triple (owned_with sv) (outside (DebugService_Destroy A sv))
     (\<lambda>(code, sv') l. if code = JsNoError then m_service sv' = None \<and> service_gone l else owned l) (\<lambda>f l. throws f \<longrightarrow> owned l)"
proof (cases "m_service sv")
  case None
  then show ?thesis
    by (auto simp: deleted_already owned_with_def owned_def service_gone_def intro!: triple_ret)
next
  case (Some u)
  show ?thesis
  proof (rule triple_split [where f = owners])
    fix L
    have "alive_in L (Some ` L)" by (auto simp: alive_in_def)
    from service_destroy_triple [OF _ this, of sv] Some
    have del: "triple (on_shared (world_ok L (Some ` L))) (DebugService_Destroy A sv)
        (\<lambda>(code, this') s. code = JsNoError \<and> m_service this' = None \<and> world_ok L {} (world s)) (\<lambda>f _. ends f)" by simp
    show "triple (\<lambda>l. owned_with sv l \<and> owners l = L) (outside (DebugService_Destroy A sv))
        (\<lambda>(code, sv') l. if code = JsNoError then m_service sv' = None \<and> service_gone l else owned l)
        (\<lambda>f l. throws f \<longrightarrow> owned l)"
      by (rule triple_outside [OF _ del])
        (use Some in \<open>auto simp: owned_with_def on_shared_def owned_def service_gone_def ends_def intro: world_ok_mono\<close>)
  qed
qed

lemma close_service_triple:
  "triple owned (bindM (getM debugService) (\<lambda>service.
       case service of
         None \<Rightarrow> retM ()
       | Some sv \<Rightarrow>
           seqM (IfFailError (outside (code_only (DebugService_Close A sv))) ''failed to close service'')
          (seqM (IfFailError (outside (code_only (DebugService_UnregisterHandler A sv runtimeName)))
             ''failed to unregister handler'')
           (bindM (IfFailError (outside (DebugService_Destroy A sv)) ''failed to destroy service'') (\<lambda>sv'.
             modifyM (\<lambda>l. l\<lparr>debugService := Some sv'\<rparr>))))))
     (\<lambda>_ l. service_gone l \<and> owned l) (\<lambda>f l. goes f \<longrightarrow> owned l)"
proof (rule triple_read, rule triple_option)
  show "triple (\<lambda>l. owned l \<and> debugService l = x) (retM ()) (\<lambda>_ l. service_gone l \<and> owned l) (\<lambda>f l. goes f \<longrightarrow> owned l)"
    if "x = None" for x :: "DebugService option"
    by (rule triple_ret) (use that in \<open>auto simp: owned_def service_gone_def\<close>)
next
  fix x :: "DebugService option" and sv
  assume x: "x = Some sv"
  have outside_code: "outside (code_only (m :: ('n, 'w, JsErrorCode) HM)) = code_only (outside m)" for m
    by (auto simp: outside_def code_only_def M_defs split: prod.split sum.split)
  have close: "lasting owned (outside (code_only (DebugService_Close A sv)))"
    unfolding DebugService_Close_def JsDebugServiceClose_def outside_code
    by (intro lasting_code_only lasting_outside lasting_on_world lasting_translated lasting_Close)
  have unreg: "lasting owned (outside (code_only (DebugService_UnregisterHandler A sv runtimeName)))"
    unfolding DebugService_UnregisterHandler_def JsDebugServiceUnregisterHandler_def outside_code
    by (intro lasting_code_only lasting_outside_service lasting_translated lasting_UnregisterHandler)
  note steps = IfFailError_owned_with [OF close, unfolded lasting_exit_def]
    IfFailError_owned_with [OF unreg, unfolded lasting_exit_def]
  have part: "triple (owned_with sv) m (\<lambda>_. owned_with sv) (\<lambda>f l. goes f \<longrightarrow> owned l)"
    if "triple (owned_with sv) m (\<lambda>_. owned_with sv) (\<lambda>f l. goes f \<longrightarrow> owned_with sv l)" for m :: "(_, _, unit) M"
    by (rule triple_weaken [OF that]) (auto simp: owned_with_def)
  show "triple (\<lambda>l. owned l \<and> debugService l = x) (seqM (IfFailError (outside (code_only (DebugService_Close A sv))) ''failed to close service'')
          (seqM (IfFailError (outside (code_only (DebugService_UnregisterHandler A sv runtimeName)))
             ''failed to unregister handler'')
           (bindM (IfFailError (outside (DebugService_Destroy A sv)) ''failed to destroy service'') (\<lambda>sv'.
             modifyM (\<lambda>l. l\<lparr>debugService := Some sv'\<rparr>))))) (\<lambda>_ l. service_gone l \<and> owned l) (\<lambda>f l. goes f \<longrightarrow> owned l)"
    unfolding x owned_with_def [symmetric]
    by (rule triple_seq [OF part [OF steps(1)]], rule triple_seq [OF part [OF steps(2)]],
        rule triple_bind [OF triple_IfFailError [OF destroy_service_local]], rule triple_modify)
      (auto simp: service_gone_def owned_def owners_def owner_def)
qed

lemma close_handler_triple:
  "triple (\<lambda>l. service_gone l \<and> owned l) (bindM (getM debugProtocolHandler) (\<lambda>handler.
       case handler of
         None \<Rightarrow> retM ()
       | Some h \<Rightarrow>
           bindM (IfFailError (outside (DebugProtocolHandler_Destroy A h)) ''failed to destroy handler'') (\<lambda>h'.
             modifyM (\<lambda>l. l\<lparr>debugProtocolHandler := Some h'\<rparr>))))
     (\<lambda>_. owned) (\<lambda>f l. goes f \<longrightarrow> owned l)"
proof (rule triple_read, rule triple_option)
  fix x :: "DebugProtocolHandler option" and h
  assume x: "x = Some h"
  let ?P = "\<lambda>l. (service_gone l \<and> owned l) \<and> debugProtocolHandler l = x"
  have "triple ?P (outside (DebugProtocolHandler_Destroy A h))
     (\<lambda>(code, h') l. code = JsNoError \<and> m_protocolHandler h' = None \<and> world_ok {} {} (world (shared l)))
     (\<lambda>f _. ends f)"
  proof (cases "m_protocolHandler h")
    case None
    then show ?thesis using x by (auto simp: deleted_already service_gone_def intro!: triple_ret)
  next
    case (Some p)
    show ?thesis
      by (rule triple_outside [OF _ destroy_triple [OF Some]]) (use x Some in \<open>auto simp: on_shared_def service_gone_def\<close>)
  qed
  then have "triple ?P (outside (DebugProtocolHandler_Destroy A h))
     (\<lambda>(code, h') l. if code = JsNoError then m_protocolHandler h' = None \<and> world_ok {} {} (world (shared l)) else owned l)
     (\<lambda>f l. throws f \<longrightarrow> owned l)"
    by (rule triple_weaken) (auto simp: ends_def)
  from triple_IfFailError [OF this]
  show "triple ?P (bindM (IfFailError (outside (DebugProtocolHandler_Destroy A h)) ''failed to destroy handler'') (\<lambda>h'.
      modifyM (\<lambda>l. l\<lparr>debugProtocolHandler := Some h'\<rparr>))) (\<lambda>_. owned) (\<lambda>f l. goes f \<longrightarrow> owned l)"
    by (rule triple_bind, intro triple_modify)
      (auto simp: owned_def owners_def owner_def referents_def served_def)
qed (auto intro: triple_ret)

lemma close_debugging_lasting: "lasting_exit owned (close_debugging A runtimeName)"
  unfolding close_debugging_def lasting_exit_def by (rule triple_seq [OF close_service_triple close_handler_triple])

lemma lasting_run_scripts:
  assumes "script_steps_only A"
  shows "lasting_exit owned (run_scripts A useBuffer todo)"
proof (induction todo)
  case (Cons script todo)
  have set: "lasting owned (modifyM (\<lambda>l. l\<lparr>returnValue := v\<rparr>))" for v :: cint
    by (simp add: lasting_def triple_modify)
  show ?case
    unfolding run_scripts.simps
    by (intro lasting_exit_intros lasting_calls lasting_outside lasting_IfFailError lasting_RunScript lasting_code_only
        lasting_setup lasting_on_engine lasting_intros set lasting_print_line Cons.IH assms)
qed (simp add: lasting_exit_intros)

lemma lasting_wait_for_debugger:
  assumes "script_steps_only A"
  shows "lasting_exit owned (wait_for_debugger A arguments)"
  unfolding wait_for_debugger_def
  by (intro lasting_exit_intros lasting_calls lasting_outside lasting_IfFailError lasting_print_line lasting_code_only
      lasting_wait lasting_scripts assms)

lemma enable_triple:
  "triple nothing_owned (IfFailError (code_only (EnableDebugging A runtime runtimeName b p)) e) (\<lambda>_. owned)
     (\<lambda>f l. goes f \<longrightarrow> owned l)"
  unfolding code_only_def
  by (rule triple_IfFailError, rule triple_bind [OF EnableDebugging_triple]) (auto intro: triple_ret)

lemma runtime_triple:
  "triple nothing_owned (IfFailError (outside (on_engine f)) e) (\<lambda>_. nothing_owned) (\<lambda>f l. goes f \<longrightarrow> owned l)"
proof (rule triple_IfFailError)
  have "lasting nothing_owned (outside (on_engine f))" by (rule lasting_outside(2)) (rule lasting_on_engine)
  then show "triple nothing_owned (outside (on_engine f)) (\<lambda>(code, x) l. if code = JsNoError then nothing_owned l else owned l)
      (\<lambda>f l. throws f \<longrightarrow> owned l)"
    unfolding lasting_def by (rule triple_weaken) (auto simp: nothing_owned_owned)
qed

lemma main_body_triple:
  assumes "script_steps_only A"
  shows "triple nothing_owned (main_body A arguments) (\<lambda>_. owned) (\<lambda>f l. goes f \<longrightarrow> owned l)"
proof -
  note parts = lasting_outside lasting_IfFailError lasting_on_engine lasting_setup lasting_code_only lasting_run_scripts
    lasting_wait_for_debugger close_debugging_lasting assms
  show ?thesis
    unfolding main_body_def Let_def
    by (rule triple_bind [OF runtime_triple], rule triple_seq [where R = owned],
        rule triple_if [OF enable_triple triple_ret], erule nothing_owned_owned,
        fold lasting_exit_def, intro lasting_exit_intros parts)
qed

lemma body_left_triple:
  assumes "script_steps_only A"
  shows "triple nothing_owned (left_by (main_body A arguments)) (\<lambda>_. owned) (\<lambda>f l. throws f \<longrightarrow> owned l)"
  using main_body_triple [OF assms, of arguments] unfolding triple_def left_by_def
  by (fastforce split: prod.splits sum.splits exit.splits)

lemma try_block_triple:
  assumes "script_steps_only A"
  shows "triple nothing_owned (try_block A arguments) (\<lambda>_ l. world_ok {} {} (world (shared l)))
     (\<lambda>f l. throws f \<longrightarrow> world_ok {} {} (world (shared l)))"
proof -
  have "triple nothing_owned (unwinding (destroy_locals A) (left_by (main_body A arguments))) (\<lambda>_. owned)
      (\<lambda>f l. throws f \<longrightarrow> world_ok {} {} (world (shared l)))"
    by (rule triple_unwinding [OF body_left_triple [OF assms]], rule triple_faults [OF destroy_locals_triple]) (simp add: ends_def)
  then show ?thesis
    unfolding try_block_def
    by (rule triple_bind, intro triple_seq [OF triple_faults [OF destroy_locals_triple]] triple_ret)
      (simp_all add: ends_def)
qed

text \<open>A dangling pointer met by \<open>wmain\<close> was met before the end of the block.\<close>

lemma try_block_dangling:
  assumes "script_steps_only A" and "nothing_owned l" and "try_block A arguments l = (Inl (Undefined DanglingPointer), l')"
  shows "fst (left_by (main_body A arguments) l) = Inl (Undefined DanglingPointer)"
proof -
  obtain r t where run: "left_by (main_body A arguments) l = (r, t)" by (metis surj_pair)
  note body = body_left_triple [OF assms(1), of arguments]
  obtain r2 t2 where d: "destroy_locals A t = (r2, t2)" by (metis surj_pair)
  have safe: "r2 \<noteq> Inl (Undefined DanglingPointer)" if "owned t"
    using triple_Inl [OF destroy_locals_triple that] d by (auto simp: ends_def)
  show ?thesis
  proof (cases r)
    case (Inr x)
    then have "owned t" using triple_Inr [OF body assms(2)] run by simp
    then show ?thesis using assms(3) run Inr d safe
      by (cases r2) (auto simp: try_block_def unwinding_def M_defs)
  next
    case (Inl f)
    show ?thesis
    proof (cases f)
      case (Throw e)
      then have "owned t" using triple_Inl [OF body assms(2)] run Inl by simp
      then show ?thesis using assms(3) run Inl Throw d safe
        by (cases r2) (auto simp: try_block_def unwinding_def M_defs)
    qed (use assms(3) run Inl in \<open>auto simp: try_block_def unwinding_def M_defs\<close>)
  qed
qed

text \<open>From the start of the program to its end.\<close>

lemma wmain_owned:
  assumes "script_steps_only A" and "protocol_handlers (world s) = Map.empty" and "m_handlers (web_service (world s)) = []"
    and "wmain A argv s = (r, s')"
  shows "(\<forall>v. r = Inr v \<longrightarrow> world_ok {} {} (world s')) \<and>
    (r = Inl (Undefined DanglingPointer) \<longrightarrow> (\<exists>arguments. ParseCommandLine argv CommandLineArguments_new = Inr arguments \<and>
       fst (left_by (main_body A arguments) (Locals.make s None None EXIT_FAILURE)) = Inl (Undefined DanglingPointer)))"
proof -
  let ?l = "Locals.make s None None EXIT_FAILURE"
  have world: "world_ok {} {} (world s)"
    using assms(2,3) by (simp add: world_ok_def living_def referred_def handlers_ok_def)
  then have start: "nothing_owned ?l" by (simp add: nothing_owned_def Locals.make_def)
  show ?thesis
  proof (cases "ParseCommandLine argv CommandLineArguments_new")
    case (Inl f)
    then show ?thesis using assms(4) by (auto simp: wmain_def throwM_def)
  next
    case (Inr arguments)
    obtain r2 l2 where run: "try_block A arguments ?l = (r2, l2)" by (metis surj_pair)
    have over: "world_ok {} {} (world (shared l2))" if "\<forall>f. r2 = Inl f \<longrightarrow> throws f"
      using triple_Inr [OF try_block_triple [OF assms(1)] start] triple_Inl [OF try_block_triple [OF assms(1)] start] run that
      by (cases r2) auto
    show ?thesis
    proof (cases "show_help arguments")
      case True
      then show ?thesis using assms(4) Inr world by (auto simp: wmain_def ShowHelp_def print_err_def M_defs)
    next
      case False
      show ?thesis
        using assms(4) Inr False run over try_block_dangling [OF assms(1) start] 
        by (cases r2) (auto simp: wmain_def main_catch_def outside_def print_err_def M_defs
          split: fault.splits)
    qed
  qed
qed

end
