(* ===== verification/HostRun.thy ===== *)
theory HostRun
  imports HostOwnership
begin

section \<open>The scripts the sample host runs and what they print\<close>

text \<open>
  The loop over the scripts as the composition of its parts, scripts that cannot be loaded, and the text of \<open>HostEcho\<close>.
\<close>

lemma run_scripts_append:
  "run_scripts A useBuffer (xs @ ys) = seqM (run_scripts A useBuffer xs) (run_scripts A useBuffer ys)"
proof (induction xs)
  case Nil
  show ?case by (simp add: seqM_def)
next
  case (Cons x xs)
  show ?case
    unfolding append_Cons run_scripts.simps Cons.IH
    by (simp add: seqM_def bindM_assoc case_prod_unfold)
qed

text \<open>A script that fails, with a code or with an exception, does not touch the exit code.\<close>

lemma script_fails:
  assumes "RunScript A useBuffer (c_wstr bad) (shared l) = (r, s)"
    and "\<And>v. r \<noteq> Inr (JsNoError, v)" and "\<And>v. r \<noteq> Inr (JsErrorScriptException, v)"
  shows "\<exists>e l2. run_scripts A useBuffer (bad # rest) l = (Inl e, l2) \<and>
    (e = Leave None \<or> (\<exists>f. r = Inl f \<and> e = Fail f)) \<and> returnValue l2 = returnValue l"
proof (cases r)
  case (Inl f)
  then show ?thesis using assms(1) by (simp add: in_function_def outside_def M_defs)
next
  case (Inr p)
  obtain code v where p: "p = (code, v)" by (metis surj_pair)
  then have "code \<noteq> JsNoError" "code \<noteq> JsErrorScriptException" using assms(2,3) Inr by auto
  then show ?thesis using assms(1) Inr p
    by (simp add: in_function_def outside_def IfFailError_def print_err_def M_defs)
qed

lemma failed_script:
  assumes "run_scripts A useBuffer finished l = (Inr (), l1)"
    and "RunScript A useBuffer (c_wstr bad) (shared l1) = (r, s)"
    and "\<And>v. r \<noteq> Inr (JsNoError, v)" and "\<And>v. r \<noteq> Inr (JsErrorScriptException, v)"
  shows "\<exists>e l2. run_scripts A useBuffer (finished @ bad # rest) l = (Inl e, l2) \<and>
    (e = Leave None \<or> (\<exists>f. r = Inl f \<and> e = Fail f)) \<and> returnValue l2 = returnValue l1"
  using script_fails [OF assms(2-4), of rest] assms(1)
  unfolding run_scripts_append by (auto simp: seqM_def bindM_def)

text \<open>\<open>LoadScriptUtf8\<close> answers a file it cannot open and an empty file in the same way.\<close>

lemma load_nothing:
  assumes "file_contents A path = None \<or> file_contents A path = Some []"
  obtains s' where "LoadScriptUtf8 A path s = (Inr [], s')"
  using assms by (auto simp: LoadScriptUtf8_def print_err_def M_defs)

lemma RunScript_nothing:
  assumes "GetFullPathName A filename = (n, path)" and "n \<noteq> 0" and "n \<le> MAX_PATH"
    and "file_contents A path = None \<or> file_contents A path = Some []" and "MultiByteToWideChar A [] 0 0 = []"
  shows "fst (RunScript A True filename s) = Inr (JsErrorInvalidArgument, JS_INVALID_REFERENCE)"
    and "fst (RunScript A False filename s) =
      Inl (Throw (OtherException ''chakrahost: unable to convert string from UTF-8 to UTF-16.''))"
proof -
  obtain s' where load: "LoadScriptUtf8 A path s = (Inr [], s')" by (rule load_nothing [OF assms(4)])
  have path: "\<not> (n > MAX_PATH \<or> n = 0)" using assms(2,3) by simp
  show "fst (RunScript A True filename s) = Inr (JsErrorInvalidArgument, JS_INVALID_REFERENCE)"
    by (simp add: RunScript_def assms(1) path RunScript_buffer_def left_by_def in_function_def load no_result_def M_defs)
  show "fst (RunScript A False filename s) =
      Inl (Throw (OtherException ''chakrahost: unable to convert string from UTF-8 to UTF-16.''))"
    by (simp add: RunScript_def assms(1,5) path RunScript_source_def LoadScriptUtf16_def ConvertStringFromUtf8ToUtf16_def
        load print_err_def Let_def M_defs)
qed

subsection \<open>\<open>HostEcho\<close>\<close>

fun output_text :: "HostOutput \<Rightarrow> string16" where
  "output_text (ToStdout t) = t"
| "output_text (ToStderr t) = []"

definition stdout_text :: "HostOutput list \<Rightarrow> string16" where
  "stdout_text outputs = concat (map output_text outputs)"

lemma stdout_text_append [simp]: "stdout_text (xs @ ys) = stdout_text xs @ stdout_text ys"
  by (simp add: stdout_text_def)

lemma stdout_text_out [simp]: "stdout_text [ToStdout t] = t" "stdout_text [] = []"
  by (simp_all add: stdout_text_def)

text \<open>The value \<open>v\<close> has the text \<open>words v\<close>, in whatever state the engine is.\<close>

definition has_text :: "('n, 'w) HostEnv \<Rightarrow> (JsValueRef \<Rightarrow> string16) \<Rightarrow> JsValueRef \<Rightarrow> bool" where
  "has_text A words v \<longleftrightarrow> (\<forall>w. \<exists>u w1 w2. JsConvertValueToString (host_jsrt A) v w = ((JsNoError, u), w1) \<and>
     JsStringToPointer (host_engine A) u w1 = ((JsNoError, words v), w2))"

lemma echo_argument:
  assumes "has_text A words v"
  obtains s' where "echo_arguments A index (v # rest) s = echo_arguments A (Suc index) rest s'"
    and "stdout_text (host_output s') = stdout_text (host_output s) @ (if index > 1 then lit '' '' else []) @ c_wstr (words v)"
proof -
  obtain u w1 w2 where calls: "JsConvertValueToString (host_jsrt A) v (engine (world s)) = ((JsNoError, u), w1)"
      "JsStringToPointer (host_engine A) u w1 = ((JsNoError, words v), w2)"
    using assms unfolding has_text_def by blast
  let ?out = "host_output s @ (if index > 1 then [ToStdout (lit '' '')] else []) @ [ToStdout (c_wstr (words v))]"
  have "echo_arguments A index (v # rest) s =
      echo_arguments A (Suc index) rest (s\<lparr>world := (world s)\<lparr>engine := w2\<rparr>, host_output := ?out\<rparr>)"
    using calls
    by (simp add: in_function_def IfFailThrowJsError_def on_engine_def on_world_def print_out_def M_defs)
  then show thesis by (rule that) simp
qed

lemma echo_rest:
  assumes "\<And>v. v \<in> set args \<Longrightarrow> has_text A words v" and "index > 1"
  shows "\<exists>s'. echo_arguments A index args s = (Inr (), s') \<and>
    stdout_text (host_output s') = stdout_text (host_output s) @ concat (map (\<lambda>v. lit '' '' @ c_wstr (words v)) args)"
  using assms
proof (induction args arbitrary: index s)
  case Nil
  then show ?case by (simp add: retM_def)
next
  case (Cons v args)
  obtain s1 where s1: "echo_arguments A index (v # args) s = echo_arguments A (Suc index) args s1"
      "stdout_text (host_output s1) = stdout_text (host_output s) @ (if index > 1 then lit '' '' else []) @ c_wstr (words v)"
    using echo_argument [of A words v] Cons.prems(1) by (metis list.set_intros(1))
  then show ?case using Cons.IH [of "Suc index" s1] Cons.prems by (auto simp del: echo_arguments.simps)
qed

lemma echo_text:
  assumes "\<And>v. v \<in> set args \<Longrightarrow> has_text A words v"
  shows "\<exists>s'. HostEcho A (this # args) s = (Inr JS_INVALID_REFERENCE, s') \<and>
    stdout_text (host_output s') = stdout_text (host_output s) @ join (lit '' '') (map (c_wstr \<circ> words) args) @ [0x0A]"
proof -
  have "\<exists>s'. echo_arguments A 1 args s = (Inr (), s') \<and>
      stdout_text (host_output s') = stdout_text (host_output s) @ join (lit '' '') (map (c_wstr \<circ> words) args)"
  proof (cases args)
    case Nil
    then show ?thesis by (simp add: retM_def)
  next
    case (Cons v rest)
    obtain s1 where s1: "echo_arguments A 1 (v # rest) s = echo_arguments A (Suc 1) rest s1"
        "stdout_text (host_output s1) = stdout_text (host_output s) @ (if (1 :: nat) > 1 then lit '' '' else []) @ c_wstr (words v)"
      using echo_argument [of A words v 1] assms Cons by (metis list.set_intros(1))
    obtain s2 where "echo_arguments A (Suc 1) rest s1 = (Inr (), s2)"
        "stdout_text (host_output s2) = stdout_text (host_output s1) @ concat (map (\<lambda>v. lit '' '' @ c_wstr (words v)) rest)"
      using echo_rest [of rest A words "Suc 1" s1] assms Cons by auto
    then show ?thesis using s1 Cons by (simp add: join_Cons comp_def del: echo_arguments.simps)
  qed
  then show ?thesis
    by (auto simp: HostEcho_def left_by_def in_function_def print_out_def M_defs)
qed

end
