(* ===== verification/SampleMain.thy ===== *)
theory SampleMain
  imports
  HostRun SampleService
begin

section \<open>A small system to run the sample host on\<close>

text \<open>
  On top of the engine and the network of the other examples: the only file is \<open>a.js\<close>, which runs to zero without any
  effect; the text of the value \<open>n\<close> are \<open>n\<close> letters.
\<close>

definition sample_host_engine :: "nat HostEngine" where
  "sample_host_engine =
     \<lparr>JsCreateRuntime = succeed 1, JsDisposeRuntime = (\<lambda>_. succeed ()), JsPointerToString = (\<lambda>_. succeed 1),
      JsStringToPointer = (\<lambda>v. succeed (replicate v (uc (CHR ''x'')))),
      JsCreateExternalArrayBuffer = (\<lambda>_ _. succeed 4), JsCreateError = succeed, JsSetException = (\<lambda>_. succeed ()),
      JsCreateArray = (\<lambda>_. succeed 4), JsSetIndexedProperty = (\<lambda>_ _ _. succeed ()), JsCreateHostFunction = (\<lambda>_. succeed 5),
      JsNumberToDouble = (\<lambda>_. succeed (Fin False 0 0))\<rparr>"

definition sample_script :: string16 where
  "sample_script = lit ''a.js''"

definition sample_host :: "(nat list, nat) HostEnv" where
  "sample_host =
     \<lparr>handler_env = (\<lambda>_. sample_env), server_library = sample_server, host_engine = sample_host_engine, handler_address = 3,
      GetFullPathName = (\<lambda>f. (word_of_int (int (length f)), f)),
      file_contents = (\<lambda>f. if f = sample_script then Some ''0'' else None),
      MultiByteToWideChar = (\<lambda>s _ _. lit s), JsRun = (\<lambda>_ _ _ _. retM (JsNoError, 1)),
      JsRunScript = (\<lambda>_ _ _. retM (JsNoError, 1)), call_script_function = (\<lambda>_ _. retM (JsNoError, 1)),
      server_thread = retM ()\<rparr>"

definition sample_start :: "(nat list, nat) HostState" where
  "sample_start = \<lparr>world = \<lparr>network = [5, 6], engine = 0, protocol_handlers = Map.empty, next_address = 0,
     web_service = Service_new\<rparr>, sourceContext = 0, host_output = []\<rparr>"

lemma sample_scripts: "script_steps_only sample_host"
  by (simp add: script_steps_only_def takes_steps_def sample_host_def retM_def)

lemmas host_run = wmain_def main_catch_def try_block_def main_body_def destroy_locals_def close_debugging_def
  wait_for_debugger_def IfFailError_def print_line_def print_out_def print_err_def EnableDebugging_def EnableDebugging_run_def
  outside_def unwinding_def in_function_def left_by_def IfFailRet_def on_engine_def on_world_def code_only_def
  CreateHostContext_def DefineHostCallback_def RedirectConsoleToDebugger_def RunScript_def RunScript_buffer_def
  RunScript_source_def LoadScriptUtf16_def LoadScriptUtf8_def ConvertStringFromUtf8ToUtf16_def GetNextSourceContext_def
  DebugProtocolHandler_new_def DebugProtocolHandler_delete_def DebugProtocolHandler_Destroy_def DebugService_new_def
  DebugService_delete_def DebugService_Destroy_def DebugService_Close_def DebugService_Listen_def
  DebugService_RegisterHandler_def DebugService_UnregisterHandler_def DebugProtocolHandler_GetConsoleObject_def

lemma parse_plain:
  "ParseCommandLine [sample_script] CommandLineArguments_new = Inr (CommandLineArguments_new\<lparr>scriptArgs := [sample_script]\<rparr>)"
  by code_simp

lemma parse_inspect:
  "ParseCommandLine [lit ''--inspect'', sample_script] CommandLineArguments_new =
     Inr (CommandLineArguments_new\<lparr>enableDebugging := True, scriptArgs := [sample_script]\<rparr>)"
  by code_simp

lemma ret_simps [simp]:
  "in_function (retM x) = retM x" "left_by (retM c) = retM c" "IfFailRet result (retM (JsNoError, y)) = retM y"
  "IfFailError (retM (JsNoError, y)) e = retM y" "seqM (retM u) n = n" "code_only (retM JsNoError) = retM (JsNoError, ())"
  by (simp_all add: in_function_def left_by_def IfFailRet_def IfFailError_def code_only_def retM_def bindM_def seqM_def)

lemma on_engine_succeed [simp]: "on_engine (succeed x) = retM (JsNoError, x)"
  by (simp add: on_engine_def on_world_def retM_def succeed_def)

lemma sample_host_fields [simp]:
  "host_jsrt sample_host = sample_engine" "host_engine sample_host = sample_host_engine"
  "handler_env sample_host p = sample_env" "server_library sample_host = sample_server" "handler_address sample_host = 3"
  "GetFullPathName sample_host f = (word_of_int (int (length f)), f)"
  "file_contents sample_host f = (if f = sample_script then Some ''0'' else None)"
  "MultiByteToWideChar sample_host t n m = lit t"
  "JsRunScript sample_host script cookie url = retM (JsNoError, 1)"
  "JsRun sample_host v cookie u attributes = retM (JsNoError, 1)" "server_thread sample_host = retM ()"
  by (simp_all add: host_jsrt_def sample_host_def)

lemma sample_host_calls [simp]:
  "JsCreateRuntime sample_host_engine = succeed 1" "JsDisposeRuntime sample_host_engine r = succeed ()"
  "JsPointerToString sample_host_engine t = succeed 1" "JsCreateError sample_host_engine v = succeed v"
  "JsStringToPointer sample_host_engine v = succeed (replicate v (uc (CHR ''x'')))"
  "JsSetException sample_host_engine v = succeed ()" "JsCreateArray sample_host_engine n = succeed 4"
  "JsSetIndexedProperty sample_host_engine v v2 v3 = succeed ()" "JsCreateHostFunction sample_host_engine f = succeed 5"
  "JsNumberToDouble sample_host_engine v = succeed (Fin False 0 0)"
  "JsCreateExternalArrayBuffer sample_host_engine text8 n = succeed 4"
  "JsCreateObject sample_engine = succeed 4" "JsGetGlobalObject sample_engine = succeed 3"
  "JsGetPropertyIdFromName sample_engine name = succeed 1" "JsSetProperty sample_engine v p v2 b = succeed ()"
  "JsIntToNumber sample_engine i = succeed 1" "JsConvertValueToNumber sample_engine = succeed"
  "JsConvertValueToString sample_engine = succeed" "JsGetAndClearException sample_engine = succeed 1"
  "JsCreateString sample_engine text8 = succeed 1" "JsDiagStopDebugging sample_engine = succeed ()"
  by (simp_all add: sample_host_engine_def sample_engine_def)

lemma sample_set_arguments [simp]: "set_arguments sample_host arr index args = retM ()"
  by (induction args arbitrary: index) simp_all

lemma sample_set_context:
  "on_engine (JsSetCurrentContext sample_engine c) s = (Inr (JsNoError, ()), s\<lparr>world := (world s)\<lparr>engine := c\<rparr>\<rparr>)"
  by (simp add: on_engine_def on_world_def)

lemma sample_context:
  "CreateHostContext sample_host runtime args s = (Inr (JsNoError, 1), s\<lparr>world := (world s)\<lparr>engine := 0\<rparr>\<rparr>)"
  by (simp add: CreateHostContext_def DefineHostCallback_def host_callbacks_def console_callbacks_def Let_def)
    (simp add: left_by_def IfFailRet_def in_function_def sample_set_context M_defs JS_INVALID_REFERENCE_def)

lemma sample_RunScript:
  "RunScript sample_host False (sample_script) s = (Inr (JsNoError, 1), s\<lparr>sourceContext := sourceContext s + 1\<rparr>)"
  by (simp add: RunScript_def MAX_PATH_def RunScript_source_def LoadScriptUtf16_def LoadScriptUtf8_def
      ConvertStringFromUtf8ToUtf16_def GetNextSourceContext_def sample_script_def lit_Cons M_defs)

lemma sample_missing: "\<exists>f s'. RunScript sample_host False (c_wstr (lit ''b.js'')) s = (Inl f, s')"
proof -
  have name: "c_wstr (lit ''b.js'') = lit ''b.js''" and other: "lit ''b.js'' \<noteq> sample_script" by code_simp+
  show ?thesis
    by (simp add: name other RunScript_def MAX_PATH_def RunScript_source_def LoadScriptUtf16_def LoadScriptUtf8_def
        ConvertStringFromUtf8ToUtf16_def Let_def print_err_def M_defs)
qed

lemma sample_run_scripts:
  "run_scripts sample_host False [sample_script] l =
     (Inr (), l\<lparr>shared := (shared l)\<lparr>sourceContext := sourceContext (shared l) + 1,
        host_output := host_output (shared l) @ [ToStdout (lit (''0'' @ [CHR 0x0A]))]\<rparr>, returnValue := 0\<rparr>)"
proof -
  have name: "c_wstr sample_script = sample_script" by code_simp
  have zero: "cast_int (Fin False 0 0) = 0" by code_simp
  have digits: "dec_int 0 = ''0''" by code_simp
  show ?thesis
    by (simp add: name zero digits del: cast_int.simps)
      (simp add: in_function_def outside_def sample_RunScript M_defs IfFailError_def print_line_def print_out_def)
qed

lemma sample_plain:
  "wmain sample_host [sample_script] sample_start =
     (Inr 0, sample_start\<lparr>sourceContext := 1, host_output := [ToStdout (lit (''0'' @ [CHR 0x0A]))]\<rparr>)"
  unfolding wmain_def parse_plain
  by (simp add: CommandLineArguments_new_def CommandLineArguments.make_def main_catch_def try_block_def main_body_def Let_def
      del: run_scripts.simps)
    (simp add: unwinding_def left_by_def IfFailError_def in_function_def outside_def sample_context sample_run_scripts
      sample_set_context wait_for_debugger_def close_debugging_def destroy_locals_def Locals.make_def sample_start_def M_defs JS_INVALID_REFERENCE_def
      del: run_scripts.simps)

definition sample_local_handler :: DebugProtocolHandler where
  "sample_local_handler = \<lparr>m_protocolHandler = Some 3\<rparr>"

definition sample_local_service :: DebugService where
  "sample_local_service = \<lparr>m_service = Some ()\<rparr>"

text \<open>The start with the debugger enabled, and the same with the objects in their local variables.\<close>

definition sample_debugging :: "(nat list, nat) HostState" where
  "sample_debugging = \<lparr>world = \<lparr>network = [5, 6], engine = 0, protocol_handlers = [3 \<mapsto> Handler_init 1], next_address = 1,
     web_service = \<lparr>m_thread = True, m_port = 9229,
       m_handlers = [(''runtime1'', ServiceHandler_new 0 ''runtime1'' (Some 3) False)]\<rparr>\<rparr>, sourceContext = 0,
     host_output = [ToStdout (lit (''Listening on ws://127.0.0.1:9229/runtime1'' @ [CHR 0x0A]))]\<rparr>"

lemma sample_port: "dec_nat 9229 = ''9229''"
proof -
  have "digit_char 9 = CHR ''9''" and "digit_char 2 = CHR ''2''" by code_simp+
  then show ?thesis
    by (simp add: dec_nat.simps [of 9229] dec_nat.simps [of 922] dec_nat.simps [of 92] dec_nat.simps [of 9])
qed

lemma sample_enable_host:
  "EnableDebugging sample_host (Suc 0) ''runtime1'' False 9229 (Locals.make sample_start None None v) =
     (Inr JsNoError, Locals.make sample_debugging (Some sample_local_handler) (Some sample_local_service) v)"
  unfolding EnableDebugging_def Let_def
  by (simp add: DebugProtocolHandler_new_def JsDebugProtocolHandlerCreate_def ProtocolHandler_new_def Debugger_new_def
     DebuggerContext_def outside_def on_world_def unwinding_def DebugService_new_def JsDebugServiceCreate_def
     EnableDebugging_run_def DebugService_RegisterHandler_def JsDebugServiceRegisterHandler_def RegisterHandler_def
     DebugService_Listen_def JsDebugServiceListen_def Listen_def TranslateExceptionFor_def TranslateException_def
     Locals.make_def sample_start_def sample_debugging_def sample_local_handler_def sample_local_service_def
     getS_def modS_def ws_def sample_server_def Service_new_def print_out_def M_defs Let_def JS_INVALID_REFERENCE_def
     sample_port)

lemma sample_redirect:
  "RedirectConsoleToDebugger sample_host h = retM JsNoError"
  by (simp add: RedirectConsoleToDebugger_def Let_def)
    (simp add: left_by_def throwM_def retM_def)

lemma sample_close:
  "\<exists>l'. close_debugging sample_host ''runtime1''
     (Locals.make (sample_debugging\<lparr>sourceContext := c, host_output := out\<rparr>) (Some sample_local_handler)
       (Some sample_local_service) v) = (Inr (), l') \<and> returnValue l' = v \<and>
     debugProtocolHandler l' = Some \<lparr>m_protocolHandler = None\<rparr> \<and> debugService l' = Some \<lparr>m_service = None\<rparr>"
  by (simp add: close_debugging_def IfFailError_def code_only_def in_function_def outside_def on_world_def DebugService_Close_def
      JsDebugServiceClose_def Close_def TranslateExceptionFor_def TranslateException_def DebugService_UnregisterHandler_def
      JsDebugServiceUnregisterHandler_def UnregisterHandler_def ServiceHandler_delete_def ServiceHandler_Disconnect_def
      unless_expired_def ignore_exceptions_def DebugService_Destroy_def JsDebugServiceDestroy_def Service_delete_def
      DebugProtocolHandler_Destroy_def call_handler_def JsDebugProtocolHandlerDestroy_def ProtocolHandler_delete_def
      delete_debugger_agent_def Debugger_delete_def forget_handler_def ServiceHandler_new_def ServiceHandler.make_def
      Locals.make_def sample_start_def sample_debugging_def sample_local_handler_def sample_local_service_def map_erase_def
      getH_def modH_def jsrt_def Handler_init_def Handler.make_def
      getS_def modS_def ws_def sample_server_def Service_new_def M_defs Let_def)

lemma sample_inspect: "fst (wmain sample_host [lit ''--inspect'', sample_script] sample_start) = Inr 0"
proof -
  obtain l where close: "close_debugging sample_host ''runtime1''
     (Locals.make (sample_debugging\<lparr>sourceContext := 1, host_output := host_output sample_debugging @
        [ToStdout (lit (''0'' @ [CHR 0x0A]))]\<rparr>) (Some sample_local_handler) (Some sample_local_service) 0) = (Inr (), l)"
    and l: "returnValue l = 0" "debugProtocolHandler l = Some \<lparr>m_protocolHandler = None\<rparr>"
      "debugService l = Some \<lparr>m_service = None\<rparr>"
    using sample_close by blast
  show ?thesis
    unfolding wmain_def parse_inspect
    using close l
    by (simp add: CommandLineArguments_new_def CommandLineArguments.make_def main_catch_def try_block_def main_body_def
        Let_def sample_redirect del: run_scripts.simps)
      (simp add: unwinding_def left_by_def IfFailError_def in_function_def outside_def sample_context sample_run_scripts
        sample_set_context wait_for_debugger_def code_only_def sample_enable_host [unfolded Locals.make_def] destroy_locals_def
        deleted_already DebugService_delete_def DebugProtocolHandler_delete_def
        Locals.make_def M_defs JS_INVALID_REFERENCE_def sample_debugging_def del: run_scripts.simps)
qed

end
