(* ===== verification/WeakPointers.thy ===== *)
theory WeakPointers
  imports Dispatcher "HOL-Library.Multiset"
begin

section \<open>The pointers between dispatchers and the callbacks of their requests\<close>

text \<open>
  \<open>DispatcherBase::WeakPtr\<close> and \<open>DispatcherBase::Callback\<close> of \<open>Protocol.cpp\<close> as objects at addresses: a dispatcher knows the weak
  pointers to it and clears them when it is destroyed, a weak pointer takes itself out of the dispatcher's set when it is
  destroyed first, a callback owns a weak pointer until it has answered.  An object is in the memory from its constructor to
  its destructor; whatever uses it later is \<open>Undefined DanglingPointer\<close>.  An abstract table of requests is the
  specification: the memory implements it in every order in which callbacks answer or are dropped and dispatchers are
  destroyed.  \<open>Dispatcher\<close> describes the same callbacks by \<open>weak_get\<close> and \<open>m_disposed\<close>.
\<close>

subsection \<open>The objects\<close>

text \<open>
  \<open>b_hasFrontend\<close> says whether \<open>m_frontendChannel\<close> is still set.  \<open>weak_ptrs\<close> maps a weak pointer to its \<open>m_dispatcher\<close>; \<open>running\<close> are
  the weak pointers that requests in progress hold on the stack; \<open>sent\<close> is what the frontend's channel was given.
\<close>

record Base =
  b_hasFrontend :: bool
  m_weakPtrs :: "nat list"
  b_lastCallbackId :: cint
  b_lastCallbackFallThrough :: bool

record CallbackObject =
  m_backendImpl :: "nat option"
  c_callId :: cint
  c_callbackId :: cint

record Memory =
  bases :: "nat \<rightharpoonup> Base"
  weak_ptrs :: "nat \<rightharpoonup> nat option"
  callback_objects :: "nat \<rightharpoonup> CallbackObject"
  running :: "nat list"
  next_free :: nat
  sent :: "(cint \<times> Serializable) list"

type_synonym 'a W = "(Memory, fault, 'a) M"

definition memory_start :: Memory where
  "memory_start = Memory.make Map.empty Map.empty Map.empty [] 0 []"

definition used :: "(Memory \<Rightarrow> nat \<Rightarrow> 'a option) \<Rightarrow> nat \<Rightarrow> 'a W" where
  "used part p = (\<lambda>s. case part s p of Some x \<Rightarrow> (Inr x, s) | None \<Rightarrow> (Inl (Undefined DanglingPointer), s))"

definition put_base :: "nat \<Rightarrow> Base \<Rightarrow> unit W" where
  "put_base d b = modifyM (\<lambda>s. s\<lparr>bases := (bases s)(d \<mapsto> b)\<rparr>)"

definition log_channel :: "Memory FrontendChannel" where
  "log_channel = FrontendChannel.make
     (\<lambda>callId message. modifyM (\<lambda>s. s\<lparr>sent := sent s @ [(callId, message)]\<rparr>)) (\<lambda>_. retM ()) (retM ())"

subsection \<open>\<open>WeakPtr\<close> and \<open>DispatcherBase\<close>\<close>

definition WeakPtr_new :: "nat \<Rightarrow> nat W" where
  "WeakPtr_new d = (\<lambda>s. (Inr (next_free s), s\<lparr>weak_ptrs := (weak_ptrs s)(next_free s \<mapsto> Some d), next_free := Suc (next_free s)\<rparr>))"

definition WeakPtr_dispose :: "nat \<Rightarrow> unit W" where
  "WeakPtr_dispose w =
     seqM (used weak_ptrs w) (modifyM (\<lambda>s. s\<lparr>weak_ptrs := (weak_ptrs s)(w \<mapsto> None)\<rparr>))"

definition WeakPtr_delete :: "nat \<Rightarrow> unit W" where
  "WeakPtr_delete w =
     bindM (used weak_ptrs w) (\<lambda>m_dispatcher.
       seqM (case m_dispatcher of
               None \<Rightarrow> retM ()
             | Some d \<Rightarrow> bindM (used bases d) (\<lambda>b. put_base d (b\<lparr>m_weakPtrs := removeAll w (m_weakPtrs b)\<rparr>)))
         (modifyM (\<lambda>s. s\<lparr>weak_ptrs := (weak_ptrs s)(w := None)\<rparr>)))"

definition DispatcherBase_new :: "nat W" where
  "DispatcherBase_new = (\<lambda>s. (Inr (next_free s),
     s\<lparr>bases := (bases s)(next_free s \<mapsto> Base.make True [] 0 False), next_free := Suc (next_free s)\<rparr>))"

definition clearFrontend :: "nat \<Rightarrow> unit W" where
  "clearFrontend d =
     bindM (used bases d) (\<lambda>b.
       seqM (put_base d (b\<lparr>b_hasFrontend := False\<rparr>))
         (seqM (forM (m_weakPtrs b) WeakPtr_dispose)
           (put_base d (b\<lparr>b_hasFrontend := False, m_weakPtrs := []\<rparr>))))"

definition DispatcherBase_delete :: "nat \<Rightarrow> unit W" where
  "DispatcherBase_delete d = seqM (clearFrontend d) (modifyM (\<lambda>s. s\<lparr>bases := (bases s)(d := None)\<rparr>))"

definition weakPtr :: "nat \<Rightarrow> nat W" where
  "weakPtr d =
     bindM (used bases d) (\<lambda>b.
     bindM (WeakPtr_new d) (\<lambda>weak.
       seqM (put_base d (b\<lparr>m_weakPtrs := List.insert weak (m_weakPtrs b)\<rparr>)) (retM weak)))"

definition Base_nextCallbackId :: "nat \<Rightarrow> cint W" where
  "Base_nextCallbackId d =
     bindM (used bases d) (\<lambda>b.
       seqM (put_base d (b\<lparr>b_lastCallbackFallThrough := False, b_lastCallbackId := b_lastCallbackId b + 1\<rparr>))
         (retM (b_lastCallbackId b + 1)))"

definition markFallThrough :: "cint \<Rightarrow> nat \<Rightarrow> unit W" where
  "markFallThrough callbackId d =
     bindM (used bases d) (\<lambda>b. put_base d (b\<lparr>b_lastCallbackFallThrough := True\<rparr>))"

definition Base_sendResponse :: "nat \<Rightarrow> cint \<Rightarrow> DispatchResponse \<Rightarrow> val option \<Rightarrow> unit W" where
  "Base_sendResponse d callId response result =
     bindM (used bases d) (\<lambda>b. sendResponse (if b_hasFrontend b then Some log_channel else None) callId response result)"

subsection \<open>\<open>Callback\<close>\<close>

definition Callback_new :: "nat \<Rightarrow> cint \<Rightarrow> cint \<Rightarrow> nat W" where
  "Callback_new backendImpl callId callbackId = (\<lambda>s. (Inr (next_free s),
     s\<lparr>callback_objects := (callback_objects s)(next_free s \<mapsto> CallbackObject.make (Some backendImpl) callId callbackId),
       next_free := Suc (next_free s)\<rparr>))"

definition Callback_dispose :: "nat \<Rightarrow> unit W" where
  "Callback_dispose c =
     bindM (used callback_objects c) (\<lambda>cb.
       seqM (modifyM (\<lambda>s. s\<lparr>callback_objects := (callback_objects s)(c \<mapsto> cb\<lparr>m_backendImpl := None\<rparr>)\<rparr>))
         (case m_backendImpl cb of None \<Rightarrow> retM () | Some w \<Rightarrow> WeakPtr_delete w))"

definition Callback_delete :: "nat \<Rightarrow> unit W" where
  "Callback_delete c = seqM (Callback_dispose c) (modifyM (\<lambda>s. s\<lparr>callback_objects := (callback_objects s)(c := None)\<rparr>))"

text \<open>\<open>if (!m_backendImpl || !m_backendImpl->get()) return;\<close> before what both functions do with the dispatcher.\<close>

definition if_active :: "nat \<Rightarrow> (CallbackObject \<Rightarrow> nat \<Rightarrow> unit W) \<Rightarrow> unit W" where
  "if_active c act =
     bindM (used callback_objects c) (\<lambda>cb.
       case m_backendImpl cb of
         None \<Rightarrow> retM ()
       | Some w \<Rightarrow> bindM (used weak_ptrs w) (\<lambda>m_dispatcher.
           case m_dispatcher of
             None \<Rightarrow> retM ()
           | Some d \<Rightarrow> seqM (act cb d) (Callback_dispose c)))"

definition Callback_sendIfActive :: "nat \<Rightarrow> val option \<Rightarrow> DispatchResponse \<Rightarrow> unit W" where
  "Callback_sendIfActive c partialMessage response =
     if_active c (\<lambda>cb d. Base_sendResponse d (c_callId cb) response partialMessage)"

definition Callback_fallThroughIfActive :: "nat \<Rightarrow> unit W" where
  "Callback_fallThroughIfActive c = if_active c (\<lambda>cb d. markFallThrough (c_callbackId cb) d)"

subsection \<open>A request that is answered later\<close>

text \<open>
  \<open>DispatcherImpl::evaluate\<close> and its siblings before and behind the call of the backend.  In between anything may happen:
  the callback may answer or be destroyed, other requests may run, the dispatcher may be destroyed.
\<close>

definition start_request :: "nat \<Rightarrow> cint \<Rightarrow> (nat \<times> nat) W" where
  "start_request d callId =
     bindM (weakPtr d) (\<lambda>weak.
     bindM (weakPtr d) (\<lambda>backendImpl.
     bindM (Base_nextCallbackId d) (\<lambda>callbackId.
     bindM (Callback_new backendImpl callId callbackId) (\<lambda>callback.
       seqM (modifyM (\<lambda>s. s\<lparr>running := weak # running s\<rparr>)) (retM (weak, callback))))))"

definition end_request :: "nat \<Rightarrow> Status W" where
  "end_request weak =
     bindM (used weak_ptrs weak) (\<lambda>m_dispatcher.
     bindM (case m_dispatcher of
              None \<Rightarrow> retM kAsync
            | Some d \<Rightarrow> bindM (used bases d) (\<lambda>b. retM (if b_lastCallbackFallThrough b then kFallThrough else kAsync)))
       (\<lambda>status.
       seqM (WeakPtr_delete weak)
         (seqM (modifyM (\<lambda>s. s\<lparr>running := removeAll weak (running s)\<rparr>)) (retM status))))"

subsection \<open>The table of requests\<close>

datatype request_event =
    Create
  | Begin nat cint
  | Finish nat
  | Answer nat "val option" DispatchResponse
  | FallThrough nat
  | Drop nat
  | DestroyBase nat

datatype event_outcome = Nothing | Created nat | Begun nat nat | Finished Status

fun run_event :: "request_event \<Rightarrow> event_outcome W" where
  "run_event Create = bindM DispatcherBase_new (\<lambda>d. retM (Created d))"
| "run_event (Begin d callId) = bindM (start_request d callId) (\<lambda>(weak, c). retM (Begun weak c))"
| "run_event (Finish weak) = bindM (end_request weak) (\<lambda>status. retM (Finished status))"
| "run_event (Answer c partialMessage response) = seqM (Callback_sendIfActive c partialMessage response) (retM Nothing)"
| "run_event (FallThrough c) = seqM (Callback_fallThroughIfActive c) (retM Nothing)"
| "run_event (Drop c) = seqM (Callback_delete c) (retM Nothing)"
| "run_event (DestroyBase d) = seqM (DispatcherBase_delete d) (retM Nothing)"

text \<open>What their owners may do: use a callback or a dispatcher they still have, leave a handler that is running.\<close>

fun may_happen :: "Memory \<Rightarrow> request_event \<Rightarrow> bool" where
  "may_happen s Create = True"
| "may_happen s (Begin d _) = (bases s d \<noteq> None)"
| "may_happen s (Finish weak) = (weak \<in> set (running s))"
| "may_happen s (Answer c _ _) = (callback_objects s c \<noteq> None)"
| "may_happen s (FallThrough c) = (callback_objects s c \<noteq> None)"
| "may_happen s (Drop c) = (callback_objects s c \<noteq> None)"
| "may_happen s (DestroyBase d) = (bases s d \<noteq> None)"

text \<open>
  The specification: the dispatchers that exist, with the number of their last callback and whether it fell through; the requests that
  wait for an answer, with their dispatcher and their id; and the handlers in progress, with their dispatcher while it exists.
\<close>

record RequestTable =
  living_bases :: "nat \<rightharpoonup> cint \<times> bool"
  waiting :: "nat \<rightharpoonup> nat \<times> cint"
  in_progress :: "nat \<rightharpoonup> nat option"

definition weak_target :: "Memory \<Rightarrow> nat \<Rightarrow> nat option" where
  "weak_target s w = Option.bind (weak_ptrs s w) id"

definition backend_of :: "Memory \<Rightarrow> nat \<Rightarrow> nat option" where
  "backend_of s c = Option.bind (callback_objects s c) m_backendImpl"

definition table_of :: "Memory \<Rightarrow> RequestTable" where
  "table_of s = RequestTable.make
     (\<lambda>d. map_option (\<lambda>b. (b_lastCallbackId b, b_lastCallbackFallThrough b)) (bases s d))
     (\<lambda>c. Option.bind (callback_objects s c) (\<lambda>cb.
        Option.bind (m_backendImpl cb) (\<lambda>w. map_option (\<lambda>d. (d, c_callId cb)) (weak_target s w))))
     (\<lambda>w. if w \<in> set (running s) then weak_ptrs s w else None)"

definition fall_through :: "nat \<Rightarrow> RequestTable \<Rightarrow> RequestTable" where
  "fall_through d a = a\<lparr>living_bases := (living_bases a)(d := map_option (\<lambda>(i, _). (i, True)) (living_bases a d))\<rparr>"

fun table_step :: "request_event \<Rightarrow> event_outcome \<Rightarrow> RequestTable \<Rightarrow> RequestTable" where
  "table_step Create (Created d) a = a\<lparr>living_bases := (living_bases a)(d \<mapsto> (0, False))\<rparr>"
| "table_step (Begin d callId) (Begun weak c) a =
     a\<lparr>living_bases := (living_bases a)(d := map_option (\<lambda>(i, _). (i + 1, False)) (living_bases a d)),
       waiting := (waiting a)(c \<mapsto> (d, callId)), in_progress := (in_progress a)(weak \<mapsto> Some d)\<rparr>"
| "table_step (Finish weak) _ a = a\<lparr>in_progress := (in_progress a)(weak := None)\<rparr>"
| "table_step (Answer c _ _) _ a = a\<lparr>waiting := (waiting a)(c := None)\<rparr>"
| "table_step (FallThrough c) _ a =
     (case waiting a c of None \<Rightarrow> a | Some (d, _) \<Rightarrow> (fall_through d a)\<lparr>waiting := (waiting a)(c := None)\<rparr>)"
| "table_step (Drop c) _ a = a\<lparr>waiting := (waiting a)(c := None)\<rparr>"
| "table_step (DestroyBase d) _ a =
     a\<lparr>living_bases := (living_bases a)(d := None),
       waiting := (\<lambda>c. case waiting a c of Some (d', i) \<Rightarrow> if d' = d then None else Some (d', i) | None \<Rightarrow> None),
       in_progress := map_option (\<lambda>p. if p = Some d then None else p) \<circ> in_progress a\<rparr>"
| "table_step _ _ a = a"

text \<open>What may be returned: new objects have addresses not in use, a handler falls through when the last callback of its living dispatcher did.\<close>

fun may_return :: "request_event \<Rightarrow> RequestTable \<Rightarrow> event_outcome \<Rightarrow> bool" where
  "may_return Create a (Created d) = (living_bases a d = None)"
| "may_return (Begin d _) a (Begun weak c) = (waiting a c = None \<and> in_progress a weak = None)"
| "may_return (Finish weak) a (Finished status) =
     (status = (case Option.bind (Option.bind (in_progress a weak) id) (living_bases a) of
                  Some (_, True) \<Rightarrow> kFallThrough | _ \<Rightarrow> kAsync))"
| "may_return (Answer _ _ _) a Nothing = True"
| "may_return (FallThrough _) a Nothing = True"
| "may_return (Drop _) a Nothing = True"
| "may_return (DestroyBase _) a Nothing = True"
| "may_return _ a _ = False"

text \<open>Only an answer to a request that waits is sent.\<close>

fun answers_sent :: "request_event \<Rightarrow> RequestTable \<Rightarrow> (cint \<times> Serializable) list" where
  "answers_sent (Answer c partialMessage response) a =
     (case waiting a c of
        None \<Rightarrow> []
      | Some (_, callId) \<Rightarrow>
          [(callId, if m_status response = kError
                    then createErrorResponse callId (m_errorCode response) (m_errorMessage response) None
                    else createResponse callId partialMessage)])"
| "answers_sent _ a = []"

subsection \<open>The invariant of the memory\<close>

definition ptrs_linked :: "Memory \<Rightarrow> bool" where
  "ptrs_linked s \<longleftrightarrow>
     (\<forall>d w. weak_ptrs s w = Some (Some d) \<longleftrightarrow> (\<exists>b. bases s d = Some b \<and> w \<in> set (m_weakPtrs b))) \<and>
     (\<forall>d b. bases s d = Some b \<longrightarrow> b_hasFrontend b)"

definition owned_once :: "Memory \<Rightarrow> bool" where
  "owned_once s \<longleftrightarrow>
     (\<forall>c w. backend_of s c = Some w \<longrightarrow> weak_ptrs s w \<noteq> None \<and> w \<notin> set (running s) \<and>
        (\<forall>c'. backend_of s c' = Some w \<longrightarrow> c' = c)) \<and>
     (\<forall>w \<in> set (running s). weak_ptrs s w \<noteq> None)"

definition unused_above :: "Memory \<Rightarrow> bool" where
  "unused_above s \<longleftrightarrow>
     (\<forall>p \<ge> next_free s. bases s p = None \<and> weak_ptrs s p = None \<and> callback_objects s p = None)"

definition memory_ok :: "Memory \<Rightarrow> bool" where
  "memory_ok s \<longleftrightarrow> ptrs_linked s \<and> owned_once s \<and> unused_above s"

lemma memory_start_ok: "memory_ok memory_start"
  by (simp add: memory_ok_def ptrs_linked_def owned_once_def unused_above_def memory_start_def Memory.make_def backend_of_def)

lemma linked_set: "ptrs_linked s \<Longrightarrow> bases s d = Some b \<Longrightarrow> w \<in> set (m_weakPtrs b) \<longleftrightarrow> weak_ptrs s w = Some (Some d)"
  by (auto simp: ptrs_linked_def)

lemma linked_lives: "ptrs_linked s \<Longrightarrow> weak_ptrs s w = Some (Some d) \<Longrightarrow> \<exists>b. bases s d = Some b \<and> b_hasFrontend b"
  unfolding ptrs_linked_def by blast

lemma used_Some [simp]: "part s p = Some x \<Longrightarrow> used part p s = (Inr x, s)"
  by (simp add: used_def)

text \<open>Destroying a weak pointer takes it out of the sets of all dispatchers, that is of the only set that may have it.\<close>

definition forget :: "nat \<Rightarrow> Memory \<Rightarrow> Memory" where
  "forget w s = s\<lparr>weak_ptrs := (weak_ptrs s)(w := None),
     bases := (\<lambda>d. map_option (\<lambda>b. b\<lparr>m_weakPtrs := removeAll w (m_weakPtrs b)\<rparr>) (bases s d))\<rparr>"

lemma forget_simps [simp]:
  "weak_ptrs (forget w s) = (weak_ptrs s)(w := None)" "callback_objects (forget w s) = callback_objects s"
  "running (forget w s) = running s" "next_free (forget w s) = next_free s" "sent (forget w s) = sent s"
  "backend_of (forget w s) = backend_of s" "bases (forget w s) d = None \<longleftrightarrow> bases s d = None"
  by (simp_all add: forget_def backend_of_def fun_eq_iff)

lemma WeakPtr_delete_run:
  assumes "ptrs_linked s" and "weak_ptrs s w = Some m"
  shows "WeakPtr_delete w s = (Inr (), forget w s)"
proof -
  have others: "map_option (\<lambda>b. b\<lparr>m_weakPtrs := removeAll w (m_weakPtrs b)\<rparr>) (bases s d) = bases s d" if "m \<noteq> Some d" for d
  proof (cases "bases s d")
    case (Some b)
    then have "w \<notin> set (m_weakPtrs b)" using assms that by (simp add: linked_set)
    then show ?thesis using Some by (cases b) (simp add: removeAll_id)
  qed simp
  show ?thesis
  proof (cases m)
    case None
    then show ?thesis using assms(2) others
      by (simp add: WeakPtr_delete_def M_defs forget_def)
  next
    case (Some d)
    then obtain b where "bases s d = Some b" using assms linked_lives by blast
    then have "(bases s)(d \<mapsto> b\<lparr>m_weakPtrs := removeAll w (m_weakPtrs b)\<rparr>) =
        (\<lambda>d. map_option (\<lambda>b. b\<lparr>m_weakPtrs := removeAll w (m_weakPtrs b)\<rparr>) (bases s d))"
      using others Some by (auto simp: fun_eq_iff)
    then show ?thesis using assms(2) Some \<open>bases s d = Some b\<close>
      by (simp add: WeakPtr_delete_def M_defs forget_def put_base_def)
  qed
qed

lemma linked_forget: "ptrs_linked s \<Longrightarrow> ptrs_linked (forget w s)"
  unfolding ptrs_linked_def by (auto simp: forget_def)

lemma table_forget:
  assumes "\<And>c. backend_of s c \<noteq> Some w" and "w \<notin> set (running s)"
  shows "table_of (forget w s) = table_of s"
proof -
  have "m_backendImpl cb \<noteq> Some w" if "callback_objects s c = Some cb" for c cb
    using assms(1) [of c] that by (auto simp: backend_of_def)
  then show ?thesis using assms(2)
    by (auto simp: table_of_def RequestTable.make_def weak_target_def fun_eq_iff forget_def option.map_comp comp_def
        split: bind_splits)
qed

lemma memory_ok_forget:
  assumes "memory_ok s" and "\<And>c. backend_of s c \<noteq> Some w" and "w \<notin> set (running s)"
  shows "memory_ok (forget w s)"
  using assms linked_forget [of s w]
  by (auto simp: memory_ok_def owned_once_def unused_above_def) 

subsection \<open>Callbacks\<close>

lemma memory_ok_linked: "memory_ok s \<Longrightarrow> ptrs_linked s"
  by (simp add: memory_ok_def)

lemma owned_exists: "memory_ok s \<Longrightarrow> backend_of s c = Some w \<Longrightarrow> \<exists>m. weak_ptrs s w = Some m"
  unfolding memory_ok_def owned_once_def by blast

text \<open>A callback without its weak pointer waits for nothing.\<close>

definition let_go :: "nat \<Rightarrow> Memory \<Rightarrow> Memory" where
  "let_go c s = s\<lparr>callback_objects := (callback_objects s)(c := map_option (m_backendImpl_update (\<lambda>_. None)) (callback_objects s c))\<rparr>"

lemma let_go_simps [simp]:
  "weak_ptrs (let_go c s) = weak_ptrs s" "bases (let_go c s) = bases s" "running (let_go c s) = running s"
  "next_free (let_go c s) = next_free s" "sent (let_go c s) = sent s"
  "backend_of (let_go c s) = (backend_of s)(c := None)" "weak_target (let_go c s) = weak_target s"
  "(\<exists>cb. callback_objects (let_go c s) c' = Some cb) \<longleftrightarrow> (\<exists>cb. callback_objects s c' = Some cb)"
  "callback_objects (let_go c s) c' = None \<longleftrightarrow> callback_objects s c' = None"
  by (auto simp: let_go_def backend_of_def weak_target_def fun_eq_iff split: bind_splits)

lemma memory_ok_let_go: "memory_ok s \<Longrightarrow> memory_ok (let_go c s)"
  by (simp add: memory_ok_def ptrs_linked_def owned_once_def unused_above_def)

lemma table_let_go: "table_of (let_go c s) = (table_of s)\<lparr>waiting := (waiting (table_of s))(c := None)\<rparr>"
  by (auto simp: table_of_def RequestTable.make_def let_go_def fun_eq_iff weak_target_def split: bind_splits)

lemma Callback_dispose_run:
  assumes "memory_ok s" and "callback_objects s c \<noteq> None"
  obtains t where "Callback_dispose c s = (Inr (), t)" and "memory_ok t"
    and "table_of t = (table_of s)\<lparr>waiting := (waiting (table_of s))(c := None)\<rparr>" and "sent t = sent s"
    and "callback_objects t c \<noteq> None" and "backend_of t c = None" and "running t = running s"
proof -
  obtain cb where cb: "callback_objects s c = Some cb" using assms(2) by auto
  have gone: "(s\<lparr>callback_objects := (callback_objects s)(c \<mapsto> cb\<lparr>m_backendImpl := None\<rparr>)\<rparr>) = let_go c s"
    by (simp add: let_go_def cb)
  show thesis
  proof (cases "m_backendImpl cb")
    case None
    then have "Callback_dispose c s = (Inr (), let_go c s)"
      using cb gone by (simp add: Callback_dispose_def M_defs)
    then show ?thesis using that [of "let_go c s"] memory_ok_let_go [OF assms(1)] table_let_go assms(2) by simp
  next
    case (Some w)
    then have w: "backend_of s c = Some w" using cb by (simp add: backend_of_def)
    then have "weak_ptrs s w \<noteq> None" and free: "\<And>c'. backend_of (let_go c s) c' \<noteq> Some w" "w \<notin> set (running (let_go c s))"
      using assms(1) unfolding memory_ok_def owned_once_def by (simp, simp, metis let_go_simps(6) fun_upd_apply option.distinct(1), simp)
    then have "WeakPtr_delete w (let_go c s) = (Inr (), forget w (let_go c s))"
      using WeakPtr_delete_run [OF memory_ok_linked [OF memory_ok_let_go [OF assms(1)]]] by fastforce
    then have "Callback_dispose c s = (Inr (), forget w (let_go c s))"
      using cb gone Some by (simp add: Callback_dispose_def M_defs)
    then show ?thesis
      using that memory_ok_forget [OF memory_ok_let_go [OF assms(1)] free] table_forget [OF free] table_let_go assms(2) by simp
  qed
qed

lemma Callback_delete_run:
  assumes "memory_ok s" and "callback_objects s c \<noteq> None"
  obtains t where "Callback_delete c s = (Inr (), t)" and "memory_ok t"
    and "table_of t = (table_of s)\<lparr>waiting := (waiting (table_of s))(c := None)\<rparr>" and "sent t = sent s"
proof -
  obtain t where t: "Callback_dispose c s = (Inr (), t)" "memory_ok t"
      "table_of t = (table_of s)\<lparr>waiting := (waiting (table_of s))(c := None)\<rparr>" "sent t = sent s" "backend_of t c = None"
    using Callback_dispose_run [OF assms] by metis
  let ?u = "t\<lparr>callback_objects := (callback_objects t)(c := None)\<rparr>"
  have backend: "backend_of ?u = backend_of t" using t(5) by (auto simp: backend_of_def fun_eq_iff)
  then have "memory_ok ?u" using t(2) by (simp add: memory_ok_def ptrs_linked_def owned_once_def unused_above_def)
  moreover have "table_of ?u = table_of t" using t(5)
    by (auto simp: table_of_def RequestTable.make_def backend_of_def fun_eq_iff weak_target_def split: bind_splits)
  ultimately show thesis using that [of ?u] t by (simp add: Callback_delete_def M_defs)
qed

text \<open>A request waits exactly when its callback has a weak pointer to a dispatcher that exists.\<close>

lemma if_active_inactive:
  assumes "memory_ok s" and "callback_objects s c \<noteq> None" and "waiting (table_of s) c = None"
  shows "if_active c act s = (Inr (), s)"
proof -
  obtain cb where cb: "callback_objects s c = Some cb" using assms(2) by auto
  show ?thesis
  proof (cases "m_backendImpl cb")
    case None
    then show ?thesis using cb by (simp add: if_active_def M_defs)
  next
    case (Some w)
    then have "backend_of s c = Some w" using cb by (simp add: backend_of_def)
    then obtain m where m: "weak_ptrs s w = Some m" using owned_exists [OF assms(1)] by blast
    then have "m = None" using assms(3) cb Some by (simp add: table_of_def RequestTable.make_def weak_target_def)
    then show ?thesis using cb Some m by (simp add: if_active_def M_defs)
  qed
qed

lemma if_active_active:
  assumes "memory_ok s" and "waiting (table_of s) c = Some (d, callId)"
  obtains cb b where "callback_objects s c = Some cb" and "c_callId cb = callId" and "bases s d = Some b" and "b_hasFrontend b"
    and "if_active c act s = seqM (act cb d) (Callback_dispose c) s"
proof -
  obtain cb w where "callback_objects s c = Some cb" "m_backendImpl cb = Some w" "weak_ptrs s w = Some (Some d)" "c_callId cb = callId"
    using assms(2) by (auto simp: table_of_def RequestTable.make_def weak_target_def split: bind_splits)
  moreover from this obtain b where "bases s d = Some b" "b_hasFrontend b"
    using linked_lives [OF memory_ok_linked [OF assms(1)]] by blast
  ultimately show thesis using that by (simp add: if_active_def M_defs)
qed

lemma sent_simps [simp]:
  "table_of (s\<lparr>sent := l\<rparr>) = table_of s" "memory_ok (s\<lparr>sent := l\<rparr>) = memory_ok s"
  by (simp_all add: table_of_def weak_target_def RequestTable.make_def memory_ok_def ptrs_linked_def owned_once_def unused_above_def
      backend_of_def cong: if_cong)

lemma Callback_sendIfActive_run:
  assumes "memory_ok s" and "callback_objects s c \<noteq> None"
  shows "\<exists>t. Callback_sendIfActive c p r s = (Inr (), t) \<and> memory_ok t \<and>
    table_of t = table_step (Answer c p r) Nothing (table_of s) \<and> sent t = sent s @ answers_sent (Answer c p r) (table_of s)"
proof (cases "waiting (table_of s) c")
  case None
  have "(waiting (table_of s))(c := None) = waiting (table_of s)" using None by (simp add: fun_upd_idem)
  then show ?thesis using if_active_inactive [OF assms None] assms(1) None by (simp add: Callback_sendIfActive_def)
next
  case (Some e)
  then obtain d i where w: "waiting (table_of s) c = Some (d, i)" by (cases e) auto
  let ?m = "if m_status r = kError then createErrorResponse i (m_errorCode r) (m_errorMessage r) None else createResponse i p"
  let ?u = "s\<lparr>sent := sent s @ [(i, ?m)]\<rparr>"
  obtain cb b where cb: "callback_objects s c = Some cb" "c_callId cb = i" "bases s d = Some b" "b_hasFrontend b"
      "Callback_sendIfActive c p r s = seqM (Base_sendResponse d (c_callId cb) r p) (Callback_dispose c) s"
    unfolding Callback_sendIfActive_def by (rule if_active_active [OF assms(1) w])
  have sends: "Base_sendResponse d (c_callId cb) r p s = (Inr (), ?u)" using cb
    by (auto simp: Base_sendResponse_def M_defs sendResponse_def reportProtocolErrorTo_def log_channel_def FrontendChannel.make_def)
  obtain t where "Callback_dispose c ?u = (Inr (), t)" "memory_ok t" "sent t = sent ?u"
      "table_of t = (table_of ?u)\<lparr>waiting := (waiting (table_of ?u))(c := None)\<rparr>"
    by (rule Callback_dispose_run [of ?u c]) (use assms in simp_all)
  then show ?thesis using cb(5) sends w by (simp add: M_defs)
qed

text \<open>The members of a dispatcher that only its requests change.\<close>

lemma memory_ok_put:
  assumes "memory_ok s" and "bases s d = Some b" and "m_weakPtrs b' = m_weakPtrs b" and "b_hasFrontend b'"
  shows "memory_ok (s\<lparr>bases := (bases s)(d \<mapsto> b')\<rparr>)"
  using assms by (auto simp: memory_ok_def ptrs_linked_def owned_once_def unused_above_def backend_of_def)

lemma table_put:
  "table_of (s\<lparr>bases := (bases s)(d \<mapsto> b)\<rparr>) =
     (table_of s)\<lparr>living_bases := (living_bases (table_of s))(d \<mapsto> (b_lastCallbackId b, b_lastCallbackFallThrough b))\<rparr>"
  by (simp add: table_of_def RequestTable.make_def weak_target_def fun_eq_iff)

lemma living_table: "living_bases (table_of s) d = map_option (\<lambda>b. (b_lastCallbackId b, b_lastCallbackFallThrough b)) (bases s d)"
  by (simp add: table_of_def RequestTable.make_def)

lemma Callback_fallThroughIfActive_run:
  assumes "memory_ok s" and "callback_objects s c \<noteq> None"
  shows "\<exists>t. Callback_fallThroughIfActive c s = (Inr (), t) \<and> memory_ok t \<and>
    table_of t = table_step (FallThrough c) Nothing (table_of s) \<and> sent t = sent s"
proof (cases "waiting (table_of s) c")
  case None
  then show ?thesis using if_active_inactive [OF assms None] assms(1) by (simp add: Callback_fallThroughIfActive_def)
next
  case (Some e)
  then obtain d i where w: "waiting (table_of s) c = Some (d, i)" by (cases e) auto
  obtain cb b where cb: "callback_objects s c = Some cb" "c_callId cb = i" "bases s d = Some b" "b_hasFrontend b"
      "Callback_fallThroughIfActive c s = seqM (markFallThrough (c_callbackId cb) d) (Callback_dispose c) s"
    unfolding Callback_fallThroughIfActive_def by (rule if_active_active [OF assms(1) w])
  let ?b = "b\<lparr>b_lastCallbackFallThrough := True\<rparr>"
  let ?u = "s\<lparr>bases := (bases s)(d \<mapsto> ?b)\<rparr>"
  have marks: "markFallThrough (c_callbackId cb) d s = (Inr (), ?u)" using cb
    by (simp add: markFallThrough_def put_base_def M_defs)
  have "memory_ok ?u" using memory_ok_put [OF assms(1) cb(3), of ?b] cb(4) by simp
  then obtain t where "Callback_dispose c ?u = (Inr (), t)" "memory_ok t" "sent t = sent ?u"
      "table_of t = (table_of ?u)\<lparr>waiting := (waiting (table_of ?u))(c := None)\<rparr>"
    by (rule Callback_dispose_run [of ?u c]) (use assms in simp_all)
  then show ?thesis using cb marks w by (simp add: M_defs table_put fall_through_def living_table)
qed

subsection \<open>Dispatchers\<close>

lemma unused: "memory_ok s \<Longrightarrow> next_free s \<le> p \<Longrightarrow> bases s p = None \<and> weak_ptrs s p = None \<and> callback_objects s p = None"
  by (simp add: memory_ok_def unused_above_def)

lemma unused_sets:
  assumes "memory_ok s" and "next_free s \<le> p"
  shows "p \<notin> set (running s)" and "backend_of s c \<noteq> Some p" and "bases s d = Some b \<Longrightarrow> p \<notin> set (m_weakPtrs b)"
  using unused [OF assms] assms(1) linked_set [OF memory_ok_linked [OF assms(1)]] owned_exists [OF assms(1)]
  by (fastforce simp: memory_ok_def owned_once_def)+

lemma DispatcherBase_new_run:
  assumes "memory_ok s"
  shows "\<exists>d t. DispatcherBase_new s = (Inr d, t) \<and> memory_ok t \<and> living_bases (table_of s) d = None \<and>
    table_of t = table_step Create (Created d) (table_of s) \<and> sent t = sent s"
proof -
  let ?d = "next_free s"
  let ?t = "s\<lparr>bases := (bases s)(?d \<mapsto> Base.make True [] 0 False), next_free := Suc ?d\<rparr>"
  have "\<And>w. weak_ptrs s w \<noteq> Some (Some ?d)"
    using linked_lives [OF memory_ok_linked [OF assms]] unused [OF assms, of ?d] by fastforce
  then have "memory_ok ?t" using assms
    by (auto simp: memory_ok_def ptrs_linked_def owned_once_def unused_above_def backend_of_def Base.make_def)
  then show ?thesis using unused [OF assms, of ?d]
    by (simp add: DispatcherBase_new_def table_of_def RequestTable.make_def weak_target_def fun_eq_iff Base.make_def)
qed

lemma forM_dispose:
  assumes "\<And>w. w \<in> set ws \<Longrightarrow> weak_ptrs s w \<noteq> None"
  shows "forM ws WeakPtr_dispose s = (Inr (), s\<lparr>weak_ptrs := (\<lambda>w. if w \<in> set ws then Some None else weak_ptrs s w)\<rparr>)"
  using assms
proof (induction ws arbitrary: s)
  case Nil
  then show ?case by (simp add: retM_def)
next
  case (Cons w ws)
  let ?t = "s\<lparr>weak_ptrs := (weak_ptrs s)(w \<mapsto> None)\<rparr>"
  have "WeakPtr_dispose w s = (Inr (), ?t)" using Cons.prems by (fastforce simp: WeakPtr_dispose_def M_defs)
  moreover have "forM ws WeakPtr_dispose ?t =
      (Inr (), ?t\<lparr>weak_ptrs := (\<lambda>v. if v \<in> set ws then Some None else weak_ptrs ?t v)\<rparr>)"
    using Cons.prems by (intro Cons.IH) simp
  ultimately show ?case by (simp add: seqM_def bindM_def fun_eq_iff cong: if_cong)
qed

text \<open>The weak pointers to a destroyed dispatcher are null.\<close>

definition lost :: "nat \<Rightarrow> Memory \<Rightarrow> Memory" where
  "lost d s = s\<lparr>weak_ptrs := (\<lambda>w. if weak_ptrs s w = Some (Some d) then Some None else weak_ptrs s w),
     bases := (bases s)(d := None)\<rparr>"

lemma DispatcherBase_delete_run:
  assumes "memory_ok s" and "bases s d \<noteq> None"
  shows "DispatcherBase_delete d s = (Inr (), lost d s)"
proof -
  obtain b where b: "bases s d = Some b" using assms(2) by auto
  let ?u = "s\<lparr>bases := (bases s)(d \<mapsto> b\<lparr>b_hasFrontend := False\<rparr>)\<rparr>"
  have "w \<in> set (m_weakPtrs b) \<longleftrightarrow> weak_ptrs s w = Some (Some d)" for w
    using linked_set [OF memory_ok_linked [OF assms(1)] b] .
  moreover from this have "forM (m_weakPtrs b) WeakPtr_dispose ?u =
      (Inr (), ?u\<lparr>weak_ptrs := (\<lambda>w. if w \<in> set (m_weakPtrs b) then Some None else weak_ptrs ?u w)\<rparr>)"
    by (intro forM_dispose) simp
  ultimately show ?thesis using b
    by (simp add: DispatcherBase_delete_def clearFrontend_def put_base_def M_defs lost_def fun_upd_def cong: if_cong)
qed

lemma lost_ok:
  assumes "memory_ok s"
  shows "memory_ok (lost d s)"
proof -
  have "weak_ptrs (lost d s) w = Some (Some d') \<longleftrightarrow> (\<exists>b. bases (lost d s) d' = Some b \<and> w \<in> set (m_weakPtrs b))" for d' w
  proof -
    have "weak_ptrs s w = Some (Some d') \<longleftrightarrow> (\<exists>b. bases s d' = Some b \<and> w \<in> set (m_weakPtrs b))"
      using memory_ok_linked [OF assms] unfolding ptrs_linked_def by blast
    then show ?thesis by (cases "d' = d") (auto simp: lost_def)
  qed
  moreover have "b_hasFrontend b" if "bases (lost d s) d' = Some b" for d' b
    using that memory_ok_linked [OF assms] unfolding ptrs_linked_def lost_def by (auto split: if_splits)
  ultimately have "ptrs_linked (lost d s)" unfolding ptrs_linked_def by blast
  moreover have "owned_once (lost d s)" using assms by (auto simp: memory_ok_def owned_once_def lost_def backend_of_def)
  moreover have "unused_above (lost d s)" using unused [OF assms] by (simp add: unused_above_def lost_def)
  ultimately show ?thesis by (simp add: memory_ok_def)
qed

lemma lost_table: "table_of (lost d s) = table_step (DestroyBase d) Nothing (table_of s)"
proof -
  have "map_option (\<lambda>p. if p = Some d then None else p) m = m" if "m \<noteq> Some (Some d)" for m
    using that by (cases m) auto
  then show ?thesis
    by (auto simp: table_of_def RequestTable.make_def weak_target_def lost_def fun_eq_iff split: bind_splits option.splits)
qed

lemma lost_sent [simp]: "sent (lost d s) = sent s"
  by (simp add: lost_def)

subsection \<open>Requests\<close>

text \<open>A new weak pointer belongs to nobody yet.\<close>

definition unowned :: "nat \<Rightarrow> nat \<Rightarrow> Memory \<Rightarrow> bool" where
  "unowned d w s \<longleftrightarrow> weak_ptrs s w = Some (Some d) \<and> w < next_free s \<and> w \<notin> set (running s) \<and> (\<forall>c. backend_of s c \<noteq> Some w)"

lemma weakPtr_run:
  assumes "memory_ok s" and "bases s d = Some b"
  obtains w t where "weakPtr d s = (Inr w, t)" and "memory_ok t" and "table_of t = table_of s" and "sent t = sent s"
    and "bases t d = Some (b\<lparr>m_weakPtrs := List.insert w (m_weakPtrs b)\<rparr>)" and "unowned d w t"
    and "\<And>v. unowned d v s \<Longrightarrow> unowned d v t \<and> v \<noteq> w" and "in_progress (table_of s) w = None"
proof -
  let ?w = "next_free s"
  let ?b = "b\<lparr>m_weakPtrs := List.insert ?w (m_weakPtrs b)\<rparr>"
  let ?t = "s\<lparr>weak_ptrs := (weak_ptrs s)(?w \<mapsto> Some d), next_free := Suc ?w, bases := (bases s)(d \<mapsto> ?b)\<rparr>"
  note new = unused [OF assms(1) order_refl] unused_sets [OF assms(1) order_refl]
  have backend: "backend_of ?t = backend_of s" by (simp add: backend_of_def fun_eq_iff)
  have weak_target: "weak_target ?t = (weak_target s)(?w \<mapsto> d)" by (simp add: weak_target_def fun_eq_iff)
  have b: "b_hasFrontend b" using memory_ok_linked [OF assms(1)] assms(2) by (simp add: ptrs_linked_def)
  have "weak_ptrs ?t w = Some (Some d') \<longleftrightarrow> (\<exists>b. bases ?t d' = Some b \<and> w \<in> set (m_weakPtrs b))" for d' w
    using linked_set [OF memory_ok_linked [OF assms(1)], of d'] linked_lives [OF memory_ok_linked [OF assms(1)], of w d']
      assms(2) new(4) [of d'] by (cases "d' = d"; cases "w = ?w") auto
  moreover have "b_hasFrontend b'" if "bases ?t d' = Some b'" for d' b'
    using that b memory_ok_linked [OF assms(1)] by (auto simp: ptrs_linked_def split: if_splits)
  ultimately have "ptrs_linked ?t" unfolding ptrs_linked_def by blast
  moreover have "owned_once ?t" unfolding owned_once_def backend
    using assms(1) new(2,3) by (auto simp: memory_ok_def owned_once_def)
  moreover have "unused_above ?t" using unused [OF assms(1)] assms(2) by (auto simp: unused_above_def)
  moreover have "table_of ?t = table_of s"
  proof -
    have "m_backendImpl cb \<noteq> Some ?w" if "callback_objects s c = Some cb" for c cb
      using new(3) [of c] that by (auto simp: backend_of_def)
    then show ?thesis unfolding table_of_def weak_target using new(2) assms(2)
      by (auto simp: RequestTable.make_def fun_eq_iff split: bind_splits)
  qed
  moreover have "weakPtr d s = (Inr ?w, ?t)" using assms(2)
    by (simp add: weakPtr_def WeakPtr_new_def put_base_def M_defs)
  moreover have "unowned d ?w ?t" using new(2,3) by (simp add: unowned_def backend)
  moreover have "unowned d v ?t \<and> v \<noteq> ?w" if "unowned d v s" for v
    using that by (auto simp: unowned_def backend)
  moreover have "in_progress (table_of s) ?w = None" using new(2) by (simp add: table_of_def RequestTable.make_def)
  ultimately show thesis by (intro that [of ?w ?t]) (simp_all add: memory_ok_def)
qed

lemma start_request_run:
  assumes "memory_ok s" and "bases s d \<noteq> None"
  shows "\<exists>weak c t. start_request d callId s = (Inr (weak, c), t) \<and> memory_ok t \<and> may_return (Begin d callId) (table_of s) (Begun weak c) \<and>
    table_of t = table_step (Begin d callId) (Begun weak c) (table_of s) \<and> sent t = sent s"
proof -
  obtain b where b: "bases s d = Some b" using assms(2) by auto
  obtain weak t1 where t1: "weakPtr d s = (Inr weak, t1)" "memory_ok t1" "table_of t1 = table_of s" "sent t1 = sent s"
      "bases t1 d = Some (b\<lparr>m_weakPtrs := List.insert weak (m_weakPtrs b)\<rparr>)" "unowned d weak t1" "in_progress (table_of s) weak = None"
    using weakPtr_run [OF assms(1) b] by metis
  let ?b1 = "b\<lparr>m_weakPtrs := List.insert weak (m_weakPtrs b)\<rparr>"
  obtain w t2 where t2: "weakPtr d t1 = (Inr w, t2)" "memory_ok t2" "table_of t2 = table_of t1" "sent t2 = sent t1"
      "bases t2 d = Some (?b1\<lparr>m_weakPtrs := List.insert w (m_weakPtrs ?b1)\<rparr>)" "unowned d w t2" "unowned d weak t2" "weak \<noteq> w"
    using weakPtr_run [OF t1(2,5)] t1(6) by metis
  let ?b2 = "?b1\<lparr>m_weakPtrs := List.insert w (m_weakPtrs ?b1)\<rparr>"
  let ?b3 = "?b2\<lparr>b_lastCallbackFallThrough := False, b_lastCallbackId := b_lastCallbackId b + 1\<rparr>"
  let ?t3 = "t2\<lparr>bases := (bases t2)(d \<mapsto> ?b3)\<rparr>"
  let ?c = "next_free t2"
  let ?cb = "CallbackObject.make (Some w) callId (b_lastCallbackId b + 1)"
  let ?t = "?t3\<lparr>callback_objects := (callback_objects t2)(?c \<mapsto> ?cb), next_free := Suc ?c, running := weak # running t2\<rparr>"
  have "b_hasFrontend ?b2" using memory_ok_linked [OF t2(2)] t2(5) unfolding ptrs_linked_def by blast
  then have t3: "memory_ok ?t3" using memory_ok_put [OF t2(2,5), of ?b3] by simp
  have new: "callback_objects t2 ?c = None" using unused [OF t2(2) order_refl] by simp
  have backend: "backend_of ?t = (backend_of t2)(?c \<mapsto> w)" by (simp add: backend_of_def fun_eq_iff CallbackObject.make_def)
  have "ptrs_linked ?t" using memory_ok_linked [OF t3] by (simp add: ptrs_linked_def)
  moreover have "owned_once ?t" unfolding owned_once_def backend
    using t2(2,6,7,8) new by (auto simp: memory_ok_def owned_once_def unowned_def)
  moreover have "unused_above ?t" using unused [OF t3] by (simp add: unused_above_def)
  ultimately have ok: "memory_ok ?t" by (simp add: memory_ok_def)
  have run: "start_request d callId s = (Inr (weak, ?c), ?t)" using t1(1) t2(1,5)
    by (simp add: start_request_def Base_nextCallbackId_def Callback_new_def put_base_def M_defs)
  have "waiting (table_of ?t) = (waiting (table_of t2))(?c \<mapsto> (d, callId))" "in_progress (table_of ?t) = (in_progress (table_of t2))(weak \<mapsto> Some d)"
    using t2(6,7) by (auto simp: table_of_def RequestTable.make_def weak_target_def unowned_def CallbackObject.make_def fun_eq_iff)
  moreover have "living_bases (table_of ?t) = (living_bases (table_of t2))(d \<mapsto> (b_lastCallbackId b + 1, False))"
    by (simp add: living_table fun_eq_iff)
  moreover have "living_bases (table_of t2) d = Some (b_lastCallbackId b, b_lastCallbackFallThrough b)" using t2(5) by (simp add: living_table)
  ultimately have "table_of ?t = table_step (Begin d callId) (Begun weak ?c) (table_of t2)" by simp
  moreover have "waiting (table_of t2) ?c = None" using new by (simp add: table_of_def RequestTable.make_def)
  ultimately show ?thesis using run ok t1 t2 by (intro exI [of _ weak] exI [of _ ?c] exI [of _ ?t]) simp
qed

lemma end_request_run:
  assumes "memory_ok s" and "weak \<in> set (running s)"
  shows "\<exists>status t. end_request weak s = (Inr status, t) \<and> memory_ok t \<and> may_return (Finish weak) (table_of s) (Finished status) \<and>
    table_of t = table_step (Finish weak) (Finished status) (table_of s) \<and> sent t = sent s"
proof -
  obtain m where m: "weak_ptrs s weak = Some m" using assms by (auto simp: memory_ok_def owned_once_def)
  let ?s = "s\<lparr>running := removeAll weak (running s)\<rparr>"
  let ?status = "case Option.bind m (bases s) of Some b \<Rightarrow> if b_lastCallbackFallThrough b then kFallThrough else kAsync | None \<Rightarrow> kAsync"
  have backend: "backend_of ?s = backend_of s" by (simp add: backend_of_def fun_eq_iff)
  have free: "backend_of ?s c \<noteq> Some weak" "weak \<notin> set (running ?s)" for c
    unfolding backend using assms by (auto simp: memory_ok_def owned_once_def)
  have ok: "memory_ok ?s" using assms(1) backend
    by (simp add: memory_ok_def ptrs_linked_def owned_once_def unused_above_def)
  have "case m of None \<Rightarrow> True | Some d \<Rightarrow> \<exists>b. bases s d = Some b"
    using linked_lives [OF memory_ok_linked [OF assms(1)], of weak] m by (auto split: option.split)
  then have run: "end_request weak s = (Inr ?status, forget weak ?s)"
    using m WeakPtr_delete_run [OF memory_ok_linked [OF assms(1)] m]
    by (auto simp: end_request_def M_defs forget_def split: option.splits)
  have "in_progress (table_of s) weak = Some m" using assms(2) m by (simp add: table_of_def RequestTable.make_def)
  then have "may_return (Finish weak) (table_of s) (Finished ?status)"
    by (auto simp: living_table split: option.splits bind_splits)
  moreover have "table_of ?s = table_step (Finish weak) (Finished ?status) (table_of s)"
    by (auto simp: table_of_def RequestTable.make_def weak_target_def fun_eq_iff)
  ultimately show ?thesis
    using run memory_ok_forget [OF ok free] table_forget [OF free] by (intro exI [of _ ?status] exI [of _ "forget weak ?s"]) simp
qed

subsection \<open>The memory implements the table\<close>

theorem run_event_refines:
  assumes "memory_ok s" and "may_happen s e"
  shows "\<exists>r t. run_event e s = (Inr r, t) \<and> memory_ok t \<and> may_return e (table_of s) r \<and> table_of t = table_step e r (table_of s) \<and>
    sent t = sent s @ answers_sent e (table_of s)"
proof (cases e)
  case Create
  then show ?thesis using DispatcherBase_new_run [OF assms(1)] by (fastforce simp: M_defs)
next
  case (Begin d i)
  with assms(2) have "bases s d \<noteq> None" by simp
  from start_request_run [OF assms(1) this, of i] Begin show ?thesis by (fastforce simp: M_defs)
next
  case (Finish w)
  with assms(2) have "w \<in> set (running s)" by simp
  from end_request_run [OF assms(1) this] obtain status t where "end_request w s = (Inr status, t)" "memory_ok t"
    "may_return e (table_of s) (Finished status)" "table_of t = table_step e (Finished status) (table_of s)" "sent t = sent s"
    using Finish by blast
  then show ?thesis using Finish by (simp add: M_defs)
next
  case (Answer c p q)
  with assms(2) have "callback_objects s c \<noteq> None" by simp
  from Callback_sendIfActive_run [OF assms(1) this, of p q] obtain t where "Callback_sendIfActive c p q s = (Inr (), t)" "memory_ok t"
    "table_of t = table_step e Nothing (table_of s)" "sent t = sent s @ answers_sent e (table_of s)"
    using Answer by blast
  then show ?thesis using Answer by (simp add: M_defs)
next
  case (FallThrough c)
  with assms(2) have "callback_objects s c \<noteq> None" by simp
  from Callback_fallThroughIfActive_run [OF assms(1) this] obtain t where "Callback_fallThroughIfActive c s = (Inr (), t)" "memory_ok t"
    "table_of t = table_step e Nothing (table_of s)" "sent t = sent s" using FallThrough by blast
  then show ?thesis using FallThrough by (simp add: M_defs)
next
  case (Drop c)
  with assms(2) have "callback_objects s c \<noteq> None" by simp
  then obtain t where "Callback_delete c s = (Inr (), t)" "memory_ok t"
    "table_of t = (table_of s)\<lparr>waiting := (waiting (table_of s))(c := None)\<rparr>" "sent t = sent s"
    by (rule Callback_delete_run [OF assms(1)])
  then show ?thesis using Drop by (simp add: M_defs)
next
  case (DestroyBase d)
  with assms(2) have "bases s d \<noteq> None" by simp
  from DispatcherBase_delete_run [OF assms(1) this] show ?thesis
    using DestroyBase lost_ok [OF assms(1)] lost_table lost_sent by (simp add: M_defs)
qed

subsection \<open>Whole runs\<close>

inductive memory_trace :: "request_event list \<Rightarrow> Memory \<Rightarrow> bool" where
  trace_start: "memory_trace [] memory_start"
| trace_step: "memory_trace es s \<Longrightarrow> may_happen s e \<Longrightarrow> run_event e s = (Inr r, t) \<Longrightarrow> memory_trace (es @ [e]) t"

lemma trace_ok: "memory_trace es s \<Longrightarrow> memory_ok s"
proof (induction rule: memory_trace.induct)
  case trace_start
  show ?case by (rule memory_start_ok)
next
  case (trace_step es s e r t)
  then show ?case using run_event_refines [of s e] by fastforce
qed

fun begun :: "request_event list \<Rightarrow> cint list" where
  "begun [] = []"
| "begun (Begin d callId # es) = callId # begun es"
| "begun (_ # es) = begun es"

lemma begun_append [simp]: "begun (es @ fs) = begun es @ begun fs"
  by (induction es rule: begun.induct) auto

text \<open>The ids of the requests that wait, as often as there are such requests.\<close>

definition waiting_ids :: "RequestTable \<Rightarrow> cint multiset" where
  "waiting_ids a = image_mset (\<lambda>c. snd (the (waiting a c))) (mset_set (dom (waiting a)))"

lemma waiting_ids_cong: "waiting a = waiting b \<Longrightarrow> waiting_ids a = waiting_ids b"
  by (simp add: waiting_ids_def)

lemma waiting_ids_add:
  assumes "finite (dom (waiting a))" and "waiting a c = None" and "waiting b = (waiting a)(c \<mapsto> (d, i))"
  shows "waiting_ids b = add_mset i (waiting_ids a)"
proof -
  have "c \<notin> dom (waiting a)" using assms(2) by auto
  then have "image_mset (\<lambda>x. snd (the (waiting b x))) (mset_set (dom (waiting a))) = waiting_ids a"
    unfolding waiting_ids_def assms(3) using assms(1) by (intro image_mset_cong) auto
  then show ?thesis using assms \<open>c \<notin> dom (waiting a)\<close> by (simp add: waiting_ids_def)
qed

lemma waiting_ids_restrict:
  assumes "finite (dom (waiting a))" and "waiting b \<subseteq>\<^sub>m waiting a"
  shows "waiting_ids b \<subseteq># waiting_ids a"
proof -
  have sub: "dom (waiting b) \<subseteq> dom (waiting a)" and same: "\<And>c. c \<in> dom (waiting b) \<Longrightarrow> waiting b c = waiting a c"
    using assms(2) map_le_implies_dom_le by (blast, metis map_le_def)
  have "finite (dom (waiting b))" using assms(1) sub finite_subset by blast
  then have "waiting_ids b = image_mset (\<lambda>c. snd (the (waiting a c))) (mset_set (dom (waiting b)))"
    unfolding waiting_ids_def using same by (intro image_mset_cong) simp
  then show ?thesis unfolding waiting_ids_def
    using assms(1) sub by (simp add: image_mset_subseteq_mono subset_imp_msubset_mset_set)
qed

lemma waiting_ids_remove:
  assumes "finite (dom (waiting a))" and "waiting a c = Some (d, i)" and "waiting b = (waiting a)(c := None)"
  shows "waiting_ids a = add_mset i (waiting_ids b)"
proof (rule waiting_ids_add [of b c a d i])
  show "waiting a = (waiting b)(c \<mapsto> (d, i))" using assms(2,3) by auto
qed (use assms in simp_all)

lemma table_step_waiting:
  assumes "may_return e a r"
  shows "waiting (table_step e r a) \<subseteq>\<^sub>m waiting a \<or>
    (\<exists>d i w c. e = Begin d i \<and> r = Begun w c \<and> waiting a c = None \<and> waiting (table_step e r a) = (waiting a)(c \<mapsto> (d, i)))"
proof (cases e)
  case Create
  then show ?thesis using assms by (cases r) simp_all
next
  case (Begin d i)
  then show ?thesis using assms by (cases r) auto
qed (auto simp: map_le_def fall_through_def split: option.splits if_splits)

lemma table_step_ids:
  assumes "finite (dom (waiting a))" and "may_return e a r"
  shows "finite (dom (waiting (table_step e r a)))"
    and "mset (map fst (answers_sent e a)) + waiting_ids (table_step e r a) \<subseteq># waiting_ids a + mset (begun [e])"
proof -
  let ?b = "table_step e r a"
  consider (less) "waiting ?b \<subseteq>\<^sub>m waiting a"
    | (new) d i c where "e = Begin d i" "waiting a c = None" "waiting ?b = (waiting a)(c \<mapsto> (d, i))"
    using table_step_waiting [OF assms(2)] by blast
  then have "finite (dom (waiting ?b)) \<and>
      mset (map fst (answers_sent e a)) + waiting_ids ?b \<subseteq># waiting_ids a + mset (begun [e])"
  proof cases
    case less
    then have fin: "finite (dom (waiting ?b))" using assms(1) finite_subset map_le_implies_dom_le by blast
    show ?thesis
    proof (cases "answers_sent e a = []")
      case True
      then show ?thesis using fin waiting_ids_restrict [OF assms(1) less] by (simp add: subset_mset.add_increasing2)
    next
      case False
      then obtain c p q d i where e: "e = Answer c p q" "waiting a c = Some (d, i)"
        by (cases e) (auto split: option.splits)
      then have "waiting_ids a = add_mset i (waiting_ids ?b)" by (intro waiting_ids_remove [OF assms(1) e(2)]) simp
      then show ?thesis using fin e by simp
    qed
  next
    case new
    then show ?thesis using waiting_ids_add [OF assms(1) new(2,3)] assms(1) by simp
  qed
  then show "finite (dom (waiting ?b))"
    and "mset (map fst (answers_sent e a)) + waiting_ids ?b \<subseteq># waiting_ids a + mset (begun [e])" by simp_all
qed

lemma trace_ids:
  assumes "memory_trace es s"
  shows "finite (dom (waiting (table_of s))) \<and> mset (map fst (sent s)) + waiting_ids (table_of s) \<subseteq># mset (begun es)"
  using assms
proof (induction rule: memory_trace.induct)
  case trace_start
  show ?case by (simp add: memory_start_def Memory.make_def table_of_def RequestTable.make_def waiting_ids_def)
next
  case (trace_step es s e r t)
  have "may_return e (table_of s) r" "table_of t = table_step e r (table_of s)" "sent t = sent s @ answers_sent e (table_of s)"
    using run_event_refines [OF trace_ok [OF trace_step(1)] trace_step(2)] trace_step(3) by auto
  moreover note ids = table_step_ids [OF _ this(1)] trace_step(4)
  ultimately have fin: "finite (dom (waiting (table_of t)))" by simp
  have "mset (map fst (sent t)) + waiting_ids (table_of t) =
      mset (map fst (sent s)) + (mset (map fst (answers_sent e (table_of s))) + waiting_ids (table_step e r (table_of s)))"
    using \<open>table_of t = _\<close> \<open>sent t = _\<close> by (simp add: add.assoc)
  also have "\<dots> \<subseteq># mset (map fst (sent s)) + (waiting_ids (table_of s) + mset (begun [e]))"
    using ids by (simp add: subset_mset.add_left_mono)
  also have "\<dots> \<subseteq># mset (begun es) + mset (begun [e])"
    using ids by (simp add: add.assoc [symmetric] subset_mset.add_right_mono del: begun.simps)
  finally show ?case using fin by simp
qed

lemma answered_at_most_once: "memory_trace es s \<Longrightarrow> mset (map fst (sent s)) \<subseteq># mset (begun es)"
  using trace_ids subset_mset.order_trans mset_subset_eq_add_left by blast

text \<open>Runs that can be computed.\<close>

fun run_events :: "request_event list \<Rightarrow> Memory \<Rightarrow> Memory" where
  "run_events [] s = s"
| "run_events (e # es) s = run_events es (snd (run_event e s))"

fun proper :: "request_event list \<Rightarrow> Memory \<Rightarrow> bool" where
  "proper [] s = True"
| "proper (e # es) s \<longleftrightarrow> may_happen s e \<and> proper es (snd (run_event e s))"

lemma trace_run_events: "memory_trace es s \<Longrightarrow> proper fs s \<Longrightarrow> memory_trace (es @ fs) (run_events fs s)"
proof (induction fs arbitrary: es s)
  case (Cons e fs)
  then obtain r t where "run_event e s = (Inr r, t)" using run_event_refines [OF trace_ok] by fastforce
  then show ?case using Cons.IH [of "es @ [e]" t] Cons.prems by (auto intro: memory_trace.trace_step)
qed simp

lemmas computed_trace = trace_run_events [OF trace_start, unfolded append_Nil]

lemmas memory_defs = memory_start_def Memory.make_def DispatcherBase_new_def start_request_def weakPtr_def WeakPtr_new_def
  Base_nextCallbackId_def Callback_new_def end_request_def WeakPtr_delete_def put_base_def used_def Base.make_def CallbackObject.make_def
  Callback_fallThroughIfActive_def Callback_sendIfActive_def if_active_def markFallThrough_def Callback_dispose_def
  DispatcherBase_delete_def clearFrontend_def WeakPtr_dispose_def Base_sendResponse_def Callback_delete_def

text \<open>
  The \<open>DCHECK\<close> of \<open>markFallThrough\<close> is an empty macro here.  A callback that falls through while a later request is in progress marks that
  one: the dispatcher says that the later request fell through, and its callback still waits to answer it.
\<close>

lemma late_fall_through:
  "\<exists>s t. memory_trace [Create, Begin 0 1, Finish 1, Begin 0 2, FallThrough 3] s \<and>
     run_event (Finish 4) s = (Inr (Finished kFallThrough), t) \<and> waiting (table_of t) 6 = Some (0, 2)"
proof -
  let ?es = "[Create, Begin 0 1, Finish 1, Begin 0 2, FallThrough 3]"
  have "proper ?es memory_start" by (simp add: memory_defs M_defs)
  moreover have "fst (run_event (Finish 4) (run_events ?es memory_start)) = Inr (Finished kFallThrough)"
    by (simp add: memory_defs M_defs)
  moreover have "waiting (table_of (snd (run_event (Finish 4) (run_events ?es memory_start)))) 6 = Some (0, 2)"
    by (simp add: memory_defs M_defs table_of_def RequestTable.make_def weak_target_def)
  ultimately show ?thesis using computed_trace by (metis prod.collapse)
qed

end
