(* ===== verification/CallbackModel.thy ===== *)
theory CallbackModel
  imports WeakPointers Replies
begin

section \<open>The callbacks of the handler are those of the table\<close>

text \<open>
  \<open>Dispatcher\<close> keeps a callback as its number in \<open>m_disposed\<close> and asks \<open>weak_get\<close> whether the dispatcher exists;
  \<open>WeakPointers\<close> has the objects and refines them to a table.  Here the two meet: under the laws of a dispatcher's state
  (\<open>reply_base\<close>) every operation of \<open>Dispatcher\<close> on a callback does what the table says and sends the answers the table
  lists, so that the handler's dispatchers inherit what is proved about the objects.
\<close>

text \<open>
  \<open>K\<close> gives the callbacks of one dispatcher \<open>d\<close> their call and callback numbers.  No two have the same number: numbers are
  counted up, and counting past the largest is undefined.
\<close>

definition numbered :: "(nat \<rightharpoonup> cint \<times> cint) \<Rightarrow> bool" where
  "numbered K \<longleftrightarrow> (\<forall>c c' i i' k. K c = Some (i, k) \<longrightarrow> K c' = Some (i', k) \<longrightarrow> c' = c)"

definition waits_as :: "nat \<Rightarrow> (nat \<rightharpoonup> cint \<times> cint) \<Rightarrow> RequestTable \<Rightarrow> bool" where
  "waits_as d K a \<longleftrightarrow> (\<forall>c i k. K c = Some (i, k) \<longrightarrow> waiting a c = None \<or> waiting a c = Some (d, i) \<and> living_bases a d \<noteq> None)"

lemma waits_asD:
  "waits_as d K a \<Longrightarrow> K c = Some (i, k) \<Longrightarrow> waiting a c = None \<or> waiting a c = Some (d, i) \<and> living_bases a d \<noteq> None"
  unfolding waits_as_def by metis

context reply_base
begin

definition stands_for :: "nat \<Rightarrow> (nat \<rightharpoonup> cint \<times> cint) \<Rightarrow> RequestTable \<Rightarrow> 's \<Rightarrow> bool" where
  "stands_for d K a t \<longleftrightarrow> ok t \<and> numbered K \<and> waits_as d K a \<and>
     (weak_get D t \<longleftrightarrow> living_bases a d \<noteq> None) \<and>
     (\<forall>i f. living_bases a d = Some (i, f) \<longrightarrow>
        m_lastCallbackId (callback_state D t) = i \<and> m_lastCallbackFallThrough (callback_state D t) = f) \<and>
     (\<forall>c i k. K c = Some (i, k) \<longrightarrow> (callback_active D k t \<longleftrightarrow> waiting a c \<noteq> None))"

lemma stands_forD:
  assumes "stands_for d K a t"
  shows "ok t" and "numbered K" and "waits_as d K a" and "weak_get D t \<longleftrightarrow> living_bases a d \<noteq> None"
    and "living_bases a d = Some (i, f) \<Longrightarrow>
      m_lastCallbackId (callback_state D t) = i \<and> m_lastCallbackFallThrough (callback_state D t) = f"
    and "K c = Some (i, k) \<Longrightarrow> callback_active D k t \<longleftrightarrow> waiting a c \<noteq> None"
  using assms unfolding stands_for_def by blast+

lemma stands_forI:
  assumes "ok t" and "numbered K" and "waits_as d K a" and "weak_get D t \<longleftrightarrow> living_bases a d \<noteq> None"
    and "\<And>i f. living_bases a d = Some (i, f) \<Longrightarrow>
      m_lastCallbackId (callback_state D t) = i \<and> m_lastCallbackFallThrough (callback_state D t) = f"
    and "\<And>c i k. K c = Some (i, k) \<Longrightarrow> callback_active D k t \<longleftrightarrow> waiting a c \<noteq> None"
  shows "stands_for d K a t"
  using assms unfolding stands_for_def by blast

lemma waiting_entry:
  assumes "stands_for d K a t" and "K c = Some (i, k)" and "waiting a c \<noteq> None"
  shows "waiting a c = Some (d, i) \<and> weak_get D t"
  using waits_asD [OF stands_forD(3) [OF assms(1)] assms(2)] stands_forD(4) [OF assms(1)] assms(3) by simp

lemma active_push [simp]: "callback_active D k (push m t) = callback_active D k t"
  by (simp add: callback_active_def)

text \<open>Disposing a callback is taking it out of the table.\<close>

lemma stands_for_disposed:
  assumes "stands_for d K a t" and "K c = Some (i, k)" and "weak_get D t"
  shows "stands_for d K (a\<lparr>waiting := (waiting a)(c := None)\<rparr>)
    (update_callback_state D (\<lambda>s. s\<lparr>m_disposed := k # m_disposed s\<rparr>) t)"
proof (rule stands_forI)
  note parts = stands_forD [OF assms(1)]
  show "waits_as d K (a\<lparr>waiting := (waiting a)(c := None)\<rparr>)" using parts(3) by (simp add: waits_as_def)
  fix c' i' k'
  assume c': "K c' = Some (i', k')"
  have "k' = k \<longleftrightarrow> c' = c" using parts(2) assms(2) c' unfolding numbered_def by auto
  then show "callback_active D k' (update_callback_state D (\<lambda>s. s\<lparr>m_disposed := k # m_disposed s\<rparr>) t) \<longleftrightarrow>
      waiting (a\<lparr>waiting := (waiting a)(c := None)\<rparr>) c' \<noteq> None"
    using parts(6) [OF c'] assms(3) by (simp add: callback_active_def)
qed (use stands_forD [OF assms(1)] assms(3) in simp_all)

lemma stands_for_push: "stands_for d K a t \<Longrightarrow> stands_for d K a (push m t)"
  by (rule stands_forI) (use stands_forD [of d K a t] ok_push in simp_all)

lemma sendIfActive_table:
  assumes "stands_for d K a t" and "K c = Some (i, k)" and "wf_message (response_message i r p)"
  obtains t' where "sendIfActive D i k p r t = (Inr (), t')" and "stands_for d K (table_step (Answer c p r) Nothing a) t'"
    and "replies t' = replies t @ map (encode \<circ> snd) (answers_sent (Answer c p r) a)"
proof (cases "waiting a c")
  case None
  then have "sendIfActive D i k p r t = (Inr (), t)" using silent stands_forD(6) [OF assms(1,2)] by simp
  moreover have "(waiting a)(c := None) = waiting a" using None by (simp add: fun_upd_idem)
  ultimately show thesis using that [of t] assms(1) None by simp
next
  case (Some e)
  then have e: "waiting a c = Some (d, i)" and weak: "weak_get D t" using waiting_entry [OF assms(1,2)] by simp_all
  let ?u = "push (response_message i r p) t"
  let ?t = "update_callback_state D (\<lambda>s. s\<lparr>m_disposed := k # m_disposed s\<rparr>) ?u"
  note ok = stands_forD(1) [OF assms(1)]
  have "sendIfActive D i k p r t = (Inr (), ?t)"
    using stands_forD(6) [OF assms(1,2)] Some ok assms(3)
    by (simp add: sendIfActive_def dispose_callback_def M_defs channel send_response)
  moreover have "stands_for d K (a\<lparr>waiting := (waiting a)(c := None)\<rparr>) ?t"
    by (rule stands_for_disposed [OF stands_for_push [OF assms(1)] assms(2)]) (simp add: weak)
  moreover have "replies ?t = replies t @ [encode (response_message i r p)]" using ok assms(3) by (simp add: replies_push)
  ultimately show thesis using that e by (simp add: response_message_def)
qed

lemma fallThroughIfActive_table:
  assumes "stands_for d K a t" and "K c = Some (i, k)"
  obtains t' where "fallThroughIfActive D k t = (Inr (), t')" and "stands_for d K (table_step (FallThrough c) Nothing a) t'"
    and "replies t' = replies t"
proof (cases "waiting a c")
  case None
  then have "fallThroughIfActive D k t = (Inr (), t)"
    using stands_forD(6) [OF assms] by (simp add: fallThroughIfActive_def M_defs)
  then show thesis using that [of t] assms(1) None by simp
next
  case (Some e)
  then have e: "waiting a c = Some (d, i)" and weak: "weak_get D t" using waiting_entry [OF assms] by simp_all
  let ?u = "update_callback_state D (\<lambda>s. s\<lparr>m_lastCallbackFallThrough := True\<rparr>) t"
  let ?t = "update_callback_state D (\<lambda>s. s\<lparr>m_disposed := k # m_disposed s\<rparr>) ?u"
  have "fallThroughIfActive D k t = (Inr (), ?t)"
    using stands_forD(6) [OF assms] Some by (simp add: fallThroughIfActive_def dispose_callback_def M_defs)
  moreover have "stands_for d K (fall_through d a) ?u"
  proof (rule stands_forI)
    show "callback_active D k' ?u \<longleftrightarrow> waiting (fall_through d a) c' \<noteq> None" if "K c' = Some (i', k')" for c' i' k'
      using stands_forD(6) [OF assms(1) that] weak by (simp add: fall_through_def callback_active_def)
  qed (use stands_forD [OF assms(1)] weak in \<open>auto simp: waits_as_def fall_through_def\<close>)
  then have "stands_for d K ((fall_through d a)\<lparr>waiting := (waiting (fall_through d a))(c := None)\<rparr>) ?t"
    by (rule stands_for_disposed) (simp_all add: assms(2) weak)
  moreover have "waiting (fall_through d a) = waiting a" by (simp add: fall_through_def)
  ultimately show thesis using that e by simp
qed

text \<open>A new request: its callback has the next number.\<close>

lemma nextCallbackId_table:
  assumes "stands_for d K a t" and "living_bases a d = Some (j, f)" and "K c = None"
    and "\<And>c' i'. K c' \<noteq> Some (i', j + 1)" and "j + 1 \<notin> set (m_disposed (callback_state D t))"
  obtains t' where "nextCallbackId D t = (Inr (j + 1), t')"
    and "stands_for d (K(c \<mapsto> (i, j + 1))) (table_step (Begin d i) (Begun weak c) a) t'" and "replies t' = replies t"
proof -
  let ?t = "update_callback_state D (\<lambda>s. s\<lparr>m_lastCallbackFallThrough := False, m_lastCallbackId := m_lastCallbackId s + 1\<rparr>) t"
  note parts = stands_forD [OF assms(1)]
  have weak: "weak_get D t" and last: "m_lastCallbackId (callback_state D t) = j" using parts(4,5) assms(2) by auto
  then have "nextCallbackId D t = (Inr (j + 1), ?t)" by (simp add: nextCallbackId_def M_defs)
  moreover have "stands_for d (K(c \<mapsto> (i, j + 1))) (table_step (Begin d i) (Begun weak c) a) ?t"
  proof (rule stands_forI)
    show "numbered (K(c \<mapsto> (i, j + 1)))"
      using parts(2) assms(4) unfolding numbered_def by (auto split: if_splits)
    show "waits_as d (K(c \<mapsto> (i, j + 1))) (table_step (Begin d i) (Begun weak c) a)"
      using parts(3) assms(2) by (auto simp: waits_as_def)
    show "callback_active D k ?t \<longleftrightarrow> waiting (table_step (Begin d i) (Begun weak c) a) c' \<noteq> None"
      if "(K(c \<mapsto> (i, j + 1))) c' = Some (i', k)" for c' i' k
    proof (cases "c' = c")
      case True
      then show ?thesis using that weak assms(5) by (simp add: callback_active_def)
    next
      case False
      then have "K c' = Some (i', k)" using that by simp
      from parts(6) [OF this] show ?thesis using False weak by (simp add: callback_active_def)
    qed
  qed (use parts weak last assms(2) in simp_all)
  ultimately show thesis using that by simp
qed

text \<open>The dispatcher is destroyed: whatever the state is then, no callback of it is active.\<close>

lemma destroyed_table:
  assumes "stands_for d K a t" and "ok t'" and "\<not> weak_get D t'"
  shows "stands_for d K (table_step (DestroyBase d) Nothing a) t'"
proof (rule stands_forI)
  have gone: "waiting (table_step (DestroyBase d) Nothing a) c = None" if "K c = Some (i, k)" for c i k
    using waits_asD [OF stands_forD(3) [OF assms(1)] that] by (auto split: option.split)
  show "waits_as d K (table_step (DestroyBase d) Nothing a)" using gone unfolding waits_as_def by blast
  show "callback_active D k t' \<longleftrightarrow> waiting (table_step (DestroyBase d) Nothing a) c \<noteq> None" if "K c = Some (i, k)" for c i k
    using gone [OF that] assms(3) by (simp add: callback_active_def)
qed (use stands_forD(2) [OF assms(1)] assms(2,3) in simp_all)

end


text \<open>The handler's dispatchers, with the channel to a host that is connected.\<close>

definition handler_stands_for ::
  "nat \<Rightarrow> nat \<Rightarrow> 'w Env \<Rightarrow> DomainDispatcher \<Rightarrow> nat \<Rightarrow> (nat \<rightharpoonup> cint \<times> cint) \<Rightarrow> RequestTable \<Rightarrow> 'w \<times> Handler \<Rightarrow> bool" where
  "handler_stands_for f state E dispatcher d K a s = reply_base.stands_for (connected_to f state) (dispatcher_base E dispatcher) d K a s"

lemma answers_sent_ids: "K c = Some (i, k) \<Longrightarrow> waits_as d K a \<Longrightarrow> answers_sent (Answer c p r) a = map (Pair i \<circ> snd) (answers_sent (Answer c p r) a)"
  using waits_asD [of d K a c i k] by (auto split: option.split)

lemma handler_answer:
  assumes "memory_ok s" and "callback_objects s c \<noteq> None" and "handler_stands_for f state E dispatcher d K (table_of s) t"
    and "K c = Some (i, k)" and "wf_message (response_message i r p)"
  shows "\<exists>s' t' ms. Callback_sendIfActive c p r s = (Inr (), s') \<and> sendIfActive (dispatcher_base E dispatcher) i k p r t = (Inr (), t') \<and>
    handler_stands_for f state E dispatcher d K (table_of s') t' \<and> sent s' = sent s @ map (Pair i) ms \<and>
    host_log (snd t') = host_log (snd t) @ map (\<lambda>m. ResponseSent f (message_text E m) state) ms"
proof -
  note stands = assms(3) [unfolded handler_stands_for_def]
  obtain s' where s': "Callback_sendIfActive c p r s = (Inr (), s')" "table_of s' = table_step (Answer c p r) Nothing (table_of s)"
      "sent s' = sent s @ answers_sent (Answer c p r) (table_of s)"
    using Callback_sendIfActive_run [OF assms(1,2), of p r] by blast
  obtain t' where t': "sendIfActive (dispatcher_base E dispatcher) i k p r t = (Inr (), t')"
      "handler_stands_for f state E dispatcher d K (table_of s') t'"
      "host_log (snd t') = host_log (snd t) @
         map ((\<lambda>m. ResponseSent f (message_text E m) state) \<circ> snd) (answers_sent (Answer c p r) (table_of s))"
    by (rule base.sendIfActive_table [OF stands assms(4,5)]) (simp add: handler_stands_for_def s'(2))
  have "answers_sent (Answer c p r) (table_of s) = map (Pair i) (map snd (answers_sent (Answer c p r) (table_of s)))"
    using answers_sent_ids [OF assms(4) base.stands_forD(3) [OF stands]] by simp
  with s'(1,3) t' show ?thesis
    by (intro exI [of _ s'] exI [of _ t'] exI [of _ "map snd (answers_sent (Answer c p r) (table_of s))"])
      (simp only: map_map simp_thms)
qed

end
