(* ===== verification/CommandName.thy ===== *)
theory CommandName
  imports Dispatcher JsonBuild
begin

section \<open>The method of a message that is not dispatched\<close>

text \<open>
  \<open>UberDispatcher::getCommandName\<close>: for a host that looks at a message before it dispatches it.  The out parameters are set exactly when
  the result is true, so they are the result.
\<close>

definition getCommandName ::
  "'s FrontendChannel option \<Rightarrow> string16 \<Rightarrow> ('s, fault, (string16 \<times> dict) option) M" where
  "getCommandName channel message =
     (case parseJSON message of
        None \<Rightarrow>
          seqM (reportProtocolErrorNotification channel kParseError
              (lit ''Message must be a valid JSON'')) (retM None)
      | Some value \<Rightarrow>
     (case DictionaryValue_cast (Some value) of
        None \<Rightarrow>
          seqM (reportProtocolErrorNotification channel kInvalidRequest
              (lit ''Message must be an object'')) (retM None)
      | Some object \<Rightarrow>
     (case getString object (lit ''method'') of
        None \<Rightarrow>
          seqM (reportProtocolErrorNotification channel kInvalidRequest
              (lit (''Message must have string '' @ [CHR 0x27] @ ''method'' @ [CHR 0x27] @ '' property'')))
            (retM None)
      | Some method \<Rightarrow> retM (Some (method, object)))))"

text \<open>A channel that takes its messages.\<close>

definition takes_messages :: "'s FrontendChannel option \<Rightarrow> bool" where
  "takes_messages channel \<longleftrightarrow>
     (case channel of
        None \<Rightarrow> True
      | Some c \<Rightarrow> (\<forall>i m s. fst (sendProtocolResponse c i m s) = Inr ()) \<and> (\<forall>m s. fst (sendProtocolNotification c m s) = Inr ()))"

lemma reports_return:
  assumes "takes_messages channel"
  shows "fst (seqM (reportProtocolErrorNotification channel code msg) (retM x) s) = Inr x"
    and "fst (seqM (reportProtocolErrorTo channel i code msg errs) (retM x) s) = Inr x"
  using assms
  by (auto simp: takes_messages_def reportProtocolErrorNotification_def reportProtocolErrorTo_def M_defs
      split: option.splits prod.splits sum.splits) (metis Inl_Inr_False fst_conv)+

text \<open>What has no command name is not dispatched; what has one fails at most for its id.\<close>

lemma no_name_no_dispatch:
  assumes "takes_messages channel" and "fst (getCommandName channel message s) = Inr None"
  shows "fst (uber_dispatch channel call u (parseJSON message) t) = Inr kError"
proof (cases "Option.bind (parseJSON message) (\<lambda>v. DictionaryValue_cast (Some v))")
  case None
  then show ?thesis using reports_return [OF assms(1)]
    by (auto simp: uber_dispatch_def split: option.splits bind_splits)
next
  case (Some object)
  then obtain v where v: "parseJSON message = Some v" "DictionaryValue_cast (Some v) = Some object" by (auto split: bind_splits)
  with assms(2) have "getString object (lit ''method'') = None"
    by (auto simp: getCommandName_def retM_def split: option.splits)
  then have "Option.bind (dict_get object (lit ''method'')) asString = None"
    by (simp add: getString_def split: option.splits)
  then show ?thesis using v reports_return [OF assms(1)]
    by (auto simp: uber_dispatch_def split: option.splits)
qed

lemma name_of_dispatched:
  assumes "getCommandName channel message s = (Inr (Some (method, object)), t)"
  shows "s = t" and "\<exists>v. parseJSON message = Some v \<and> DictionaryValue_cast (Some v) = Some object"
    and "Option.bind (dict_get object (lit ''method'')) asString = Some method"
  using assms by (auto simp: getCommandName_def M_defs getString_def split: option.splits prod.splits sum.splits)

end
