(* ===== verification/Optionals.thy ===== *)
theory Optionals
  imports ErrorHelpers
begin

section \<open>Optional values\<close>

text \<open>
  The two forms of \<open>Maybe\<close> in \<open>Protocol.h\<close>: a \<open>unique_ptr\<close> for objects, a flag and a member (\<open>MaybeBase\<close>) for \<open>bool\<close>, \<open>int\<close>,
  \<open>double\<close> and \<open>String\<close>.  The contract that both keep is an \<open>option\<close>, which is what the other theories have for a member of these types; they differ in what
  is left of a value that was moved from.  \<open>DCHECK\<close> is an empty macro.
\<close>

subsection \<open>\<open>Maybe\<close> of an object\<close>

record 'a Maybe =
  mp_value :: "'a option"

definition Maybe_nothing :: "'a Maybe" where
  "Maybe_nothing = Maybe.make None"

definition Maybe_just :: "'a \<Rightarrow> 'a Maybe" where
  "Maybe_just value = Maybe.make (Some value)"

text \<open>The new object and what is left of the other one.\<close>

definition Maybe_move :: "'a Maybe \<Rightarrow> 'a Maybe \<times> 'a Maybe" where
  "Maybe_move other = (Maybe.make (mp_value other), other\<lparr>mp_value := None\<rparr>)"

definition Maybe_assign :: "'a Maybe \<Rightarrow> 'a \<Rightarrow> 'a Maybe" where
  "Maybe_assign this value = this\<lparr>mp_value := Some value\<rparr>"

text \<open>A null pointer is \<open>None\<close>.\<close>

definition Maybe_fromJust :: "'a Maybe \<Rightarrow> 'a option" where
  "Maybe_fromJust this = mp_value this"

definition Maybe_fromMaybe :: "'a Maybe \<Rightarrow> 'a \<Rightarrow> 'a" where
  "Maybe_fromMaybe this defaultValue = (case mp_value this of Some value \<Rightarrow> value | None \<Rightarrow> defaultValue)"

definition Maybe_isJust :: "'a Maybe \<Rightarrow> bool" where
  "Maybe_isJust this \<longleftrightarrow> mp_value this \<noteq> None"

definition Maybe_takeJust :: "'a Maybe \<Rightarrow> 'a option \<times> 'a Maybe" where
  "Maybe_takeJust this = (mp_value this, this\<lparr>mp_value := None\<rparr>)"

subsection \<open>\<open>MaybeBase\<close>\<close>

text \<open>
  The default constructor leaves \<open>m_value\<close> as it is: \<open>indeterminate\<close>, or empty for a \<open>String\<close>.  \<open>moved\<close> is what the move constructor of the
  type leaves behind: the value itself for a number or a truth value, a valid but unspecified one for a \<open>String\<close>.
\<close>

record 'a MaybeBase =
  mb_isJust :: bool
  mb_value :: 'a

definition MaybeBase_nothing :: "'a \<Rightarrow> 'a MaybeBase" where
  "MaybeBase_nothing indeterminate = MaybeBase.make False indeterminate"

definition MaybeBase_just :: "'a \<Rightarrow> 'a MaybeBase" where
  "MaybeBase_just value = MaybeBase.make True value"

definition MaybeBase_move :: "('a \<Rightarrow> 'a) \<Rightarrow> 'a MaybeBase \<Rightarrow> 'a MaybeBase \<times> 'a MaybeBase" where
  "MaybeBase_move moved other =
     (MaybeBase.make (mb_isJust other) (mb_value other), other\<lparr>mb_value := moved (mb_value other)\<rparr>)"

definition MaybeBase_assign :: "'a MaybeBase \<Rightarrow> 'a \<Rightarrow> 'a MaybeBase" where
  "MaybeBase_assign this value = this\<lparr>mb_value := value, mb_isJust := True\<rparr>"

definition MaybeBase_fromJust :: "'a MaybeBase \<Rightarrow> 'a" where
  "MaybeBase_fromJust this = mb_value this"

definition MaybeBase_fromMaybe :: "'a MaybeBase \<Rightarrow> 'a \<Rightarrow> 'a" where
  "MaybeBase_fromMaybe this defaultValue = (if mb_isJust this then mb_value this else defaultValue)"

definition MaybeBase_isJust :: "'a MaybeBase \<Rightarrow> bool" where
  "MaybeBase_isJust this = mb_isJust this"

definition MaybeBase_takeJust :: "'a MaybeBase \<Rightarrow> 'a \<times> 'a MaybeBase" where
  "MaybeBase_takeJust this = (mb_value this, this)"

subsection \<open>The contract\<close>

text \<open>\<open>contents\<close> is the option that an object stands for.\<close>

locale optional_value =
  fixes contents :: "'m \<Rightarrow> 'a option"
    and nothing :: 'm and just :: "'a \<Rightarrow> 'm" and move :: "'m \<Rightarrow> 'm \<times> 'm" and assign :: "'m \<Rightarrow> 'a \<Rightarrow> 'm"
    and fromJust :: "'m \<Rightarrow> 'a option" and fromMaybe :: "'m \<Rightarrow> 'a \<Rightarrow> 'a" and isJust :: "'m \<Rightarrow> bool"
  assumes contents_nothing: "contents nothing = None"
    and contents_just: "contents (just x) = Some x"
    and contents_move: "contents (fst (move m)) = contents m"
    and contents_assign: "contents (assign m x) = Some x"
    and isJust_contents: "isJust m \<longleftrightarrow> contents m \<noteq> None"
    and fromJust_contents: "isJust m \<Longrightarrow> fromJust m = contents m"
    and fromMaybe_contents: "fromMaybe m y = (case contents m of Some x \<Rightarrow> x | None \<Rightarrow> y)"
begin

text \<open>
  How the generated readers use it: nothing, set when the message has the member, then moved through any number of
  calls.  What arrives is the option of the member.
\<close>

definition read_member :: "'a option \<Rightarrow> 'm" where
  "read_member member = (case member of None \<Rightarrow> nothing | Some x \<Rightarrow> assign nothing x)"

fun pass_on :: "nat \<Rightarrow> 'm \<Rightarrow> 'm" where
  "pass_on 0 m = m"
| "pass_on (Suc n) m = pass_on n (fst (move m))"

lemma read_member: "contents (read_member member) = member"
  by (simp add: read_member_def contents_nothing contents_assign split: option.split)

lemma pass_on: "contents (pass_on n m) = contents m"
  by (induction n arbitrary: m) (simp_all add: contents_move)

lemma received:
  "isJust (pass_on n (read_member member)) \<longleftrightarrow> member \<noteq> None"
  "fromMaybe (pass_on n (read_member member)) y = (case member of Some x \<Rightarrow> x | None \<Rightarrow> y)"
  "member = Some x \<Longrightarrow> fromJust (pass_on n (read_member member)) = Some x"
  by (auto simp: isJust_contents fromMaybe_contents fromJust_contents pass_on read_member)

end

definition MaybeBase_contents :: "'a MaybeBase \<Rightarrow> 'a option" where
  "MaybeBase_contents m = (if mb_isJust m then Some (mb_value m) else None)"

lemmas maybe_defs = Maybe.make_def Maybe_nothing_def Maybe_just_def Maybe_move_def Maybe_assign_def Maybe_fromJust_def
  Maybe_fromMaybe_def Maybe_isJust_def Maybe_takeJust_def

lemmas maybe_base_defs = MaybeBase.make_def MaybeBase_nothing_def MaybeBase_just_def MaybeBase_move_def MaybeBase_assign_def
  MaybeBase_fromJust_def MaybeBase_fromMaybe_def MaybeBase_isJust_def MaybeBase_takeJust_def MaybeBase_contents_def

interpretation maybe: optional_value mp_value Maybe_nothing Maybe_just Maybe_move Maybe_assign
  Maybe_fromJust Maybe_fromMaybe Maybe_isJust
  by unfold_locales (auto simp: maybe_defs)

interpretation maybe_base: optional_value MaybeBase_contents "MaybeBase_nothing indeterminate" MaybeBase_just "MaybeBase_move moved"
  MaybeBase_assign "\<lambda>m. Some (MaybeBase_fromJust m)" MaybeBase_fromMaybe MaybeBase_isJust for indeterminate moved
  by unfold_locales (auto simp: maybe_base_defs)

text \<open>
  What was moved from, or taken: an object is gone, a plain value is still there, so that \<open>isJust\<close> does not tell whether it was
  taken.
\<close>

lemma taken:
  "\<not> Maybe_isJust (snd (Maybe_move m))" "\<not> Maybe_isJust (snd (Maybe_takeJust m))"
  "fst (Maybe_takeJust (snd (Maybe_takeJust m))) = None"
  "MaybeBase_isJust (snd (MaybeBase_move moved b)) = MaybeBase_isJust b" "MaybeBase_takeJust b = (mb_value b, b)"
  by (simp_all add: maybe_defs maybe_base_defs)

text \<open>A member of a request reaches the handler as the option that was read, through either form.\<close>

lemma maybe_received:
  "Maybe_isJust (maybe.pass_on n (maybe.read_member member)) \<longleftrightarrow> member \<noteq> None"
  "MaybeBase_isJust (maybe_base.pass_on moved n (maybe_base.read_member indeterminate member)) \<longleftrightarrow> member \<noteq> None"
  "MaybeBase_fromMaybe (maybe_base.pass_on moved n (maybe_base.read_member indeterminate member)) y =
     (case member of Some x \<Rightarrow> x | None \<Rightarrow> y)"
  by (rule maybe.received, rule maybe_base.received, rule maybe_base.received)

end
