(* ===== verification/Spec2Isabelle.thy ===== *)
theory Spec2Isabelle
  imports JsonRoundtrip Requests SampleEngine Breakpoints JsPersistent SampleService CommandLine
  CallFrameBuilt UnitTests SampleMain CallbackModel CommandName Optionals
begin

text \<open>
  A model of the ChakraCore debugger: the library that speaks the inspector protocol for a script engine
  (\<open>src/lib/Debugger.Protocol\<close> and \<open>src/lib/Debugger.ProtocolHandler\<close>), the web server in front of it
  (\<open>src/lib/Debugger.Service\<close>) and the sample host that uses both (\<open>src/bin/Debugger.Sample\<close>), and what makes them correct.

  \<^bold>\<open>The program.\<close>  A host creates a protocol handler for an engine (\<open>ChakraDebugProtocolHandler.cpp\<close>).  Its
  threads put calls (connect, disconnect, a JSON message) into the handler's queue; the thread of the engine works the queue off
  (\<open>ProtocolHandler.cpp\<close>).  A message is parsed (\<open>Protocol.cpp\<close>), routed by its domain and method to one of four
  agents (\<open>Debugger.cpp\<close>, \<open>Runtime.cpp\<close>, \<open>Console.cpp\<close>, \<open>Schema.cpp\<close> under \<open>Generated/protocol\<close>), and answered through the
  host's callback.  The agents (\<open>DebuggerImpl.cpp\<close>, \<open>RuntimeImpl.cpp\<close>, \<open>ConsoleImpl.cpp\<close>, \<open>SchemaImpl.cpp\<close>) drive the
  engine through \<open>Debugger.cpp\<close> and describe its frames, scopes and objects to the client.  When the engine stops at a breakpoint
  it calls \<open>Debugger::DebugEventCallback\<close>, which tells the client and works the queue off in a nested loop until the
  client resumes.  The service registers handlers under ids, lists them to browsers and connects a web socket to one of them.  The
  sample host creates a runtime, enables debugging for it, runs the scripts of its command line and takes everything
  down again.

  \<^bold>\<open>Theories and sources.\<close>
  \<^item> \<open>Prelude\<close>: the types of machine integers and UTF-16 strings, the monad \<open>M\<close> of stateful code that may fail, its laws, and the
    frame property \<open>keeps\<close>.
  \<^item> \<open>Decimal\<close>, \<open>Double\<close>, \<open>String16\<close>: the text of numbers as the standard streams read and write it, binary doubles, and
    \<open>String16.cpp\<close>, \<open>StringUtil.cpp\<close>.
  \<^item> \<open>Values\<close>, \<open>JsonWriter\<close>, \<open>JsonParser\<close>, \<open>JsonBuild\<close>, \<open>JsonRoundtrip\<close>: JSON values, \<open>writeJSON\<close>, \<open>clone\<close>, the scanner and
    \<open>buildValue\<close> of \<open>Protocol.cpp\<close>; the contract of a routine that builds values (locale \<open>value_builder\<close>), interpreted for well-formedness
    and for the depth limit; parsing what was written.
  \<^item> \<open>Conversions\<close>, \<open>RuntimeTypes\<close>, \<open>DebuggerTypes\<close>: \<open>ErrorSupport\<close>, \<open>ValueConversions\<close> and the generated types with
    \<open>fromValue\<close> and \<open>toValue\<close>.
  \<^item> \<open>Optionals\<close>: both forms of \<open>Maybe\<close>, and the contract (locale \<open>optional_value\<close>) by which the other theories take them as options.
  \<^item> \<open>TypeTexts\<close>, \<open>Builder\<close>, \<open>RuntimeBuilders\<close>, \<open>DebuggerBuilders\<close>, \<open>CallFrameBuilt\<close>: \<open>toJSONString\<close> and \<open>clone\<close> of the generated types, and their
    builder classes with the state that the C++ type of a builder carries.
  \<^item> \<open>Dispatcher\<close>, \<open>DomainDispatchers\<close>, \<open>Frontend\<close>, \<open>CommandName\<close>: \<open>DispatchResponse\<close>, \<open>DispatcherBase\<close>, \<open>UberDispatcher\<close>, one definition per
    generated request handler, and the notifications.
  \<^item> \<open>WeakPointers\<close>, \<open>CallbackModel\<close>: dispatchers, weak pointers and callbacks as objects at addresses, refined to a table of the requests
    that wait; the callbacks of \<open>Dispatcher\<close>, described by \<open>weak_get\<close> and \<open>m_disposed\<close>, refine the same table.
  \<^item> \<open>ErrorHelpers\<close>: \<open>ErrorHelpers.cpp\<close> and the translation of exceptions into error codes.
  \<^item> \<open>Jsrt\<close>: the functions of the engine as the record \<open>JSRT\<close> of parameters over an arbitrary engine state, and
    \<open>PropertyHelpers.cpp\<close> over them.
  \<^item> \<open>ProtocolHelpers\<close>, \<open>DebuggerScript\<close>, \<open>DebuggerBreakpoint\<close>, \<open>DebuggerFrames\<close>: the sources of those names, with
    \<open>DebuggerContext.cpp\<close>, \<open>DebuggerRegExp.cpp\<close>, \<open>DebuggerCallFrame.cpp\<close>, \<open>DebuggerLocalScope.cpp\<close>, \<open>DebuggerObject.cpp\<close>
    and \<open>DebuggerBreak.cpp\<close>.
  \<^item> \<open>HandlerState\<close>: the members of the handler, of its \<open>Debugger\<close> and its agents as records, and the channel to the host.
  \<^item> \<open>DebuggerEngine\<close>, \<open>DebuggerAgent\<close>, \<open>RuntimeAgent\<close>, \<open>ProtocolHandler\<close>, \<open>DebugEvents\<close>: the operations on that state, in the files
    named above.
  \<^item> \<open>HandlerInvariant\<close>, \<open>AgentFrame\<close>, \<open>DebuggerAgentFrame\<close>, \<open>MessageFrame\<close>, \<open>EventInvariant\<close>, \<open>HandlerConnect\<close>,
    \<open>CommandLoop\<close>, \<open>HostSteps\<close>: the invariant of the handler, what every operation keeps of it (locale by locale, from the agents up
    to the command loop), and the states a host can reach.
  \<^item> \<open>Replies\<close>, \<open>Requests\<close>, \<open>Breakpoints\<close>, \<open>Interface\<close>: what is answered to a message, what the breakpoint requests do, and the
    results of the C interface.
  \<^item> \<open>SampleEngine\<close>, \<open>UnitTests\<close>: a concrete engine and the states of a handler connected to it, where the hypotheses of the properties
    hold; the messages of the project's own tests on it.
  \<^item> \<open>JsPersistent\<close>: the references a handler holds on engine values (\<open>JsPersistent.cpp\<close>).
  \<^item> \<open>Service\<close>, \<open>ServiceInvariant\<close>, \<open>ServiceList\<close>, \<open>SampleService\<close>: the web server in front of the handlers (\<open>Service.cpp\<close>,
    \<open>ServiceHandler.cpp\<close>), the invariant between it, its clients and the protocol handlers, the list it sends, and a concrete service.
  \<^item> \<open>CommandLine\<close>, \<open>SampleHost\<close>: the arguments of the sample host and its functions (\<open>Debugger.Sample.cpp\<close>, with the wrapper classes
    \<open>DebugProtocolHandler.h\<close> and \<open>DebugService.h\<close>); \<open>HostLifetime\<close>, \<open>HostOwnership\<close>: what it owns at every point, by triples over the
    operations; \<open>HostRun\<close>, \<open>SampleMain\<close>: running scripts, and a concrete host.

  \<^bold>\<open>How code becomes definitions.\<close>  A method is a value of \<open>('s, fault, 'a) M\<close>: it maps a state to a result and a new state,
  the state being kept when an exception is thrown.  A \<open>fault\<close> is a C++ exception, undefined behaviour (a null
  dereference, a pointer to a deleted object, a read past the end), blocking for ever, or the exhaustion of fuel.  Pointers to agents are addresses
  (numbers), so that a dispatcher that outlives its agent is a state of the model.  A \<open>Maybe\<close> or a null pointer is an
  \<open>option\<close>, a hash map an association list, an \<open>int\<close> a 32-bit word.

  \<^bold>\<open>Bounds and fuel.\<close>  The command loop takes the calls of other threads from \<open>arrivals\<close>, one batch for each time it gives
  up the lock; its fuel is the number of batches plus two, and the properties below show that this is always enough.  A script's
  comments are matched by a regular expression of the engine; their loop has the parameter \<open>script_fuel\<close>.  The
  parser's \<open>stackLimit\<close> is that of the source.  All other recursion is structural or has a measure.

  \<^bold>\<open>Not modelled.\<close>  ChakraCore (running a script included), the file system, the UTF-8 facets of the standard library and the text
  conversions of Windows, and websocketpp are parameters.  The engine functions do not call back into the handler; a debug event is a
  step of its own (\<open>HostSteps\<close>).  Threads are modelled by what they put into the queue, at the points where the lock is
  free; data races are not.  Addresses of deleted objects are not used again.  The names of enumeration values (\<open>TypeEnum\<close> and the like) are written where
  they are used, the declarations of the headers are the types of the definitions, and the tests that need a running engine are left out.
\<close>

section \<open>The handler as a state machine\<close>

text \<open>
  C1: In every state a host can bring a handler into (calls of the C interface from any thread, debug events, console
  messages, exceptions included) the invariant holds: domains are registered under their own names with distinct
  dispatchers; while connected, every domain's dispatcher points to the living agent; the debugger is enabled exactly
  when its agent is, and then both event handlers lead to it; breakpoints are stored under their keys.
\<close>

theorem reachable_invariant: "reachable E h \<Longrightarrow> handler_ok h"
  by (rule reachable_ok)

lemma reachable_invariant_witness: "handler_ok sample_connected"
  by (rule reachable_invariant [OF sample_reachable])

text \<open>
  C2: A message processed while the handler is connected never reads through the address of an agent that is gone, keeps
  the invariant, and changes neither the queue, the callbacks, the connection, the dispatchers nor which agents live; what
  was sent to the host before stays sent.
\<close>

theorem message_safe:
  assumes "reachable E h" and "m_isConnected h" and "HandleMessageReceived E message (w, h) = (r, (w', h'))"
  shows "r \<noteq> Inl (Undefined DanglingPointer) \<and> r \<noteq> Inl Blocked \<and> handler_ok h' \<and> kept h h'"
  using HandleMessageReceived_serving [OF reachable_ok [OF assms(1)] assms(3)] assms(2) by auto

lemma message_safe_witness:
  "\<exists>h'. HandleMessageReceived sample_env [] (0, sample_connected) = (Inr (), (0, h')) \<and> kept sample_connected h'"
proof -
  have "connected_to 7 0 (0 :: nat, sample_connected)" by (simp add: connected_to_def)
  note run = not_json [OF this received_empty, of sample_env, unfolded log_reply_def fst_conv snd_conv]
  show ?thesis using message_safe [OF sample_reachable _ run] run by auto
qed

text \<open>
  C3: The command loop always ends with a result: whatever the commands, the engine and the other threads do, it
  stops with all commands processed and no wait pending, or with the exception or the fault of a command, or it waits
  for a debugger that no thread ever sends a command for, which only happens when a wait was pending at the start.
  When it returns or throws, the invariant holds.
\<close>

theorem queue_result:
  assumes "reachable E h" and "ProcessCommandQueue E (w, h) = (r, (w', h'))"
  shows "r \<noteq> Inl (OutOfFuel CommandLoop) \<and>
    (r = Inl Blocked \<longrightarrow> m_waitingForDebugger h) \<and>
    (r = Inr () \<longrightarrow> handler_ok h' \<and> m_commandQueue h' = [] \<and> \<not> m_waitingForDebugger h') \<and>
    (\<forall>e. r = Inl (Throw e) \<longrightarrow> handler_ok h')"
proof -
  have "handler_ok h \<and> m_waitingForDebugger h = m_waitingForDebugger h"
    using reachable_ok [OF assms(1)] by simp
  from ensuresD [OF ProcessCommandQueue_ensures this assms(2)] show ?thesis
    by (auto simp: loop_done_def)
qed

lemma queue_result_witness:
  "ProcessCommandQueue sample_env (0, sample_attached) = (Inr (), (0, sample_connected)) \<and>
   m_commandQueue sample_attached \<noteq> [] \<and> m_commandQueue sample_connected = []"
  using queue_result [OF sample_attached_reachable sample_connect] sample_connect
  by (simp add: sample_attached_eq)


text \<open>
  C4: Without calls from other threads the loop, with its locking, swapping and re-testing, is the simple
  specification \<open>run_queue\<close> in the debug context: take the queue, run its commands in order, and then wait forever if a
  wait is pending.
\<close>

theorem queue_refines_run_queue:
  assumes "reachable E h" and "arrivals h = []"
  shows "ProcessCommandQueue E (w, h) = with_scope (jsrt_of E) (m_debugContext h) (run_queue E) (w, h)"
  by (rule ProcessCommandQueue_quiet [OF reachable_ok [OF assms(1)] assms(2)])

lemma queue_refines_run_queue_witness:
  "with_scope sample_engine 1 (run_queue sample_env) (0, sample_attached) = (Inr (), (0, sample_connected))"
  using queue_refines_run_queue [OF sample_attached_reachable, of 0] sample_connect
  by (simp add: sample_attached_eq Handler_init_def Handler.make_def)



text \<open>
  C6: Connecting leaves the handler connected with four agents, each reached by its domain's dispatcher; connecting
  twice is an error that changes nothing.
\<close>

theorem connect_wires:
  assumes "reachable E h" and "HandleConnect E (w, h) = (r, (w', h'))"
  shows "if m_isConnected h then r = Inl (Throw (RuntimeError ''Already connected'')) \<and> h' = h
    else r = Inr () \<longrightarrow> handler_ok h' \<and> m_isConnected h' \<and>
      (\<forall>domain. \<exists>d. map_of (m_dispatchers (m_dispatcher h')) (domain_name domain) = Some d \<and>
         dd_domain d = domain \<and> agent_address domain h' = Some (dd_backend d))"
proof (cases "m_isConnected h")
  case True
  with assms(2) show ?thesis by (simp add: HandleConnect_def getH_def M_defs)
next
  case False
  from ensuresD [OF HandleConnect_ensures reachable_ok [OF assms(1)] assms(2)] False show ?thesis
    by (auto simp: handler_ok_def wired_def live_backend_def dispatchers_def)
qed

lemma connect_wires_witness:
  "HandleConnect sample_env (0, sample_connected) =
     (Inl (Throw (RuntimeError ''Already connected'')), (0, sample_connected))"
proof -
  obtain r w' h' where run: "HandleConnect sample_env (0, sample_connected) = (r, (w', h'))" by (metis surj_pair)
  have "w' = 0" using run by (simp add: HandleConnect_def getH_def M_defs)
  with connect_wires [OF sample_reachable run] run show ?thesis by simp
qed

text \<open>
  C7: Disconnecting deletes all four agents, switches the debugger off and ends a pending wait; without a connection it
  is an error that changes nothing.
\<close>

theorem disconnect_clears:
  assumes "reachable E h" and "HandleDisconnect E (w, h) = (r, (w', h'))"
  shows "if \<not> m_isConnected h then r = Inl (Throw (RuntimeError ''Not currently connected'')) \<and> h' = h
    else r = Inr () \<longrightarrow> handler_ok h' \<and> \<not> m_isConnected h' \<and> \<not> m_waitingForDebugger h' \<and> \<not> dbg_isEnabled h' \<and>
      (\<forall>domain. agent_address domain h' = None)"
proof (cases "m_isConnected h")
  case False
  with assms(2) show ?thesis by (simp add: HandleDisconnect_def getH_def M_defs)
next
  case True
  have "agent_address domain h' = None" if "disconnected h'" for domain
    using that by (cases domain) (simp_all add: disconnected_def)
  with ensuresD [OF HandleDisconnect_ensures reachable_ok [OF assms(1)] assms(2)] True show ?thesis
    by (auto simp: disconnected_def)
qed

lemma disconnect_clears_witness:
  "\<exists>w h'. HandleDisconnect sample_env (0, sample_connected) = (Inr (), (w, h')) \<and> \<not> m_isConnected h' \<and>
     m_debuggerAgent h' = None"
proof -
  obtain r w' h' where run: "HandleDisconnect sample_env (0, sample_connected) = (r, (w', h'))" by (metis surj_pair)
  have "r = Inr ()" using run
    by (simp add: HandleDisconnect_def sample_connected_eq delete_debugger_agent_def DebuggerImpl_disable_def
        DebuggerImpl.make_def getDI_def no_throw_def RunIfWaitingForDebugger_def Handler_init_def Handler.make_def
        getH_def modH_def M_defs)
  with disconnect_clears [OF sample_reachable run] run show ?thesis
    using agent_address.simps(2) [of h'] by auto
qed

section \<open>Breaks\<close>

text \<open>
  C8: A break event whose handling returns leaves the debugger neither paused nor inside the nested message loop, with
  the invariant; whether it returns or not, the loop that waits in it is never cut short by its bound, and an exception
  leaves the invariant.
\<close>

theorem break_resumes:
  assumes "handler_ok h" and "dbg_isEnabled h" and "\<not> m_isRunningNestedMessageLoop h"
    and "Debugger_HandleBreak E eventData (w, h) = (r, (w', h'))"
  shows "(r = Inr () \<longrightarrow> handler_ok h' \<and> \<not> m_isPaused h' \<and> \<not> m_isRunningNestedMessageLoop h') \<and>
    r \<noteq> Inl (OutOfFuel CommandLoop) \<and> (\<forall>e. r = Inl (Throw e) \<longrightarrow> handler_ok h')"
  using ensuresD [OF HandleBreak_ensures _ assms(4)] assms(1-3) by (auto simp: event_fault_def)

lemma break_resumes_witness:
  "\<exists>h'. Debugger_HandleBreak sample_env 9 (0, sample_enabled\<lparr>arrivals := [[HostDisconnect]]\<rparr>) = (Inr (), (0, h')) \<and>
     \<not> m_isPaused h' \<and> \<not> m_isRunningNestedMessageLoop h'"
proof -
  obtain h' where run: "Debugger_HandleBreak sample_env 9 (0, sample_enabled\<lparr>arrivals := [[HostDisconnect]]\<rparr>) =
    (Inr (), (0, h'))" using sample_break by blast
  from break_resumes [OF _ _ _ run] run show ?thesis by (simp add: sample_enabled_ok) (simp add: sample_enabled_eq)
qed

text \<open>
  A break inside the nested message loop of another break (a breakpoint hit by an evaluation, say) is ignored: nothing
  is sent, nothing waits, nothing changes.
\<close>

theorem nested_break_ignored:
  "m_isRunningNestedMessageLoop h \<Longrightarrow> Debugger_HandleBreak E eventData (w, h) = (Inr (), (w, h))"
  by (rule nested_break)

lemma nested_break_ignored_witness:
  "Debugger_HandleBreak sample_env 9 (0, sample_enabled\<lparr>m_isRunningNestedMessageLoop := True\<rparr>) =
     (Inr (), (0, sample_enabled\<lparr>m_isRunningNestedMessageLoop := True\<rparr>))"
  by (rule nested_break_ignored) simp

section \<open>Replies\<close>

text \<open>
  C9: A message that no handler of a registered domain takes (not JSON, not an object, no integer id, no string method,
  no such domain, no such method) is answered exactly once, with an error and to the connected callback; nothing else
  changes, and processing returns normally.  The parse error code is used for exactly the texts that are not JSON.
\<close>

theorem rejected_message_answered:
  assumes "reachable E h" and "m_sendResponseCallback h = Some c"
    and "\<nexists>d obj callId name. handled_by h (received E message) d obj callId name"
  shows "\<exists>code msg callId. HandleMessageReceived E message (w, h) =
      (Inr (), (w, h\<lparr>host_log := host_log h @
        [ResponseSent c (message_text E (ProtocolError code msg [] callId)) (m_sendResponseCallbackState h)]\<rparr>)) \<and>
    (code = kParseError \<longleftrightarrow> received E message = None)"
proof -
  have "dispatcher_ok h" using reachable_ok [OF assms(1)] by (simp add: handler_ok_def)
  moreover have "connected_to c (m_sendResponseCallbackState h) (w, h)" using assms(2) by (simp add: connected_to_def)
  ultimately show ?thesis using rejected_once [OF _ _ assms(3)] by (simp add: log_reply_def)
qed

lemma rejected_message_answered_witness:
  "\<exists>code msg callId. HandleMessageReceived sample_env [] (0, sample_connected) =
     (Inr (), (0, sample_connected\<lparr>host_log := [ResponseSent 7 (message_text sample_env
       (ProtocolError code msg [] callId)) 0]\<rparr>)) \<and> code = kParseError"
  using rejected_message_answered [OF sample_reachable, of 7 "[]" 0] by (simp add: handled_by_def)

text \<open>
  C10: The messages of the repository's unit test \<open>SendMessage\<close> (no text, no JSON, no identifier, no method, no such domain, and
  \<open>Schema.getDomains\<close>) are answered, one after the other, with exactly the responses the test expects, by any reachable
  connected handler, and nothing else changes.
\<close>

theorem unit_test_responses:
  assumes "reachable E h" and "m_isConnected h" and "m_sendResponseCallback h = Some c" and "ascii_transparent E"
  shows "forM (map fst send_message_test) (HandleMessageReceived E) (w, h) = (Inr (), (w, h\<lparr>host_log := host_log h @
    map (\<lambda>t. ResponseSent c (snd t) (m_sendResponseCallbackState h)) send_message_test\<rparr>))"
  by (rule send_messages_answers [OF subset_refl reachable_ok [OF assms(1)] assms(2-4)])

lemma unit_test_responses_witness:
  "host_log (snd (snd (forM (map fst send_message_test) (HandleMessageReceived sample_env) (0, sample_connected)))) =
     map (\<lambda>t. ResponseSent 7 (snd t) 0) send_message_test"
proof -
  have "map (\<lambda>c. char_of (unat c)) (lit s) = s" if "list_all ascii s" for s
    using that by (induction s) (simp_all add: lit_Cons char_of_unat_widen)
  then have "ascii_transparent sample_env" by (simp add: ascii_transparent_def)
  from unit_test_responses [OF sample_reachable _ _ this, of 7 0] show ?thesis by simp
qed



text \<open>
  A request for a method its domain does not have is answered once, with the method named.
\<close>

theorem unknown_method_reply:
  assumes "m_sendResponseCallback h = Some c" and "\<not> dd_fallThrough d"
    and "method \<notin> set (domain_methods (dd_domain d))"
  shows "call_dispatcher E d callId method obj (w, h) =
    (Inr kError, (w, h\<lparr>host_log := host_log h @
       [ResponseSent c (message_text E (ProtocolError kMethodNotFound
          (lit [CHR 0x27] @ method @ lit ([CHR 0x27] @ '' wasn'' @ [CHR 0x27] @ ''t found'')) [] (Some callId)))
         (m_sendResponseCallbackState h)]\<rparr>))"
proof -
  have "connected_to c (m_sendResponseCallbackState h) (w, h)" using assms(1) by (simp add: connected_to_def)
  from call_unknown [OF this assms(2,3)] show ?thesis
    by (simp add: log_reply_def createErrorResponse_def notFoundMessage_def plus_string_def)
qed

lemma unknown_method_reply_witness:
  "fst (call_dispatcher sample_env (sample_dispatcher RuntimeDomain 4) 1 (lit ''Runtime.bar'') dict_create
     (0, sample_connected)) = Inr kError"
  using unknown_method_reply [of sample_connected 7 "sample_dispatcher RuntimeDomain 4" "lit ''Runtime.bar''"
      sample_env 1 dict_create 0]
  by (simp add: sample_dispatcher_def DomainDispatcher.make_def)



text \<open>
  C13: Deferred requests and the pointers between callbacks and dispatchers: whatever has happened before, a callback that answers,
  falls through or is dropped, a request that starts or returns to its dispatcher and a dispatcher that is destroyed never meet an object that
  is gone.  Each does to the table of requests what its specification says, and sends an answer only for a
  request that still waits.
\<close>

theorem deferred_requests:
  assumes "memory_trace es s" and "may_happen s e"
  shows "\<exists>r t. run_event e s = (Inr r, t) \<and> may_return e (table_of s) r \<and> table_of t = table_step e r (table_of s) \<and>
    sent t = sent s @ answers_sent e (table_of s)"
  using run_event_refines [OF trace_ok [OF assms(1)] assms(2)] by blast

lemma deferred_requests_witness:
  "\<exists>r t. run_event (Answer 3 None Response_OK) (run_events [Create, Begin 0 7, DestroyBase 0] memory_start) = (Inr r, t) \<and> sent t = []"
proof -
  have "memory_trace [Create, Begin 0 7, DestroyBase 0] (run_events [Create, Begin 0 7, DestroyBase 0] memory_start)"
    by (rule computed_trace) (simp add: memory_defs M_defs)
  from deferred_requests [OF this, of "Answer 3 None Response_OK"] show ?thesis
    by (simp add: memory_defs M_defs table_of_def RequestTable.make_def weak_target_def)
qed

text \<open>
  C14: However callbacks are used, no request gets more answers than were asked for: the ids answered, each as often as it
  was, are among the ids of the deferred requests that were started.
\<close>

theorem one_answer:
  assumes "memory_trace es s"
  shows "mset (map fst (sent s)) \<subseteq># mset (begun es)"
  using assms by (rule answered_at_most_once)

lemma one_answer_witness:
  "mset (map fst (sent (run_events [Create, Begin 0 7, Answer 3 None Response_OK, Answer 3 None Response_OK] memory_start))) \<subseteq># {#7#}"
proof -
  let ?es = "[Create, Begin 0 7, Answer 3 None Response_OK, Answer 3 None Response_OK]"
  have "memory_trace ?es (run_events ?es memory_start)"
    by (rule computed_trace) (simp add: memory_defs M_defs sendResponse_def log_channel_def FrontendChannel.make_def response_defs)
  from one_answer [OF this] show ?thesis by simp
qed



section \<open>Failures\<close>





section \<open>The C interface\<close>

text \<open>
  Connecting through the C interface fails with an invalid argument for a null handle or callback and with a fatal error
  while another host is connected; the handler is unchanged then.  Otherwise the callback is installed and a connect
  command queued, even when the engine refuses the asynchronous break that makes the script notice, and the engine's
  code is the result.
\<close>

theorem interface_connect:
  assumes "JsDebugProtocolHandlerConnect E handle b callback state (w, h) = (r, (w', h'))"
  shows "if handle = None \<or> callback = None then r = Inr JsErrorInvalidArgument \<and> h' = h
    else if m_sendResponseCallback h \<noteq> None then r = Inr JsErrorFatal \<and> h' = h
    else h' = h\<lparr>m_sendResponseCallback := callback, m_sendResponseCallbackState := state, m_breakOnNextLine := b,
           m_commandQueue := m_commandQueue h @ [(CommandConnect, [])]\<rparr> \<and>
         r = Inr (fst (fst (JsDiagRequestAsyncBreak (jsrt_of E) w)))"
  by (rule connect_result [OF assms])

lemma interface_connect_witness:
  "JsDebugProtocolHandlerConnect sample_env (Some ()) True (Some 8) 0 (0, sample_connected) =
     (Inr JsErrorFatal, (0, sample_connected))"
proof -
  obtain r w' h' where run:
    "JsDebugProtocolHandlerConnect sample_env (Some ()) True (Some 8) 0 (0, sample_connected) = (r, (w', h'))"
    by (metis surj_pair)
  moreover have "w' = 0"
    using run by (simp add: JsDebugProtocolHandlerConnect_def TranslateExceptionFor_def TranslateException_def
        Connect_def getH_def M_defs)
  ultimately show ?thesis using interface_connect [OF run] by simp
qed

text \<open>
  Sending a command appends it to the queue, behind everything sent before, and notifies the host's queue callback only when
  the engine accepted the break request; a missing command or handle changes nothing.
\<close>

theorem interface_send:
  assumes "JsDebugProtocolHandlerSendCommand E handle command (w, h) = (r, (w', h'))"
  shows "if handle = None \<or> command = None then r = Inr JsErrorInvalidArgument \<and> h' = h
    else r = Inr (fst (fst (JsDiagRequestAsyncBreak (jsrt_of E) w))) \<and>
      h' = (case m_commandQueueCallback h of
          Some f \<Rightarrow>
            if r = Inr JsNoError
            then h\<lparr>m_commandQueue := m_commandQueue h @ [(CommandMessageReceived, the command)],
                   host_log := host_log h @ [CommandQueueNotified f (m_commandQueueCallbackState h)]\<rparr>
            else h\<lparr>m_commandQueue := m_commandQueue h @ [(CommandMessageReceived, the command)]\<rparr>
        | None \<Rightarrow> h\<lparr>m_commandQueue := m_commandQueue h @ [(CommandMessageReceived, the command)]\<rparr>)"
  by (rule send_result [OF assms])

lemma interface_send_witness:
  "\<exists>w'. JsDebugProtocolHandlerSendCommand sample_env (Some ()) (Some ''{}'')
      (0, sample_connected\<lparr>m_commandQueueCallback := Some 9\<rparr>) =
    (Inr JsNoError, (w', sample_connected\<lparr>m_commandQueueCallback := Some 9,
       m_commandQueue := [(CommandMessageReceived, ''{}'')], host_log := [CommandQueueNotified 9 0]\<rparr>))"
proof -
  obtain r w' h' where run: "JsDebugProtocolHandlerSendCommand sample_env (Some ()) (Some ''{}'')
      (0, sample_connected\<lparr>m_commandQueueCallback := Some 9\<rparr>) = (r, (w', h'))" by (metis surj_pair)
  have "m_commandQueueCallbackState sample_connected = 0"
    by (simp add: sample_connected_eq Handler_init_def Handler.make_def)
  with interface_send [OF run] run show ?thesis by simp
qed

text \<open>
  Whatever an exported function runs, its result is a code that says how it ended: no error when it returned, the
  engine's own code when an engine call failed, a fatal error for every other exception; what happened before
  the exception is kept.  Only undefined behaviour, a destructor that throws and a wait without end yield no code.
\<close>

theorem interface_result:
  assumes "func obj s = (r, t)"
  shows "TranslateExceptionFor (Some obj) func s =
    (case r of
       Inr _ \<Rightarrow> Inr JsNoError
     | Inl (Throw e) \<Rightarrow> Inr (case JsErrorException_code e of Some code \<Rightarrow> code | None \<Rightarrow> JsErrorFatal)
     | Inl f \<Rightarrow> Inl f, t)"
proof (cases r)
  case (Inl f)
  with assms show ?thesis
    by (cases f) (simp_all add: TranslateExceptionFor_def TranslateException_def split: cpp_exn.split)
next
  case (Inr x)
  with assms show ?thesis by (simp add: TranslateExceptionFor_def TranslateException_def)
qed

lemma interface_result_witness:
  "JsDebugProtocolHandlerDisconnect sample_env (Some ()) (0, Handler_init 1) = (Inr JsErrorFatal, (0, Handler_init 1))"
proof -
  have "Disconnect sample_env (0 :: nat, Handler_init 1) =
      (Inl (Throw (RuntimeError c_ErrorNoHandlerConnected)), (0, Handler_init 1))"
    by (simp add: Disconnect_def getH_def M_defs Handler_init_def Handler.make_def)
  from interface_result [of "\<lambda>_. Disconnect sample_env", OF this] show ?thesis
    by (simp add: JsDebugProtocolHandlerDisconnect_def)
qed



section \<open>Breakpoints\<close>

text \<open>
  C19: The identifier of a breakpoint is a key: two breakpoints have the same one exactly when they have the same kind of query,
  the same query, line and column. The separators cannot be confused with a query that contains colons.
\<close>

theorem breakpoint_key:
  "GenerateKey a = GenerateKey b \<longleftrightarrow>
     (m_queryType a, m_query a, bp_lineNumber a, bp_columnNumber a) =
     (m_queryType b, m_query b, bp_lineNumber b, bp_columnNumber b)"
  by (simp add: GenerateKey_iff)



text \<open>
  C21: Removing the breakpoint that was just set brings the agent's breakpoints back to what they were.
\<close>

theorem remove_undoes_set:
  assumes "agent_is this a h"
    and "DebuggerImpl_setBreakpointByUrl E this line url urlRegex column condition (w, h) =
      (Inr (response, breakpointId, locations), (w1, h1))" and "m_status response = kSuccess"
    and "DebuggerImpl_removeBreakpoint E this breakpointId (w1, h1) = (Inr removed, (w2, h2))"
  shows "m_status removed = kSuccess \<and> h2 = h"
proof -
  obtain bp where bp: "map_of (m_breakpointMap a) breakpointId = None" "GenerateKey bp = breakpointId"
    "h1 = h\<lparr>m_debuggerAgent := Some (with_breakpoint a bp)\<rparr>"
    using setBreakpointByUrl_result [OF assms(1,2)] assms(3) by (auto simp: sets_breakpoint_def)
  then have here: "agent_is this (with_breakpoint a bp) h1"
    using assms(1) by (simp add: agent_is_def with_breakpoint_def)
  have "AList.delete breakpointId (m_breakpointMap a @ [(breakpointId, bp)]) = m_breakpointMap a"
    using bp(1) by (auto simp: AList.delete_eq map_of_eq_None_iff intro!: filter_True) force
  then show ?thesis
    using removeBreakpoint_result [OF here assms(4)] bp assms(1)
    by (auto simp: with_breakpoint_def agent_is_def map_add_def)
qed

lemma remove_undoes_set_witness:
  "\<exists>id h1. DebuggerImpl_setBreakpointByUrl sample_env 2 3 (Some (lit ''a.js'')) None None None (0, sample_connected) =
     (Inr (Response_OK, id, Some []), (0, h1)) \<and> h1 \<noteq> sample_connected \<and>
   DebuggerImpl_removeBreakpoint sample_env 2 id (0, h1) = (Inr Response_OK, (0, sample_connected))"
proof -
  have here: "agent_is 2 (DebuggerImpl.make 2 False False [] []) sample_connected"
    by (simp add: agent_is_def sample_connected_eq DebuggerImpl.make_def)
  obtain id bp h1 where set:
    "DebuggerImpl_setBreakpointByUrl sample_env 2 3 (Some (lit ''a.js'')) None None None (0, sample_connected) =
      (Inr (Response_OK, id, Some []), (0, h1))"
    "h1 = sample_connected\<lparr>m_debuggerAgent := Some (DebuggerImpl.make 2 False False [] [(id, bp)])\<rparr>"
    by (simp add: DebuggerImpl_setBreakpointByUrl_def Let_def bindM_def getDI_here [OF here] modDI_here [OF here]
        DebuggerImpl.make_def getH_def getM_def retM_def catch_js_error_def seqM_def emplace_def)
  have here1: "agent_is 2 (DebuggerImpl.make 2 False False [] [(id, bp)]) h1"
    by (simp add: agent_is_def set(2) DebuggerImpl.make_def)
  obtain h2 where remove: "DebuggerImpl_removeBreakpoint sample_env 2 id (0, h1) = (Inr Response_OK, (0, h2))"
    by (simp add: DebuggerImpl_removeBreakpoint_def bindM_def getDI_here [OF here1] modDI_here [OF here1]
        RemoveBreakpoint_def DebuggerImpl.make_def seqM_def retM_def)
  have "m_debuggerAgent h1 \<noteq> m_debuggerAgent sample_connected"
    using here by (simp add: set(2) agent_is_def DebuggerImpl.make_def)
  with set(1) remove remove_undoes_set [OF here set(1) _ remove] show ?thesis by auto
qed

section \<open>Object identifiers and protocol types\<close>

text \<open>
  C22: The identifier the frontend gets for an engine handle is read back as that handle, whatever the handle; it cannot be
  mistaken for the identifier of a call frame.
\<close>

theorem object_id_roundtrip:
  "\<exists>d. ParseObjectId (GetObjectId handle) s = (Inr d, s) \<and> getInteger d (lit ''handle'') = Some handle \<and>
     getInteger d (lit ''ordinal'') = None"
proof -
  have "ParseObjectId (GetObjectId handle) s = (Inr (handle_object ''handle'' handle), s)"
    unfolding GetObjectId_json using handle_object_facts [of "''handle''" handle]
    by (subst ParseObjectId_json) (simp_all add: wf_val_Dict stackLimit_def retM_def)
  moreover have "getInteger (handle_object ''handle'' handle) (lit ''ordinal'') = None"
    by (simp add: handle_object_def getInteger_def set_defs)
  ultimately show ?thesis using handle_object_facts(4) [of "''handle''" handle] by blast
qed

text \<open>
  The identifier of a frame's property (its arguments, locals, return value or a scope) is read back as the frame's ordinal and
  the property's name.
\<close>

theorem frame_property_id_roundtrip:
  assumes "list_all plain_char propName"
  shows "\<exists>d. ParseObjectId (GetObjectIdForFrameProp f propName) s = (Inr d, s) \<and>
    getInteger d (lit ''ordinal'') = Some (m_callFrameIndex f) \<and> getString d (lit ''name'') = Some (lit propName) \<and>
    getInteger d (lit ''handle'') = None"
proof -
  have "ParseObjectId (GetObjectIdForFrameProp f propName) s = (Inr (frame_object f propName), s)"
    unfolding GetObjectIdForFrameProp_json [OF assms] using frame_object_facts [of f propName]
    by (subst ParseObjectId_json) (simp_all add: wf_val_Dict stackLimit_def retM_def)
  then show ?thesis using frame_object_facts(4-6) [of f propName] by blast
qed

lemma frame_property_id_roundtrip_witness:
  "\<forall>f. \<exists>d. ParseObjectId (GetObjectIdForFrameProp f ''locals'') () = (Inr d, ()) \<and>
     getString d (lit ''name'') = Some (lit ''locals'')"
  using frame_property_id_roundtrip [of "''locals''" _ "()"] by (fastforce simp: plain_char_def)

text \<open>
  C23: A pause notification with all its call frames, scopes and objects is read back from its JSON value without an error.
\<close>

theorem paused_roundtrip:
  assumes "wf_PausedNotification n"
  shows "run_state (PausedNotification_fromValue (Some (PausedNotification_toValue n))) no_errors = (Some n, no_errors)"
  using assms by (rule paused_notification.fromValue_toValue) (simp add: no_errors_def)

lemma paused_roundtrip_witness:
  "run_state (PausedNotification_fromValue (Some (PausedNotification_toValue
     (PausedNotification.make [] (lit ''other'') None (Some [lit ''1'']) None)))) no_errors =
   (Some (PausedNotification.make [] (lit ''other'') None (Some [lit ''1'']) None), no_errors)"
  by (rule paused_roundtrip) (simp add: wf_PausedNotification_def PausedNotification.make_def)

text \<open>
  C24: Every message over well-formed parameters has a text, and an error's text is read back as the object the protocol
  prescribes: the code, the message and the data of the error, and the identifier of the request it answers.
\<close>

theorem error_message_text:
  "\<exists>t. serialize_message (ProtocolError code msg dat callId) = Some t \<and>
     (\<exists>d e. parseJSON t = Some (Dict d) \<and> dict_get d (lit ''error'') = Some (Dict e) \<and>
       dict_get e (lit ''code'') = Some (IntegerValue (ErrorCode_value code)) \<and>
       dict_get e (lit ''message'') = Some (StringValue msg) \<and>
       dict_get e (lit ''data'') = (if dat = [] then None else Some (StringValue dat)) \<and>
       dict_get d (lit ''id'') = map_option IntegerValue callId)"
proof -
  define e where "e = (let e = setString (lit ''message'') msg (setInteger (lit ''code'') (ErrorCode_value code) dict_create)
    in if length dat \<noteq> 0 then setString (lit ''data'') dat e else e)"
  define m where "m = setObject (lit ''error'') e dict_create"
  define d where "d = (case callId of Some i \<Rightarrow> setInteger (lit ''id'') i m | None \<Rightarrow> m)"
  have wf: "wf_val (Dict d)"
    by (simp add: d_def m_def e_def set_defs wf_intros Let_def split: option.split)
  have e: "plain_val (Dict e)" "nesting (Dict e) = 1"
    by (simp_all add: e_def set_defs Let_def Dict_def dict_set_def dict_create_def)
  then have "plain_val (Dict d)" and "nesting (Dict d) \<le> stackLimit"
    by (simp_all add: d_def m_def set_defs Let_def dict_set_def dict_create_def stackLimit_def split: option.split)
      (simp_all add: Dict_def)
  with wf have "parseJSON (json_text (Dict d)) = Some (Dict d)" by (intro parse_json_text)
  moreover have "serialize_message (ProtocolError code msg dat callId) = serialize (Dict d)"
    unfolding d_def m_def e_def by (simp only: serialize_message.simps Let_def)
  then have "serialize_message (ProtocolError code msg dat callId) = Some (json_text (Dict d))"
    by (simp only: serialize_wf [OF wf])
  moreover have "dict_get d (lit ''error'') = Some (Dict e)" and "dict_get d (lit ''id'') = map_option IntegerValue callId"
    by (simp_all add: d_def m_def set_defs split: option.split)
  moreover have "dict_get e (lit ''code'') = Some (IntegerValue (ErrorCode_value code))"
    and "dict_get e (lit ''message'') = Some (StringValue msg)"
    and "dict_get e (lit ''data'') = (if dat = [] then None else Some (StringValue dat))"
    by (simp_all add: e_def Let_def set_defs)
  ultimately show ?thesis by blast
qed

section \<open>JSON\<close>



text \<open>
  C26: Every value the parser returns is well formed: each object's order list holds exactly its keys, once each.
\<close>

theorem parseJSON_wf: "parseJSON json = Some v \<Longrightarrow> wf_val v"
  by (rule wf.parsed)

lemma parseJSON_wf_witness: "parseJSON [91, 93] = Some (ListValue []) \<and> wf_val (ListValue [])"
proof -
  have "parseJSON (json_text (ListValue [])) = Some (ListValue [])"
    by (rule parse_json_text) simp_all
  then have "parseJSON [91, 93] = Some (ListValue [])" by simp
  with parseJSON_wf [OF this] show ?thesis by simp
qed

text \<open>
  C27: The parser never builds a value nested deeper than its stack limit; with C28 the limit is exact.
\<close>

theorem parseJSON_depth: "parseJSON json = Some v \<Longrightarrow> nesting v \<le> stackLimit"
  using limit.parsed by fastforce

lemma parseJSON_depth_witness: "parseJSON (json_text (ListValue [])) = Some (ListValue []) \<and> nesting (ListValue []) \<le> stackLimit"
proof -
  have "parseJSON (json_text (ListValue [])) = Some (ListValue [])" by (rule parse_json_text) simp_all
  with parseJSON_depth [OF this] show ?thesis by simp
qed

text \<open>
  Cloning a well-formed value gives the same value.
\<close>

theorem clone_same: "wf_val v \<Longrightarrow> clone v = Some v"
  by (rule clone_id)

lemma clone_same_witness:
  "clone (Dict (setInteger (lit ''a'') 1 dict_create)) = Some (Dict (setInteger (lit ''a'') 1 dict_create))"
  by (rule clone_same) (simp add: set_defs wf_intros)

text \<open>
  An object keeps its keys in the order they were first stored: storing a value under a key that is there replaces the
  value in place, a new key goes to the end, a removed key disappears; other keys are untouched and the object stays well formed.
\<close>

theorem dictionary_order:
  assumes "dict_wf d"
  shows "dict_wf (dict_set k v d) \<and> dict_wf (dict_remove k d) \<and>
    snd (dict_set k v d) = (if dict_get d k = None then snd d @ [k] else snd d) \<and>
    snd (dict_remove k d) = filter (\<lambda>x. x \<noteq> k) (snd d) \<and>
    dict_get (dict_set k v d) = (dict_get d)(k \<mapsto> v) \<and>
    dict_get (dict_remove k d) = (dict_get d)(k := None)"
  using assms dict.keys_get [OF assms, of k]
  by (auto simp: dict.invar_setv dict.invar_remove dict.keys_setv dict.keys_remove dict.get_setv dict.get_remove
      fun_eq_iff)

lemma dictionary_order_witness:
  "snd (dict_set [1] True (dict_set [2] False (dict_set [1] False dict_create))) = [[1], [2]]"
proof -
  have "dict_wf (dict_set [2] False (dict_set [1] False dict_create))"
    by (intro dict.invar_setv dict.invar_create)
  from dictionary_order [OF this, of "[1]" True] show ?thesis
    by (simp add: dict.get_setv) (simp add: dict_set_def dict_create_def dict_get_def)
qed

text \<open>
  C28: The parser accepts any character in place of the last one of \<open>null\<close> (and of the other constants): the comparison loop
  has stepped past the token when it stops at the mismatch.
\<close>

theorem null_last_character: "parseJSON (lit ''nul'' @ [c]) = Some NullValue"
proof -
  have "skipWhitespaceAndComments (lit ''nul'' @ [c]) = lit ''nul'' @ [c]"
    by (rule skip_id) (simp_all add: lit_Cons uc_widen ascii_def isSpaceOrNewLine_def)
  then have token: "parseToken (lit ''nul'' @ [c]) = (NullToken, lit ''nul'' @ [c], [])"
    by (simp add: parseToken_def Let_def lit_Cons uc_widen ascii_def found_def)
  have "buildValue 0 (lit ''nul'' @ [c]) = Some (NullValue, [])"
    unfolding buildValue.simps [of 0 "lit ''nul'' @ [c]"] token by (simp add: stackLimit_def)
  then show ?thesis by (simp add: parseJSON_def parseJSONInternal_def)
qed


section \<open>Strings and error codes\<close>

text \<open>
  An integer written as text is read back as itself, for every 32-bit value.
\<close>

theorem integer_text_roundtrip: "toInteger (fromInteger n) = Inr n"
  by (rule toInteger_fromInteger_aux)

text \<open>
  Searching a string finds the first occurrence, or there is none at any position.
\<close>

theorem find_first:
  "case find_string s str of
     Some i \<Rightarrow> i \<le> length s \<and> begins_with str (drop i s) \<and> (\<forall>j. j < i \<longrightarrow> \<not> begins_with str (drop j s))
   | None \<Rightarrow> (\<forall>i. i \<le> length s \<longrightarrow> \<not> begins_with str (drop i s))"
  using find_string_Some find_string_None by (fastforce split: option.split)

lemma find_first_witness:
  "find_string (lit ''a.b.c'') (lit ''.'') = Some 1 \<and> \<not> begins_with (lit ''.'') (lit ''a.b.c'')"
proof -
  have "find_string (lit ''a.b.c'') (lit ''.'') = Some 1" by (simp add: lit_Cons begins_with_def)
  with find_first [of "lit ''a.b.c''" "lit ''.''"] show ?thesis by auto
qed



section \<open>References on engine values\<close>

text \<open>
  C34: Whatever sequence of constructions, copies, moves, assignments (also of an object to itself) and destructions a program
  performs on its persistent references, and whichever of them fail in the engine, the engine counts for every value at
  least one reference per living object that holds it, so that none is released too often; if the engine can release what it
  counts, it counts exactly those, so that none leaks.
\<close>

theorem references_balanced:
  assumes "counting J refs" and "run_ops J ops (w, Map.empty) = (w', m)" and "v \<noteq> JS_INVALID_REFERENCE"
  shows "refs w v + held m v \<le> refs w' v \<and> (releasing J refs \<longrightarrow> refs w' v = refs w v + held m v)"
proof -
  have "covered refs False (refs w) (w', m)"
    using run_ops_covered [where exact = False and ops = ops, OF assms(1) _ covered_start] assms(2)
    by (metis (full_types))
  moreover have "covered refs True (refs w) (w', m)" if "releasing J refs"
    using run_ops_covered [where exact = True and ops = ops, OF assms(1) that covered_start] assms(2)
    by (metis (full_types))
  ultimately show ?thesis using assms(3) by (auto simp: covered_def)
qed

text \<open>An engine whose state is the number of references on the value 7, the only one it knows.\<close>

definition counting_engine :: "nat JSRT" where
  "counting_engine = sample_engine\<lparr>
     JsAddRef := \<lambda>v w. if v = 7 then ((JsNoError, ()), Suc w) else ((JsErrorInvalidArgument, ()), w),
     JsRelease := \<lambda>v w. if v = 7 \<and> 0 < w then ((JsNoError, ()), w - 1) else ((JsErrorInvalidArgument, ()), w),
     JsSetCurrentContext := \<lambda>_. succeed ()\<rparr>"

lemma counting_engine_calls [simp]:
  "codes counting_engine = sample_codes"
  "JsAddRef counting_engine v w = (if v = 7 then ((JsNoError, ()), Suc w) else ((JsErrorInvalidArgument, ()), w))"
  "JsRelease counting_engine v w = (if v = 7 \<and> 0 < w then ((JsNoError, ()), w - 1) else ((JsErrorInvalidArgument, ()), w))"
  "JsSetCurrentContext counting_engine c w = ((JsNoError, ()), w)"
  "JsGetContextOfObject counting_engine v w = ((JsNoError, 1), w)"
  by (simp_all add: counting_engine_def sample_engine_def)

lemma references_balanced_witness:
  "held [0 \<mapsto> JsPersistent_default, 1 \<mapsto> JsPersistent.make 7] 7 = 1"
proof -
  let ?ops = "[ConstructValue 0 7, ConstructValue 1 8, ConstructCopy 1 0, ConstructMove 2 0, AssignCopy 1 1, Destroy 2]"
  let ?refs = "\<lambda>w v :: JsValueRef. if v = 7 then w else 0 :: nat"
  have run: "run_ops counting_engine ?ops (0, Map.empty) = (1, [0 \<mapsto> JsPersistent_default, 1 \<mapsto> JsPersistent.make 7])"
    by (simp add: construct_def object_at_def put_def JsPersistent_copy_eq JsPersistent_assign_eq
        JsPersistent_assign_value_def JsPersistent_value_def JsPersistent_delete_def release_def swallow_def
        JsPersistent_move_def swap_values_def JsPersistent_default_def JsPersistent.make_def std_swap_eq js_def jsrt_def
        IfJsErrorThrow_def JS_INVALID_REFERENCE_def M_defs fun_eq_iff)
  have "counting counting_engine ?refs" by (auto simp: counting_def fun_eq_iff)
  moreover have "releasing counting_engine ?refs" by (auto simp: releasing_def)
  ultimately show ?thesis
    using references_balanced [OF _ run, of ?refs 7] by (simp add: JS_INVALID_REFERENCE_def)
qed

section \<open>The web server\<close>

text \<open>
  C31: Whatever the host, the clients, the network and the scripts' threads do, in whatever order, and however calls of the server
  library fail: the registered ids are unique and ordered, every service handler that counts as connected has a client and
  is the one its protocol handler answers to, and every protocol handler keeps its own invariant.
\<close>

theorem service_invariant:
  assumes "service_reachable E W s"
  shows "service_ok E s \<and> distinct (map fst (m_handlers (web_service s))) \<and>
    (\<forall>p g. protocol_handlers s p = Some g \<longrightarrow> handler_ok g)"
proof -
  have ok: "service_ok E s" by (rule service_reachable_ok [OF assms])
  moreover have "handler_ok g" if "protocol_handlers s p = Some g" for p g
    by (rule reachable_ok [of "E p"]) (use ok that in \<open>simp add: service_ok_def\<close>)
  ultimately show ?thesis
    using strings_sorted_distinct by (auto simp: service_ok_def entries_ok_def)
qed

lemma service_invariant_witness: "service_ok (\<lambda>_. sample_env) sample_registered"
  using service_invariant [OF sample_registered_reachable] by simp



text \<open>
  C33: The list of handlers the server sends is JSON: as long as the ids need no escapes, it is read as an array with one object
  per registered handler, in order, with the handler's id and the address of its socket at the server's port.
\<close>

theorem list_is_json:
  assumes "service_reachable E W s" and "\<forall>e \<in> set (m_handlers (web_service s)). list_all plain_char (fst e)"
  shows "\<exists>ds. parseJSON (lit (list_json (web_service s))) = Some (ListValue (map Dict ds)) \<and>
    map (\<lambda>d. getString d (lit ''id'')) ds = map (\<lambda>e. Some (lit (fst e))) (m_handlers (web_service s)) \<and>
    map (\<lambda>d. getString d (lit ''webSocketDebuggerUrl'')) ds =
      map (\<lambda>e. Some (lit (''ws://localhost:'' @ dec_nat (unat (m_port (web_service s))) @ ''/'' @ fst e)))
        (m_handlers (web_service s))"
proof -
  let ?hs = "m_handlers (web_service s)" and ?port = "m_port (web_service s)"
  have ids: "\<forall>e \<in> set ?hs. sh_id (snd e) = fst e"
    using service_reachable_ok [OF assms(1)] by (auto simp: service_ok_def entries_ok_def)
  define fields where "fields = (\<lambda>ident. SOME d. handler_value ?port ident = Dict d)"
  have dict: "handler_value ?port ident = Dict (fields ident)" for ident
    unfolding fields_def by (rule someI_ex) (metis handler_value_fields)
  have get: "getString (fields ident) (lit ''id'') = Some (lit ident)"
    "getString (fields ident) (lit ''webSocketDebuggerUrl'') =
      Some (lit (''ws://localhost:'' @ dec_nat (unat ?port) @ ''/'' @ ident))" for ident
    using handler_value_fields [of ?port ident] dict [of ident] by (metis Dict_inject)+
  have "parseJSON (lit (list_json (web_service s))) = Some (ListValue (map Dict (map (\<lambda>e. fields (fst e)) ?hs)))"
    using list_json_value [of "web_service s"] assms(2) ids dict by (simp cong: map_cong)
  then show ?thesis using get by (intro exI [of _ "map (\<lambda>e. fields (fst e)) ?hs"]) (simp add: comp_def)
qed

lemma list_is_json_witness:
  "\<exists>d. parseJSON (lit (list_json (web_service sample_registered))) = Some (ListValue [Dict d]) \<and>
     getString d (lit ''id'') = Some (lit ''a'')"
proof -
  have "\<forall>e \<in> set (m_handlers (web_service sample_registered)). list_all plain_char (fst e)"
    by (simp add: sample_registered_def plain_char_def)
  from list_is_json [OF sample_registered_reachable this] show ?thesis
    by (auto simp: sample_registered_def)
qed

section \<open>The command line of the sample host\<close>

text \<open>
  C35: A command line is accepted only with a port a socket can have, which the host's narrowing to 16 bits keeps, and with a
  script, which is the first argument that is no flag and is followed by its own arguments as they stand; breaking
  before the first line implies debugging. A command line fails with no other exception than those of the number.
\<close>

theorem command_line:
  assumes "ParseCommandLine argv CommandLineArguments_new = r"
  shows "case r of
      Inl f \<Rightarrow> f = Throw InvalidArgument \<or> f = Throw OutOfRange
    | Inr a \<Rightarrow> show_help a \<or>
        (0 < sint (port a) \<and> uint (ucast (port a) :: 16 word) = sint (port a) \<and> scriptArgs a \<noteq> [] \<and>
         suffix (scriptArgs a) argv \<and> \<not> host_argument (hd (scriptArgs a)) \<and>
         (breakOnNextLine a \<longrightarrow> enableDebugging a))"
proof (cases r)
  case (Inl f)
  then show ?thesis
    using assms by (auto simp: ParseCommandLine_def dest: parse_arguments_fault split: sum.split_asm)
next
  case (Inr a)
  then show ?thesis
    using assms ParseCommandLine_result [of argv CommandLineArguments_new a]
      parse_arguments_result [of argv CommandLineArguments_new a] port_narrows [of "port a"]
    by auto
qed

lemma command_line_witness:
  "\<exists>a. ParseCommandLine [lit ''--inspect-brk'', lit ''-p'', lit ''80'', lit ''a.js'', lit ''-x''] CommandLineArguments_new = Inr a \<and>
     scriptArgs a = [lit ''a.js'', lit ''-x''] \<and> enableDebugging a"
proof -
  let ?argv = "[lit ''--inspect-brk'', lit ''-p'', lit ''80'', lit ''a.js'', lit ''-x'']"
  obtain a where run: "ParseCommandLine ?argv CommandLineArguments_new = Inr a"
    and a: "scriptArgs a = [lit ''a.js'', lit ''-x'']" "breakOnNextLine a" "\<not> show_help a"
    by (simp add: ParseCommandLine_def CommandLineArguments_new_def CommandLineArguments.make_def stoi_def
        wide_space_def wide_digit_def wide_digits_value_def lit_Cons widen_def)
  with command_line [OF run] show ?thesis by simp
qed

section \<open>The sample host\<close>



text \<open>
  C37: A script that fails (not with a script exception, which makes the host return its failure code) leaves the exit code
  at the value of the script before it: a host whose last script cannot be loaded reports what the earlier one returned.
\<close>

theorem failed_script_exit_code:
  assumes "run_scripts A useBuffer finished l = (Inr (), l1)"
    and "RunScript A useBuffer (c_wstr bad) (shared l1) = (r, s)"
    and "\<And>v. r \<noteq> Inr (JsNoError, v)" and "\<And>v. r \<noteq> Inr (JsErrorScriptException, v)"
  shows "\<exists>e l2. run_scripts A useBuffer (finished @ bad # rest) l = (Inl e, l2) \<and>
    (e = Leave None \<or> (\<exists>f. r = Inl f \<and> e = Fail f)) \<and> returnValue l2 = returnValue l1"
  by (rule failed_script [OF assms])

lemma failed_script_exit_code_witness:
  "\<exists>e l2. run_scripts sample_host False ([sample_script] @ lit ''b.js'' # []) (Locals.make sample_start None None EXIT_FAILURE) =
     (Inl e, l2) \<and> returnValue l2 = 0"
proof -
  let ?l = "Locals.make sample_start None None EXIT_FAILURE"
  obtain l1 where l1: "run_scripts sample_host False [sample_script] ?l = (Inr (), l1)" "returnValue l1 = 0"
    using sample_run_scripts [of ?l] by auto
  obtain r s where r: "RunScript sample_host False (c_wstr (lit ''b.js'')) (shared l1) = (r, s)" by (metis surj_pair)
  have "\<exists>f. r = Inl f" using sample_missing [of "shared l1"] r by auto
  with failed_script_exit_code [OF l1(1) r, of "[]"] l1(2) show ?thesis by auto
qed

text \<open>
  C38: A file that cannot be opened or is empty is an invalid argument when scripts are loaded into a buffer; without the
  buffer the conversion of the empty text fails first, so that the test for an empty script is never reached and an
  exception leaves the function, also into a script that called \<open>host.runScript\<close>.
\<close>

theorem missing_script:
  assumes "GetFullPathName A filename = (n, path)" and "n \<noteq> 0" and "n \<le> MAX_PATH"
    and "file_contents A path = None \<or> file_contents A path = Some []" and "MultiByteToWideChar A [] 0 0 = []"
  shows "fst (RunScript A True filename s) = Inr (JsErrorInvalidArgument, JS_INVALID_REFERENCE) \<and>
    fst (RunScript A False filename s) =
      Inl (Throw (OtherException ''chakrahost: unable to convert string from UTF-8 to UTF-16.''))"
  using RunScript_nothing [OF assms] by simp

lemma missing_script_witness:
  "fst (RunScript sample_host True (lit ''b.js'') sample_start) = Inr (JsErrorInvalidArgument, JS_INVALID_REFERENCE)"
  by (rule missing_script [where path = "lit ''b.js''" and n = 4, THEN conjunct1])
    (simp_all add: MAX_PATH_def sample_script_def lit_Cons widen_def)

text \<open>
  \<open>host.echo\<close> prints the texts of its arguments with blanks between them and a line break behind, each text up to its
  first zero character, as long as every argument has a text.
\<close>

theorem echo_line:
  assumes "\<And>v. v \<in> set args \<Longrightarrow> has_text A words v"
  shows "\<exists>s'. HostEcho A (this # args) s = (Inr JS_INVALID_REFERENCE, s') \<and>
    stdout_text (host_output s') = stdout_text (host_output s) @ join (lit '' '') (map (c_wstr \<circ> words) args) @ [0x0A]"
  using assms by (rule echo_text)

lemma echo_line_witness:
  "\<exists>s'. HostEcho sample_host [4, 2, 0, 1] sample_start = (Inr JS_INVALID_REFERENCE, s') \<and>
     stdout_text (host_output s') = lit ''xx  x'' @ [0x0A]"
proof -
  have "has_text sample_host (\<lambda>v. replicate v (uc (CHR ''x''))) v" for v by (simp add: has_text_def)
  moreover have "c_wstr [0x78, 0x78] = [0x78, 0x78]" "c_wstr [0x78] = [0x78]" "c_wstr [] = []"
    by (simp_all add: c_wstr_def)
  moreover have "replicate (2 :: nat) (0x78 :: uchar) = [0x78, 0x78]" by (simp add: numeral_2_eq_2)
  ultimately show ?thesis
    using echo_line [where A = sample_host and words = "\<lambda>v. replicate v (uc (CHR ''x''))" and args = "[2, 0, 1]" and this = 4
      and s = sample_start]
    by (simp add: sample_start_def lit_Cons widen_def)
qed

section \<open>Building and copying protocol objects\<close>

text \<open>
  C39: A chain of setters on the builder of a call frame compiles up to its \<open>build\<close> exactly when it sets every required property
  once, whatever optional properties it sets between them; the object is what the setters have put into a new one, and none of
  its required pointers is null unless the chain was given a null pointer.
\<close>

theorem call_frame_built:
  assumes "set calls \<subseteq> CallFrameBuilder_setters"
  shows "case Option.bind (call_setters calls CallFrame_create) CallFrameBuilder_build of
      None \<Rightarrow> \<not> (distinct (flags_of calls) \<and> set (flags_of calls) = {1, 2, 3, 4, 5})
    | Some r \<Rightarrow> distinct (flags_of calls) \<and> set (flags_of calls) = {1, 2, 3, 4, 5} \<and>
        r = fold setter_put calls CallFrame_new \<and> (CallFrame_complete r = None \<longleftrightarrow> null_given calls)"
  using call_frame_builder.built_result [OF assms, of CallFrame_new] call_frame_complete [OF assms, of CallFrame_new]
  by (auto simp: built_def CallFrame_create_def CallFrameBuilder_build_def)

lemma call_frame_built_witness:
  "\<exists>r. Option.bind (call_setters
      [CallFrameBuilder_setThis None, CallFrameBuilder_setCallFrameId [], CallFrameBuilder_setScopeChain (Some []),
       CallFrameBuilder_setReturnValue None, CallFrameBuilder_setFunctionName [], CallFrameBuilder_setLocation None]
      CallFrame_create) CallFrameBuilder_build = Some r \<and> CallFrame_complete r = None"
proof -
  let ?calls = "[CallFrameBuilder_setThis None, CallFrameBuilder_setCallFrameId [],
    CallFrameBuilder_setScopeChain (Some []), CallFrameBuilder_setReturnValue None,
    CallFrameBuilder_setFunctionName [], CallFrameBuilder_setLocation None]"
  have calls: "set ?calls \<subseteq> CallFrameBuilder_setters" by (auto simp: CallFrameBuilder_setters_def)
  have "distinct (flags_of ?calls) \<and> set (flags_of ?calls) = {1, 2, 3, 4, 5}"
    by (auto simp: CallFrameBuilder_defs map_filter_simps)
  moreover have "null_given ?calls" by (simp add: null_given_def)
  ultimately show ?thesis using call_frame_built [OF calls] by (auto split: option.splits)
qed



end
